(* ===== verification/Prelude.thy ===== *)
theory Prelude
  imports Complex_Main "HOL-Library.Word" "HOL-Library.Code_Target_Numeral"
begin

text \<open>
  Shared vocabulary of the development.

  \<^item> Machine integers. A Rust \<open>u64\<close> is a \<open>64 word\<close> and a byte is an \<open>8 word\<close>;
    \<open>checked_add64\<close> and \<open>checked_shl64\<close> are the standard library's checked operations
    (the shift checks the shift amount only and drops the bits shifted out).
    A \<open>usize\<close> is a natural number, bounded by \<open>usize_max\<close> wherever the code checks
    it (the target is a 64-bit platform).
    Narrow unsigned fields (\<open>u8\<close>, \<open>u16\<close>, \<open>u32\<close>) are natural numbers that come out of a
    \<open>try_from\<close> check, so their bound is a branch of the model.
  \<^item> Bits. \<open>bits_value\<close> reads a list of bits most significant first; \<open>bits_of n v\<close> is the
    \<open>n\<close>-bit field that holds \<open>v\<close>.
  \<^item> The fallible, stateful computations of the parsers: \<open>('s, 'e, 'a) rd\<close> is a function
    from the state to a \<open>Result\<close> and the state afterwards, because \<open>&mut\<close> keeps the
    state when the call fails.
\<close>

unbundle bit_operations_syntax

named_theorems rd_simps \<open>equations of the reader combinators\<close>
named_theorems reads_intros \<open>rules that compose facts of the form \<open>reads p bs a\<close>\<close>

type_synonym u8 = "8 word"
type_synonym u64 = "64 word"
type_synonym usize = nat

section \<open>Checked machine arithmetic\<close>

definition usize_max :: nat where
  "usize_max = 2 ^ 64 - 1"

definition checked_usize :: "nat \<Rightarrow> usize option" where
  "checked_usize n = (if n \<le> usize_max then Some n else None)"

definition checked_add64 :: "u64 \<Rightarrow> u64 \<Rightarrow> u64 option" where
  "checked_add64 a b = (if unat a + unat b < 2 ^ 64 then Some (a + b) else None)"

definition checked_shl64 :: "u64 \<Rightarrow> nat \<Rightarrow> u64 option" where
  "checked_shl64 a n = (if n < 64 then Some (push_bit n a) else None)"

lemma usize_max_code [code]: "usize_max = 18446744073709551615"
  by (simp add: usize_max_def)

lemma checked_usize_Some [simp]: "n \<le> usize_max \<Longrightarrow> checked_usize n = Some n"
  by (simp add: checked_usize_def)

lemma checked_add64_Some:
  "checked_add64 a b = Some c \<longleftrightarrow> unat a + unat b < 2 ^ 64 \<and> c = a + b"
  by (auto simp: checked_add64_def)

lemma checked_add64_unat:
  "checked_add64 a b = Some c \<Longrightarrow> unat c = unat a + unat b"
  by (simp add: checked_add64_Some unat_word_ariths)

lemma unat_of_nat64: "n < 2 ^ 64 \<Longrightarrow> unat (word_of_nat n :: u64) = n"
  by (simp add: unat_of_nat take_bit_nat_eq_self)

lemma unat_u8_less: "unat (b :: u8) < 256"
  using unsigned_less [of b] by simp

lemma unat_u64_less: "unat (v :: u64) < 2 ^ 64"
  using unsigned_less [of v] by simp

section \<open>Bit strings, most significant bit first\<close>

fun bits_value :: "bool list \<Rightarrow> nat" where
  "bits_value [] = 0"
| "bits_value (b # bs) = (if b then 2 ^ length bs else 0) + bits_value bs"

fun bits_of :: "nat \<Rightarrow> nat \<Rightarrow> bool list" where
  "bits_of 0 v = []"
| "bits_of (Suc n) v = odd (v div 2 ^ n) # bits_of n v"

lemma length_bits_of [simp]: "length (bits_of n v) = n"
  by (induction n) auto

lemma bits_value_append:
  "bits_value (xs @ ys) = bits_value xs * 2 ^ length ys + bits_value ys"
  by (induction xs) (auto simp: algebra_simps power_add)

lemma bits_value_snoc [simp]:
  "bits_value (bs @ [b]) = 2 * bits_value bs + (if b then 1 else 0)"
  by (simp add: bits_value_append)

lemma bits_value_less: "bits_value bs < 2 ^ length bs"
  by (induction bs) auto

lemma bits_value_bits_of: "bits_value (bits_of n v) = v mod 2 ^ n"
proof (induction n)
  case (Suc n)
  have "v mod 2 ^ Suc n = 2 ^ n * (v div 2 ^ n mod 2) + v mod 2 ^ n"
    by (simp only: power_Suc2 mod_mult2_eq)
  with Suc show ?case by (simp add: odd_iff_mod_2_eq_one)
qed simp

lemma bits_of_bits_value_aux: "bits_of (length bs) (bits_value bs + k * 2 ^ length bs) = bs"
proof (induction bs arbitrary: k)
  case (Cons b bs)
  have lt: "bits_value bs < 2 ^ length bs" by (rule bits_value_less)
  have split: "bits_value (b # bs) + k * 2 ^ length (b # bs)
      = bits_value bs + (2 * k + (if b then 1 else 0)) * 2 ^ length bs"
    by (simp add: algebra_simps)
  have "(bits_value bs + (2 * k + (if b then 1 else 0)) * 2 ^ length bs) div 2 ^ length bs
      = 2 * k + (if b then 1 else 0)"
    using lt by simp
  with split Cons.IH show ?case by (simp only: length_Cons bits_of.simps) simp
qed simp

lemma bits_of_bits_value [simp]: "bits_of (length bs) (bits_value bs) = bs"
  using bits_of_bits_value_aux [of bs 0] by simp

section \<open>Stateful, fallible computations\<close>

type_synonym ('s, 'e, 'a) rd = "'s \<Rightarrow> ('e + 'a) \<times> 's"

definition ret :: "'a \<Rightarrow> ('s, 'e, 'a) rd" where
  "ret a s = (Inr a, s)"

definition fail :: "'e \<Rightarrow> ('s, 'e, 'a) rd" where
  "fail e s = (Inl e, s)"

definition bind_rd :: "('s, 'e, 'a) rd \<Rightarrow> ('a \<Rightarrow> ('s, 'e, 'b) rd) \<Rightarrow> ('s, 'e, 'b) rd" where
  "bind_rd m k s = (case m s of (Inl e, s') \<Rightarrow> (Inl e, s') | (Inr a, s') \<Rightarrow> k a s')"

text \<open>The question mark operator with a \<open>From\<close> conversion of the error.\<close>

definition map_err :: "('e \<Rightarrow> 'f) \<Rightarrow> ('s, 'e, 'a) rd \<Rightarrow> ('s, 'f, 'a) rd" where
  "map_err f m s = (case m s of (Inl e, s') \<Rightarrow> (Inl (f e), s') | (Inr a, s') \<Rightarrow> (Inr a, s'))"

definition guard_rd :: "bool \<Rightarrow> 'e \<Rightarrow> ('s, 'e, unit) rd" where
  "guard_rd c e = (if c then ret () else fail e)"

definition some_or :: "'a option \<Rightarrow> 'e \<Rightarrow> ('s, 'e, 'a) rd" where
  "some_or x e = (case x of Some a \<Rightarrow> ret a | None \<Rightarrow> fail e)"

text \<open>An optional field: \<open>if c { Some(m?) } else { None }\<close>.\<close>

definition when_rd :: "bool \<Rightarrow> ('s, 'e, 'a) rd \<Rightarrow> ('s, 'e, 'a option) rd" where
  "when_rd c m = (if c then bind_rd m (\<lambda>a. ret (Some a)) else ret None)"

text \<open>\<open>for _ in 0..n\<close>, collecting the results.\<close>

primrec repeat_rd :: "nat \<Rightarrow> ('s, 'e, 'a) rd \<Rightarrow> ('s, 'e, 'a list) rd" where
  "repeat_rd 0 m = ret []"
| "repeat_rd (Suc n) m = bind_rd m (\<lambda>a. bind_rd (repeat_rd n m) (\<lambda>as. ret (a # as)))"

text \<open>\<open>for x in xs\<close>, collecting the results.\<close>

primrec each_rd :: "('x \<Rightarrow> ('s, 'e, 'a) rd) \<Rightarrow> 'x list \<Rightarrow> ('s, 'e, 'a list) rd" where
  "each_rd f [] = ret []"
| "each_rd f (x # xs) = bind_rd (f x) (\<lambda>a. bind_rd (each_rd f xs) (\<lambda>as. ret (a # as)))"

lemma ret_eq [rd_simps]: "ret a s = (Inr a, s)"
  by (simp add: ret_def)

lemma fail_eq [rd_simps]: "fail e s = (Inl e, s)"
  by (simp add: fail_def)

lemma bind_ret [simp]: "bind_rd (ret a) k = k a"
  by (simp add: fun_eq_iff bind_rd_def ret_def)

lemma bind_fail [simp]: "bind_rd (fail e) k = fail e"
  by (simp add: fun_eq_iff bind_rd_def fail_def)

lemma bind_assoc: "bind_rd (bind_rd m k) l = bind_rd m (\<lambda>a. bind_rd (k a) l)"
  by (simp add: fun_eq_iff bind_rd_def split: prod.split sum.split)

lemma some_or_simps [simp]: "some_or (Some a) e = ret a" "some_or None e = fail e"
  by (simp_all add: some_or_def)

lemma guard_rd_simps [simp]: "guard_rd True e = ret ()" "guard_rd False e = fail e"
  by (simp_all add: guard_rd_def)

lemma when_rd_False [simp]: "when_rd False m = ret None"
  by (simp add: when_rd_def)

lemma bind_rd_Inr [rd_simps]: "m s = (Inr a, s') \<Longrightarrow> bind_rd m k s = k a s'"
  by (simp add: bind_rd_def)

lemma bind_rd_Inl [rd_simps]: "m s = (Inl e, s') \<Longrightarrow> bind_rd m k s = (Inl e, s')"
  by (simp add: bind_rd_def)

lemma bind_rd_InrE:
  assumes "bind_rd m k s = (Inr b, t)"
  obtains a s' where "m s = (Inr a, s')" and "k a s' = (Inr b, t)"
  using assms by (auto simp: bind_rd_def split: prod.splits sum.splits)

lemma map_err_Inr: "map_err f m s = (Inr a, t) \<longleftrightarrow> m s = (Inr a, t)"
  by (auto simp: map_err_def split: prod.splits sum.splits)

lemma some_or_Inr: "some_or x e s = (Inr a, t) \<longleftrightarrow> x = Some a \<and> t = s"
  by (auto simp: some_or_def ret_def fail_def split: option.splits)

lemma guard_rd_Inr: "guard_rd c e s = (Inr u, t) \<longleftrightarrow> c \<and> t = s"
  by (auto simp: guard_rd_def ret_def fail_def)

lemma ret_Inr: "ret a s = (Inr b, t) \<longleftrightarrow> b = a \<and> t = s"
  by (auto simp: ret_def)

lemma fail_Inr: "\<not> fail e s = (Inr b, t)"
  by (simp add: fail_def)

section \<open>Results\<close>

text \<open>The question mark operator on a plain \<open>Result\<close>, its error conversion and \<open>collect\<close>.\<close>

definition attempt :: "'e + 'a \<Rightarrow> ('a \<Rightarrow> 'e + 'b) \<Rightarrow> 'e + 'b" where
  "attempt x k = (case x of Inl e \<Rightarrow> Inl e | Inr a \<Rightarrow> k a)"

definition lift_err :: "('e \<Rightarrow> 'f) \<Rightarrow> 'e + 'a \<Rightarrow> 'f + 'a" where
  "lift_err f x = (case x of Inl e \<Rightarrow> Inl (f e) | Inr a \<Rightarrow> Inr a)"

fun attempt_map :: "('a \<Rightarrow> 'e + 'b) \<Rightarrow> 'a list \<Rightarrow> 'e + 'b list" where
  "attempt_map f [] = Inr []"
| "attempt_map f (x # xs) = attempt (f x) (\<lambda>y. attempt (attempt_map f xs) (\<lambda>ys. Inr (y # ys)))"

text \<open>A plain \<open>Result\<close> inside a stateful computation.\<close>

definition lift_rd :: "'e + 'a \<Rightarrow> ('s, 'e, 'a) rd" where
  "lift_rd x = (case x of Inl e \<Rightarrow> fail e | Inr a \<Rightarrow> ret a)"

lemma lift_rd_simps [simp]: "lift_rd (Inr a) = ret a" "lift_rd (Inl e) = fail e"
  by (simp_all add: lift_rd_def)

lemma lift_rd_Inr: "lift_rd x s = (Inr a, t) \<longleftrightarrow> x = Inr a \<and> t = s"
  by (cases x) (auto simp: rd_simps)

lemma attempt_simps [simp]: "attempt (Inr a) k = k a" "attempt (Inl e) k = Inl e"
  by (simp_all add: attempt_def)

lemma attempt_Inr: "attempt x k = Inr b \<longleftrightarrow> (\<exists>a. x = Inr a \<and> k a = Inr b)"
  by (cases x) auto

lemma lift_err_Inr: "lift_err f x = Inr a \<longleftrightarrow> x = Inr a"
  by (cases x) (auto simp: lift_err_def)

lemma attempt_map_Inr: "attempt_map f xs = Inr ys \<longleftrightarrow> list_all2 (\<lambda>x y. f x = Inr y) xs ys"
  by (induction xs arbitrary: ys) (auto simp: attempt_Inr list_all2_Cons1)

lemma list_all2_mem2: "list_all2 P xs ys \<Longrightarrow> y \<in> set ys \<Longrightarrow> \<exists>x \<in> set xs. P x y"
  by (induction rule: list_all2_induct) auto

lemma list_all2_mem1: "list_all2 P xs ys \<Longrightarrow> x \<in> set xs \<Longrightarrow> \<exists>y \<in> set ys. P x y"
  by (induction rule: list_all2_induct) auto

lemma attempt_map_ok: "(\<And>x. x \<in> set xs \<Longrightarrow> \<exists>y. f x = Inr y) \<Longrightarrow> \<exists>ys. attempt_map f xs = Inr ys"
proof (induction xs)
  case (Cons x xs)
  then obtain y ys where "f x = Inr y" "attempt_map f xs = Inr ys" by fastforce
  then show ?case by simp
qed simp

end
