(* ===== verification/Timeline.thy ===== *)
theory Timeline
  imports Prelude
begin

text \<open>
  The reconstruction output timeline, \<open>crates/openjoc-joc/src/timeline.rs\<close>: a bounded
  queue that pairs each base interval with the reconstruction samples that the QMF filterbank
  delivers \<open>QMF_ROUNDTRIP_LATENCY_SAMPLES\<close> later.  An \<open>f64\<close> sample is its 64-bit pattern:
  the code only moves samples and tests them with \<open>is_finite\<close>.  A \<open>u64\<close> position is a
  natural number, with the saturating and checked additions of the code written out.
\<close>

section \<open>Samples and positions\<close>

type_synonym f64_bits = u64

definition f64_is_finite :: "f64_bits \<Rightarrow> bool" where
  "f64_is_finite w \<longleftrightarrow> drop_bit 52 w AND 0x7FF \<noteq> 0x7FF"

definition u64_max :: nat where
  "u64_max = 2 ^ 64 - 1"

definition sat_add :: "nat \<Rightarrow> nat \<Rightarrow> nat" where
  "sat_add a b = min (a + b) u64_max"

definition QMF_ROUNDTRIP_LATENCY_SAMPLES :: nat where
  "QMF_ROUNDTRIP_LATENCY_SAMPLES = 577"

section \<open>State\<close>

record reconstruction_timeline_metadata =
  meta_sample_rate :: nat
  logical_start_sample :: nat
  logical_end_sample :: nat
  qmf_latency_samples :: nat
  meta_reset_epoch :: nat
  meta_topology_epoch :: nat
  pre_roll_valid :: bool
  tail_flush_valid :: bool

record aligned_reconstruction_output =
  out_frame_index :: nat
  timeline :: reconstruction_timeline_metadata
  out_base_full_band_pcm :: "f64_bits list list"
  out_reconstruction_basis :: "f64_bits list list"
  out_lfe_pcm :: "f64_bits list option"

datatype timeline_error =
  Finished
| InvalidSampleRange nat nat
| FrameIndexDiscontinuity nat nat
| SampleTimelineDiscontinuity nat nat
| SampleRateMismatch nat nat
| EmptyBaseCoordinates
| BaseFrameLengthMismatch nat nat nat
| ReconstructionFrameLengthMismatch nat nat nat
| LfeFrameLengthMismatch nat nat
| BaseTopologyChanged nat nat
| ReconstructionTopologyChanged nat nat
| NonFiniteBase nat nat
| NonFiniteReconstruction nat nat
| NonFiniteLfe nat
| TailLengthMismatch nat nat nat
| MissingTail nat

record pending_frame =
  pf_frame_index :: nat
  pf_sample_rate :: nat
  pf_start_sample :: nat
  pf_end_sample :: nat
  pf_base_full_band_pcm :: "f64_bits list list"
  pf_lfe_pcm :: "f64_bits list option"

record timeline_state =
  sample_rate :: "nat option"
  next_input_frame :: nat
  next_input_sample :: nat
  base_channel_count :: "nat option"
  reconstruction_row_count :: "nat option"
  reconstruction_start_sample :: "nat option"
  reconstruction_end_sample :: nat
  reconstruction_rows :: "f64_bits list list"
  pending_frames :: "pending_frame list"
  reset_epoch :: nat
  topology_epoch :: nat
  tail_start_sample :: "nat option"
  finished :: bool
  peak_buffered_samples :: nat

text \<open>The arguments of \<open>push_frame\<close>.\<close>

record frame_input =
  in_frame_index :: nat
  in_sample_rate :: nat
  in_start_sample :: nat
  in_end_sample :: nat
  in_base :: "f64_bits list list"
  in_basis :: "f64_bits list list"
  in_lfe :: "f64_bits list option"
  in_discontinuity :: bool

type_synonym 'a timeline_op = "(timeline_state, timeline_error, 'a) rd"

definition new_timeline :: timeline_state where
  "new_timeline =
     \<lparr>sample_rate = None, next_input_frame = 0, next_input_sample = 0, base_channel_count = None,
      reconstruction_row_count = None, reconstruction_start_sample = None,
      reconstruction_end_sample = 0, reconstruction_rows = [], pending_frames = [],
      reset_epoch = 0, topology_epoch = 0, tail_start_sample = None, finished = False,
      peak_buffered_samples = 0\<rparr>"

definition timeline_reset :: "timeline_state \<Rightarrow> timeline_state" where
  "timeline_reset s = s\<lparr>sample_rate := None, next_input_frame := 0, next_input_sample := 0,
     base_channel_count := None, reconstruction_row_count := None,
     reconstruction_start_sample := None, reconstruction_end_sample := 0,
     reconstruction_rows := [], pending_frames := [],
     reset_epoch := sat_add (reset_epoch s) 1, topology_epoch := sat_add (topology_epoch s) 1,
     tail_start_sample := None, finished := False, peak_buffered_samples := 0\<rparr>"

definition reset_for_discontinuity :: "nat \<Rightarrow> nat \<Rightarrow> timeline_state \<Rightarrow> timeline_state" where
  "reset_for_discontinuity frame_index start_sample s =
     s\<lparr>pending_frames := [], reconstruction_rows := [], base_channel_count := None,
       reconstruction_row_count := None, reconstruction_start_sample := Some start_sample,
       reconstruction_end_sample := start_sample, next_input_frame := frame_index,
       next_input_sample := start_sample, tail_start_sample := None,
       reset_epoch := sat_add (reset_epoch s) 1, topology_epoch := sat_add (topology_epoch s) 1\<rparr>"

definition persistent_state_bytes :: "timeline_state \<Rightarrow> nat" where
  "persistent_state_bytes s =
     (sum_list (map length (reconstruction_rows s))
      + sum_list (map (\<lambda>f. sum_list (map length (pf_base_full_band_pcm f))
                          + (case pf_lfe_pcm f of None \<Rightarrow> 0 | Some l \<Rightarrow> length l)) (pending_frames s))) * 8"

definition update_peak_buffered_samples :: "timeline_state \<Rightarrow> timeline_state" where
  "update_peak_buffered_samples s =
     (let reconstruction = fold max (map length (reconstruction_rows s)) 0;
          pending = sum_list (map (\<lambda>f. case pf_base_full_band_pcm f of [] \<Rightarrow> 0 | c # _ \<Rightarrow> length c)
                                  (pending_frames s)) in
      s\<lparr>peak_buffered_samples :=
          max (peak_buffered_samples s) (min (reconstruction + pending) usize_max)\<rparr>)"

section \<open>Frame validation\<close>

text \<open>\<open>iter().position(|value| !value.is_finite())\<close>.\<close>

fun first_non_finite :: "f64_bits list \<Rightarrow> nat option" where
  "first_non_finite [] = None"
| "first_non_finite (x # xs) =
     (if f64_is_finite x then map_option Suc (first_non_finite xs) else Some 0)"

text \<open>One of the two loops over the rows: the length of a row, then its samples.\<close>

fun check_rows ::
  "(nat \<Rightarrow> nat \<Rightarrow> timeline_error) \<Rightarrow> (nat \<Rightarrow> nat \<Rightarrow> timeline_error) \<Rightarrow> nat \<Rightarrow> nat \<Rightarrow>
   f64_bits list list \<Rightarrow> timeline_error option" where
  "check_rows bad_length bad_sample expected i [] = None"
| "check_rows bad_length bad_sample expected i (pcm # rest) =
     (if length pcm \<noteq> expected then Some (bad_length i (length pcm))
      else case first_non_finite pcm of
             Some k \<Rightarrow> Some (bad_sample i k)
           | None \<Rightarrow> check_rows bad_length bad_sample expected (Suc i) rest)"

definition validate_frame_pcm ::
  "f64_bits list list \<Rightarrow> f64_bits list list \<Rightarrow> f64_bits list option \<Rightarrow> nat \<Rightarrow> timeline_error option" where
  "validate_frame_pcm base basis lfe expected =
     (case check_rows (\<lambda>c n. BaseFrameLengthMismatch c expected n) NonFiniteBase expected 0 base of
        Some e \<Rightarrow> Some e
      | None \<Rightarrow>
        (case check_rows (\<lambda>c n. ReconstructionFrameLengthMismatch c expected n)
                NonFiniteReconstruction expected 0 basis of
           Some e \<Rightarrow> Some e
         | None \<Rightarrow>
           (case lfe of
              None \<Rightarrow> None
            | Some pcm \<Rightarrow>
                if length pcm \<noteq> expected then Some (LfeFrameLengthMismatch expected (length pcm))
                else map_option NonFiniteLfe (first_non_finite pcm))))"

section \<open>Draining\<close>

definition front_ready :: "timeline_state \<Rightarrow> bool" where
  "front_ready s =
     (case pending_frames s of
        [] \<Rightarrow> False
      | p # _ \<Rightarrow> pf_end_sample p + QMF_ROUNDTRIP_LATENCY_SAMPLES \<le> u64_max
             \<and> pf_end_sample p + QMF_ROUNDTRIP_LATENCY_SAMPLES \<le> reconstruction_end_sample s)"

text \<open>The body of the loop, for the popped front frame and the frames behind it.\<close>

definition drain_front ::
  "nat \<Rightarrow> pending_frame \<Rightarrow> pending_frame list \<Rightarrow> timeline_state \<Rightarrow>
   aligned_reconstruction_output \<times> timeline_state" where
  "drain_front reconstruction_start p rest s =
     (let latency = QMF_ROUNDTRIP_LATENCY_SAMPLES;
          physical_start = sat_add (pf_start_sample p) latency;
          current = (case reconstruction_start_sample s of Some a \<Rightarrow> a | None \<Rightarrow> reconstruction_start);
          offset = physical_start - current;
          sample_count = pf_end_sample p - pf_start_sample p;
          basis = map (\<lambda>row. take sample_count (drop offset row)) (reconstruction_rows s);
          physical_end = sat_add physical_start sample_count;
          out = \<lparr>out_frame_index = pf_frame_index p,
                 timeline = \<lparr>meta_sample_rate = pf_sample_rate p,
                   logical_start_sample = pf_start_sample p, logical_end_sample = pf_end_sample p,
                   qmf_latency_samples = latency, meta_reset_epoch = reset_epoch s,
                   meta_topology_epoch = topology_epoch s, pre_roll_valid = True,
                   tail_flush_valid = (case tail_start_sample s of None \<Rightarrow> False
                                         | Some t \<Rightarrow> physical_end > t)\<rparr>,
                 out_base_full_band_pcm = pf_base_full_band_pcm p,
                 out_reconstruction_basis = basis, out_lfe_pcm = pf_lfe_pcm p\<rparr>;
          discard_until = (case rest of [] \<Rightarrow> reconstruction_end_sample s
                             | q # _ \<Rightarrow> sat_add (pf_start_sample q) latency);
          discard = min (discard_until - current)
                        (case reconstruction_rows s of [] \<Rightarrow> 0 | row # _ \<Rightarrow> length row) in
      (out, s\<lparr>pending_frames := rest,
              reconstruction_rows := map (drop discard) (reconstruction_rows s),
              reconstruction_start_sample := Some (sat_add current discard)\<rparr>))"

function drain_loop ::
  "nat \<Rightarrow> timeline_state \<Rightarrow> aligned_reconstruction_output list \<times> timeline_state" where
  "drain_loop reconstruction_start s =
     (if front_ready s then
        (case pending_frames s of
           [] \<Rightarrow> ([], s)
         | p # rest \<Rightarrow>
             (let (out, s') = drain_front reconstruction_start p rest s;
                  (outs, s'') = drain_loop reconstruction_start s' in (out # outs, s'')))
      else ([], s))"
  by pat_completeness auto
termination
  by (relation "measure (\<lambda>(a, s). length (pending_frames s))") (auto simp: drain_front_def Let_def)

declare drain_loop.simps [simp del]

definition drain_ready :: "timeline_state \<Rightarrow> aligned_reconstruction_output list \<times> timeline_state" where
  "drain_ready s =
     (case reconstruction_start_sample s of
        None \<Rightarrow> ([], s)
      | Some a \<Rightarrow> (let (outs, s') = drain_loop a s in (outs, update_peak_buffered_samples s')))"

section \<open>Operations\<close>

text \<open>\<open>for (queue, row) in rows.iter_mut().zip(new)\<close>: extend as long as both have rows.\<close>

fun extend_rows :: "'x list list \<Rightarrow> 'x list list \<Rightarrow> 'x list list" where
  "extend_rows (q # qs) (r # rs) = (q @ r) # extend_rows qs rs"
| "extend_rows qs rs = qs"

text \<open>The checks of \<open>push_frame\<close> after validation: the first one that fails wins, and the
  state changes made before it stay.\<close>

definition admit_continuity :: "frame_input \<Rightarrow> unit timeline_op" where
  "admit_continuity f s =
     (if in_discontinuity f
      then (Inr (), reset_for_discontinuity (in_frame_index f) (in_start_sample f) s)
      else if sample_rate s \<noteq> None \<and> next_input_frame s \<noteq> in_frame_index f
      then (Inl (FrameIndexDiscontinuity (next_input_frame s) (in_frame_index f)), s)
      else if sample_rate s \<noteq> None \<and> next_input_sample s \<noteq> in_start_sample f
      then (Inl (SampleTimelineDiscontinuity (next_input_sample s) (in_start_sample f)), s)
      else (Inr (), s))"

definition admit_sample_rate :: "frame_input \<Rightarrow> unit timeline_op" where
  "admit_sample_rate f s =
     (case sample_rate s of
        Some expected \<Rightarrow>
          if expected \<noteq> in_sample_rate f then (Inl (SampleRateMismatch expected (in_sample_rate f)), s)
          else (Inr (), s)
      | None \<Rightarrow> (Inr (), s\<lparr>sample_rate := Some (in_sample_rate f)\<rparr>))"

definition admit_base_topology :: "frame_input \<Rightarrow> unit timeline_op" where
  "admit_base_topology f s =
     (let n = length (in_base f) in
      case base_channel_count s of
        Some expected \<Rightarrow>
          if expected \<noteq> n then (Inl (BaseTopologyChanged expected n), s) else (Inr (), s)
      | None \<Rightarrow> (Inr (), s\<lparr>base_channel_count := Some n\<rparr>))"

definition admit_row_topology :: "frame_input \<Rightarrow> unit timeline_op" where
  "admit_row_topology f s =
     (let n = length (in_basis f) in
      case reconstruction_row_count s of
        Some expected \<Rightarrow>
          if expected \<noteq> n then (Inl (ReconstructionTopologyChanged expected n), s) else (Inr (), s)
      | None \<Rightarrow> (Inr (), s\<lparr>reconstruction_row_count := Some n\<rparr>))"

definition enqueue_frame :: "frame_input \<Rightarrow> timeline_state \<Rightarrow> timeline_state" where
  "enqueue_frame f s =
     (let n = length (in_basis f);
          s1 = (if length (reconstruction_rows s) \<noteq> n
                then s\<lparr>reconstruction_rows := replicate n []\<rparr> else s);
          s2 = (if reconstruction_start_sample s1 = None
                then s1\<lparr>reconstruction_start_sample := Some (in_start_sample f),
                        reconstruction_end_sample := in_start_sample f\<rparr>
                else s1) in
      update_peak_buffered_samples
        (s2\<lparr>reconstruction_rows := extend_rows (reconstruction_rows s2) (in_basis f),
            reconstruction_end_sample :=
              sat_add (reconstruction_end_sample s2) (in_end_sample f - in_start_sample f),
            pending_frames := pending_frames s2 @
              [\<lparr>pf_frame_index = in_frame_index f, pf_sample_rate = in_sample_rate f,
                pf_start_sample = in_start_sample f, pf_end_sample = in_end_sample f,
                pf_base_full_band_pcm = in_base f, pf_lfe_pcm = in_lfe f\<rparr>],
            next_input_frame := sat_add (in_frame_index f) 1,
            next_input_sample := in_end_sample f\<rparr>))"

definition push_frame :: "frame_input \<Rightarrow> aligned_reconstruction_output list timeline_op" where
  "push_frame f s =
     (if finished s then (Inl Finished, s)
      else if in_end_sample f < in_start_sample f
      then (Inl (InvalidSampleRange (in_start_sample f) (in_end_sample f)), s)
      else
        case validate_frame_pcm (in_base f) (in_basis f) (in_lfe f) (in_end_sample f - in_start_sample f) of
          Some e \<Rightarrow> (Inl e, s)
        | None \<Rightarrow>
          if in_base f = [] then (Inl EmptyBaseCoordinates, s)
          else
            bind_rd (admit_continuity f) (\<lambda>_.
            bind_rd (admit_sample_rate f) (\<lambda>_.
            bind_rd (admit_base_topology f) (\<lambda>_.
            bind_rd (admit_row_topology f) (\<lambda>_ t.
              let (outs, t') = drain_ready (enqueue_frame f t) in (Inr outs, t'))))) s)"

fun check_tail :: "nat \<Rightarrow> f64_bits list list \<Rightarrow> timeline_error option" where
  "check_tail i [] = None"
| "check_tail i (row # rest) =
     (if length row \<noteq> QMF_ROUNDTRIP_LATENCY_SAMPLES
      then Some (TailLengthMismatch i QMF_ROUNDTRIP_LATENCY_SAMPLES (length row))
      else case first_non_finite row of
             Some k \<Rightarrow> Some (NonFiniteReconstruction i k)
           | None \<Rightarrow> check_tail (Suc i) rest)"

definition finish :: "f64_bits list list \<Rightarrow> aligned_reconstruction_output list timeline_op" where
  "finish tail s =
     (if finished s then (Inl Finished, s)
      else
        case check_tail 0 tail of
          Some e \<Rightarrow> (Inl e, s)
        | None \<Rightarrow>
          if length tail \<noteq> (case reconstruction_row_count s of Some n \<Rightarrow> n | None \<Rightarrow> length tail)
          then (Inl (ReconstructionTopologyChanged
                  (case reconstruction_row_count s of Some n \<Rightarrow> n | None \<Rightarrow> 0) (length tail)), s)
          else
            let s1 = s\<lparr>tail_start_sample := Some (reconstruction_end_sample s),
                       reconstruction_rows := extend_rows (reconstruction_rows s) tail,
                       reconstruction_end_sample :=
                         sat_add (reconstruction_end_sample s) QMF_ROUNDTRIP_LATENCY_SAMPLES\<rparr>;
                (outs, s2) = drain_ready s1;
                s3 = s2\<lparr>finished := True\<rparr> in
            if pending_frames s3 \<noteq> [] then (Inl (MissingTail (length (pending_frames s3))), s3)
            else (Inr outs, s3))"

end
