(* ===== verification/TimelineSpec.thy ===== *)
theory TimelineSpec
  imports Timeline
begin

text \<open>
  The abstract specification of the output timeline and the refinement proof: over one
  segment of contiguous frames the timeline is a delay line.  The reconstruction rows of all
  frames form one stream per row, which starts at the first sample of the segment; the output
  of a frame is its own base interval together with the stream shifted by the latency.
\<close>

section \<open>Specification\<close>

definition pend :: "frame_input \<Rightarrow> pending_frame" where
  "pend f = \<lparr>pf_frame_index = in_frame_index f, pf_sample_rate = in_sample_rate f,
     pf_start_sample = in_start_sample f, pf_end_sample = in_end_sample f,
     pf_base_full_band_pcm = in_base f, pf_lfe_pcm = in_lfe f\<rparr>"

lemma pend_simps [simp]:
  "pf_frame_index (pend f) = in_frame_index f" "pf_sample_rate (pend f) = in_sample_rate f"
  "pf_start_sample (pend f) = in_start_sample f" "pf_end_sample (pend f) = in_end_sample f"
  "pf_base_full_band_pcm (pend f) = in_base f" "pf_lfe_pcm (pend f) = in_lfe f"
  by (simp_all add: pend_def)

definition row_streams :: "nat \<Rightarrow> frame_input list \<Rightarrow> f64_bits list list" where
  "row_streams n fs = map (\<lambda>j. concat (map (\<lambda>f. in_basis f ! j) fs)) [0..<n]"

definition spec_output ::
  "nat \<Rightarrow> nat \<Rightarrow> nat option \<Rightarrow> nat \<Rightarrow> f64_bits list list \<Rightarrow> frame_input \<Rightarrow> aligned_reconstruction_output" where
  "spec_output re te tail s0 stream f =
     \<lparr>out_frame_index = in_frame_index f,
      timeline = \<lparr>meta_sample_rate = in_sample_rate f,
        logical_start_sample = in_start_sample f, logical_end_sample = in_end_sample f,
        qmf_latency_samples = QMF_ROUNDTRIP_LATENCY_SAMPLES, meta_reset_epoch = re,
        meta_topology_epoch = te, pre_roll_valid = True,
        tail_flush_valid = (case tail of None \<Rightarrow> False
          | Some t \<Rightarrow> in_end_sample f + QMF_ROUNDTRIP_LATENCY_SAMPLES > t)\<rparr>,
      out_base_full_band_pcm = in_base f,
      out_reconstruction_basis =
        map (\<lambda>row. take (in_end_sample f - in_start_sample f)
                     (drop (in_start_sample f + QMF_ROUNDTRIP_LATENCY_SAMPLES - s0) row)) stream,
      out_lfe_pcm = in_lfe f\<rparr>"

fun contiguous :: "nat \<Rightarrow> nat \<Rightarrow> frame_input list \<Rightarrow> bool" where
  "contiguous i s [] \<longleftrightarrow> True"
| "contiguous i s (f # fs) \<longleftrightarrow> in_frame_index f = i \<and> in_start_sample f = s \<and> s \<le> in_end_sample f
     \<and> contiguous (Suc i) (in_end_sample f) fs"

fun segment_end :: "nat \<Rightarrow> frame_input list \<Rightarrow> nat" where
  "segment_end s [] = s"
| "segment_end s (f # fs) = segment_end (in_end_sample f) fs"

definition frame_valid :: "nat \<Rightarrow> nat \<Rightarrow> nat \<Rightarrow> frame_input \<Rightarrow> bool" where
  "frame_valid rate channels n f \<longleftrightarrow>
     in_sample_rate f = rate \<and> length (in_base f) = channels \<and> length (in_basis f) = n
   \<and> validate_frame_pcm (in_base f) (in_basis f) (in_lfe f) (in_end_sample f - in_start_sample f) = None"

lemma contiguous_append:
  "contiguous i s (fs @ gs) \<longleftrightarrow> contiguous i s fs \<and> contiguous (i + length fs) (segment_end s fs) gs"
  by (induction i s fs rule: contiguous.induct) auto

lemma segment_end_append [simp]: "segment_end s (fs @ gs) = segment_end (segment_end s fs) gs"
  by (induction s fs rule: segment_end.induct) auto

lemma contiguous_le_end: "contiguous i s fs \<Longrightarrow> s \<le> segment_end s fs"
  by (induction i s fs rule: contiguous.induct) auto

lemma contiguous_member:
  "contiguous i s fs \<Longrightarrow> f \<in> set fs \<Longrightarrow>
   s \<le> in_start_sample f \<and> in_start_sample f \<le> in_end_sample f \<and> in_end_sample f \<le> segment_end s fs"
proof (induction i s fs rule: contiguous.induct)
  case (2 i s g fs)
  then show ?case using contiguous_le_end [of "Suc i" "in_end_sample g" fs] by auto
qed simp

lemma length_row_streams [simp]: "length (row_streams n fs) = n"
  by (simp add: row_streams_def)

lemma row_streams_empty [simp]: "row_streams n fs = [] \<longleftrightarrow> n = 0"
  by (simp add: row_streams_def)

section \<open>Validation\<close>

lemma check_rows_None:
  "check_rows bl bs expected i rows = None \<Longrightarrow> row \<in> set rows \<Longrightarrow> length row = expected"
  by (induction bl bs expected i rows rule: check_rows.induct) (auto split: if_splits option.splits)

lemma validate_basis:
  assumes "validate_frame_pcm base basis lfe n = None" and "row \<in> set basis"
  shows "length row = n"
  using assms check_rows_None by (fastforce simp: validate_frame_pcm_def split: option.splits)

lemma check_tail_None:
  "check_tail i rows = None \<Longrightarrow> row \<in> set rows \<Longrightarrow> length row = QMF_ROUNDTRIP_LATENCY_SAMPLES"
  by (induction i rows rule: check_tail.induct) (auto split: if_splits option.splits)

lemma extend_rows_map2: "length qs = length rs \<Longrightarrow> extend_rows qs rs = map2 (@) qs rs"
  by (induction qs rs rule: extend_rows.induct) auto

lemma row_streams_snoc:
  "length (in_basis f) = n \<Longrightarrow> row_streams n (fs @ [f]) = map2 (@) (row_streams n fs) (in_basis f)"
  by (rule nth_equalityI) (simp_all add: row_streams_def)

lemma length_row_stream:
  assumes "contiguous i s fs" and "\<forall>f \<in> set fs. frame_valid rate ch n f" and "row \<in> set (row_streams n fs)"
  shows "length row = segment_end s fs - s"
proof -
  have "j < n \<Longrightarrow> length (concat (map (\<lambda>f. in_basis f ! j) fs)) = segment_end s fs - s" for j
    using assms(1,2)
  proof (induction i s fs rule: contiguous.induct)
    case (2 i s f fs)
    have "in_basis f ! j \<in> set (in_basis f)"
      using "2.prems" by (intro nth_mem) (auto simp: frame_valid_def)
    then have "length (in_basis f ! j) = in_end_sample f - in_start_sample f"
      using "2.prems" by (intro validate_basis [of "in_base f" _ "in_lfe f"]) (auto simp: frame_valid_def)
    moreover have "in_end_sample f \<le> segment_end (in_end_sample f) fs"
      using "2.prems" by (intro contiguous_le_end) auto
    ultimately show ?case using 2 by auto
  qed simp
  with assms(3) show ?thesis by (auto simp: row_streams_def)
qed

section \<open>The drain loop\<close>

text \<open>
  What the state holds for a stream that starts at \<open>s0\<close> and reaches \<open>reconstruction_end_sample\<close>:
  the queue keeps the samples from \<open>a\<close> on, and no sample that a pending frame needs is gone.
\<close>

definition queue_inv :: "nat \<Rightarrow> f64_bits list list \<Rightarrow> frame_input list \<Rightarrow> nat \<Rightarrow> timeline_state \<Rightarrow> bool" where
  "queue_inv s0 stream fs a s \<longleftrightarrow>
     pending_frames s = map pend fs \<and> reconstruction_start_sample s = Some a
   \<and> reconstruction_rows s = map (drop (a - s0)) stream
   \<and> s0 \<le> a \<and> a \<le> reconstruction_end_sample s \<and> reconstruction_end_sample s \<le> u64_max
   \<and> (\<forall>row \<in> set stream. length row = reconstruction_end_sample s - s0)
   \<and> (case fs of [] \<Rightarrow> True | f # _ \<Rightarrow> a \<le> in_start_sample f + QMF_ROUNDTRIP_LATENCY_SAMPLES
        \<and> (stream \<noteq> [] \<longrightarrow> in_start_sample f \<le> a))"

definition ready_at :: "nat \<Rightarrow> frame_input \<Rightarrow> bool" where
  "ready_at e f \<longleftrightarrow> in_end_sample f + QMF_ROUNDTRIP_LATENCY_SAMPLES \<le> e"

lemma front_ready_iff:
  assumes "queue_inv s0 stream fs a s"
  shows "front_ready s \<longleftrightarrow> (case fs of [] \<Rightarrow> False | f # _ \<Rightarrow> ready_at (reconstruction_end_sample s) f)"
  using assms by (auto simp: front_ready_def queue_inv_def ready_at_def pend_def split: list.splits)

lemma drain_front_step:
  assumes inv: "queue_inv s0 stream (f # fs) a s"
    and cont: "contiguous i (in_start_sample f) (f # fs)"
    and ready: "ready_at (reconstruction_end_sample s) f"
  obtains a' where "a \<le> a'"
    "drain_front b (pend f) (map pend fs) s =
      (spec_output (reset_epoch s) (topology_epoch s) (tail_start_sample s) s0 stream f,
       s\<lparr>pending_frames := map pend fs, reconstruction_rows := map (drop (a' - s0)) stream,
         reconstruction_start_sample := Some a'\<rparr>)"
    "queue_inv s0 stream fs a' (s\<lparr>pending_frames := map pend fs,
       reconstruction_rows := map (drop (a' - s0)) stream, reconstruction_start_sample := Some a'\<rparr>)"
    "stream \<noteq> [] \<Longrightarrow> fs \<noteq> [] \<Longrightarrow> a' = in_end_sample f + QMF_ROUNDTRIP_LATENCY_SAMPLES"
proof -
  let ?L = QMF_ROUNDTRIP_LATENCY_SAMPLES and ?e = "reconstruction_end_sample s"
  have q: "reconstruction_start_sample s = Some a" "reconstruction_rows s = map (drop (a - s0)) stream"
    "s0 \<le> a" "a \<le> ?e" "?e \<le> u64_max" "\<forall>row \<in> set stream. length row = ?e - s0"
    "a \<le> in_start_sample f + ?L"
    using inv by (auto simp: queue_inv_def)
  have f: "in_start_sample f \<le> in_end_sample f" "in_end_sample f + ?L \<le> ?e"
    using cont ready by (auto simp: ready_at_def)
  have sat: "sat_add (in_start_sample f) ?L = in_start_sample f + ?L"
    "sat_add (in_start_sample f + ?L) (in_end_sample f - in_start_sample f) = in_end_sample f + ?L"
    using f q by (simp_all add: sat_add_def)
  have until: "(case map pend fs of [] \<Rightarrow> ?e | q # _ \<Rightarrow> sat_add (pf_start_sample q) ?L)
      = (if fs = [] then ?e else in_end_sample f + ?L)"
    using cont f q by (cases fs) (auto simp: pend_def sat_add_def)
  let ?until = "if fs = [] then ?e else in_end_sample f + ?L"
  let ?d = "if stream = [] then 0 else ?until - a"
  have len: "(case map (drop (a - s0)) stream of [] \<Rightarrow> 0 | row # _ \<Rightarrow> length row)
      = (if stream = [] then 0 else ?e - a)"
    using q by (cases stream) auto
  have discard: "min (?until - a) (if stream = [] then 0 else ?e - a) = ?d"
    using f by auto
  have bounds: "a \<le> ?until" "?until \<le> ?e" using f q by auto
  then have sum: "sat_add a ?d = a + ?d" using q by (auto simp: sat_add_def)
  have rows: "map (drop ?d) (map (drop (a - s0)) stream) = map (drop (a + ?d - s0)) stream"
    using q by (cases stream) (auto simp: add.commute)
  have basis: "map (\<lambda>row. take (in_end_sample f - in_start_sample f) (drop (in_start_sample f + ?L - a) row))
      (map (drop (a - s0)) stream)
      = map (\<lambda>row. take (in_end_sample f - in_start_sample f) (drop (in_start_sample f + ?L - s0) row)) stream"
    using q by (auto simp: add.commute)
  have run: "drain_front b (pend f) (map pend fs) s =
      (spec_output (reset_epoch s) (topology_epoch s) (tail_start_sample s) s0 stream f,
       s\<lparr>pending_frames := map pend fs, reconstruction_rows := map (drop (a + ?d - s0)) stream,
         reconstruction_start_sample := Some (a + ?d)\<rparr>)"
    unfolding drain_front_def Let_def q(1,2) until len discard option.case rows
    using sat basis sum rows
    by (simp add: spec_output_def discard split: option.split)
  have "queue_inv s0 stream fs (a + ?d) (s\<lparr>pending_frames := map pend fs,
      reconstruction_rows := map (drop (a + ?d - s0)) stream, reconstruction_start_sample := Some (a + ?d)\<rparr>)"
    using q bounds cont f by (cases fs) (auto simp: queue_inv_def)
  with run show ?thesis
    using bounds by (intro that [of "a + ?d"]) auto
qed


text \<open>The whole loop: it emits the ready frames in order, and nothing else.\<close>

lemma drain_loop_spec:
  assumes "queue_inv s0 stream fs a s" and "contiguous i e fs"
  shows "\<exists>a' s'. drain_loop b s =
      (map (spec_output (reset_epoch s) (topology_epoch s) (tail_start_sample s) s0 stream)
           (takeWhile (ready_at (reconstruction_end_sample s)) fs), s')
    \<and> queue_inv s0 stream (dropWhile (ready_at (reconstruction_end_sample s)) fs) a' s'
    \<and> s' = s\<lparr>pending_frames := pending_frames s', reconstruction_rows := reconstruction_rows s',
            reconstruction_start_sample := reconstruction_start_sample s'\<rparr>"
  using assms
proof (induction fs arbitrary: a s i e)
  case Nil
  then have "\<not> front_ready s" by (simp add: front_ready_iff)
  then have "drain_loop b s = ([], s)" by (subst drain_loop.simps) simp
  with Nil show ?case by (intro exI [of _ a] exI [of _ s]) simp
next
  case (Cons f fs)
  note front = front_ready_iff [OF Cons.prems(1)]
  show ?case
  proof (cases "ready_at (reconstruction_end_sample s) f")
    case False
    then have "drain_loop b s = ([], s)" using front by (subst drain_loop.simps) simp
    with False Cons.prems show ?thesis by (intro exI [of _ a] exI [of _ s]) simp
  next
    case True
    have cont: "contiguous i (in_start_sample f) (f # fs)" using Cons.prems(2) by simp
    have pending: "pending_frames s = pend f # map pend fs"
      using Cons.prems(1) by (simp add: queue_inv_def)
    obtain a1 s1 where step: "drain_front b (pend f) (map pend fs) s =
        (spec_output (reset_epoch s) (topology_epoch s) (tail_start_sample s) s0 stream f, s1)"
      and inv1: "queue_inv s0 stream fs a1 s1"
      and s1: "s1 = s\<lparr>pending_frames := pending_frames s1, reconstruction_rows := reconstruction_rows s1,
            reconstruction_start_sample := reconstruction_start_sample s1\<rparr>"
      by (rule drain_front_step [OF Cons.prems(1) cont True, of b]) (rule that, assumption, assumption, simp)
    have same: "reset_epoch s1 = reset_epoch s" "topology_epoch s1 = topology_epoch s"
      "tail_start_sample s1 = tail_start_sample s" "reconstruction_end_sample s1 = reconstruction_end_sample s"
      by (subst s1, simp)+
    obtain a' s' where loop: "drain_loop b s1 =
        (map (spec_output (reset_epoch s) (topology_epoch s) (tail_start_sample s) s0 stream)
           (takeWhile (ready_at (reconstruction_end_sample s)) fs), s')"
      and inv': "queue_inv s0 stream (dropWhile (ready_at (reconstruction_end_sample s)) fs) a' s'"
      and s': "s' = s1\<lparr>pending_frames := pending_frames s', reconstruction_rows := reconstruction_rows s',
            reconstruction_start_sample := reconstruction_start_sample s'\<rparr>"
      using Cons.IH [OF inv1, of "Suc i" "in_end_sample f"] Cons.prems(2) unfolding same by auto
    have "drain_loop b s = (map (spec_output (reset_epoch s) (topology_epoch s) (tail_start_sample s) s0 stream)
           (takeWhile (ready_at (reconstruction_end_sample s)) (f # fs)), s')"
      using front True pending step loop by (subst drain_loop.simps) simp
    moreover have "s' = s\<lparr>pending_frames := pending_frames s', reconstruction_rows := reconstruction_rows s',
            reconstruction_start_sample := reconstruction_start_sample s'\<rparr>"
      by (subst s', subst s1) simp
    ultimately show ?thesis using inv' True by (intro exI [of _ a'] exI [of _ s']) simp
  qed
qed

section \<open>Pushing frames\<close>

text \<open>The state after the frames \<open>fs\<close> of a segment, of which \<open>k\<close> were emitted.\<close>

definition segment_state ::
  "nat \<Rightarrow> nat \<Rightarrow> nat \<Rightarrow> nat \<Rightarrow> nat \<Rightarrow> nat \<Rightarrow> nat \<Rightarrow> frame_input list \<Rightarrow> timeline_state \<Rightarrow> bool" where
  "segment_state rate ch n re te i s0 fs s \<longleftrightarrow>
     sample_rate s = Some rate \<and> base_channel_count s = Some ch \<and> reconstruction_row_count s = Some n
   \<and> \<not> finished s \<and> tail_start_sample s = None \<and> reset_epoch s = re \<and> topology_epoch s = te
   \<and> next_input_frame s = i + length fs \<and> next_input_sample s = segment_end s0 fs
   \<and> reconstruction_end_sample s = segment_end s0 fs
   \<and> (\<exists>a. queue_inv s0 (row_streams n fs) (dropWhile (ready_at (segment_end s0 fs)) fs) a s)"

definition fresh_state :: "nat \<Rightarrow> nat \<Rightarrow> timeline_state \<Rightarrow> bool" where
  "fresh_state re te s \<longleftrightarrow> sample_rate s = None \<and> base_channel_count s = None
   \<and> reconstruction_row_count s = None \<and> reconstruction_start_sample s = None
   \<and> reconstruction_rows s = [] \<and> pending_frames s = [] \<and> \<not> finished s \<and> tail_start_sample s = None
   \<and> reset_epoch s = re \<and> topology_epoch s = te"

lemma fresh_new: "fresh_state 0 0 new_timeline"
  by (simp add: fresh_state_def new_timeline_def)

lemma fresh_reset:
  "fresh_state (sat_add (reset_epoch s) 1) (sat_add (topology_epoch s) 1) (timeline_reset s)"
  by (simp add: fresh_state_def timeline_reset_def)

lemma queue_inv_peak [simp]:
  "queue_inv s0 stream fs a (update_peak_buffered_samples s) = queue_inv s0 stream fs a s"
  by (simp add: queue_inv_def update_peak_buffered_samples_def Let_def)

lemma peak_fields [simp]:
  "sample_rate (update_peak_buffered_samples s) = sample_rate s"
  "base_channel_count (update_peak_buffered_samples s) = base_channel_count s"
  "reconstruction_row_count (update_peak_buffered_samples s) = reconstruction_row_count s"
  "finished (update_peak_buffered_samples s) = finished s"
  "tail_start_sample (update_peak_buffered_samples s) = tail_start_sample s"
  "reset_epoch (update_peak_buffered_samples s) = reset_epoch s"
  "topology_epoch (update_peak_buffered_samples s) = topology_epoch s"
  "next_input_frame (update_peak_buffered_samples s) = next_input_frame s"
  "next_input_sample (update_peak_buffered_samples s) = next_input_sample s"
  "reconstruction_end_sample (update_peak_buffered_samples s) = reconstruction_end_sample s"
  "reconstruction_start_sample (update_peak_buffered_samples s) = reconstruction_start_sample s"
  "reconstruction_rows (update_peak_buffered_samples s) = reconstruction_rows s"
  "pending_frames (update_peak_buffered_samples s) = pending_frames s"
  by (simp_all add: update_peak_buffered_samples_def Let_def)


definition emitted :: "nat \<Rightarrow> nat \<Rightarrow> nat \<Rightarrow> nat \<Rightarrow> frame_input list \<Rightarrow> aligned_reconstruction_output list" where
  "emitted re te n s0 fs =
     map (spec_output re te None s0 (row_streams n fs)) (takeWhile (ready_at (segment_end s0 fs)) fs)"

lemma ready_at_mono: "ready_at e f \<Longrightarrow> e \<le> e' \<Longrightarrow> ready_at e' f"
  by (simp add: ready_at_def)

lemma takeWhile_grow:
  "(\<And>x. P x \<Longrightarrow> Q x) \<Longrightarrow> takeWhile P xs @ takeWhile Q (dropWhile P xs @ ys) = takeWhile Q (xs @ ys)"
  by (induction xs) auto

lemma dropWhile_grow:
  "(\<And>x. P x \<Longrightarrow> Q x) \<Longrightarrow> dropWhile Q (dropWhile P xs @ ys) = dropWhile Q (xs @ ys)"
  by (induction xs) auto

text \<open>More samples at the end of the stream do not change an output that is already complete.\<close>

lemma spec_output_extend:
  assumes "length qs = length rs" and "\<forall>row \<in> set qs. in_end_sample f + QMF_ROUNDTRIP_LATENCY_SAMPLES - s0 \<le> length row"
    and "s0 \<le> in_start_sample f" and "in_start_sample f \<le> in_end_sample f"
  shows "spec_output re te t s0 (map2 (@) qs rs) f = spec_output re te t s0 qs f"
proof -
  have "map (\<lambda>row. take (in_end_sample f - in_start_sample f) (drop (in_start_sample f + QMF_ROUNDTRIP_LATENCY_SAMPLES - s0) row))
      (map2 (@) qs rs)
    = map (\<lambda>row. take (in_end_sample f - in_start_sample f) (drop (in_start_sample f + QMF_ROUNDTRIP_LATENCY_SAMPLES - s0) row)) qs"
  proof (rule nth_equalityI)
    fix i assume "i < length (map (\<lambda>row. take (in_end_sample f - in_start_sample f)
        (drop (in_start_sample f + QMF_ROUNDTRIP_LATENCY_SAMPLES - s0) row)) (map2 (@) qs rs))"
    then have i: "i < length qs" "i < length rs" using assms(1) by auto
    then have "in_end_sample f + QMF_ROUNDTRIP_LATENCY_SAMPLES - s0 \<le> length (qs ! i)"
      using assms(2) by simp
    then have "in_end_sample f - in_start_sample f
        + (in_start_sample f + QMF_ROUNDTRIP_LATENCY_SAMPLES - s0) \<le> length (qs ! i)"
      using assms(3,4) by simp
    with i show "map (\<lambda>row. take (in_end_sample f - in_start_sample f)
        (drop (in_start_sample f + QMF_ROUNDTRIP_LATENCY_SAMPLES - s0) row)) (map2 (@) qs rs) ! i
      = map (\<lambda>row. take (in_end_sample f - in_start_sample f)
        (drop (in_start_sample f + QMF_ROUNDTRIP_LATENCY_SAMPLES - s0) row)) qs ! i"
      by simp
  qed (use assms(1) in simp)
  then show ?thesis by (simp add: spec_output_def)
qed

lemma enqueue_drain:
  assumes rows: "reconstruction_rows s = map (drop (a - s0)) (row_streams n fs) \<or> fs = [] \<and> reconstruction_rows s = []"
    and start: "reconstruction_start_sample s = Some a \<and> reconstruction_end_sample s = segment_end s0 fs
        \<or> fs = [] \<and> reconstruction_start_sample s = None \<and> a = s0"
    and pending: "pending_frames s = map pend ps" and ps: "ps = dropWhile (ready_at (segment_end s0 fs)) fs"
    and a: "s0 \<le> a" "a \<le> segment_end s0 fs"
      "case ps of [] \<Rightarrow> a = segment_end s0 fs | g # _ \<Rightarrow> a \<le> in_start_sample g + QMF_ROUNDTRIP_LATENCY_SAMPLES
        \<and> (row_streams n fs \<noteq> [] \<longrightarrow> in_start_sample g \<le> a)"
    and cont: "contiguous i s0 (fs @ [f])"
    and valid: "\<forall>g \<in> set (fs @ [f]). frame_valid rate ch n g"
    and fits: "in_end_sample f \<le> u64_max" "i + length fs < u64_max"
  obtains s' where
    "drain_ready (enqueue_frame f s) =
       (map (spec_output (reset_epoch s) (topology_epoch s) (tail_start_sample s) s0 (row_streams n (fs @ [f])))
          (takeWhile (ready_at (in_end_sample f)) (ps @ [f])), s')"
    "sample_rate s' = sample_rate s" "base_channel_count s' = base_channel_count s"
    "reconstruction_row_count s' = reconstruction_row_count s" "finished s' = finished s"
    "tail_start_sample s' = tail_start_sample s" "reset_epoch s' = reset_epoch s"
    "topology_epoch s' = topology_epoch s" "next_input_frame s' = i + length (fs @ [f])"
    "next_input_sample s' = in_end_sample f" "reconstruction_end_sample s' = in_end_sample f"
    "\<exists>a'. queue_inv s0 (row_streams n (fs @ [f])) (dropWhile (ready_at (in_end_sample f)) (ps @ [f])) a' s'"
proof -
  let ?st = "row_streams n (fs @ [f])"
  let ?t = "enqueue_frame f s"
  have f: "in_frame_index f = i + length fs" "in_start_sample f = segment_end s0 fs"
    "segment_end s0 fs \<le> in_end_sample f" "length (in_basis f) = n"
    using cont valid by (auto simp: contiguous_append frame_valid_def)
  have st: "?st = map2 (@) (row_streams n fs) (in_basis f)" using f(4) by (rule row_streams_snoc)
  have empty: "fs = [] \<Longrightarrow> row_streams n fs = replicate n []"
    by (simp add: row_streams_def map_replicate_const)
  have rows': "(if length (reconstruction_rows s) \<noteq> n then replicate n [] else reconstruction_rows s)
      = map (drop (a - s0)) (row_streams n fs)"
    using rows empty by (auto simp: map_replicate_const)
  have len: "\<forall>row \<in> set (row_streams n fs). length row = segment_end s0 fs - s0"
    using length_row_stream [of i s0 fs rate ch n] cont valid by (auto simp: contiguous_append)
  have len': "\<forall>row \<in> set ?st. length row = in_end_sample f - s0"
    using length_row_stream [of i s0 "fs @ [f]" rate ch n] cont valid by auto
  have ext: "extend_rows (map (drop (a - s0)) (row_streams n fs)) (in_basis f) = map (drop (a - s0)) ?st"
  proof -
    have "extend_rows (map (drop (a - s0)) (row_streams n fs)) (in_basis f)
        = map2 (@) (map (drop (a - s0)) (row_streams n fs)) (in_basis f)"
      using f(4) by (intro extend_rows_map2) simp
    also have "\<dots> = map (drop (a - s0)) ?st"
    proof (rule nth_equalityI)
      fix j assume "j < length (map2 (@) (map (drop (a - s0)) (row_streams n fs)) (in_basis f))"
      then have j: "j < n" using f(4) by simp
      then have "length (row_streams n fs ! j) = segment_end s0 fs - s0" using len by simp
      with j f(4) a show "map2 (@) (map (drop (a - s0)) (row_streams n fs)) (in_basis f) ! j
          = map (drop (a - s0)) ?st ! j"
        by (simp add: st)
    qed (use f(4) in simp)
    finally show ?thesis .
  qed
  have t: "reconstruction_rows ?t = map (drop (a - s0)) ?st" "reconstruction_start_sample ?t = Some a"
    "reconstruction_end_sample ?t = in_end_sample f" "pending_frames ?t = map pend (ps @ [f])"
    "sample_rate ?t = sample_rate s" "base_channel_count ?t = base_channel_count s"
    "reconstruction_row_count ?t = reconstruction_row_count s" "finished ?t = finished s"
    "tail_start_sample ?t = tail_start_sample s" "reset_epoch ?t = reset_epoch s"
    "topology_epoch ?t = topology_epoch s" "next_input_frame ?t = i + length (fs @ [f])"
    "next_input_sample ?t = in_end_sample f"
    using f fits start pending rows' ext
    by (auto simp: enqueue_frame_def Let_def sat_add_def pend_def f(4) split: if_splits)
  have inv: "queue_inv s0 ?st (ps @ [f]) a ?t"
    using t a f fits len' by (cases ps) (auto simp: queue_inv_def)
  have "contiguous i s0 (takeWhile (ready_at (segment_end s0 fs)) fs @ (ps @ [f]))"
    using cont unfolding ps by (simp only: append.assoc [symmetric] takeWhile_dropWhile_id)
  then have cont': "contiguous (i + length (takeWhile (ready_at (segment_end s0 fs)) fs))
      (segment_end s0 (takeWhile (ready_at (segment_end s0 fs)) fs)) (ps @ [f])"
    by (subst (asm) contiguous_append) simp
  obtain a' s1 where loop: "drain_loop a ?t =
      (map (spec_output (reset_epoch s) (topology_epoch s) (tail_start_sample s) s0 ?st)
         (takeWhile (ready_at (in_end_sample f)) (ps @ [f])), s1)"
    and inv1: "queue_inv s0 ?st (dropWhile (ready_at (in_end_sample f)) (ps @ [f])) a' s1"
    and s1: "s1 = ?t\<lparr>pending_frames := pending_frames s1, reconstruction_rows := reconstruction_rows s1,
            reconstruction_start_sample := reconstruction_start_sample s1\<rparr>"
    using drain_loop_spec [OF inv cont', of a] t by auto
  have f1: "sample_rate s1 = sample_rate s" "base_channel_count s1 = base_channel_count s"
    "reconstruction_row_count s1 = reconstruction_row_count s" "finished s1 = finished s"
    "tail_start_sample s1 = tail_start_sample s" "reset_epoch s1 = reset_epoch s"
    "topology_epoch s1 = topology_epoch s" "next_input_frame s1 = i + length (fs @ [f])"
    "next_input_sample s1 = in_end_sample f" "reconstruction_end_sample s1 = in_end_sample f"
    by (subst s1, simp add: t)+
  show ?thesis
    using loop inv1 f1 t(2)
    by (intro that [of "update_peak_buffered_samples s1"]) (auto simp: drain_ready_def)
qed


lemma push_frame_admitted:
  assumes "\<not> finished s" and "frame_valid rate ch n f" and "in_start_sample f \<le> in_end_sample f" and "0 < ch"
    and "admit_continuity f s = (Inr (), s1)" and "admit_sample_rate f s1 = (Inr (), s2)"
    and "admit_base_topology f s2 = (Inr (), s3)" and "admit_row_topology f s3 = (Inr (), s4)"
  shows "push_frame f s = (case drain_ready (enqueue_frame f s4) of (outs, t) \<Rightarrow> (Inr outs, t))"
  using assms by (auto simp: push_frame_def frame_valid_def bind_rd_Inr)

text \<open>The first frame of a segment: a fresh timeline, or a declared discontinuity.\<close>

definition segment_start :: "nat \<Rightarrow> nat \<Rightarrow> nat \<Rightarrow> frame_input \<Rightarrow> timeline_state \<Rightarrow> bool" where
  "segment_start rate re te f s \<longleftrightarrow>
     \<not> finished s
   \<and> (if in_discontinuity f
      then sample_rate s \<in> {None, Some rate}
         \<and> re = sat_add (reset_epoch s) 1 \<and> te = sat_add (topology_epoch s) 1
      else fresh_state re te s)"

lemma push_first:
  assumes "segment_start rate re te f s" and "frame_valid rate ch n f" and "0 < ch"
    and "in_start_sample f \<le> in_end_sample f"
    and "in_end_sample f \<le> u64_max" and "in_frame_index f < u64_max"
  shows "\<exists>s'. push_frame f s = (Inr [], s')
    \<and> segment_state rate ch n re te (in_frame_index f) (in_start_sample f) [f] s'"
proof -
  let ?s1 = "if in_discontinuity f then reset_for_discontinuity (in_frame_index f) (in_start_sample f) s else s"
  let ?s4 = "?s1\<lparr>sample_rate := Some rate, base_channel_count := Some ch, reconstruction_row_count := Some n\<rparr>"
  have f: "in_sample_rate f = rate" "length (in_base f) = ch" "length (in_basis f) = n"
    using assms(2) by (auto simp: frame_valid_def)
  have run: "push_frame f s = (case drain_ready (enqueue_frame f ?s4) of (outs, t) \<Rightarrow> (Inr outs, t))"
  proof (rule push_frame_admitted)
    show "admit_continuity f s = (Inr (), ?s1)"
      using assms(1) by (auto simp: segment_start_def admit_continuity_def fresh_state_def split: if_splits)
    show "admit_sample_rate f ?s1 = (Inr (), ?s1\<lparr>sample_rate := Some rate\<rparr>)"
      using assms(1) f
      by (auto simp: segment_start_def admit_sample_rate_def fresh_state_def reset_for_discontinuity_def)
    show "admit_base_topology f (?s1\<lparr>sample_rate := Some rate\<rparr>)
        = (Inr (), ?s1\<lparr>sample_rate := Some rate, base_channel_count := Some ch\<rparr>)"
      using assms(1) f
      by (auto simp: segment_start_def admit_base_topology_def fresh_state_def reset_for_discontinuity_def)
    show "admit_row_topology f (?s1\<lparr>sample_rate := Some rate, base_channel_count := Some ch\<rparr>) = (Inr (), ?s4)"
      using assms(1) f
      by (auto simp: segment_start_def admit_row_topology_def fresh_state_def reset_for_discontinuity_def)
  qed (use assms in \<open>auto simp: segment_start_def\<close>)
  have rows: "reconstruction_rows ?s4 = map (drop (in_start_sample f - in_start_sample f)) (row_streams n [])
      \<or> ([] :: frame_input list) = [] \<and> reconstruction_rows ?s4 = []"
    using assms(1) by (auto simp: segment_start_def fresh_state_def reset_for_discontinuity_def)
  have start: "reconstruction_start_sample ?s4 = Some (in_start_sample f)
        \<and> reconstruction_end_sample ?s4 = segment_end (in_start_sample f) []
      \<or> ([] :: frame_input list) = [] \<and> reconstruction_start_sample ?s4 = None \<and> in_start_sample f = in_start_sample f"
    using assms(1) by (auto simp: segment_start_def fresh_state_def reset_for_discontinuity_def)
  have pend: "pending_frames ?s4 = map pend []" "tail_start_sample ?s4 = None"
    "reset_epoch ?s4 = re" "topology_epoch ?s4 = te" "\<not> finished ?s4"
    using assms(1) by (auto simp: segment_start_def fresh_state_def reset_for_discontinuity_def)
  have not_ready: "\<not> ready_at (in_end_sample f) f"
    by (simp add: ready_at_def QMF_ROUNDTRIP_LATENCY_SAMPLES_def)
  show ?thesis
    using assms pend(2-) run not_ready
    by - (rule enqueue_drain [of ?s4 "in_start_sample f" "in_start_sample f" n "[]" "[]"
           "in_frame_index f" f rate ch, OF rows start pend(1)],
         auto simp: segment_state_def)
qed

lemma push_next:
  assumes "segment_state rate ch n re te i s0 fs s" and "fs \<noteq> []"
    and cont: "contiguous i s0 (fs @ [f])"
    and valid: "\<forall>g \<in> set (fs @ [f]). frame_valid rate ch n g" and "\<not> in_discontinuity f" and "0 < ch"
    and fits: "in_end_sample f \<le> u64_max" "i + length fs < u64_max"
  shows "\<exists>s' outs. push_frame f s = (Inr outs, s')
    \<and> segment_state rate ch n re te i s0 (fs @ [f]) s'
    \<and> emitted re te n s0 fs @ outs = emitted re te n s0 (fs @ [f])"
proof -
  have s: "sample_rate s = Some rate" "base_channel_count s = Some ch" "reconstruction_row_count s = Some n"
    "\<not> finished s" "tail_start_sample s = None" "reset_epoch s = re" "topology_epoch s = te"
    "next_input_frame s = i + length fs" "next_input_sample s = segment_end s0 fs"
    "reconstruction_end_sample s = segment_end s0 fs"
    using assms(1) by (auto simp: segment_state_def)
  let ?ps = "dropWhile (ready_at (segment_end s0 fs)) fs"
  obtain a where inv: "queue_inv s0 (row_streams n fs) ?ps a s"
    using assms(1) by (auto simp: segment_state_def)
  have f: "in_sample_rate f = rate" "length (in_base f) = ch" "length (in_basis f) = n"
    "in_frame_index f = i + length fs" "in_start_sample f = segment_end s0 fs" "segment_end s0 fs \<le> in_end_sample f"
    using cont valid by (auto simp: contiguous_append frame_valid_def)
  have run: "push_frame f s = (case drain_ready (enqueue_frame f s) of (outs, t) \<Rightarrow> (Inr outs, t))"
    by (rule push_frame_admitted [of s rate ch n])
      (use assms s f in \<open>auto simp: admit_continuity_def admit_sample_rate_def admit_base_topology_def
        admit_row_topology_def\<close>)
  have last: "\<not> ready_at (segment_end s0 fs) (last fs)"
  proof -
    have "fs = butlast fs @ [last fs]" using assms(2) by simp
    then have "segment_end s0 fs = in_end_sample (last fs)" by (metis segment_end.simps segment_end_append)
    then show ?thesis by (simp add: ready_at_def QMF_ROUNDTRIP_LATENCY_SAMPLES_def)
  qed
  then have nonempty: "?ps \<noteq> []" using assms(2) by (auto simp: dropWhile_eq_Nil_conv)
  have grow: "ready_at (segment_end s0 fs) g \<Longrightarrow> ready_at (in_end_sample f) g" for g
    using ready_at_mono f(6) by blast
  have qi: "reconstruction_rows s = map (drop (a - s0)) (row_streams n fs)" "reconstruction_start_sample s = Some a"
    "pending_frames s = map pend ?ps" "s0 \<le> a" "a \<le> segment_end s0 fs"
    "case ?ps of [] \<Rightarrow> a = segment_end s0 fs | g # _ \<Rightarrow> a \<le> in_start_sample g + QMF_ROUNDTRIP_LATENCY_SAMPLES
        \<and> (row_streams n fs \<noteq> [] \<longrightarrow> in_start_sample g \<le> a)"
    using inv nonempty s(10) by (auto simp: queue_inv_def split: list.splits)
  obtain s' where drain: "drain_ready (enqueue_frame f s) =
       (map (spec_output (reset_epoch s) (topology_epoch s) (tail_start_sample s) s0 (row_streams n (fs @ [f])))
          (takeWhile (ready_at (in_end_sample f)) (?ps @ [f])), s')"
    and s': "sample_rate s' = sample_rate s" "base_channel_count s' = base_channel_count s"
    "reconstruction_row_count s' = reconstruction_row_count s" "finished s' = finished s"
    "tail_start_sample s' = tail_start_sample s" "reset_epoch s' = reset_epoch s"
    "topology_epoch s' = topology_epoch s" "next_input_frame s' = i + length (fs @ [f])"
    "next_input_sample s' = in_end_sample f" "reconstruction_end_sample s' = in_end_sample f"
    "\<exists>a'. queue_inv s0 (row_streams n (fs @ [f])) (dropWhile (ready_at (in_end_sample f)) (?ps @ [f])) a' s'"
    by (rule enqueue_drain [of s a s0 n fs ?ps i f rate ch])
      (use qi s(10) cont valid fits in auto)
  have state: "segment_state rate ch n re te i s0 (fs @ [f]) s'"
    using s s' dropWhile_grow [of "ready_at (segment_end s0 fs)" "ready_at (in_end_sample f)" fs "[f]", OF grow]
    by (simp add: segment_state_def)
  have old: "map (spec_output re te None s0 (row_streams n (fs @ [f]))) (takeWhile (ready_at (segment_end s0 fs)) fs)
      = emitted re te n s0 fs"
    unfolding emitted_def
  proof (rule map_cong [OF refl])
    fix g assume "g \<in> set (takeWhile (ready_at (segment_end s0 fs)) fs)"
    then have g: "g \<in> set fs" "in_end_sample g + QMF_ROUNDTRIP_LATENCY_SAMPLES \<le> segment_end s0 fs"
      by (auto dest: set_takeWhileD simp: ready_at_def)
    have "s0 \<le> in_start_sample g" "in_start_sample g \<le> in_end_sample g"
      using contiguous_member [of i s0 fs g] cont g by (auto simp: contiguous_append)
    moreover have "\<forall>row \<in> set (row_streams n fs). length row = segment_end s0 fs - s0"
      using length_row_stream [of i s0 fs rate ch n] cont valid by (auto simp: contiguous_append)
    ultimately show "spec_output re te None s0 (row_streams n (fs @ [f])) g
        = spec_output re te None s0 (row_streams n fs) g"
      using g(2) f(3) unfolding row_streams_snoc [OF f(3)]
      by (intro spec_output_extend) (auto intro: diff_le_mono)
  qed
  have "emitted re te n s0 fs
      @ map (spec_output re te None s0 (row_streams n (fs @ [f]))) (takeWhile (ready_at (in_end_sample f)) (?ps @ [f]))
      = emitted re te n s0 (fs @ [f])"
    using takeWhile_grow [of "ready_at (segment_end s0 fs)" "ready_at (in_end_sample f)" fs "[f]", OF grow]
    unfolding old [symmetric]
    by (simp add: emitted_def flip: map_append)
  with state run drain s show ?thesis by auto
qed


text \<open>The rest of a segment, pushed frame by frame.\<close>

lemma push_rest:
  assumes "segment_state rate ch n re te i s0 fs s" and "fs \<noteq> []" and "contiguous i s0 (fs @ gs)"
    and "\<forall>g \<in> set (fs @ gs). frame_valid rate ch n g" and "\<forall>g \<in> set gs. \<not> in_discontinuity g" and "0 < ch"
    and "segment_end s0 (fs @ gs) \<le> u64_max" and "i + length (fs @ gs) \<le> u64_max"
  shows "\<exists>s' outss. each_rd push_frame gs s = (Inr outss, s')
    \<and> segment_state rate ch n re te i s0 (fs @ gs) s'
    \<and> emitted re te n s0 fs @ concat outss = emitted re te n s0 (fs @ gs)"
  using assms
proof (induction gs arbitrary: fs s)
  case Nil
  then show ?case by (simp add: rd_simps)
next
  case (Cons g gs)
  have bound: "in_end_sample g \<le> u64_max" "i + length fs < u64_max"
    using Cons.prems contiguous_le_end [of _ "in_end_sample g" gs]
    by (auto simp: contiguous_append intro: order_trans)
  have cont: "contiguous i s0 (fs @ [g])" using Cons.prems(3) by (simp add: contiguous_append)
  have valid: "\<forall>h \<in> set (fs @ [g]). frame_valid rate ch n h" "\<not> in_discontinuity g"
    using Cons.prems(4,5) by simp_all
  obtain s1 outs where one: "push_frame g s = (Inr outs, s1)" "segment_state rate ch n re te i s0 (fs @ [g]) s1"
    "emitted re te n s0 fs @ outs = emitted re te n s0 (fs @ [g])"
    using push_next [OF Cons.prems(1,2) cont valid Cons.prems(6) bound] by auto
  obtain s' outss where more: "each_rd push_frame gs s1 = (Inr outss, s')"
    "segment_state rate ch n re te i s0 (fs @ g # gs) s'"
    "emitted re te n s0 (fs @ [g]) @ concat outss = emitted re te n s0 (fs @ g # gs)"
    using Cons.IH [OF one(2)] Cons.prems by auto
  have "each_rd push_frame (g # gs) s = (Inr (outs # outss), s')"
    using one(1) more(1) by (simp add: bind_rd_Inr rd_simps)
  moreover have "emitted re te n s0 fs @ concat (outs # outss) = emitted re te n s0 (fs @ g # gs)"
    using one(3) more(3) by (simp flip: append_assoc)
  ultimately show ?case using more(2) by auto
qed

lemma emitted_single: "emitted re te n s [f] = []"
  by (simp add: emitted_def ready_at_def QMF_ROUNDTRIP_LATENCY_SAMPLES_def)

lemma push_segment:
  assumes "segment_start rate re te f s" and "contiguous (in_frame_index f) (in_start_sample f) (f # gs)"
    and "\<forall>g \<in> set (f # gs). frame_valid rate ch n g" and "\<forall>g \<in> set gs. \<not> in_discontinuity g" and "0 < ch"
    and "segment_end (in_start_sample f) (f # gs) \<le> u64_max" and "in_frame_index f + length (f # gs) \<le> u64_max"
  shows "\<exists>s' outss. each_rd push_frame (f # gs) s = (Inr outss, s')
    \<and> segment_state rate ch n re te (in_frame_index f) (in_start_sample f) (f # gs) s'
    \<and> concat outss = emitted re te n (in_start_sample f) (f # gs)"
proof -
  have f: "frame_valid rate ch n f" "in_start_sample f \<le> in_end_sample f" using assms(2,3) by simp_all
  have bound: "in_end_sample f \<le> u64_max" "in_frame_index f < u64_max"
    using assms(2,6,7) contiguous_le_end [of _ "in_end_sample f" gs] by (auto intro: order_trans)
  obtain s1 where one: "push_frame f s = (Inr [], s1)"
    "segment_state rate ch n re te (in_frame_index f) (in_start_sample f) [f] s1"
    using push_first [OF assms(1) f(1) assms(5) f(2) bound] by auto
  obtain s' outss where more: "each_rd push_frame gs s1 = (Inr outss, s')"
    "segment_state rate ch n re te (in_frame_index f) (in_start_sample f) ([f] @ gs) s'"
    "emitted re te n (in_start_sample f) [f] @ concat outss = emitted re te n (in_start_sample f) ([f] @ gs)"
    using push_rest [OF one(2), of gs] assms by auto
  have "concat outss = emitted re te n (in_start_sample f) (f # gs)"
    using more(3) unfolding emitted_single append_Nil append_Cons .
  moreover have "each_rd push_frame (f # gs) s = (Inr ([] # outss), s')"
    using one(1) more(1) by (simp add: bind_rd_Inr rd_simps)
  ultimately show ?thesis using more(2) by (intro exI [of _ s'] exI [of _ "[] # outss"]) simp
qed

section \<open>The tail\<close>

definition tail_valid :: "nat \<Rightarrow> f64_bits list list \<Rightarrow> bool" where
  "tail_valid n tail \<longleftrightarrow> length tail = n \<and> check_tail 0 tail = None"

lemma contiguous_dropWhile:
  "contiguous i s fs \<Longrightarrow> contiguous (i + length (takeWhile P fs)) (segment_end s (takeWhile P fs)) (dropWhile P fs)"
  by (metis contiguous_append takeWhile_dropWhile_id)

lemma finish_segment:
  assumes "segment_state rate ch n re te i s0 fs s" and "contiguous i s0 fs"
    and "\<forall>g \<in> set fs. frame_valid rate ch n g" and tail: "tail_valid n tail"
    and fits: "segment_end s0 fs + QMF_ROUNDTRIP_LATENCY_SAMPLES \<le> u64_max"
  shows "\<exists>s' outs. finish tail s = (Inr outs, s') \<and> finished s' \<and> pending_frames s' = []
    \<and> emitted re te n s0 fs @ outs
      = map (spec_output re te (Some (segment_end s0 fs)) s0 (map2 (@) (row_streams n fs) tail)) fs"
proof -
  let ?E = "segment_end s0 fs" and ?L = QMF_ROUNDTRIP_LATENCY_SAMPLES
  let ?ps = "dropWhile (ready_at ?E) fs" and ?st = "map2 (@) (row_streams n fs) tail"
  obtain a where inv: "queue_inv s0 (row_streams n fs) ?ps a s"
    using assms(1) by (auto simp: segment_state_def)
  have s: "reconstruction_row_count s = Some n" "\<not> finished s" "reset_epoch s = re" "topology_epoch s = te"
    "reconstruction_end_sample s = ?E"
    using assms(1) by (auto simp: segment_state_def)
  have a: "s0 \<le> a" "a \<le> ?E" "reconstruction_start_sample s = Some a"
    "reconstruction_rows s = map (drop (a - s0)) (row_streams n fs)" "pending_frames s = map pend ?ps"
    using inv s(5) by (auto simp: queue_inv_def)
  have n: "length tail = n" "\<forall>row \<in> set tail. length row = ?L"
    using tail check_tail_None by (auto simp: tail_valid_def)
  have len: "\<forall>row \<in> set (row_streams n fs). length row = ?E - s0"
    using length_row_stream [of i s0 fs rate ch n] assms(2,3) by auto
  let ?s1 = "s\<lparr>tail_start_sample := Some (reconstruction_end_sample s),
     reconstruction_rows := extend_rows (reconstruction_rows s) tail,
     reconstruction_end_sample := sat_add (reconstruction_end_sample s) ?L\<rparr>"
  have ext: "extend_rows (reconstruction_rows s) tail = map (drop (a - s0)) ?st"
  proof -
    have "extend_rows (reconstruction_rows s) tail = map2 (@) (map (drop (a - s0)) (row_streams n fs)) tail"
      using n a by (simp add: extend_rows_map2)
    also have "\<dots> = map (drop (a - s0)) ?st"
      by (rule nth_equalityI) (use n len a in auto)
    finally show ?thesis .
  qed
  have end1: "sat_add ?E ?L = ?E + ?L" using fits by (simp add: sat_add_def)
  have len1: "\<forall>row \<in> set ?st. length row = ?E + ?L - s0"
    using n len a by (auto simp: in_set_zip)
  have inv1: "queue_inv s0 ?st ?ps a ?s1"
  proof -
    have "case ?ps of [] \<Rightarrow> True | g # _ \<Rightarrow> a \<le> in_start_sample g + ?L \<and> (?st \<noteq> [] \<longrightarrow> in_start_sample g \<le> a)"
      using inv n(1) by (cases ?ps) (auto simp: queue_inv_def simp del: dropWhile_eq_Nil_conv)
    then show ?thesis
      using s ext end1 len1 a fits by (simp add: queue_inv_def del: map_is_Nil_conv)
  qed
  have all: "\<forall>g \<in> set fs. ready_at (?E + ?L) g"
    using contiguous_member [OF assms(2)] by (auto simp: ready_at_def)
  then have take_all: "takeWhile (ready_at (?E + ?L)) ?ps = ?ps" "dropWhile (ready_at (?E + ?L)) ?ps = []"
    by (auto simp: takeWhile_eq_all_conv dropWhile_eq_Nil_conv dest: set_dropWhileD)
  obtain a' s2 where loop: "drain_loop a ?s1 = (map (spec_output re te (Some ?E) s0 ?st) ?ps, s2)"
    and inv2: "queue_inv s0 ?st [] a' s2"
    using drain_loop_spec [OF inv1 contiguous_dropWhile [OF assms(2)], of a] s end1 take_all by auto
  have drain: "drain_ready ?s1 = (map (spec_output re te (Some ?E) s0 ?st) ?ps, update_peak_buffered_samples s2)"
    using loop a(3) by (simp add: drain_ready_def)
  have empty: "pending_frames s2 = []" using inv2 by (simp add: queue_inv_def)
  have run: "finish tail s = (Inr (map (spec_output re te (Some ?E) s0 ?st) ?ps),
      update_peak_buffered_samples s2\<lparr>finished := True\<rparr>)"
    using s tail n(1) drain empty by (simp add: finish_def tail_valid_def Let_def)
  have old: "emitted re te n s0 fs = map (spec_output re te (Some ?E) s0 ?st) (takeWhile (ready_at ?E) fs)"
    unfolding emitted_def
  proof (rule map_cong [OF refl])
    fix g assume "g \<in> set (takeWhile (ready_at ?E) fs)"
    then have g: "g \<in> set fs" "in_end_sample g + ?L \<le> ?E"
      by (auto dest: set_takeWhileD simp: ready_at_def)
    have "s0 \<le> in_start_sample g" "in_start_sample g \<le> in_end_sample g"
      using contiguous_member [OF assms(2) g(1)] by auto
    then have "spec_output re te (Some ?E) s0 ?st g = spec_output re te (Some ?E) s0 (row_streams n fs) g"
      using n len g by (intro spec_output_extend) (auto intro: diff_le_mono)
    then show "spec_output re te None s0 (row_streams n fs) g = spec_output re te (Some ?E) s0 ?st g"
      using g(2) by (simp add: spec_output_def)
  qed
  have "emitted re te n s0 fs @ map (spec_output re te (Some ?E) s0 ?st) ?ps
      = map (spec_output re te (Some ?E) s0 ?st) fs"
    unfolding old by (simp flip: map_append)
  with run empty show ?thesis by auto
qed


section \<open>The memory bound\<close>

lemma frame_sizes:
  assumes "frame_valid rate ch n f"
  shows "sum_list (map length (in_base f)) = ch * (in_end_sample f - in_start_sample f)"
    and "(case in_lfe f of None \<Rightarrow> 0 | Some l \<Rightarrow> length l) \<le> in_end_sample f - in_start_sample f"
proof -
  let ?d = "in_end_sample f - in_start_sample f"
  have none: "validate_frame_pcm (in_base f) (in_basis f) (in_lfe f) ?d = None"
    using assms by (simp add: frame_valid_def)
  have "\<forall>row \<in> set (in_base f). length row = ?d"
    using none check_rows_None by (fastforce simp: validate_frame_pcm_def split: option.splits)
  then have "map length (in_base f) = replicate (length (in_base f)) ?d"
    by (simp add: map_replicate_const [symmetric] cong: map_cong)
  then show "sum_list (map length (in_base f)) = ch * ?d"
    using assms by (simp add: frame_valid_def sum_list_replicate)
  show "(case in_lfe f of None \<Rightarrow> 0 | Some l \<Rightarrow> length l) \<le> ?d"
    using none by (auto simp: validate_frame_pcm_def split: option.splits if_splits)
qed

lemma pending_samples:
  assumes "contiguous i s fs" and "\<forall>f \<in> set fs. frame_valid rate ch n f"
  shows "sum_list (map (\<lambda>f. sum_list (map length (in_base f)) + (case in_lfe f of None \<Rightarrow> 0 | Some l \<Rightarrow> length l)) fs)
    \<le> (ch + 1) * (segment_end s fs - s)"
  using assms
proof (induction i s fs rule: contiguous.induct)
  case (2 i s f fs)
  then have le: "s \<le> in_end_sample f" "in_end_sample f \<le> segment_end (in_end_sample f) fs"
    using contiguous_le_end by auto
  have "sum_list (map length (in_base f)) + (case in_lfe f of None \<Rightarrow> 0 | Some l \<Rightarrow> length l)
      \<le> (ch + 1) * (in_end_sample f - s)"
    using frame_sizes [of rate ch n f] "2.prems" by auto
  moreover have "(ch + 1) * (in_end_sample f - s) + (ch + 1) * (segment_end (in_end_sample f) fs - in_end_sample f)
      = (ch + 1) * (segment_end (in_end_sample f) fs - s)"
  proof -
    have "segment_end (in_end_sample f) fs - s = (in_end_sample f - s) + (segment_end (in_end_sample f) fs - in_end_sample f)"
      using le by simp
    then show ?thesis by (simp only: distrib_left)
  qed
  ultimately show ?case using 2 by (simp del: mult_Suc)
qed simp

lemma segment_buffer_bound:
  assumes state: "segment_state rate ch n re te i s0 fs s" and cont: "contiguous i s0 fs"
    and valid: "\<forall>g \<in> set fs. frame_valid rate ch n g"
    and len: "\<forall>g \<in> set fs. in_end_sample g - in_start_sample g \<le> m"
  shows "\<forall>row \<in> set (reconstruction_rows s). length row \<le> QMF_ROUNDTRIP_LATENCY_SAMPLES + m"
    and "persistent_state_bytes s \<le> (n + ch + 1) * (QMF_ROUNDTRIP_LATENCY_SAMPLES + m) * 8"
proof -
  let ?E = "segment_end s0 fs" and ?L = QMF_ROUNDTRIP_LATENCY_SAMPLES
  let ?ps = "dropWhile (ready_at ?E) fs"
  obtain a where inv: "queue_inv s0 (row_streams n fs) ?ps a s" and E: "reconstruction_end_sample s = ?E"
    using state by (auto simp: segment_state_def)
  have rows: "\<forall>row \<in> set (reconstruction_rows s). length row = ?E - a" "length (reconstruction_rows s) = n"
    using inv E length_row_stream [OF cont valid] by (auto simp: queue_inv_def)
  have window: "(n \<noteq> 0 \<longrightarrow> ?E - a \<le> ?L + m) \<and> segment_end (segment_end s0 (takeWhile (ready_at ?E) fs)) ?ps
      - segment_end s0 (takeWhile (ready_at ?E) fs) \<le> ?L + m"
  proof (cases ?ps)
    case Nil
    then have "fs = takeWhile (ready_at ?E) fs" by (metis append_Nil2 takeWhile_dropWhile_id)
    then have all: "\<forall>g \<in> set fs. ready_at ?E g" by (metis set_takeWhileD)
    have "fs = []"
    proof (rule ccontr)
      assume "fs \<noteq> []"
      then have "?E = in_end_sample (last fs)"
        by (metis append_butlast_last_id segment_end.simps segment_end_append)
      moreover have "ready_at ?E (last fs)" using all \<open>fs \<noteq> []\<close> by simp
      ultimately show False by (simp add: ready_at_def QMF_ROUNDTRIP_LATENCY_SAMPLES_def)
    qed
    then show ?thesis using inv by (simp add: queue_inv_def)
  next
    case (Cons g gs)
    have "g \<in> set fs" using Cons by (metis list.set_intros(1) set_dropWhileD)
    then have small: "in_end_sample g - in_start_sample g \<le> m" using len by blast
    have late: "\<not> ready_at ?E g" using Cons by (metis dropWhile_eq_Cons_conv)
    have start: "in_start_sample g = segment_end s0 (takeWhile (ready_at ?E) fs)"
      using contiguous_dropWhile [OF cont, of "ready_at ?E"] Cons by simp
    have whole: "segment_end (segment_end s0 (takeWhile (ready_at ?E) fs)) ?ps = ?E"
      by (metis segment_end_append takeWhile_dropWhile_id)
    have "in_start_sample g \<le> in_end_sample g"
      using contiguous_dropWhile [OF cont, of "ready_at ?E"] Cons by simp
    moreover have "n \<noteq> 0 \<longrightarrow> in_start_sample g \<le> a"
      using inv Cons by (simp add: queue_inv_def)
    moreover have "segment_end (segment_end s0 (takeWhile (ready_at ?E) fs)) ?ps
        - segment_end s0 (takeWhile (ready_at ?E) fs) = ?E - in_start_sample g"
      by (simp only: whole start)
    ultimately show ?thesis using late small by (auto simp: ready_at_def)
  qed
  show "\<forall>row \<in> set (reconstruction_rows s). length row \<le> ?L + m"
    using rows window by (metis length_greater_0_conv length_pos_if_in_set less_numeral_extra(3))
  then have "sum_list (map length (reconstruction_rows s)) \<le> n * (?L + m)"
    using rows(2) sum_list_mono [of "reconstruction_rows s" length "\<lambda>_. ?L + m"]
    by (simp add: sum_list_replicate map_replicate_const)
  moreover have "sum_list (map (\<lambda>f. sum_list (map length (pf_base_full_band_pcm f))
      + (case pf_lfe_pcm f of None \<Rightarrow> 0 | Some l \<Rightarrow> length l)) (pending_frames s)) \<le> (ch + 1) * (?L + m)"
  proof -
    have "\<forall>g \<in> set ?ps. frame_valid rate ch n g" using valid by (auto dest: set_dropWhileD)
    then have "sum_list (map (\<lambda>f. sum_list (map length (in_base f)) + (case in_lfe f of None \<Rightarrow> 0 | Some l \<Rightarrow> length l)) ?ps)
        \<le> (ch + 1) * (segment_end (segment_end s0 (takeWhile (ready_at ?E) fs)) ?ps
            - segment_end s0 (takeWhile (ready_at ?E) fs))"
      by (intro pending_samples [OF contiguous_dropWhile [OF cont]])
    also have "\<dots> \<le> (ch + 1) * (?L + m)" using window by (intro mult_le_mono2) blast
    finally show ?thesis using inv by (simp add: queue_inv_def comp_def)
  qed
  ultimately show "persistent_state_bytes s \<le> (n + ch + 1) * (?L + m) * 8"
    unfolding persistent_state_bytes_def by (simp add: algebra_simps)
qed

section \<open>Rejected calls\<close>

text \<open>The timelines that a client can hold: any calls, accepted or rejected, from a new one.\<close>

inductive timeline_reached :: "timeline_state \<Rightarrow> bool" where
  reached_new: "timeline_reached new_timeline"
| reached_push: "timeline_reached s \<Longrightarrow> push_frame f s = (r, s') \<Longrightarrow> timeline_reached s'"
| reached_finish: "timeline_reached s \<Longrightarrow> finish tail s = (r, s') \<Longrightarrow> timeline_reached s'"
| reached_reset: "timeline_reached s \<Longrightarrow> timeline_reached (timeline_reset s)"

text \<open>The two counts of a topology are set together, and only under a sampling rate.\<close>

definition counts_agree :: "timeline_state \<Rightarrow> bool" where
  "counts_agree s \<longleftrightarrow> (base_channel_count s = None \<longleftrightarrow> reconstruction_row_count s = None)
     \<and> (sample_rate s = None \<longrightarrow> base_channel_count s = None)"

lemma counts_agree_drain_loop: "counts_agree (snd (drain_loop a s)) = counts_agree s"
proof (induction a s rule: drain_loop.induct)
  case (1 a s)
  show ?case
  proof (cases "front_ready s")
    case True
    then obtain p rest where p: "pending_frames s = p # rest" by (auto simp: front_ready_def split: list.splits)
    obtain out s' where d: "drain_front a p rest s = (out, s')" by fastforce
    then have "counts_agree s' = counts_agree s" by (auto simp: drain_front_def Let_def counts_agree_def)
    with 1 [OF True p] d True p show ?thesis by (subst drain_loop.simps) (simp add: split_beta)
  qed (subst drain_loop.simps, simp)
qed

lemma counts_agree_drain: "counts_agree (snd (drain_ready s)) = counts_agree s"
  using counts_agree_drain_loop [of _ s]
  by (auto simp: drain_ready_def update_peak_buffered_samples_def counts_agree_def Let_def split_beta split: option.splits)

lemma counts_agree_enqueue: "counts_agree (enqueue_frame f s) = counts_agree s"
  by (simp add: enqueue_frame_def counts_agree_def Let_def)

lemma check_rows_error:
  "check_rows bad_length bad_sample n i rows = Some e \<Longrightarrow> (\<exists>a b. e = bad_length a b) \<or> (\<exists>a b. e = bad_sample a b)"
  by (induction i rows rule: check_rows.induct [of _ bad_length bad_sample n, case_names])
    (auto split: if_splits option.splits)

lemma validation_error: "validate_frame_pcm base basis lfe n = Some e \<Longrightarrow> e \<noteq> SampleRateMismatch a b"
  by (auto simp: validate_frame_pcm_def split: option.splits if_splits dest!: check_rows_error)

text \<open>The checks behind the validation, from the state that the continuity check leaves.\<close>

lemma admissions:
  assumes "counts_agree s"
  obtains (rate) rate where "sample_rate s = Some rate" "rate \<noteq> in_sample_rate f"
      "bind_rd (admit_sample_rate f) (\<lambda>_. bind_rd (admit_base_topology f) (\<lambda>_. bind_rd (admit_row_topology f) l)) s
        = (Inl (SampleRateMismatch rate (in_sample_rate f)), s)"
  | (base) n where "base_channel_count s = Some n"
      "bind_rd (admit_sample_rate f) (\<lambda>_. bind_rd (admit_base_topology f) (\<lambda>_. bind_rd (admit_row_topology f) l)) s
        = (Inl (BaseTopologyChanged n (length (in_base f))), s)"
  | (rows) n where "base_channel_count s \<noteq> None"
      "bind_rd (admit_sample_rate f) (\<lambda>_. bind_rd (admit_base_topology f) (\<lambda>_. bind_rd (admit_row_topology f) l)) s
        = (Inl (ReconstructionTopologyChanged n (length (in_basis f))), s)"
  | (accepted) t where "counts_agree t"
      "bind_rd (admit_sample_rate f) (\<lambda>_. bind_rd (admit_base_topology f) (\<lambda>_. bind_rd (admit_row_topology f) l)) s = l () t"
proof -
  consider "\<exists>rate. sample_rate s = Some rate \<and> rate \<noteq> in_sample_rate f"
    | "base_channel_count s = None" "sample_rate s = None \<or> sample_rate s = Some (in_sample_rate f)"
    | n m where "base_channel_count s = Some n" "reconstruction_row_count s = Some m" "sample_rate s = Some (in_sample_rate f)"
    using assms by (cases "sample_rate s"; cases "base_channel_count s"; cases "reconstruction_row_count s")
      (auto simp: counts_agree_def)
  then show thesis
  proof cases
    case 1
    then show thesis using rate by (auto simp: bind_rd_def admit_sample_rate_def)
  next
    case 2
    then have "reconstruction_row_count s = None" using assms by (simp add: counts_agree_def)
    with 2 show thesis
      by (intro accepted [of "(if sample_rate s = None then s\<lparr>sample_rate := Some (in_sample_rate f)\<rparr> else s)\<lparr>base_channel_count := Some (length (in_base f)),
          reconstruction_row_count := Some (length (in_basis f))\<rparr>"])
        (auto simp: counts_agree_def bind_rd_def admit_sample_rate_def admit_base_topology_def admit_row_topology_def Let_def)
  next
    case 3
    then show thesis
      using base [of n] rows [of m] accepted [of s] assms
      by (cases "n = length (in_base f)"; cases "m = length (in_basis f)")
        (auto simp: bind_rd_def admit_sample_rate_def admit_base_topology_def admit_row_topology_def Let_def)
  qed
qed

lemma push_frame_cases:
  assumes "push_frame f s = (r, s')" and "counts_agree s"
  obtains (kept) e where "r = Inl e" "s' = s"
      "\<not> (in_discontinuity f \<and> (\<exists>rate. sample_rate s = Some rate \<and> e = SampleRateMismatch rate (in_sample_rate f)))"
  | (reset) rate where "in_discontinuity f" "sample_rate s = Some rate"
      "r = Inl (SampleRateMismatch rate (in_sample_rate f))"
      "s' = reset_for_discontinuity (in_frame_index f) (in_start_sample f) s"
  | (accepted) t outs where "counts_agree t" "drain_ready (enqueue_frame f t) = (outs, s')" "r = Inr outs"
proof -
  let ?l = "\<lambda>_ t. let (outs, t') = drain_ready (enqueue_frame f t) in (Inr outs, t')"
  let ?admit = "bind_rd (admit_sample_rate f) (\<lambda>_. bind_rd (admit_base_topology f) (\<lambda>_. bind_rd (admit_row_topology f) ?l))"
  let ?t = "reset_for_discontinuity (in_frame_index f) (in_start_sample f) s"
  have reset_fields: "counts_agree ?t" "base_channel_count ?t = None" "sample_rate ?t = sample_rate s"
    by (simp_all add: reset_for_discontinuity_def counts_agree_def)
  consider e where "(r, s') = (Inl e, s)" "\<forall>a b. e \<noteq> SampleRateMismatch a b"
    | "in_discontinuity f" "?admit ?t = (r, s')" | "\<not> in_discontinuity f" "?admit s = (r, s')"
    using assms(1)
    by (auto simp: push_frame_def bind_rd_def [of "admit_continuity f"] admit_continuity_def dest: validation_error
        split: if_splits option.splits)
  then show thesis
  proof cases
    case 1
    then show thesis using kept by blast
  next
    case 2
    from reset_fields(1) show thesis
    proof (cases rule: admissions [where f = f and l = ?l])
      case (rate x)
      then show thesis using reset [of x] 2 reset_fields(3) by simp
    next
      case (accepted t)
      obtain outs t' where "drain_ready (enqueue_frame f t) = (outs, t')" by fastforce
      with accepted 2 show thesis using that(3) [of t outs] by simp
    qed (use reset_fields(2) in auto)
  next
    case 3
    from assms(2) show thesis
    proof (cases rule: admissions [where f = f and l = ?l])
      case (rate x)
      then show thesis using kept 3 by auto
    next
      case (accepted t)
      obtain outs t' where "drain_ready (enqueue_frame f t) = (outs, t')" by fastforce
      with accepted 3 show thesis using that(3) [of t outs] by simp
    qed (use kept 3 in auto)
  qed
qed

lemma push_frame_counts: "push_frame f s = (r, s') \<Longrightarrow> counts_agree s \<Longrightarrow> counts_agree s'"
proof (erule (1) push_frame_cases)
  fix t outs
  assume "counts_agree s" "counts_agree t" "drain_ready (enqueue_frame f t) = (outs, s')"
  then show "counts_agree s'" using counts_agree_drain [of "enqueue_frame f t"] counts_agree_enqueue by simp
qed (simp_all add: reset_for_discontinuity_def counts_agree_def)

lemma push_error_state:
  assumes "push_frame f s = (Inl e, s')" and "counts_agree s"
  shows "s' = (if in_discontinuity f \<and> (\<exists>rate. sample_rate s = Some rate \<and> e = SampleRateMismatch rate (in_sample_rate f))
           then reset_for_discontinuity (in_frame_index f) (in_start_sample f) s else s)"
  using assms by (cases rule: push_frame_cases) auto

lemma finish_counts: "finish tail s = (r, s') \<Longrightarrow> counts_agree s \<Longrightarrow> counts_agree s'"
  using counts_agree_drain [of "s\<lparr>tail_start_sample := Some (reconstruction_end_sample s),
      reconstruction_rows := extend_rows (reconstruction_rows s) tail,
      reconstruction_end_sample := sat_add (reconstruction_end_sample s) QMF_ROUNDTRIP_LATENCY_SAMPLES\<rparr>"]
  by (auto simp: finish_def Let_def split_beta counts_agree_def split: if_splits option.splits)

lemma finish_error_state:
  "finish tail s = (Inl e, s') \<Longrightarrow>
   s' = s \<or> finished s' \<and> pending_frames s' \<noteq> [] \<and> e = MissingTail (length (pending_frames s'))"
  by (auto simp: finish_def Let_def split_beta split: if_splits option.splits)

lemma reached_counts: "timeline_reached s \<Longrightarrow> counts_agree s"
proof (induction rule: timeline_reached.induct)
  case reached_new
  then show ?case by (simp add: counts_agree_def new_timeline_def)
next
  case (reached_push s f r s')
  then show ?case using push_frame_counts by blast
next
  case (reached_finish s tail r s')
  then show ?case using finish_counts by blast
next
  case (reached_reset s)
  then show ?case by (simp add: counts_agree_def timeline_reset_def)
qed

lemma push_finished: "finished s \<Longrightarrow> push_frame f s = (Inl Finished, s)"
  by (simp add: push_frame_def)

lemma finish_finished: "finished s \<Longrightarrow> finish tail s = (Inl Finished, s)"
  by (simp add: finish_def)

end
