(* ===== verification/TimelineProps.thy ===== *)
theory TimelineProps
  imports TimelineSpec
begin

text \<open>
  The properties of the output timeline, each with a witness on a small segment.
\<close>

section \<open>Example segment\<close>

lemma first_non_finite_replicate: "f64_is_finite x \<Longrightarrow> first_non_finite (replicate k x) = None"
  by (induction k) simp_all

text \<open>A small segment: three frames of two samples, one base channel and one row.\<close>

definition sample_frame :: "nat \<Rightarrow> frame_input" where
  "sample_frame k = \<lparr>in_frame_index = k, in_sample_rate = 48000, in_start_sample = 2 * k,
     in_end_sample = 2 * k + 2, in_base = [[0, 1]], in_basis = [[2, 3]], in_lfe = Some [4, 5],
     in_discontinuity = False\<rparr>"

lemmas sample_frame_eval = sample_frame_def frame_valid_def validate_frame_pcm_def f64_is_finite_def

lemma sample_frame_valid: "frame_valid 48000 1 1 (sample_frame k)"
  by (simp add: sample_frame_eval)

lemma sample_tail_valid: "tail_valid 1 [replicate 577 0]"
  by (simp add: tail_valid_def QMF_ROUNDTRIP_LATENCY_SAMPLES_def first_non_finite_replicate f64_is_finite_def)

lemma sample_segment:
  "contiguous 0 0 [sample_frame 0, sample_frame 1, sample_frame 2]"
  "segment_end 0 [sample_frame 0, sample_frame 1, sample_frame 2] = 6"
  by (simp_all add: sample_frame_def)

lemma sample_start: "segment_start 48000 0 0 (sample_frame 0) new_timeline"
  by (simp add: segment_start_def sample_frame_def fresh_new) (simp add: new_timeline_def)

lemma sample_premises:
  "segment_start 48000 0 0 (sample_frame 0) new_timeline"
  "contiguous (in_frame_index (sample_frame 0)) (in_start_sample (sample_frame 0)) (sample_frame 0 # [sample_frame 1, sample_frame 2])"
  "\<forall>g \<in> set (sample_frame 0 # [sample_frame 1, sample_frame 2]). frame_valid 48000 1 1 g"
  "\<forall>g \<in> set [sample_frame 1, sample_frame 2]. \<not> in_discontinuity g"
  "(0 :: nat) < 1"
  "segment_end (in_start_sample (sample_frame 0)) (sample_frame 0 # [sample_frame 1, sample_frame 2]) \<le> u64_max"
  "in_frame_index (sample_frame 0) + length (sample_frame 0 # [sample_frame 1, sample_frame 2]) \<le> u64_max"
  "\<forall>g \<in> set (sample_frame 0 # [sample_frame 1, sample_frame 2]). in_end_sample g - in_start_sample g \<le> 2"
  using sample_start sample_frame_valid [of 0] sample_frame_valid [of 1] sample_frame_valid [of 2]
  by (auto simp: sample_frame_def u64_max_def)

text \<open>
  C2: over one segment of contiguous frames the timeline is a delay line.  Pushing the
  validated frames one by one and then finishing with a tail of the filterbank latency never
  fails, and the outputs of all calls together are, in order and once each, the frames with
  their own base interval, LFE and sample numbers and the reconstruction stream shifted by the
  latency; afterwards nothing is pending and every further call is refused.
\<close>

theorem timeline_segment_is_delay_line:
  assumes "segment_start rate re te f s" and "contiguous (in_frame_index f) (in_start_sample f) (f # gs)"
    and "\<forall>g \<in> set (f # gs). frame_valid rate ch n g" and "\<forall>g \<in> set gs. \<not> in_discontinuity g" and "0 < ch"
    and "tail_valid n tail"
    and "segment_end (in_start_sample f) (f # gs) + QMF_ROUNDTRIP_LATENCY_SAMPLES \<le> u64_max"
    and "in_frame_index f + length (f # gs) \<le> u64_max"
  shows "\<exists>s1 outss s2 outs. each_rd push_frame (f # gs) s = (Inr outss, s1) \<and> finish tail s1 = (Inr outs, s2)
    \<and> concat outss @ outs
        = map (spec_output re te (Some (segment_end (in_start_sample f) (f # gs))) (in_start_sample f)
            (map2 (@) (row_streams n (f # gs)) tail)) (f # gs)
    \<and> pending_frames s2 = []
    \<and> (\<forall>g. push_frame g s2 = (Inl Finished, s2)) \<and> (\<forall>t. finish t s2 = (Inl Finished, s2))"
proof -
  obtain s1 outss where push: "each_rd push_frame (f # gs) s = (Inr outss, s1)"
    "segment_state rate ch n re te (in_frame_index f) (in_start_sample f) (f # gs) s1"
    "concat outss = emitted re te n (in_start_sample f) (f # gs)"
    using push_segment [OF assms(1-5) _ assms(8)] assms(7) by auto
  with finish_segment [OF push(2) assms(2,3,6,7)] push_finished finish_finished show ?thesis by metis
qed

theorem timeline_segment_is_delay_line_witness:
  "\<exists>s1 outss s2 outs. each_rd push_frame [sample_frame 0, sample_frame 1, sample_frame 2] new_timeline = (Inr outss, s1)
    \<and> finish [replicate 577 0] s1 = (Inr outs, s2) \<and> length (concat outss @ outs) = 3 \<and> pending_frames s2 = []"
proof -
  have "\<exists>s1 outss s2 outs. each_rd push_frame (sample_frame 0 # [sample_frame 1, sample_frame 2]) new_timeline = (Inr outss, s1)
    \<and> finish [replicate 577 0] s1 = (Inr outs, s2)
    \<and> concat outss @ outs
        = map (spec_output 0 0 (Some (segment_end (in_start_sample (sample_frame 0)) (sample_frame 0 # [sample_frame 1, sample_frame 2])))
            (in_start_sample (sample_frame 0))
            (map2 (@) (row_streams 1 (sample_frame 0 # [sample_frame 1, sample_frame 2])) [replicate 577 0]))
          (sample_frame 0 # [sample_frame 1, sample_frame 2])
    \<and> pending_frames s2 = []
    \<and> (\<forall>g. push_frame g s2 = (Inl Finished, s2)) \<and> (\<forall>t. finish t s2 = (Inl Finished, s2))"
    by (rule timeline_segment_is_delay_line [where ch = 1 and rate = 48000])
      (rule sample_premises sample_tail_valid | simp add: sample_frame_def u64_max_def QMF_ROUNDTRIP_LATENCY_SAMPLES_def)+
  then show ?thesis by (metis length_map length_Cons list.size(3) numeral_3_eq_3)
qed

text \<open>
  C25: a push emits a frame as soon as the latency is covered and no earlier: after any prefix
  of a segment the outputs so far are exactly those of the frames whose end plus the latency
  the reconstruction stream has reached, computed from the rows received so far.
\<close>

theorem timeline_emits_when_latency_is_covered:
  assumes "segment_start rate re te f s" and "contiguous (in_frame_index f) (in_start_sample f) (f # gs)"
    and "\<forall>g \<in> set (f # gs). frame_valid rate ch n g" and "\<forall>g \<in> set gs. \<not> in_discontinuity g" and "0 < ch"
    and "segment_end (in_start_sample f) (f # gs) \<le> u64_max" and "in_frame_index f + length (f # gs) \<le> u64_max"
  shows "\<exists>s' outss. each_rd push_frame (f # gs) s = (Inr outss, s')
    \<and> concat outss = map (spec_output re te None (in_start_sample f) (row_streams n (f # gs)))
        (takeWhile (\<lambda>g. in_end_sample g + QMF_ROUNDTRIP_LATENCY_SAMPLES \<le> segment_end (in_start_sample f) (f # gs))
          (f # gs))
    \<and> length (concat outss) + length (pending_frames s') = length (f # gs)"
proof -
  let ?E = "segment_end (in_start_sample f) (f # gs)"
  obtain s' outss where push: "each_rd push_frame (f # gs) s = (Inr outss, s')"
    "segment_state rate ch n re te (in_frame_index f) (in_start_sample f) (f # gs) s'"
    "concat outss = emitted re te n (in_start_sample f) (f # gs)"
    using push_segment [OF assms] by auto
  have ready: "ready_at ?E = (\<lambda>g. in_end_sample g + QMF_ROUNDTRIP_LATENCY_SAMPLES \<le> ?E)"
    by (auto simp: ready_at_def)
  have "length (takeWhile (ready_at ?E) (f # gs)) + length (dropWhile (ready_at ?E) (f # gs)) = length (f # gs)"
    by (metis length_append takeWhile_dropWhile_id)
  moreover have "pending_frames s' = map pend (dropWhile (ready_at ?E) (f # gs))"
    using push(2) by (auto simp: segment_state_def queue_inv_def)
  ultimately show ?thesis using push(1,3) unfolding emitted_def ready by (metis length_map)
qed

theorem timeline_emits_when_latency_is_covered_witness:
  "\<exists>s' outss. each_rd push_frame [sample_frame 0, sample_frame 1, sample_frame 2] new_timeline = (Inr outss, s')
    \<and> concat outss = [] \<and> length (pending_frames s') = 3"
proof -
  have "\<exists>s' outss. each_rd push_frame (sample_frame 0 # [sample_frame 1, sample_frame 2]) new_timeline = (Inr outss, s')
    \<and> concat outss = map (spec_output 0 0 None (in_start_sample (sample_frame 0)) (row_streams 1 (sample_frame 0 # [sample_frame 1, sample_frame 2])))
        (takeWhile (\<lambda>g. in_end_sample g + QMF_ROUNDTRIP_LATENCY_SAMPLES \<le> segment_end (in_start_sample (sample_frame 0)) (sample_frame 0 # [sample_frame 1, sample_frame 2])) (sample_frame 0 # [sample_frame 1, sample_frame 2]))
    \<and> length (concat outss) + length (pending_frames s') = length (sample_frame 0 # [sample_frame 1, sample_frame 2])"
    by (rule timeline_emits_when_latency_is_covered [where ch = 1 and rate = 48000]) (rule sample_premises)+
  moreover have "takeWhile (\<lambda>g. in_end_sample g + QMF_ROUNDTRIP_LATENCY_SAMPLES
      \<le> segment_end (in_start_sample (sample_frame 0)) (sample_frame 0 # [sample_frame 1, sample_frame 2])) (sample_frame 0 # [sample_frame 1, sample_frame 2]) = []"
    by (simp add: sample_frame_def QMF_ROUNDTRIP_LATENCY_SAMPLES_def)
  ultimately show ?thesis by (metis add_0 length_Cons list.map(1) list.size(3) numeral_3_eq_3)
qed

text \<open>
  C24: the buffer is bounded.  When no frame of the segment is longer than \<open>m\<close> samples, after
  any number of pushes no reconstruction row holds more than the latency plus \<open>m\<close> samples and
  \<open>persistent_state_bytes\<close> stays below a constant that does not depend on the number of frames.
\<close>

theorem timeline_buffer_is_bounded:
  assumes "segment_start rate re te f s" and "contiguous (in_frame_index f) (in_start_sample f) (f # gs)"
    and "\<forall>g \<in> set (f # gs). frame_valid rate ch n g" and "\<forall>g \<in> set gs. \<not> in_discontinuity g" and "0 < ch"
    and "segment_end (in_start_sample f) (f # gs) \<le> u64_max" and "in_frame_index f + length (f # gs) \<le> u64_max"
    and "\<forall>g \<in> set (f # gs). in_end_sample g - in_start_sample g \<le> m"
  shows "\<exists>s' outss. each_rd push_frame (f # gs) s = (Inr outss, s')
    \<and> (\<forall>row \<in> set (reconstruction_rows s'). length row \<le> QMF_ROUNDTRIP_LATENCY_SAMPLES + m)
    \<and> persistent_state_bytes s' \<le> (n + ch + 1) * (QMF_ROUNDTRIP_LATENCY_SAMPLES + m) * 8"
  using push_segment [OF assms(1-7)] segment_buffer_bound [OF _ assms(2,3,8)] by metis

theorem timeline_buffer_is_bounded_witness:
  "\<exists>s' outss. each_rd push_frame [sample_frame 0, sample_frame 1, sample_frame 2] new_timeline = (Inr outss, s')
    \<and> persistent_state_bytes s' \<le> 3 * 579 * 8"
proof -
  have "\<exists>s' outss. each_rd push_frame (sample_frame 0 # [sample_frame 1, sample_frame 2]) new_timeline = (Inr outss, s')
    \<and> (\<forall>row \<in> set (reconstruction_rows s'). length row \<le> QMF_ROUNDTRIP_LATENCY_SAMPLES + 2)
    \<and> persistent_state_bytes s' \<le> (1 + 1 + 1) * (QMF_ROUNDTRIP_LATENCY_SAMPLES + 2) * 8"
    by (rule timeline_buffer_is_bounded [where ch = 1 and rate = 48000]) (rule sample_premises)+
  moreover have "(1 + 1 + 1) * (QMF_ROUNDTRIP_LATENCY_SAMPLES + 2) * 8 = 3 * 579 * (8 :: nat)"
    by (simp add: QMF_ROUNDTRIP_LATENCY_SAMPLES_def)
  ultimately show ?thesis by metis
qed

text \<open>
  C26: what a rejected call leaves behind.  For a timeline that any sequence of calls, accepted or
  rejected, has made from a new one: when \<open>push_frame\<close> fails, the timeline is as it was, with one
  exception.  A frame that declares a discontinuity and is then refused for its sampling rate has
  already cleared the timeline: the state is that of \<open>reset_for_discontinuity\<close>, pending frames and
  rows are lost and both epochs have moved.  When \<open>finish\<close> fails, the timeline is as it was unless the
  error is that the tail did not cover the pending frames; then it is finished.
\<close>

theorem timeline_rejects_atomically:
  assumes "timeline_reached s"
  shows "(push_frame f s = (Inl e, s') \<longrightarrow>
      s' = (if in_discontinuity f \<and> (\<exists>rate. sample_rate s = Some rate \<and> e = SampleRateMismatch rate (in_sample_rate f))
            then reset_for_discontinuity (in_frame_index f) (in_start_sample f) s else s))
    \<and> (finish tail s = (Inl e, s') \<longrightarrow>
      s' = s \<or> finished s' \<and> pending_frames s' \<noteq> [] \<and> e = MissingTail (length (pending_frames s')))"
  using push_error_state reached_counts [OF assms] finish_error_state by blast

text \<open>
  A frame is accepted; a frame out of order is refused and changes nothing; a frame at another rate that
  declares a discontinuity is refused too, and the accepted frame is gone.
\<close>

theorem timeline_rejects_atomically_witness:
  "\<exists>s. push_frame (sample_frame 0) new_timeline = (Inr [], s) \<and> length (pending_frames s) = 1
    \<and> push_frame (sample_frame 2) s = (Inl (FrameIndexDiscontinuity 1 2), s)
    \<and> (\<exists>s'. push_frame (sample_frame 2\<lparr>in_sample_rate := 44100, in_discontinuity := True\<rparr>) s
          = (Inl (SampleRateMismatch 48000 44100), s') \<and> pending_frames s' = [])"
proof -
  let ?g = "sample_frame 2\<lparr>in_sample_rate := 44100, in_discontinuity := True\<rparr>"
  obtain s where s: "push_frame (sample_frame 0) new_timeline = (Inr [], s)"
    "segment_state 48000 1 1 0 0 (in_frame_index (sample_frame 0)) (in_start_sample (sample_frame 0)) [sample_frame 0] s"
    using push_first [OF sample_start sample_frame_valid]
    by (force simp: sample_frame_def u64_max_def)
  have run: "\<not> finished s \<and> sample_rate s = Some 48000 \<and> next_input_frame s = 1"
    using s(2) by (simp add: segment_state_def sample_frame_def)
  have reached: "timeline_reached s" by (rule reached_push [OF reached_new s(1)])
  have "fst (push_frame (sample_frame 2) s) = Inl (FrameIndexDiscontinuity 1 2)"
    using run sample_frame_valid [of 2]
    by (simp add: push_frame_def frame_valid_def admit_continuity_def bind_rd_def) (simp add: sample_frame_def)
  moreover have "fst (push_frame ?g s) = Inl (SampleRateMismatch 48000 44100)"
    using run sample_frame_valid [of 2]
    by (simp add: push_frame_def frame_valid_def admit_continuity_def admit_sample_rate_def bind_rd_def
        reset_for_discontinuity_def) (simp add: sample_frame_def)
  ultimately obtain t u where t: "push_frame (sample_frame 2) s = (Inl (FrameIndexDiscontinuity 1 2), t)"
    and u: "push_frame ?g s = (Inl (SampleRateMismatch 48000 44100), u)" by (metis prod.collapse)
  note rejected = timeline_rejects_atomically [OF reached, THEN conjunct1, rule_format]
  have "t = s" using rejected [OF t] by simp
  moreover have "u = reset_for_discontinuity (in_frame_index ?g) (in_start_sample ?g) s"
    using rejected [OF u] run by simp
  moreover have "length (pending_frames s) = 1"
    using s(2) by (auto simp: segment_state_def queue_inv_def ready_at_def sample_frame_def QMF_ROUNDTRIP_LATENCY_SAMPLES_def)
  ultimately show ?thesis using s(1) t u by (auto simp: reset_for_discontinuity_def)
qed

end
