(* ===== verification/Bitio.thy ===== *)
theory Bitio
  imports Prelude
begin

text \<open>
  The bit reader of \<open>crates/openjoc-bitio/src/lib.rs\<close>: a bounded, most significant bit
  first cursor over a byte slice.  The state is the record \<open>bit_reader\<close>; its abstract value
  is \<open>unread r\<close>, the list of the bits between the cursor and the end of the window.
  \<open>reader_ok\<close> is what the private fields always satisfy (a reader made by \<open>new\<close> or
  \<open>take_bits\<close> never points outside its slice), and it is the invariant that rules the
  index panic of \<open>bytes[byte_index]\<close> out.  The trait \<open>BitRead\<close> is the locale
  \<open>bit_read\<close>, interpreted on the reader at the end of the theory.
\<close>

section \<open>Reader state and operations\<close>

datatype bit_error =
  InvalidWidth nat
| EndOfInput nat nat
| BitLengthOverflow

record bit_reader =
  bytes :: "u8 list"
  bit_position :: nat
  bit_len :: "nat option"

type_synonym ('e, 'a) parser = "(bit_reader, 'e, 'a) rd"

definition new_reader :: "u8 list \<Rightarrow> bit_reader" where
  "new_reader bs = \<lparr>bytes = bs, bit_position = 0, bit_len = checked_usize (length bs * 8)\<rparr>"

definition checked_remaining :: "bit_reader \<Rightarrow> bit_error + nat" where
  "checked_remaining r =
     (case bit_len r of
        None \<Rightarrow> Inl BitLengthOverflow
      | Some len \<Rightarrow>
          if bit_position r \<le> len then Inr (len - bit_position r) else Inl BitLengthOverflow)"

definition take_bits :: "nat \<Rightarrow> (bit_error, bit_reader) parser" where
  "take_bits bit_count r =
     (case checked_remaining r of
        Inl e \<Rightarrow> (Inl e, r)
      | Inr remaining \<Rightarrow>
          if bit_count > remaining then (Inl (EndOfInput bit_count remaining), r)
          else (case checked_usize (bit_position r + bit_count) of
                  None \<Rightarrow> (Inl BitLengthOverflow, r)
                | Some end \<Rightarrow>
                    (Inr \<lparr>bytes = bytes r, bit_position = bit_position r, bit_len = Some end\<rparr>,
                     r\<lparr>bit_position := end\<rparr>)))"

text \<open>One bit of the slice, as the loop body computes it.\<close>

definition bit_at :: "u8 list \<Rightarrow> nat \<Rightarrow> u8" where
  "bit_at bs p = drop_bit (7 - p mod 8) (bs ! (p div 8)) AND 1"

function read_loop :: "u8 list \<Rightarrow> nat \<Rightarrow> nat \<Rightarrow> u64 \<Rightarrow> u64" where
  "read_loop bs p end value =
     (if p < end then read_loop bs (Suc p) end (push_bit 1 value OR ucast (bit_at bs p)) else value)"
  by pat_completeness auto
termination by (relation "measure (\<lambda>(bs, p, end, value). end - p)") auto

definition read_bits :: "nat \<Rightarrow> (bit_error, u64) parser" where
  "read_bits n r =
     (if n > 64 then (Inl (InvalidWidth n), r)
      else (case checked_remaining r of
              Inl e \<Rightarrow> (Inl e, r)
            | Inr remaining \<Rightarrow>
                if n > remaining then (Inl (EndOfInput n remaining), r)
                else (case checked_usize (bit_position r + n) of
                        None \<Rightarrow> (Inl BitLengthOverflow, r)
                      | Some end \<Rightarrow>
                          (Inr (read_loop (bytes r) (bit_position r) end 0),
                           r\<lparr>bit_position := end\<rparr>))))"

definition read_bit :: "(bit_error, bool) parser" where
  "read_bit = bind_rd (read_bits 1) (\<lambda>v. ret (v \<noteq> 0))"

definition bits_remaining :: "bit_reader \<Rightarrow> nat" where
  "bits_remaining r = (case checked_remaining r of Inl _ \<Rightarrow> 0 | Inr n \<Rightarrow> n)"

definition byte_align :: "(bit_error, unit) parser" where
  "byte_align r =
     (let misalignment = bit_position r mod 8; discarded = 8 - misalignment in
      if misalignment = 0 then (Inr (), r)
      else (case checked_remaining r of
              Inl e \<Rightarrow> (Inl e, r)
            | Inr remaining \<Rightarrow>
                if discarded > remaining then (Inl (EndOfInput discarded remaining), r)
                else (case checked_usize (bit_position r + discarded) of
                        None \<Rightarrow> (Inl BitLengthOverflow, r)
                      | Some end \<Rightarrow> (Inr (), r\<lparr>bit_position := end\<rparr>))))"

declare read_loop.simps [simp del]

section \<open>The abstract value of a reader\<close>


definition byte_bits :: "u8 \<Rightarrow> bool list" where
  "byte_bits b = bits_of 8 (unat b)"

definition slice_bits :: "u8 list \<Rightarrow> bool list" where
  "slice_bits bs = concat (map byte_bits bs)"

lemma length_byte_bits [simp]: "length (byte_bits b) = 8"
  by (simp add: byte_bits_def)

lemma length_slice_bits [simp]: "length (slice_bits bs) = 8 * length bs"
  by (induction bs) (auto simp: slice_bits_def)

lemma slice_bits_append [simp]: "slice_bits (xs @ ys) = slice_bits xs @ slice_bits ys"
  by (simp add: slice_bits_def)

lemma nth_bits_of: "i < n \<Longrightarrow> bits_of n v ! i = odd (v div 2 ^ (n - 1 - i))"
proof (induction n arbitrary: i)
  case (Suc n)
  then show ?case by (cases i) auto
qed simp

lemma slice_bits_nth:
  "p < 8 * length bs \<Longrightarrow> slice_bits bs ! p = byte_bits (bs ! (p div 8)) ! (p mod 8)"
proof (induction bs arbitrary: p)
  case (Cons b bs)
  show ?case
  proof (cases "p < 8")
    case True
    then show ?thesis by (simp add: slice_bits_def nth_append)
  next
    case False
    then obtain q where q: "p = q + 8" by (metis add.commute le_Suc_ex not_less)
    with Cons.prems have "q < 8 * length bs" by simp
    from Cons.IH [OF this] show ?thesis by (simp add: slice_bits_def nth_append q)
  qed
qed simp

lemma bit_at_slice:
  assumes "p < 8 * length bs"
  shows "bit_at bs p = (if slice_bits bs ! p then 1 else 0)"
proof -
  let ?b = "bs ! (p div 8)" and ?k = "7 - p mod 8"
  have "slice_bits bs ! p = odd (unat ?b div 2 ^ ?k)"
    using assms by (simp add: slice_bits_nth byte_bits_def nth_bits_of)
  also have "\<dots> = bit ?b ?k"
    by (simp add: bit_unsigned_iff flip: bit_iff_odd)
  finally show ?thesis
    by (simp add: bit_at_def and_one_eq mod2_eq_if even_drop_bit_iff_not_bit)
qed

lemma push_bit_or_bit: "push_bit 1 v OR ucast (if b then 1 else 0 :: u8) = 2 * v + (if b then 1 else 0 :: u64)"
proof -
  have shift: "push_bit 1 v = 2 * v" by (simp add: push_bit_eq_mult)
  have "2 * v OR 1 = 2 * v + 1" by (simp add: or_one_eq)
  then show ?thesis by (cases b) (simp_all only: shift if_True if_False unsigned_1 unsigned_0 or.right_neutral add_0_right)
qed

text \<open>
  For evaluation: the loop over natural numbers, with one conversion to a word at its end.
\<close>

definition bit_nat_at :: "u8 list \<Rightarrow> nat \<Rightarrow> nat" where
  "bit_nat_at bs p = unat (bs ! (p div 8)) div 2 ^ (7 - p mod 8) mod 2"

function read_nat :: "u8 list \<Rightarrow> nat \<Rightarrow> nat \<Rightarrow> nat \<Rightarrow> nat" where
  "read_nat bs p e n = (if p < e then read_nat bs (Suc p) e (2 * n + bit_nat_at bs p) else n)"
  by pat_completeness auto
termination by (relation "measure (\<lambda>(bs, p, e, n). e - p)") auto

declare read_nat.simps [simp del]

lemma bit_at_nat: "ucast (bit_at bs p) = (if bit_nat_at bs p = 1 then 1 else 0 :: u64)"
proof -
  have "take_bit 8 (unat (bs ! (p div 8))) = unat (bs ! (p div 8))"
    using unsigned_less [of "bs ! (p div 8)", where 'a = nat] by (simp add: take_bit_nat_eq_self)
  then have "unat (bit_at bs p) = bit_nat_at bs p"
    unfolding bit_at_def bit_nat_at_def unsigned_and_eq unsigned_drop_bit_eq unsigned_1
    by (simp add: drop_bit_eq_div and_one_eq)
  moreover have "bit_nat_at bs p = 0 \<or> bit_nat_at bs p = 1" by (auto simp: bit_nat_at_def)
  ultimately have "bit_at bs p = (if bit_nat_at bs p = 1 then 1 else 0)"
    by (metis unat_eq_zero unat_1 word_unat_eq_iff)
  then show ?thesis by simp
qed

lemma read_loop_nat: "read_loop bs p e (word_of_nat n) = word_of_nat (read_nat bs p e n)"
proof (induction bs p e n rule: read_nat.induct)
  case (1 bs p e n)
  have b: "bit_nat_at bs p = 0 \<or> bit_nat_at bs p = 1" by (auto simp: bit_nat_at_def)
  have "push_bit 1 (word_of_nat n) OR ucast (bit_at bs p) = (word_of_nat (2 * n + bit_nat_at bs p) :: u64)"
    using b push_bit_or_bit [of "word_of_nat n" "bit_nat_at bs p = 1"] by (auto simp: bit_at_nat)
  then show ?case using 1 by (subst read_loop.simps, subst read_nat.simps) simp
qed

lemma read_loop_code [code]: "read_loop bs p e v = word_of_nat (read_nat bs p e (unat v))"
  using read_loop_nat [of bs p e "unat v"] by simp

lemma read_loop_value:
  "p \<le> e \<Longrightarrow> e \<le> 8 * length bs \<Longrightarrow>
   read_loop bs p e v = v * 2 ^ (e - p) + word_of_nat (bits_value (take (e - p) (drop p (slice_bits bs))))"
proof (induction bs p e v rule: read_loop.induct)
  case (1 bs p e v)
  show ?case
  proof (cases "p < e")
    case True
    let ?b = "slice_bits bs ! p" and ?n = "e - Suc p"
    have n: "e - p = Suc ?n" using True by simp
    have drop_p: "drop p (slice_bits bs) = ?b # drop (Suc p) (slice_bits bs)"
      using True "1.prems" by (intro Cons_nth_drop_Suc [symmetric]) simp
    have len: "length (take ?n (drop (Suc p) (slice_bits bs))) = ?n"
      using True "1.prems" by simp
    have "read_loop bs p e v = read_loop bs (Suc p) e (2 * v + (if ?b then 1 else 0))"
      using True "1.prems" by (subst read_loop.simps) (simp add: bit_at_slice push_bit_or_bit del: One_nat_def)
    also have "\<dots> = (2 * v + (if ?b then 1 else 0)) * 2 ^ ?n
        + word_of_nat (bits_value (take ?n (drop (Suc p) (slice_bits bs))))"
      using "1.IH" [OF True] True "1.prems" by (simp add: bit_at_slice push_bit_or_bit del: One_nat_def)
    finally show ?thesis
      unfolding n drop_p using len by (simp add: algebra_simps)
  next
    case False
    then show ?thesis using "1.prems" by (subst read_loop.simps) simp
  qed
qed

text \<open>
  \<open>bit_len = None\<close> is the reader of a slice whose bit count overflows \<open>usize\<close>: every
  operation on it reports \<open>LengthOverflow\<close>, and no such reader satisfies \<open>reader_ok\<close>.
\<close>

definition reader_ok :: "bit_reader \<Rightarrow> bool" where
  "reader_ok r =
     (case bit_len r of
        None \<Rightarrow> False
      | Some len \<Rightarrow>
          bit_position r \<le> len \<and> len \<le> 8 * length (bytes r) \<and> 8 * length (bytes r) \<le> usize_max)"

definition unread :: "bit_reader \<Rightarrow> bool list" where
  "unread r =
     (case bit_len r of
        None \<Rightarrow> []
      | Some len \<Rightarrow> drop (bit_position r) (take len (slice_bits (bytes r))))"

definition skip :: "nat \<Rightarrow> bit_reader \<Rightarrow> bit_reader" where
  "skip n r = r\<lparr>bit_position := bit_position r + n\<rparr>"

lemma new_reader_ok: "8 * length bs \<le> usize_max \<Longrightarrow> reader_ok (new_reader bs)"
  by (simp add: reader_ok_def new_reader_def mult.commute)

lemma unread_new_reader: "8 * length bs \<le> usize_max \<Longrightarrow> unread (new_reader bs) = slice_bits bs"
  by (simp add: unread_def new_reader_def mult.commute)

lemma skip_0 [simp]: "skip 0 r = r"
  by (simp add: skip_def)

lemma skip_skip [simp]: "skip m (skip n r) = skip (n + m) r"
  by (simp add: skip_def)

lemma bytes_skip [simp]: "bytes (skip n r) = bytes r"
  by (simp add: skip_def)

lemma bit_len_skip [simp]: "bit_len (skip n r) = bit_len r"
  by (simp add: skip_def)

lemma bit_position_skip [simp]: "bit_position (skip n r) = bit_position r + n"
  by (simp add: skip_def)

lemma length_unread:
  "reader_ok r \<Longrightarrow> length (unread r) = the (bit_len r) - bit_position r"
  by (auto simp: reader_ok_def unread_def split: option.splits)

lemma reader_ok_skip: "reader_ok r \<Longrightarrow> n \<le> length (unread r) \<Longrightarrow> reader_ok (skip n r)"
  by (auto simp: reader_ok_def unread_def split: option.splits)

lemma unread_skip: "unread (skip n r) = drop n (unread r)"
  by (simp add: unread_def add.commute split: option.splits)

lemma checked_remaining_ok:
  "reader_ok r \<Longrightarrow> checked_remaining r = Inr (length (unread r))"
  by (auto simp: checked_remaining_def reader_ok_def unread_def split: option.splits)

lemma position_fits:
  assumes "reader_ok r" and "n \<le> length (unread r)"
  shows "checked_usize (bit_position r + n) = Some (bit_position r + n)"
  using assms by (auto simp: reader_ok_def unread_def split: option.splits)

lemma bits_remaining_ok: "reader_ok r \<Longrightarrow> bits_remaining r = length (unread r)"
  by (simp add: bits_remaining_def checked_remaining_ok)

section \<open>Functional correctness of the operations\<close>

lemma read_bits_success:
  assumes ok: "reader_ok r" and n: "n \<le> 64" "n \<le> length (unread r)"
  shows "read_bits n r = (Inr (word_of_nat (bits_value (take n (unread r)))), skip n r)"
proof -
  from ok obtain len where len: "bit_len r = Some len"
    and b: "bit_position r \<le> len" "len \<le> 8 * length (bytes r)"
    by (auto simp: reader_ok_def split: option.splits)
  have fit: "bit_position r + n \<le> len"
    using n(2) b by (simp add: unread_def len)
  have "take n (unread r) = take n (drop (bit_position r) (slice_bits (bytes r)))"
    using fit by (simp add: unread_def len drop_take take_take min_def)
  moreover have "read_loop (bytes r) (bit_position r) (bit_position r + n) 0
      = word_of_nat (bits_value (take n (drop (bit_position r) (slice_bits (bytes r)))))"
    using fit b by (subst read_loop_value) simp_all
  ultimately show ?thesis
    using ok n by (simp add: read_bits_def checked_remaining_ok position_fits skip_def)
qed

lemma read_bits_short:
  "reader_ok r \<Longrightarrow> n \<le> 64 \<Longrightarrow> length (unread r) < n \<Longrightarrow>
   read_bits n r = (Inl (EndOfInput n (length (unread r))), r)"
  by (simp add: read_bits_def checked_remaining_ok)

lemma read_bits_wide: "64 < n \<Longrightarrow> read_bits n r = (Inl (InvalidWidth n), r)"
  by (simp add: read_bits_def)

lemma take_bits_success:
  assumes "reader_ok r" and "n \<le> length (unread r)"
  shows "take_bits n r =
    (Inr \<lparr>bytes = bytes r, bit_position = bit_position r, bit_len = Some (bit_position r + n)\<rparr>, skip n r)"
  using assms by (simp add: take_bits_def checked_remaining_ok position_fits skip_def)

lemma take_bits_short:
  "reader_ok r \<Longrightarrow> length (unread r) < n \<Longrightarrow>
   take_bits n r = (Inl (EndOfInput n (length (unread r))), r)"
  by (simp add: take_bits_def checked_remaining_ok)


lemma window_reader:
  assumes ok: "reader_ok r" and n: "n \<le> length (unread r)"
    and w: "w = \<lparr>bytes = bytes r, bit_position = bit_position r, bit_len = Some (bit_position r + n)\<rparr>"
  shows "reader_ok w" and "unread w = take n (unread r)"
proof -
  from ok obtain len where len: "bit_len r = Some len"
    and b: "bit_position r \<le> len" "len \<le> 8 * length (bytes r)" "8 * length (bytes r) \<le> usize_max"
    by (auto simp: reader_ok_def split: option.splits)
  have fit: "bit_position r + n \<le> len"
    using n b by (simp add: unread_def len)
  show "reader_ok w" using fit b by (simp add: w reader_ok_def)
  show "unread w = take n (unread r)"
    using fit by (simp add: w unread_def len drop_take take_take min_def)
qed

lemma byte_align_position:
  assumes ok: "reader_ok r" and fits: "8 - bit_position r mod 8 \<le> length (unread r)"
  shows "byte_align r = (Inr (), skip ((8 - bit_position r mod 8) mod 8) r)"
proof (cases "bit_position r mod 8 = 0")
  case True
  then show ?thesis by (simp add: byte_align_def)
next
  case False
  then have "(8 - bit_position r mod 8) mod 8 = 8 - bit_position r mod 8" by simp
  moreover from position_fits [OF ok fits]
  have "byte_align r = (Inr (), r\<lparr>bit_position := bit_position r + (8 - bit_position r mod 8)\<rparr>)"
    using False ok fits by (simp add: byte_align_def Let_def checked_remaining_ok)
  ultimately show ?thesis by (simp add: skip_def)
qed

section \<open>The \<open>BitRead\<close> interface\<close>

text \<open>
  What the parsers rely on in \<open>trait BitRead\<close>: a source has a list of unread bits, a read of
  \<open>n \<le> 64\<close> bits returns their value and drops them, and a read that does not fit reports
  the shortage and leaves the source as it was.
\<close>

locale bit_read =
  fixes rd_bits :: "nat \<Rightarrow> ('s, bit_error, u64) rd"
    and left :: "'s \<Rightarrow> nat"
    and pending :: "'s \<Rightarrow> bool list"
    and ok :: "'s \<Rightarrow> bool"
  assumes left_pending: "ok s \<Longrightarrow> left s = length (pending s)"
    and read_fits: "ok s \<Longrightarrow> n \<le> 64 \<Longrightarrow> n \<le> length (pending s) \<Longrightarrow>
      \<exists>s'. rd_bits n s = (Inr (word_of_nat (bits_value (take n (pending s)))), s')
           \<and> ok s' \<and> pending s' = drop n (pending s)"
    and read_short: "ok s \<Longrightarrow> n \<le> 64 \<Longrightarrow> length (pending s) < n \<Longrightarrow>
      rd_bits n s = (Inl (EndOfInput n (length (pending s))), s)"
begin

lemma read_cases:
  assumes "ok s" and "n \<le> 64"
  obtains (fits) s' where "n \<le> length (pending s)"
      "rd_bits n s = (Inr (word_of_nat (bits_value (take n (pending s)))), s')"
      "ok s'" "pending s' = drop n (pending s)"
  | (short) "length (pending s) < n" "rd_bits n s = (Inl (EndOfInput n (length (pending s))), s)"
  using read_fits [OF assms] read_short [OF assms] by (meson not_less)

lemma read_split:
  assumes ok: "ok s" and le: "m + n \<le> 64" and fits: "m + n \<le> length (pending s)"
  shows "\<exists>a b s'. bind_rd (rd_bits m) (\<lambda>a. bind_rd (rd_bits n) (\<lambda>b. ret (a, b))) s = (Inr (a, b), s')
    \<and> fst (rd_bits (m + n) s) = Inr (a * 2 ^ n + b)
    \<and> ok s' \<and> pending s' = drop (m + n) (pending s)"
proof -
  let ?p = "pending s"
  obtain s1 where s1: "rd_bits m s = (Inr (word_of_nat (bits_value (take m ?p))), s1)"
    "ok s1" "pending s1 = drop m ?p"
    using read_fits [OF ok, of m] le fits by auto
  have n: "n \<le> length (pending s1)" using fits s1(3) by simp
  obtain s2 where s2: "rd_bits n s1 = (Inr (word_of_nat (bits_value (take n (drop m ?p)))), s2)"
    "ok s2" "pending s2 = drop (m + n) ?p"
    using read_fits [OF s1(2), of n] le n s1(3) by (auto simp: add.commute)
  obtain s3 where s3: "rd_bits (m + n) s = (Inr (word_of_nat (bits_value (take (m + n) ?p))), s3)"
    using read_fits [OF ok, of "m + n"] le fits by auto
  have "bits_value (take (m + n) ?p) = bits_value (take m ?p) * 2 ^ n + bits_value (take n (drop m ?p))"
    using fits by (simp add: take_add bits_value_append)
  with s1 s2 s3 show ?thesis
    by (simp add: bind_rd_def ret_eq s1(1) s2(1))
qed

lemma repeat_fits:
  "ok s \<Longrightarrow> w \<le> 64 \<Longrightarrow> k * w \<le> length (pending s) \<Longrightarrow>
   \<exists>s'. repeat_rd k (rd_bits w) s
        = (Inr (map (\<lambda>i. word_of_nat (bits_value (take w (drop (i * w) (pending s))))) [0..<k]), s')
      \<and> ok s' \<and> pending s' = drop (k * w) (pending s)"
proof (induction k arbitrary: s)
  case (Suc k)
  obtain s1 where s1: "rd_bits w s = (Inr (word_of_nat (bits_value (take w (pending s)))), s1)"
    "ok s1" "pending s1 = drop w (pending s)"
    using read_fits [of s w] Suc.prems by auto
  have k: "k * w \<le> length (pending s1)" using Suc.prems(3) s1(3) by simp
  obtain s2 where s2: "repeat_rd k (rd_bits w) s1
      = (Inr (map (\<lambda>i. word_of_nat (bits_value (take w (drop (i * w) (pending s1))))) [0..<k]), s2)"
    "ok s2" "pending s2 = drop (k * w) (pending s1)"
    using Suc.IH [OF s1(2) Suc.prems(2) k] by auto
  have shift: "map (\<lambda>i. word_of_nat (bits_value (take w (drop (i * w) (pending s)))) :: u64) [0..<Suc k]
      = word_of_nat (bits_value (take w (pending s)))
        # map (\<lambda>i. word_of_nat (bits_value (take w (drop (i * w) (pending s1))))) [0..<k]"
    by (simp add: s1(3) upt_conv_Cons map_Suc_upt [symmetric] add.commute del: upt_Suc)
  show ?case
    unfolding shift using s2
    by (simp add: bind_rd_def ret_eq s1(1) s2(1) s1(3) add.commute)
qed (simp add: ret_eq)

lemma repeat_short:
  assumes "ok s" and "w \<le> 64" and "0 < w" and "length (pending s) < k * w"
  shows "\<exists>e s'. repeat_rd k (rd_bits w) s = (Inl e, s')"
  using assms
proof (induction k arbitrary: s)
  case (Suc k)
  from Suc.prems(1,2) show ?case
  proof (cases rule: read_cases)
    case (fits s1)
    have "length (pending s1) < k * w" using Suc.prems(4) fits(1,4) by simp
    then obtain e s' where "repeat_rd k (rd_bits w) s1 = (Inl e, s')"
      using Suc.IH [OF fits(3) Suc.prems(2,3)] by auto
    with fits show ?thesis by (simp add: bind_rd_def)
  next
    case short
    then show ?thesis by (simp add: bind_rd_def)
  qed
qed simp

end

interpretation br: bit_read read_bits bits_remaining unread reader_ok
  by unfold_locales
    (auto simp: bits_remaining_ok read_bits_success read_bits_short reader_ok_skip unread_skip)

end
