(* ===== verification/Parsing.thy ===== *)
theory Parsing
  imports Bitio
begin

text \<open>
  A small program logic for parsers over the bit reader.

  \<^item> \<open>reads p bs a\<close>: on every input that starts with the bits \<open>bs\<close>, \<open>p\<close> consumes exactly
    \<open>bs\<close> and returns \<open>a\<close> (total correctness; what round trips are stated with).
  \<^item> \<open>exact_parser p\<close>: every success of \<open>p\<close> is of that form, so its result depends on
    nothing but the bits it consumed.
  \<^item> \<open>ensures p Q\<close>: every successful result satisfies \<open>Q\<close> (well-formedness of results).

  Each notion is closed under the combinators of the prelude; the rules are collected in
  \<open>reads_intros\<close>, \<open>exact_intros\<close> and \<open>ensures_intros\<close>.
\<close>

named_theorems exact_intros \<open>closure rules of \<open>exact_parser\<close>\<close>
named_theorems shrinks_intros \<open>closure rules of \<open>shrinks\<close>\<close>
named_theorems ensures_intros \<open>closure rules of \<open>ensures\<close>\<close>

section \<open>Fields that are converted to a narrow integer\<close>

text \<open>
  \<open>uN::try_from(reader.read_bits(width)?)\<close>: the error conversions and the bound \<open>2 ^ N\<close> are
  those of the calling crate.
\<close>

definition read_uint :: "(bit_error \<Rightarrow> 'e) \<Rightarrow> 'e \<Rightarrow> nat \<Rightarrow> nat \<Rightarrow> ('e, nat) parser" where
  "read_uint conv ovf bound width =
     bind_rd (map_err conv (read_bits width)) (\<lambda>v.
       if unat v < bound then ret (unat v) else fail ovf)"

text \<open>A result together with \<open>initial_bits - reader.bits_remaining()\<close>.\<close>

definition counted :: "('e, 'a) parser \<Rightarrow> ('e, 'a \<times> nat) parser" where
  "counted p r =
     (case p r of
        (Inl e, r') \<Rightarrow> (Inl e, r')
      | (Inr a, r') \<Rightarrow> (Inr (a, bits_remaining r - bits_remaining r'), r'))"

section \<open>Total correctness on a prefix\<close>

definition reads :: "('e, 'a) parser \<Rightarrow> bool list \<Rightarrow> 'a \<Rightarrow> bool" where
  "reads p bs a \<longleftrightarrow>
     (\<forall>r rest. reader_ok r \<longrightarrow> unread r = bs @ rest \<longrightarrow> p r = (Inr a, skip (length bs) r))"

lemma readsD:
  "reads p bs a \<Longrightarrow> reader_ok r \<Longrightarrow> unread r = bs @ rest \<Longrightarrow> p r = (Inr a, skip (length bs) r)"
  by (simp add: reads_def)

lemma reads_ok_after:
  assumes "reader_ok r" and "unread r = bs @ rest"
  shows "reader_ok (skip (length bs) r)" and "unread (skip (length bs) r) = rest"
  using assms by (simp_all add: reader_ok_skip unread_skip)

lemma reads_ret [reads_intros]: "reads (ret a) [] a"
  by (simp add: reads_def ret_eq)

lemma reads_bind [reads_intros]:
  assumes m: "reads m bs a" and k: "reads (k a) cs b"
  shows "reads (bind_rd m k) (bs @ cs) b"
  unfolding reads_def
proof (intro allI impI)
  fix r rest
  assume r: "reader_ok r" "unread r = (bs @ cs) @ rest"
  then have u: "unread r = bs @ (cs @ rest)" by simp
  have "m r = (Inr a, skip (length bs) r)" by (rule readsD [OF m r(1) u])
  moreover have "k a (skip (length bs) r) = (Inr b, skip (length cs) (skip (length bs) r))"
    by (rule readsD [OF k reads_ok_after [OF r(1) u]])
  ultimately show "bind_rd m k r = (Inr b, skip (length (bs @ cs)) r)"
    by (simp add: bind_rd_def)
qed

lemma reads_bind_ret:
  "reads m bs a \<Longrightarrow> reads (bind_rd m (\<lambda>x. ret (f x))) bs (f a)"
  using reads_bind [of m bs a "\<lambda>x. ret (f x)" "[]" "f a"] by (simp add: reads_ret)

lemma reads_bind_ret_eq:
  "reads m bs a \<Longrightarrow> f a = b \<Longrightarrow> reads (bind_rd m (\<lambda>x. ret (f x))) bs b"
  using reads_bind_ret [of m bs a f] by simp

lemma reads_map_err [reads_intros]: "reads p bs a \<Longrightarrow> reads (map_err f p) bs a"
  by (simp add: reads_def map_err_def)

lemma reads_if [reads_intros]:
  "(c \<Longrightarrow> reads p bs a) \<Longrightarrow> (\<not> c \<Longrightarrow> reads q bs a) \<Longrightarrow> reads (if c then p else q) bs a"
  by simp

lemma reads_guard [reads_intros]: "c \<Longrightarrow> reads (guard_rd c e) [] ()"
  by (simp add: guard_rd_def reads_ret)

lemma reads_some_or [reads_intros]: "x = Some a \<Longrightarrow> reads (some_or x e) [] a"
  by (simp add: some_or_def reads_ret)

lemma reads_when [reads_intros]:
  "(c \<Longrightarrow> reads p bs a) \<Longrightarrow>
   reads (when_rd c p) (if c then bs else []) (if c then Some a else None)"
  by (auto simp: when_rd_def reads_ret intro: reads_bind_ret)

lemma reads_repeat [reads_intros]:
  "(\<And>x. x \<in> set xs \<Longrightarrow> reads p (enc x) x) \<Longrightarrow> n = length xs \<Longrightarrow>
   reads (repeat_rd n p) (concat (map enc xs)) xs"
proof (induction xs arbitrary: n)
  case (Cons x xs)
  have "reads (repeat_rd (length xs) p) (concat (map enc xs)) xs"
    using Cons by simp
  then have "reads (bind_rd (repeat_rd (length xs) p) (\<lambda>as. ret (x # as))) (concat (map enc xs)) (x # xs)"
    by (rule reads_bind_ret)
  with Cons.prems show ?case by (auto intro!: reads_bind)
qed (simp add: reads_ret)

lemma reads_each:
  assumes "\<And>x. x \<in> set xs \<Longrightarrow> reads (p x) (enc x) (res x)"
  shows "reads (each_rd p xs) (concat (map enc xs)) (map res xs)"
  using assms
proof (induction xs)
  case (Cons x xs)
  have "reads (each_rd p xs) (concat (map enc xs)) (map res xs)"
    using Cons by simp
  then have "reads (bind_rd (each_rd p xs) (\<lambda>as. ret (res x # as))) (concat (map enc xs)) (res x # map res xs)"
    by (rule reads_bind_ret)
  with Cons.prems show ?case by (auto intro!: reads_bind)
qed (simp add: reads_ret)

lemma reads_read_bits:
  "length bs \<le> 64 \<Longrightarrow> n = length bs \<Longrightarrow> reads (read_bits n) bs (word_of_nat (bits_value bs))"
  by (simp add: reads_def read_bits_success)

lemma reads_read_bits_value:
  "n \<le> 64 \<Longrightarrow> unat v < 2 ^ n \<Longrightarrow> reads (read_bits n) (bits_of n (unat v)) v"
  using reads_read_bits [of "bits_of n (unat v)" n] by (simp add: bits_value_bits_of)

lemma reads_read_bit [reads_intros]: "reads read_bit [b] b"
proof -
  have "reads (read_bits 1) [b] (word_of_nat (bits_value [b]))"
    by (rule reads_read_bits) simp_all
  from reads_bind_ret [OF this, of "\<lambda>v. v \<noteq> 0"]
  show ?thesis by (cases b) (simp_all add: read_bit_def)
qed

lemma unat_bits_value:
  "length bs \<le> 64 \<Longrightarrow> unat (word_of_nat (bits_value bs) :: u64) = bits_value bs"
proof (rule unat_of_nat64)
  assume "length bs \<le> 64"
  then have "(2::nat) ^ length bs \<le> 2 ^ 64" by (intro power_increasing) simp_all
  then show "bits_value bs < 2 ^ 64" using bits_value_less [of bs] by linarith
qed

lemma reads_read_uint:
  assumes "length bs \<le> 64" and "n = length bs" and "2 ^ n \<le> bound"
  shows "reads (read_uint conv ovf bound n) bs (bits_value bs)"
proof -
  have "bits_value bs < bound" using bits_value_less [of bs] assms(2,3) by simp
  then have narrow: "reads (if unat (word_of_nat (bits_value bs) :: u64) < bound
      then ret (unat (word_of_nat (bits_value bs) :: u64)) else fail ovf) [] (bits_value bs)"
    using assms(1) by (simp add: unat_bits_value reads_ret)
  have "reads (read_uint conv ovf bound n) (bs @ []) (bits_value bs)"
    unfolding read_uint_def
    by (rule reads_bind [OF reads_map_err [OF reads_read_bits [OF assms(1,2)]]]) (rule narrow)
  then show ?thesis by simp
qed

lemma reads_uint_field [reads_intros]:
  "n \<le> 64 \<Longrightarrow> 2 ^ n \<le> bound \<Longrightarrow> v < 2 ^ n \<Longrightarrow> reads (read_uint conv ovf bound n) (bits_of n v) v"
  using reads_read_uint [of "bits_of n v" n] by (simp add: bits_value_bits_of)

lemma reads_counted:
  assumes p: "reads p bs a"
  shows "reads (counted p) bs (a, length bs)"
  unfolding reads_def
proof (intro allI impI)
  fix r rest
  assume r: "reader_ok r" "unread r = bs @ rest"
  have "bits_remaining r = length bs + length rest"
    using r by (simp add: bits_remaining_ok)
  moreover have "bits_remaining (skip (length bs) r) = length rest"
    using reads_ok_after [OF r] by (simp add: bits_remaining_ok)
  ultimately show "counted p r = (Inr (a, length bs), skip (length bs) r)"
    using readsD [OF p r] by (simp add: counted_def)
qed

section \<open>Every success is explained by the bits it consumed\<close>

definition exact_parser :: "('e, 'a) parser \<Rightarrow> bool" where
  "exact_parser p \<longleftrightarrow>
     (\<forall>r a r'. reader_ok r \<longrightarrow> p r = (Inr a, r') \<longrightarrow>
        (\<exists>n \<le> length (unread r). r' = skip n r \<and> reads p (take n (unread r)) a))"

lemma exactI:
  assumes "\<And>r a r'. reader_ok r \<Longrightarrow> p r = (Inr a, r') \<Longrightarrow>
    \<exists>n \<le> length (unread r). r' = skip n r \<and> reads p (take n (unread r)) a"
  shows "exact_parser p"
  using assms by (simp add: exact_parser_def)

lemma exactE:
  assumes "exact_parser p" and "reader_ok r" and "p r = (Inr a, r')"
  obtains n where "n \<le> length (unread r)" "r' = skip n r" "reads p (take n (unread r)) a"
  using assms unfolding exact_parser_def by blast

lemma exact_ok:
  "exact_parser p \<Longrightarrow> reader_ok r \<Longrightarrow> p r = (Inr a, r') \<Longrightarrow> reader_ok r'"
  by (erule (2) exactE) (simp add: reader_ok_skip)

lemma exact_ret [exact_intros]: "exact_parser (ret a)"
  by (rule exactI) (auto simp: ret_Inr reads_ret intro!: exI [of _ 0])

lemma exact_fail [exact_intros]: "exact_parser (fail e)"
  by (rule exactI) (simp add: fail_Inr)

lemma exact_bind [exact_intros]:
  assumes m: "exact_parser m" and k: "\<And>a. exact_parser (k a)"
  shows "exact_parser (bind_rd m k)"
proof (rule exactI)
  fix r b t
  assume r: "reader_ok r" and run: "bind_rd m k r = (Inr b, t)"
  then obtain a s where ms: "m r = (Inr a, s)" and ks: "k a s = (Inr b, t)"
    by (auto elim: bind_rd_InrE)
  obtain n where n: "n \<le> length (unread r)" "s = skip n r" "reads m (take n (unread r)) a"
    by (rule exactE [OF m r ms])
  have s: "reader_ok s" "unread s = drop n (unread r)"
    using n r by (simp_all add: reader_ok_skip unread_skip)
  obtain i where i: "i \<le> length (unread s)" "t = skip i s" "reads (k a) (take i (unread s)) b"
    by (rule exactE [OF k s(1) ks])
  have "reads (bind_rd m k) (take n (unread r) @ take i (unread s)) b"
    using n(3) i(3) by (rule reads_bind)
  moreover have "take n (unread r) @ take i (unread s) = take (n + i) (unread r)"
    by (simp add: s(2) take_add)
  ultimately show "\<exists>j \<le> length (unread r). t = skip j r \<and> reads (bind_rd m k) (take j (unread r)) b"
    using n i s by (intro exI [of _ "n + i"]) auto
qed

lemma exact_map_err [exact_intros]: "exact_parser p \<Longrightarrow> exact_parser (map_err f p)"
  unfolding exact_parser_def map_err_Inr by (blast intro: reads_map_err)

lemma exact_if [exact_intros]:
  "(c \<Longrightarrow> exact_parser p) \<Longrightarrow> (\<not> c \<Longrightarrow> exact_parser q) \<Longrightarrow> exact_parser (if c then p else q)"
  by simp

lemma exact_guard [exact_intros]: "exact_parser (guard_rd c e)"
  by (simp add: guard_rd_def exact_intros)

lemma exact_some_or [exact_intros]: "exact_parser (some_or x e)"
  by (cases x) (simp_all add: some_or_def exact_intros)

lemma exact_when [exact_intros]: "(c \<Longrightarrow> exact_parser p) \<Longrightarrow> exact_parser (when_rd c p)"
  by (auto simp: when_rd_def intro!: exact_intros)

lemma exact_repeat [exact_intros]: "exact_parser p \<Longrightarrow> exact_parser (repeat_rd n p)"
  by (induction n) (auto intro!: exact_intros)

lemma exact_each [exact_intros]:
  "(\<And>x. x \<in> set xs \<Longrightarrow> exact_parser (p x)) \<Longrightarrow> exact_parser (each_rd p xs)"
  by (induction xs) (auto intro!: exact_intros)

lemma read_bits_Inr:
  assumes "reader_ok r" and run: "read_bits n r = (Inr a, r')"
  shows "n \<le> 64" and "n \<le> length (unread r)" and "r' = skip n r"
    and "a = word_of_nat (bits_value (take n (unread r)))"
proof -
  show n: "n \<le> 64" using run by (cases "n \<le> 64") (simp_all add: read_bits_wide)
  show l: "n \<le> length (unread r)"
    using run assms(1) n by (cases "n \<le> length (unread r)") (simp_all add: read_bits_short)
  show "r' = skip n r" and "a = word_of_nat (bits_value (take n (unread r)))"
    using run read_bits_success [OF assms(1) n l] by simp_all
qed

lemma exact_read_bits [exact_intros]: "exact_parser (read_bits n)"
proof (rule exactI)
  fix r a r'
  assume r: "reader_ok r" and run: "read_bits n r = (Inr a, r')"
  note n = read_bits_Inr [OF r run]
  have "reads (read_bits n) (take n (unread r)) (word_of_nat (bits_value (take n (unread r))))"
    using n by (intro reads_read_bits) auto
  with n show "\<exists>i \<le> length (unread r). r' = skip i r \<and> reads (read_bits n) (take i (unread r)) a"
    by auto
qed

lemma exact_read_bit [exact_intros]: "exact_parser read_bit"
  by (simp add: read_bit_def exact_intros)

lemma exact_read_uint [exact_intros]: "exact_parser (read_uint conv ovf bound n)"
  by (simp add: read_uint_def exact_intros)

lemma exact_counted [exact_intros]:
  assumes p: "exact_parser p"
  shows "exact_parser (counted p)"
proof (rule exactI)
  fix r x r'
  assume r: "reader_ok r" and run: "counted p r = (Inr x, r')"
  then obtain a where a: "p r = (Inr a, r')" and x: "x = (a, bits_remaining r - bits_remaining r')"
    by (auto simp: counted_def split: prod.splits sum.splits)
  obtain n where n: "n \<le> length (unread r)" "r' = skip n r" "reads p (take n (unread r)) a"
    by (rule exactE [OF p r a])
  have "x = (a, n)"
    using n r by (simp add: x bits_remaining_ok reader_ok_skip unread_skip)
  with n reads_counted [OF n(3)]
  show "\<exists>i \<le> length (unread r). r' = skip i r \<and> reads (counted p) (take i (unread r)) x"
    by (intro exI [of _ n]) (simp add: min_absorb2)
qed

section \<open>Consumption, on every outcome\<close>

text \<open>
  A parser never gives bits back, on success and on failure alike, and whatever the state of
  the reader; this is what makes the loops of the parsers terminate.
\<close>

definition shrinks :: "('e, 'a) parser \<Rightarrow> bool" where
  "shrinks p \<longleftrightarrow> (\<forall>r x r'. p r = (x, r') \<longrightarrow> bits_remaining r' \<le> bits_remaining r)"

lemma shrinksD: "shrinks p \<Longrightarrow> p r = (x, r') \<Longrightarrow> bits_remaining r' \<le> bits_remaining r"
  by (auto simp: shrinks_def)

lemma read_bits_remaining:
  assumes "read_bits n r = (Inr v, r')"
  shows "n \<le> bits_remaining r" and "bits_remaining r' = bits_remaining r - n"
  using assms
  by (auto simp: read_bits_def bits_remaining_def checked_remaining_def checked_usize_def
      split: if_splits option.splits)

lemma read_bits_error_state: "read_bits n r = (Inl e, r') \<Longrightarrow> r' = r"
  by (auto simp: read_bits_def split: if_splits sum.splits option.splits)

lemma read_bit_remaining:
  "read_bit r = (Inr b, r') \<Longrightarrow> bits_remaining r' < bits_remaining r"
  using read_bits_remaining [of 1 r]
  by (fastforce simp: read_bit_def ret_Inr elim!: bind_rd_InrE)

lemma shrinks_read_bits [shrinks_intros]: "shrinks (read_bits n)"
  unfolding shrinks_def
proof (intro allI impI)
  fix r x r'
  assume "read_bits n r = (x, r')"
  then show "bits_remaining r' \<le> bits_remaining r"
    by (cases x) (auto dest: read_bits_remaining read_bits_error_state)
qed

lemma shrinks_ret [shrinks_intros]: "shrinks (ret a)"
  by (simp add: shrinks_def ret_eq)

lemma shrinks_fail [shrinks_intros]: "shrinks (fail e)"
  by (simp add: shrinks_def fail_eq)

lemma shrinks_bind [shrinks_intros]:
  "shrinks m \<Longrightarrow> (\<And>a. shrinks (k a)) \<Longrightarrow> shrinks (bind_rd m k)"
  unfolding shrinks_def bind_rd_def
  by (fastforce split: prod.splits sum.splits intro: order_trans)

lemma shrinks_map_err [shrinks_intros]: "shrinks p \<Longrightarrow> shrinks (map_err f p)"
  unfolding shrinks_def map_err_def by (auto split: prod.splits sum.splits)

lemma shrinks_if [shrinks_intros]:
  "(c \<Longrightarrow> shrinks p) \<Longrightarrow> (\<not> c \<Longrightarrow> shrinks q) \<Longrightarrow> shrinks (if c then p else q)"
  by simp

lemma shrinks_guard [shrinks_intros]: "shrinks (guard_rd c e)"
  by (simp add: guard_rd_def shrinks_intros)

lemma shrinks_some_or [shrinks_intros]: "shrinks (some_or x e)"
  by (cases x) (simp_all add: some_or_def shrinks_intros)

lemma shrinks_when [shrinks_intros]: "(c \<Longrightarrow> shrinks p) \<Longrightarrow> shrinks (when_rd c p)"
  by (auto simp: when_rd_def intro!: shrinks_intros)

lemma shrinks_repeat [shrinks_intros]: "shrinks p \<Longrightarrow> shrinks (repeat_rd n p)"
  by (induction n) (auto intro!: shrinks_intros)

lemma shrinks_each [shrinks_intros]:
  "(\<And>x. x \<in> set xs \<Longrightarrow> shrinks (p x)) \<Longrightarrow> shrinks (each_rd p xs)"
  by (induction xs) (auto intro!: shrinks_intros)

lemma shrinks_read_bit [shrinks_intros]: "shrinks read_bit"
  by (simp add: read_bit_def shrinks_intros)

lemma shrinks_read_uint [shrinks_intros]: "shrinks (read_uint conv ovf bound n)"
  by (simp add: read_uint_def shrinks_intros)

text \<open>A success of a consuming parser takes at least one bit.\<close>

definition consuming :: "('e, 'a) parser \<Rightarrow> bool" where
  "consuming p \<longleftrightarrow> (\<forall>r a r'. p r = (Inr a, r') \<longrightarrow> bits_remaining r' < bits_remaining r)"

lemma consumingD: "consuming p \<Longrightarrow> p r = (Inr a, r') \<Longrightarrow> bits_remaining r' < bits_remaining r"
  by (auto simp: consuming_def)

lemma consuming_bind1:
  assumes "consuming m" and "\<And>a. shrinks (k a)"
  shows "consuming (bind_rd m k)"
  unfolding consuming_def
proof (intro allI impI)
  fix r b t
  assume "bind_rd m k r = (Inr b, t)"
  then obtain a s where "m r = (Inr a, s)" and "k a s = (Inr b, t)" by (rule bind_rd_InrE)
  with consumingD [OF assms(1)] shrinksD [OF assms(2)] show "bits_remaining t < bits_remaining r"
    by (meson order_le_less_trans)
qed

lemma consuming_bind2:
  assumes "shrinks m" and "\<And>a. consuming (k a)"
  shows "consuming (bind_rd m k)"
  unfolding consuming_def
proof (intro allI impI)
  fix r b t
  assume "bind_rd m k r = (Inr b, t)"
  then obtain a s where "m r = (Inr a, s)" and "k a s = (Inr b, t)" by (rule bind_rd_InrE)
  with shrinksD [OF assms(1)] consumingD [OF assms(2)] show "bits_remaining t < bits_remaining r"
    by (meson order_less_le_trans)
qed

lemma consuming_read_bits: "0 < n \<Longrightarrow> consuming (read_bits n)"
  using read_bits_remaining [of n] by (fastforce simp: consuming_def)

lemma consuming_map_err: "consuming p \<Longrightarrow> consuming (map_err f p)"
  by (auto simp: consuming_def map_err_Inr)

section \<open>Zero padding up to the end of the window\<close>

text \<open>\<open>while reader.bits_remaining() > 0 { if reader.read_bit()? { return Err(..) } }\<close>.\<close>

function zero_padding :: "(bit_error \<Rightarrow> 'e) \<Rightarrow> 'e \<Rightarrow> ('e, unit) parser" where
  "zero_padding conv e r =
     (if bits_remaining r = 0 then (Inr (), r)
      else (case read_bit r of
              (Inl err, r') \<Rightarrow> (Inl (conv err), r')
            | (Inr b, r') \<Rightarrow> if b then (Inl e, r') else zero_padding conv e r'))"
  by pat_completeness auto
termination
  by (relation "measure (\<lambda>(conv, e, r). bits_remaining r)") (auto dest!: read_bit_remaining [OF sym])

declare zero_padding.simps [simp del]

lemma read_bit_ok:
  "reader_ok r \<Longrightarrow> unread r = b # rest \<Longrightarrow> read_bit r = (Inr b, skip 1 r)"
  using readsD [OF reads_read_bit, of r b rest] by simp

text \<open>The loop accepts exactly an all-zero rest, and consumes it.\<close>

lemma zero_padding_spec:
  assumes "reader_ok r"
  shows "zero_padding conv e r =
    (if True \<in> set (unread r)
     then (Inl e, skip (Suc (length (takeWhile Not (unread r)))) r)
     else (Inr (), skip (length (unread r)) r))"
  using assms
proof (induction "unread r" arbitrary: r)
  case Nil
  then show ?case by (subst zero_padding.simps) (simp add: bits_remaining_ok)
next
  case (Cons b rest)
  note u = Cons.hyps(2) [symmetric]
  have step: "read_bit r = (Inr b, skip 1 r)" by (rule read_bit_ok [OF Cons.prems u])
  have next_ok: "reader_ok (skip 1 r)" "unread (skip 1 r) = rest"
    using Cons.prems u by (simp_all add: reader_ok_skip unread_skip)
  have "zero_padding conv e r = (if b then (Inl e, skip 1 r) else zero_padding conv e (skip 1 r))"
    using Cons.prems step u by (subst zero_padding.simps) (simp add: bits_remaining_ok)
  with Cons.hyps(1) [OF next_ok(2) [symmetric] next_ok(1)] next_ok show ?case
    by (simp add: u)
qed

section \<open>Postconditions of successful results\<close>

definition ensures :: "('e, 'a) parser \<Rightarrow> ('a \<Rightarrow> bool) \<Rightarrow> bool" where
  "ensures p Q \<longleftrightarrow> (\<forall>r a r'. reader_ok r \<longrightarrow> p r = (Inr a, r') \<longrightarrow> reader_ok r' \<and> Q a)"

lemma ensuresD: "ensures p Q \<Longrightarrow> reader_ok r \<Longrightarrow> p r = (Inr a, r') \<Longrightarrow> Q a"
  by (auto simp: ensures_def)

lemma ensures_weaken: "ensures p P \<Longrightarrow> (\<And>a. P a \<Longrightarrow> Q a) \<Longrightarrow> ensures p Q"
  by (auto simp: ensures_def)

lemma ensures_ret [ensures_intros]: "Q a \<Longrightarrow> ensures (ret a) Q"
  by (auto simp: ensures_def ret_Inr)

lemma ensures_fail [ensures_intros]: "ensures (fail e) Q"
  by (auto simp: ensures_def fail_Inr)

lemma ensures_bind:
  "ensures m P \<Longrightarrow> (\<And>a. P a \<Longrightarrow> ensures (k a) Q) \<Longrightarrow> ensures (bind_rd m k) Q"
  unfolding ensures_def by (blast elim: bind_rd_InrE)

lemma ensures_map_err [ensures_intros]: "ensures p Q \<Longrightarrow> ensures (map_err f p) Q"
  by (auto simp: ensures_def map_err_Inr)

lemma ensures_guard [ensures_intros]: "(c \<Longrightarrow> Q ()) \<Longrightarrow> ensures (guard_rd c e) Q"
  by (auto simp: ensures_def guard_rd_Inr)

lemma ensures_some_or [ensures_intros]: "(\<And>a. x = Some a \<Longrightarrow> Q a) \<Longrightarrow> ensures (some_or x e) Q"
  by (auto simp: ensures_def some_or_Inr)

lemma ensures_if [ensures_intros]:
  "(c \<Longrightarrow> ensures p Q) \<Longrightarrow> (\<not> c \<Longrightarrow> ensures q Q) \<Longrightarrow> ensures (if c then p else q) Q"
  by simp

lemma ensures_when [ensures_intros]:
  assumes "c \<Longrightarrow> ensures p P" and "\<And>a. c \<Longrightarrow> P a \<Longrightarrow> Q (Some a)" and "\<not> c \<Longrightarrow> Q None"
  shows "ensures (when_rd c p) Q"
  using assms by (auto simp: when_rd_def intro!: ensures_bind ensures_ret)

lemma ensures_exact: "exact_parser p \<Longrightarrow> ensures p (\<lambda>_. True)"
  by (auto simp: ensures_def dest: exact_ok)

lemma ensures_conj: "ensures p P \<Longrightarrow> ensures p Q \<Longrightarrow> ensures p (\<lambda>a. P a \<and> Q a)"
  by (auto simp: ensures_def)

lemma ensures_repeat:
  "ensures p P \<Longrightarrow> ensures (repeat_rd n p) (\<lambda>xs. length xs = n \<and> (\<forall>x\<in>set xs. P x))"
proof (induction n)
  case (Suc n)
  then show ?case by (auto intro!: ensures_bind ensures_ret)
qed (simp add: ensures_ret)

lemma ensures_each:
  "(\<And>x. x \<in> set xs \<Longrightarrow> ensures (p x) (P x)) \<Longrightarrow> ensures (each_rd p xs) (\<lambda>ys. list_all2 P xs ys)"
proof (induction xs)
  case (Cons x xs)
  then show ?case by (auto intro!: ensures_bind ensures_ret)
qed (simp add: ensures_ret)

lemma ensures_read_uint [ensures_intros]:
  assumes "\<And>v. v < 2 ^ n \<Longrightarrow> v < bound \<Longrightarrow> Q v"
  shows "ensures (read_uint conv ovf bound n) Q"
  unfolding ensures_def
proof (intro allI impI conjI)
  fix r a r'
  assume r: "reader_ok r" and run: "read_uint conv ovf bound n r = (Inr a, r')"
  from exact_read_uint r run show "reader_ok r'" by (rule exact_ok)
  from run obtain v where v: "read_bits n r = (Inr v, r')" and a: "a = unat v" "a < bound"
    by (auto simp: read_uint_def map_err_Inr ret_Inr fail_Inr elim!: bind_rd_InrE split: if_splits)
  note n = read_bits_Inr [OF r v]
  have "a = bits_value (take n (unread r))"
    using n by (simp add: a(1) unat_bits_value)
  then have "a < 2 ^ n"
    using bits_value_less [of "take n (unread r)"] n(2) by (simp add: min_absorb2)
  then show "Q a" using a(2) by (rule assms)
qed

section \<open>What a success has consumed\<close>

text \<open>
  \<open>spells p R\<close>: a success of \<open>p\<close> with result \<open>a\<close> has consumed some bits \<open>bs\<close> with \<open>R bs a\<close>.
  With \<open>R bs a = (bs = enc a \<and> ok a)\<close> this says that \<open>p\<close> accepts nothing but encodings.
\<close>

definition spells :: "('e, 'a) parser \<Rightarrow> (bool list \<Rightarrow> 'a \<Rightarrow> bool) \<Rightarrow> bool" where
  "spells p R \<longleftrightarrow> (\<forall>r a r'. reader_ok r \<longrightarrow> p r = (Inr a, r') \<longrightarrow>
     reader_ok r' \<and> (\<exists>bs. unread r = bs @ unread r' \<and> R bs a))"

lemma spellsD:
  assumes "spells p R" and "reader_ok r" and "p r = (Inr a, r')"
  obtains bs where "reader_ok r'" "unread r = bs @ unread r'" "R bs a"
  using assms unfolding spells_def by blast

lemma spells_weaken: "spells p R \<Longrightarrow> (\<And>bs a. R bs a \<Longrightarrow> S bs a) \<Longrightarrow> spells p S"
  unfolding spells_def by blast

lemma spells_ret: "R [] a \<Longrightarrow> spells (ret a) R"
  by (auto simp: spells_def ret_Inr)

lemma spells_fail: "spells (fail e) R"
  by (auto simp: spells_def fail_Inr)

lemma spells_bind:
  assumes m: "spells m R" and k: "\<And>bs a. R bs a \<Longrightarrow> spells (k a) (\<lambda>cs b. S (bs @ cs) b)"
  shows "spells (bind_rd m k) S"
  unfolding spells_def
proof (intro allI impI)
  fix r b t
  assume r: "reader_ok r" and run: "bind_rd m k r = (Inr b, t)"
  then obtain a s where ms: "m r = (Inr a, s)" and ks: "k a s = (Inr b, t)" by (auto elim: bind_rd_InrE)
  obtain bs where s: "reader_ok s" "unread r = bs @ unread s" "R bs a" by (rule spellsD [OF m r ms])
  obtain cs where "reader_ok t" "unread s = cs @ unread t" "S (bs @ cs) b"
    by (rule spellsD [OF k [OF s(3)] s(1) ks])
  with s show "reader_ok t \<and> (\<exists>ds. unread r = ds @ unread t \<and> S ds b)"
    by (intro conjI exI [of _ "bs @ cs"]) simp_all
qed

lemma spells_map_err: "spells p R \<Longrightarrow> spells (map_err f p) R"
  by (auto simp: spells_def map_err_Inr)

lemma spells_if: "(c \<Longrightarrow> spells p R) \<Longrightarrow> (\<not> c \<Longrightarrow> spells q R) \<Longrightarrow> spells (if c then p else q) R"
  by simp

lemma spells_guard: "spells (guard_rd c e) (\<lambda>bs _. bs = [] \<and> c)"
  by (auto simp: spells_def guard_rd_Inr)

lemma spells_some_or: "spells (some_or x e) (\<lambda>bs a. bs = [] \<and> x = Some a)"
  by (auto simp: spells_def some_or_Inr)

lemma spells_repeat:
  "spells p (\<lambda>bs a. bs = enc a \<and> P a) \<Longrightarrow>
   spells (repeat_rd n p) (\<lambda>bs xs. bs = concat (map enc xs) \<and> length xs = n \<and> (\<forall>x \<in> set xs. P x))"
proof (induction n)
  case (Suc n)
  show ?case
    by (simp, rule spells_bind [OF Suc.prems], rule spells_bind [OF Suc.IH [OF Suc.prems]], rule spells_ret) auto
qed (simp add: spells_ret)

lemma spells_each:
  "(\<And>x. x \<in> set xs \<Longrightarrow> spells (p x) (\<lambda>bs a. bs = enc a \<and> P x a)) \<Longrightarrow>
   spells (each_rd p xs) (\<lambda>bs ys. bs = concat (map enc ys) \<and> list_all2 P xs ys)"
proof (induction xs)
  case (Cons x xs)
  show ?case
    by (simp, rule spells_bind, rule Cons.prems, simp, rule spells_bind, rule Cons.IH,
        rule Cons.prems, simp, rule spells_ret) auto
qed (simp add: spells_ret)

lemma spells_exact:
  assumes "exact_parser p" and "\<And>bs a. reads p bs a \<Longrightarrow> R bs a"
  shows "spells p R"
  unfolding spells_def
proof (intro allI impI)
  fix r a r'
  assume r: "reader_ok r" and run: "p r = (Inr a, r')"
  obtain n where n: "n \<le> length (unread r)" "r' = skip n r" "reads p (take n (unread r)) a"
    by (rule exactE [OF assms(1) r run])
  with r assms(2) show "reader_ok r' \<and> (\<exists>bs. unread r = bs @ unread r' \<and> R bs a)"
    by (auto simp: reader_ok_skip unread_skip intro!: exI [of _ "take n (unread r)"])
qed

lemma spells_read_uint:
  assumes "n \<le> 64"
  shows "spells (read_uint conv ovf bound n) (\<lambda>bs v. bs = bits_of n v \<and> v < 2 ^ n)"
  unfolding spells_def
proof (intro allI impI)
  fix r a r'
  assume r: "reader_ok r" and run: "read_uint conv ovf bound n r = (Inr a, r')"
  from run obtain v where v: "read_bits n r = (Inr v, r')" and a: "a = unat v"
    by (auto simp: read_uint_def map_err_Inr ret_Inr fail_Inr elim!: bind_rd_InrE split: if_splits)
  note n = read_bits_Inr [OF r v]
  let ?bs = "take n (unread r)"
  have len: "length ?bs = n" using n(2) by simp
  have "a = bits_value ?bs" using n(1,4) len by (simp add: a unat_bits_value)
  then have "bits_of n a = ?bs" "a < 2 ^ n"
    using bits_of_bits_value [of ?bs] bits_value_less [of ?bs] len by simp_all
  with n r show "reader_ok r' \<and> (\<exists>bs. unread r = bs @ unread r' \<and> bs = bits_of n a \<and> a < 2 ^ n)"
    by (auto simp: reader_ok_skip unread_skip intro!: exI [of _ ?bs])
qed

lemma spells_read_bit: "spells read_bit (\<lambda>bs b. bs = [b])"
  unfolding spells_def
proof (intro allI impI)
  fix r a r'
  assume r: "reader_ok r" and run: "read_bit r = (Inr a, r')"
  then obtain b rest where u: "unread r = b # rest"
    by (cases "unread r") (auto simp: read_bit_def bind_rd_def read_bits_short)
  then have "read_bit r = (Inr b, skip 1 r)" by (rule read_bit_ok [OF r])
  with run u r show "reader_ok r' \<and> (\<exists>bs. unread r = bs @ unread r' \<and> bs = [a])"
    by (auto simp: reader_ok_skip unread_skip)
qed

section \<open>Packing bits into bytes\<close>

text \<open>Bits to bytes, with zero padding up to the byte boundary.\<close>

function pack_bits :: "bool list \<Rightarrow> u8 list" where
  "pack_bits bs =
     (if bs = [] then []
      else word_of_nat (bits_value (take 8 (bs @ replicate 7 False))) # pack_bits (drop 8 bs))"
  by pat_completeness auto
termination by (relation "measure length") auto

declare pack_bits.simps [simp del]

lemma byte_bits_of_value:
  assumes "length bs = 8"
  shows "byte_bits (word_of_nat (bits_value bs)) = bs"
proof -
  have "bits_value bs < 256" using bits_value_less [of bs] assms by simp
  then have "unat (word_of_nat (bits_value bs) :: u8) = bits_value bs"
    by (simp add: unat_of_nat take_bit_nat_eq_self)
  then show ?thesis using bits_of_bits_value [of bs] assms by (simp add: byte_bits_def)
qed

lemma slice_bits_pack:
  "slice_bits (pack_bits bs) = bs @ replicate (7 - (length bs + 7) mod 8) False"
proof (induction bs rule: pack_bits.induct)
  case (1 bs)
  consider "bs = []" | "bs \<noteq> []" "length bs < 8" | "8 \<le> length bs" by linarith
  then show ?case
  proof cases
    case 1
    then show ?thesis by (simp add: pack_bits.simps [of "[]"] slice_bits_def)
  next
    case 2
    have m: "(length bs + 7) mod 8 = length bs - 1" using 2 by (cases bs) simp_all
    have "take 8 (bs @ replicate 7 False) = bs @ replicate (8 - length bs) False"
      using 2 by (cases bs) (simp_all add: min_def)
    moreover have "drop 8 bs = []" using 2 by simp
    ultimately show ?thesis
      using 2 m by (subst pack_bits.simps)
        (simp add: pack_bits.simps [of "[]"] slice_bits_def byte_bits_of_value)
  next
    case 3
    then have ne: "bs \<noteq> []" by auto
    have "take 8 (bs @ replicate 7 False) = take 8 bs" using 3 by simp
    then have "pack_bits bs = word_of_nat (bits_value (take 8 bs)) # pack_bits (drop 8 bs)"
      using ne by (subst pack_bits.simps) simp
    moreover have "byte_bits (word_of_nat (bits_value (take 8 bs))) = take 8 bs"
      using 3 by (intro byte_bits_of_value) simp
    moreover have "(length (drop 8 bs) + 7) mod 8 = (length bs + 7) mod 8"
    proof -
      obtain k where "length bs = 8 + k" using 3 le_Suc_ex by blast
      then show ?thesis by simp presburger
    qed
    ultimately show ?thesis
      using "1.IH" [OF ne] by (simp add: slice_bits_def flip: append_assoc)
  qed
qed


lemma length_pack_bits: "8 * length (pack_bits bs) = length bs + (7 - (length bs + 7) mod 8)"
  using arg_cong [OF slice_bits_pack [of bs], of length] by simp

text \<open>Bytes whose bits are a message and a zero padding of less than a byte are its packing.\<close>

lemma slice_bits_inject: "slice_bits xs = slice_bits ys \<Longrightarrow> xs = ys"
proof (induction xs arbitrary: ys)
  case Nil
  then show ?case by (metis length_slice_bits length_0_conv mult_eq_0_iff zero_neq_numeral)
next
  case (Cons x xs)
  have "length (slice_bits ys) = 8 * Suc (length xs)"
    using Cons.prems length_slice_bits [of "x # xs"] by simp
  then obtain y zs where ys: "ys = y # zs" by (cases ys) (simp_all add: length_slice_bits)
  have len: "length (byte_bits x) = 8" "length (byte_bits y) = 8" by (simp_all add: byte_bits_def)
  have eq: "byte_bits x @ slice_bits xs = byte_bits y @ slice_bits zs"
    using Cons.prems by (simp add: slice_bits_def ys)
  then have "byte_bits x = byte_bits y" "slice_bits xs = slice_bits zs"
    by (simp_all add: append_eq_append_conv len)
  moreover from this have "bits_value (byte_bits x) = bits_value (byte_bits y)" by simp
  then have "unat x = unat y"
    using unat_u8_less [of x] unat_u8_less [of y] by (simp add: byte_bits_def bits_value_bits_of)
  then have "x = y" by (metis unsigned_word_eqI)
  ultimately show ?case using Cons.IH ys by simp
qed

lemma pack_bits_unique:
  assumes "slice_bits raw = bs @ replicate k False" and "k < 8"
  shows "raw = pack_bits bs"
proof -
  have "8 * length raw = length bs + k" using length_slice_bits [of raw] unfolding assms(1) by simp
  moreover have "\<exists>q m. length bs = 8 * q + m \<and> m < 8" by (intro exI [of _ "length bs div 8"] exI [of _ "length bs mod 8"]) simp
  ultimately obtain q m where m: "length bs = 8 * q + m" "m < 8" "8 * length raw = 8 * q + (m + k)"
    by auto
  then have "m + k = 0 \<or> m + k = 8" using assms(2) by presburger
  moreover have "(8 * q + m + 7) mod 8 = (if m = 0 then 7 else m - 1)"
  proof (cases m)
    case (Suc j)
    then have "8 * q + m + 7 = j + 8 * (q + 1)" by simp
    then show ?thesis using m(2) Suc by (simp only: mod_mult_self2) simp
  qed simp
  ultimately have k: "k = 7 - (length bs + 7) mod 8"
    using m(2) assms(2) unfolding m(1) by auto
  show ?thesis by (rule slice_bits_inject) (simp only: assms(1) slice_bits_pack k)
qed

text \<open>
  Parsing a packed message: when the parser reads the message, only the zero padding of the
  last byte is left.
\<close>

lemma reads_packed:
  assumes "reads p bs a" and "8 * length (pack_bits bs) \<le> usize_max"
  shows "\<exists>r. p (new_reader (pack_bits bs)) = (Inr a, r) \<and> reader_ok r
    \<and> unread r = replicate (7 - (length bs + 7) mod 8) False"
proof -
  let ?r = "new_reader (pack_bits bs)"
  have ok: "reader_ok ?r" and u: "unread ?r = bs @ replicate (7 - (length bs + 7) mod 8) False"
    using assms(2) by (simp_all add: new_reader_ok unread_new_reader slice_bits_pack)
  show ?thesis using readsD [OF assms(1) ok u] reads_ok_after [OF ok u] by auto
qed

section \<open>Successful results from any state\<close>

text \<open>\<open>yields p Q\<close>: every successful result of \<open>p\<close>, from whatever state, satisfies \<open>Q\<close>.\<close>

definition yields :: "('s, 'e, 'a) rd \<Rightarrow> ('a \<Rightarrow> bool) \<Rightarrow> bool" where
  "yields p Q \<longleftrightarrow> (\<forall>s a s'. p s = (Inr a, s') \<longrightarrow> Q a)"

lemma yieldsD: "yields p Q \<Longrightarrow> p s = (Inr a, s') \<Longrightarrow> Q a"
  by (auto simp: yields_def)

lemma yields_bind: "yields m P \<Longrightarrow> (\<And>a. P a \<Longrightarrow> yields (k a) Q) \<Longrightarrow> yields (bind_rd m k) Q"
  unfolding yields_def by (blast elim: bind_rd_InrE)

lemma yields_then: "(\<And>a. yields (k a) Q) \<Longrightarrow> yields (bind_rd m k) Q"
  unfolding yields_def by (blast elim: bind_rd_InrE)

lemma yields_ret: "Q a \<Longrightarrow> yields (ret a) Q"
  by (auto simp: yields_def ret_Inr)

lemma yields_fail: "yields (fail e) Q"
  by (auto simp: yields_def fail_Inr)

lemma yields_lift: "(\<And>a. x = Inr a \<Longrightarrow> Q a) \<Longrightarrow> yields (lift_rd x) Q"
  by (auto simp: yields_def lift_rd_Inr)

lemma yields_bind_lift: "(\<And>a. x = Inr a \<Longrightarrow> yields (k a) Q) \<Longrightarrow> yields (bind_rd (lift_rd x) k) Q"
  by (rule yields_bind [OF yields_lift [where Q = "\<lambda>a. x = Inr a"]])

lemma yields_if: "(c \<Longrightarrow> yields p Q) \<Longrightarrow> (\<not> c \<Longrightarrow> yields q Q) \<Longrightarrow> yields (if c then p else q) Q"
  by simp

lemma yields_weaken: "yields p P \<Longrightarrow> (\<And>a. P a \<Longrightarrow> Q a) \<Longrightarrow> yields p Q"
  by (auto simp: yields_def)

lemma yields_counted: "yields p Q \<Longrightarrow> yields (counted p) (\<lambda>x. Q (fst x))"
  by (auto simp: yields_def counted_def split: prod.splits sum.splits)

lemma yields_repeat: "yields (repeat_rd n p) (\<lambda>xs. length xs = n)"
proof (induction n)
  case (Suc n)
  show ?case
    by (simp only: repeat_rd.simps) (rule yields_then, rule yields_bind [OF Suc], rule yields_ret, simp)
qed (simp add: yields_ret)

lemmas yields_intros = yields_ret yields_fail yields_lift yields_if yields_then

lemma yields_when: "yields p (\<lambda>a. Q (Some a)) \<Longrightarrow> Q None \<Longrightarrow> yields (when_rd c p) Q"
  by (auto simp: when_rd_def intro!: yields_ret yields_bind)

lemma yields_repeat_all:
  assumes "yields p P"
  shows "yields (repeat_rd n p) (\<lambda>xs. length xs = n \<and> (\<forall>x \<in> set xs. P x))"
proof (induction n)
  case (Suc n)
  show ?case
    by (simp only: repeat_rd.simps) (rule yields_bind [OF assms], rule yields_bind [OF Suc], rule yields_ret, simp)
qed (simp add: yields_ret)

lemma yields_some_or: "(\<And>a. x = Some a \<Longrightarrow> Q a) \<Longrightarrow> yields (some_or x e) Q"
  by (auto simp: yields_def some_or_Inr)

lemma yields_each:
  "(\<And>x. x \<in> set xs \<Longrightarrow> yields (p x) P) \<Longrightarrow>
   yields (each_rd p xs) (\<lambda>ys. length ys = length xs \<and> (\<forall>y \<in> set ys. P y))"
proof (induction xs)
  case (Cons x xs)
  have "yields (p x) P" by (rule Cons.prems) simp
  moreover have "yields (each_rd p xs) (\<lambda>ys. length ys = length xs \<and> (\<forall>y \<in> set ys. P y))"
    by (rule Cons.IH) (simp add: Cons.prems)
  ultimately show ?case
    by (simp only: each_rd.simps) (erule yields_bind, erule yields_bind, rule yields_ret, simp)
qed (simp add: yields_ret)

lemma yields_guard: "(c \<Longrightarrow> yields (k ()) Q) \<Longrightarrow> yields (bind_rd (guard_rd c e) k) Q"
  by (cases c) (simp_all add: yields_fail)

lemma fst_run: "fst x = a \<Longrightarrow> \<exists>t. x = (a, t)"
  by (cases x) simp

definition succeeds :: "'e + 'a \<Rightarrow> bool" where
  "succeeds x = (case x of Inl _ \<Rightarrow> False | Inr _ \<Rightarrow> True)"

lemma succeedsE: "succeeds x \<Longrightarrow> (\<And>a. x = Inr a \<Longrightarrow> P) \<Longrightarrow> P"
  by (auto simp: succeeds_def split: sum.splits)

end
