(* ===== verification/Emdf.thy ===== *)
theory Emdf
  imports Parsing
begin

text \<open>
  EMDF decoding, \<open>crates/openjoc-emdf/src/lib.rs\<close>: variable-length fields, payload
  configurations, the container with its bit trace, the synchronization header, the
  classification of a carrier range and the JOC profile validation.
\<close>

section \<open>Data\<close>

datatype emdf_error =
  EmdfBit bit_error
| InvalidSyncword nat
| EmdfLengthOverflow
| TruncatedContainer nat nat
| EmdfInvalidVariableBits nat nat
| VariableBitsGroupLimit nat nat
| EmdfValueOverflow
| UnsupportedVersion u64
| EmdfNonzeroReservedData
| ReservedPrimaryProtectionLength
| EmdfNonzeroPadding
| ExcessPadding nat
| JocProfilePayloadCount nat nat
| JocProfileConfiguration

record emdf_payload_config =
  sample_offset :: "nat option"
  duration :: "u64 option"
  group_id :: "u64 option"
  codec_data_present :: bool
  discard_unknown_payload :: bool
  payload_frame_aligned :: "bool option"
  create_duplicate :: "bool option"
  remove_duplicate :: "bool option"
  priority :: "nat option"
  processing_allowed :: "nat option"

record emdf_payload =
  payload_id :: u64
  payload_config :: emdf_payload_config
  payload_data :: "u8 list"

record emdf_protection =
  primary :: "u8 list"
  secondary :: "u8 list"

record emdf_container =
  version :: u64
  key_id :: u64
  payloads :: "emdf_payload list"
  protection :: emdf_protection

record parsed_emdf =
  container :: emdf_container
  bytes_consumed :: nat

record emdf_payload_bit_trace =
  trace_payload_id :: u64
  payload_id_start_bit :: nat
  payload_id_end_bit :: nat
  config_start_bit :: nat
  config_end_bit :: nat
  payload_size_start_bit :: nat
  payload_size_end_bit :: nat
  payload_body_start_bit :: nat
  payload_body_end_bit :: nat

record parsed_emdf_bit_trace =
  parsed :: parsed_emdf
  trace_payloads :: "emdf_payload_bit_trace list"

datatype carrier_classification =
  NonEmdf
| Parsed parsed_emdf
| Malformed emdf_error
| CarrierTrailingData nat nat

section \<open>Variable-length fields\<close>

definition emdf_bits :: "nat \<Rightarrow> (emdf_error, u64) parser" where
  "emdf_bits n = map_err EmdfBit (read_bits n)"

definition emdf_bit :: "(emdf_error, bool) parser" where
  "emdf_bit = map_err EmdfBit read_bit"

definition emdf_uint :: "nat \<Rightarrow> nat \<Rightarrow> (emdf_error, nat) parser" where
  "emdf_uint bound width = read_uint EmdfBit EmdfValueOverflow bound width"

definition read_octet :: "(emdf_error, u8) parser" where
  "read_octet = bind_rd (emdf_bits 8) (\<lambda>v.
     if unat v < 256 then ret (ucast v) else fail EmdfValueOverflow)"

text \<open>The shift and add between two groups.\<close>

definition next_group_value :: "nat \<Rightarrow> u64 \<Rightarrow> u64 option" where
  "next_group_value width value =
     (case checked_shl64 value width of
        None \<Rightarrow> None
      | Some shifted \<Rightarrow> checked_add64 shifted (push_bit width 1))"

text \<open>
  The loop \<open>for group in 1..=max_groups\<close>, by the number of groups that may still follow the
  current one (\<open>max_groups - group\<close>).
\<close>

primrec variable_bits_groups :: "nat \<Rightarrow> nat \<Rightarrow> nat \<Rightarrow> u64 \<Rightarrow> (emdf_error, u64) parser" where
  "variable_bits_groups width max_groups 0 value =
     bind_rd (emdf_bits width) (\<lambda>g.
     bind_rd (some_or (checked_add64 value g) EmdfValueOverflow) (\<lambda>value.
     bind_rd emdf_bit (\<lambda>more.
       if \<not> more then ret value else fail (VariableBitsGroupLimit width max_groups))))"
| "variable_bits_groups width max_groups (Suc k) value =
     bind_rd (emdf_bits width) (\<lambda>g.
     bind_rd (some_or (checked_add64 value g) EmdfValueOverflow) (\<lambda>value.
     bind_rd emdf_bit (\<lambda>more.
       if \<not> more then ret value
       else bind_rd (some_or (next_group_value width value) EmdfValueOverflow)
              (\<lambda>value. variable_bits_groups width max_groups k value))))"

definition variable_bits :: "nat \<Rightarrow> nat \<Rightarrow> (emdf_error, u64) parser" where
  "variable_bits width max_groups =
     (if width = 0 \<or> width > 63 \<or> max_groups = 0
      then fail (EmdfInvalidVariableBits width max_groups)
      else variable_bits_groups width max_groups (max_groups - 1) 0)"

definition MAX_EXTENDED_GROUPS :: nat where
  "MAX_EXTENDED_GROUPS = 31"

definition extended_value :: "u64 \<Rightarrow> u64 \<Rightarrow> nat \<Rightarrow> (emdf_error, u64) parser" where
  "extended_value base escape width =
     (if base \<noteq> escape then ret base
      else bind_rd (variable_bits width MAX_EXTENDED_GROUPS) (\<lambda>v.
             some_or (checked_add64 base v) EmdfValueOverflow))"

section \<open>Payload configuration and protection\<close>

definition parse_sample_offset :: "(emdf_error, nat option) parser" where
  "parse_sample_offset =
     bind_rd emdf_bit (\<lambda>present.
     when_rd present (
       bind_rd (emdf_uint (2 ^ 16) 11) (\<lambda>value.
       bind_rd emdf_bit (\<lambda>reserved.
       bind_rd (guard_rd (\<not> reserved) EmdfNonzeroReservedData) (\<lambda>_. ret value)))))"

definition parse_codec_data :: "(emdf_error, bool) parser" where
  "parse_codec_data =
     bind_rd emdf_bit (\<lambda>present.
       if present
       then bind_rd (emdf_bits 8) (\<lambda>reserved.
              bind_rd (guard_rd (reserved = 0) EmdfNonzeroReservedData) (\<lambda>_. ret True))
       else ret False)"

definition parse_payload_config :: "(emdf_error, emdf_payload_config) parser" where
  "parse_payload_config =
     bind_rd parse_sample_offset (\<lambda>offset.
     bind_rd (bind_rd emdf_bit (\<lambda>c. when_rd c (variable_bits 11 2))) (\<lambda>duration.
     bind_rd (bind_rd emdf_bit (\<lambda>c. when_rd c (variable_bits 2 MAX_EXTENDED_GROUPS))) (\<lambda>group.
     bind_rd parse_codec_data (\<lambda>codec.
     bind_rd emdf_bit (\<lambda>discard.
     bind_rd (when_rd (\<not> discard \<and> offset = None) emdf_bit) (\<lambda>aligned.
     bind_rd (when_rd (aligned = Some True) emdf_bit) (\<lambda>create.
     bind_rd (when_rd (aligned = Some True) emdf_bit) (\<lambda>remove.
     bind_rd (when_rd (\<not> discard \<and> (offset \<noteq> None \<or> aligned = Some True)) (emdf_uint (2 ^ 8) 5)) (\<lambda>prio.
     bind_rd (when_rd (\<not> discard \<and> (offset \<noteq> None \<or> aligned = Some True)) (emdf_uint (2 ^ 8) 2)) (\<lambda>allowed.
       ret \<lparr>sample_offset = offset, duration = duration, group_id = group,
            codec_data_present = codec, discard_unknown_payload = discard,
            payload_frame_aligned = aligned, create_duplicate = create, remove_duplicate = remove,
            priority = prio, processing_allowed = allowed\<rparr>))))))))))"

text \<open>The length table of both protection fields; code 0 is handled by the caller.\<close>

definition protection_length :: "nat \<Rightarrow> nat" where
  "protection_length code = (if code = 0 then 0 else if code = 1 then 1 else if code = 2 then 4 else 16)"

definition parse_protection :: "(emdf_error, emdf_protection) parser" where
  "parse_protection =
     bind_rd (emdf_uint (2 ^ 8) 2) (\<lambda>primary_code.
     bind_rd (emdf_uint (2 ^ 8) 2) (\<lambda>secondary_code.
     bind_rd (guard_rd (primary_code \<noteq> 0) ReservedPrimaryProtectionLength) (\<lambda>_.
     bind_rd (repeat_rd (protection_length primary_code) read_octet) (\<lambda>p.
     bind_rd (repeat_rd (protection_length secondary_code) read_octet) (\<lambda>s.
       ret \<lparr>primary = p, secondary = s\<rparr>)))))"

section \<open>Containers\<close>

text \<open>\<open>32 + (initial_bits - reader.bits_remaining())\<close>.\<close>

definition carrier_bit :: "nat \<Rightarrow> (emdf_error, nat) parser" where
  "carrier_bit initial_bits r = (Inr (32 + (initial_bits - bits_remaining r)), r)"

text \<open>One iteration of the payload loop; \<open>None\<close> is the terminating zero identifier.\<close>

definition parse_payload ::
  "nat \<Rightarrow> (emdf_error, (emdf_payload \<times> emdf_payload_bit_trace) option) parser" where
  "parse_payload initial_bits =
     bind_rd (carrier_bit initial_bits) (\<lambda>id_start.
     bind_rd (emdf_bits 5) (\<lambda>id_base.
     bind_rd (extended_value id_base 31 5) (\<lambda>id.
       if id = 0 then ret None
       else
         bind_rd (carrier_bit initial_bits) (\<lambda>id_end.
         bind_rd parse_payload_config (\<lambda>config.
         bind_rd (carrier_bit initial_bits) (\<lambda>config_end.
         bind_rd (variable_bits 8 2) (\<lambda>size.
         bind_rd (carrier_bit initial_bits) (\<lambda>size_end.
         bind_rd (some_or (checked_usize (unat size)) EmdfValueOverflow) (\<lambda>size.
         bind_rd (repeat_rd size read_octet) (\<lambda>data.
         bind_rd (carrier_bit initial_bits) (\<lambda>body_end.
           ret (Some
             (\<lparr>payload_id = id, payload_config = config, payload_data = data\<rparr>,
              \<lparr>trace_payload_id = id,
               payload_id_start_bit = id_start, payload_id_end_bit = id_end,
               config_start_bit = id_end, config_end_bit = config_end,
               payload_size_start_bit = config_end, payload_size_end_bit = size_end,
               payload_body_start_bit = size_end, payload_body_end_bit = body_end\<rparr>)))))))))))))"


lemma shrinks_emdf [shrinks_intros]:
  "shrinks (emdf_bits n)" "shrinks emdf_bit" "shrinks (emdf_uint b n)" "shrinks read_octet"
  by (auto simp: emdf_bits_def emdf_bit_def emdf_uint_def read_octet_def intro!: shrinks_intros)

lemma shrinks_variable_bits [shrinks_intros]: "shrinks (variable_bits w m)"
proof -
  have "shrinks (variable_bits_groups w m k v)" for k v
    by (induction k arbitrary: v) (auto intro!: shrinks_intros)
  then show ?thesis by (auto simp: variable_bits_def intro!: shrinks_intros)
qed

lemma shrinks_extended_value [shrinks_intros]: "shrinks (extended_value b e w)"
  by (auto simp: extended_value_def intro!: shrinks_intros)

lemma shrinks_payload_config [shrinks_intros]: "shrinks parse_payload_config"
  by (auto simp: parse_payload_config_def parse_sample_offset_def parse_codec_data_def
      intro!: shrinks_intros)

lemma shrinks_carrier_bit [shrinks_intros]: "shrinks (carrier_bit n)"
  by (simp add: shrinks_def carrier_bit_def)

lemma consuming_emdf_bits: "0 < n \<Longrightarrow> consuming (emdf_bits n)"
  by (simp add: emdf_bits_def consuming_map_err consuming_read_bits)

text \<open>Each iteration of the payload loop reads the five bits of an identifier at least.\<close>

lemma consuming_parse_payload: "consuming (parse_payload n)"
  unfolding parse_payload_def
  by (intro consuming_bind2 [OF shrinks_carrier_bit] consuming_bind1 [OF consuming_emdf_bits] shrinks_intros)
    simp_all

function payload_loop ::
  "nat \<Rightarrow> (emdf_error, (emdf_payload \<times> emdf_payload_bit_trace) list) parser" where
  "payload_loop initial_bits r =
     (case parse_payload initial_bits r of
        (Inl e, r') \<Rightarrow> (Inl e, r')
      | (Inr None, r') \<Rightarrow> (Inr [], r')
      | (Inr (Some p), r') \<Rightarrow>
          (case payload_loop initial_bits r' of
             (Inl e, r'') \<Rightarrow> (Inl e, r'')
           | (Inr ps, r'') \<Rightarrow> (Inr (p # ps), r'')))"
  by pat_completeness auto
termination
  by (relation "measure (\<lambda>(n, r). bits_remaining r)")
    (auto dest!: consumingD [OF consuming_parse_payload, OF sym])

declare payload_loop.simps [simp del]

definition parse_container_with_bit_trace ::
  "(emdf_error, emdf_container \<times> emdf_payload_bit_trace list) parser" where
  "parse_container_with_bit_trace r =
     (let initial_bits = bits_remaining r in
      bind_rd (emdf_bits 2) (\<lambda>version_base.
      bind_rd (extended_value version_base 3 2) (\<lambda>version.
      bind_rd (guard_rd (version = 0) (UnsupportedVersion version)) (\<lambda>_.
      bind_rd (emdf_bits 3) (\<lambda>key_base.
      bind_rd (extended_value key_base 7 3) (\<lambda>key.
      bind_rd (payload_loop initial_bits) (\<lambda>ps.
      bind_rd parse_protection (\<lambda>prot.
        ret (\<lparr>version = version, key_id = key, payloads = map fst ps, protection = prot\<rparr>,
             map snd ps)))))))) r)"

definition SYNCWORD :: nat where
  "SYNCWORD = 0x5838"

text \<open>\<open>u16::from_be_bytes\<close>.\<close>

definition be16 :: "u8 \<Rightarrow> u8 \<Rightarrow> nat" where
  "be16 hi lo = unat hi * 256 + unat lo"

text \<open>Parsing of the declared container \<open>&bytes[4..end]\<close> and of its padding.\<close>

definition parse_declared :: "u8 list \<Rightarrow> emdf_error + (emdf_container \<times> emdf_payload_bit_trace list)" where
  "parse_declared body =
     fst (bind_rd parse_container_with_bit_trace (\<lambda>result r.
            let padding_bits = bits_remaining r in
            if padding_bits > 7 then (Inl (ExcessPadding padding_bits), r)
            else bind_rd (zero_padding EmdfBit EmdfNonzeroPadding) (\<lambda>_. ret result) r)
          (new_reader body))"

definition parse_emdf_sync_with_bit_trace :: "u8 list \<Rightarrow> emdf_error + parsed_emdf_bit_trace" where
  "parse_emdf_sync_with_bit_trace bs =
     (if length bs < 4 then Inl (TruncatedContainer 4 (length bs))
      else let syncword = be16 (bs ! 0) (bs ! 1) in
      if syncword \<noteq> SYNCWORD then Inl (InvalidSyncword syncword)
      else let declared = be16 (bs ! 2) (bs ! 3) in
      case checked_usize (4 + declared) of
        None \<Rightarrow> Inl EmdfLengthOverflow
      | Some end \<Rightarrow>
          if end > length bs then Inl (TruncatedContainer declared (length bs - 4))
          else (case parse_declared (take declared (drop 4 bs)) of
                  Inl e \<Rightarrow> Inl e
                | Inr (c, traces) \<Rightarrow>
                    Inr \<lparr>parsed = \<lparr>container = c, bytes_consumed = end\<rparr>, trace_payloads = traces\<rparr>))"

definition parse_emdf_sync :: "u8 list \<Rightarrow> emdf_error + parsed_emdf" where
  "parse_emdf_sync bs =
     (case parse_emdf_sync_with_bit_trace bs of Inl e \<Rightarrow> Inl e | Inr t \<Rightarrow> Inr (parsed t))"

definition classify_emdf_carrier :: "u8 list \<Rightarrow> carrier_classification" where
  "classify_emdf_carrier bs =
     (if length bs < 2 \<or> be16 (bs ! 0) (bs ! 1) \<noteq> SYNCWORD then NonEmdf
      else (case parse_emdf_sync bs of
              Inr p \<Rightarrow>
                if bytes_consumed p = length bs then Parsed p
                else CarrierTrailingData (bytes_consumed p) (length bs)
            | Inl e \<Rightarrow> Malformed e))"

end
