(* ===== verification/EmdfCodec.thy ===== *)
theory EmdfCodec
  imports Emdf
begin

text \<open>
  The encoding that the EMDF syntax prescribes, as a specification for the parser of
  \<open>Emdf\<close>: bit strings for variable-length values, payload configurations, payloads and
  containers, and the round trips through the parser.
\<close>

section \<open>Variable-length values\<close>

text \<open>
  A value is a non-empty list of groups; every group but the last is followed by a set
  continuation bit, and each continuation adds \<open>2 ^ w\<close>, so no value has two encodings.
\<close>

fun vb_value :: "nat \<Rightarrow> nat \<Rightarrow> nat list \<Rightarrow> nat" where
  "vb_value w v [] = v"
| "vb_value w v [g] = v + g"
| "vb_value w v (g # h # gs) = vb_value w ((v + g) * 2 ^ w + 2 ^ w) (h # gs)"

fun vb_bits :: "nat \<Rightarrow> nat list \<Rightarrow> bool list" where
  "vb_bits w [] = []"
| "vb_bits w [g] = bits_of w g @ [False]"
| "vb_bits w (g # h # gs) = bits_of w g @ True # vb_bits w (h # gs)"

function vb_groups :: "nat \<Rightarrow> nat \<Rightarrow> nat list" where
  "vb_groups w n =
     (if w = 0 \<or> n < 2 ^ w then [n]
      else vb_groups w ((n - 2 ^ w) div 2 ^ w) @ [(n - 2 ^ w) mod 2 ^ w])"
  by pat_completeness auto
termination
proof (relation "measure snd")
  fix w n :: nat
  assume "\<not> (w = 0 \<or> n < 2 ^ w)"
  then have "2 ^ w \<le> n" by simp
  moreover have "(n - 2 ^ w) div 2 ^ w \<le> n - 2 ^ w" by (rule div_le_dividend)
  moreover have "0 < (2::nat) ^ w" by simp
  ultimately show "((w, (n - 2 ^ w) div 2 ^ w), w, n) \<in> measure snd"
    unfolding in_measure snd_conv by linarith
qed simp

declare vb_groups.simps [simp del]

definition vb_encode :: "nat \<Rightarrow> nat \<Rightarrow> bool list" where
  "vb_encode w n = vb_bits w (vb_groups w n)"

definition vb_fits :: "nat \<Rightarrow> nat \<Rightarrow> nat \<Rightarrow> bool" where
  "vb_fits w max_groups n \<longleftrightarrow> length (vb_groups w n) \<le> max_groups"

lemma vb_groups_nonempty [simp]: "vb_groups w n \<noteq> []"
  by (subst vb_groups.simps) simp

lemma vb_groups_small: "0 < w \<Longrightarrow> \<forall>g \<in> set (vb_groups w n). g < 2 ^ w"
proof (induction w n rule: vb_groups.induct)
  case (1 w n)
  then show ?case by (subst vb_groups.simps) auto
qed

lemma vb_value_ge: "v \<le> vb_value w v gs"
proof (induction w v gs rule: vb_value.induct)
  case (3 w v g h gs)
  have "v + g \<le> (v + g) * 2 ^ w" by simp
  with "3.IH" have "v \<le> vb_value w ((v + g) * 2 ^ w + 2 ^ w) (h # gs)" by linarith
  then show ?case by simp
qed simp_all

lemma vb_value_snoc:
  "gs \<noteq> [] \<Longrightarrow> vb_value w v (gs @ [g]) = vb_value w v gs * 2 ^ w + 2 ^ w + g"
  by (induction w v gs rule: vb_value.induct) simp_all

lemma vb_value_groups: "vb_value w 0 (vb_groups w n) = n"
proof (induction w n rule: vb_groups.induct)
  case (1 w n)
  show ?case
  proof (cases "w = 0 \<or> n < 2 ^ w")
    case True
    then show ?thesis by (subst vb_groups.simps) simp
  next
    case False
    let ?m = "n - 2 ^ w"
    have "vb_value w 0 (vb_groups w n) = ?m div 2 ^ w * 2 ^ w + 2 ^ w + ?m mod 2 ^ w"
      using "1.IH" [OF False] by (subst vb_groups.simps) (simp only: False if_False vb_value_snoc vb_groups_nonempty not_False_eq_True)
    also have "\<dots> = ?m + 2 ^ w" using div_mult_mod_eq [of ?m "2 ^ w"] by linarith
    also have "\<dots> = n" using False by simp
    finally show ?thesis .
  qed
qed

text \<open>The groups are the only ones with their value: the format is canonical.\<close>

lemma vb_groups_value:
  assumes "0 < w" and "gs \<noteq> []" and "\<forall>g \<in> set gs. g < 2 ^ w"
  shows "vb_groups w (vb_value w 0 gs) = gs"
  using assms(2,3)
proof (induction gs rule: rev_induct)
  case (snoc g gs)
  show ?case
  proof (cases "gs = []")
    case True
    with snoc.prems show ?thesis by (subst vb_groups.simps) simp
  next
    case False
    let ?v = "vb_value w 0 gs"
    have val: "vb_value w 0 (gs @ [g]) = ?v * 2 ^ w + 2 ^ w + g"
      using False by (rule vb_value_snoc)
    have g: "g < 2 ^ w" using snoc.prems by simp
    have "(?v * 2 ^ w + 2 ^ w + g - 2 ^ w) div 2 ^ w = ?v"
      and "(?v * 2 ^ w + 2 ^ w + g - 2 ^ w) mod 2 ^ w = g"
      using g by simp_all
    moreover have "\<not> (w = 0 \<or> ?v * 2 ^ w + 2 ^ w + g < 2 ^ w)" using assms(1) by simp
    ultimately have "vb_groups w (vb_value w 0 (gs @ [g])) = vb_groups w ?v @ [g]"
      unfolding val by (subst vb_groups.simps) simp
    with snoc.IH [OF False] snoc.prems show ?thesis by simp
  qed
qed simp

section \<open>Round trip of variable-length values\<close>

lemma reads_emdf_bit [reads_intros]: "reads emdf_bit [b] b"
  by (simp add: emdf_bit_def reads_map_err reads_read_bit)

lemma reads_emdf_bit_then: "reads (k b) bs a \<Longrightarrow> reads (bind_rd emdf_bit k) (b # bs) a"
  using reads_bind [OF reads_emdf_bit, of k b bs a] by simp

lemma reads_emdf_bits:
  "n \<le> 64 \<Longrightarrow> unat v < 2 ^ n \<Longrightarrow> reads (emdf_bits n) (bits_of n (unat v)) v"
  by (simp add: emdf_bits_def reads_map_err reads_read_bits_value)

lemma reads_emdf_bits_nat:
  assumes "n \<le> 63" and "v < 2 ^ n"
  shows "reads (emdf_bits n) (bits_of n v) (word_of_nat v)"
proof -
  have "(2::nat) ^ n \<le> 2 ^ 63" using assms(1) by (intro power_increasing) simp_all
  then have "unat (word_of_nat v :: u64) = v" using assms(2) by (intro unat_of_nat64) simp
  with reads_emdf_bits [of n "word_of_nat v"] assms show ?thesis by simp
qed

text \<open>
  The sums that the code checks: the accumulated value, as the 64 bits that are left of it, plus
  the next group, and its shift plus \<open>2 ^ w\<close>.
\<close>

fun vb_adds :: "nat \<Rightarrow> nat \<Rightarrow> nat list \<Rightarrow> bool" where
  "vb_adds w v [] \<longleftrightarrow> True"
| "vb_adds w v [g] \<longleftrightarrow> v mod 2 ^ 64 + g < 2 ^ 64"
| "vb_adds w v (g # h # gs) \<longleftrightarrow> v mod 2 ^ 64 + g < 2 ^ 64 \<and> (v + g) * 2 ^ w mod 2 ^ 64 + 2 ^ w < 2 ^ 64
     \<and> vb_adds w ((v + g) * 2 ^ w + 2 ^ w) (h # gs)"

lemma vb_adds_bounded: "vb_value w v gs < 2 ^ 64 \<Longrightarrow> vb_adds w v gs"
proof (induction w v gs rule: vb_value.induct)
  case (3 w v g h gs)
  let ?v = "(v + g) * 2 ^ w + 2 ^ w"
  have "?v \<le> vb_value w v (g # h # gs)" by (simp add: vb_value_ge)
  with "3.prems" have bound: "?v < 2 ^ 64" by linarith
  moreover have "v + g \<le> (v + g) * 2 ^ w" by simp
  ultimately have small: "v + g < 2 ^ 64" "(v + g) * 2 ^ w < 2 ^ 64" by linarith+
  with bound "3.IH" "3.prems" show ?case by simp
qed simp_all

lemma checked_add64_of_nat:
  assumes "a mod 2 ^ 64 + b < 2 ^ 64"
  shows "checked_add64 (word_of_nat a) (word_of_nat b) = Some (word_of_nat (a + b))"
proof -
  have "unat (word_of_nat a :: u64) = a mod 2 ^ 64" by (simp add: unat_of_nat take_bit_eq_mod)
  moreover have "unat (word_of_nat b :: u64) = b" using assms by (intro unat_of_nat64) linarith
  ultimately show ?thesis using assms by (simp add: checked_add64_def)
qed

lemma next_group_value_of_nat:
  assumes "w \<le> 63" and "v * 2 ^ w mod 2 ^ 64 + 2 ^ w < 2 ^ 64"
  shows "next_group_value w (word_of_nat v) = Some (word_of_nat (v * 2 ^ w + 2 ^ w))"
proof -
  have "push_bit w (word_of_nat v) = (word_of_nat (v * 2 ^ w) :: u64)"
    by (simp add: push_bit_eq_mult)
  moreover have "push_bit w 1 = (word_of_nat (2 ^ w) :: u64)"
    by (simp add: push_bit_eq_mult)
  ultimately show ?thesis
    using assms by (simp add: next_group_value_def checked_shl64_def checked_add64_of_nat
        del: of_nat_mult of_nat_power)
qed

lemma reads_variable_bits_groups:
  "0 < w \<Longrightarrow> w \<le> 63 \<Longrightarrow> gs \<noteq> [] \<Longrightarrow> length gs \<le> Suc k \<Longrightarrow> \<forall>g \<in> set gs. g < 2 ^ w \<Longrightarrow> vb_adds w v gs \<Longrightarrow>
    reads (variable_bits_groups w m k (word_of_nat v)) (vb_bits w gs) (word_of_nat (vb_value w v gs))"
proof (induction w v gs arbitrary: k rule: vb_value.induct)
  case (1 w v)
  then show ?case by simp
next
  case (2 w v g)
  have add: "checked_add64 (word_of_nat v) (word_of_nat g) = Some (word_of_nat (v + g))"
    using "2.prems" by (intro checked_add64_of_nat) simp
  have "reads (variable_bits_groups w m k (word_of_nat v)) (bits_of w g @ [False])
      (word_of_nat (v + g))"
    using "2.prems" add
    by (cases k) (auto simp del: of_nat_add intro!: reads_emdf_bit_then reads_bind [OF reads_emdf_bits_nat] reads_ret)
  then show ?case by simp
next
  case (3 w v g h gs)
  obtain k' where k: "k = Suc k'" using "3.prems" by (cases k) auto
  let ?v = "(v + g) * 2 ^ w + 2 ^ w"
  have add: "checked_add64 (word_of_nat v) (word_of_nat g) = Some (word_of_nat (v + g))"
    using "3.prems" by (intro checked_add64_of_nat) simp
  have shift: "next_group_value w (word_of_nat (v + g)) = Some (word_of_nat ?v)"
    using "3.prems" by (intro next_group_value_of_nat) simp_all
  have rest: "reads (variable_bits_groups w m k' (word_of_nat ?v)) (vb_bits w (h # gs))
      (word_of_nat (vb_value w ?v (h # gs)))"
    using "3.prems" by (intro "3.IH") (simp_all add: k)
  have "reads (variable_bits_groups w m k (word_of_nat v))
      (bits_of w g @ True # vb_bits w (h # gs)) (word_of_nat (vb_value w ?v (h # gs)))"
    using "3.prems" add shift rest unfolding k
    by (auto simp del: of_nat_add of_nat_mult of_nat_power intro!: reads_emdf_bit_then reads_bind [OF reads_emdf_bits_nat])
  then show ?case by simp
qed

lemma reads_variable_bits_list:
  assumes "0 < w" "w \<le> 63" "gs \<noteq> []" "length gs \<le> m" "\<forall>g \<in> set gs. g < 2 ^ w" "vb_adds w 0 gs"
  shows "reads (variable_bits w m) (vb_bits w gs) (word_of_nat (vb_value w 0 gs))"
proof -
  have m: "m \<noteq> 0" using assms(3,4) by (cases gs) simp_all
  then have "reads (variable_bits_groups w m (m - 1) (word_of_nat 0)) (vb_bits w gs) (word_of_nat (vb_value w 0 gs))"
    using assms by (intro reads_variable_bits_groups) simp_all
  with m assms(1,2) show ?thesis by (simp add: variable_bits_def)
qed

lemma reads_variable_bits:
  assumes "0 < w" "w \<le> 63" "vb_fits w m (unat v)"
  shows "reads (variable_bits w m) (vb_encode w (unat v)) v"
  using reads_variable_bits_list [of w "vb_groups w (unat v)" m] assms unat_u64_less [of v]
    vb_adds_bounded [of w 0 "vb_groups w (unat v)"]
  by (simp add: vb_encode_def vb_fits_def vb_value_groups vb_groups_small)

section \<open>Identifiers with an escape code\<close>

definition ext_encode :: "nat \<Rightarrow> u64 \<Rightarrow> bool list" where
  "ext_encode w v =
     (if unat v < 2 ^ w - 1 then bits_of w (unat v)
      else bits_of w (2 ^ w - 1) @ vb_encode w (unat v - (2 ^ w - 1)))"

definition ext_fits :: "nat \<Rightarrow> u64 \<Rightarrow> bool" where
  "ext_fits w v \<longleftrightarrow> unat v < 2 ^ w - 1 \<or> vb_fits w MAX_EXTENDED_GROUPS (unat v - (2 ^ w - 1))"

lemma reads_extended:
  assumes w: "0 < w" "w \<le> 8" and fits: "ext_fits w v" and esc: "escape = word_of_nat (2 ^ w - 1)"
  shows "reads (bind_rd (emdf_bits w) (\<lambda>base. extended_value base escape w)) (ext_encode w v) v"
proof (cases "unat v < 2 ^ w - 1")
  case True
  have "(2::nat) ^ w \<le> 2 ^ 8" using w(2) by (intro power_increasing) simp_all
  then have "unat escape = 2 ^ w - 1" unfolding esc by (intro unat_of_nat64) simp
  with True have "v \<noteq> escape" by auto
  then have "reads (extended_value v escape w) [] v" by (simp add: extended_value_def reads_ret)
  moreover have "reads (emdf_bits w) (bits_of w (unat v)) v"
    using True w by (intro reads_emdf_bits) simp_all
  ultimately show ?thesis
    using reads_bind [of "emdf_bits w" _ v "\<lambda>base. extended_value base escape w" "[]" v] True
    by (simp add: ext_encode_def)
next
  case False
  let ?e = "2 ^ w - 1 :: nat"
  let ?d = "word_of_nat (unat v - ?e) :: u64"
  have lt: "unat v < 2 ^ 64" using unat_u64_less [of v] by simp
  have d: "unat ?d = unat v - ?e" by (intro unat_of_nat64 less_imp_diff_less lt)
  have fits_d: "vb_fits w MAX_EXTENDED_GROUPS (unat ?d)"
    using fits False unfolding d ext_fits_def by blast
  have "checked_add64 (word_of_nat ?e) ?d = Some (word_of_nat (?e + (unat v - ?e)))"
    using lt False by (intro checked_add64_of_nat) simp
  moreover have "word_of_nat (?e + (unat v - ?e)) = v" using False by simp
  ultimately have sum: "checked_add64 escape ?d = Some v" by (simp only: esc)
  have "reads (variable_bits w MAX_EXTENDED_GROUPS) (vb_encode w (unat ?d)) ?d"
    using w fits_d by (intro reads_variable_bits) simp_all
  then have "reads (bind_rd (variable_bits w MAX_EXTENDED_GROUPS)
      (\<lambda>x. some_or (checked_add64 escape x) EmdfValueOverflow)) (vb_encode w (unat ?d) @ []) v"
    by (rule reads_bind) (simp only: sum some_or_simps reads_ret)
  then have "reads (extended_value escape escape w) (vb_encode w (unat ?d)) v"
    by (simp only: extended_value_def append_Nil2 simp_thms if_False)
  then have tail: "reads (extended_value escape escape w) (vb_encode w (unat v - ?e)) v"
    by (simp only: d)
  have base: "reads (emdf_bits w) (bits_of w ?e) escape"
    unfolding esc using w by (intro reads_emdf_bits_nat) simp_all
  have "reads (bind_rd (emdf_bits w) (\<lambda>base. extended_value base escape w))
      (bits_of w ?e @ vb_encode w (unat v - ?e)) v"
    using base tail by (rule reads_bind)
  with False show ?thesis by (simp add: ext_encode_def)
qed

section \<open>Payload configurations\<close>

fun opt_bits :: "('a \<Rightarrow> bool list) \<Rightarrow> 'a option \<Rightarrow> bool list" where
  "opt_bits f None = []"
| "opt_bits f (Some a) = f a"

text \<open>A presence bit followed by the field.\<close>

fun flagged :: "('a \<Rightarrow> bool list) \<Rightarrow> 'a option \<Rightarrow> bool list" where
  "flagged f None = [False]"
| "flagged f (Some a) = True # f a"

definition config_encode :: "emdf_payload_config \<Rightarrow> bool list" where
  "config_encode c =
     flagged (\<lambda>v. bits_of 11 v @ [False]) (sample_offset c)
   @ flagged (\<lambda>v. vb_encode 11 (unat v)) (duration c)
   @ flagged (\<lambda>v. vb_encode 2 (unat v)) (group_id c)
   @ (if codec_data_present c then True # bits_of 8 0 else [False])
   @ discard_unknown_payload c
   # opt_bits (\<lambda>b. [b]) (payload_frame_aligned c)
   @ opt_bits (\<lambda>b. [b]) (create_duplicate c)
   @ opt_bits (\<lambda>b. [b]) (remove_duplicate c)
   @ opt_bits (bits_of 5) (priority c)
   @ opt_bits (bits_of 2) (processing_allowed c)"

text \<open>Which conditional fields are present, and the range of the fixed-width ones.\<close>

definition config_shape :: "emdf_payload_config \<Rightarrow> bool" where
  "config_shape c \<longleftrightarrow>
     (let detailed = \<not> discard_unknown_payload c
            \<and> (sample_offset c \<noteq> None \<or> payload_frame_aligned c = Some True) in
      (payload_frame_aligned c \<noteq> None) = (\<not> discard_unknown_payload c \<and> sample_offset c = None)
    \<and> (create_duplicate c \<noteq> None) = (payload_frame_aligned c = Some True)
    \<and> (remove_duplicate c \<noteq> None) = (payload_frame_aligned c = Some True)
    \<and> (priority c \<noteq> None) = detailed
    \<and> (processing_allowed c \<noteq> None) = detailed
    \<and> (\<forall>v \<in> set_option (sample_offset c). v < 2 ^ 11)
    \<and> (\<forall>v \<in> set_option (priority c). v < 2 ^ 5)
    \<and> (\<forall>v \<in> set_option (processing_allowed c). v < 2 ^ 2))"

definition config_fits :: "emdf_payload_config \<Rightarrow> bool" where
  "config_fits c \<longleftrightarrow>
     (\<forall>v \<in> set_option (duration c). vb_fits 11 2 (unat v))
   \<and> (\<forall>v \<in> set_option (group_id c). vb_fits 2 MAX_EXTENDED_GROUPS (unat v))"

lemma reads_flagged:
  assumes "\<And>a. x = Some a \<Longrightarrow> reads p (f a) a"
  shows "reads (bind_rd emdf_bit (\<lambda>c. when_rd c p)) (flagged f x) x"
proof (cases x)
  case None
  then show ?thesis by (auto intro!: reads_emdf_bit_then reads_ret)
next
  case (Some a)
  then have "reads (when_rd True p) (f a) x" using assms reads_when [of True p "f a" a] by simp
  then show ?thesis by (simp add: Some reads_emdf_bit_then)
qed

lemma reads_opt:
  assumes "(x \<noteq> None) = c" and "\<And>a. x = Some a \<Longrightarrow> reads p (f a) a"
  shows "reads (when_rd c p) (opt_bits f x) x"
  using assms by (cases x) (auto simp: when_rd_def intro: reads_ret reads_bind_ret)

lemma reads_emdf_uint: "n \<le> 64 \<Longrightarrow> 2 ^ n \<le> b \<Longrightarrow> v < 2 ^ n \<Longrightarrow> reads (emdf_uint b n) (bits_of n v) v"
  by (simp add: emdf_uint_def reads_uint_field)

lemma reads_sample_offset:
  assumes "\<forall>v \<in> set_option x. v < 2 ^ 11"
  shows "reads parse_sample_offset (flagged (\<lambda>v. bits_of 11 v @ [False]) x) x"
  unfolding parse_sample_offset_def
  using assms
  by (intro reads_flagged) (auto intro!: reads_bind [OF reads_emdf_uint] reads_emdf_bit_then reads_ret)

lemma reads_codec_data: "reads parse_codec_data (if b then True # bits_of 8 0 else [False]) b"
proof (cases b)
  case True
  have "reads (bind_rd (emdf_bits 8) (\<lambda>reserved.
      bind_rd (guard_rd (reserved = 0) EmdfNonzeroReservedData) (\<lambda>_. ret True))) (bits_of 8 0 @ []) True"
    by (rule reads_bind [OF reads_emdf_bits_nat]) (simp_all add: reads_ret)
  with True show ?thesis
    by (auto simp: parse_codec_data_def simp del: bits_of.simps intro!: reads_emdf_bit_then)
qed (auto simp: parse_codec_data_def intro!: reads_emdf_bit_then reads_ret)

lemma reads_payload_config:
  assumes shape: "config_shape c" and fits: "config_fits c"
  shows "reads parse_payload_config (config_encode c) c"
proof -
  let ?d = "\<not> discard_unknown_payload c \<and> (sample_offset c \<noteq> None \<or> payload_frame_aligned c = Some True)"
  have offset: "\<forall>v \<in> set_option (sample_offset c). v < 2 ^ 11"
    using shape by (simp add: config_shape_def Let_def)
  have dur: "reads (bind_rd emdf_bit (\<lambda>c. when_rd c (variable_bits 11 2)))
      (flagged (\<lambda>v. vb_encode 11 (unat v)) (duration c)) (duration c)"
    using fits by (intro reads_flagged reads_variable_bits) (simp_all add: config_fits_def)
  have group: "reads (bind_rd emdf_bit (\<lambda>c. when_rd c (variable_bits 2 MAX_EXTENDED_GROUPS)))
      (flagged (\<lambda>v. vb_encode 2 (unat v)) (group_id c)) (group_id c)"
    using fits by (intro reads_flagged reads_variable_bits) (simp_all add: config_fits_def)
  have prio: "reads (when_rd ?d (emdf_uint (2 ^ 8) 5)) (opt_bits (bits_of 5) (priority c)) (priority c)"
    using shape by (intro reads_opt reads_emdf_uint) (auto simp: config_shape_def Let_def)
  have allowed: "reads (when_rd ?d (emdf_uint (2 ^ 8) 2))
      (opt_bits (bits_of 2) (processing_allowed c)) (processing_allowed c)"
    using shape by (intro reads_opt reads_emdf_uint) (auto simp: config_shape_def Let_def)
  have opt: "(payload_frame_aligned c \<noteq> None) = (\<not> discard_unknown_payload c \<and> sample_offset c = None)"
    "(create_duplicate c \<noteq> None) = (payload_frame_aligned c = Some True)"
    "(remove_duplicate c \<noteq> None) = (payload_frame_aligned c = Some True)"
    using shape unfolding config_shape_def Let_def by blast+
  note flags = opt [THEN reads_opt, OF reads_emdf_bit]
  show ?thesis
    unfolding parse_payload_config_def config_encode_def
    by (rule reads_bind [OF reads_sample_offset [OF offset]] reads_bind [OF dur] reads_bind [OF group]
        reads_bind [OF reads_codec_data] reads_emdf_bit_then reads_bind [OF flags(1)]
        reads_bind [OF flags(2)] reads_bind [OF flags(3)]
        reads_bind [OF prio] reads_bind_ret_eq [OF allowed])+
      simp
qed


section \<open>Payloads, protection and containers\<close>

definition payload_head :: "emdf_payload \<Rightarrow> bool list" where
  "payload_head p = ext_encode 5 (payload_id p)"

definition payload_size :: "emdf_payload \<Rightarrow> bool list" where
  "payload_size p = vb_encode 8 (length (payload_data p))"

definition payload_encode :: "emdf_payload \<Rightarrow> bool list" where
  "payload_encode p =
     payload_head p @ config_encode (payload_config p) @ payload_size p @ slice_bits (payload_data p)"

definition payload_fits :: "emdf_payload \<Rightarrow> bool" where
  "payload_fits p \<longleftrightarrow> payload_id p \<noteq> 0 \<and> ext_fits 5 (payload_id p)
     \<and> config_shape (payload_config p) \<and> config_fits (payload_config p)
     \<and> vb_fits 8 2 (length (payload_data p)) \<and> length (payload_data p) < 2 ^ 64"

text \<open>The bit spans of a payload that starts at carrier bit \<open>start\<close>.\<close>

definition payload_trace :: "nat \<Rightarrow> emdf_payload \<Rightarrow> emdf_payload_bit_trace" where
  "payload_trace start p =
     (let id_end = start + length (payload_head p);
          config_end = id_end + length (config_encode (payload_config p));
          size_end = config_end + length (payload_size p) in
      \<lparr>trace_payload_id = payload_id p,
       payload_id_start_bit = start, payload_id_end_bit = id_end,
       config_start_bit = id_end, config_end_bit = config_end,
       payload_size_start_bit = config_end, payload_size_end_bit = size_end,
       payload_body_start_bit = size_end,
       payload_body_end_bit = size_end + 8 * length (payload_data p)\<rparr>)"

fun payload_traces :: "nat \<Rightarrow> emdf_payload list \<Rightarrow> emdf_payload_bit_trace list" where
  "payload_traces start [] = []"
| "payload_traces start (p # ps) =
     payload_trace start p # payload_traces (start + length (payload_encode p)) ps"

definition protection_code :: "u8 list \<Rightarrow> nat" where
  "protection_code bs =
     (if length bs = 0 then 0 else if length bs = 1 then 1 else if length bs = 4 then 2 else 3)"

definition protection_encode :: "emdf_protection \<Rightarrow> bool list" where
  "protection_encode p =
     bits_of 2 (protection_code (primary p)) @ bits_of 2 (protection_code (secondary p))
     @ slice_bits (primary p) @ slice_bits (secondary p)"

definition protection_fits :: "emdf_protection \<Rightarrow> bool" where
  "protection_fits p \<longleftrightarrow> length (primary p) \<in> {1, 4, 16} \<and> length (secondary p) \<in> {0, 1, 4, 16}"

definition container_encode :: "emdf_container \<Rightarrow> bool list" where
  "container_encode c =
     ext_encode 2 (version c) @ ext_encode 3 (key_id c)
     @ concat (map payload_encode (payloads c)) @ ext_encode 5 0 @ protection_encode (protection c)"

definition container_fits :: "emdf_container \<Rightarrow> bool" where
  "container_fits c \<longleftrightarrow> version c = 0 \<and> ext_fits 3 (key_id c)
     \<and> (\<forall>p \<in> set (payloads c). payload_fits p) \<and> protection_fits (protection c)"

lemma ucast_back: "(ucast (ucast b :: u64) :: u8) = b"
  by (rule bit_word_eqI) (simp add: bit_unsigned_iff)

lemma reads_octet: "reads read_octet (byte_bits b) b"
proof -
  have b: "unat b < 256" by (rule unat_u8_less)
  have u: "unat (ucast b :: u64) = unat b"
    using b by (simp add: unsigned_ucast_eq take_bit_nat_eq_self_iff)
  have "reads (emdf_bits 8) (byte_bits b) (ucast b)"
    using reads_emdf_bits [of 8 "ucast b"] b by (simp add: u byte_bits_def)
  then have "reads read_octet (byte_bits b @ []) b"
    unfolding read_octet_def by (rule reads_bind) (use b in \<open>simp add: u ucast_back reads_ret\<close>)
  then show ?thesis by simp
qed

lemma slice_bits_concat: "slice_bits bs = concat (map byte_bits bs)"
  by (simp add: slice_bits_def)

lemma reads_octets: "n = length bs \<Longrightarrow> reads (repeat_rd n read_octet) (slice_bits bs) bs"
  unfolding slice_bits_concat by (rule reads_repeat) (simp_all add: reads_octet)

lemma reads_protection:
  assumes "protection_fits p"
  shows "reads parse_protection (protection_encode p) p"
proof -
  have code: "protection_code (primary p) < 2 ^ 2" "protection_code (secondary p) < 2 ^ 2"
    by (simp_all add: protection_code_def)
  have len: "protection_length (protection_code (primary p)) = length (primary p)"
    "protection_length (protection_code (secondary p)) = length (secondary p)"
    "(protection_code (primary p) \<noteq> 0) = True"
    using assms by (auto simp: protection_fits_def protection_code_def protection_length_def)
  have octets: "reads (repeat_rd (protection_length (protection_code (primary p))) read_octet)
        (slice_bits (primary p)) (primary p)"
    "reads (repeat_rd (protection_length (protection_code (secondary p))) read_octet)
        (slice_bits (secondary p)) (secondary p)"
    by (simp_all only: len reads_octets)
  have codes: "reads (emdf_uint (2 ^ 8) 2) (bits_of 2 (protection_code (primary p))) (protection_code (primary p))"
    "reads (emdf_uint (2 ^ 8) 2) (bits_of 2 (protection_code (secondary p))) (protection_code (secondary p))"
    using code by (simp_all add: reads_emdf_uint)
  show ?thesis
    unfolding parse_protection_def protection_encode_def
    by (rule reads_bind [OF codes(1)], rule reads_bind [OF codes(2)])
      (simp only: len(3) guard_rd_simps bind_ret,
       rule reads_bind [OF octets(1)], rule reads_bind_ret_eq [OF octets(2)], simp)
qed

lemma carrier_bit_skip:
  assumes "reader_ok r" and "k \<le> length (unread r)" and "length (unread r) \<le> n"
  shows "carrier_bit n (skip k r) = (Inr (32 + (n - length (unread r)) + k), skip k r)"
  using assms by (simp add: carrier_bit_def bits_remaining_ok reader_ok_skip unread_skip)


lemma payload_size_value:
  assumes "length (payload_data p) < 2 ^ 64"
  shows "unat (word_of_nat (length (payload_data p)) :: u64) = length (payload_data p)"
  using assms by (rule unat_of_nat64)

lemma parse_payload_encoded:
  assumes ok: "reader_ok r" and u: "unread r = payload_encode p @ rest" and fits: "payload_fits p"
    and n: "length (unread r) \<le> n"
  shows "parse_payload n r =
    (Inr (Some (p, payload_trace (32 + (n - length (unread r))) p)), skip (length (payload_encode p)) r)"
proof -
  let ?h = "payload_head p" and ?c = "config_encode (payload_config p)"
    and ?s = "payload_size p" and ?d = "slice_bits (payload_data p)"
  let ?size = "word_of_nat (length (payload_data p)) :: u64"
  let ?p1 = "length ?h" and ?p2 = "length ?h + length ?c" and ?p3 = "length ?h + length ?c + length ?s"
  let ?b = "32 + (n - length (unread r))"
  have id_ok: "ext_fits 5 (payload_id p)" and id: "payload_id p \<noteq> 0"
    and cfg: "config_shape (payload_config p)" "config_fits (payload_config p)"
    and size: "vb_fits 8 2 (length (payload_data p))" "length (payload_data p) < 2 ^ 64"
    using fits by (simp_all add: payload_fits_def)
  have u': "unread r = ?h @ ?c @ ?s @ ?d @ rest"
    using u by (simp add: payload_encode_def)
  have len: "?p1 \<le> length (unread r)" "?p2 \<le> length (unread r)" "?p3 \<le> length (unread r)"
    "?p3 + 8 * length (payload_data p) \<le> length (unread r)"
    by (simp_all add: u')
  have pos: "carrier_bit n (skip k r) = (Inr (?b + k), skip k r)" if "k \<le> length (unread r)" for k
    using carrier_bit_skip [OF ok that n] .
  have at: "reader_ok (skip k r)" "unread (skip k r) = drop k (unread r)"
    if "k \<le> length (unread r)" for k
    using ok that by (simp_all add: reader_ok_skip unread_skip)
  have head: "bind_rd (emdf_bits 5) (\<lambda>base. extended_value base 31 5) r = (Inr (payload_id p), skip ?p1 r)"
    by (rule readsD [OF reads_extended [OF _ _ id_ok, of 31] ok, folded payload_head_def, OF _ _ _ u']) simp_all
  have config: "parse_payload_config (skip ?p1 r) = (Inr (payload_config p), skip ?p2 r)"
    using readsD [OF reads_payload_config [OF cfg] at(1) [OF len(1)], of "?s @ ?d @ rest"] at(2) [OF len(1)]
    by (simp add: u')
  have sized: "reads (variable_bits 8 2) ?s ?size"
    using reads_variable_bits [of 8 2 ?size] size
    by (simp add: payload_size_def payload_size_value)
  have bits: "variable_bits 8 2 (skip ?p2 r) = (Inr ?size, skip ?p3 r)"
    using readsD [OF sized at(1) [OF len(2)], of "?d @ rest"] at(2) [OF len(2)]
    by (simp add: u')
  have body: "repeat_rd (length (payload_data p)) read_octet (skip ?p3 r)
      = (Inr (payload_data p), skip (?p3 + 8 * length (payload_data p)) r)"
    using readsD [OF reads_octets [OF refl] at(1) [OF len(3)], of "payload_data p" rest] at(2) [OF len(3)]
    by (simp add: u')
  show ?thesis
    unfolding parse_payload_def bind_assoc [symmetric, of "emdf_bits 5"]
    using pos [of 0] pos [OF len(1)] pos [OF len(2)] pos [OF len(3)] pos [OF len(4)] id
      head config bits body payload_size_value [OF size(2)] size(2)
    by (simp add: rd_simps payload_trace_def payload_encode_def usize_max_def Let_def ac_simps)
qed


lemma reads_zero_id: "reads (bind_rd (emdf_bits 5) (\<lambda>base. extended_value base 31 5)) (ext_encode 5 0) 0"
  by (rule reads_extended) (simp_all add: ext_fits_def)

lemma payload_loop_encoded:
  assumes "reader_ok r" and "unread r = concat (map payload_encode ps) @ ext_encode 5 0 @ rest"
    and "\<forall>p \<in> set ps. payload_fits p" and "length (unread r) \<le> n"
  shows "payload_loop n r =
    (Inr (zip ps (payload_traces (32 + (n - length (unread r))) ps)),
     skip (length (concat (map payload_encode ps) @ ext_encode 5 0)) r)"
  using assms
proof (induction ps arbitrary: r)
  case Nil
  have "carrier_bit n r = (Inr (32 + (n - length (unread r))), r)"
    using carrier_bit_skip [OF Nil.prems(1), of 0 n] Nil.prems(4) by simp
  moreover have "bind_rd (emdf_bits 5) (\<lambda>base. extended_value base 31 5) r
      = (Inr 0, skip (length (ext_encode 5 0)) r)"
    using Nil.prems by (intro readsD [OF reads_zero_id]) simp_all
  ultimately have "parse_payload n r = (Inr None, skip (length (ext_encode 5 0)) r)"
    unfolding parse_payload_def bind_assoc [symmetric, of "emdf_bits 5"]
    by (simp add: rd_simps)
  then show ?case by (subst payload_loop.simps) simp
next
  case (Cons p ps)
  let ?l = "length (payload_encode p)"
  have u: "unread r = payload_encode p @ (concat (map payload_encode ps) @ ext_encode 5 0 @ rest)"
    using Cons.prems(2) by simp
  have step: "parse_payload n r =
      (Inr (Some (p, payload_trace (32 + (n - length (unread r))) p)), skip ?l r)"
    using Cons.prems by (intro parse_payload_encoded [OF _ u]) simp_all
  have r': "reader_ok (skip ?l r)" "unread (skip ?l r) = concat (map payload_encode ps) @ ext_encode 5 0 @ rest"
    using reads_ok_after [OF Cons.prems(1) u] by simp_all
  have pos: "32 + (n - length (unread (skip ?l r))) = 32 + (n - length (unread r)) + ?l"
    using Cons.prems(4) u r'(2) by simp
  have "payload_loop n (skip ?l r) =
      (Inr (zip ps (payload_traces (32 + (n - length (unread r)) + ?l) ps)),
       skip (length (concat (map payload_encode ps) @ ext_encode 5 0)) (skip ?l r))"
    unfolding pos [symmetric]
    using Cons.prems r' by (intro Cons.IH) (simp_all add: unread_skip)
  with step show ?case
    by (subst payload_loop.simps) (simp add: add.assoc)
qed

lemma length_payload_traces [simp]: "length (payload_traces s ps) = length ps"
  by (induction ps arbitrary: s) simp_all

definition container_prefix :: "emdf_container \<Rightarrow> bool list" where
  "container_prefix c = ext_encode 2 (version c) @ ext_encode 3 (key_id c)"

lemma parse_container_encoded:
  assumes ok: "reader_ok r" and u: "unread r = container_encode c @ rest" and fits: "container_fits c"
  shows "parse_container_with_bit_trace r =
    (Inr (c, payload_traces (32 + length (container_prefix c)) (payloads c)),
     skip (length (container_encode c)) r)"
proof -
  let ?v = "ext_encode 2 (version c)" and ?k = "ext_encode 3 (key_id c)"
    and ?ps = "concat (map payload_encode (payloads c)) @ ext_encode 5 0"
    and ?t = "protection_encode (protection c)"
  let ?n = "length (unread r)"
  have v0: "version c = 0" and k: "ext_fits 3 (key_id c)" and ps: "\<forall>p \<in> set (payloads c). payload_fits p"
    and t: "protection_fits (protection c)"
    using fits by (simp_all add: container_fits_def)
  have u': "unread r = ?v @ ?k @ ?ps @ ?t @ rest"
    using u by (simp add: container_encode_def)
  have len: "length ?v \<le> ?n" "length ?v + length ?k \<le> ?n" "length ?v + length ?k + length ?ps \<le> ?n"
    by (simp_all add: u')
  have at: "reader_ok (skip i r)" "unread (skip i r) = drop i (unread r)" if "i \<le> ?n" for i
    using ok that by (simp_all add: reader_ok_skip unread_skip)
  have vs: "bind_rd (emdf_bits 2) (\<lambda>base. extended_value base 3 2) r = (Inr 0, skip (length ?v) r)"
    by (rule readsD [OF _ ok u'], unfold v0) (rule reads_extended; simp add: ext_fits_def)
  have ks: "bind_rd (emdf_bits 3) (\<lambda>base. extended_value base 7 3) (skip (length ?v) r)
      = (Inr (key_id c), skip (length ?v + length ?k) r)"
    using readsD [OF reads_extended [OF _ _ k, of 7] at(1) [OF len(1)], of "?ps @ ?t @ rest"] at(2) [OF len(1)]
    by (simp add: u')
  let ?tail = "concat (map payload_encode (payloads c)) @ ext_encode 5 0 @ ?t @ rest"
  have rest_ps: "unread (skip (length ?v + length ?k) r) = ?tail"
    using at(2) [OF len(2)] by (simp add: u')
  have "length ?tail \<le> ?n" by (simp add: u')
  note payload_loop_encoded [OF at(1) [OF len(2)] rest_ps ps, unfolded rest_ps, OF this]
  moreover have "?n - length ?tail = length (container_prefix c)"
    by (simp add: u' container_prefix_def)
  ultimately have loop: "payload_loop ?n (skip (length ?v + length ?k) r) =
      (Inr (zip (payloads c) (payload_traces (32 + length (container_prefix c)) (payloads c))),
       skip (length ?v + length ?k + length ?ps) r)"
    by simp
  have prot: "parse_protection (skip (length ?v + length ?k + length ?ps) r)
      = (Inr (protection c), skip (length ?v + length ?k + length ?ps + length ?t) r)"
    using readsD [OF reads_protection [OF t] at(1) [OF len(3)], of rest] at(2) [OF len(3)]
    by (simp add: u')
  show ?thesis
    unfolding parse_container_with_bit_trace_def bits_remaining_ok [OF ok] Let_def
      bind_assoc [symmetric, of "emdf_bits 2"] bind_assoc [symmetric, of "emdf_bits 3"]
    using vs ks loop prot v0
    by (simp add: rd_simps container_encode_def add.assoc)
qed

section \<open>Whole carriers\<close>

definition emdf_encode :: "emdf_container \<Rightarrow> u8 list" where
  "emdf_encode c =
     (let body = pack_bits (container_encode c); n = length body in
      [0x58, 0x38, word_of_nat (n div 256), word_of_nat (n mod 256)] @ body)"

definition emdf_fits :: "emdf_container \<Rightarrow> bool" where
  "emdf_fits c \<longleftrightarrow> container_fits c \<and> length (pack_bits (container_encode c)) < 2 ^ 16"

lemma be16_split:
  assumes "n < 2 ^ 16"
  shows "be16 (word_of_nat (n div 256)) (word_of_nat (n mod 256)) = n"
proof -
  have "n div 256 < 2 ^ 8" using assms by simp
  then have "unat (word_of_nat (n div 256) :: u8) = n div 256"
    by (simp add: unat_of_nat take_bit_nat_eq_self)
  moreover have "unat (word_of_nat (n mod 256) :: u8) = n mod 256"
    by (simp add: unat_of_nat take_bit_nat_eq_self)
  ultimately show ?thesis by (simp add: be16_def)
qed

lemma parse_declared_encoded:
  assumes "container_fits c" and "8 * length (pack_bits (container_encode c)) \<le> usize_max"
  shows "parse_declared (pack_bits (container_encode c))
    = Inr (c, payload_traces (32 + length (container_prefix c)) (payloads c))"
proof -
  let ?body = "pack_bits (container_encode c)" and ?pad = "7 - (length (container_encode c) + 7) mod 8"
  let ?r = "new_reader ?body"
  have ok: "reader_ok ?r" and u: "unread ?r = container_encode c @ replicate ?pad False"
    using assms(2) by (simp_all add: new_reader_ok unread_new_reader slice_bits_pack)
  let ?r1 = "skip (length (container_encode c)) ?r"
  have run: "parse_container_with_bit_trace ?r =
      (Inr (c, payload_traces (32 + length (container_prefix c)) (payloads c)), ?r1)"
    by (rule parse_container_encoded [OF ok u assms(1)])
  have r1: "reader_ok ?r1" "unread ?r1 = replicate ?pad False"
    using reads_ok_after [OF ok u] by simp_all
  then have "zero_padding EmdfBit EmdfNonzeroPadding ?r1 = (Inr (), skip ?pad ?r1)"
    by (simp add: zero_padding_spec)
  then show ?thesis
    using run r1 by (simp add: parse_declared_def bind_rd_def bits_remaining_ok ret_eq Let_def)
qed

lemma parse_emdf_sync_encoded:
  assumes "emdf_fits c"
  shows "parse_emdf_sync_with_bit_trace (emdf_encode c @ rest) =
    Inr \<lparr>parsed = \<lparr>container = c, bytes_consumed = length (emdf_encode c)\<rparr>,
         trace_payloads = payload_traces (32 + length (container_prefix c)) (payloads c)\<rparr>"
proof -
  let ?body = "pack_bits (container_encode c)"
  have n: "length ?body < 2 ^ 16" and fits: "container_fits c"
    using assms by (simp_all add: emdf_fits_def)
  have "8 * length ?body \<le> usize_max" using n by (simp add: usize_max_def)
  note declared = parse_declared_encoded [OF fits this]
  have "4 + length ?body \<le> usize_max" using n by (simp add: usize_max_def)
  moreover have "be16 0x58 0x38 = SYNCWORD" by (simp add: be16_def SYNCWORD_def)
  ultimately show ?thesis
    using be16_split [OF n] declared
    by (simp add: parse_emdf_sync_with_bit_trace_def emdf_encode_def Let_def)
qed

section \<open>Trailing data\<close>

lemma parse_emdf_sync_consumed:
  assumes "parse_emdf_sync_with_bit_trace bs = Inr t"
  shows "bytes_consumed (parsed t) = 4 + be16 (bs ! 2) (bs ! 3)"
    and "bytes_consumed (parsed t) \<le> length bs" and "4 \<le> length bs"
    and "be16 (bs ! 0) (bs ! 1) = SYNCWORD"
    and "parse_declared (take (be16 (bs ! 2) (bs ! 3)) (drop 4 bs)) = Inr (container (parsed t), trace_payloads t)"
  using assms
  by (auto simp: parse_emdf_sync_with_bit_trace_def Let_def checked_usize_def
      split: if_splits sum.splits prod.splits)

lemma parse_emdf_sync_prefix:
  assumes t: "parse_emdf_sync_with_bit_trace bs = Inr t"
  shows "parse_emdf_sync_with_bit_trace (take (bytes_consumed (parsed t)) bs @ rest) = Inr t"
proof -
  note c = parse_emdf_sync_consumed [OF t]
  let ?n = "be16 (bs ! 2) (bs ! 3)"
  let ?bs = "take (4 + ?n) bs @ rest"
  have nth: "?bs ! i = bs ! i" if "i < 4" for i
    using that c by (simp add: nth_append)
  have len: "4 + ?n \<le> length ?bs" using c by simp
  have body: "take ?n (drop 4 ?bs) = take ?n (drop 4 bs)"
    using c by (simp add: drop_take)
  have "?n < 2 ^ 16"
    using unat_u8_less [of "bs ! 2"] unat_u8_less [of "bs ! 3"] by (simp add: be16_def)
  then have fit: "4 + ?n \<le> usize_max" by (simp add: usize_max_def)
  have "parse_emdf_sync_with_bit_trace ?bs
      = Inr \<lparr>parsed = \<lparr>container = container (parsed t), bytes_consumed = 4 + ?n\<rparr>, trace_payloads = trace_payloads t\<rparr>"
    using len nth [of 0] nth [of 1] nth [of 2] nth [of 3] c(4,5) fit body
    by (simp add: parse_emdf_sync_with_bit_trace_def Let_def)
  moreover have "parsed t = \<lparr>container = container (parsed t), bytes_consumed = 4 + ?n\<rparr>"
    using c(1) by simp
  ultimately show ?thesis by (simp add: c(1))
qed

end
