(* ===== verification/EmdfProfile.thy ===== *)
theory EmdfProfile
  imports Emdf
begin

text \<open>
  The JOC profile validation of \<open>crates/openjoc-emdf/src/lib.rs\<close>: the evidence-carrying
  validator \<open>validate_joc_profile_for\<close>, its strict wrapper \<open>validate_joc_profile\<close>, and the
  reference predicates of tables 55 and 56 that they are proved equivalent to.
\<close>

section \<open>Profiles and evidence\<close>

definition OAMD_PAYLOAD_ID :: u64 where "OAMD_PAYLOAD_ID = 11"

definition JOC_PAYLOAD_ID :: u64 where "JOC_PAYLOAD_ID = 14"

datatype joc_validation_profile = EtsiStrict | ObservedVendorCompat

definition profile_as_str :: "joc_validation_profile \<Rightarrow> string" where
  "profile_as_str p =
     (case p of EtsiStrict \<Rightarrow> ''ETSI_STRICT'' | ObservedVendorCompat \<Rightarrow> ''OBSERVED_VENDOR_COMPAT'')"

datatype joc_validation_status = NormativeCompliant | AcceptedWithDeviation

definition status_as_str :: "joc_validation_status \<Rightarrow> string" where
  "status_as_str s =
     (case s of NormativeCompliant \<Rightarrow> ''normative_compliant''
              | AcceptedWithDeviation \<Rightarrow> ''accepted_with_deviation'')"

datatype joc_profile_field =
  SampleOffset | Duration | GroupId | CodecDataPresent | DiscardUnknownPayload
| PayloadFrameAligned | CreateDuplicate | RemoveDuplicate | Priority | ProcessingAllowed

definition field_as_str :: "joc_profile_field \<Rightarrow> string" where
  "field_as_str f =
     (case f of
        SampleOffset \<Rightarrow> ''smploffste''
      | Duration \<Rightarrow> ''duratione''
      | GroupId \<Rightarrow> ''groupid''
      | CodecDataPresent \<Rightarrow> ''codecdatae''
      | DiscardUnknownPayload \<Rightarrow> ''discard_unknown_payload''
      | PayloadFrameAligned \<Rightarrow> ''payload_frame_aligned''
      | CreateDuplicate \<Rightarrow> ''create_duplicate''
      | RemoveDuplicate \<Rightarrow> ''remove_duplicate''
      | Priority \<Rightarrow> ''priority''
      | ProcessingAllowed \<Rightarrow> ''proc_allowed'')"

datatype joc_profile_value = Absent | Present | BoolValue bool | Unsigned u64

record joc_profile_deviation =
  dev_payload_id :: u64
  dev_field :: joc_profile_field
  dev_actual :: joc_profile_value
  dev_expected_by_etsi :: joc_profile_value

record joc_profile_validation_failure =
  failure_profile :: joc_validation_profile
  oamd_payload_count :: nat
  joc_payload_count :: nat
  failure_deviations :: "joc_profile_deviation list"

record validated_joc_profile =
  valid_profile :: joc_validation_profile
  valid_status :: joc_validation_status
  valid_oamd :: emdf_payload
  valid_joc :: emdf_payload
  valid_deviations :: "joc_profile_deviation list"

definition option_bool_value :: "bool option \<Rightarrow> joc_profile_value" where
  "option_bool_value v = (case v of None \<Rightarrow> Absent | Some b \<Rightarrow> BoolValue b)"

text \<open>\<open>option_u8_value\<close>, \<open>option_u16_value\<close>: widened by \<open>u64::from\<close>.\<close>

definition option_narrow_value :: "nat option \<Rightarrow> joc_profile_value" where
  "option_narrow_value v = (case v of None \<Rightarrow> Absent | Some n \<Rightarrow> Unsigned (word_of_nat n))"

definition option_u64_value :: "u64 option \<Rightarrow> joc_profile_value" where
  "option_u64_value v = (case v of None \<Rightarrow> Absent | Some n \<Rightarrow> Unsigned n)"

definition push_deviation ::
  "u64 \<Rightarrow> joc_profile_field \<Rightarrow> joc_profile_value \<Rightarrow> joc_profile_value \<Rightarrow>
   joc_profile_deviation list \<Rightarrow> joc_profile_deviation list" where
  "push_deviation pid field actual expected deviations =
     (if actual = expected \<or> (expected = Present \<and> actual \<noteq> Absent) then deviations
      else deviations @ [\<lparr>dev_payload_id = pid, dev_field = field,
                          dev_actual = actual, dev_expected_by_etsi = expected\<rparr>])"

definition profile_config_deviations :: "emdf_payload \<Rightarrow> joc_profile_deviation list" where
  "profile_config_deviations p =
     (let c = payload_config p; push = push_deviation (payload_id p) in
      (push ProcessingAllowed (option_narrow_value (processing_allowed c)) (Unsigned 0)
      (push Priority (option_narrow_value (priority c)) (Unsigned 0)
      (push RemoveDuplicate (option_bool_value (remove_duplicate c)) (BoolValue False)
      (push CreateDuplicate (option_bool_value (create_duplicate c)) (BoolValue False)
      (push PayloadFrameAligned (option_bool_value (payload_frame_aligned c)) (BoolValue True)
      (push DiscardUnknownPayload (BoolValue (discard_unknown_payload c)) (BoolValue False)
      (push CodecDataPresent (BoolValue (codec_data_present c)) (BoolValue True)
      (push GroupId (option_u64_value (group_id c)) Present
      (push Duration (option_u64_value (duration c)) Absent
      (push SampleOffset (option_narrow_value (sample_offset c)) Absent [])))))))))))"

definition is_allowed_vendor_deviation :: "joc_profile_deviation \<Rightarrow> bool" where
  "is_allowed_vendor_deviation d =
     (let pid = dev_payload_id d; f = dev_field d; a = dev_actual d; e = dev_expected_by_etsi d in
      ((pid = OAMD_PAYLOAD_ID \<or> pid = JOC_PAYLOAD_ID) \<and> f = CodecDataPresent
         \<and> a = BoolValue False \<and> e = BoolValue True)
    \<or> (pid = OAMD_PAYLOAD_ID \<and> f = PayloadFrameAligned \<and> a = BoolValue False \<and> e = BoolValue True)
    \<or> (pid = OAMD_PAYLOAD_ID \<and> (f = CreateDuplicate \<or> f = RemoveDuplicate)
         \<and> a = Absent \<and> e = BoolValue False)
    \<or> (pid = OAMD_PAYLOAD_ID \<and> (f = Priority \<or> f = ProcessingAllowed)
         \<and> a = Absent \<and> e = Unsigned 0))"

section \<open>Validation\<close>

definition validate_joc_profile_for ::
  "emdf_container \<Rightarrow> joc_validation_profile \<Rightarrow>
   joc_profile_validation_failure + validated_joc_profile" where
  "validate_joc_profile_for c profile =
     (let oamds = filter (\<lambda>p. payload_id p = OAMD_PAYLOAD_ID) (payloads c);
          jocs = filter (\<lambda>p. payload_id p = JOC_PAYLOAD_ID) (payloads c) in
      if length oamds \<noteq> 1 \<or> length jocs \<noteq> 1
      then Inl \<lparr>failure_profile = profile, oamd_payload_count = length oamds,
                joc_payload_count = length jocs, failure_deviations = []\<rparr>
      else
        let oamd = oamds ! 0; joc = jocs ! 0;
            configs = profile_config_deviations oamd @ profile_config_deviations joc;
            deviations =
              (if group_id (payload_config oamd) \<noteq> group_id (payload_config joc)
               then configs @ [\<lparr>dev_payload_id = JOC_PAYLOAD_ID, dev_field = GroupId,
                      dev_actual = option_u64_value (group_id (payload_config joc)),
                      dev_expected_by_etsi = option_u64_value (group_id (payload_config oamd))\<rparr>]
               else configs);
            accepted =
              (case profile of
                 EtsiStrict \<Rightarrow> deviations = []
               | ObservedVendorCompat \<Rightarrow> list_all is_allowed_vendor_deviation deviations) in
        if \<not> accepted
        then Inl \<lparr>failure_profile = profile, oamd_payload_count = 1, joc_payload_count = 1,
                  failure_deviations = deviations\<rparr>
        else Inr \<lparr>valid_profile = profile,
                  valid_status = (if deviations = [] then NormativeCompliant else AcceptedWithDeviation),
                  valid_oamd = oamd, valid_joc = joc, valid_deviations = deviations\<rparr>)"

record joc_payload_pair =
  pair_oamd :: "u8 list"
  pair_joc :: "u8 list"

definition validate_joc_profile :: "emdf_container \<Rightarrow> emdf_error + joc_payload_pair" where
  "validate_joc_profile c =
     (case validate_joc_profile_for c EtsiStrict of
        Inl f \<Rightarrow>
          if oamd_payload_count f \<noteq> 1 \<or> joc_payload_count f \<noteq> 1
          then Inl (JocProfilePayloadCount (oamd_payload_count f) (joc_payload_count f))
          else Inl JocProfileConfiguration
      | Inr v \<Rightarrow> Inr \<lparr>pair_oamd = payload_data (valid_oamd v), pair_joc = payload_data (valid_joc v)\<rparr>)"

section \<open>Tables 55 and 56 as predicates\<close>

definition table56 :: "emdf_payload_config \<Rightarrow> bool" where
  "table56 c \<longleftrightarrow> sample_offset c = None \<and> duration c = None \<and> group_id c \<noteq> None
     \<and> codec_data_present c \<and> \<not> discard_unknown_payload c
     \<and> payload_frame_aligned c = Some True
     \<and> create_duplicate c = Some False \<and> remove_duplicate c = Some False
     \<and> priority c = Some 0 \<and> processing_allowed c = Some 0"

text \<open>What the compatibility profile asks of the JOC payload, and of the OAMD payload.\<close>

definition vendor_joc :: "emdf_payload_config \<Rightarrow> bool" where
  "vendor_joc c \<longleftrightarrow> table56 (c\<lparr>codec_data_present := True\<rparr>)"

definition vendor_oamd :: "emdf_payload_config \<Rightarrow> bool" where
  "vendor_oamd c \<longleftrightarrow> sample_offset c = None \<and> duration c = None \<and> group_id c \<noteq> None
     \<and> \<not> discard_unknown_payload c \<and> payload_frame_aligned c \<noteq> None
     \<and> create_duplicate c \<in> {None, Some False} \<and> remove_duplicate c \<in> {None, Some False}
     \<and> priority c \<in> {None, Some 0} \<and> processing_allowed c \<in> {None, Some 0}"

definition sole_pair :: "emdf_container \<Rightarrow> emdf_payload \<Rightarrow> emdf_payload \<Rightarrow> bool" where
  "sole_pair c oamd joc \<longleftrightarrow>
     filter (\<lambda>p. payload_id p = OAMD_PAYLOAD_ID) (payloads c) = [oamd]
   \<and> filter (\<lambda>p. payload_id p = JOC_PAYLOAD_ID) (payloads c) = [joc]"

text \<open>The narrow fields come out of parsing below \<open>2 ^ 8\<close>, so \<open>u64::from\<close> is injective on them.\<close>

definition narrow_fields :: "emdf_payload_config \<Rightarrow> bool" where
  "narrow_fields c \<longleftrightarrow> (\<forall>v \<in> set_option (priority c). v < 2 ^ 8)
     \<and> (\<forall>v \<in> set_option (processing_allowed c). v < 2 ^ 8)"

lemma narrow_zero: "v < 2 ^ 8 \<Longrightarrow> (word_of_nat v :: u64) = 0 \<longleftrightarrow> v = 0"
  using unat_of_nat64 [of v] by (auto simp: unat_eq_0 [symmetric])

lemma config_deviations_empty:
  assumes "narrow_fields (payload_config p)"
  shows "profile_config_deviations p = [] \<longleftrightarrow> table56 (payload_config p)"
  using assms
  by (auto simp: profile_config_deviations_def push_deviation_def table56_def Let_def
      option_bool_value_def option_narrow_value_def option_u64_value_def narrow_fields_def narrow_zero
      split: option.splits if_splits)

lemma list_all_push:
  "list_all P (push_deviation pid f a e ds) \<longleftrightarrow> list_all P ds \<and>
     (a = e \<or> (e = Present \<and> a \<noteq> Absent)
      \<or> P \<lparr>dev_payload_id = pid, dev_field = f, dev_actual = a, dev_expected_by_etsi = e\<rparr>)"
  by (auto simp: push_deviation_def)

lemma vendor_oamd_deviations:
  assumes "narrow_fields (payload_config p)" and "payload_id p = OAMD_PAYLOAD_ID"
  shows "list_all is_allowed_vendor_deviation (profile_config_deviations p)
     \<longleftrightarrow> vendor_oamd (payload_config p)"
  using assms
  by (auto simp: profile_config_deviations_def list_all_push Let_def is_allowed_vendor_deviation_def
      vendor_oamd_def option_bool_value_def option_narrow_value_def option_u64_value_def
      narrow_fields_def narrow_zero OAMD_PAYLOAD_ID_def JOC_PAYLOAD_ID_def split: option.splits)

lemma vendor_joc_deviations:
  assumes "narrow_fields (payload_config p)" and "payload_id p = JOC_PAYLOAD_ID"
  shows "list_all is_allowed_vendor_deviation (profile_config_deviations p)
     \<longleftrightarrow> vendor_joc (payload_config p)"
  using assms
  by (auto simp: profile_config_deviations_def list_all_push Let_def is_allowed_vendor_deviation_def
      vendor_joc_def table56_def option_bool_value_def option_narrow_value_def option_u64_value_def
      narrow_fields_def narrow_zero OAMD_PAYLOAD_ID_def JOC_PAYLOAD_ID_def split: option.splits)

lemma singleton_nth: "length xs = Suc 0 \<Longrightarrow> (xs = [xs ! 0]) = True"
  by (cases xs) simp_all

text \<open>The outcome of the validator, by the pair of payloads it found.\<close>

lemma validate_pair:
  assumes pair: "sole_pair c oamd joc"
    and n: "narrow_fields (payload_config oamd)" "narrow_fields (payload_config joc)"
  shows "(\<exists>v. validate_joc_profile_for c profile = Inr v) \<longleftrightarrow>
     group_id (payload_config oamd) = group_id (payload_config joc) \<and>
     (case profile of
        EtsiStrict \<Rightarrow> table56 (payload_config oamd) \<and> table56 (payload_config joc)
      | ObservedVendorCompat \<Rightarrow> vendor_oamd (payload_config oamd) \<and> vendor_joc (payload_config joc))"
proof -
  have ids: "payload_id oamd = OAMD_PAYLOAD_ID" "payload_id joc = JOC_PAYLOAD_ID"
    using pair by (auto simp: sole_pair_def dest: filter_eq_ConsD)
  show ?thesis
    using pair
    by (cases profile)
      (auto simp: validate_joc_profile_for_def sole_pair_def Let_def config_deviations_empty [OF n(1)]
        config_deviations_empty [OF n(2)] vendor_oamd_deviations [OF n(1) ids(1)]
        vendor_joc_deviations [OF n(2) ids(2)] is_allowed_vendor_deviation_def list_all_append)
qed

lemma validate_Inr:
  assumes "validate_joc_profile_for c profile = Inr v"
  shows "sole_pair c (valid_oamd v) (valid_joc v)" and "valid_profile v = profile"
    and "valid_status v = NormativeCompliant \<longleftrightarrow> valid_deviations v = []"
    and "\<exists>tail. valid_deviations v = profile_config_deviations (valid_oamd v) @ profile_config_deviations (valid_joc v) @ tail"
  using assms
  by (auto simp: validate_joc_profile_for_def sole_pair_def Let_def singleton_nth
      split: if_splits joc_validation_profile.splits)

lemma sole_pair_iff:
  "(\<exists>oamd joc. sole_pair c oamd joc) \<longleftrightarrow>
     length (filter (\<lambda>p. payload_id p = OAMD_PAYLOAD_ID) (payloads c)) = 1
   \<and> length (filter (\<lambda>p. payload_id p = JOC_PAYLOAD_ID) (payloads c)) = 1"
  unfolding sole_pair_def length_Suc_conv One_nat_def length_0_conv by auto

lemma validate_Inl_counts:
  assumes "validate_joc_profile_for c profile = Inl f"
  shows "oamd_payload_count f = length (filter (\<lambda>p. payload_id p = OAMD_PAYLOAD_ID) (payloads c))"
    and "joc_payload_count f = length (filter (\<lambda>p. payload_id p = JOC_PAYLOAD_ID) (payloads c))"
  using assms by (auto simp: validate_joc_profile_for_def Let_def split: if_splits)

lemma table56_vendor: "table56 c \<Longrightarrow> vendor_oamd c \<and> vendor_joc c"
  by (simp add: table56_def vendor_oamd_def vendor_joc_def)

end
