(* ===== verification/EmdfProps.thy ===== *)
theory EmdfProps
  imports EmdfCodec EmdfProfile
begin

text \<open>The properties of the bit reader and of the EMDF layer, each with a witness.\<close>

section \<open>The bit reader\<close>

text \<open>
  C33: a read returns the next bits, most significant first, or changes nothing.  On a
  well-formed reader a read of at most 64 bits that are there returns their value and drops
  exactly these bits from what is left to read; a wider read and a read past the end of the
  window fail with the width or with the shortage, and leave the reader as it was.
\<close>

theorem read_bits_msb_first:
  assumes "reader_ok r"
  shows "read_bits n r =
      (if 64 < n then (Inl (InvalidWidth n), r)
       else if length (unread r) < n then (Inl (EndOfInput n (length (unread r))), r)
       else (Inr (word_of_nat (bits_value (take n (unread r)))), skip n r))
    \<and> (n \<le> length (unread r) \<longrightarrow> reader_ok (skip n r) \<and> unread (skip n r) = drop n (unread r))"
  using assms by (simp add: read_bits_wide read_bits_short read_bits_success reader_ok_skip unread_skip)

theorem read_bits_msb_first_witness:
  "read_bits 5 (new_reader [0xB7, 0xFF]) = (Inr 22, skip 5 (new_reader [0xB7, 0xFF]))
   \<and> read_bits 17 (new_reader [0xB7, 0xFF]) = (Inl (EndOfInput 17 16), new_reader [0xB7, 0xFF])"
proof -
  have fits: "8 * length [0xB7, 0xFF :: u8] \<le> usize_max" by (simp add: usize_max_def)
  have u: "unread (new_reader [0xB7, 0xFF])
      = [True, False, True, True, False, True, True, True, True, True, True, True, True, True, True, True]"
    unfolding unread_new_reader [OF fits] by code_simp
  show ?thesis
    using read_bits_msb_first [OF new_reader_ok [OF fits], of 5] read_bits_msb_first [OF new_reader_ok [OF fits], of 17]
    by (simp add: u)
qed

text \<open>
  A window isolates its bits.  Taking \<open>n\<close> bits gives a well-formed reader of exactly the
  next \<open>n\<close> bits and moves the parent behind them, so a nested parser can never read what
  follows; when fewer bits are left, nothing changes.
\<close>

theorem bit_window_is_isolated:
  assumes "reader_ok r"
  shows "if n \<le> length (unread r)
    then \<exists>w. take_bits n r = (Inr w, skip n r) \<and> reader_ok w \<and> unread w = take n (unread r)
           \<and> unread (skip n r) = drop n (unread r)
    else take_bits n r = (Inl (EndOfInput n (length (unread r))), r)"
  using assms window_reader [OF assms]
  by (simp add: take_bits_success take_bits_short unread_skip)

theorem bit_window_is_isolated_witness:
  "\<exists>w. take_bits 3 (new_reader [0xB7]) = (Inr w, skip 3 (new_reader [0xB7])) \<and> unread w = [True, False, True]"
proof -
  have fits: "8 * length [0xB7 :: u8] \<le> usize_max" by (simp add: usize_max_def)
  have u: "unread (new_reader [0xB7]) = [True, False, True, True, False, True, True, True]"
    unfolding unread_new_reader [OF fits] by code_simp
  show ?thesis using bit_window_is_isolated [OF new_reader_ok [OF fits], of 3] by (auto simp: u numeral_3_eq_3)
qed

section \<open>Variable-length fields\<close>

text \<open>
  C31: variable-length fields have one encoding per value.  Any groups of \<open>w\<close> bits are the
  groups of exactly one number, their value; and reading the encoding of a 64-bit value whose
  groups fit the declared maximum gives the value back and consumes the encoding only.
\<close>

theorem variable_bits_roundtrip:
  assumes "0 < w" and "w \<le> 63"
  shows "(vb_fits w m (unat v) \<and> reader_ok r \<and> unread r = vb_encode w (unat v) @ rest \<longrightarrow>
      variable_bits w m r = (Inr v, skip (length (vb_encode w (unat v))) r))
    \<and> (gs \<noteq> [] \<and> (\<forall>g \<in> set gs. g < 2 ^ w) \<longrightarrow> vb_groups w n = gs \<longleftrightarrow> n = vb_value w 0 gs)"
proof -
  have "vb_fits w m (unat v) \<and> reader_ok r \<and> unread r = vb_encode w (unat v) @ rest \<longrightarrow>
      variable_bits w m r = (Inr v, skip (length (vb_encode w (unat v))) r)"
    using readsD [OF reads_variable_bits [OF assms]] by simp
  moreover have "gs \<noteq> [] \<and> (\<forall>g \<in> set gs. g < 2 ^ w) \<longrightarrow> vb_groups w n = gs \<longleftrightarrow> n = vb_value w 0 gs"
    using vb_groups_value [OF assms(1)] vb_value_groups [of w n] by metis
  ultimately show ?thesis by (rule conjI)
qed

theorem variable_bits_roundtrip_witness:
  "variable_bits 2 31 (new_reader (pack_bits (vb_encode 2 5)))
   = (Inr 5, skip 6 (new_reader (pack_bits (vb_encode 2 5))))"
proof -
  have g: "vb_groups 2 5 = [0, 1]" by (simp add: vb_groups.simps)
  have e: "vb_encode 2 5 = [False, False, True, False, True, False]"
    unfolding vb_encode_def g by code_simp
  have fits: "8 * length (pack_bits (vb_encode 2 5)) \<le> usize_max"
    by (simp add: e length_pack_bits usize_max_def)
  have u: "unread (new_reader (pack_bits (vb_encode 2 5))) = vb_encode 2 5 @ [False, False]"
    unfolding unread_new_reader [OF fits] e by code_simp
  show ?thesis
    using variable_bits_roundtrip [of 2 31 5 "new_reader (pack_bits (vb_encode 2 5))" "[False, False]" "[0]" 0]
      new_reader_ok [OF fits] u
    by (simp add: vb_fits_def g e)
qed

text \<open>
  C32: overflow of a variable-length field is not always reported.  The code checks its additions,
  but its checked shift checks the shift amount only: whatever the groups encode, as long as the
  additions on the low 64 bits do not carry, the result is the encoded value modulo 64 bits.
\<close>

theorem variable_bits_is_value_modulo:
  assumes "0 < w" and "w \<le> 63" and "gs \<noteq> []" and "length gs \<le> m" and "\<forall>g \<in> set gs. g < 2 ^ w"
    and "vb_adds w 0 gs" and "reader_ok r" and "unread r = vb_bits w gs @ rest"
  shows "fst (variable_bits w m r) = Inr (word_of_nat (vb_value w 0 gs mod 2 ^ 64))"
proof -
  have "(word_of_nat (vb_value w 0 gs mod 2 ^ 64) :: u64) = word_of_nat (vb_value w 0 gs)"
    by (simp only: word_unat_eq_iff) (simp add: unat_of_nat take_bit_eq_mod)
  then show ?thesis
    using readsD [OF reads_variable_bits_list [OF assms(1-6)] assms(7,8)] by simp
qed

text \<open>Fourteen groups of five bits, the first of them 16: a value above 64 bits.\<close>

definition wrapped_groups :: "nat list" where
  "wrapped_groups = [16, 0, 0, 0, 0, 0, 0, 0, 0, 0, 0, 0, 0, 0]"

theorem variable_bits_is_value_modulo_witness:
  "2 ^ 64 \<le> vb_value 5 0 wrapped_groups
   \<and> fst (variable_bits 5 31 (new_reader (pack_bits (vb_bits 5 wrapped_groups))))
       = Inr (word_of_nat (vb_value 5 0 wrapped_groups mod 2 ^ 64))"
proof
  show "2 ^ 64 \<le> vb_value 5 0 wrapped_groups" by (simp add: wrapped_groups_def)
  have fits: "8 * length (pack_bits (vb_bits 5 wrapped_groups)) \<le> usize_max"
    unfolding length_pack_bits by (simp add: wrapped_groups_def usize_max_def)
  show "fst (variable_bits 5 31 (new_reader (pack_bits (vb_bits 5 wrapped_groups))))
       = Inr (word_of_nat (vb_value 5 0 wrapped_groups mod 2 ^ 64))"
  proof (rule variable_bits_is_value_modulo [OF _ _ _ _ _ _ new_reader_ok [OF fits]])
    show "unread (new_reader (pack_bits (vb_bits 5 wrapped_groups))) = vb_bits 5 wrapped_groups
        @ replicate (7 - (length (vb_bits 5 wrapped_groups) + 7) mod 8) False"
      unfolding unread_new_reader [OF fits] by (rule slice_bits_pack)
    show "vb_adds 5 0 wrapped_groups" by (simp add: wrapped_groups_def)
  qed (simp_all add: wrapped_groups_def)
qed

section \<open>Containers\<close>

definition tiny_payload :: "u64 \<Rightarrow> emdf_payload" where
  "tiny_payload i = \<lparr>payload_id = i,
     payload_config = \<lparr>sample_offset = None, duration = None, group_id = Some 1, codec_data_present = True,
       discard_unknown_payload = False, payload_frame_aligned = Some True, create_duplicate = Some False,
       remove_duplicate = Some False, priority = Some 0, processing_allowed = Some 0\<rparr>,
     payload_data = [0xAB]\<rparr>"

definition tiny_container :: emdf_container where
  "tiny_container = \<lparr>version = 0, key_id = 0, payloads = [tiny_payload 11, tiny_payload 14],
     protection = \<lparr>primary = [0], secondary = []\<rparr>\<rparr>"

lemma vb_groups_one: "n < 2 ^ w \<Longrightarrow> vb_groups w n = [n]"
  by (simp add: vb_groups.simps)

lemma tiny_payload_fits: "i \<in> {11, 14} \<Longrightarrow> payload_fits (tiny_payload i)"
  by (auto simp: payload_fits_def tiny_payload_def ext_fits_def config_shape_def config_fits_def vb_fits_def
      vb_groups_one Let_def MAX_EXTENDED_GROUPS_def)

lemma tiny_container_bits: "length (container_encode tiny_container) = 118"
  by (simp add: tiny_container_def container_encode_def payload_encode_def payload_head_def payload_size_def
      ext_encode_def config_encode_def protection_encode_def vb_encode_def vb_groups_one tiny_payload_def)

lemma tiny_container_fits: "emdf_fits tiny_container"
proof -
  have "container_fits tiny_container"
    using tiny_payload_fits
    by (simp add: container_fits_def tiny_container_def protection_fits_def ext_fits_def)
  moreover have "length (pack_bits (container_encode tiny_container)) < 2 ^ 16"
    using length_pack_bits [of "container_encode tiny_container"] by (simp add: tiny_container_bits)
  ultimately show ?thesis by (simp add: emdf_fits_def)
qed

text \<open>
  C3: EMDF carriers round-trip with their bit positions.  Whatever follows an encoded container,
  parsing it returns the container, the number of bytes it takes, and for every payload, in
  order, the exact bit ranges of its identifier, configuration, size and body in the carrier.
\<close>

theorem emdf_carrier_roundtrip:
  assumes "emdf_fits c"
  shows "parse_emdf_sync_with_bit_trace (emdf_encode c @ rest) =
    Inr \<lparr>parsed = \<lparr>container = c, bytes_consumed = length (emdf_encode c)\<rparr>,
         trace_payloads = payload_traces (32 + length (container_prefix c)) (payloads c)\<rparr>"
  using assms by (rule parse_emdf_sync_encoded)

theorem emdf_carrier_roundtrip_witness:
  "\<exists>t. parse_emdf_sync_with_bit_trace (emdf_encode tiny_container @ [7, 7]) = Inr t
     \<and> container (parsed t) = tiny_container
     \<and> map payload_id_start_bit (trace_payloads t) = [37, 85]"
proof -
  have "map payload_id_start_bit (payload_traces (32 + length (container_prefix tiny_container)) (payloads tiny_container))
      = [37, 85]"
    by (simp add: tiny_container_def payload_trace_def Let_def container_prefix_def ext_encode_def
        payload_encode_def payload_head_def payload_size_def config_encode_def vb_encode_def vb_groups_one tiny_payload_def)
  then show ?thesis using emdf_carrier_roundtrip [OF tiny_container_fits, of "[7, 7]"] by simp
qed

text \<open>
  C30: the parser looks at the declared bytes only.  An accepted carrier takes four bytes plus the
  declared length, which are there; replacing everything behind them by anything else gives the
  same container, traces and length; and the classification of a carrier separates an exact
  container from one with trailing bytes by this length.
\<close>

theorem emdf_parser_is_bounded:
  assumes "parse_emdf_sync_with_bit_trace bs = Inr t"
  shows "bytes_consumed (parsed t) = 4 + be16 (bs ! 2) (bs ! 3) \<and> bytes_consumed (parsed t) \<le> length bs
    \<and> parse_emdf_sync_with_bit_trace (take (bytes_consumed (parsed t)) bs @ rest) = Inr t
    \<and> classify_emdf_carrier (take (bytes_consumed (parsed t)) bs @ rest) =
        (if rest = [] then Parsed (parsed t)
         else CarrierTrailingData (bytes_consumed (parsed t)) (bytes_consumed (parsed t) + length rest))"
proof -
  note c = parse_emdf_sync_consumed [OF assms]
  let ?k = "bytes_consumed (parsed t)"
  let ?bs = "take ?k bs @ rest"
  have run: "parse_emdf_sync_with_bit_trace ?bs = Inr t" by (rule parse_emdf_sync_prefix [OF assms])
  have len: "length ?bs = ?k + length rest" "\<not> length ?bs < 2" using c by auto
  have sync: "be16 (?bs ! 0) (?bs ! 1) = SYNCWORD" using parse_emdf_sync_consumed(4) [OF run] .
  have "classify_emdf_carrier ?bs = (if rest = [] then Parsed (parsed t) else CarrierTrailingData ?k (?k + length rest))"
    unfolding classify_emdf_carrier_def parse_emdf_sync_def run using sync len by simp
  then show ?thesis using c(1,2) run by blast
qed

theorem emdf_parser_is_bounded_witness:
  "classify_emdf_carrier (emdf_encode tiny_container @ [1]) =
     CarrierTrailingData (length (emdf_encode tiny_container)) (length (emdf_encode tiny_container) + 1)"
  using emdf_parser_is_bounded [OF parse_emdf_sync_encoded [OF tiny_container_fits, of "[]"], of "[1]"] by simp

section \<open>The JOC profile\<close>

text \<open>
  C28: strict validation is tables 55 and 56.  The strict validator returns a payload pair exactly
  when the container has one OAMD and one JOC payload, both have the prescribed configuration
  field by field, and they share their group; it then returns their bodies.  The payload counts
  are reported when there is not one of each, a configuration error otherwise.
\<close>

theorem strict_profile_is_table_56:
  assumes "\<forall>p \<in> set (payloads c). narrow_fields (payload_config p)"
  shows "(validate_joc_profile c = Inr pair \<longleftrightarrow>
      (\<exists>oamd joc. sole_pair c oamd joc \<and> table56 (payload_config oamd) \<and> table56 (payload_config joc)
        \<and> group_id (payload_config oamd) = group_id (payload_config joc)
        \<and> pair = \<lparr>pair_oamd = payload_data oamd, pair_joc = payload_data joc\<rparr>))
    \<and> ((\<exists>m n. validate_joc_profile c = Inl (JocProfilePayloadCount m n)) \<longleftrightarrow> \<not> (\<exists>oamd joc. sole_pair c oamd joc))"
proof (cases "\<exists>oamd joc. sole_pair c oamd joc")
  case True
  then obtain oamd joc where pair: "sole_pair c oamd joc" by blast
  have uniq: "sole_pair c o' j' \<Longrightarrow> o' = oamd \<and> j' = joc" for o' j' using pair by (auto simp: sole_pair_def)
  have "oamd \<in> set (payloads c)" "joc \<in> set (payloads c)"
    using pair by (auto simp: sole_pair_def dest!: arg_cong [where f = set])
  then have ok: "(\<exists>v. validate_joc_profile_for c EtsiStrict = Inr v) \<longleftrightarrow>
      group_id (payload_config oamd) = group_id (payload_config joc)
      \<and> table56 (payload_config oamd) \<and> table56 (payload_config joc)"
    using validate_pair [OF pair, of EtsiStrict] assms by simp
  show ?thesis
  proof (cases "validate_joc_profile_for c EtsiStrict")
    case (Inl f)
    then have "oamd_payload_count f = 1" "joc_payload_count f = 1"
      using validate_Inl_counts [OF Inl] sole_pair_iff [of c] True by auto
    then show ?thesis using Inl ok uniq True by (auto simp: validate_joc_profile_def)
  next
    case (Inr v)
    then show ?thesis
      using ok uniq validate_Inr(1) [OF Inr] True by (auto simp: validate_joc_profile_def)
  qed
next
  case False
  show ?thesis
  proof (cases "validate_joc_profile_for c EtsiStrict")
    case (Inl f)
    then show ?thesis
      using validate_Inl_counts [OF Inl] sole_pair_iff [of c] False by (auto simp: validate_joc_profile_def)
  next
    case (Inr v)
    then show ?thesis using validate_Inr(1) [OF Inr] False by blast
  qed
qed

theorem strict_profile_is_table_56_witness:
  "validate_joc_profile tiny_container = Inr \<lparr>pair_oamd = [0xAB], pair_joc = [0xAB]\<rparr>"
proof -
  have n: "\<forall>p \<in> set (payloads tiny_container). narrow_fields (payload_config p)"
    by (simp add: tiny_container_def tiny_payload_def narrow_fields_def)
  have "sole_pair tiny_container (tiny_payload 11) (tiny_payload 14)"
    by (simp add: sole_pair_def tiny_container_def tiny_payload_def OAMD_PAYLOAD_ID_def JOC_PAYLOAD_ID_def)
  moreover have "table56 (payload_config (tiny_payload i))" for i by (simp add: table56_def tiny_payload_def)
  moreover have "payload_data (tiny_payload i) = [0xAB]" "group_id (payload_config (tiny_payload i)) = Some 1" for i
    by (simp_all add: tiny_payload_def)
  ultimately show ?thesis using strict_profile_is_table_56 [OF n] by metis
qed

text \<open>
  C29: the compatibility profile is a superset that records what it tolerated.  It accepts exactly
  the pairs that share their group and deviate in the listed fields only, hence every pair the
  strict profile accepts; and the acceptance is marked normative exactly when the strict profile
  accepts too.
\<close>

theorem vendor_profile_extends_strict:
  assumes "sole_pair c oamd joc" and "narrow_fields (payload_config oamd)" and "narrow_fields (payload_config joc)"
  shows "((\<exists>v. validate_joc_profile_for c ObservedVendorCompat = Inr v) \<longleftrightarrow>
      group_id (payload_config oamd) = group_id (payload_config joc)
      \<and> vendor_oamd (payload_config oamd) \<and> vendor_joc (payload_config joc))
    \<and> ((\<exists>v. validate_joc_profile_for c EtsiStrict = Inr v) \<longrightarrow>
      (\<exists>v. validate_joc_profile_for c ObservedVendorCompat = Inr v))
    \<and> (validate_joc_profile_for c ObservedVendorCompat = Inr v \<longrightarrow>
      (valid_status v = NormativeCompliant \<longleftrightarrow> (\<exists>s. validate_joc_profile_for c EtsiStrict = Inr s)))"
proof -
  note strict = validate_pair [OF assms, of EtsiStrict] and vendor = validate_pair [OF assms, of ObservedVendorCompat]
  have "validate_joc_profile_for c ObservedVendorCompat = Inr v \<longrightarrow>
      (valid_status v = NormativeCompliant \<longleftrightarrow> (\<exists>s. validate_joc_profile_for c EtsiStrict = Inr s))"
    by (auto simp: validate_joc_profile_for_def Let_def split: if_splits)
  then show ?thesis using strict vendor table56_vendor by auto
qed

theorem vendor_profile_extends_strict_witness:
  "\<exists>v. validate_joc_profile_for tiny_container ObservedVendorCompat = Inr v"
proof -
  have pair: "sole_pair tiny_container (tiny_payload 11) (tiny_payload 14)"
    by (simp add: sole_pair_def tiny_container_def tiny_payload_def OAMD_PAYLOAD_ID_def JOC_PAYLOAD_ID_def)
  have n: "narrow_fields (payload_config (tiny_payload i))" for i by (simp add: tiny_payload_def narrow_fields_def)
  have "table56 (payload_config (tiny_payload i))" "group_id (payload_config (tiny_payload i)) = Some 1" for i
    by (simp_all add: table56_def tiny_payload_def)
  then show ?thesis using vendor_profile_extends_strict [OF pair n n] table56_vendor by auto
qed

end
