(* ===== verification/Huffman.thy ===== *)
theory Huffman
  imports Parsing "HOL-Library.Multiset"
begin

text \<open>
  The Annex A.1 Huffman decoder of \<open>crates/openjoc-joc/src/lib.rs\<close> and its six normative trees
  of \<open>generated_etsi_tables.rs\<close>.  A node holds two branches: a positive entry is the next
  node, a negative entry \<open>- s - 1\<close> a leaf with symbol \<open>s\<close>.  The second half proves the decoder
  against the paths of the tree and checks the six tables.
\<close>

section \<open>The decoder\<close>

type_synonym huffman_nodes = "(int \<times> int) list"

datatype huffman_error =
  TruncatedCodeword
| InvalidNode nat nat
| CyclicTree
| BitReaderError bit_error

record huffman_codeword =
  cw_bits :: "bool list"
  symbol :: nat

definition branch :: "int \<times> int \<Rightarrow> bool \<Rightarrow> int" where
  "branch entry b = (if b then snd entry else fst entry)"

definition huffman_bit_error :: "bit_error \<Rightarrow> huffman_error" where
  "huffman_bit_error e = (case e of EndOfInput _ _ \<Rightarrow> TruncatedCodeword | _ \<Rightarrow> BitReaderError e)"

text \<open>One turn of the loop per call, with the locals \<open>node\<close>, \<open>consumed\<close> and \<open>bits\<close>.\<close>

function huffman_loop ::
  "huffman_nodes \<Rightarrow> nat \<Rightarrow> nat \<Rightarrow> nat \<Rightarrow> bool list \<Rightarrow> (huffman_error, huffman_codeword) parser" where
  "huffman_loop nodes limit node consumed bits r =
     (if limit \<le> consumed then (Inl TruncatedCodeword, r)
      else if length nodes < consumed then (Inl CyclicTree, r)
      else if length nodes \<le> node then (Inl (InvalidNode node (length nodes)), r)
      else
        (case read_bit r of
           (Inl e, r') \<Rightarrow> (Inl (huffman_bit_error e), r')
         | (Inr b, r') \<Rightarrow>
             (let next = branch (nodes ! node) b in
              if next \<le> 0
              then (if next = 0 then (Inl (InvalidNode node (length nodes)), r')
                    else (Inr \<lparr>cw_bits = bits @ [b], symbol = nat (- next - 1)\<rparr>, r'))
              else if length nodes \<le> nat next
              then (Inl (InvalidNode (nat next) (length nodes)), r')
              else huffman_loop nodes limit (nat next) (Suc consumed) (bits @ [b]) r')))"
  by pat_completeness auto
termination
  by (relation "measure (\<lambda>(nodes, limit, node, consumed, bits, r). Suc (length nodes) - consumed)") auto

declare huffman_loop.simps [simp del]

definition decode_huffman_codeword ::
  "huffman_nodes \<Rightarrow> nat option \<Rightarrow> (huffman_error, huffman_codeword) parser" where
  "decode_huffman_codeword nodes codeword_bits =
     (if nodes = [] then fail (InvalidNode 0 0)
      else huffman_loop nodes (case codeword_bits of Some n \<Rightarrow> n | None \<Rightarrow> usize_max) 0 0 [])"

definition decode_huffman :: "huffman_nodes \<Rightarrow> nat option \<Rightarrow> (huffman_error, nat) parser" where
  "decode_huffman nodes codeword_bits =
     bind_rd (decode_huffman_codeword nodes codeword_bits) (\<lambda>c. ret (symbol c))"

section \<open>The normative trees\<close>

definition JOC_HUFF_CODE_COARSE_GENERIC :: huffman_nodes where
  "JOC_HUFF_CODE_COARSE_GENERIC =
    [(-1, 1), (2, -2), (-96, 3), (4, -3), (-95, 5), (6, 7), (-4, -94), (8, 9), (-5, -93),
     (10, 11), (-6, -92), (12, 13), (-7, -91), (14, 15), (16, -90), (-8, 17), (18, -89),
     (-9, 19), (20, 21), (-88, -10), (22, 23), (-11, -87), (24, 25), (26, -86), (-12, 27),
     (28, -85), (-13, 29), (30, 31), (32, -84), (-14, 33), (34, -15), (-83, 35), (36, 37),
     (-16, 38), (-17, -82), (39, 40), (41, -81), (42, 43), (44, 45), (46, 47), (48, 49),
     (50, 51), (52, -18), (-78, 53), (-19, 54), (55, 56), (57, 58), (-22, 59), (60, 61),
     (62, 63), (64, 65), (66, 67), (68, -20), (-21, -79), (-80, -25), (69, 70), (-26, 71),
     (72, 73), (74, 75), (76, 77), (78, 79), (80, 81), (82, 83), (84, 85), (86, 87), (88, 89),
     (90, 91), (92, 93), (94, -23), (-74, -75), (-72, -73), (-76, -77), (-34, -35), (-32, -33),
     (-38, -39), (-36, -37), (-30, -31), (-28, -29), (-50, -51), (-48, -49), (-54, -55),
     (-52, -53), (-42, -43), (-40, -41), (-46, -47), (-44, -45), (-66, -67), (-64, -65),
     (-70, -71), (-68, -69), (-58, -59), (-56, -57), (-62, -63), (-60, -61), (-24, -27)]"

definition JOC_HUFF_CODE_FINE_GENERIC :: huffman_nodes where
  "JOC_HUFF_CODE_FINE_GENERIC =
    [(-1, 1), (2, 3), (-2, -192), (4, 5), (6, -3), (-191, 7), (8, 9), (-4, -190), (10, 11),
     (-5, -189), (12, 13), (-6, 14), (-188, 15), (16, -7), (-187, 17), (18, -8), (-186, 19),
     (20, -9), (-185, 21), (22, -10), (-184, 23), (24, -11), (25, -183), (26, 27), (-12, -182),
     (28, 29), (-13, -181), (30, 31), (-180, -14), (32, 33), (34, -179), (-15, 35), (36, -178),
     (-16, 37), (38, -177), (39, -17), (40, 41), (-176, 42), (-18, 43), (-19, 44), (-175, 45),
     (46, -174), (-20, 47), (-173, 48), (49, -21), (50, 51), (52, -22), (53, 54), (-172, 55),
     (-171, -23), (56, 57), (58, -170), (59, -24), (-25, 60), (-169, 61), (62, 63), (64, 65),
     (66, 67), (-168, 68), (-26, 69), (-167, -27), (70, -166), (-165, 71), (-29, 72), (73, 74),
     (-30, 75), (76, 77), (78, 79), (80, -28), (81, 82), (83, -163), (-31, -33), (-164, -161),
     (84, 85), (86, 87), (88, 89), (90, 91), (92, 93), (94, 95), (96, 97), (98, 99), (-32, -162),
     (100, 101), (102, 103), (104, 105), (106, 107), (108, 109), (110, 111), (-160, 112),
     (-36, -38), (113, 114), (115, 116), (117, 118), (119, 120), (121, 122), (123, 124),
     (125, 126), (127, 128), (129, 130), (131, 132), (133, -35), (-158, 134), (-155, -156),
     (-37, -42), (135, 136), (137, 138), (139, 140), (141, 142), (143, 144), (145, 146),
     (147, 148), (149, 150), (151, 152), (153, 154), (155, 156), (157, 158), (159, 160),
     (161, 162), (163, 164), (165, 166), (167, 168), (169, 170), (171, 172), (173, 174),
     (175, 176), (177, 178), (179, 180), (181, 182), (183, 184), (-157, 185), (-45, -48),
     (186, 187), (188, 189), (-34, -41), (190, -39), (-60, -61), (-58, -59), (-64, -65),
     (-62, -63), (-52, -53), (-50, -51), (-56, -57), (-54, -55), (-76, -77), (-74, -75),
     (-80, -81), (-78, -79), (-68, -69), (-66, -67), (-72, -73), (-70, -71), (-47, -49),
     (-44, -46), (-124, -125), (-122, -123), (-128, -129), (-126, -127), (-116, -117),
     (-114, -115), (-120, -121), (-118, -119), (-140, -141), (-138, -139), (-144, -145),
     (-142, -143), (-132, -133), (-130, -131), (-136, -137), (-134, -135), (-92, -93),
     (-90, -91), (-96, -97), (-94, -95), (-84, -85), (-82, -83), (-88, -89), (-86, -87),
     (-108, -109), (-106, -107), (-112, -113), (-110, -111), (-100, -101), (-98, -99),
     (-104, -105), (-102, -103), (-154, -159), (-148, -149), (-146, -147), (-152, -153),
     (-150, -151), (-40, -43)]"

definition JOC_HUFF_CODE_COARSE_COEFF_SPARSE :: huffman_nodes where
  "JOC_HUFF_CODE_COARSE_COEFF_SPARSE =
    [(-1, 1), (2, 3), (-2, -96), (4, 5), (6, -95), (-3, 7), (8, 9), (-4, 10), (-94, 11),
     (12, -5), (-93, 13), (14, 15), (-6, -92), (16, 17), (18, -7), (-91, 19), (20, -8),
     (-90, 21), (22, 23), (-9, -89), (24, 25), (26, -10), (-88, 27), (28, 29), (30, -11),
     (-87, 31), (32, 33), (34, 35), (-12, -86), (36, 37), (38, -13), (39, -85), (40, 41),
     (42, 43), (-14, -84), (44, 45), (46, 47), (-83, -15), (48, 49), (50, -16), (51, 52),
     (-82, 53), (54, -81), (55, 56), (-17, 57), (58, -80), (59, 60), (-18, 61), (62, 63),
     (-79, 64), (-19, -78), (65, 66), (67, 68), (69, -20), (-77, -21), (70, 71), (72, 73),
     (74, -76), (75, -22), (76, 77), (-75, 78), (79, 80), (-54, -74), (-73, 81), (-23, 82),
     (-50, -24), (-55, -25), (83, -47), (-49, -44), (-71, 84), (-48, -51), (85, -72), (-26, -53),
     (-70, -27), (86, -45), (87, 88), (-68, 89), (-29, -43), (90, -30), (-46, -69), (91, -28),
     (-52, -31), (92, -32), (93, -64), (-67, 94), (-36, -33), (-63, -37), (-65, -61), (-66, -59),
     (-34, -38), (-41, -42), (-35, -60), (-39, -57), (-56, -40), (-62, -58)]"

definition JOC_HUFF_CODE_FINE_COEFF_SPARSE :: huffman_nodes where
  "JOC_HUFF_CODE_FINE_COEFF_SPARSE =
    [(1, -1), (2, 3), (4, -2), (-192, 5), (6, 7), (8, -3), (-191, 9), (10, 11), (12, -190),
     (-4, 13), (14, 15), (-189, -5), (16, 17), (18, -6), (-188, 19), (20, 21), (-7, -187),
     (22, 23), (-8, 24), (-186, 25), (-9, 26), (27, -185), (28, -10), (29, 30), (-184, 31),
     (-11, 32), (33, -183), (34, -12), (35, -182), (36, 37), (38, -13), (-181, 39), (40, -14),
     (41, -180), (42, 43), (-179, -15), (44, -16), (45, -178), (46, 47), (48, 49), (50, -177),
     (-17, 51), (-18, 52), (-176, 53), (54, 55), (-175, -19), (56, 57), (58, -20), (59, -174),
     (60, 61), (-21, 62), (63, -173), (64, 65), (66, -172), (67, 68), (-22, 69), (70, 71),
     (-23, 72), (-171, 73), (74, 75), (76, -24), (77, -170), (-25, 78), (79, 80), (81, -169),
     (82, 83), (84, -26), (85, -168), (86, 87), (88, 89), (-167, 90), (-27, 91), (92, -28),
     (93, -166), (94, -29), (95, 96), (97, 98), (-165, 99), (100, -30), (-164, 101), (102, 103),
     (104, 105), (-163, 106), (-31, 107), (-32, 108), (109, 110), (-161, 111), (-160, -162),
     (112, -34), (-33, 113), (114, 115), (116, 117), (118, 119), (120, -159), (121, 122),
     (123, -158), (124, 125), (-36, -155), (126, 127), (-35, 128), (129, 130), (-157, 131),
     (-156, 132), (-37, 133), (134, 135), (-154, -38), (136, 137), (-39, -41), (138, -153),
     (139, -40), (-149, 140), (141, 142), (143, 144), (-151, 145), (146, 147), (148, -42),
     (-43, 149), (150, 151), (-152, 152), (-46, -98), (153, 154), (155, -147), (156, 157),
     (158, -107), (159, 160), (-145, -150), (-96, 161), (162, -45), (-146, 163), (164, -97),
     (-108, -105), (-148, -106), (-44, 165), (-94, -141), (-99, 166), (-89, 167), (-50, -95),
     (-100, -48), (-144, 168), (169, 170), (-51, -142), (-90, -91), (-47, -49), (171, -53),
     (-93, -143), (-137, -138), (-55, -101), (172, 173), (-54, -86), (-88, -87), (-103, 174),
     (175, -61), (-109, 176), (177, 178), (-52, -139), (-57, -140), (179, 180), (-56, -136),
     (-58, -102), (181, 182), (-60, -135), (183, -104), (-128, -134), (-92, 184), (-59, -62),
     (185, 186), (-71, -133), (187, -127), (-126, 188), (-63, -64), (-85, -132), (189, -66),
     (-121, -125), (190, -68), (-74, -75), (-70, -73), (-81, -65), (-118, -131), (-72, -110),
     (-119, -120), (-76, -84), (-122, -130), (-83, -117), (-69, -78), (-80, -82), (-123, -124),
     (-67, -116), (-129, -77), (-113, -114), (-112, -115), (-79, -111)]"

definition JOC_HUFF_CODE_5CH_POS_INDEX_SPARSE :: huffman_nodes where
  "JOC_HUFF_CODE_5CH_POS_INDEX_SPARSE =
    [(-1, 1), (2, 3), (-4, -3), (-2, -5)]"

definition JOC_HUFF_CODE_7CH_POS_INDEX_SPARSE :: huffman_nodes where
  "JOC_HUFF_CODE_7CH_POS_INDEX_SPARSE =
    [(-1, 1), (2, 3), (4, 5), (-4, -3), (-2, -5), (-6, -7)]"

definition all_huffman_tables :: "huffman_nodes list" where
  "all_huffman_tables =
     [JOC_HUFF_CODE_COARSE_GENERIC, JOC_HUFF_CODE_FINE_GENERIC, JOC_HUFF_CODE_COARSE_COEFF_SPARSE,
      JOC_HUFF_CODE_FINE_COEFF_SPARSE, JOC_HUFF_CODE_5CH_POS_INDEX_SPARSE,
      JOC_HUFF_CODE_7CH_POS_INDEX_SPARSE]"

section \<open>Trees and their paths\<close>

text \<open>The symbol at the end of a path: the specification of the decoder.\<close>

fun walk :: "huffman_nodes \<Rightarrow> nat \<Rightarrow> bool list \<Rightarrow> nat option" where
  "walk nodes node [] = None"
| "walk nodes node (b # bs) =
     (if node < length nodes
      then (let next = branch (nodes ! node) b in
            if next < 0 then (if bs = [] then Some (nat (- next - 1)) else None)
            else if next = 0 then None
            else walk nodes (nat next) bs)
      else None)"

text \<open>Every inner branch points to a later node of the tree, and no branch is zero.\<close>

fun forward_from :: "int \<Rightarrow> int \<Rightarrow> huffman_nodes \<Rightarrow> bool" where
  "forward_from n i [] \<longleftrightarrow> True"
| "forward_from n i ((a, b) # rest) \<longleftrightarrow>
     (a < 0 \<or> i < a \<and> a < n) \<and> (b < 0 \<or> i < b \<and> b < n) \<and> forward_from n (i + 1) rest"

definition forward :: "huffman_nodes \<Rightarrow> bool" where
  "forward nodes \<longleftrightarrow> nodes \<noteq> [] \<and> forward_from (int (length nodes)) 0 nodes"

fun branches :: "huffman_nodes \<Rightarrow> int list" where
  "branches [] = []"
| "branches ((a, b) # rest) = a # b # branches rest"

text \<open>A merge sort with few rewriting steps, to check the tables in the kernel.\<close>

fun merge_two :: "int list \<Rightarrow> int list \<Rightarrow> int list" where
  "merge_two [] ys = ys"
| "merge_two xs [] = xs"
| "merge_two (x # xs) (y # ys) =
     (if x \<le> y then x # merge_two xs (y # ys) else y # merge_two (x # xs) ys)"

fun merge_pairs :: "int list list \<Rightarrow> int list list" where
  "merge_pairs (xs # ys # rest) = merge_two xs ys # merge_pairs rest"
| "merge_pairs rest = rest"

lemma length_merge_pairs [termination_simp]: "length (merge_pairs xss) \<le> length xss"
  by (induction xss rule: merge_pairs.induct) auto

fun merge_all :: "int list list \<Rightarrow> int list" where
  "merge_all [] = []"
| "merge_all [xs] = xs"
| "merge_all (xs # ys # rest) = merge_all (merge_pairs (xs # ys # rest))"

lemma mset_merge_two [simp]: "mset (merge_two xs ys) = mset xs + mset ys"
  by (induction xs ys rule: merge_two.induct) auto

lemma mset_merge_pairs [simp]: "mset (concat (merge_pairs xss)) = mset (concat xss)"
  by (induction xss rule: merge_pairs.induct) auto

lemma mset_merge_all: "mset (merge_all xss) = mset (concat xss)"
proof (induction xss rule: merge_all.induct)
  case (3 xs ys rest)
  then show ?case by (simp only: merge_all.simps mset_merge_pairs)
qed simp_all

text \<open>
  A table for \<open>n\<close> symbols: the branches are, in some order, each inner node but the root once
  and each symbol once.
\<close>

definition complete_table :: "nat \<Rightarrow> huffman_nodes \<Rightarrow> bool" where
  "complete_table n nodes \<longleftrightarrow> forward nodes \<and> length nodes \<le> 1000
     \<and> merge_all (map (\<lambda>v. [v]) (branches nodes)) = [- int n..-1] @ [1..int (length nodes) - 1]"

lemma walk_branch:
  "node < length nodes \<Longrightarrow> walk nodes node (b # bs) = Some s \<longleftrightarrow>
     (branch (nodes ! node) b < 0 \<and> bs = [] \<and> s = nat (- branch (nodes ! node) b - 1)
      \<or> 0 < branch (nodes ! node) b \<and> walk nodes (nat (branch (nodes ! node) b)) bs = Some s)"
  by (auto simp: Let_def)

lemma forward_from_nth:
  "forward_from n k nodes \<Longrightarrow> i < length nodes \<Longrightarrow>
   branch (nodes ! i) b < 0 \<or> k + int i < branch (nodes ! i) b \<and> branch (nodes ! i) b < n"
proof (induction n k nodes arbitrary: i rule: forward_from.induct)
  case (2 n k x y rest)
  show ?case
  proof (cases i)
    case 0
    then show ?thesis using "2.prems" by (auto simp: branch_def)
  next
    case (Suc j)
    then show ?thesis using "2.IH" [of j] "2.prems" by (auto simp: branch_def)
  qed
qed simp

lemma forwardD:
  assumes "forward nodes" and "i < length nodes"
  shows "branch (nodes ! i) b < 0
    \<or> int i < branch (nodes ! i) b \<and> nat (branch (nodes ! i) b) < length nodes"
  using forward_from_nth [of "int (length nodes)" 0 nodes i b] assms by (auto simp: forward_def)

lemma walk_length:
  "forward nodes \<Longrightarrow> walk nodes node bs = Some s \<Longrightarrow> length bs + node \<le> length nodes"
proof (induction bs arbitrary: node)
  case (Cons b bs)
  then have node: "node < length nodes" by (auto split: if_splits)
  from Cons.prems(2) have "branch (nodes ! node) b < 0 \<and> bs = []
      \<or> 0 < branch (nodes ! node) b \<and> walk nodes (nat (branch (nodes ! node) b)) bs = Some s"
    unfolding walk_branch [OF node] by auto
  then show ?case
    using forwardD [OF Cons.prems(1) node, of b] Cons.IH [OF Cons.prems(1), of "nat (branch (nodes ! node) b)"] node
    by auto
qed simp

section \<open>Correctness of the decoder\<close>

lemma read_bit_end:
  "reader_ok r \<Longrightarrow> unread r = [] \<Longrightarrow> read_bit r = (Inl (EndOfInput 1 0), r)"
  by (simp add: read_bit_def bind_rd_def read_bits_short)

text \<open>A path of the tree is decoded to its symbol, whatever follows it.\<close>

lemma reads_huffman_loop:
  assumes "walk nodes node bs = Some s" and "consumed + length bs \<le> Suc (length nodes)"
    and "consumed + length bs \<le> limit"
  shows "reads (huffman_loop nodes limit node consumed pre) bs \<lparr>cw_bits = pre @ bs, symbol = s\<rparr>"
  using assms
proof (induction bs arbitrary: node consumed pre)
  case (Cons b bs)
  have node: "node < length nodes" using Cons.prems(1) by (auto split: if_splits)
  let ?next = "branch (nodes ! node) b"
  show ?case
    unfolding reads_def
  proof (intro allI impI)
    fix r rest
    assume r: "reader_ok r" "unread r = (b # bs) @ rest"
    then have step: "read_bit r = (Inr b, skip 1 r)" by (simp add: read_bit_ok)
    have r': "reader_ok (skip 1 r)" "unread (skip 1 r) = bs @ rest"
      using r by (simp_all add: reader_ok_skip unread_skip)
    consider (leaf) "?next < 0" "bs = []" "s = nat (- ?next - 1)"
      | (inner) "0 < ?next" "walk nodes (nat ?next) bs = Some s"
      using Cons.prems(1) node walk_branch by blast
    then show "huffman_loop nodes limit node consumed pre r
        = (Inr \<lparr>cw_bits = pre @ b # bs, symbol = s\<rparr>, skip (length (b # bs)) r)"
    proof cases
      case leaf
      then show ?thesis using step node Cons.prems by (subst huffman_loop.simps) simp
    next
      case inner
      have "nat ?next < length nodes" using inner(2) by (cases bs) (auto split: if_splits)
      then have "huffman_loop nodes limit node consumed pre r
          = huffman_loop nodes limit (nat ?next) (Suc consumed) (pre @ [b]) (skip 1 r)"
        using step node Cons.prems inner by (subst huffman_loop.simps) simp
      also have "\<dots> = (Inr \<lparr>cw_bits = (pre @ [b]) @ bs, symbol = s\<rparr>, skip (length bs) (skip 1 r))"
        using Cons.prems inner by (intro readsD [OF Cons.IH r']) simp_all
      finally show ?thesis by simp
    qed
  qed
qed simp

text \<open>Every success is a path of the tree, with the bits that were read.\<close>

lemma huffman_loop_Inr:
  assumes "huffman_loop nodes limit node consumed pre r = (Inr c, r')" and "reader_ok r"
  shows "\<exists>bs. walk nodes node bs = Some (symbol c) \<and> cw_bits c = pre @ bs
    \<and> bs = take (length bs) (unread r) \<and> length bs \<le> length (unread r) \<and> r' = skip (length bs) r
    \<and> consumed + length bs \<le> Suc (length nodes) \<and> consumed + length bs \<le> limit"
  using assms
proof (induction nodes limit node consumed pre r rule: huffman_loop.induct)
  case (1 nodes limit node consumed pre r)
  have guards: "consumed < limit" "consumed \<le> length nodes" "node < length nodes"
    using "1.prems"(1) by (subst (asm) huffman_loop.simps, simp split: if_splits)+
  obtain b rest where u: "unread r = b # rest"
    using "1.prems" guards read_bit_end [of r]
    by (cases "unread r") (auto simp: huffman_loop.simps [of nodes limit node])
  have step: "read_bit r = (Inr b, skip 1 r)" by (rule read_bit_ok [OF "1.prems"(2) u])
  have r': "reader_ok (skip 1 r)" "unread (skip 1 r) = rest"
    using "1.prems"(2) u by (simp_all add: reader_ok_skip unread_skip)
  let ?next = "branch (nodes ! node) b"
  show ?case
  proof (cases "?next \<le> 0")
    case True
    then have "?next \<noteq> 0" and "c = \<lparr>cw_bits = pre @ [b], symbol = nat (- ?next - 1)\<rparr>" and "r' = skip 1 r"
      using "1.prems"(1) guards step True
      by (auto simp: huffman_loop.simps [of nodes limit node] Let_def split: if_splits)
    then show ?thesis using True guards u by (intro exI [of _ "[b]"]) simp
  next
    case False
    then have small: "nat ?next < length nodes"
      and rec: "huffman_loop nodes limit (nat ?next) (Suc consumed) (pre @ [b]) (skip 1 r) = (Inr c, r')"
      using "1.prems"(1) guards step False
      by (auto simp: huffman_loop.simps [of nodes limit node] Let_def split: if_splits)
    obtain bs where bs: "walk nodes (nat ?next) bs = Some (symbol c)" "cw_bits c = (pre @ [b]) @ bs"
      "bs = take (length bs) rest" "length bs \<le> length rest" "r' = skip (length bs) (skip 1 r)"
      "Suc consumed + length bs \<le> Suc (length nodes)" "Suc consumed + length bs \<le> limit"
      using "1.IH" [OF _ _ _ step [symmetric] refl refl _ _ rec r'(1)] guards False small r'(2) by auto
    then show ?thesis using guards u False by (intro exI [of _ "b # bs"]) auto
  qed
qed

lemma ensures_decode_huffman:
  "ensures (decode_huffman_codeword nodes n) (\<lambda>c. walk nodes 0 (cw_bits c) = Some (symbol c))"
  unfolding ensures_def decode_huffman_codeword_def
  by (auto simp: fail_Inr dest!: huffman_loop_Inr simp: reader_ok_skip)

lemma exact_decode_huffman [exact_intros]: "exact_parser (decode_huffman_codeword nodes n)"
proof (rule exactI)
  fix r c r'
  assume r: "reader_ok r" and run: "decode_huffman_codeword nodes n r = (Inr c, r')"
  then have ne: "nodes \<noteq> []"
    and loop: "huffman_loop nodes (case n of Some n \<Rightarrow> n | None \<Rightarrow> usize_max) 0 0 [] r = (Inr c, r')"
    by (auto simp: decode_huffman_codeword_def fail_Inr split: if_splits)
  obtain bs where bs: "walk nodes 0 bs = Some (symbol c)" "cw_bits c = bs"
      "bs = take (length bs) (unread r)" "length bs \<le> length (unread r)" "r' = skip (length bs) r"
      "length bs \<le> Suc (length nodes)" "length bs \<le> (case n of Some n \<Rightarrow> n | None \<Rightarrow> usize_max)"
    using huffman_loop_Inr [OF loop r] by auto
  have c: "\<lparr>cw_bits = [] @ bs, symbol = symbol c\<rparr> = c" using bs(2) by simp
  have "reads (huffman_loop nodes (case n of Some n \<Rightarrow> n | None \<Rightarrow> usize_max) 0 0 []) bs
      \<lparr>cw_bits = [] @ bs, symbol = symbol c\<rparr>"
    using bs by (intro reads_huffman_loop) simp_all
  then have "reads (decode_huffman_codeword nodes n) bs c"
    using ne unfolding c by (simp add: decode_huffman_codeword_def)
  with bs show "\<exists>k \<le> length (unread r). r' = skip k r \<and> reads (decode_huffman_codeword nodes n) (take k (unread r)) c"
    by (intro exI [of _ "length bs"]) simp
qed

lemma reads_decode_huffman:
  assumes "forward nodes" and "walk nodes 0 bs = Some s" and "length nodes \<le> usize_max"
  shows "reads (decode_huffman_codeword nodes None) bs \<lparr>cw_bits = bs, symbol = s\<rparr>"
  using reads_huffman_loop [OF assms(2), of 0 usize_max "[]"] walk_length [OF assms(1,2)] assms
  by (simp add: decode_huffman_codeword_def forward_def)

text \<open>A forward tree decodes every input that is long enough; short inputs are the only error.\<close>

lemma huffman_loop_total:
  assumes "forward nodes" and "node < length nodes" and "reader_ok r"
    and "consumed \<le> node" and "length nodes \<le> limit"
  shows "(\<exists>c r'. huffman_loop nodes limit node consumed pre r = (Inr c, r'))
    \<or> (\<exists>r'. huffman_loop nodes limit node consumed pre r = (Inl TruncatedCodeword, r'))
      \<and> length (unread r) < length nodes - node"
  using assms
proof (induction nodes limit node consumed pre r rule: huffman_loop.induct)
  case (1 nodes limit node consumed pre r)
  show ?case
  proof (cases "unread r")
    case Nil
    then show ?thesis using "1.prems" read_bit_end [of r]
      by (subst huffman_loop.simps, subst huffman_loop.simps) (simp add: huffman_bit_error_def)
  next
    case (Cons b rest)
    have step: "read_bit r = (Inr b, skip 1 r)" by (rule read_bit_ok [OF "1.prems"(3) Cons])
    have r': "reader_ok (skip 1 r)" "unread (skip 1 r) = rest"
      using "1.prems"(3) Cons by (simp_all add: reader_ok_skip unread_skip)
    let ?next = "branch (nodes ! node) b"
    from forwardD [OF "1.prems"(1,2), of b] show ?thesis
    proof
      assume "?next < 0"
      then show ?thesis using "1.prems" step by (subst huffman_loop.simps) simp
    next
      assume fwd: "int node < ?next \<and> nat ?next < length nodes"
      then have eq: "huffman_loop nodes limit node consumed pre r
          = huffman_loop nodes limit (nat ?next) (Suc consumed) (pre @ [b]) (skip 1 r)"
        using "1.prems" step by (subst huffman_loop.simps) simp
      show ?thesis
        unfolding eq
        using "1.IH" [OF _ _ _ step [symmetric] refl, of ?next] "1.prems" fwd r' Cons by force
    qed
  qed
qed

section \<open>Complete tables\<close>

text \<open>Where a string of bits leads: to a node, or to the negative entry of a leaf.\<close>

fun trail :: "huffman_nodes \<Rightarrow> int \<Rightarrow> bool list \<Rightarrow> int option" where
  "trail nodes v [] = Some v"
| "trail nodes v (b # bs) =
     (if 0 \<le> v \<and> nat v < length nodes then trail nodes (branch (nodes ! nat v) b) bs else None)"

lemma trail_snoc:
  "trail nodes v (bs @ [b]) = Some w \<longleftrightarrow>
   (\<exists>p. trail nodes v bs = Some (int p) \<and> p < length nodes \<and> branch (nodes ! p) b = w)"
proof (induction bs arbitrary: v)
  case Nil
  then show ?case by (auto intro: exI [of _ "nat v"])
qed auto

lemma length_branches [simp]: "length (branches nodes) = 2 * length nodes"
  by (induction nodes rule: branches.induct) auto

lemma branches_nth: "p < length nodes \<Longrightarrow> branches nodes ! (2 * p + of_bool b) = branch (nodes ! p) b"
proof (induction nodes arbitrary: p rule: branches.induct)
  case (2 x y rest)
  then show ?case by (cases p) (auto simp: branch_def)
qed simp

lemma branches_set: "v \<in> set (branches nodes) \<longleftrightarrow> (\<exists>p b. p < length nodes \<and> branch (nodes ! p) b = v)"
proof
  assume "v \<in> set (branches nodes)"
  then obtain k where k: "k < 2 * length nodes" "branches nodes ! k = v" by (auto simp: in_set_conv_nth)
  have "2 * (k div 2) + of_bool (odd k) = k" by (simp add: odd_two_times_div_two_succ)
  then have "branch (nodes ! (k div 2)) (odd k) = v" using branches_nth [of "k div 2" nodes "odd k"] k by simp
  then show "\<exists>p b. p < length nodes \<and> branch (nodes ! p) b = v" using k(1) by (intro exI [of _ "k div 2"]) auto
next
  assume "\<exists>p b. p < length nodes \<and> branch (nodes ! p) b = v"
  then obtain p b where p: "p < length nodes" "branch (nodes ! p) b = v" by blast
  then have "2 * p + of_bool b < length (branches nodes)" by (cases b) auto
  then show "v \<in> set (branches nodes)" using branches_nth [OF p(1), of b] p(2) nth_mem by metis
qed

lemma complete_forward:
  "complete_table n nodes \<Longrightarrow> forward nodes \<and> length nodes \<le> usize_max \<and> nodes \<noteq> []"
  by (auto simp: complete_table_def forward_def usize_max_def)

lemma complete_branches:
  assumes "complete_table n nodes"
  shows "set (branches nodes) = {- int n..-1} \<union> {1..int (length nodes) - 1}" and "distinct (branches nodes)"
proof -
  let ?target = "[- int n..-1] @ [1..int (length nodes) - 1]"
  have "mset (branches nodes) = mset (merge_all (map (\<lambda>v. [v]) (branches nodes)))"
    by (simp add: mset_merge_all)
  then have eq: "mset (branches nodes) = mset ?target"
    using assms by (simp add: complete_table_def)
  show "set (branches nodes) = {- int n..-1} \<union> {1..int (length nodes) - 1}"
    using mset_eq_setD [OF eq] by simp
  have "distinct ?target" by auto
  then show "distinct (branches nodes)" using mset_eq_imp_distinct_iff [OF eq] by blast
qed

lemma complete_no_zero: "complete_table n nodes \<Longrightarrow> p < length nodes \<Longrightarrow> branch (nodes ! p) b \<noteq> 0"
  using complete_branches(1) [of n nodes] branches_set [of 0 nodes] by auto

lemma edge_unique:
  assumes "complete_table n nodes"
    and "p < length nodes" "q < length nodes" "branch (nodes ! p) b = branch (nodes ! q) c"
  shows "p = q \<and> b = c"
proof -
  have "2 * p + of_bool b < 2 * length nodes" "2 * q + of_bool c < 2 * length nodes"
    using assms(2,3) by (cases b; cases c; simp)+
  then have "2 * p + of_bool b = 2 * q + (of_bool c :: nat)"
    using complete_branches(2) [OF assms(1)] assms(2-)
      nth_eq_iff_index_eq [of "branches nodes" "2 * p + of_bool b" "2 * q + of_bool c"]
    by (simp add: branches_nth)
  then show ?thesis by (cases b; cases c; simp; presburger)
qed

lemma trail_unique:
  assumes "complete_table n nodes"
  shows "trail nodes 0 bs = Some v \<Longrightarrow> trail nodes 0 cs = Some v \<Longrightarrow> bs = cs"
proof (induction bs arbitrary: cs v rule: rev_induct)
  case Nil
  then show ?case
    using complete_no_zero [OF assms] by (cases cs rule: rev_cases) (auto simp: trail_snoc)
next
  case (snoc b bs)
  then obtain p where p: "trail nodes 0 bs = Some (int p)" "p < length nodes" "branch (nodes ! p) b = v"
    by (auto simp: trail_snoc)
  show ?case
  proof (cases cs rule: rev_cases)
    case Nil
    then show ?thesis using snoc.prems p complete_no_zero [OF assms p(2)] by auto
  next
    case (snoc ds c)
    then obtain q where q: "trail nodes 0 ds = Some (int q)" "q < length nodes" "branch (nodes ! q) c = v"
      using snoc.prems by (auto simp: trail_snoc)
    then show ?thesis using edge_unique [OF assms p(2) q(2), of b c] snoc.IH [OF p(1)] p snoc by auto
  qed
qed

lemma trail_node:
  assumes "complete_table n nodes"
  shows "p < length nodes \<Longrightarrow> \<exists>bs. trail nodes 0 bs = Some (int p)"
proof (induction p rule: less_induct)
  case (less p)
  show ?case
  proof (cases "p = 0")
    case True
    then show ?thesis by (intro exI [of _ "[]"]) simp
  next
    case False
    then have "int p \<in> set (branches nodes)"
      using less.prems complete_branches(1) [OF assms] by auto
    then obtain q b where q: "q < length nodes" "branch (nodes ! q) b = int p"
      using branches_set by blast
    then have "q < p"
      using forwardD [of nodes q b] complete_forward [OF assms] by auto
    then obtain bs where "trail nodes 0 bs = Some (int q)" using less.IH q(1) by blast
    then show ?thesis using q by (intro exI [of _ "bs @ [b]"]) (auto simp: trail_snoc)
  qed
qed

lemma walk_trail:
  assumes "complete_table n nodes"
  shows "walk nodes p bs = Some s \<longleftrightarrow> bs \<noteq> [] \<and> trail nodes (int p) bs = Some (- int s - 1)"
proof (induction bs arbitrary: p)
  case (Cons b bs)
  show ?case
  proof (cases "p < length nodes")
    case True
    let ?v = "branch (nodes ! p) b"
    have t: "trail nodes (int p) (b # bs) = trail nodes ?v bs" using True by simp
    consider (leaf) "?v < 0" | (inner) "0 < ?v" using complete_no_zero [OF assms True, of b] by linarith
    then show ?thesis
    proof cases
      case leaf
      then have "trail nodes ?v bs = Some (- int s - 1) \<longleftrightarrow> bs = [] \<and> ?v = - int s - 1" by (cases bs) auto
      then show ?thesis using leaf unfolding walk_branch [OF True] t by auto
    next
      case inner
      then have "walk nodes p (b # bs) = Some s \<longleftrightarrow> bs \<noteq> [] \<and> trail nodes ?v bs = Some (- int s - 1)"
        using Cons.IH [of "nat ?v"] unfolding walk_branch [OF True] by simp
      moreover have "trail nodes ?v [] \<noteq> Some (- int s - 1)" using inner by simp
      ultimately show ?thesis unfolding t by (metis list.distinct(1))
    qed
  qed simp
qed simp

text \<open>Each of the \<open>n\<close> symbols has exactly one codeword, and there are no other symbols.\<close>

lemma complete_codewords:
  assumes "complete_table n nodes"
  shows "(\<exists>bs. walk nodes 0 bs = Some s) \<longleftrightarrow> s < n"
    and "walk nodes 0 bs = Some s \<Longrightarrow> walk nodes 0 cs = Some s \<Longrightarrow> bs = cs"
proof -
  have set: "- int s - 1 \<in> set (branches nodes) \<longleftrightarrow> s < n"
    using complete_branches(1) [OF assms] by auto
  show "(\<exists>bs. walk nodes 0 bs = Some s) \<longleftrightarrow> s < n"
  proof
    assume "\<exists>bs. walk nodes 0 bs = Some s"
    then obtain bs where "bs \<noteq> []" "trail nodes 0 bs = Some (- int s - 1)"
      using walk_trail [OF assms, of 0] by auto
    then have "- int s - 1 \<in> set (branches nodes)"
      by (cases bs rule: rev_cases) (auto simp: trail_snoc branches_set)
    then show "s < n" using set by simp
  next
    assume "s < n"
    then obtain p b where p: "p < length nodes" "branch (nodes ! p) b = - int s - 1"
      using set branches_set by blast
    obtain bs where "trail nodes 0 bs = Some (int p)" using trail_node [OF assms p(1)] ..
    then have "walk nodes 0 (bs @ [b]) = Some s"
      using p walk_trail [OF assms, of 0 "bs @ [b]" s] by (auto simp: trail_snoc)
    then show "\<exists>bs. walk nodes 0 bs = Some s" ..
  qed
  show "walk nodes 0 bs = Some s \<Longrightarrow> walk nodes 0 cs = Some s \<Longrightarrow> bs = cs"
    using walk_trail [OF assms, of 0] trail_unique [OF assms] by auto
qed

section \<open>The six tables\<close>

lemma complete_coarse_generic: "complete_table 96 JOC_HUFF_CODE_COARSE_GENERIC"
  by code_simp

lemma complete_fine_generic: "complete_table 192 JOC_HUFF_CODE_FINE_GENERIC"
  by code_simp

lemma complete_coarse_sparse: "complete_table 96 JOC_HUFF_CODE_COARSE_COEFF_SPARSE"
  by code_simp

lemma complete_fine_sparse: "complete_table 192 JOC_HUFF_CODE_FINE_COEFF_SPARSE"
  by code_simp

lemma complete_5ch: "complete_table 5 JOC_HUFF_CODE_5CH_POS_INDEX_SPARSE"
  by code_simp

lemma complete_7ch: "complete_table 7 JOC_HUFF_CODE_7CH_POS_INDEX_SPARSE"
  by code_simp

lemmas complete_tables =
  complete_coarse_generic complete_fine_generic complete_coarse_sparse complete_fine_sparse
  complete_5ch complete_7ch

end
