(* ===== verification/JocParser.thy ===== *)
theory JocParser
  imports Huffman
begin

text \<open>
  The JOC payload parser, \<open>crates/openjoc-joc/src/parser.rs\<close>: header, the per-object
  parameters, then per object and data point the Huffman coded differential data, and zero
  padding of less than a byte.
\<close>

section \<open>Data\<close>

datatype quant_mode = Coarse96 | Fine192

definition steps :: "quant_mode \<Rightarrow> nat" where
  "steps m = (case m of Coarse96 \<Rightarrow> 96 | Fine192 \<Rightarrow> 192)"

definition mode_index :: "quant_mode \<Rightarrow> nat" where
  "mode_index m = (case m of Coarse96 \<Rightarrow> 0 | Fine192 \<Rightarrow> 1)"

datatype slope = Smooth | Steep

record joc_header =
  downmix_index :: nat
  channel_count :: nat
  object_count_bits :: nat
  object_count :: nat
  extension_index :: nat

datatype joc_payload_data =
  Sparse (initial_channel: nat) (channel_deltas: "huffman_codeword list")
         (vector_symbols: "huffman_codeword list")
| Full (matrix_symbols: "huffman_codeword list list")

record joc_data_point =
  offset_timeslot :: "nat option"
  payload :: joc_payload_data

record joc_object_frame =
  present :: bool
  band_index :: "nat option"
  band_count :: "nat option"
  sparse :: "bool option"
  obj_quant_mode :: "quant_mode option"
  obj_slope :: "slope option"
  data_points :: "joc_data_point list"

record joc_frame =
  header :: joc_header
  clip_gain_x_bits :: nat
  clip_gain_y_bits :: nat
  sequence_count :: nat
  objects :: "joc_object_frame list"

datatype joc_parse_error =
  JocBit bit_error
| JocHuffman huffman_error
| ReservedDownmix nat
| TooManyObjects nat
| ReservedExtension nat
| InvalidSparseChannel nat nat
| TrailingData nat
| NonZeroPadding

record object_info =
  info_band_index :: nat
  info_band_count :: nat
  info_sparse :: bool
  info_quant_mode :: quant_mode
  info_slope :: slope
  info_offsets :: "nat option list"

type_synonym 'a joc_parser = "(joc_parse_error, 'a) parser"

section \<open>Fields\<close>

definition read_u8 :: "nat \<Rightarrow> nat joc_parser" where
  "read_u8 width = read_uint JocBit (JocBit BitLengthOverflow) 256 width"

definition read_u16 :: "nat \<Rightarrow> nat joc_parser" where
  "read_u16 width = read_uint JocBit (JocBit BitLengthOverflow) 65536 width"

definition joc_bit :: "bool joc_parser" where
  "joc_bit = map_err JocBit read_bit"

definition joc_code :: "huffman_nodes \<Rightarrow> huffman_codeword joc_parser" where
  "joc_code nodes = map_err JocHuffman (decode_huffman_codeword nodes None)"

section \<open>The stages of \<open>parse_joc_payload\<close>\<close>

definition downmix_channels :: "nat \<Rightarrow> nat option" where
  "downmix_channels index =
     (if index = 0 \<or> index = 3 then Some 5
      else if index = 1 \<or> index = 2 \<or> index = 4 then Some 7
      else None)"

definition parse_joc_header :: "joc_header joc_parser" where
  "parse_joc_header =
     bind_rd (read_u8 3) (\<lambda>downmix_index.
     bind_rd (some_or (downmix_channels downmix_index) (ReservedDownmix downmix_index)) (\<lambda>channel_count.
     bind_rd (read_u8 6) (\<lambda>object_count_bits.
     let object_count = object_count_bits + 1 in
     bind_rd (guard_rd (object_count \<le> 16) (TooManyObjects object_count)) (\<lambda>_.
     bind_rd (read_u8 3) (\<lambda>extension_index.
     bind_rd (guard_rd (extension_index = 0) (ReservedExtension extension_index)) (\<lambda>_.
     ret \<lparr>downmix_index = downmix_index, channel_count = channel_count,
          object_count_bits = object_count_bits, object_count = object_count,
          extension_index = extension_index\<rparr>))))))"

definition BAND_COUNTS :: "nat list" where
  "BAND_COUNTS = [1, 3, 5, 7, 9, 12, 15, 23]"

definition parse_offset :: "slope \<Rightarrow> nat option joc_parser" where
  "parse_offset slope =
     (if slope = Steep then bind_rd (read_u8 5) (\<lambda>n. ret (Some (n + 1))) else ret None)"

definition parse_object_info :: "object_info option joc_parser" where
  "parse_object_info =
     bind_rd joc_bit (\<lambda>present.
       if \<not> present then ret None
       else
         bind_rd (read_u8 3) (\<lambda>band_index.
         bind_rd joc_bit (\<lambda>sparse.
         bind_rd joc_bit (\<lambda>fine.
         bind_rd joc_bit (\<lambda>steep.
         bind_rd (read_u8 1) (\<lambda>count_bit.
         let slope = (if steep then Steep else Smooth) in
         bind_rd (repeat_rd (count_bit + 1) (parse_offset slope)) (\<lambda>offsets.
         ret (Some \<lparr>info_band_index = band_index, info_band_count = BAND_COUNTS ! band_index,
                    info_sparse = sparse, info_quant_mode = (if fine then Fine192 else Coarse96),
                    info_slope = slope, info_offsets = offsets\<rparr>))))))))"

definition index_table :: "nat \<Rightarrow> huffman_nodes" where
  "index_table channels = all_huffman_tables ! (if channels = 5 then 4 else 5)"

definition vector_table :: "quant_mode \<Rightarrow> huffman_nodes" where
  "vector_table m = all_huffman_tables ! (case m of Coarse96 \<Rightarrow> 2 | Fine192 \<Rightarrow> 3)"

definition matrix_table :: "quant_mode \<Rightarrow> huffman_nodes" where
  "matrix_table m = all_huffman_tables ! (case m of Coarse96 \<Rightarrow> 0 | Fine192 \<Rightarrow> 1)"

definition parse_point_payload :: "nat \<Rightarrow> object_info \<Rightarrow> joc_payload_data joc_parser" where
  "parse_point_payload channels info =
     (if info_sparse info then
        bind_rd (read_u8 3) (\<lambda>initial_channel.
        bind_rd (guard_rd (initial_channel < channels)
                   (InvalidSparseChannel initial_channel channels)) (\<lambda>_.
        bind_rd (repeat_rd (info_band_count info - 1) (joc_code (index_table channels))) (\<lambda>deltas.
        bind_rd (repeat_rd (info_band_count info) (joc_code (vector_table (info_quant_mode info)))) (\<lambda>vector.
        ret (Sparse initial_channel deltas vector)))))
      else
        bind_rd (repeat_rd channels
                   (repeat_rd (info_band_count info) (joc_code (matrix_table (info_quant_mode info))))) (\<lambda>matrix.
        ret (Full matrix)))"

definition parse_data_point :: "nat \<Rightarrow> object_info \<Rightarrow> nat option \<Rightarrow> joc_data_point joc_parser" where
  "parse_data_point channels info offset =
     bind_rd (parse_point_payload channels info) (\<lambda>p.
     ret \<lparr>offset_timeslot = offset, payload = p\<rparr>)"

definition parse_object :: "nat \<Rightarrow> object_info option \<Rightarrow> joc_object_frame joc_parser" where
  "parse_object channels info =
     (case info of
        None \<Rightarrow> ret \<lparr>present = False, band_index = None, band_count = None, sparse = None,
                     obj_quant_mode = None, obj_slope = None, data_points = []\<rparr>
      | Some i \<Rightarrow>
          bind_rd (each_rd (parse_data_point channels i) (info_offsets i)) (\<lambda>points.
          ret \<lparr>present = True, band_index = Some (info_band_index i),
               band_count = Some (info_band_count i), sparse = Some (info_sparse i),
               obj_quant_mode = Some (info_quant_mode i), obj_slope = Some (info_slope i),
               data_points = points\<rparr>))"

text \<open>The rest of the payload: fewer than eight bits, all zero.\<close>

definition check_joc_padding :: "unit joc_parser" where
  "check_joc_padding r =
     (let remaining = bits_remaining r in
      if 7 < remaining then (Inl (TrailingData remaining), r)
      else bind_rd (repeat_rd remaining
             (bind_rd joc_bit (\<lambda>b. guard_rd (\<not> b) NonZeroPadding))) (\<lambda>_. ret ()) r)"

definition parse_joc_frame :: "joc_frame joc_parser" where
  "parse_joc_frame =
     bind_rd parse_joc_header (\<lambda>header.
     bind_rd (read_u8 3) (\<lambda>clip_gain_x_bits.
     bind_rd (read_u8 5) (\<lambda>clip_gain_y_bits.
     bind_rd (read_u16 10) (\<lambda>sequence_count.
     bind_rd (repeat_rd (object_count header) parse_object_info) (\<lambda>infos.
     bind_rd (each_rd (parse_object (channel_count header)) infos) (\<lambda>objects.
     bind_rd check_joc_padding (\<lambda>_.
     ret \<lparr>header = header, clip_gain_x_bits = clip_gain_x_bits, clip_gain_y_bits = clip_gain_y_bits,
          sequence_count = sequence_count, objects = objects\<rparr>)))))))"

definition parse_joc_payload :: "u8 list \<Rightarrow> joc_parse_error + joc_frame" where
  "parse_joc_payload raw = fst (parse_joc_frame (new_reader raw))"

end
