(* ===== verification/Reconstruction.thy ===== *)
theory Reconstruction
  imports JocParser
begin

text \<open>
  The reconstruction stages of \<open>crates/openjoc-joc/src/reconstruction.rs\<close>: differential
  decoding of sparse and full coefficient matrices, dequantization, the parameter bands of the
  QMF subbands, temporal interpolation and the reconstruction matrix product.

  Floating-point arithmetic is left abstract: the definitions are polymorphic in the scalar
  type and keep every operation of the code and its order; \<open>num\<close> is the conversion
  \<open>f64::from\<close> of an integer.  Theorems that need the laws of arithmetic are stated over the
  reals, the others hold for any scalars, IEEE numbers included.
\<close>

section \<open>Band counts and errors\<close>

datatype joc_band_count =
  BcOne | BcThree | BcFive | BcSeven | BcNine | BcTwelve | BcFifteen | BcTwentyThree

datatype reconstruction_error =
  InvalidBandCount nat
| InvalidSubband nat
| InvalidChannel nat nat
| InvalidChannelCount nat
| QuantizedValueOutOfRange nat nat
| DimensionMismatch string
| InvalidDataPointCount nat
| InvalidTimeslotCount nat

definition ALL_BAND_COUNTS :: "joc_band_count list" where
  "ALL_BAND_COUNTS = [BcOne, BcThree, BcFive, BcSeven, BcNine, BcTwelve, BcFifteen, BcTwentyThree]"

definition band_count_value :: "joc_band_count \<Rightarrow> nat" where
  "band_count_value c =
     (case c of BcOne \<Rightarrow> 1 | BcThree \<Rightarrow> 3 | BcFive \<Rightarrow> 5 | BcSeven \<Rightarrow> 7 | BcNine \<Rightarrow> 9
      | BcTwelve \<Rightarrow> 12 | BcFifteen \<Rightarrow> 15 | BcTwentyThree \<Rightarrow> 23)"

definition band_count_try_from :: "nat \<Rightarrow> reconstruction_error + joc_band_count" where
  "band_count_try_from v =
     (if v = 1 then Inr BcOne else if v = 3 then Inr BcThree else if v = 5 then Inr BcFive
      else if v = 7 then Inr BcSeven else if v = 9 then Inr BcNine else if v = 12 then Inr BcTwelve
      else if v = 15 then Inr BcFifteen else if v = 23 then Inr BcTwentyThree
      else Inl (InvalidBandCount v))"

definition QMF_SUBBANDS :: nat where
  "QMF_SUBBANDS = 64"

section \<open>Differential decoding\<close>

fun validate_symbols :: "nat list \<Rightarrow> nat \<Rightarrow> reconstruction_error option" where
  "validate_symbols [] st = None"
| "validate_symbols (v # vs) st =
     (if st \<le> v then Some (QuantizedValueOutOfRange v st) else validate_symbols vs st)"

fun validate_deltas :: "nat list \<Rightarrow> nat \<Rightarrow> reconstruction_error option" where
  "validate_deltas [] channels = None"
| "validate_deltas (d # ds) channels =
     (if channels \<le> d then Some (InvalidChannel (min d 255) channels) else validate_deltas ds channels)"

definition sparse_offset :: "quant_mode \<Rightarrow> nat" where
  "sparse_offset m = (case m of Coarse96 \<Rightarrow> 50 | Fine192 \<Rightarrow> 100)"

definition selected_channel :: "nat \<Rightarrow> nat list \<Rightarrow> nat \<Rightarrow> nat" where
  "selected_channel channels raw band =
     (if band = 0 then raw ! 0 else (raw ! (band - 1) + raw ! band) mod channels)"

text \<open>The body of the loop over the bands: one entry of the matrix \<open>[channel][band]\<close> is set.\<close>

definition sparse_step ::
  "nat \<Rightarrow> nat \<Rightarrow> nat \<Rightarrow> nat list \<Rightarrow> nat list \<Rightarrow> nat \<Rightarrow> nat list list \<Rightarrow> nat list list" where
  "sparse_step channels st offset raw vec band matrix =
     (let sel = selected_channel channels raw band;
          v = (if band = 0 then (offset + vec ! band) mod st
               else (matrix ! sel ! (band - 1) + vec ! band) mod st) in
      matrix[sel := (matrix ! sel)[band := v]])"

definition decode_sparse_coefficients ::
  "nat \<Rightarrow> quant_mode \<Rightarrow> nat \<Rightarrow> nat list \<Rightarrow> nat list \<Rightarrow> reconstruction_error + nat list list" where
  "decode_sparse_coefficients channels mode initial deltas vec =
     (if channels \<noteq> 5 \<and> channels \<noteq> 7 then Inl (InvalidChannelCount channels)
      else if channels \<le> initial then Inl (InvalidChannel initial channels)
      else if vec = [] \<or> length deltas + 1 \<noteq> length vec
      then Inl (DimensionMismatch ''sparse differential data'')
      else
        (case validate_symbols vec (steps mode) of
           Some e \<Rightarrow> Inl e
         | None \<Rightarrow>
           (case validate_deltas deltas channels of
              Some e \<Rightarrow> Inl e
            | None \<Rightarrow>
              (let bands = length vec; offset = sparse_offset mode in
               Inr (fold (sparse_step channels (steps mode) offset (initial # deltas) vec) [0..<bands]
                      (replicate channels (replicate bands offset)))))))"

text \<open>One channel of the full matrix: running sums from \<open>previous\<close>, and all channels in turn.\<close>

fun full_channel :: "nat \<Rightarrow> nat \<Rightarrow> nat list \<Rightarrow> nat list" where
  "full_channel st previous [] = []"
| "full_channel st previous (s # ss) =
     (let v = (previous + s) mod st in v # full_channel st v ss)"

fun full_channels :: "nat \<Rightarrow> nat list list \<Rightarrow> reconstruction_error + nat list list" where
  "full_channels st [] = Inr []"
| "full_channels st (symbols # rest) =
     (case validate_symbols symbols st of
        Some e \<Rightarrow> Inl e
      | None \<Rightarrow>
        (case full_channels st rest of
           Inl e \<Rightarrow> Inl e
         | Inr out \<Rightarrow> Inr (full_channel st (st div 2) symbols # out)))"

definition decode_full_coefficients ::
  "quant_mode \<Rightarrow> nat list list \<Rightarrow> reconstruction_error + nat list list" where
  "decode_full_coefficients mode matrix =
     (case matrix of
        [] \<Rightarrow> Inl (InvalidChannelCount 0)
      | row # _ \<Rightarrow>
          if row = [] \<or> (\<exists>channel \<in> set matrix. length channel \<noteq> length row)
          then Inl (DimensionMismatch ''full differential data'')
          else full_channels (steps mode) matrix)"

section \<open>Dequantization\<close>

definition dequantize ::
  "(nat \<Rightarrow> 'f) \<Rightarrow> nat \<Rightarrow> quant_mode \<Rightarrow> reconstruction_error + 'f :: {plus, minus, times, inverse}" where
  "dequantize num q mode =
     (if steps mode \<le> q then Inl (QuantizedValueOutOfRange q (steps mode))
      else Inr ((num q - num (steps mode) / num 2) * num 820
                / (num 4096 * (num 1 + num (mode_index mode)))))"

section \<open>Parameter bands\<close>

definition band_widths :: "joc_band_count \<Rightarrow> nat list" where
  "band_widths c =
     (case c of
        BcOne \<Rightarrow> [64]
      | BcThree \<Rightarrow> [3, 11, 50]
      | BcFive \<Rightarrow> [1, 2, 6, 14, 41]
      | BcSeven \<Rightarrow> [1, 1, 2, 4, 6, 9, 41]
      | BcNine \<Rightarrow> [1, 1, 1, 2, 2, 2, 5, 9, 41]
      | BcTwelve \<Rightarrow> [1, 1, 1, 1, 2, 2, 3, 3, 4, 5, 12, 29]
      | BcFifteen \<Rightarrow> [1, 1, 1, 1, 1, 1, 1, 1, 1, 2, 3, 4, 5, 12, 29]
      | BcTwentyThree \<Rightarrow>
          [1, 1, 1, 1, 1, 1, 1, 1, 1, 1, 1, 1, 2, 2, 2, 2, 3, 3, 4, 5, 6, 7, 16])"

fun find_band :: "nat \<Rightarrow> nat \<Rightarrow> nat \<Rightarrow> nat list \<Rightarrow> reconstruction_error + nat" where
  "find_band subband boundary band [] = Inl (InvalidSubband subband)"
| "find_band subband boundary band (w # ws) =
     (if subband < boundary + w then Inr band else find_band subband (boundary + w) (Suc band) ws)"

definition qmf_subband_to_parameter_band :: "joc_band_count \<Rightarrow> nat \<Rightarrow> reconstruction_error + nat" where
  "qmf_subband_to_parameter_band c subband =
     (if 64 \<le> subband then Inl (InvalidSubband subband) else find_band subband 0 0 (band_widths c))"

section \<open>Interpolation\<close>

record 'f interpolated_matrix =
  im_matrix :: "'f list list list"
  next_previous :: "'f list list"

text \<open>
  The coefficient of one channel, parameter band, subband and timeslot: the four arms of the
  match on the slope and the number of points.
\<close>

definition interpolated_value ::
  "(nat \<Rightarrow> 'f) \<Rightarrow> 'f list list list \<Rightarrow> 'f list list \<Rightarrow> slope \<Rightarrow> nat option list \<Rightarrow> nat \<Rightarrow>
   nat \<Rightarrow> nat \<Rightarrow> nat \<Rightarrow> nat \<Rightarrow> 'f :: {plus, minus, times, inverse}" where
  "interpolated_value num points previous sl offsets timeslots channel band subband timeslot =
     (let prev = previous ! channel ! subband;
          p0 = points ! 0 ! channel ! band;
          p1 = points ! 1 ! channel ! band;
          before = (\<lambda>i. timeslot < (case offsets ! i of Some n \<Rightarrow> n | None \<Rightarrow> 255)) in
      case sl of
        Smooth \<Rightarrow>
          if length points = 1
          then prev + num (timeslot + 1) * (p0 - prev) / num timeslots
          else
            let midpoint = timeslots div 2 in
            if timeslot < midpoint
            then prev + num (timeslot + 1) * (p0 - prev) / num midpoint
            else p0 + num (timeslot - midpoint + 1) * (p1 - p0) / num (timeslots - midpoint)
      | Steep \<Rightarrow>
          if length points = 1
          then if before 0 then prev else p0
          else if before 0 then prev else if before 1 then p0 else p1)"

text \<open>
  The parameter band of a subband below 64; the error branch of the lookup is not reachable
  there (\<open>band_of_total\<close>).
\<close>

definition band_of :: "joc_band_count \<Rightarrow> nat \<Rightarrow> nat" where
  "band_of c subband = (case qmf_subband_to_parameter_band c subband of Inr b \<Rightarrow> b | Inl _ \<Rightarrow> 0)"

definition interpolate_matrix ::
  "(nat \<Rightarrow> 'f) \<Rightarrow> 'f list list list \<Rightarrow> 'f list list \<Rightarrow> slope \<Rightarrow> nat option list \<Rightarrow> joc_band_count \<Rightarrow>
   nat \<Rightarrow> reconstruction_error + 'f :: {plus, minus, times, inverse} interpolated_matrix" where
  "interpolate_matrix num points previous sl offsets bc timeslots =
     (if length points \<noteq> 1 \<and> length points \<noteq> 2 then Inl (InvalidDataPointCount (length points))
      else if timeslots = 0 then Inl (InvalidTimeslotCount timeslots)
      else if 2 ^ 32 \<le> timeslots then Inl (InvalidTimeslotCount timeslots)
      else if length offsets \<noteq> length points \<or> (\<exists>point \<in> set points. length point \<noteq> length previous)
      then Inl (DimensionMismatch ''interpolation points'')
      else if \<exists>point \<in> set points. \<exists>channel \<in> set point. length channel \<noteq> band_count_value bc
      then Inl (DimensionMismatch ''interpolation parameter bands'')
      else if sl = Steep \<and> None \<in> set offsets
      then Inl (DimensionMismatch ''steep interpolation offsets'')
      else
        Inr \<lparr>im_matrix =
               map (\<lambda>timeslot.
                 map (\<lambda>channel.
                   map (\<lambda>subband.
                     interpolated_value num points previous sl offsets timeslots channel
                       (band_of bc subband) subband timeslot)
                   [0..<QMF_SUBBANDS])
                 [0..<length previous])
               [0..<timeslots],
             next_previous =
               map (\<lambda>channel. map (\<lambda>subband. last points ! channel ! band_of bc subband) [0..<QMF_SUBBANDS])
                 [0..<length previous]\<rparr>)"

section \<open>Reconstruction\<close>

text \<open>A \<open>Complex64\<close>, its sum and its product with a real.\<close>

type_synonym 'f cplx = "'f \<times> 'f"

definition cplx_add :: "'f cplx \<Rightarrow> 'f cplx \<Rightarrow> 'f :: plus cplx" where
  "cplx_add x y = (fst x + fst y, snd x + snd y)"

definition cplx_scale :: "'f cplx \<Rightarrow> 'f \<Rightarrow> 'f :: times cplx" where
  "cplx_scale x c = (fst x * c, snd x * c)"

text \<open>
  Inputs are \<open>[channel][timeslot][subband]\<close>, matrices \<open>[row][channel][timeslot][subband]\<close>; an
  output value accumulates the channels in order.
\<close>

definition reconstruct_basis_qmf ::
  "'f cplx list list list \<Rightarrow> 'f list list list list \<Rightarrow>
   reconstruction_error + 'f :: {zero, plus, times} cplx list list list" where
  "reconstruct_basis_qmf inputs matrices =
     (case inputs of
        [] \<Rightarrow> Inl (InvalidChannelCount 0)
      | first # _ \<Rightarrow>
          (let timeslots = length first in
           if (\<exists>channel \<in> set inputs. length channel \<noteq> timeslots)
             \<or> (\<exists>row \<in> set matrices. length row \<noteq> length inputs
                  \<or> (\<exists>channel \<in> set row. length channel \<noteq> timeslots))
           then Inl (DimensionMismatch ''object reconstruction'')
           else
             Inr (map (\<lambda>row.
                    map (\<lambda>timeslot.
                      map (\<lambda>subband.
                        fold (\<lambda>channel acc.
                               cplx_add acc (cplx_scale (inputs ! channel ! timeslot ! subband)
                                               (row ! channel ! timeslot ! subband)))
                          [0..<length inputs] (0, 0))
                      [0..<QMF_SUBBANDS])
                    [0..<timeslots])
                  matrices)))"

end
