(* ===== verification/Qmf.thy ===== *)
theory Qmf
  imports Reconstruction
begin

text \<open>
  The 64-band complex QMF filterbank, \<open>crates/openjoc-qmf/src/lib.rs\<close>.  Scalars are abstract as
  in the reconstruction stages.  The prototype window (\<open>generated::PROT64\<close> converted to
  \<open>f64\<close>) and the two tables of unit phases, which the code builds once with \<open>from_polar\<close>,
  are the fields of a \<open>qmf_env\<close>.
\<close>

section \<open>State\<close>

definition QMF_BANDS :: nat where "QMF_BANDS = 64"
definition QMF_LENGTH :: nat where "QMF_LENGTH = 640"
definition SYNTHESIS_LENGTH :: nat where "SYNTHESIS_LENGTH = 2 * QMF_LENGTH"

record 'f qmf_env =
  of_int_num :: "nat \<Rightarrow> 'f"
  prototype :: "'f list"
  analysis_phases :: "'f cplx list"
  synthesis_phases :: "'f cplx list"

record 'f qmf =
  analysis_state :: "'f list"
  synthesis_state :: "'f list"

definition new_qmf :: "'f :: zero qmf" where
  "new_qmf = \<lparr>analysis_state = replicate QMF_LENGTH 0, synthesis_state = replicate SYNTHESIS_LENGTH 0\<rparr>"

definition qmf_reset :: "'f :: zero qmf \<Rightarrow> 'f qmf" where
  "qmf_reset q = \<lparr>analysis_state = replicate (length (analysis_state q)) 0,
                  synthesis_state = replicate (length (synthesis_state q)) 0\<rparr>"

section \<open>Analysis\<close>

text \<open>\<open>copy_within(0..QMF_LENGTH - QMF_BANDS, QMF_BANDS)\<close>, then the block in reverse order.\<close>

definition shift_analysis :: "'f list \<Rightarrow> 'f list \<Rightarrow> 'f list" where
  "shift_analysis pcm st = rev pcm @ take (QMF_LENGTH - QMF_BANDS) st"

definition folded_value :: "'f list \<Rightarrow> 'f list \<Rightarrow> nat \<Rightarrow> 'f :: {zero, plus, times}" where
  "folded_value proto st index =
     fold (\<lambda>k acc. let window_index = index + k * 2 * QMF_BANDS in
                   acc + st ! window_index * proto ! window_index)
       [0..<QMF_LENGTH div (2 * QMF_BANDS)] 0"

definition analyze ::
  "'f qmf_env \<Rightarrow> 'f list \<Rightarrow> 'f qmf \<Rightarrow> 'f cplx list \<times> 'f :: {zero, plus, times} qmf" where
  "analyze env pcm q =
     (let st = shift_analysis pcm (analysis_state q);
          folded = map (folded_value (prototype env) st) [0..<2 * QMF_BANDS] in
      (map (\<lambda>subband.
         fold (\<lambda>i acc.
                let phase = analysis_phases env ! (subband * (2 * QMF_BANDS) + i) in
                cplx_add acc (folded ! i * fst phase, folded ! i * snd phase))
           [0..<2 * QMF_BANDS] (0, 0))
       [0..<QMF_BANDS],
       q\<lparr>analysis_state := st\<rparr>))"

section \<open>Synthesis\<close>

definition synthesis_sample ::
  "'f qmf_env \<Rightarrow> 'f cplx list \<Rightarrow> nat \<Rightarrow> 'f :: {zero, plus, minus, times, inverse}" where
  "synthesis_sample env subbands index =
     fold (\<lambda>subband acc.
            let value = subbands ! subband; phase = synthesis_phases env ! (index * QMF_BANDS + subband) in
            acc + (fst value * fst phase - snd value * snd phase) / of_int_num env 64)
       [0..<QMF_BANDS] 0"

definition shift_synthesis ::
  "'f qmf_env \<Rightarrow> 'f cplx list \<Rightarrow> 'f list \<Rightarrow> 'f :: {zero, plus, minus, times, inverse} list" where
  "shift_synthesis env subbands st =
     map (synthesis_sample env subbands) [0..<2 * QMF_BANDS] @ take (SYNTHESIS_LENGTH - 2 * QMF_BANDS) st"

definition synthesis_index :: "nat \<Rightarrow> nat \<Rightarrow> nat" where
  "synthesis_index k timeslot =
     (if even k then 2 * k * QMF_BANDS + timeslot
      else 2 * (k - 1) * QMF_BANDS + 3 * QMF_BANDS + timeslot)"

definition synthesize ::
  "'f qmf_env \<Rightarrow> 'f cplx list \<Rightarrow> 'f qmf \<Rightarrow> 'f list \<times> 'f :: {zero, plus, minus, times, inverse} qmf" where
  "synthesize env subbands q =
     (let st = shift_synthesis env subbands (synthesis_state q) in
      (map (\<lambda>timeslot.
         fold (\<lambda>k acc. acc + st ! synthesis_index k timeslot * prototype env ! (k * QMF_BANDS + timeslot))
           [0..<QMF_LENGTH div QMF_BANDS] 0)
       [0..<QMF_BANDS],
       q\<lparr>synthesis_state := st\<rparr>))"

text \<open>A whole row: \<open>analyze\<close> or \<open>synthesize\<close> on one block after the other.\<close>

fun analyze_blocks ::
  "'f qmf_env \<Rightarrow> 'f list list \<Rightarrow> 'f qmf \<Rightarrow> 'f cplx list list \<times> 'f :: {zero, plus, times} qmf" where
  "analyze_blocks env [] q = ([], q)"
| "analyze_blocks env (b # bs) q =
     (let (s, q') = analyze env b q; (ss, q'') = analyze_blocks env bs q' in (s # ss, q''))"

fun synthesize_slots ::
  "'f qmf_env \<Rightarrow> 'f cplx list list \<Rightarrow> 'f qmf \<Rightarrow> 'f list \<times> 'f :: {zero, plus, minus, times, inverse} qmf" where
  "synthesize_slots env [] q = ([], q)"
| "synthesize_slots env (t # ts) q =
     (let (p, q') = synthesize env t q; (ps, q'') = synthesize_slots env ts q' in (p @ ps, q''))"

section \<open>Invariant\<close>

definition qmf_ok :: "'f qmf \<Rightarrow> bool" where
  "qmf_ok q \<longleftrightarrow> length (analysis_state q) = QMF_LENGTH \<and> length (synthesis_state q) = SYNTHESIS_LENGTH"

lemmas qmf_sizes = QMF_BANDS_def QMF_LENGTH_def SYNTHESIS_LENGTH_def

lemma qmf_ok_new: "qmf_ok new_qmf"
  by (simp add: qmf_ok_def new_qmf_def)

lemma qmf_ok_reset: "qmf_ok q \<Longrightarrow> qmf_reset q = new_qmf"
  by (simp add: qmf_ok_def qmf_reset_def new_qmf_def)

lemma analyze_ok:
  "qmf_ok q \<Longrightarrow> length pcm = QMF_BANDS \<Longrightarrow>
   qmf_ok (snd (analyze env pcm q)) \<and> length (fst (analyze env pcm q)) = QMF_BANDS
   \<and> synthesis_state (snd (analyze env pcm q)) = synthesis_state q"
  by (simp add: analyze_def qmf_ok_def shift_analysis_def Let_def qmf_sizes)

lemma synthesize_ok:
  "qmf_ok q \<Longrightarrow> qmf_ok (snd (synthesize env sb q)) \<and> length (fst (synthesize env sb q)) = QMF_BANDS
   \<and> analysis_state (snd (synthesize env sb q)) = analysis_state q"
  by (simp add: synthesize_def qmf_ok_def shift_synthesis_def Let_def qmf_sizes)

lemma length_synthesize_slots: "length (fst (synthesize_slots env ts q)) = QMF_BANDS * length ts"
  by (induction ts arbitrary: q) (simp_all add: synthesize_def Let_def split_beta)

text \<open>Every index of the two loops is inside the state and the window: the code cannot panic.\<close>

lemma analysis_index_bound:
  "i < 2 * QMF_BANDS \<Longrightarrow> k < QMF_LENGTH div (2 * QMF_BANDS) \<Longrightarrow> i + k * 2 * QMF_BANDS < QMF_LENGTH"
  by (simp add: qmf_sizes)

lemma synthesis_index_bound:
  "t < QMF_BANDS \<Longrightarrow> k < QMF_LENGTH div QMF_BANDS \<Longrightarrow>
   synthesis_index k t < SYNTHESIS_LENGTH \<and> k * QMF_BANDS + t < QMF_LENGTH"
  by (auto simp: synthesis_index_def qmf_sizes elim!: oddE)

section \<open>Finite memory\<close>

text \<open>The analysis history after some blocks: their samples in reverse, then what is left of it.\<close>

lemma analyze_blocks_state:
  assumes "\<forall>b \<in> set bs. length b = QMF_BANDS" and "qmf_ok q"
  shows "analysis_state (snd (analyze_blocks env bs q)) = take QMF_LENGTH (rev (concat bs) @ analysis_state q)"
  using assms
proof (induction env bs q rule: analyze_blocks.induct)
  case (2 env b bs q)
  obtain s q' where one: "analyze env b q = (s, q')" by (cases "analyze env b q")
  have q': "qmf_ok q'" "analysis_state q' = rev b @ take (QMF_LENGTH - QMF_BANDS) (analysis_state q)"
    using "2.prems" analyze_ok [of q b env] one by (auto simp: analyze_def shift_analysis_def Let_def)
  have "analysis_state (snd (analyze_blocks env (b # bs) q)) = take QMF_LENGTH (rev (concat bs) @ analysis_state q')"
    using 2 one q'(1) by (auto split: prod.splits)
  also have "\<dots> = take QMF_LENGTH (rev (concat (b # bs)) @ analysis_state q)"
    using "2.prems" by (simp add: q'(2) qmf_sizes take_append min_def)
  finally show ?case .
qed (simp add: qmf_ok_def)

lemma analyze_forgets:
  assumes "\<forall>b \<in> set bs. length b = QMF_BANDS" and "10 \<le> length bs" and "qmf_ok q" and "qmf_ok q'"
  shows "analysis_state (snd (analyze_blocks env bs q)) = analysis_state (snd (analyze_blocks env bs q'))"
proof -
  have "length (concat bs) = QMF_BANDS * length bs" using assms(1) by (induction bs) auto
  then have "QMF_LENGTH \<le> length (rev (concat bs))" using assms(2) by (simp add: qmf_sizes)
  then show ?thesis using assms by (simp add: analyze_blocks_state)
qed

end
