(* ===== verification/JocDecoder.thy ===== *)
theory JocDecoder
  imports Qmf
begin

text \<open>
  The stateful JOC decoder, \<open>crates/openjoc-joc/src/decoder.rs\<close>: a frame is decoded against the
  QMF values of its input channels, with the coefficients of the last frame, the synthesis and
  the analysis filterbanks carried from frame to frame.  The stage timers are left out: they are
  off by default and only observed.
\<close>

section \<open>Data\<close>

record 'f row_stages =
  quantized :: "nat list list list"
  dequantized :: "'f list list list"
  interpolated :: "'f list list list"

record 'f decoded_joc_frame =
  reconstruction_qmf :: "'f cplx list list list"
  reconstruction_basis :: "'f list list"
  stages :: "'f row_stages option list"
  state_reset :: bool

datatype joc_decode_error =
  JocParse joc_parse_error
| JocReconstruction reconstruction_error
| HeaderObjectCount nat nat
| InputChannelCount nat nat
| InputTimeslotMismatch
| InputSampleCountNotQmfAligned nat
| MissingObjectField nat string
| PayloadModeMismatch nat

record 'f joc_state =
  previous_sequence :: "nat option"
  state_channel_count :: "nat option"
  previous_matrices :: "'f list list list"
  synthesis_states :: "'f qmf list"
  analysis_states :: "'f qmf list"
  reconstruction_tail_flushed :: bool

definition new_joc_state :: "'f joc_state" where
  "new_joc_state = \<lparr>previous_sequence = None, state_channel_count = None, previous_matrices = [],
     synthesis_states = [], analysis_states = [], reconstruction_tail_flushed = False\<rparr>"

definition joc_reset :: "'f joc_state \<Rightarrow> 'f joc_state" where
  "joc_reset st = new_joc_state"

definition requires_state_reset :: "joc_frame \<Rightarrow> 'f joc_state \<Rightarrow> bool" where
  "requires_state_reset frame st =
     (let sequence_reset =
            (case previous_sequence st of
               None \<Rightarrow> False
             | Some previous \<Rightarrow>
                 let expected = (if previous = 1023 then 1 else previous + 1) in
                 sequence_count frame = 0 \<or> sequence_count frame \<noteq> expected);
          configuration_reset =
            previous_sequence st \<noteq> None
            \<and> (state_channel_count st \<noteq> Some (channel_count (header frame))
               \<or> length (previous_matrices st) \<noteq> length (objects frame)) in
      sequence_reset \<or> configuration_reset)"

section \<open>One object\<close>

text \<open>
  \<open>transpose_interpolated\<close> pushes the channels of one timeslot after the other.  A timeslot has
  no more values than there are channels; the source would panic on more.
\<close>

fun push_each :: "'a list list \<Rightarrow> 'a list \<Rightarrow> 'a list list" where
  "push_each (c # cs) (v # vs) = (c @ [v]) # push_each cs vs"
| "push_each cs [] = cs"
| "push_each [] (v # vs) = []"

definition transpose_interpolated :: "'a list list \<Rightarrow> nat \<Rightarrow> 'a list list" where
  "transpose_interpolated slots channels = fold (\<lambda>slot cols. push_each cols slot) slots (replicate channels [])"

definition required :: "'a option \<Rightarrow> nat \<Rightarrow> string \<Rightarrow> joc_decode_error + 'a" where
  "required v obj field = (case v of Some a \<Rightarrow> Inr a | None \<Rightarrow> Inl (MissingObjectField obj field))"

definition decode_point :: "nat \<Rightarrow> quant_mode \<Rightarrow> bool \<Rightarrow> nat \<Rightarrow> joc_data_point \<Rightarrow> joc_decode_error + nat list list" where
  "decode_point channels mode sp obj p =
     (case payload p of
        Sparse initial deltas vec \<Rightarrow>
          if sp then lift_err JocReconstruction
                       (decode_sparse_coefficients channels mode initial (map symbol deltas) (map symbol vec))
          else Inl (PayloadModeMismatch obj)
      | Full matrix \<Rightarrow>
          if \<not> sp then lift_err JocReconstruction (decode_full_coefficients mode (map (map symbol) matrix))
          else Inl (PayloadModeMismatch obj))"

text \<open>
  One turn of the loop over the objects, for the object at index \<open>obj\<close> with its previous
  coefficients: the matrix for the product, the retained stages and the coefficients to carry.
\<close>

definition decode_object ::
  "'f qmf_env \<Rightarrow> nat \<Rightarrow> nat \<Rightarrow> nat \<times> joc_object_frame \<times> 'f list list \<Rightarrow>
   joc_decode_error + ('f list list list \<times> 'f row_stages option \<times> 'f :: {plus, minus, times, inverse} list list)" where
  "decode_object env channels timeslots arg =
     (case arg of (obj, ob, previous) \<Rightarrow>
      if \<not> present ob
      then Inr (transpose_interpolated (map (\<lambda>_. previous) [0..<timeslots]) channels, None, previous)
      else
        attempt (required (obj_quant_mode ob) obj ''quantization mode'') (\<lambda>mode.
        attempt (required (band_count ob) obj ''band count'') (\<lambda>bands.
        attempt (lift_err JocReconstruction (band_count_try_from bands)) (\<lambda>bc.
        attempt (required (obj_slope ob) obj ''slope'') (\<lambda>sl.
        attempt (required (sparse ob) obj ''sparse flag'') (\<lambda>sp.
        attempt (attempt_map (decode_point channels mode sp obj) (data_points ob)) (\<lambda>quant.
        attempt (lift_err JocReconstruction
              (attempt_map (attempt_map (attempt_map (\<lambda>v. dequantize (of_int_num env) v mode))) quant)) (\<lambda>dequant.
        attempt (lift_err JocReconstruction
              (interpolate_matrix (of_int_num env) dequant previous sl
                 (map offset_timeslot (data_points ob)) bc timeslots)) (\<lambda>im.
        Inr (transpose_interpolated (im_matrix im) channels,
             Some \<lparr>quantized = quant, dequantized = dequant, interpolated = im_matrix im\<rparr>,
             next_previous im))))))))))"

section \<open>One frame\<close>

definition zero_matrices :: "nat \<Rightarrow> nat \<Rightarrow> 'f :: zero list list list" where
  "zero_matrices objs channels = replicate objs (replicate channels (replicate QMF_SUBBANDS 0))"

definition decode_frame ::
  "'f qmf_env \<Rightarrow> joc_frame \<Rightarrow> 'f cplx list list list \<Rightarrow>
   ('f :: {zero, plus, minus, times, inverse} joc_state, joc_decode_error, 'f decoded_joc_frame) rd" where
  "decode_frame env frame inputs st =
     (let objs = objects frame;
          expected_channels = channel_count (header frame);
          timeslots = (case inputs of [] \<Rightarrow> 0 | channel # _ \<Rightarrow> length channel) in
      if object_count (header frame) \<noteq> length objs
      then (Inl (HeaderObjectCount (object_count (header frame)) (length objs)), st)
      else if length inputs \<noteq> expected_channels
      then (Inl (InputChannelCount expected_channels (length inputs)), st)
      else if \<exists>channel \<in> set inputs. length channel \<noteq> timeslots then (Inl InputTimeslotMismatch, st)
      else
        let reset = requires_state_reset frame st;
            previous =
              (if reset \<or> length (previous_matrices st) \<noteq> length objs
                  \<or> (\<exists>ob \<in> set (previous_matrices st). length ob \<noteq> expected_channels)
               then zero_matrices (length objs) expected_channels
               else previous_matrices st) in
        case attempt_map (decode_object env expected_channels timeslots)
               (zip [0..<length objs] (zip objs previous)) of
          Inl e \<Rightarrow> (Inl e, st)
        | Inr results \<Rightarrow>
          (case reconstruct_basis_qmf inputs (map fst results) of
             Inl e \<Rightarrow> (Inl (JocReconstruction e), st)
           | Inr qmf_rows \<Rightarrow>
               let synth = (if reset \<or> length (synthesis_states st) \<noteq> length objs
                            then replicate (length objs) new_qmf else synthesis_states st);
                   rows = map2 (synthesize_slots env) qmf_rows synth in
               (Inr \<lparr>reconstruction_qmf = qmf_rows, reconstruction_basis = map fst rows,
                     stages = map (fst \<circ> snd) results, state_reset = reset\<rparr>,
                st\<lparr>previous_sequence := Some (sequence_count frame),
                   state_channel_count := Some (channel_count (header frame)),
                   previous_matrices := map (snd \<circ> snd) results,
                   synthesis_states := map snd rows\<rparr>)))"

definition decode_payload ::
  "'f qmf_env \<Rightarrow> u8 list \<Rightarrow> 'f cplx list list list \<Rightarrow>
   ('f :: {zero, plus, minus, times, inverse} joc_state, joc_decode_error, joc_frame \<times> 'f decoded_joc_frame) rd" where
  "decode_payload env raw inputs st =
     (case parse_joc_payload raw of
        Inl e \<Rightarrow> (Inl (JocParse e), st)
      | Inr frame \<Rightarrow> bind_rd (decode_frame env frame inputs) (\<lambda>decoded. ret (frame, decoded)) st)"

text \<open>\<open>chunks_exact(QMF_SUBBANDS)\<close>.\<close>

function chunks_exact :: "'a list \<Rightarrow> 'a list list" where
  "chunks_exact xs = (if length xs < QMF_SUBBANDS then [] else take QMF_SUBBANDS xs # chunks_exact (drop QMF_SUBBANDS xs))"
  by pat_completeness auto
termination by (relation "measure length") (auto simp: QMF_SUBBANDS_def)

declare chunks_exact.simps [simp del]

definition decode_pcm_frame ::
  "'f qmf_env \<Rightarrow> joc_frame \<Rightarrow> 'f list list \<Rightarrow>
   ('f :: {zero, plus, minus, times, inverse} joc_state, joc_decode_error, 'f decoded_joc_frame) rd" where
  "decode_pcm_frame env frame pcm st =
     (let expected_channels = channel_count (header frame);
          samples = (case pcm of [] \<Rightarrow> 0 | channel # _ \<Rightarrow> length channel) in
      if length pcm \<noteq> expected_channels then (Inl (InputChannelCount expected_channels (length pcm)), st)
      else if \<exists>channel \<in> set pcm. length channel \<noteq> samples then (Inl InputTimeslotMismatch, st)
      else if samples mod QMF_SUBBANDS \<noteq> 0 then (Inl (InputSampleCountNotQmfAligned samples), st)
      else
        let reset = requires_state_reset frame st \<or> length (analysis_states st) \<noteq> expected_channels;
            analysis = (if reset then replicate expected_channels new_qmf else analysis_states st);
            analyzed = map2 (\<lambda>channel. analyze_blocks env (chunks_exact channel)) pcm analysis in
        bind_rd (decode_frame env frame (map fst analyzed)) (\<lambda>decoded st'.
          (Inr decoded, st'\<lparr>analysis_states := map snd analyzed\<rparr>)) st)"

section \<open>The tail\<close>

text \<open>One zero block: the subbands of the inputs, then the samples of each row.\<close>

definition tail_inputs ::
  "'f qmf_env \<Rightarrow> 'f joc_state \<Rightarrow> 'f cplx list list \<times> 'f :: {zero, plus, minus, times, inverse} qmf list" where
  "tail_inputs env st =
     (let channels = (case state_channel_count st of None \<Rightarrow> 0 | Some n \<Rightarrow> n) in
      if length (analysis_states st) = channels
      then (let runs = map (analyze env (replicate QMF_SUBBANDS 0)) (analysis_states st) in
            (map fst runs, map snd runs))
      else (replicate channels (replicate QMF_SUBBANDS (0, 0)), analysis_states st))"

definition tail_subbands ::
  "'f list list option \<Rightarrow> 'f cplx list list \<Rightarrow> 'f :: {zero, plus, times} cplx list" where
  "tail_subbands object inputs =
     (case object of
        None \<Rightarrow> replicate QMF_SUBBANDS (0, 0)
      | Some coefficients \<Rightarrow>
          map (\<lambda>subband.
            fold (\<lambda>(input, channel) acc. cplx_add acc (cplx_scale (input ! subband) (channel ! subband)))
              (zip inputs coefficients) (0, 0))
          [0..<QMF_SUBBANDS])"

definition tail_block ::
  "'f qmf_env \<Rightarrow> 'f list list \<times> 'f joc_state \<Rightarrow> 'f list list \<times> 'f :: {zero, plus, minus, times, inverse} joc_state" where
  "tail_block env run =
     (case run of (rows, st) \<Rightarrow>
      let (inputs, analysis) = tail_inputs env st;
          outs = map (\<lambda>(i, q). synthesize env
                   (tail_subbands (if i < length (previous_matrices st) then Some (previous_matrices st ! i) else None)
                      inputs) q)
                 (zip [0..<length (synthesis_states st)] (synthesis_states st)) in
      (map2 (\<lambda>row out. row @ fst out) rows outs,
       st\<lparr>analysis_states := analysis, synthesis_states := map snd outs\<rparr>))"

definition ROUNDTRIP_LATENCY :: nat where "ROUNDTRIP_LATENCY = 577"

definition flush_reconstruction ::
  "'f qmf_env \<Rightarrow> 'f joc_state \<Rightarrow> 'f list list \<times> 'f :: {zero, plus, minus, times, inverse} joc_state" where
  "flush_reconstruction env st =
     (if reconstruction_tail_flushed st then ([], st)
      else
        let blocks = (ROUNDTRIP_LATENCY + QMF_SUBBANDS - 1) div QMF_SUBBANDS;
            (rows, st') = (tail_block env ^^ blocks) (map (\<lambda>_. []) (synthesis_states st), st) in
        (map (take ROUNDTRIP_LATENCY) rows, st'\<lparr>reconstruction_tail_flushed := True\<rparr>))"

end
