(* ===== verification/JocCodec.thy ===== *)
theory JocCodec
  imports JocParser
begin

text \<open>
  What a JOC frame is, and its encoding.  \<open>joc_frame_ok\<close> is the well-formedness of a frame;
  the parser returns well-formed frames only, and every well-formed frame is returned for its
  encoding \<open>joc_encode\<close>: the parser and the encoder are inverse to each other.
\<close>

section \<open>Well-formed frames\<close>

definition code_ok :: "huffman_nodes \<Rightarrow> huffman_codeword \<Rightarrow> bool" where
  "code_ok nodes c \<longleftrightarrow> walk nodes 0 (cw_bits c) = Some (symbol c)"

definition header_ok :: "joc_header \<Rightarrow> bool" where
  "header_ok h \<longleftrightarrow> downmix_channels (downmix_index h) = Some (channel_count h)
     \<and> object_count h = object_count_bits h + 1 \<and> object_count h \<le> 16 \<and> extension_index h = 0"

fun payload_ok :: "nat \<Rightarrow> nat \<Rightarrow> bool \<Rightarrow> quant_mode \<Rightarrow> joc_payload_data \<Rightarrow> bool" where
  "payload_ok channels bands s m (Sparse ic deltas vector) \<longleftrightarrow> s \<and> ic < channels
     \<and> length deltas = bands - 1 \<and> list_all (code_ok (index_table channels)) deltas
     \<and> length vector = bands \<and> list_all (code_ok (vector_table m)) vector"
| "payload_ok channels bands s m (Full matrix) \<longleftrightarrow> \<not> s \<and> length matrix = channels
     \<and> list_all (\<lambda>row. length row = bands \<and> list_all (code_ok (matrix_table m)) row) matrix"

fun offset_ok :: "slope \<Rightarrow> nat option \<Rightarrow> bool" where
  "offset_ok sl (Some n) \<longleftrightarrow> sl = Steep \<and> 1 \<le> n \<and> n \<le> 32"
| "offset_ok sl None \<longleftrightarrow> sl = Smooth"

text \<open>The parameters of an object, without its data.\<close>

definition info_ok :: "object_info option \<Rightarrow> bool" where
  "info_ok info \<longleftrightarrow> (case info of None \<Rightarrow> True | Some i \<Rightarrow>
     info_band_index i < 8 \<and> info_band_count i = BAND_COUNTS ! info_band_index i
   \<and> length (info_offsets i) \<in> {1, 2} \<and> list_all (offset_ok (info_slope i)) (info_offsets i))"

definition absent_object :: joc_object_frame where
  "absent_object = \<lparr>present = False, band_index = None, band_count = None, sparse = None,
     obj_quant_mode = None, obj_slope = None, data_points = []\<rparr>"

text \<open>A frame object as it follows from its parameters and data points.\<close>

definition object_of :: "object_info \<Rightarrow> joc_data_point list \<Rightarrow> joc_object_frame" where
  "object_of i points = \<lparr>present = True, band_index = Some (info_band_index i),
     band_count = Some (info_band_count i), sparse = Some (info_sparse i),
     obj_quant_mode = Some (info_quant_mode i), obj_slope = Some (info_slope i), data_points = points\<rparr>"

definition info_of :: "joc_object_frame \<Rightarrow> object_info option" where
  "info_of ob = (if present ob then
     Some \<lparr>info_band_index = the (band_index ob), info_band_count = the (band_count ob),
           info_sparse = the (sparse ob), info_quant_mode = the (obj_quant_mode ob),
           info_slope = the (obj_slope ob), info_offsets = map offset_timeslot (data_points ob)\<rparr>
   else None)"

definition object_ok :: "nat \<Rightarrow> joc_object_frame \<Rightarrow> bool" where
  "object_ok channels ob \<longleftrightarrow> info_ok (info_of ob) \<and>
     (case info_of ob of
        None \<Rightarrow> ob = absent_object
      | Some i \<Rightarrow> ob = object_of i (data_points ob)
          \<and> list_all (\<lambda>p. payload_ok channels (info_band_count i) (info_sparse i) (info_quant_mode i) (payload p))
              (data_points ob))"

definition joc_frame_ok :: "joc_frame \<Rightarrow> bool" where
  "joc_frame_ok f \<longleftrightarrow> header_ok (header f) \<and> clip_gain_x_bits f < 8 \<and> clip_gain_y_bits f < 32
     \<and> sequence_count f < 1024 \<and> length (objects f) = object_count (header f)
     \<and> list_all (object_ok (channel_count (header f))) (objects f)"

section \<open>Encoding\<close>

definition header_bits :: "joc_header \<Rightarrow> bool list" where
  "header_bits h = bits_of 3 (downmix_index h) @ bits_of 6 (object_count_bits h) @ bits_of 3 (extension_index h)"

definition offset_bits :: "nat option \<Rightarrow> bool list" where
  "offset_bits off = (case off of None \<Rightarrow> [] | Some n \<Rightarrow> bits_of 5 (n - 1))"

definition info_bits :: "object_info option \<Rightarrow> bool list" where
  "info_bits info = (case info of None \<Rightarrow> [False] | Some i \<Rightarrow>
     [True] @ bits_of 3 (info_band_index i) @ [info_sparse i] @ [info_quant_mode i = Fine192]
     @ [info_slope i = Steep] @ bits_of 1 (length (info_offsets i) - 1)
     @ concat (map offset_bits (info_offsets i)))"

fun payload_bits :: "joc_payload_data \<Rightarrow> bool list" where
  "payload_bits (Sparse ic deltas vector) =
     bits_of 3 ic @ concat (map cw_bits deltas) @ concat (map cw_bits vector)"
| "payload_bits (Full matrix) = concat (map (\<lambda>row. concat (map cw_bits row)) matrix)"

definition object_bits :: "joc_object_frame \<Rightarrow> bool list" where
  "object_bits ob = concat (map (\<lambda>p. payload_bits (payload p)) (data_points ob))"

definition joc_frame_bits :: "joc_frame \<Rightarrow> bool list" where
  "joc_frame_bits f = header_bits (header f) @ bits_of 3 (clip_gain_x_bits f) @ bits_of 5 (clip_gain_y_bits f)
     @ bits_of 10 (sequence_count f) @ concat (map (\<lambda>ob. info_bits (info_of ob)) (objects f))
     @ concat (map object_bits (objects f))"

definition joc_encode :: "joc_frame \<Rightarrow> u8 list" where
  "joc_encode f = pack_bits (joc_frame_bits f)"

section \<open>Tables\<close>

lemma index_table_complete: "channels \<in> {5, 7} \<Longrightarrow> complete_table channels (index_table channels)"
  by (auto simp: index_table_def all_huffman_tables_def complete_tables)

lemma vector_table_complete: "complete_table (steps m) (vector_table m)"
  by (cases m) (simp_all add: vector_table_def all_huffman_tables_def steps_def complete_tables)

lemma matrix_table_complete: "complete_table (steps m) (matrix_table m)"
  by (cases m) (simp_all add: matrix_table_def all_huffman_tables_def steps_def complete_tables)

lemma code_ok_symbol: "complete_table n nodes \<Longrightarrow> code_ok nodes c \<Longrightarrow> symbol c < n"
  using complete_codewords(1) by (auto simp: code_ok_def)

lemma reads_joc_code:
  assumes "complete_table n nodes" and "code_ok nodes c"
  shows "reads (joc_code nodes) (cw_bits c) c"
proof (cases c)
  case (fields bs s)
  then have "reads (decode_huffman_codeword nodes None) (cw_bits c) c"
    using reads_decode_huffman [of nodes bs s] complete_forward [OF assms(1)] assms(2)
    by (simp add: code_ok_def)
  then show ?thesis unfolding joc_code_def by (rule reads_map_err)
qed

lemma spells_joc_code: "spells (joc_code nodes) (\<lambda>bs c. bs = cw_bits c \<and> code_ok nodes c)"
  unfolding joc_code_def
proof (rule spells_map_err, unfold decode_huffman_codeword_def, rule spells_if)
  show "spells (fail (InvalidNode 0 0)) (\<lambda>bs c. bs = cw_bits c \<and> code_ok nodes c)"
    by (rule spells_fail)
next
  show "spells (huffman_loop nodes (case None of Some n \<Rightarrow> n | None \<Rightarrow> usize_max) 0 0 [])
      (\<lambda>bs c. bs = cw_bits c \<and> code_ok nodes c)"
    unfolding spells_def
  proof (intro allI impI)
    fix r c r'
    assume r: "reader_ok r"
      and run: "huffman_loop nodes (case None of Some n \<Rightarrow> n | None \<Rightarrow> usize_max) 0 0 [] r = (Inr c, r')"
    obtain bs where bs: "walk nodes 0 bs = Some (symbol c)" "cw_bits c = bs"
      "bs = take (length bs) (unread r)" "r' = skip (length bs) r" "length bs \<le> length (unread r)"
      using huffman_loop_Inr [OF run r] by auto
    have "unread r = bs @ drop (length bs) (unread r)" using bs(3) by (metis append_take_drop_id)
    with bs r show "reader_ok r' \<and> (\<exists>bs. unread r = bs @ unread r' \<and> bs = cw_bits c \<and> code_ok nodes c)"
      by (simp add: reader_ok_skip unread_skip code_ok_def)
  qed
qed

lemma downmix_channels_57: "downmix_channels d = Some c \<Longrightarrow> c \<in> {5, 7} \<and> d < 5"
  by (auto simp: downmix_channels_def split: if_splits)

section \<open>Every accepted payload is an encoding\<close>

lemma spells_joc_bit: "spells joc_bit (\<lambda>bs b. bs = [b])"
  unfolding joc_bit_def by (intro spells_map_err spells_read_bit)

lemma spells_u8: "n \<le> 64 \<Longrightarrow> spells (read_u8 n) (\<lambda>bs v. bs = bits_of n v \<and> v < 2 ^ n)"
  unfolding read_u8_def by (rule spells_read_uint)

lemma spells_u16: "n \<le> 64 \<Longrightarrow> spells (read_u16 n) (\<lambda>bs v. bs = bits_of n v \<and> v < 2 ^ n)"
  unfolding read_u16_def by (rule spells_read_uint)

lemma spells_header: "spells parse_joc_header (\<lambda>bs h. bs = header_bits h \<and> header_ok h)"
  unfolding parse_joc_header_def Let_def
  apply (rule spells_bind [OF spells_u8], simp)
  apply (rule spells_bind [OF spells_some_or])
  apply (rule spells_bind [OF spells_u8], simp)
  apply (rule spells_bind [OF spells_guard])
  apply (rule spells_bind [OF spells_u8], simp)
  apply (rule spells_bind [OF spells_guard])
  apply (rule spells_ret)
  apply (simp add: header_bits_def header_ok_def)
  done

lemma spells_offset: "spells (parse_offset sl) (\<lambda>bs off. bs = offset_bits off \<and> offset_ok sl off)"
  unfolding parse_offset_def
  apply (rule spells_if)
   apply (rule spells_bind [OF spells_u8], simp)
   apply (rule spells_ret, simp add: offset_bits_def)
  apply (rule spells_ret, cases sl, simp_all add: offset_bits_def)
  done

lemma spells_info: "spells parse_object_info (\<lambda>bs i. bs = info_bits i \<and> info_ok i)"
  unfolding parse_object_info_def Let_def
  apply (rule spells_bind [OF spells_joc_bit])
  apply (rule spells_if)
   apply (rule spells_ret, simp add: info_ok_def info_bits_def)
  apply (rule spells_bind [OF spells_u8], simp)
  apply (rule spells_bind [OF spells_joc_bit])+
  apply (rule spells_bind [OF spells_u8], simp)
  apply (rule spells_bind [OF spells_repeat [OF spells_offset]])
  apply (rule spells_ret)
  apply (auto simp: info_ok_def info_bits_def list_all_iff)
  done

lemma spells_codes:
  "spells (repeat_rd n (joc_code nodes))
     (\<lambda>bs cs. bs = concat (map cw_bits cs) \<and> (length cs = n \<and> list_all (code_ok nodes) cs))"
  using spells_repeat [OF spells_joc_code, of n nodes] by (simp add: list_all_iff)

lemma spells_payload:
  "spells (parse_point_payload channels i)
     (\<lambda>bs p. bs = payload_bits p \<and> payload_ok channels (info_band_count i) (info_sparse i) (info_quant_mode i) p)"
  unfolding parse_point_payload_def
  apply (rule spells_if)
   apply (rule spells_bind [OF spells_u8], simp)
   apply (rule spells_bind [OF spells_guard])
   apply (rule spells_bind [OF spells_codes])
   apply (rule spells_bind [OF spells_codes])
   apply (rule spells_ret, simp)
  apply (rule spells_bind [OF spells_repeat [OF spells_codes]])
  apply (rule spells_ret, simp add: list_all_iff)
  done

lemma spells_points:
  "spells (each_rd (parse_data_point channels i) offs)
     (\<lambda>bs ps. bs = concat (map (\<lambda>p. payload_bits (payload p)) ps)
        \<and> list_all2 (\<lambda>off p. offset_timeslot p = off
             \<and> payload_ok channels (info_band_count i) (info_sparse i) (info_quant_mode i) (payload p)) offs ps)"
  by (rule spells_each, unfold parse_data_point_def, rule spells_bind [OF spells_payload], rule spells_ret) simp

lemma object_of_ok:
  assumes "info_ok (Some i)" and points: "list_all2 (\<lambda>off p. offset_timeslot p = off
      \<and> payload_ok channels (info_band_count i) (info_sparse i) (info_quant_mode i) (payload p)) (info_offsets i) ps"
  shows "object_ok channels (object_of i ps)" and "info_of (object_of i ps) = Some i"
proof -
  have offs: "map offset_timeslot ps = info_offsets i"
    using points by (auto simp: list_all2_conv_all_nth intro: nth_equalityI)
  have pays: "list_all (\<lambda>p. payload_ok channels (info_band_count i) (info_sparse i) (info_quant_mode i) (payload p)) ps"
    using points by (auto simp: list_all2_conv_all_nth list_all_length)
  show info: "info_of (object_of i ps) = Some i"
    using offs by (simp add: info_of_def object_of_def)
  then show "object_ok channels (object_of i ps)"
    using assms(1) pays by (simp add: object_ok_def object_of_def)
qed

lemma spells_object:
  assumes "info_ok info"
  shows "spells (parse_object channels info) (\<lambda>bs ob. bs = object_bits ob \<and> (object_ok channels ob \<and> info_of ob = info))"
proof (cases info)
  case None
  then show ?thesis
    by (auto simp: parse_object_def object_ok_def info_of_def info_ok_def absent_object_def object_bits_def
        intro!: spells_ret)
next
  case (Some i)
  have ok: "info_ok (Some i)" using assms Some by simp
  show ?thesis
    unfolding Some parse_object_def option.case object_of_def [symmetric]
    apply (rule spells_bind [OF spells_points])
    apply (rule spells_ret)
    apply (use object_of_ok [OF ok] in \<open>auto simp: object_bits_def object_of_def\<close>)
    done
qed

lemma check_padding_iff:
  assumes "reader_ok r"
  shows "(\<exists>r'. check_joc_padding r = (Inr (), r')) \<longleftrightarrow> (\<exists>k < 8. unread r = replicate k False)"
proof -
  let ?p = "bind_rd joc_bit (\<lambda>b. guard_rd (\<not> b) NonZeroPadding)" and ?n = "length (unread r)"
  have run: "check_joc_padding r = (if 7 < ?n then (Inl (TrailingData ?n), r)
      else bind_rd (repeat_rd ?n ?p) (\<lambda>_. ret ()) r)"
    using assms by (simp add: check_joc_padding_def bits_remaining_ok Let_def)
  have one: "spells ?p (\<lambda>bs a. bs = [False] \<and> True)"
    apply (rule spells_bind [OF spells_joc_bit])
    apply (rule spells_weaken [OF spells_guard])
    apply simp
    done
  have zero: "reads (repeat_rd k ?p) (concat (map (\<lambda>_. [False]) (replicate k ()))) (replicate k ())" for k
  proof (rule reads_repeat)
    show "reads ?p [False] x" for x
      using reads_bind [OF reads_map_err [OF reads_read_bit [of False]], of "\<lambda>b. guard_rd (\<not> b) NonZeroPadding" "[]" "()" JocBit]
      by (simp add: joc_bit_def reads_ret)
  qed simp
  have rep: "concat (map (\<lambda>_. [False]) (xs :: unit list)) = replicate (length xs) False" for xs
    by (induction xs) simp_all
  show ?thesis
  proof
    assume "\<exists>r'. check_joc_padding r = (Inr (), r')"
    then obtain r' us where n: "?n \<le> 7" and rr: "repeat_rd ?n ?p r = (Inr us, r')"
      unfolding run by (auto simp: ret_Inr elim!: bind_rd_InrE split: if_splits)
    obtain bs where bs: "unread r = bs @ unread r'" "bs = concat (map (\<lambda>_. [False]) us)" "length us = ?n"
      by (rule spellsD [OF spells_repeat [OF one] assms rr]) blast
    then have "bs = replicate ?n False" unfolding rep by simp
    moreover have "unread r' = []" using arg_cong [OF bs(1), of length] calculation by simp
    ultimately have "unread r = replicate ?n False" using bs(1) by simp
    with n show "\<exists>k < 8. unread r = replicate k False" by (intro exI [of _ ?n]) simp
  next
    assume "\<exists>k < 8. unread r = replicate k False"
    then have n: "?n < 8" "unread r = concat (map (\<lambda>_. [False]) (replicate ?n ())) @ []"
      unfolding rep by auto
    show "\<exists>r'. check_joc_padding r = (Inr (), r')"
      using n(1) readsD [OF zero assms n(2)] unfolding run by (simp add: rd_simps)
  qed
qed

definition joc_frame_body :: "joc_frame joc_parser" where
  "joc_frame_body =
     bind_rd parse_joc_header (\<lambda>header.
     bind_rd (read_u8 3) (\<lambda>clip_gain_x_bits.
     bind_rd (read_u8 5) (\<lambda>clip_gain_y_bits.
     bind_rd (read_u16 10) (\<lambda>sequence_count.
     bind_rd (repeat_rd (object_count header) parse_object_info) (\<lambda>infos.
     bind_rd (each_rd (parse_object (channel_count header)) infos) (\<lambda>objects.
     ret \<lparr>header = header, clip_gain_x_bits = clip_gain_x_bits, clip_gain_y_bits = clip_gain_y_bits,
          sequence_count = sequence_count, objects = objects\<rparr>))))))"

lemma parse_joc_frame_body:
  "parse_joc_frame = bind_rd joc_frame_body (\<lambda>f. bind_rd check_joc_padding (\<lambda>_. ret f))"
  by (simp add: parse_joc_frame_def joc_frame_body_def bind_assoc)

lemma spells_frame: "spells joc_frame_body (\<lambda>bs f. bs = joc_frame_bits f \<and> joc_frame_ok f)"
proof -
  have objs: "(\<forall>i \<in> set is. info_ok i) \<Longrightarrow> spells (each_rd (parse_object channels) is)
      (\<lambda>bs obs. bs = concat (map object_bits obs) \<and> list_all2 (\<lambda>i ob. object_ok channels ob \<and> info_of ob = i) is obs)"
    for channels "is"
    by (rule spells_each) (rule spells_object, blast)
  have infos: "list_all2 (\<lambda>i ob. object_ok channels ob \<and> info_of ob = i) is obs \<Longrightarrow>
      is = map info_of obs \<and> list_all (object_ok channels) obs" for channels "is" obs
    by (auto simp: list_all2_conv_all_nth list_all_length intro: nth_equalityI)
  show ?thesis
    unfolding joc_frame_body_def
    apply (rule spells_bind [OF spells_header])
    apply (rule spells_bind [OF spells_u8], simp)
    apply (rule spells_bind [OF spells_u8], simp)
    apply (rule spells_bind [OF spells_u16], simp)
    apply (rule spells_bind [OF spells_repeat [OF spells_info]])
    apply (rule spells_bind [OF objs], blast)
    apply (rule spells_ret)
    apply (auto dest!: infos simp: joc_frame_ok_def joc_frame_bits_def comp_def)
    done
qed


section \<open>Every encoding is accepted\<close>

lemma reads_u8: "n \<le> 8 \<Longrightarrow> v < 2 ^ n \<Longrightarrow> reads (read_u8 n) (bits_of n v) v"
  unfolding read_u8_def using power_increasing [of n 8 "2 :: nat"] by (intro reads_uint_field) simp_all

lemma reads_u16: "n \<le> 16 \<Longrightarrow> v < 2 ^ n \<Longrightarrow> reads (read_u16 n) (bits_of n v) v"
  unfolding read_u16_def using power_increasing [of n 16 "2 :: nat"] by (intro reads_uint_field) simp_all

lemma reads_joc_bit: "reads joc_bit [b] b"
  unfolding joc_bit_def by (intro reads_map_err reads_read_bit)

lemma reads_guard_bind: "c \<Longrightarrow> reads (k ()) bs a \<Longrightarrow> reads (bind_rd (guard_rd c e) k) bs a"
  by simp

lemma reads_bind_nil: "reads m bs a \<Longrightarrow> reads (k a) [] b \<Longrightarrow> reads (bind_rd m k) bs b"
  using reads_bind [of m bs a k "[]" b] by simp

lemma reads_ret_eq: "a = b \<Longrightarrow> reads (ret a) [] b"
  by (simp add: reads_ret)

lemma reads_header:
  assumes "header_ok h"
  shows "reads parse_joc_header (header_bits h) h"
proof -
  have h: "downmix_channels (downmix_index h) = Some (channel_count h)" "downmix_index h < 8"
    "object_count h = object_count_bits h + 1" "object_count_bits h < 64" "object_count h \<le> 16" "extension_index h = 0"
    using assms downmix_channels_57 [of "downmix_index h"] by (auto simp: header_ok_def)
  show ?thesis
    unfolding parse_joc_header_def header_bits_def Let_def
    apply (rule reads_bind [OF reads_u8], simp, use h in simp)
    apply (simp only: h(1) some_or_simps bind_ret)
    apply (rule reads_bind [OF reads_u8], simp, use h in simp)
    apply (rule reads_guard_bind, use h in simp)
    apply (rule reads_bind_nil, rule reads_u8, simp, use h in simp)
    apply (rule reads_guard_bind, rule h(6))
    apply (rule reads_ret_eq, cases h, use h in simp)
    done
qed

lemma reads_offset: "offset_ok sl off \<Longrightarrow> reads (parse_offset sl) (offset_bits off) off"
  by (cases off)
    (auto simp: parse_offset_def offset_bits_def reads_ret intro!: reads_bind_ret_eq [OF reads_u8])

lemma reads_info:
  assumes "info_ok info"
  shows "reads parse_object_info (info_bits info) info"
proof (cases info)
  case None
  then show ?thesis
    unfolding parse_object_info_def info_bits_def
    by simp (rule reads_bind_nil [OF reads_joc_bit], simp add: reads_ret)
next
  case (Some i)
  have i: "info_band_index i < 8" "info_band_count i = BAND_COUNTS ! info_band_index i"
    "length (info_offsets i) - 1 < 2" "length (info_offsets i) - 1 + 1 = length (info_offsets i)"
    "\<forall>off \<in> set (info_offsets i). offset_ok (info_slope i) off"
    using assms Some by (auto simp: info_ok_def list_all_iff)
  have slope: "(if info_slope i = Steep then Steep else Smooth) = info_slope i" by (cases "info_slope i") auto
  have mode: "(if info_quant_mode i = Fine192 then Fine192 else Coarse96) = info_quant_mode i"
    by (cases "info_quant_mode i") auto
  have offs: "reads (repeat_rd (length (info_offsets i)) (parse_offset (info_slope i)))
      (concat (map offset_bits (info_offsets i))) (info_offsets i)"
    using i(5) by (intro reads_repeat reads_offset) auto
  have "reads parse_object_info ([True] @ bits_of 3 (info_band_index i) @ [info_sparse i]
      @ [info_quant_mode i = Fine192] @ [info_slope i = Steep] @ bits_of 1 (length (info_offsets i) - 1)
      @ concat (map offset_bits (info_offsets i))) (Some i)"
    unfolding parse_object_info_def Let_def
    apply (rule reads_bind [OF reads_joc_bit])
    apply (simp only: not_True_eq_False if_False)
    apply (rule reads_bind [OF reads_u8], simp, use i in simp)
    apply (rule reads_bind [OF reads_joc_bit])+
    apply (rule reads_bind [OF reads_u8], simp, use i in simp)
    apply (simp only: slope mode i(4))
    apply (rule reads_bind_ret_eq [OF offs])
    apply (cases i; use i(2) in simp)
    done
  then show ?thesis by (simp add: Some info_bits_def)
qed

lemma reads_codes:
  assumes "complete_table m nodes" and "list_all (code_ok nodes) cs" and "n = length cs"
  shows "reads (repeat_rd n (joc_code nodes)) (concat (map cw_bits cs)) cs"
  using assms by (intro reads_repeat) (auto simp: list_all_iff intro: reads_joc_code)

lemma reads_payload:
  assumes "payload_ok channels (info_band_count i) (info_sparse i) (info_quant_mode i) p" and "channels \<in> {5, 7}"
  shows "reads (parse_point_payload channels i) (payload_bits p) p"
proof (cases p)
  case (Sparse ic deltas vector)
  have ic: "ic < channels" "ic < 8" and s: "info_sparse i" using assms Sparse by auto
  show ?thesis
    unfolding parse_point_payload_def Sparse payload_bits.simps
    apply (simp only: s if_True)
    apply (rule reads_bind [OF reads_u8], simp, use ic in simp)
    apply (rule reads_guard_bind [OF ic(1)])
    apply (rule reads_bind [OF reads_codes [OF index_table_complete [OF assms(2)]]])
      apply (use assms Sparse in simp, use assms Sparse in simp)
    apply (rule reads_bind_ret_eq [OF reads_codes [OF vector_table_complete]])
      apply (use assms Sparse in simp, use assms Sparse in simp, simp)
    done
next
  case (Full matrix)
  have s: "\<not> info_sparse i" using assms Full by auto
  show ?thesis
    unfolding parse_point_payload_def Full payload_bits.simps
    apply (simp only: s if_False)
    apply (rule reads_bind_ret_eq [OF reads_repeat])
      apply (rule reads_codes [OF matrix_table_complete])
    using assms Full by (auto simp: list_all_iff)
qed

lemma reads_object:
  assumes "object_ok channels ob" and "channels \<in> {5, 7}"
  shows "reads (parse_object channels (info_of ob)) (object_bits ob) ob"
proof (cases "info_of ob")
  case None
  then show ?thesis
    using assms by (simp add: parse_object_def object_ok_def absent_object_def object_bits_def reads_ret)
next
  case (Some i)
  have ob: "ob = object_of i (data_points ob)"
    and pays: "\<forall>p \<in> set (data_points ob).
        payload_ok channels (info_band_count i) (info_sparse i) (info_quant_mode i) (payload p)"
    using assms Some by (auto simp: object_ok_def list_all_iff)
  have offs: "info_offsets i = map offset_timeslot (data_points ob)"
    using Some by (auto simp: info_of_def split: if_splits)
  have point: "reads (parse_data_point channels i (offset_timeslot p)) (payload_bits (payload p)) p"
    if "p \<in> set (data_points ob)" for p
    unfolding parse_data_point_def
    by (rule reads_bind_ret_eq [OF reads_payload]) (use that pays assms in auto)
  have each: "each_rd (parse_data_point channels i) (map offset_timeslot ps)
      = each_rd (\<lambda>p. parse_data_point channels i (offset_timeslot p)) ps" for ps
    by (induction ps) simp_all
  have "reads (each_rd (parse_data_point channels i) (info_offsets i)) (object_bits ob) (data_points ob)"
    using reads_each [of "data_points ob" "\<lambda>p. parse_data_point channels i (offset_timeslot p)"
        "\<lambda>p. payload_bits (payload p)" "\<lambda>p. p"] point
    by (simp add: offs each object_bits_def)
  then have "reads (bind_rd (each_rd (parse_data_point channels i) (info_offsets i)) (\<lambda>ps. ret (object_of i ps)))
      (object_bits ob) ob"
    using ob by (intro reads_bind_ret_eq) auto
  then show ?thesis by (simp add: parse_object_def Some object_of_def)
qed

lemma reads_frame:
  assumes "joc_frame_ok f"
  shows "reads joc_frame_body (joc_frame_bits f) f"
proof -
  have h: "header_ok (header f)" "clip_gain_x_bits f < 8" "clip_gain_y_bits f < 32" "sequence_count f < 1024"
    "length (objects f) = object_count (header f)" "list_all (object_ok (channel_count (header f))) (objects f)"
    using assms by (auto simp: joc_frame_ok_def)
  have ch: "channel_count (header f) \<in> {5, 7}"
    using h(1) downmix_channels_57 by (auto simp: header_ok_def)
  have infos: "reads (repeat_rd (object_count (header f)) parse_object_info)
      (concat (map (\<lambda>ob. info_bits (info_of ob)) (objects f))) (map info_of (objects f))"
    using reads_repeat [of "map info_of (objects f)" parse_object_info info_bits "object_count (header f)"] h(5,6)
    by (auto simp: list_all_iff object_ok_def comp_def intro: reads_info)
  have each: "each_rd (parse_object ch) (map info_of obs) = each_rd (\<lambda>ob. parse_object ch (info_of ob)) obs" for ch obs
    by (induction obs) simp_all
  have objs: "reads (each_rd (parse_object (channel_count (header f))) (map info_of (objects f)))
      (concat (map object_bits (objects f))) (objects f)"
    using reads_each [of "objects f" "\<lambda>ob. parse_object (channel_count (header f)) (info_of ob)" object_bits "\<lambda>ob. ob"]
      h(6) ch reads_object
    by (auto simp: each list_all_iff)
  show ?thesis
    unfolding joc_frame_body_def joc_frame_bits_def
    apply (rule reads_bind [OF reads_header [OF h(1)]])
    apply (rule reads_bind [OF reads_u8], simp, use h in simp)
    apply (rule reads_bind [OF reads_u8], simp, use h in simp)
    apply (rule reads_bind [OF reads_u16], simp, use h in simp)
    apply (rule reads_bind [OF infos])
    apply (rule reads_bind_ret_eq [OF objs])
    apply simp
    done
qed

lemma parse_joc_encoded:
  assumes "joc_frame_ok f" and "8 * length (joc_encode f) \<le> usize_max"
  shows "parse_joc_payload (joc_encode f) = Inr f"
proof -
  obtain r where r: "joc_frame_body (new_reader (joc_encode f)) = (Inr f, r)" "reader_ok r"
    "unread r = replicate (7 - (length (joc_frame_bits f) + 7) mod 8) False"
    using reads_packed [OF reads_frame [OF assms(1)]] assms(2) by (auto simp: joc_encode_def)
  have "\<exists>k < 8. unread r = replicate k False" using r(3) by (intro exI conjI) auto
  then obtain r' where "check_joc_padding r = (Inr (), r')" using check_padding_iff [OF r(2)] by blast
  with r(1) show ?thesis by (simp add: parse_joc_payload_def parse_joc_frame_body rd_simps)
qed

lemma parse_joc_payload_Inr:
  assumes "parse_joc_payload raw = Inr f" and fits: "8 * length raw \<le> usize_max"
  shows "joc_frame_ok f" and "raw = joc_encode f"
proof -
  have ok: "reader_ok (new_reader raw)" using fits by (rule new_reader_ok)
  obtain r r' where body: "joc_frame_body (new_reader raw) = (Inr f, r)" and pad: "check_joc_padding r = (Inr (), r')"
    using assms(1) unfolding parse_joc_payload_def parse_joc_frame_body bind_rd_def
    by (auto simp: ret_eq split: prod.splits sum.splits)
  obtain bs where bs: "reader_ok r" "unread (new_reader raw) = bs @ unread r" "bs = joc_frame_bits f \<and> joc_frame_ok f"
    by (rule spellsD [OF spells_frame ok body])
  obtain k where k: "k < 8" "unread r = replicate k False" using check_padding_iff [OF bs(1)] pad by blast
  show "joc_frame_ok f" using bs(3) by blast
  have "slice_bits raw = joc_frame_bits f @ replicate k False"
    using bs k unread_new_reader [OF fits] by simp
  then show "raw = joc_encode f" unfolding joc_encode_def using k(1) by (rule pack_bits_unique)
qed

end
