(* ===== verification/ReconstructionSpec.thy ===== *)
theory ReconstructionSpec
  imports Reconstruction
begin

text \<open>
  Closed forms of the reconstruction stages: the entries of the differentially decoded
  matrices, the boundaries of the parameter bands, the value set of the dequantizer, the end
  points and bounds of the interpolation, and the entries of the matrix product.
\<close>

section \<open>Symbols\<close>

lemma validate_symbols_None: "validate_symbols vs st = None \<longleftrightarrow> (\<forall>v \<in> set vs. v < st)"
  by (induction vs st rule: validate_symbols.induct) auto

lemma validate_deltas_None: "validate_deltas ds n = None \<longleftrightarrow> (\<forall>d \<in> set ds. d < n)"
  by (induction ds n rule: validate_deltas.induct) auto

lemma steps_bounds: "0 < steps m" "sparse_offset m < steps m" "steps m div 2 < steps m"
  by (cases m; simp add: steps_def sparse_offset_def)+

section \<open>Sparse matrices\<close>

text \<open>The entry of one channel and band, by recursion on the band: no matrix, no update.\<close>

fun sparse_entry :: "nat \<Rightarrow> nat \<Rightarrow> nat \<Rightarrow> nat list \<Rightarrow> nat list \<Rightarrow> nat \<Rightarrow> nat \<Rightarrow> nat" where
  "sparse_entry channels st offset raw vec c 0 =
     (if c = raw ! 0 then (offset + vec ! 0) mod st else offset)"
| "sparse_entry channels st offset raw vec c (Suc b) =
     (if c = (raw ! b + raw ! Suc b) mod channels
      then (sparse_entry channels st offset raw vec c b + vec ! Suc b) mod st
      else offset)"

lemma sparse_fold:
  assumes "0 < channels" and "raw ! 0 < channels" and "k \<le> bands"
  shows "length (fold (sparse_step channels st offset raw vec) [0..<k] (replicate channels (replicate bands offset))) = channels
    \<and> (\<forall>c < channels. length (fold (sparse_step channels st offset raw vec) [0..<k]
          (replicate channels (replicate bands offset)) ! c) = bands
        \<and> (\<forall>b < bands. fold (sparse_step channels st offset raw vec) [0..<k]
              (replicate channels (replicate bands offset)) ! c ! b
            = (if b < k then sparse_entry channels st offset raw vec c b else offset)))"
  using assms(3)
proof (induction k)
  case (Suc k)
  let ?m = "fold (sparse_step channels st offset raw vec) [0..<k] (replicate channels (replicate bands offset))"
  let ?sel = "selected_channel channels raw k"
  have m: "length ?m = channels" "\<And>c. c < channels \<Longrightarrow> length (?m ! c) = bands"
    "\<And>c b. c < channels \<Longrightarrow> b < bands \<Longrightarrow>
       ?m ! c ! b = (if b < k then sparse_entry channels st offset raw vec c b else offset)"
    using Suc by auto
  have sel: "?sel < channels" using assms by (auto simp: selected_channel_def)
  have step: "fold (sparse_step channels st offset raw vec) [0..<Suc k] (replicate channels (replicate bands offset))
      = sparse_step channels st offset raw vec k ?m" by simp
  have at: "(if k = 0 then (offset + vec ! k) mod st else (?m ! ?sel ! (k - 1) + vec ! k) mod st)
      = sparse_entry channels st offset raw vec ?sel k"
    using m(3) [OF sel, of "k - 1"] Suc.prems by (cases k) (auto simp: selected_channel_def)
  have other: "c \<noteq> ?sel \<Longrightarrow> sparse_entry channels st offset raw vec c k = offset" for c
    by (cases k) (auto simp: selected_channel_def)
  have upd: "sparse_step channels st offset raw vec k ?m
      = ?m[?sel := (?m ! ?sel)[k := sparse_entry channels st offset raw vec ?sel k]]"
    unfolding sparse_step_def Let_def at ..
  show ?case
    unfolding step upd
    using m sel other Suc.prems by (auto simp: nth_list_update less_Suc_eq)
qed simp

lemma decode_sparse_Inr:
  assumes "decode_sparse_coefficients channels mode initial deltas vec = Inr matrix"
  shows "channels \<in> {5, 7}" and "initial < channels" and "length deltas + 1 = length vec"
    and "\<forall>v \<in> set vec. v < steps mode" and "\<forall>d \<in> set deltas. d < channels"
    and "length matrix = channels" and "\<forall>row \<in> set matrix. length row = length vec"
    and "\<And>c b. c < channels \<Longrightarrow> b < length vec \<Longrightarrow>
       matrix ! c ! b = sparse_entry channels (steps mode) (sparse_offset mode) (initial # deltas) vec c b"
proof -
  have parts: "channels \<in> {5, 7}" "initial < channels" "length deltas + 1 = length vec"
    "validate_symbols vec (steps mode) = None" "validate_deltas deltas channels = None"
    and m: "matrix = fold (sparse_step channels (steps mode) (sparse_offset mode) (initial # deltas) vec) [0..<length vec]
        (replicate channels (replicate (length vec) (sparse_offset mode)))"
    using assms by (auto simp: decode_sparse_coefficients_def Let_def split: if_splits option.splits)
  note run = sparse_fold [of channels "initial # deltas" "length vec" "length vec" "steps mode" "sparse_offset mode" vec]
  show "channels \<in> {5, 7}" "initial < channels" "length deltas + 1 = length vec"
    "\<forall>v \<in> set vec. v < steps mode" "\<forall>d \<in> set deltas. d < channels"
    using parts by (simp_all add: validate_symbols_None validate_deltas_None)
  show "length matrix = channels" "\<forall>row \<in> set matrix. length row = length vec"
    and "\<And>c b. c < channels \<Longrightarrow> b < length vec \<Longrightarrow>
       matrix ! c ! b = sparse_entry channels (steps mode) (sparse_offset mode) (initial # deltas) vec c b"
    using run parts unfolding m by (auto simp: in_set_conv_nth)
qed

lemma decode_sparse_ok:
  assumes "channels \<in> {5, 7}" "initial < channels" "length deltas + 1 = length vec"
    "\<forall>v \<in> set vec. v < steps mode" "\<forall>d \<in> set deltas. d < channels"
  shows "\<exists>m. decode_sparse_coefficients channels mode initial deltas vec = Inr m"
proof -
  have "validate_symbols vec (steps mode) = None" "validate_deltas deltas channels = None"
    using assms by (simp_all add: validate_symbols_None validate_deltas_None)
  then show ?thesis using assms by (auto simp: decode_sparse_coefficients_def Let_def)
qed

lemma sparse_entry_less: "0 < st \<Longrightarrow> offset < st \<Longrightarrow> sparse_entry channels st offset raw vec c b < st"
  by (cases b) auto

section \<open>Full matrices\<close>

lemma length_full_channel [simp]: "length (full_channel st p ss) = length ss"
  by (induction st p ss rule: full_channel.induct) (auto simp: Let_def)

lemma full_channel_nth:
  "b < length ss \<Longrightarrow> full_channel st p ss ! b = (p + sum_list (take (Suc b) ss)) mod st"
proof (induction st p ss arbitrary: b rule: full_channel.induct)
  case (2 st p s ss)
  then show ?case
    by (cases b) (auto simp: Let_def mod_add_left_eq add.assoc)
qed simp

lemma full_channels_Inr:
  "full_channels st rows = Inr out \<Longrightarrow>
   out = map (full_channel st (st div 2)) rows \<and> (\<forall>row \<in> set rows. \<forall>v \<in> set row. v < st)"
  by (induction st rows arbitrary: out rule: full_channels.induct)
    (auto simp: validate_symbols_None split: option.splits sum.splits)

lemma full_channels_ok: "\<forall>row \<in> set rows. \<forall>v \<in> set row. v < st \<Longrightarrow> \<exists>out. full_channels st rows = Inr out"
proof (induction st rows rule: full_channels.induct)
  case (2 st row rest)
  then have "validate_symbols row st = None" by (simp add: validate_symbols_None)
  with 2 show ?case by (auto split: option.splits)
qed simp

lemma decode_full_Inr:
  assumes "decode_full_coefficients mode rows = Inr matrix"
  shows "matrix = map (full_channel (steps mode) (steps mode div 2)) rows"
    and "\<forall>row \<in> set rows. row \<noteq> [] \<and> length row = length (hd rows)"
    and "\<forall>row \<in> set rows. \<forall>v \<in> set row. v < steps mode" and "rows \<noteq> []"
proof -
  obtain row rest where rows: "rows = row # rest"
    using assms by (cases rows) (simp_all add: decode_full_coefficients_def)
  then have ok: "row \<noteq> []" "\<forall>channel \<in> set rows. length channel = length row"
    "full_channels (steps mode) rows = Inr matrix"
    using assms by (auto simp: decode_full_coefficients_def simp del: full_channels.simps split: if_splits)
  note run = full_channels_Inr [OF ok(3)]
  show "matrix = map (full_channel (steps mode) (steps mode div 2)) rows"
    "\<forall>row \<in> set rows. \<forall>v \<in> set row. v < steps mode" using run by blast+
  show "rows \<noteq> []" using rows by simp
  show "\<forall>row \<in> set rows. row \<noteq> [] \<and> length row = length (hd rows)"
    using ok(1,2) rows by (metis length_0_conv list.sel(1))
qed

lemma decode_full_ok:
  assumes "rows \<noteq> []" and "0 < n" and "\<forall>row \<in> set rows. length row = n"
    and "\<forall>row \<in> set rows. \<forall>v \<in> set row. v < steps mode"
  shows "\<exists>m. decode_full_coefficients mode rows = Inr m"
  using assms full_channels_ok [OF assms(4)]
  by (cases rows) (auto simp: decode_full_coefficients_def)

section \<open>Parameter bands\<close>

lemma find_band_bounds:
  assumes "boundary \<le> subband" and "subband < boundary + sum_list ws"
  shows "\<exists>b < length ws. find_band subband boundary k ws = Inr (k + b)
    \<and> boundary + sum_list (take b ws) \<le> subband \<and> subband < boundary + sum_list (take (Suc b) ws)"
  using assms
proof (induction subband boundary k ws rule: find_band.induct)
  case (2 subband boundary k w ws)
  show ?case
  proof (cases "subband < boundary + w")
    case True
    then show ?thesis using "2.prems" by (intro exI [of _ 0]) simp
  next
    case False
    then obtain b where "b < length ws" "find_band subband (boundary + w) (Suc k) ws = Inr (Suc k + b)"
      "boundary + w + sum_list (take b ws) \<le> subband" "subband < boundary + w + sum_list (take (Suc b) ws)"
      using 2 by (auto simp: add.assoc)
    then show ?thesis using False by (intro exI [of _ "Suc b"]) (simp add: add.assoc)
  qed
qed simp

lemma band_widths_total: "sum_list (band_widths c) = 64" "length (band_widths c) = band_count_value c"
  by (cases c; simp add: band_widths_def band_count_value_def)+

lemma band_lookup:
  assumes "subband < 64"
  obtains b where "b < band_count_value c" "qmf_subband_to_parameter_band c subband = Inr b"
    "sum_list (take b (band_widths c)) \<le> subband" "subband < sum_list (take (Suc b) (band_widths c))"
  using find_band_bounds [of 0 subband "band_widths c" 0] assms
  by (auto simp: qmf_subband_to_parameter_band_def band_widths_total)

lemma band_of_total:
  assumes "subband < 64"
  shows "qmf_subband_to_parameter_band c subband = Inr (band_of c subband)" and "band_of c subband < band_count_value c"
  by (rule band_lookup [OF assms, of c], simp add: band_of_def)+

lemma band_count_round_trip: "band_count_try_from (band_count_value c) = Inr c"
  by (cases c) (simp_all add: band_count_try_from_def band_count_value_def)

lemma BAND_COUNTS_valid:
  assumes "i < 8"
  shows "\<exists>c. band_count_try_from (BAND_COUNTS ! i) = Inr c \<and> band_count_value c = BAND_COUNTS ! i"
proof -
  have "\<forall>i \<in> set [0..<8]. \<exists>c \<in> set ALL_BAND_COUNTS.
      band_count_try_from (BAND_COUNTS ! i) = Inr c \<and> band_count_value c = BAND_COUNTS ! i"
    by code_simp
  moreover have "i \<in> set [0..<8]" using assms by simp
  ultimately show ?thesis by blast
qed

section \<open>Dequantization over the reals\<close>

text \<open>The largest magnitude of a coefficient, \<open>48 * 820 / 4096\<close>.\<close>

definition coefficient_bound :: real where
  "coefficient_bound = 9.609375"

lemma dequantize_real:
  "q < steps m \<Longrightarrow> dequantize real q m = Inr ((real q - real (steps m) / 2) * 820 / (4096 * (1 + real (mode_index m))))"
  by (simp add: dequantize_def)

lemma dequantize_Inr: "dequantize num q m = Inr x \<Longrightarrow> q < steps m"
  by (simp add: dequantize_def split: if_splits)

lemma dequantize_bound:
  assumes "dequantize real q m = Inr x"
  shows "\<bar>x\<bar> \<le> coefficient_bound"
proof (cases m)
  case Coarse96
  then have "q < 96" "x = (real q - 48) * 820 / 4096"
    using assms by (auto simp: dequantize_def steps_def mode_index_def split: if_splits)
  moreover from this have "0 \<le> real q" "real q \<le> 95" by simp_all
  ultimately show ?thesis unfolding coefficient_bound_def abs_le_iff by simp
next
  case Fine192
  then have "q < 192" "x = (real q - 96) * 820 / 8192"
    using assms by (auto simp: dequantize_def steps_def mode_index_def split: if_splits)
  moreover from this have "0 \<le> real q" "real q \<le> 191" by simp_all
  ultimately show ?thesis unfolding coefficient_bound_def abs_le_iff by simp
qed

section \<open>Interpolation over the reals\<close>

lemma between_convex:
  fixes a b :: real
  assumes "0 < n" and "0 \<le> k" and "k \<le> n" and "\<bar>a\<bar> \<le> M" and "\<bar>b\<bar> \<le> M"
  shows "\<bar>a + k * (b - a) / n\<bar> \<le> M"
proof -
  have eq: "a + k * (b - a) / n = (1 - k / n) * a + (k / n) * b"
    using assms(1) by (simp add: field_simps)
  have t: "0 \<le> k / n" "k / n \<le> 1" using assms by simp_all
  have "\<bar>a + k * (b - a) / n\<bar> \<le> (1 - k / n) * \<bar>a\<bar> + (k / n) * \<bar>b\<bar>"
  proof -
    have "\<bar>(1 - k / n) * a\<bar> = (1 - k / n) * \<bar>a\<bar>" "\<bar>k / n * b\<bar> = k / n * \<bar>b\<bar>"
      using t by (simp_all only: abs_mult abs_of_nonneg diff_ge_0_iff_ge)
    then show ?thesis unfolding eq using abs_triangle_ineq [of "(1 - k / n) * a" "k / n * b"] by simp
  qed
  also have "\<dots> \<le> (1 - k / n) * M + (k / n) * M"
    using t assms by (intro add_mono mult_left_mono) auto
  finally show ?thesis by (simp add: algebra_simps)
qed

text \<open>Every interpolated value lies within any bound of its end points.\<close>

lemma interpolated_value_bound:
  assumes "\<bar>previous ! channel ! subband\<bar> \<le> M" and "\<bar>points ! 0 ! channel ! band\<bar> \<le> M"
    and "length points \<noteq> 1 \<Longrightarrow> \<bar>points ! 1 ! channel ! band\<bar> \<le> M" and "timeslot < timeslots"
  shows "\<bar>interpolated_value real points previous sl offsets timeslots channel band subband timeslot\<bar> \<le> M"
proof (cases sl)
  case Smooth
  show ?thesis
  proof (cases "length points = 1")
    case True
    then show ?thesis
      using between_convex [of "real timeslots" "real (timeslot + 1)", OF _ _ _ assms(1,2)] assms(4) Smooth
      by (simp add: interpolated_value_def Let_def)
  next
    case False
    show ?thesis
    proof (cases "timeslot < timeslots div 2")
      case True
      then show ?thesis
        using between_convex [of "real (timeslots div 2)" "real (timeslot + 1)", OF _ _ _ assms(1,2)] Smooth False
        by (simp add: interpolated_value_def Let_def)
    next
      case late: False
      have "0 < timeslots - timeslots div 2" "timeslot - timeslots div 2 + 1 \<le> timeslots - timeslots div 2"
        using assms(4) late by auto
      then have "0 < real (timeslots - timeslots div 2)"
        "real (timeslot - timeslots div 2 + 1) \<le> real (timeslots - timeslots div 2)"
        by (simp_all only: of_nat_0_less_iff of_nat_le_iff)
      then show ?thesis
        using between_convex [OF _ of_nat_0_le_iff _ assms(2) assms(3) [OF False],
            of "timeslots - timeslots div 2" "timeslot - timeslots div 2 + 1"] Smooth False late
        by (simp add: interpolated_value_def Let_def)
    qed
  qed
next
  case Steep
  then show ?thesis using assms by (simp add: interpolated_value_def Let_def)
qed

text \<open>A smooth slope ends at the last data point, and passes the first one at the midpoint.\<close>

lemma interpolated_value_end:
  assumes "length points = 1 \<or> length points = 2" and "0 < timeslots"
  shows "interpolated_value real points previous Smooth offsets timeslots channel band subband (timeslots - 1)
    = last points ! channel ! band"
proof -
  have last: "last points = points ! (length points - 1)" using assms(1) by (intro last_conv_nth) auto
  have "\<not> timeslots - 1 < timeslots div 2" using assms(2) by auto
  moreover have "timeslots - 1 - timeslots div 2 + 1 = timeslots - timeslots div 2" using assms(2) by auto
  moreover have "0 < timeslots - timeslots div 2" using assms(2) by auto
  ultimately show ?thesis using assms last by (auto simp: interpolated_value_def Let_def)
qed

lemma interpolated_value_mid:
  assumes "length points = 2" and "2 \<le> timeslots"
  shows "interpolated_value real points previous Smooth offsets timeslots channel band subband (timeslots div 2 - 1)
    = points ! 0 ! channel ! band"
proof -
  have "timeslots div 2 - 1 < timeslots div 2" "timeslots div 2 - 1 + 1 = timeslots div 2" "timeslots div 2 \<noteq> 0"
    using assms(2) by auto
  then show ?thesis using assms by (simp add: interpolated_value_def Let_def)
qed

lemma interpolate_Inr:
  assumes "interpolate_matrix num points previous sl offsets bc timeslots = Inr im"
  shows "length points = 1 \<or> length points = 2" and "0 < timeslots" and "length offsets = length points"
    and "\<forall>point \<in> set points. length point = length previous \<and> (\<forall>channel \<in> set point. length channel = band_count_value bc)"
    and "im = \<lparr>im_matrix = map (\<lambda>timeslot. map (\<lambda>channel. map (\<lambda>subband.
          interpolated_value num points previous sl offsets timeslots channel (band_of bc subband) subband timeslot)
            [0..<QMF_SUBBANDS]) [0..<length previous]) [0..<timeslots],
       next_previous = map (\<lambda>channel. map (\<lambda>subband. last points ! channel ! band_of bc subband) [0..<QMF_SUBBANDS])
            [0..<length previous]\<rparr>"
  using assms by (auto simp: interpolate_matrix_def split: if_splits)

lemma interpolate_ok:
  assumes "length points = 1 \<or> length points = 2" and "0 < timeslots" and "timeslots < 2 ^ 32"
    and "length offsets = length points"
    and "\<forall>point \<in> set points. length point = length previous \<and> (\<forall>channel \<in> set point. length channel = band_count_value bc)"
    and "sl = Steep \<longrightarrow> None \<notin> set offsets"
  shows "\<exists>im. interpolate_matrix num points previous sl offsets bc timeslots = Inr im"
  using assms by (auto simp: interpolate_matrix_def)

section \<open>The matrix product over the reals\<close>

lemma fold_cplx:
  "fold (\<lambda>c acc. cplx_add acc (cplx_scale (f c) (g c))) cs (x, y)
   = (x + (\<Sum>c\<leftarrow>cs. fst (f c) * g c), y + (\<Sum>c\<leftarrow>cs. snd (f c) * (g c :: real)))"
  by (induction cs arbitrary: x y) (simp_all add: cplx_add_def cplx_scale_def algebra_simps)

lemma reconstruct_Inr:
  assumes "reconstruct_basis_qmf inputs matrices = Inr (out :: real cplx list list list)"
    and "o' < length matrices" and "t < length (hd inputs)" and "s < 64"
  shows "length out = length matrices" and "length (out ! o') = length (hd inputs)" and "length (out ! o' ! t) = 64"
    and "out ! o' ! t ! s
       = ((\<Sum>c < length inputs. fst (inputs ! c ! t ! s) * matrices ! o' ! c ! t ! s),
          (\<Sum>c < length inputs. snd (inputs ! c ! t ! s) * matrices ! o' ! c ! t ! s))"
proof -
  obtain first rest where inputs: "inputs = first # rest"
    using assms(1) by (auto simp: reconstruct_basis_qmf_def split: list.splits)
  have out: "out = map (\<lambda>row. map (\<lambda>timeslot. map (\<lambda>subband.
       fold (\<lambda>channel acc. cplx_add acc (cplx_scale (inputs ! channel ! timeslot ! subband)
           (row ! channel ! timeslot ! subband))) [0..<length inputs] (0, 0))
       [0..<QMF_SUBBANDS]) [0..<length first]) matrices"
    using assms(1) unfolding reconstruct_basis_qmf_def inputs list.case Let_def
    by (simp only: sum.inject sum.distinct split: if_splits)
  show "length out = length matrices" "length (out ! o') = length (hd inputs)" "length (out ! o' ! t) = 64"
    using assms(2,3) inputs by (simp_all add: out QMF_SUBBANDS_def)
  show "out ! o' ! t ! s
       = ((\<Sum>c < length inputs. fst (inputs ! c ! t ! s) * matrices ! o' ! c ! t ! s),
          (\<Sum>c < length inputs. snd (inputs ! c ! t ! s) * matrices ! o' ! c ! t ! s))"
    using assms(2-4) inputs
    by (simp add: out QMF_SUBBANDS_def fold_cplx interv_sum_list_conv_sum_set_nat atLeast0LessThan del: upt_Suc)
qed

end
