(* ===== verification/Stateful.thy ===== *)
theory Stateful
  imports Prelude
begin

text \<open>
  The contract shared by the stateful decoders: a step that fails leaves the state alone, a step
  that succeeds keeps an invariant.  Its clients feed a stream of inputs, skipping the rejected
  ones; the lemmas say that a rejected input leaves no trace.
\<close>

text \<open>Feeding a stream, with the results of all inputs.\<close>

fun feed :: "('i \<Rightarrow> ('s, 'e, 'o) rd) \<Rightarrow> 'i list \<Rightarrow> 's \<Rightarrow> ('e + 'o) list \<times> 's" where
  "feed step [] s = ([], s)"
| "feed step (i # is) s =
     (let (r, s') = step i s; (rs, s'') = feed step is s' in (r # rs, s''))"

definition accepted :: "('e + 'o) list \<Rightarrow> 'o list" where
  "accepted rs = concat (map (\<lambda>r. case r of Inl _ \<Rightarrow> [] | Inr x \<Rightarrow> [x]) rs)"

lemma accepted_simps [simp]:
  "accepted [] = []" "accepted (Inl e # rs) = accepted rs" "accepted (Inr x # rs) = x # accepted rs"
  by (simp_all add: accepted_def)

text \<open>The inputs of a stream that are accepted in its course.\<close>

fun kept :: "('i \<Rightarrow> ('s, 'e, 'o) rd) \<Rightarrow> 'i list \<Rightarrow> 's \<Rightarrow> 'i list" where
  "kept step [] s = []"
| "kept step (i # is) s =
     (case step i s of (Inl _, s') \<Rightarrow> kept step is s' | (Inr _, s') \<Rightarrow> i # kept step is s')"

lemma kept_subset: "set (kept step is s) \<subseteq> set is \<and> length (kept step is s) \<le> length is"
proof (induction "is" arbitrary: s)
  case (Cons i "is")
  obtain r s' where "step i s = (r, s')" by (cases "step i s")
  then show ?case using Cons [of s'] by (cases r) auto
qed simp

locale atomic_step =
  fixes step :: "'i \<Rightarrow> ('s, 'e, 'o) rd" and inv :: "'s \<Rightarrow> bool"
  assumes error_unchanged: "step i s = (Inl e, s') \<Longrightarrow> s' = s"
    and success_keeps: "inv s \<Longrightarrow> step i s = (Inr x, s') \<Longrightarrow> inv s'"
begin

lemma step_keeps: "inv s \<Longrightarrow> inv (snd (step i s))"
  using error_unchanged success_keeps by (cases "step i s"; cases "fst (step i s)") force+

lemma feed_keeps: "inv s \<Longrightarrow> inv (snd (feed step is s))"
proof (induction "is" arbitrary: s)
  case (Cons i "is")
  then show ?case using step_keeps [of s i] by (auto simp: Let_def split_beta)
qed simp

lemma feed_kept:
  "snd (feed step (kept step is s) s) = snd (feed step is s)
   \<and> fst (feed step (kept step is s) s) = map Inr (accepted (fst (feed step is s)))"
proof (induction "is" arbitrary: s)
  case (Cons i "is")
  show ?case
  proof (cases "step i s")
    case (Pair r s')
    show ?thesis
    proof (cases r)
      case (Inl e)
      then have "s' = s" using error_unchanged Pair by simp
      then show ?thesis using Pair Inl Cons [of s] by (simp add: Let_def split_beta)
    next
      case (Inr x)
      then show ?thesis using Pair Cons [of s'] by (simp add: Let_def split_beta)
    qed
  qed
qed simp

lemma rejected_leaves_no_trace:
  "\<exists>js. set js \<subseteq> set is \<and> length js \<le> length is
     \<and> feed step js s = (map Inr (accepted (fst (feed step is s))), snd (feed step is s))"
  using feed_kept [of "is" s] kept_subset [of step "is" s] by (metis prod.collapse)

end

end
