(* ===== verification/JocDecoderSpec.thy ===== *)
theory JocDecoderSpec
  imports JocDecoder JocCodec ReconstructionSpec Stateful
begin

text \<open>
  What the decoder guarantees: failed calls change nothing, parsed frames always decode and
  with the right shapes, coefficients stay bounded over whole streams, smooth slopes join
  without a jump, and a splice forgets everything before it.
\<close>

section \<open>Results\<close>

lemma required_Inr: "required v i fld = Inr a \<longleftrightarrow> v = Some a"
  by (cases v) (auto simp: required_def)

section \<open>Transposition\<close>

lemma push_each_map2: "length cs = length vs \<Longrightarrow> push_each cs vs = map2 (\<lambda>c v. c @ [v]) cs vs"
  by (induction cs vs rule: push_each.induct) auto

lemma transpose_interpolated_map:
  "\<forall>slot \<in> set slots. length slot = channels \<Longrightarrow>
   transpose_interpolated slots channels = map (\<lambda>c. map (\<lambda>slot. slot ! c) slots) [0..<channels]"
proof (induction slots rule: rev_induct)
  case Nil
  then show ?case by (simp add: transpose_interpolated_def map_replicate_const)
next
  case (snoc slot slots)
  then have "transpose_interpolated (slots @ [slot]) channels
      = push_each (map (\<lambda>c. map (\<lambda>slot. slot ! c) slots) [0..<channels]) slot"
    by (simp add: transpose_interpolated_def)
  also have "\<dots> = map2 (\<lambda>c v. c @ [v]) (map (\<lambda>c. map (\<lambda>slot. slot ! c) slots) [0..<channels]) slot"
    using snoc.prems by (intro push_each_map2) simp
  also have "\<dots> = map (\<lambda>c. map (\<lambda>slot. slot ! c) (slots @ [slot])) [0..<channels]"
    using snoc.prems by (intro nth_equalityI) auto
  finally show ?case .
qed

section \<open>One object\<close>

text \<open>The coefficients of one object: \<open>channels\<close> rows of 64 values within a bound.\<close>

definition matrix_shape :: "nat \<Rightarrow> 'f list list \<Rightarrow> bool" where
  "matrix_shape channels m \<longleftrightarrow> length m = channels \<and> (\<forall>row \<in> set m. length row = QMF_SUBBANDS)"

definition matrix_within :: "real \<Rightarrow> real list list \<Rightarrow> bool" where
  "matrix_within B m \<longleftrightarrow> (\<forall>row \<in> set m. \<forall>x \<in> set row. \<bar>x\<bar> \<le> B)"

lemma decode_object_present:
  assumes "decode_object env channels timeslots (i, ob, previous) = Inr (matrix, stage, carry)" and "present ob"
  obtains mode bc sl sp quant dequant im where
    "obj_quant_mode ob = Some mode" "band_count ob = Some (band_count_value bc)" "obj_slope ob = Some sl"
    "sparse ob = Some sp" "attempt_map (decode_point channels mode sp i) (data_points ob) = Inr quant"
    "attempt_map (attempt_map (attempt_map (\<lambda>v. dequantize (of_int_num env) v mode))) quant = Inr dequant"
    "interpolate_matrix (of_int_num env) dequant previous sl (map offset_timeslot (data_points ob)) bc timeslots = Inr im"
    "matrix = transpose_interpolated (im_matrix im) channels" "carry = next_previous im"
    "stage = Some \<lparr>quantized = quant, dequantized = dequant, interpolated = im_matrix im\<rparr>"
proof -
  have bands: "band_count_try_from v = Inr bc \<Longrightarrow> v = band_count_value bc" for v bc
    by (auto simp: band_count_try_from_def band_count_value_def split: if_splits)
  show ?thesis
    using assms that by (auto simp: decode_object_def attempt_Inr lift_err_Inr required_Inr dest!: bands)
qed

lemma decode_object_absent:
  "\<not> present ob \<Longrightarrow> decode_object env channels timeslots (i, ob, previous)
     = Inr (transpose_interpolated (map (\<lambda>_. previous) [0..<timeslots]) channels, None, previous)"
  by (simp add: decode_object_def)

lemma interpolate_shapes:
  assumes "interpolate_matrix num points previous sl offsets bc timeslots = Inr im"
  shows "length (im_matrix im) = timeslots"
    and "\<forall>slot \<in> set (im_matrix im). matrix_shape (length previous) slot"
    and "matrix_shape (length previous) (next_previous im)"
  using interpolate_Inr(5) [OF assms] by (auto simp: matrix_shape_def)

lemma decode_object_shapes:
  assumes "decode_object env channels timeslots (i, ob, previous) = Inr (matrix, stage, carry)"
    and "matrix_shape channels previous"
  shows "length matrix = channels" and "\<forall>ch \<in> set matrix. length ch = timeslots"
    and "matrix_shape channels carry"
proof -
  have len: "length previous = channels" using assms(2) by (simp add: matrix_shape_def)
  have "length matrix = channels \<and> (\<forall>ch \<in> set matrix. length ch = timeslots) \<and> matrix_shape channels carry"
  proof (cases "present ob")
    case False
    then have m: "matrix = transpose_interpolated (map (\<lambda>_. previous) [0..<timeslots]) channels" "carry = previous"
      using assms(1) decode_object_absent [of ob env channels timeslots i previous] by auto
    then show ?thesis using assms(2) len by (auto simp: transpose_interpolated_map)
  next
    case True
    obtain im num dequant sl offs bc where
      im: "interpolate_matrix num dequant previous sl offs bc timeslots = Inr im"
      and m: "matrix = transpose_interpolated (im_matrix im) channels" "carry = next_previous im"
      by (rule decode_object_present [OF assms(1) True]) blast
    have "\<forall>slot \<in> set (im_matrix im). length slot = channels"
      using interpolate_shapes(2) [OF im] by (auto simp: matrix_shape_def len)
    then show ?thesis
      using interpolate_shapes [OF im] by (auto simp: m transpose_interpolated_map len)
  qed
  then show "length matrix = channels" "\<forall>ch \<in> set matrix. length ch = timeslots" "matrix_shape channels carry"
    by blast+
qed

text \<open>A well-formed object never fails to decode.\<close>

lemma decode_point_ok:
  assumes "payload_ok channels bands sp mode (payload p)" and "channels \<in> {5, 7}" and "0 < bands"
  shows "\<exists>m. decode_point channels mode sp i p = Inr m
    \<and> length m = channels \<and> (\<forall>row \<in> set m. length row = bands \<and> (\<forall>v \<in> set row. v < steps mode))"
proof (cases "payload p")
  case (Sparse ic deltas vec)
  have ok: "sp" "ic < channels" "length (map symbol deltas) + 1 = length (map symbol vec)" "length vec = bands"
    "\<forall>v \<in> set (map symbol vec). v < steps mode" "\<forall>d \<in> set (map symbol deltas). d < channels"
    using assms Sparse code_ok_symbol [OF index_table_complete [OF assms(2)]] code_ok_symbol [OF vector_table_complete]
    by (auto simp: list_all_iff)
  obtain m where m: "decode_sparse_coefficients channels mode ic (map symbol deltas) (map symbol vec) = Inr m"
    using decode_sparse_ok [OF assms(2) ok(2,3,5,6)] by blast
  note spec = decode_sparse_Inr [OF m]
  have "v < steps mode" if row: "row \<in> set m" and v: "v \<in> set row" for row v
  proof -
    obtain c where c: "c < channels" "row = m ! c" using row spec(6) by (auto simp: in_set_conv_nth)
    have "length row = length vec" using row spec(7) by simp
    then obtain b where "b < length vec" "v = row ! b" using v by (auto simp: in_set_conv_nth)
    then show ?thesis using c spec(8) [of c b] sparse_entry_less steps_bounds by simp
  qed
  then show ?thesis
    using m ok spec(6,7) Sparse by (auto simp: decode_point_def lift_err_def)
next
  case (Full matrix)
  have ok: "\<not> sp" "length matrix = channels" "\<forall>row \<in> set (map (map symbol) matrix). length row = bands"
    "\<forall>row \<in> set (map (map symbol) matrix). \<forall>v \<in> set row. v < steps mode" "map (map symbol) matrix \<noteq> []"
    using assms Full code_ok_symbol [OF matrix_table_complete] by (auto simp: list_all_iff)
  obtain m where m: "decode_full_coefficients mode (map (map symbol) matrix) = Inr m"
    using decode_full_ok [OF ok(5) assms(3) ok(3,4)] by blast
  have "\<forall>v \<in> set (full_channel (steps mode) p row). v < steps mode" for p row
    using full_channel_nth steps_bounds(1) [of mode] by (auto simp: in_set_conv_nth)
  then show ?thesis
    using m ok decode_full_Inr(1) [OF m] Full by (auto simp: decode_point_def lift_err_def)
qed

lemma dequantize_ok: "q < steps m \<Longrightarrow> \<exists>x. dequantize num q m = Inr x"
  by (simp add: dequantize_def)

lemma decode_object_ok:
  assumes "object_ok channels ob" and "channels \<in> {5, 7}" and "length previous = channels"
    and "0 < timeslots" and "timeslots < 2 ^ 32"
  shows "\<exists>r. decode_object env channels timeslots (i, ob, previous) = Inr r"
proof (cases "info_of ob")
  case None
  then have "\<not> present ob" by (auto simp: info_of_def split: if_splits)
  then show ?thesis by (simp add: decode_object_absent)
next
  case (Some info)
  have ob: "ob = object_of info (data_points ob)" "info_ok (Some info)"
    "\<forall>p \<in> set (data_points ob). payload_ok channels (info_band_count info) (info_sparse info) (info_quant_mode info) (payload p)"
    using assms(1) Some by (auto simp: object_ok_def list_all_iff)
  obtain bc where bc: "band_count_try_from (info_band_count info) = Inr bc" "band_count_value bc = info_band_count info"
    using ob(2) BAND_COUNTS_valid by (auto simp: info_ok_def)
  have pos: "0 < info_band_count info" using bc(2) by (cases bc) (auto simp: band_count_value_def)
  have fields: "present ob" "obj_quant_mode ob = Some (info_quant_mode info)" "band_count ob = Some (info_band_count info)"
    "obj_slope ob = Some (info_slope info)" "sparse ob = Some (info_sparse info)"
    by (subst ob(1), simp add: object_of_def)+
  have offs: "info_offsets info = map offset_timeslot (data_points ob)"
    using Some by (auto simp: info_of_def split: if_splits)
  let ?mode = "info_quant_mode info" and ?bands = "info_band_count info"
  note point = decode_point_ok [OF _ assms(2) pos]
  obtain quant where quant: "attempt_map (decode_point channels ?mode (info_sparse info) i) (data_points ob) = Inr quant"
    using attempt_map_ok [of "data_points ob"] point ob(3) by meson
  have qshape: "length m = channels \<and> (\<forall>row \<in> set m. length row = ?bands \<and> (\<forall>v \<in> set row. v < steps ?mode))"
    if m: "m \<in> set quant" for m
  proof -
    obtain p where "p \<in> set (data_points ob)" "decode_point channels ?mode (info_sparse info) i p = Inr m"
      using list_all2_mem2 [OF quant [unfolded attempt_map_Inr] m] by auto
    then show ?thesis using point [of "info_sparse info" ?mode p i] ob(3) by auto
  qed
  have dq: "\<exists>ys. attempt_map (attempt_map (attempt_map (\<lambda>v. dequantize (of_int_num env) v ?mode))) quant = Inr ys"
  proof (intro attempt_map_ok)
    fix m row v assume "m \<in> set quant" "row \<in> set m" "v \<in> set row"
    then show "\<exists>x. dequantize (of_int_num env) v ?mode = Inr x" using qshape dequantize_ok by blast
  qed
  then obtain dequant where dequant:
    "attempt_map (attempt_map (attempt_map (\<lambda>v. dequantize (of_int_num env) v ?mode))) quant = Inr dequant" by blast
  have dshape: "length dequant = length quant"
    "\<forall>pt \<in> set dequant. length pt = channels \<and> (\<forall>row \<in> set pt. length row = ?bands)"
  proof -
    note all = dequant [unfolded attempt_map_Inr]
    show "length dequant = length quant" using all by (simp add: list_all2_lengthD)
    show "\<forall>pt \<in> set dequant. length pt = channels \<and> (\<forall>row \<in> set pt. length row = ?bands)"
    proof
      fix pt assume "pt \<in> set dequant"
      then obtain m where m: "m \<in> set quant" "list_all2 (list_all2 (\<lambda>v y. dequantize (of_int_num env) v ?mode = Inr y)) m pt"
        using list_all2_mem2 [OF all] by blast
      then have "length pt = channels" using qshape by (metis list_all2_lengthD)
      moreover have "length row = ?bands" if "row \<in> set pt" for row
        using list_all2_mem2 [OF m(2) that] qshape [OF m(1)] by (metis list_all2_lengthD)
      ultimately show "length pt = channels \<and> (\<forall>row \<in> set pt. length row = ?bands)" by blast
    qed
  qed
  have n: "length quant = length (data_points ob)"
    using quant by (auto simp: attempt_map_Inr dest: list_all2_lengthD)
  have two: "length (data_points ob) = 1 \<or> length (data_points ob) = 2"
    using ob(2) offs by (auto simp: info_ok_def)
  have steep: "info_slope info = Steep \<longrightarrow> None \<notin> set (map offset_timeslot (data_points ob))"
    using ob(2) by (auto simp: info_ok_def offs list_all_iff)
  have "\<exists>im. interpolate_matrix (of_int_num env) dequant previous (info_slope info)
      (map offset_timeslot (data_points ob)) bc timeslots = Inr im"
    using dshape n two assms(3-5) steep bc(2) by (intro interpolate_ok) auto
  then show ?thesis
    using fields quant dequant bc(1)
    by (auto simp: decode_object_def required_def lift_err_def)
qed


section \<open>One frame\<close>

definition frame_previous :: "joc_frame \<Rightarrow> 'f :: zero joc_state \<Rightarrow> 'f list list list" where
  "frame_previous frame st =
     (if requires_state_reset frame st \<or> length (previous_matrices st) \<noteq> length (objects frame)
         \<or> (\<exists>ob \<in> set (previous_matrices st). length ob \<noteq> channel_count (header frame))
      then zero_matrices (length (objects frame)) (channel_count (header frame))
      else previous_matrices st)"

definition frame_timeslots :: "'f cplx list list list \<Rightarrow> nat" where
  "frame_timeslots inputs = (case inputs of [] \<Rightarrow> 0 | channel # _ \<Rightarrow> length channel)"

definition frame_results ::
  "'f qmf_env \<Rightarrow> joc_frame \<Rightarrow> 'f cplx list list list \<Rightarrow> 'f joc_state \<Rightarrow>
   joc_decode_error + ('f list list list \<times> 'f row_stages option \<times> 'f :: {zero, plus, minus, times, inverse} list list) list" where
  "frame_results env frame inputs st =
     attempt_map (decode_object env (channel_count (header frame)) (frame_timeslots inputs))
       (zip [0..<length (objects frame)] (zip (objects frame) (frame_previous frame st)))"

definition frame_synthesis :: "joc_frame \<Rightarrow> 'f :: zero joc_state \<Rightarrow> 'f qmf list" where
  "frame_synthesis frame st =
     (if requires_state_reset frame st \<or> length (synthesis_states st) \<noteq> length (objects frame)
      then replicate (length (objects frame)) new_qmf else synthesis_states st)"

lemma decode_frame_error:
  assumes "decode_frame env frame inputs st = (Inl e, st')"
  shows "st' = st"
  using assms unfolding decode_frame_def Let_def by (simp split: if_splits sum.splits)

lemma decode_frame_Inr:
  assumes "decode_frame env frame inputs st = (Inr d, st')"
  obtains results where
    "frame_results env frame inputs st = Inr results"
    "object_count (header frame) = length (objects frame)"
    "length inputs = channel_count (header frame)" "\<forall>channel \<in> set inputs. length channel = frame_timeslots inputs"
    "reconstruct_basis_qmf inputs (map fst results) = Inr (reconstruction_qmf d)"
    "reconstruction_basis d = map fst (map2 (synthesize_slots env) (reconstruction_qmf d) (frame_synthesis frame st))"
    "stages d = map (fst \<circ> snd) results" "state_reset d = requires_state_reset frame st"
    "st' = st\<lparr>previous_sequence := Some (sequence_count frame),
        state_channel_count := Some (channel_count (header frame)),
        previous_matrices := map (snd \<circ> snd) results,
        synthesis_states := map snd (map2 (synthesize_slots env) (reconstruction_qmf d) (frame_synthesis frame st))\<rparr>"
  using assms unfolding decode_frame_def Let_def frame_previous_def [symmetric] frame_timeslots_def [symmetric]
    frame_results_def [symmetric] frame_synthesis_def [symmetric]
  by (auto split: if_splits sum.splits)

lemma decode_frame_run:
  assumes "frame_results env frame inputs st = Inr results"
    and "object_count (header frame) = length (objects frame)"
    and "length inputs = channel_count (header frame)" and "\<forall>channel \<in> set inputs. length channel = frame_timeslots inputs"
    and "reconstruct_basis_qmf inputs (map fst results) = Inr rows"
  shows "\<exists>d st'. decode_frame env frame inputs st = (Inr d, st')"
  using assms unfolding decode_frame_def Let_def frame_previous_def [symmetric] frame_timeslots_def [symmetric]
    frame_results_def [symmetric] frame_synthesis_def [symmetric]
  by simp

text \<open>The matrices carried in the state, for a topology or none.\<close>

definition shapes_ok :: "'f joc_state \<Rightarrow> bool" where
  "shapes_ok st \<longleftrightarrow> (\<forall>m \<in> set (previous_matrices st). \<forall>row \<in> set m. length row = QMF_SUBBANDS)"

lemma frame_previous_shapes:
  assumes "shapes_ok st"
  shows "length (frame_previous frame st) = length (objects frame)"
    and "\<forall>m \<in> set (frame_previous frame st). matrix_shape (channel_count (header frame)) m"
  using assms by (auto simp: frame_previous_def shapes_ok_def matrix_shape_def zero_matrices_def split: if_splits)

lemma frame_results_nth:
  assumes "frame_results env frame inputs st = Inr results" and "shapes_ok st"
  shows "length results = length (objects frame)"
    and "\<And>i. i < length (objects frame) \<Longrightarrow>
      decode_object env (channel_count (header frame)) (frame_timeslots inputs)
        (i, objects frame ! i, frame_previous frame st ! i) = Inr (results ! i)"
  using assms frame_previous_shapes(1) [OF assms(2), of frame]
  by (auto simp: frame_results_def attempt_map_Inr list_all2_conv_all_nth)

lemma frame_result_shapes:
  assumes "frame_results env frame inputs st = Inr results" and "shapes_ok st" and "r \<in> set results"
  shows "length (fst r) = channel_count (header frame)" and "\<forall>ch \<in> set (fst r). length ch = frame_timeslots inputs"
    and "matrix_shape (channel_count (header frame)) (snd (snd r))"
proof -
  note nth = frame_results_nth [OF assms(1,2)]
  obtain i where i: "i < length (objects frame)" "r = results ! i"
    using assms(3) nth(1) by (metis in_set_conv_nth)
  have "decode_object env (channel_count (header frame)) (frame_timeslots inputs)
      (i, objects frame ! i, frame_previous frame st ! i) = Inr (fst r, fst (snd r), snd (snd r))"
    using nth(2) [OF i(1)] i(2) by simp
  moreover have "matrix_shape (channel_count (header frame)) (frame_previous frame st ! i)"
    using frame_previous_shapes [OF assms(2), of frame] i(1) by simp
  ultimately show "length (fst r) = channel_count (header frame)"
    "\<forall>ch \<in> set (fst r). length ch = frame_timeslots inputs" "matrix_shape (channel_count (header frame)) (snd (snd r))"
    by (rule decode_object_shapes)+
qed

lemma decode_frame_shapes:
  assumes "decode_frame env frame inputs st = (Inr d, st')" and "shapes_ok st"
  shows "shapes_ok st'"
proof -
  obtain results where r: "frame_results env frame inputs st = Inr results"
    and st': "previous_matrices st' = map (snd \<circ> snd) results"
    by (rule decode_frame_Inr [OF assms(1)]) simp
  show ?thesis
    using frame_result_shapes(3) [OF r assms(2)] by (auto simp: shapes_ok_def st' matrix_shape_def)
qed

text \<open>A well-formed frame decodes against any inputs of its topology.\<close>

lemma decode_frame_total:
  assumes "joc_frame_ok frame" and "shapes_ok st"
    and "length inputs = channel_count (header frame)" and "\<forall>channel \<in> set inputs. length channel = T"
    and "0 < T" and "T < 2 ^ 32"
  shows "\<exists>d st'. decode_frame env frame inputs st = (Inr d, st')"
proof -
  have f: "header_ok (header frame)" "length (objects frame) = object_count (header frame)"
    "\<forall>ob \<in> set (objects frame). object_ok (channel_count (header frame)) ob"
    using assms(1) by (auto simp: joc_frame_ok_def list_all_iff)
  have ch: "channel_count (header frame) \<in> {5, 7}"
    using f(1) downmix_channels_57 by (auto simp: header_ok_def)
  then obtain first rest where inputs: "inputs = first # rest" using assms(3) by (cases inputs) auto
  then have T: "frame_timeslots inputs = T" using assms(4) by (simp add: frame_timeslots_def)
  note prev = frame_previous_shapes [OF assms(2), of frame]
  have "\<exists>results. frame_results env frame inputs st = Inr results"
    unfolding frame_results_def T
  proof (rule attempt_map_ok)
    fix x assume "x \<in> set (zip [0..<length (objects frame)] (zip (objects frame) (frame_previous frame st)))"
    moreover obtain i ob m where eq: "x = (i, ob, m)" by (cases x)
    ultimately have x: "x = (i, ob, m)" "ob \<in> set (objects frame)" "m \<in> set (frame_previous frame st)"
      by (metis eq set_zip_rightD set_zip_leftD)+
    show "\<exists>y. decode_object env (channel_count (header frame)) T x = Inr y"
      using x decode_object_ok [of "channel_count (header frame)" ob m T env i] f(3) ch prev(2) assms(5,6)
      by (auto simp: matrix_shape_def)
  qed
  then obtain results where r: "frame_results env frame inputs st = Inr results" by blast
  have "\<exists>rows. reconstruct_basis_qmf inputs (map fst results) = Inr rows"
    using frame_result_shapes(1,2) [OF r assms(2)] assms(3,4) T unfolding inputs reconstruct_basis_qmf_def
    by (auto simp: Let_def)
  then show ?thesis
    using decode_frame_run [OF r] f(2) assms(3,4) T by auto
qed

section \<open>Bounded coefficients\<close>

definition coefficients_ok :: "real joc_state \<Rightarrow> bool" where
  "coefficients_ok st \<longleftrightarrow> shapes_ok st \<and> (\<forall>m \<in> set (previous_matrices st). matrix_within coefficient_bound m)"

lemma attempt_map3_within:
  assumes "attempt_map (attempt_map (attempt_map (\<lambda>v. dequantize real v mode))) quant = Inr dequant"
    and "point \<in> set dequant"
  shows "matrix_within coefficient_bound point"
  unfolding matrix_within_def
proof (intro ballI)
  fix row x assume row: "row \<in> set point" and x: "x \<in> set row"
  obtain m where m: "list_all2 (\<lambda>row y. attempt_map (\<lambda>v. dequantize real v mode) row = Inr y) m point"
    using list_all2_mem2 [OF assms(1) [unfolded attempt_map_Inr [of "attempt_map (attempt_map (\<lambda>v. dequantize real v mode))"]] assms(2)]
    by (auto simp: attempt_map_Inr [of "attempt_map (\<lambda>v. dequantize real v mode)"])
  obtain vs where "attempt_map (\<lambda>v. dequantize real v mode) vs = Inr row" using list_all2_mem2 [OF m row] by blast
  then obtain v where "dequantize real v mode = Inr x"
    using list_all2_mem2 [OF _ x] unfolding attempt_map_Inr by blast
  then show "\<bar>x\<bar> \<le> coefficient_bound" by (rule dequantize_bound)
qed

lemma coefficient_bound_pos: "0 \<le> coefficient_bound"
  by (simp add: coefficient_bound_def)

lemma interpolate_within:
  assumes "interpolate_matrix real points previous sl offsets bc timeslots = Inr im"
    and "matrix_shape (length previous) previous" and "matrix_within B previous" and "\<forall>point \<in> set points. matrix_within B point"
  shows "\<forall>slot \<in> set (im_matrix im). matrix_within B slot" and "matrix_within B (next_previous im)"
proof -
  note i = interpolate_Inr [OF assms(1)]
  have pts: "\<bar>points ! k ! c ! band_of bc s\<bar> \<le> B" if "k < length points" "c < length previous" "s < 64" for k c s
  proof -
    have "points ! k \<in> set points" using that by simp
    moreover from this have row: "points ! k ! c \<in> set (points ! k)" using i(4) that by simp
    moreover have "points ! k ! c ! band_of bc s \<in> set (points ! k ! c)"
    proof (rule nth_mem)
      have "length (points ! k ! c) = band_count_value bc" using row \<open>points ! k \<in> set points\<close> i(4) by blast
      then show "band_of bc s < length (points ! k ! c)" using band_of_total(2) that(3) by simp
    qed
    ultimately show ?thesis using assms(4) by (auto simp: matrix_within_def)
  qed
  have prev: "\<bar>previous ! c ! s\<bar> \<le> B" if "c < length previous" "s < 64" for c s
  proof -
    have "previous ! c \<in> set previous" using that by simp
    moreover from this have "previous ! c ! s \<in> set (previous ! c)"
      using assms(2) that by (intro nth_mem) (simp add: matrix_shape_def QMF_SUBBANDS_def)
    ultimately show ?thesis using assms(3) by (auto simp: matrix_within_def)
  qed
  have two: "length points \<noteq> 1 \<Longrightarrow> 1 < length points" "0 < length points" using i(1) by auto
  show "\<forall>slot \<in> set (im_matrix im). matrix_within B slot"
    using i(1) by (auto simp: i(5) matrix_within_def QMF_SUBBANDS_def intro!: interpolated_value_bound prev pts)
  have "last points = points ! (length points - 1)" using two(2) by (intro last_conv_nth) auto
  then show "matrix_within B (next_previous im)"
    using two(2) by (auto simp: i(5) matrix_within_def QMF_SUBBANDS_def intro!: pts)
qed

lemma decode_object_within:
  assumes "decode_object env channels timeslots (i, ob, previous) = Inr (matrix, stage, carry)"
    and "of_int_num env = real" and "matrix_shape channels previous" and "matrix_within coefficient_bound previous"
  shows "matrix_within coefficient_bound carry"
    and "\<And>sg slot. stage = Some sg \<Longrightarrow> slot \<in> set (interpolated sg) \<Longrightarrow> matrix_within coefficient_bound slot"
proof -
  have "matrix_within coefficient_bound carry \<and>
      (\<forall>sg slot. stage = Some sg \<longrightarrow> slot \<in> set (interpolated sg) \<longrightarrow> matrix_within coefficient_bound slot)"
  proof (cases "present ob")
    case False
    then show ?thesis using assms decode_object_absent [of ob env channels timeslots i previous] by auto
  next
    case True
    obtain mode bc sl quant dequant im where
      d: "attempt_map (attempt_map (attempt_map (\<lambda>v. dequantize (of_int_num env) v mode))) quant = Inr dequant"
      and im: "interpolate_matrix (of_int_num env) dequant previous sl (map offset_timeslot (data_points ob)) bc timeslots = Inr im"
      and c: "carry = next_previous im"
      and s: "\<exists>q e. stage = Some \<lparr>quantized = q, dequantized = e, interpolated = im_matrix im\<rparr>"
      by (rule decode_object_present [OF assms(1) True]) blast
    have shape: "matrix_shape (length previous) previous" using assms(3) by (simp add: matrix_shape_def)
    have pts: "\<forall>point \<in> set dequant. matrix_within coefficient_bound point"
      using attempt_map3_within [OF d [unfolded assms(2)]] by blast
    show ?thesis
      using interpolate_within [OF im [unfolded assms(2)] shape assms(4) pts] c s by auto
  qed
  then show "matrix_within coefficient_bound carry"
    "\<And>sg slot. stage = Some sg \<Longrightarrow> slot \<in> set (interpolated sg) \<Longrightarrow> matrix_within coefficient_bound slot" by blast+
qed

lemma decode_frame_within:
  assumes "decode_frame env frame inputs st = (Inr d, st')" and "of_int_num env = real" and "coefficients_ok st"
  shows "coefficients_ok st'"
    and "\<And>sg slot. Some sg \<in> set (stages d) \<Longrightarrow> slot \<in> set (interpolated sg) \<Longrightarrow> matrix_within coefficient_bound slot"
proof -
  have shapes: "shapes_ok st" using assms(3) by (simp add: coefficients_ok_def)
  obtain results where r: "frame_results env frame inputs st = Inr results"
    and sg: "stages d = map (fst \<circ> snd) results"
    and st': "previous_matrices st' = map (snd \<circ> snd) results"
    by (rule decode_frame_Inr [OF assms(1)]) simp
  note nth = frame_results_nth [OF r shapes]
  have prev: "matrix_within coefficient_bound m" if "m \<in> set (frame_previous frame st)" for m
    using that assms(3) coefficient_bound_pos
    by (auto simp: frame_previous_def coefficients_ok_def zero_matrices_def matrix_within_def split: if_splits)
  have each: "matrix_within coefficient_bound (snd (snd x))
      \<and> (\<forall>s slot. fst (snd x) = Some s \<longrightarrow> slot \<in> set (interpolated s) \<longrightarrow> matrix_within coefficient_bound slot)"
    if x: "x \<in> set results" for x
  proof -
    obtain i where i: "i < length (objects frame)" "x = results ! i"
      using x nth(1) by (metis in_set_conv_nth)
    have run: "decode_object env (channel_count (header frame)) (frame_timeslots inputs)
        (i, objects frame ! i, frame_previous frame st ! i) = Inr (fst x, fst (snd x), snd (snd x))"
      using nth(2) [OF i(1)] i(2) by simp
    have p: "frame_previous frame st ! i \<in> set (frame_previous frame st)"
      using i(1) frame_previous_shapes(1) [OF shapes, of frame] by simp
    then have "matrix_shape (channel_count (header frame)) (frame_previous frame st ! i)"
      using frame_previous_shapes(2) [OF shapes, of frame] by blast
    from decode_object_within [OF run assms(2) this prev [OF p]] show ?thesis by blast
  qed
  show "coefficients_ok st'"
    using each decode_frame_shapes [OF assms(1) shapes] by (auto simp: coefficients_ok_def st')
  show "\<And>s slot. Some s \<in> set (stages d) \<Longrightarrow> slot \<in> set (interpolated s) \<Longrightarrow> matrix_within coefficient_bound slot"
    using each by (auto simp: sg)
qed

section \<open>Streams of frames\<close>

text \<open>The decoder is an atomic step over its real states; the locale's lemmas hold for streams.\<close>

definition decode_input ::
  "real qmf_env \<Rightarrow> joc_frame \<times> real cplx list list list \<Rightarrow> (real joc_state, joc_decode_error, real decoded_joc_frame) rd" where
  "decode_input env arg = decode_frame (env\<lparr>of_int_num := real\<rparr>) (fst arg) (snd arg)"

interpretation joc_step: atomic_step "decode_input env" coefficients_ok for env
  by unfold_locales
    (auto simp: decode_input_def dest: decode_frame_error decode_frame_within(1))

lemma new_joc_state_ok: "coefficients_ok new_joc_state"
  by (simp add: coefficients_ok_def shapes_ok_def new_joc_state_def)

section \<open>Splices\<close>

text \<open>A frame that resets the decoder decodes as on any other state that it resets.\<close>

lemma decode_frame_reset:
  assumes "requires_state_reset frame st" and "requires_state_reset frame st2"
  shows "fst (decode_frame env frame inputs st) = fst (decode_frame env frame inputs st2)"
  using assms unfolding decode_frame_def Let_def by (auto split: if_splits sum.splits)

end
