(* ===== verification/ProofCache.thy ===== *)
theory ProofCache
  imports Prelude
begin

text \<open>
  The contract of a parse proof: it is made from a successful run on a key (the bytes and the
  parser arguments), and gives its value back for exactly that key.  The client looks a key up
  and runs the parser on a miss; the lemma of the locale says that this is the parser.
\<close>

definition cached :: "('p \<Rightarrow> 'k \<Rightarrow> 'v option) \<Rightarrow> ('k \<Rightarrow> 'e + 'v) \<Rightarrow> 'p \<Rightarrow> 'k \<Rightarrow> 'e + 'v" where
  "cached matching run p k = (case matching p k of Some v \<Rightarrow> Inr v | None \<Rightarrow> run k)"

locale proof_cache =
  fixes run :: "'k \<Rightarrow> 'e + 'v"
    and make :: "'k \<Rightarrow> 'e + 'p"
    and matching :: "'p \<Rightarrow> 'k \<Rightarrow> 'v option"
  assumes make_error: "make k = Inl e \<longleftrightarrow> run k = Inl e"
    and make_value: "make k = Inr p \<Longrightarrow> run k = Inr v \<Longrightarrow> matching p k' = (if k' = k then Some v else None)"
begin

lemma made_from_success: "make k = Inr p \<Longrightarrow> \<exists>v. run k = Inr v"
  using make_error [of k] by (cases "run k") auto

lemma hit: "make k = Inr p \<Longrightarrow> matching p k' = Some v \<Longrightarrow> k' = k \<and> run k' = Inr v"
  by (frule made_from_success) (auto dest!: make_value [where k' = k'] split: if_splits)

lemma hit_iff: "make k = Inr p \<Longrightarrow> (\<exists>v. matching p k' = Some v) \<longleftrightarrow> k' = k"
  by (frule made_from_success) (auto dest!: make_value [where k' = k'] split: if_splits)

lemma transparent: "make k = Inr p \<Longrightarrow> cached matching run p k' = run k'"
  using hit [of k p k'] by (auto simp: cached_def split: option.splits)

end

end
