(* ===== verification/JocProof.thy ===== *)
theory JocProof
  imports JocParser ProofCache
begin

text \<open>The parse proof of the JOC payload, \<open>crates/openjoc-joc/src/parsed_proof.rs\<close>.\<close>

record parsed_joc_proof =
  joc_proof_raw :: "u8 list"
  joc_proof_parsed :: joc_frame

definition joc_proof_parse :: "u8 list \<Rightarrow> joc_parse_error + parsed_joc_proof" where
  "joc_proof_parse raw =
     (case parse_joc_payload raw of
        Inl e \<Rightarrow> Inl e
      | Inr parsed \<Rightarrow> Inr \<lparr>joc_proof_raw = raw, joc_proof_parsed = parsed\<rparr>)"

definition into_matching_frame :: "parsed_joc_proof \<Rightarrow> u8 list \<Rightarrow> joc_frame option" where
  "into_matching_frame p raw = (if joc_proof_raw p = raw then Some (joc_proof_parsed p) else None)"

interpretation joc_cache: proof_cache parse_joc_payload joc_proof_parse into_matching_frame
  by unfold_locales (auto simp: joc_proof_parse_def into_matching_frame_def split: sum.splits)

end
