(* ===== verification/JocProps.thy ===== *)
theory JocProps
  imports JocDecoderSpec JocProof
begin

text \<open>The properties of the JOC decoder, each with a witness on a small frame.\<close>

section \<open>Example frame\<close>

text \<open>Five channels and two objects: an absent one, and one with a full matrix of one band.\<close>

definition one_code :: huffman_codeword where
  "one_code = \<lparr>cw_bits = [False], symbol = 0\<rparr>"

definition full_object :: joc_object_frame where
  "full_object = \<lparr>present = True, band_index = Some 0, band_count = Some 1, sparse = Some False,
     obj_quant_mode = Some Coarse96, obj_slope = Some Smooth,
     data_points = [\<lparr>offset_timeslot = None, payload = Full [[one_code], [one_code], [one_code], [one_code], [one_code]]\<rparr>]\<rparr>"

definition small_frame :: joc_frame where
  "small_frame = \<lparr>header = \<lparr>downmix_index = 0, channel_count = 5, object_count_bits = 1, object_count = 2,
       extension_index = 0\<rparr>, clip_gain_x_bits = 4, clip_gain_y_bits = 0, sequence_count = 7,
     objects = [absent_object, full_object]\<rparr>"

lemma small_frame_ok: "joc_frame_ok small_frame"
  unfolding joc_frame_ok_def by (intro conjI; code_simp)

lemma small_frame_bits: "length (joc_frame_bits small_frame) = 44"
  by code_simp

lemma small_frame_fits: "8 * length (joc_encode small_frame) \<le> usize_max"
  unfolding joc_encode_def length_pack_bits small_frame_bits by (simp add: usize_max_def)

definition silent_inputs :: "real cplx list list list" where
  "silent_inputs = replicate 5 [replicate 64 (0, 0)]"

definition unit_env :: "real qmf_env" where
  "unit_env = \<lparr>of_int_num = real, prototype = replicate 640 1,
     analysis_phases = replicate 8192 (1, 0), synthesis_phases = replicate 8192 (1, 0)\<rparr>"

section \<open>Huffman codes\<close>

text \<open>
  C12: each of the six normative trees is a complete prefix code.  The trees carry 96, 192, 96,
  192, 5 and 7 symbols; every symbol has exactly one codeword, reading that codeword returns the
  symbol with its bits and consumes nothing else whatever follows, and there is no codeword for
  any other value.
\<close>

theorem huffman_tables_are_complete_codes:
  assumes "(n, nodes) \<in> set (zip [96, 192, 96, 192, 5, 7] all_huffman_tables)"
  shows "((\<exists>bs. walk nodes 0 bs = Some s) \<longleftrightarrow> s < n)
    \<and> (walk nodes 0 bs = Some s \<and> walk nodes 0 cs = Some s \<longrightarrow> bs = cs)
    \<and> (walk nodes 0 bs = Some s \<and> reader_ok r \<and> unread r = bs @ rest \<longrightarrow>
       decode_huffman_codeword nodes None r = (Inr \<lparr>cw_bits = bs, symbol = s\<rparr>, skip (length bs) r))"
proof -
  have complete: "complete_table n nodes"
    using assms by (auto simp: all_huffman_tables_def complete_tables)
  have "(\<exists>bs. walk nodes 0 bs = Some s) \<longleftrightarrow> s < n" by (rule complete_codewords(1) [OF complete])
  moreover have "walk nodes 0 bs = Some s \<and> walk nodes 0 cs = Some s \<longrightarrow> bs = cs"
    using complete_codewords(2) [OF complete] by blast
  moreover have "walk nodes 0 bs = Some s \<and> reader_ok r \<and> unread r = bs @ rest \<longrightarrow>
       decode_huffman_codeword nodes None r = (Inr \<lparr>cw_bits = bs, symbol = s\<rparr>, skip (length bs) r)"
    using complete_forward [OF complete] by (auto intro: readsD [OF reads_decode_huffman])
  ultimately show ?thesis by blast
qed

theorem huffman_tables_are_complete_codes_witness:
  "(\<exists>bs. walk JOC_HUFF_CODE_5CH_POS_INDEX_SPARSE 0 bs = Some 4)
   \<and> \<not> (\<exists>bs. walk JOC_HUFF_CODE_5CH_POS_INDEX_SPARSE 0 bs = Some 5)
   \<and> decode_huffman_codeword JOC_HUFF_CODE_5CH_POS_INDEX_SPARSE None (new_reader [0xE0])
       = (Inr \<lparr>cw_bits = [True, True, True], symbol = 4\<rparr>, skip 3 (new_reader [0xE0]))"
proof -
  have mem: "(5, JOC_HUFF_CODE_5CH_POS_INDEX_SPARSE) \<in> set (zip [96, 192, 96, 192, 5, 7] all_huffman_tables)"
    by (simp add: all_huffman_tables_def)
  have w: "walk JOC_HUFF_CODE_5CH_POS_INDEX_SPARSE 0 [True, True, True] = Some 4" by code_simp
  have fits: "8 * length [0xE0 :: u8] \<le> usize_max" by (simp add: usize_max_def)
  have u: "unread (new_reader [0xE0]) = [True, True, True] @ [False, False, False, False, False]"
    unfolding unread_new_reader [OF fits] by code_simp
  show ?thesis
    using huffman_tables_are_complete_codes [OF mem, of 4] huffman_tables_are_complete_codes [OF mem, of 5]
      w new_reader_ok [OF fits] u
    by (metis eval_nat_numeral(3) lessI length_Cons list.size(3) nat_less_le numeral_3_eq_3)
qed

text \<open>
  Decoding with a normative tree never meets an invalid node or a cycle: on a well-formed
  reader it returns a codeword, or the input had fewer bits left than the tree has nodes and the
  error is truncation.
\<close>

theorem huffman_decoding_is_total:
  assumes "nodes \<in> set all_huffman_tables" and "reader_ok r"
  shows "(\<exists>c r'. decode_huffman_codeword nodes None r = (Inr c, r'))
    \<or> (\<exists>r'. decode_huffman_codeword nodes None r = (Inl TruncatedCodeword, r'))
      \<and> length (unread r) < length nodes"
proof -
  have "\<exists>n. complete_table n nodes"
    using assms(1) complete_tables by (auto simp: all_huffman_tables_def)
  then have "forward nodes \<and> length nodes \<le> usize_max \<and> nodes \<noteq> []" using complete_forward by blast
  then show ?thesis
    using huffman_loop_total [of nodes 0 r 0 usize_max "[]"] assms(2)
    by (auto simp: decode_huffman_codeword_def)
qed

theorem huffman_decoding_is_total_witness:
  "\<exists>c r'. decode_huffman_codeword JOC_HUFF_CODE_5CH_POS_INDEX_SPARSE None (new_reader [0]) = (Inr c, r')"
  using huffman_decoding_is_total [of JOC_HUFF_CODE_5CH_POS_INDEX_SPARSE "new_reader [0]"]
    new_reader_ok [of "[0]"] unread_new_reader [of "[0]"]
  by (auto simp: all_huffman_tables_def JOC_HUFF_CODE_5CH_POS_INDEX_SPARSE_def usize_max_def)

section \<open>The payload parser\<close>

text \<open>
  C1: the parser and the encoder are inverse to each other.  A payload is accepted with result
  \<open>f\<close> exactly when \<open>f\<close> is a well-formed frame (declared topology, sizes, codewords of the
  selected trees, offsets) and the payload is the encoding of \<open>f\<close>: reserved values, trailing
  bytes and nonzero padding are all refused, and no two payloads parse to the same frame.
\<close>

theorem joc_parser_accepts_exactly_encodings:
  assumes "8 * length raw \<le> usize_max"
  shows "parse_joc_payload raw = Inr f \<longleftrightarrow> joc_frame_ok f \<and> raw = joc_encode f"
  using parse_joc_payload_Inr [of raw f] parse_joc_encoded [of f] assms by blast

theorem joc_parser_accepts_exactly_encodings_witness:
  "parse_joc_payload (joc_encode small_frame) = Inr small_frame \<and> length (joc_encode small_frame) = 6"
proof
  show "parse_joc_payload (joc_encode small_frame) = Inr small_frame"
    using joc_parser_accepts_exactly_encodings [OF small_frame_fits] small_frame_ok by blast
  show "length (joc_encode small_frame) = 6"
    using length_pack_bits [of "joc_frame_bits small_frame"] by (simp add: joc_encode_def small_frame_bits)
qed

text \<open>
  The parse proof is a transparent cache.  A proof made from a payload gives its frame back
  for that payload only, and looking a payload up before parsing always yields what the parser
  returns.
\<close>

theorem joc_proof_is_transparent:
  assumes "joc_proof_parse raw = Inr p"
  shows "cached into_matching_frame parse_joc_payload p other = parse_joc_payload other
    \<and> ((\<exists>f. into_matching_frame p other = Some f) \<longleftrightarrow> other = raw)"
  using joc_cache.transparent [OF assms] joc_cache.hit_iff [OF assms] by blast+

theorem joc_proof_is_transparent_witness:
  "\<exists>p. joc_proof_parse (joc_encode small_frame) = Inr p \<and> into_matching_frame p (joc_encode small_frame) \<noteq> None
     \<and> into_matching_frame p [] = None"
proof -
  have run: "parse_joc_payload (joc_encode small_frame) = Inr small_frame"
    by (rule parse_joc_encoded [OF small_frame_ok small_frame_fits])
  then obtain p where p: "joc_proof_parse (joc_encode small_frame) = Inr p" by (simp add: joc_proof_parse_def)
  have "joc_encode small_frame \<noteq> []"
    using length_pack_bits [of "joc_frame_bits small_frame"] small_frame_bits by (auto simp: joc_encode_def)
  then show ?thesis
    using p joc_proof_is_transparent [OF p, of "joc_encode small_frame"] joc_proof_is_transparent [OF p, of "[]"]
    by auto
qed

section \<open>Coefficients\<close>

text \<open>
  The full differential decoder computes running sums.  Entry \<open>b\<close> of a channel is half the
  number of quantizer steps plus the sum of the first \<open>b + 1\<close> symbols, modulo the steps; a
  matrix is decoded exactly when it is a non-empty rectangle of symbols below the steps.
\<close>

theorem full_decoder_is_running_sum:
  assumes "decode_full_coefficients mode rows = Inr matrix" and "c < length rows" and "b < length (rows ! c)"
  shows "matrix ! c ! b = (steps mode div 2 + sum_list (take (Suc b) (rows ! c))) mod steps mode
    \<and> length matrix = length rows \<and> length (matrix ! c) = length (rows ! c)"
  using decode_full_Inr(1) [OF assms(1)] assms(2,3) by (simp_all add: full_channel_nth)

theorem full_decoder_is_running_sum_witness:
  "\<exists>m. decode_full_coefficients Coarse96 [[0, 1, 95], [95, 2, 1]] = Inr m \<and> m ! 1 ! 2 = 50"
proof -
  have run: "decode_full_coefficients Coarse96 [[0, 1, 95], [95, 2, 1]] = Inr [[48, 49, 48], [47, 49, 50]]"
    by code_simp
  show ?thesis
    using full_decoder_is_running_sum [OF run, of 1 2] run by (simp add: steps_def)
qed

text \<open>
  The sparse differential decoder touches one channel per band.  In every band exactly the
  selected channel differs from the neutral value by construction: it continues from its own
  value in the band before, all other channels hold the neutral offset, and every entry stays
  below the number of steps.
\<close>

theorem sparse_decoder_one_channel_per_band:
  assumes "decode_sparse_coefficients channels mode initial deltas vec = Inr matrix"
    and "c < channels" and "b < length vec"
  shows "matrix ! c ! b =
      (if c = selected_channel channels (initial # deltas) b
       then ((if b = 0 then sparse_offset mode else matrix ! c ! (b - 1)) + vec ! b) mod steps mode
       else sparse_offset mode)
    \<and> matrix ! c ! b < steps mode \<and> length matrix = channels \<and> length (matrix ! c) = length vec"
proof -
  note spec = decode_sparse_Inr [OF assms(1)]
  note entry = spec(8) [OF assms(2,3)]
  have "matrix ! c ! b =
      (if c = selected_channel channels (initial # deltas) b
       then ((if b = 0 then sparse_offset mode else matrix ! c ! (b - 1)) + vec ! b) mod steps mode
       else sparse_offset mode)"
  proof (cases b)
    case 0
    then show ?thesis using entry by (simp add: selected_channel_def)
  next
    case (Suc k)
    then have "matrix ! c ! k = sparse_entry channels (steps mode) (sparse_offset mode) (initial # deltas) vec c k"
      using spec(8) [OF assms(2), of k] assms(3) by simp
    then show ?thesis using entry unfolding Suc by (auto simp: selected_channel_def)
  qed
  moreover have "matrix ! c ! b < steps mode" unfolding entry by (rule sparse_entry_less [OF steps_bounds(1,2)])
  ultimately show ?thesis using spec(6,7) assms(2) by auto
qed

theorem sparse_decoder_one_channel_per_band_witness:
  "\<exists>m. decode_sparse_coefficients 5 Coarse96 1 [1, 2] [0, 1, 95] = Inr m \<and> m ! 3 ! 2 = 49"
proof -
  have "\<exists>m. decode_sparse_coefficients 5 Coarse96 1 [1, 2] [0, 1, 95] = Inr m"
    by (rule decode_sparse_ok) (auto simp: steps_def)
  then obtain m where run: "decode_sparse_coefficients 5 Coarse96 1 [1, 2] [0, 1, 95] = Inr m" ..
  show ?thesis
    using run sparse_decoder_one_channel_per_band [OF run, of 3 2] sparse_decoder_one_channel_per_band [OF run, of 3 1]
    by (simp add: selected_channel_def sparse_offset_def steps_def)
qed

text \<open>
  The parameter bands partition the 64 QMF subbands.  For every band count the lookup of a
  subband below 64 succeeds with the one band whose range of subbands, given by the widths of
  the table, contains it; above it fails.
\<close>

theorem parameter_bands_partition_subbands:
  "qmf_subband_to_parameter_band c subband = Inr b \<longleftrightarrow>
     b < band_count_value c \<and> sum_list (take b (band_widths c)) \<le> subband
     \<and> subband < sum_list (take (Suc b) (band_widths c))"
proof
  let ?sum = "\<lambda>k. sum_list (take k (band_widths c))"
  assume in_range: "b < band_count_value c \<and> ?sum b \<le> subband \<and> subband < ?sum (Suc b)"
  have mono: "i \<le> j \<Longrightarrow> ?sum i \<le> ?sum j" for i j
  proof -
    assume "i \<le> j"
    then have "take j (band_widths c) = take i (band_widths c) @ take (j - i) (drop i (band_widths c))"
      by (metis le_add_diff_inverse take_add)
    then show "?sum i \<le> ?sum j" by simp
  qed
  have "?sum (Suc b) \<le> 64" using mono [of "Suc b" "length (band_widths c)"] in_range band_widths_total [of c] by simp
  then obtain b' where b': "b' < band_count_value c" "qmf_subband_to_parameter_band c subband = Inr b'"
    "?sum b' \<le> subband" "subband < ?sum (Suc b')"
    using band_lookup [of subband c] in_range by (metis order_less_le_trans)
  have "b' = b"
    using mono [of "Suc b" b'] mono [of "Suc b'" b] b'(3,4) in_range by (cases b b' rule: linorder_cases) auto
  then show "qmf_subband_to_parameter_band c subband = Inr b" using b' by simp
next
  assume run: "qmf_subband_to_parameter_band c subband = Inr b"
  then have "subband < 64" by (simp add: qmf_subband_to_parameter_band_def split: if_splits)
  then show "b < band_count_value c \<and> sum_list (take b (band_widths c)) \<le> subband
     \<and> subband < sum_list (take (Suc b) (band_widths c))"
    using band_lookup [of subband c] run by (metis sum.inject(2))
qed

text \<open>
  A smooth slope ends on the coefficients that the next frame starts from.  When the
  interpolation succeeds, the last timeslot of the interpolated matrix is the matrix carried
  forward, and with two data points the first one is reached at the middle of the frame, so
  consecutive frames join without a jump.
\<close>

theorem smooth_interpolation_joins_frames:
  assumes "interpolate_matrix real points previous Smooth offsets bc timeslots = Inr im"
  shows "last (im_matrix im) = next_previous im
    \<and> (length points = 2 \<and> 2 \<le> timeslots \<and> c < length previous \<and> s < 64 \<longrightarrow>
      im_matrix im ! (timeslots div 2 - 1) ! c ! s = points ! 0 ! c ! band_of bc s)"
proof -
  note i = interpolate_Inr [OF assms]
  have "last (im_matrix im) = im_matrix im ! (timeslots - 1)"
    using i(2) by (subst last_conv_nth) (auto simp: i(5))
  also have "\<dots> = next_previous im"
    using i(2) interpolated_value_end [OF i(1,2)] by (simp add: i(5))
  finally have "last (im_matrix im) = next_previous im" .
  moreover have "length points = 2 \<and> 2 \<le> timeslots \<and> c < length previous \<and> s < 64 \<longrightarrow>
      im_matrix im ! (timeslots div 2 - 1) ! c ! s = points ! 0 ! c ! band_of bc s"
    using interpolated_value_mid [of points timeslots previous offsets] by (auto simp: i(5) QMF_SUBBANDS_def)
  ultimately show ?thesis by blast
qed

theorem smooth_interpolation_joins_frames_witness:
  "\<exists>im. interpolate_matrix real [[[2]], [[8]]] [replicate 64 0] Smooth [None, None] BcOne 4 = Inr im
     \<and> last (im_matrix im) = next_previous im \<and> im_matrix im ! 1 ! 0 ! 63 = 2"
proof -
  have "\<exists>im. interpolate_matrix real [[[2]], [[8]]] [replicate 64 0] Smooth [None, None] BcOne 4 = Inr im"
    by (rule interpolate_ok) (auto simp: band_count_value_def)
  then obtain im where im: "interpolate_matrix real [[[2]], [[8]]] [replicate 64 0] Smooth [None, None] BcOne 4 = Inr im" ..
  have "band_of BcOne 63 = 0" by code_simp
  then show ?thesis
    using im smooth_interpolation_joins_frames [OF im, of 0 63] by simp
qed

section \<open>The decoder\<close>

text \<open>
  C11: every parsed frame decodes.  A payload that the parser accepts is decoded against any
  inputs with its declared number of channels and one common, positive number of timeslots, in
  any decoder state: no reconstruction, shape or mode error is possible behind the parser.
\<close>

theorem parsed_frames_always_decode:
  assumes "parse_joc_payload raw = Inr frame" and "8 * length raw \<le> usize_max" and "shapes_ok st"
    and "length inputs = channel_count (header frame)" and "\<forall>channel \<in> set inputs. length channel = T"
    and "0 < T" and "T < 2 ^ 32"
  shows "\<exists>d st'. decode_payload env raw inputs st = (Inr (frame, d), st')"
proof -
  obtain d st' where "decode_frame env frame inputs st = (Inr d, st')"
    using decode_frame_total [OF parse_joc_payload_Inr(1) [OF assms(1,2)] assms(3-7)] by blast
  then show ?thesis using assms(1) by (simp add: decode_payload_def rd_simps)
qed

theorem parsed_frames_always_decode_witness:
  "\<exists>d st'. decode_payload unit_env (joc_encode small_frame) silent_inputs (new_joc_state :: real joc_state)
     = (Inr (small_frame, d), st')"
  by (rule parsed_frames_always_decode [OF parse_joc_encoded [OF small_frame_ok small_frame_fits] small_frame_fits, where T = 1])
    (auto simp: shapes_ok_def new_joc_state_def silent_inputs_def small_frame_def)

text \<open>
  C23: decoding is atomic.  When decoding a payload, a frame or a block of PCM fails, for whatever
  reason, the decoder state is exactly what it was.
\<close>

theorem joc_decoding_is_atomic:
  "(decode_frame env frame inputs st = (Inl e, st') \<longrightarrow> st' = st)
   \<and> (decode_payload env raw inputs st = (Inl e, st') \<longrightarrow> st' = st)
   \<and> (decode_pcm_frame env frame pcm st = (Inl e, st') \<longrightarrow> st' = st)"
  using decode_frame_error [of env]
  by (auto simp: decode_payload_def decode_pcm_frame_def bind_rd_def ret_eq Let_def
      split: sum.splits prod.splits if_splits)

theorem joc_decoding_is_atomic_witness:
  "decode_pcm_frame unit_env small_frame [] (new_joc_state :: real joc_state) = (Inl (InputChannelCount 5 0), new_joc_state)"
proof -
  have "fst (decode_pcm_frame unit_env small_frame [] (new_joc_state :: real joc_state)) = Inl (InputChannelCount 5 0)"
    by (simp add: decode_pcm_frame_def small_frame_def)
  then show ?thesis using joc_decoding_is_atomic [of unit_env small_frame _ "new_joc_state :: real joc_state" "InputChannelCount 5 0" _ _ "[]"]
    by (metis prod.collapse)
qed

text \<open>
  C22: over a whole stream of frames, accepted and rejected in any order, every reconstruction
  coefficient carried by the decoder stays within 9.609375 in magnitude, and the stream of the
  accepted frames alone leads to the same state.
\<close>

theorem joc_stream_coefficients_bounded:
  "coefficients_ok (snd (feed (decode_input env) frames new_joc_state))
   \<and> snd (feed (decode_input env) (kept (decode_input env) frames new_joc_state) new_joc_state)
       = snd (feed (decode_input env) frames new_joc_state)"
  using joc_step.feed_keeps [OF new_joc_state_ok] joc_step.feed_kept by blast

text \<open>
  C27: a splice forgets the past.  When the sequence counter or the topology of a frame requires
  a reset, its decoded output is the same whatever the decoder held before.
\<close>

theorem splice_forgets_history:
  assumes "requires_state_reset frame st" and "requires_state_reset frame st2"
  shows "fst (decode_frame env frame inputs st) = fst (decode_frame env frame inputs st2)"
  using assms by (rule decode_frame_reset)

theorem splice_forgets_history_witness:
  "fst (decode_frame unit_env small_frame silent_inputs (new_joc_state\<lparr>previous_sequence := Some 3\<rparr>))
   = fst (decode_frame unit_env small_frame silent_inputs
       (new_joc_state\<lparr>previous_sequence := Some 7, previous_matrices := [[]]\<rparr>))"
  by (rule splice_forgets_history) (auto simp: requires_state_reset_def new_joc_state_def small_frame_def)

end
