(* ===== verification/Oamd.thy ===== *)
theory Oamd
  imports Parsing
begin

text \<open>
  The syntax shared by the object audio metadata parsers (\<open>crates/openjoc-oamd/src\<close>): errors and
  variable-length values of \<open>lib.rs\<close>, the block timing of \<open>timing.rs\<close> with its state across
  frames, and the content description of \<open>content.rs\<close>.  Narrow unsigned fields are natural
  numbers below the bound that the conversion checks.
\<close>

section \<open>Errors and fields\<close>

datatype oamd_error =
  OamdBit bit_error
| OamdInvalidVariableBits nat nat
| OamdValueOverflow
| ReservedIntermediateSpatialFormat nat
| ReservedSampleOffsetCode
| FrameOffsetOverflow
| MissingGainBits
| MissingPriorityBits
| InvalidPropertyCode
| MissingSizeBits
| ReservedSizeIndex
| ReservedZoneIndex nat
| OamdNonzeroReservedData
| MissingPreviousObjectUpdate
| ObjectCountMismatch nat nat
| ReservedAlternateObjectData nat
| UnsupportedKnownElement nat
| MissingTrimConfigurationCount
| ReservedWarpMode nat
| ReservedGlobalTrimMode
| ReservedTrimCode nat
| ReservedObjectDivergenceMode
| ReservedObjectDivergenceCode
| MissingPreviousObjectDivergence
| ExtendedObjectShapeMismatch
| MissingObjectElementForExtension
| UndefinedRoomProjectionDirection
| InvalidRoomDistanceFactor
| OamdNonzeroPadding
| VendorProfilePayloadId u64

type_synonym 'a oamd_parser = "(oamd_error, 'a) parser"

definition oamd_bits :: "nat \<Rightarrow> u64 oamd_parser" where
  "oamd_bits n = map_err OamdBit (read_bits n)"

definition oamd_bit :: "bool oamd_parser" where
  "oamd_bit = map_err OamdBit read_bit"

definition oamd_u8 :: "nat \<Rightarrow> nat oamd_parser" where
  "oamd_u8 width = read_uint OamdBit OamdValueOverflow 256 width"

definition oamd_u16 :: "nat \<Rightarrow> nat oamd_parser" where
  "oamd_u16 width = read_uint OamdBit OamdValueOverflow (2 ^ 16) width"

definition oamd_u32 :: "nat \<Rightarrow> nat oamd_parser" where
  "oamd_u32 width = read_uint OamdBit OamdValueOverflow (2 ^ 32) width"

definition oamd_window :: "nat \<Rightarrow> bit_reader oamd_parser" where
  "oamd_window n = map_err OamdBit (take_bits n)"

section \<open>Variable-length values\<close>

definition continue_value :: "u64 \<Rightarrow> nat \<Rightarrow> u64 option" where
  "continue_value value width =
     (case checked_shl64 value width of
        None \<Rightarrow> None
      | Some shifted \<Rightarrow> checked_add64 shifted (push_bit width 1))"

text \<open>The loop \<open>while read_more\<close> with \<open>k\<close> groups left; it is entered with a set bit.\<close>

primrec variable_groups :: "nat \<Rightarrow> nat \<Rightarrow> u64 \<Rightarrow> u64 oamd_parser" where
  "variable_groups width 0 value = ret value"
| "variable_groups width (Suc k) value =
     bind_rd (oamd_bits width) (\<lambda>g.
     bind_rd (some_or (checked_add64 value g) OamdValueOverflow) (\<lambda>value.
     bind_rd oamd_bit (\<lambda>more.
       if k = 0 \<or> \<not> more then ret value
       else bind_rd (some_or (continue_value value width) OamdValueOverflow)
              (\<lambda>value. variable_groups width k value))))"

definition variable_bits_max :: "nat \<Rightarrow> nat \<Rightarrow> u64 oamd_parser" where
  "variable_bits_max width max_groups =
     (if width = 0 \<or> width > 63 \<or> max_groups = 0
      then fail (OamdInvalidVariableBits width max_groups)
      else
        bind_rd (oamd_bits width) (\<lambda>value.
        bind_rd oamd_bit (\<lambda>more.
          if max_groups > 1 \<and> more
          then bind_rd (some_or (continue_value value width) OamdValueOverflow)
                 (\<lambda>value. variable_groups width (max_groups - 1) value)
          else ret value)))"

section \<open>Block timing\<close>

definition SAMPLE_OFFSETS :: "nat list" where
  "SAMPLE_OFFSETS = [8, 16, 18, 24]"

definition RAMP_DURATIONS :: "nat list" where
  "RAMP_DURATIONS =
     [32, 64, 128, 256, 320, 480, 1000, 1001, 1024, 1600, 1601, 1602, 1920, 2000, 2002, 2048]"

record metadata_block_timing =
  block_start_sample :: nat
  block_ramp_duration :: nat

record metadata_timing =
  timing_sample_offset :: nat
  timing_blocks :: "metadata_block_timing list"

record timed_metadata_block =
  timed_start_sample :: nat
  timed_frame_offset :: nat
  timed_ramp_duration :: nat

record metadata_timeline_state =
  md_frame_offset :: nat

text \<open>The four codes of a two-bit field, in the order of the match arms.\<close>

definition parse_sample_offset_code :: "nat oamd_parser" where
  "parse_sample_offset_code =
     bind_rd (oamd_bits 2) (\<lambda>code.
       if code = 0 then ret 0
       else if code = 1 then bind_rd (oamd_bits 2) (\<lambda>i. ret (SAMPLE_OFFSETS ! unat i))
       else if code = 2 then oamd_u16 5
       else fail ReservedSampleOffsetCode)"

definition parse_ramp_duration :: "nat oamd_parser" where
  "parse_ramp_duration =
     bind_rd (oamd_bits 2) (\<lambda>code.
       if code = 0 then ret 0
       else if code = 1 then ret 512
       else if code = 2 then ret 1536
       else bind_rd oamd_bit (\<lambda>table.
              if table then bind_rd (oamd_bits 4) (\<lambda>i. ret (RAMP_DURATIONS ! unat i))
              else oamd_u16 11))"

definition parse_block_timing :: "nat \<Rightarrow> metadata_block_timing oamd_parser" where
  "parse_block_timing sample_offset =
     bind_rd (oamd_u16 6) (\<lambda>factor.
     bind_rd parse_ramp_duration (\<lambda>ramp.
       ret \<lparr>block_start_sample = sample_offset + 32 * factor, block_ramp_duration = ramp\<rparr>))"

definition parse_metadata_timing_reader :: "metadata_timing oamd_parser" where
  "parse_metadata_timing_reader =
     bind_rd parse_sample_offset_code (\<lambda>sample_offset.
     bind_rd (oamd_bits 3) (\<lambda>count.
     bind_rd (repeat_rd (unat count + 1) (parse_block_timing sample_offset)) (\<lambda>blocks.
       ret \<lparr>timing_sample_offset = sample_offset, timing_blocks = blocks\<rparr>)))"

definition parse_metadata_timing :: "u8 list \<Rightarrow> oamd_error + metadata_timing" where
  "parse_metadata_timing payload = fst (parse_metadata_timing_reader (new_reader payload))"

definition new_metadata_timeline :: metadata_timeline_state where
  "new_metadata_timeline = \<lparr>md_frame_offset = 0\<rparr>"

definition metadata_timeline_reset :: "metadata_timeline_state \<Rightarrow> metadata_timeline_state" where
  "metadata_timeline_reset s = s\<lparr>md_frame_offset := 0\<rparr>"

text \<open>\<open>MetadataTimelineState::decode_frame\<close>; the frame offset is a \<open>u64\<close>.\<close>

definition decode_metadata_frame ::
  "u8 list \<Rightarrow> (metadata_timeline_state, oamd_error, timed_metadata_block list) rd" where
  "decode_metadata_frame payload s =
     (case parse_metadata_timing payload of
        Inl e \<Rightarrow> (Inl e, s)
      | Inr timing \<Rightarrow>
          if 2 ^ 64 \<le> md_frame_offset s + 1536 then (Inl FrameOffsetOverflow, s)
          else (Inr (map (\<lambda>b. \<lparr>timed_start_sample = block_start_sample b,
                               timed_frame_offset = md_frame_offset s,
                               timed_ramp_duration = block_ramp_duration b\<rparr>) (timing_blocks timing)),
                s\<lparr>md_frame_offset := md_frame_offset s + 1536\<rparr>))"

section \<open>Content description\<close>

datatype bed_assignment = LfeOnly | Standard nat | Nonstandard nat

datatype speaker_label =
  RcL | RcR | RcC | RcLfe | RcLs | RcRs | RcLb | RcRb | RcTfl | RcTfr | RcTsl | RcTsr
| RcTbl | RcTbr | RcLw | RcRw | RcLfe2

datatype isf_ring = MiddleRing | UpperRing | LowerRing | ZenithRing

record isf_label =
  isf_label_ring :: isf_ring
  isf_label_index :: nat

datatype object_anchor = AnchorSpeaker speaker_label | IntermediateSpatial isf_label | AnchorDynamic

datatype content_description =
  DynamicOnly bool
| Mixed "bool option" "bed_assignment list" "nat option" "nat option"

record oamd_content_prefix =
  prefix_syntax_version :: nat
  prefix_object_count :: nat
  prefix_content :: content_description
  prefix_alternate_data :: bool
  prefix_element_count :: nat
  prefix_consumed_bits :: nat

definition STANDARD_BEDS :: "speaker_label list list" where
  "STANDARD_BEDS = [[RcLfe2], [RcLw, RcRw], [RcTbl, RcTbr], [RcTsl, RcTsr], [RcTfl, RcTfr],
     [RcLb, RcRb], [RcLs, RcRs], [RcLfe], [RcC], [RcL, RcR]]"

definition NONSTANDARD_BEDS :: "speaker_label list" where
  "NONSTANDARD_BEDS = [RcLfe2, RcRw, RcLw, RcTbr, RcTbl, RcTsr, RcTsl, RcTfr, RcTfl, RcRb, RcLb,
     RcRs, RcLs, RcLfe, RcC, RcR, RcL]"

text \<open>\<open>filter(|(index, _)| mask & (1 << index) != 0)\<close>.\<close>

definition masked :: "nat \<Rightarrow> 'a list \<Rightarrow> 'a list" where
  "masked m xs = map snd (filter (\<lambda>(i, _). bit m i) (enumerate 0 xs))"

definition speaker_labels :: "bed_assignment \<Rightarrow> oamd_error + speaker_label list" where
  "speaker_labels b =
     (case b of
        LfeOnly \<Rightarrow> Inr [RcLfe]
      | Standard m \<Rightarrow>
          if drop_bit 10 m \<noteq> 0 then Inl InvalidPropertyCode else Inr (concat (masked m STANDARD_BEDS))
      | Nonstandard m \<Rightarrow>
          if drop_bit 17 m \<noteq> 0 then Inl InvalidPropertyCode else Inr (masked m NONSTANDARD_BEDS))"

fun all_speaker_labels :: "bed_assignment list \<Rightarrow> oamd_error + speaker_label list" where
  "all_speaker_labels [] = Inr []"
| "all_speaker_labels (b # bs) =
     (case speaker_labels b of
        Inl e \<Rightarrow> Inl e
      | Inr ls \<Rightarrow> (case all_speaker_labels bs of Inl e \<Rightarrow> Inl e | Inr rest \<Rightarrow> Inr (ls @ rest)))"

definition isf_counts :: "nat \<Rightarrow> nat list option" where
  "isf_counts index =
     (if index = 0 then Some [3, 1, 0, 0] else if index = 1 then Some [5, 3, 0, 0]
      else if index = 2 then Some [7, 3, 0, 0] else if index = 3 then Some [9, 5, 0, 0]
      else if index = 4 then Some [7, 5, 3, 0] else if index = 5 then Some [15, 9, 5, 1]
      else None)"

definition isf_labels :: "nat \<Rightarrow> oamd_error + isf_label list" where
  "isf_labels index =
     (case isf_counts index of
        None \<Rightarrow> Inl (ReservedIntermediateSpatialFormat index)
      | Some counts \<Rightarrow>
          Inr (concat (map2 (\<lambda>ring count. map (\<lambda>i. \<lparr>isf_label_ring = ring, isf_label_index = i\<rparr>) [1..<Suc count])
                 [MiddleRing, UpperRing, LowerRing, ZenithRing] counts)))"

text \<open>The anchors of a mixed assignment: beds, intermediate spatial format, dynamic objects.\<close>

definition mixed_anchors ::
  "bed_assignment list \<Rightarrow> nat option \<Rightarrow> nat option \<Rightarrow> oamd_error + object_anchor list" where
  "mixed_anchors beds isf dynamic =
     (case all_speaker_labels beds of
        Inl e \<Rightarrow> Inl e
      | Inr labels \<Rightarrow>
        (case (case isf of None \<Rightarrow> Inr [] | Some index \<Rightarrow> isf_labels index) of
           Inl e \<Rightarrow> Inl e
         | Inr isfs \<Rightarrow>
             Inr (map AnchorSpeaker labels @ map IntermediateSpatial isfs
                  @ replicate (case dynamic of None \<Rightarrow> 0 | Some n \<Rightarrow> n) AnchorDynamic)))"

definition object_anchors :: "oamd_content_prefix \<Rightarrow> oamd_error + object_anchor list" where
  "object_anchors p =
     (let count = prefix_object_count p;
          anchors =
            (case prefix_content p of
               DynamicOnly lfe \<Rightarrow>
                 if lfe \<and> count < 2 then Inl (ObjectCountMismatch count 2)
                 else if lfe then Inr (AnchorSpeaker RcLfe # replicate (count - 1) AnchorDynamic)
                 else Inr (replicate count AnchorDynamic)
             | Mixed _ beds isf dynamic \<Rightarrow> mixed_anchors beds isf dynamic) in
      case anchors of
        Inl e \<Rightarrow> Inl e
      | Inr as \<Rightarrow>
          if length as \<noteq> count
          then (if length as < 2 ^ 16 then Inl (ObjectCountMismatch count (length as))
                else Inl OamdValueOverflow)
          else Inr as)"

section \<open>The content prefix parser\<close>

text \<open>
  A field whose all-ones value adds an extension field (\<open>checked_add\<close> below \<open>bound\<close>).
\<close>

definition extended_field :: "nat \<Rightarrow> nat \<Rightarrow> nat \<Rightarrow> nat \<Rightarrow> nat oamd_parser" where
  "extended_field bound width escape extension =
     bind_rd (oamd_u8 width) (\<lambda>v.
       if v = escape
       then bind_rd (oamd_u8 extension) (\<lambda>x.
              if v + x < bound then ret (v + x) else fail OamdValueOverflow)
       else ret v)"

definition parse_bed :: "bed_assignment oamd_parser" where
  "parse_bed =
     bind_rd oamd_bit (\<lambda>lfe_only.
       if lfe_only then ret LfeOnly
       else bind_rd oamd_bit (\<lambda>standard.
              if standard then bind_rd (oamd_u16 10) (\<lambda>m. ret (Standard m))
              else bind_rd (oamd_u32 17) (\<lambda>m. ret (Nonstandard m))))"

definition parse_beds :: "(bool option \<times> bed_assignment list) oamd_parser" where
  "parse_beds =
     bind_rd oamd_bit (\<lambda>distribute.
     bind_rd oamd_bit (\<lambda>several.
     bind_rd (if several then bind_rd (oamd_u8 3) (\<lambda>n. ret (n + 2)) else ret 1) (\<lambda>bed_count.
     bind_rd (repeat_rd bed_count parse_bed) (\<lambda>beds.
       ret (Some distribute, beds)))))"

definition parse_isf_index :: "nat oamd_parser" where
  "parse_isf_index =
     bind_rd (oamd_u8 3) (\<lambda>index.
     bind_rd (guard_rd (index \<le> 5) (ReservedIntermediateSpatialFormat index)) (\<lambda>_. ret index))"

definition parse_reserved_window :: "unit oamd_parser" where
  "parse_reserved_window =
     bind_rd (oamd_u8 4) (\<lambda>n.
     bind_rd (oamd_window ((n + 1) * 8)) (\<lambda>_. ret ()))"

definition parse_program_assignment :: "content_description oamd_parser" where
  "parse_program_assignment =
     bind_rd oamd_bit (\<lambda>dynamic_only.
       if dynamic_only then bind_rd oamd_bit (\<lambda>lfe. ret (DynamicOnly lfe))
       else
         bind_rd (oamd_u8 4) (\<lambda>flags.
         bind_rd (if bit flags 3 then parse_beds else ret (None, [])) (\<lambda>(distribute, beds).
         bind_rd (when_rd (bit flags 2) parse_isf_index) (\<lambda>isf.
         bind_rd (when_rd (bit flags 1)
                    (bind_rd (extended_field (2 ^ 16) 5 31 7) (\<lambda>n. ret (n + 1)))) (\<lambda>dynamic.
         bind_rd (when_rd (bit flags 0) parse_reserved_window) (\<lambda>_.
           ret (Mixed distribute beds isf dynamic)))))))"

definition parse_oamd_content_prefix_reader :: "oamd_content_prefix oamd_parser" where
  "parse_oamd_content_prefix_reader =
     bind_rd (counted (
       bind_rd (extended_field 256 2 3 3) (\<lambda>syntax_version.
       bind_rd (extended_field (2 ^ 16) 5 31 7) (\<lambda>object_count_bits.
       bind_rd parse_program_assignment (\<lambda>content.
       bind_rd oamd_bit (\<lambda>alternate.
       bind_rd (extended_field 256 4 15 5) (\<lambda>element_count.
         ret (syntax_version, object_count_bits + 1, content, alternate, element_count))))))))
     (\<lambda>((syntax_version, object_count, content, alternate, element_count), consumed).
       ret \<lparr>prefix_syntax_version = syntax_version, prefix_object_count = object_count,
            prefix_content = content, prefix_alternate_data = alternate,
            prefix_element_count = element_count, prefix_consumed_bits = consumed\<rparr>)"

definition parse_oamd_content_prefix :: "u8 list \<Rightarrow> oamd_error + oamd_content_prefix" where
  "parse_oamd_content_prefix payload = fst (parse_oamd_content_prefix_reader (new_reader payload))"

end
