(* ===== verification/OamdObject.thy ===== *)
theory OamdObject
  imports Oamd Complex_Main
begin

text \<open>
  Object properties of \<open>crates/openjoc-oamd/src\<close>: the property codes of \<open>basic_properties.rs\<close>,
  the positions of \<open>position.rs\<close> and the object element of \<open>object_element.rs\<close> with its update
  and reuse rules.

  An \<open>f64\<close> is a real number here, without rounding; what the code asks of a float beyond
  arithmetic (\<open>is_finite\<close>, \<open>powf\<close>) is the parameter \<open>float_env\<close>.  A decimal constant of the
  tables is the quotient of two integers.
\<close>

record float_env =
  finite64 :: "real \<Rightarrow> bool"
  powf :: "real \<Rightarrow> real \<Rightarrow> real"

section \<open>Property codes\<close>

datatype gain = Decibels int | NegativeInfinity

record extent3 =
  ext_width :: real
  ext_depth :: real
  ext_height :: real

definition ZERO_EXTENT :: extent3 where
  "ZERO_EXTENT = \<lparr>ext_width = 0, ext_depth = 0, ext_height = 0\<rparr>"

datatype zone_constraint = Include | Exclude

definition decode_gain :: "nat \<Rightarrow> nat option \<Rightarrow> gain option \<Rightarrow> oamd_error + gain" where
  "decode_gain index code previous_object =
     (if index = 0 then Inr (Decibels 0)
      else if index = 1 then Inr NegativeInfinity
      else if index = 2 then
        (case code of
           None \<Rightarrow> Inl MissingGainBits
         | Some n \<Rightarrow>
             if n > 63 then Inl InvalidPropertyCode
             else Inr (Decibels (if n \<le> 14 then 15 - int n else 14 - int n)))
      else if index = 3 then Inr (case previous_object of None \<Rightarrow> Decibels 0 | Some g \<Rightarrow> g)
      else Inl InvalidPropertyCode)"

definition decode_priority :: "bool \<Rightarrow> nat option \<Rightarrow> oamd_error + real" where
  "decode_priority is_default code =
     (if is_default then Inr 1
      else (case code of
              None \<Rightarrow> Inl MissingPriorityBits
            | Some n \<Rightarrow> if n > 31 then Inl InvalidPropertyCode else Inr (real n / 32)))"

definition size_scale :: "nat \<Rightarrow> oamd_error + real" where
  "size_scale v = (if v > 31 then Inl InvalidPropertyCode else Inr (real v / 31))"

definition decode_size :: "nat \<Rightarrow> nat option \<Rightarrow> (nat \<times> nat \<times> nat) option \<Rightarrow> oamd_error + extent3" where
  "decode_size index uniform components =
     (if index = 0 then Inr ZERO_EXTENT
      else if index = 1 then
        (case uniform of
           None \<Rightarrow> Inl MissingSizeBits
         | Some u \<Rightarrow> attempt (size_scale u) (\<lambda>v. Inr \<lparr>ext_width = v, ext_depth = v, ext_height = v\<rparr>))
      else if index = 2 then
        (case components of
           None \<Rightarrow> Inl MissingSizeBits
         | Some (w, d, h) \<Rightarrow>
             attempt (size_scale w) (\<lambda>w. attempt (size_scale d) (\<lambda>d. attempt (size_scale h) (\<lambda>h.
               Inr \<lparr>ext_width = w, ext_depth = d, ext_height = h\<rparr>))))
      else if index = 3 then Inl ReservedSizeIndex
      else Inl InvalidPropertyCode)"

definition decode_zone_constraints :: "nat \<Rightarrow> bool \<Rightarrow> oamd_error + zone_constraint list" where
  "decode_zone_constraints index elevation =
     attempt
       (if index = 0 then Inr [Include, Include, Include, Include, Include]
        else if index = 1 then Inr [Include, Include, Include, Exclude, Include]
        else if index = 2 then Inr [Include, Exclude, Include, Include, Include]
        else if index = 3 then Inr [Exclude, Exclude, Exclude, Exclude, Include]
        else if index = 4 then Inr [Include, Exclude, Exclude, Exclude, Exclude]
        else if index = 5 then Inr [Exclude, Exclude, Include, Exclude, Exclude]
        else if index = 6 \<or> index = 7 then Inl (ReservedZoneIndex index)
        else Inl InvalidPropertyCode)
       (\<lambda>horizontal. Inr (horizontal @ [if elevation then Include else Exclude]))"

section \<open>Positions\<close>

record position3 =
  pos_x :: real
  pos_y :: real
  pos_z :: real

record reference_screen =
  screen_bottom_left :: position3
  screen_width :: real
  screen_height :: real

datatype distance = InsideRoom | FiniteDistance real | InfiniteDistance

datatype room_position = FinitePosition position3 | AtInfinity position3

record standard_position_bits =
  std_x :: nat
  std_y :: nat
  std_z :: int

type_synonym extension3 = "nat option \<times> nat option \<times> nat option"

datatype position_coding =
  Absolute standard_position_bits
| Differential standard_position_bits "nat \<times> nat \<times> nat"

definition decode_extended :: "nat option \<Rightarrow> oamd_error + int" where
  "decode_extended v =
     (case v of
        None \<Rightarrow> Inr 0
      | Some n \<Rightarrow>
          if n = 0 then Inr 1 else if n = 1 then Inr 2 else if n = 2 then Inr (- 1)
          else if n = 3 then Inr (- 2) else Inl InvalidPropertyCode)"

definition decode_extended3 :: "extension3 \<Rightarrow> oamd_error + int \<times> int \<times> int" where
  "decode_extended3 vs =
     (case vs of (x, y, z) \<Rightarrow>
        attempt (decode_extended x) (\<lambda>x. attempt (decode_extended y) (\<lambda>y.
        attempt (decode_extended z) (\<lambda>z. Inr (x, y, z)))))"

definition decode_absolute_position ::
  "nat \<Rightarrow> nat \<Rightarrow> bool \<Rightarrow> nat \<Rightarrow> extension3 \<Rightarrow> oamd_error + position3" where
  "decode_absolute_position x y z_positive z extended =
     (if x > 63 \<or> y > 63 \<or> z > 15 then Inl InvalidPropertyCode
      else attempt (decode_extended3 extended) (\<lambda>(ext_x, ext_y, ext_z).
        Inr \<lparr>pos_x = min (real x / 62 + of_int ext_x / 310) 1,
             pos_y = min (real y / 62 + of_int ext_y / 310) 1,
             pos_z = (if z_positive then 1 else - 1) * real z / 15 + of_int ext_z / 75\<rparr>))"

definition decode_signed_position_delta :: "nat \<Rightarrow> oamd_error + int" where
  "decode_signed_position_delta raw =
     (if raw > 7 then Inl InvalidPropertyCode
      else Inr (if \<not> bit raw 2 then int raw else int raw - 8))"

definition decode_deltas :: "nat \<times> nat \<times> nat \<Rightarrow> oamd_error + int \<times> int \<times> int" where
  "decode_deltas delta =
     (case delta of (x, y, z) \<Rightarrow>
        attempt (decode_signed_position_delta x) (\<lambda>x. attempt (decode_signed_position_delta y) (\<lambda>y.
        attempt (decode_signed_position_delta z) (\<lambda>z. Inr (x, y, z)))))"

definition clamp :: "'a \<Rightarrow> 'a \<Rightarrow> 'a \<Rightarrow> 'a :: linorder" where
  "clamp lo hi v = (if v < lo then lo else if v > hi then hi else v)"

definition decode_differential_position ::
  "standard_position_bits \<Rightarrow> nat \<times> nat \<times> nat \<Rightarrow> extension3 \<Rightarrow> oamd_error + position3" where
  "decode_differential_position previous delta extended =
     (if std_x previous > 63 \<or> std_y previous > 63 \<or> \<not> (- 15 \<le> std_z previous \<and> std_z previous \<le> 15)
      then Inl InvalidPropertyCode
      else attempt (decode_deltas delta) (\<lambda>(dx, dy, dz).
        attempt (decode_extended3 extended) (\<lambda>(ext_x, ext_y, ext_z).
        Inr \<lparr>pos_x = clamp 0 1 (real (std_x previous) / 62 + of_int dx / 62 + of_int ext_x / 310),
             pos_y = clamp 0 1 (real (std_y previous) / 62 + of_int dy / 62 + of_int ext_y / 310),
             pos_z = clamp (- 1) 1 (of_int (std_z previous) / 15 + of_int dz / 15 + of_int ext_z / 75)\<rparr>)))"

text \<open>\<open>PositionCoding::decode\<close>.\<close>

definition decode_coding :: "position_coding \<Rightarrow> extension3 \<Rightarrow> oamd_error + position3" where
  "decode_coding coding extended =
     (case coding of
        Absolute b \<Rightarrow>
          decode_absolute_position (std_x b) (std_y b) (std_z b \<ge> 0) (nat \<bar>std_z b\<bar>) extended
      | Differential previous delta \<Rightarrow> decode_differential_position previous delta extended)"

definition DISTANCE_FACTORS :: "real list" where
  "DISTANCE_FACTORS = [11 / 10, 13 / 10, 16 / 10, 2, 25 / 10, 32 / 10, 4, 5, 63 / 10, 79 / 10, 10,
     126 / 10, 158 / 10, 20, 251 / 10, 501 / 10]"

definition table_get :: "'a list \<Rightarrow> nat \<Rightarrow> oamd_error + 'a" where
  "table_get xs i = (if i < length xs then Inr (xs ! i) else Inl InvalidPropertyCode)"

definition decode_distance_factor :: "nat \<Rightarrow> oamd_error + real" where
  "decode_distance_factor index = table_get DISTANCE_FACTORS index"

definition decode_screen_factor :: "nat \<Rightarrow> oamd_error + real" where
  "decode_screen_factor code = (if code > 7 then Inl InvalidPropertyCode else Inr (real (code + 1) / 8))"

definition decode_depth_factor :: "nat \<Rightarrow> oamd_error + real" where
  "decode_depth_factor index = table_get [25 / 100, 5 / 10, 1, 2] index"

definition interpolate_screen_position ::
  "float_env \<Rightarrow> position3 \<Rightarrow> real \<Rightarrow> real \<Rightarrow> reference_screen \<Rightarrow> oamd_error + position3" where
  "interpolate_screen_position env coded screen_factor depth_factor screen =
     (let values = [pos_x coded, pos_y coded, pos_z coded, screen_factor, depth_factor,
            pos_x (screen_bottom_left screen), pos_y (screen_bottom_left screen),
            pos_z (screen_bottom_left screen), screen_width screen, screen_height screen] in
      if (\<exists>v \<in> set values. \<not> finite64 env v)
         \<or> \<not> (0 \<le> screen_factor \<and> screen_factor \<le> 1) \<or> depth_factor < 0
         \<or> screen_width screen < 0 \<or> screen_height screen < 0
      then Inl InvalidPropertyCode
      else
        let room_x = pos_x (screen_bottom_left screen) + screen_width screen * pos_x coded;
            room_z = pos_z (screen_bottom_left screen) + screen_height screen * (pos_z coded + 1) / 2;
            depth_mix = powf env (pos_y coded) depth_factor in
        if \<not> finite64 env depth_mix then Inl InvalidPropertyCode
        else
          let mix_x = screen_factor * pos_x coded + (1 - screen_factor) * room_x;
              mix_z = screen_factor * pos_z coded + (1 - screen_factor) * room_z in
          Inr \<lparr>pos_x = depth_mix * mix_x + (1 - depth_mix) * room_x,
               pos_y = pos_y coded,
               pos_z = depth_mix * mix_z + (1 - depth_mix) * room_z\<rparr>)"

definition axis_boundary_scale :: "real \<Rightarrow> real \<Rightarrow> real option" where
  "axis_boundary_scale direction half_extent =
     (if direction \<noteq> 0 then Some (half_extent / \<bar>direction\<bar>) else None)"

text \<open>The minimum of the scales that are there; \<open>None\<close> is the initial infinity.\<close>

fun min_scale :: "real option list \<Rightarrow> real option" where
  "min_scale [] = None"
| "min_scale (None # ss) = min_scale ss"
| "min_scale (Some s # ss) = Some (case min_scale ss of None \<Rightarrow> s | Some t \<Rightarrow> min s t)"

definition ROOM_ORIGIN :: position3 where
  "ROOM_ORIGIN = \<lparr>pos_x = 1 / 2, pos_y = 1 / 2, pos_z = 0\<rparr>"

definition boundary_scale :: "position3 \<Rightarrow> real option" where
  "boundary_scale coded =
     min_scale [axis_boundary_scale (pos_x coded - pos_x ROOM_ORIGIN) (1 / 2),
                axis_boundary_scale (pos_y coded - pos_y ROOM_ORIGIN) (1 / 2),
                axis_boundary_scale (pos_z coded - pos_z ROOM_ORIGIN) 1]"

text \<open>The point at \<open>scale\<close> on the ray from the room centre through a position.\<close>

definition on_ray :: "real \<Rightarrow> position3 \<Rightarrow> position3" where
  "on_ray scale p =
     \<lparr>pos_x = pos_x ROOM_ORIGIN + scale * (pos_x p - pos_x ROOM_ORIGIN),
      pos_y = pos_y ROOM_ORIGIN + scale * (pos_y p - pos_y ROOM_ORIGIN),
      pos_z = pos_z ROOM_ORIGIN + scale * (pos_z p - pos_z ROOM_ORIGIN)\<rparr>"

definition project_room_position ::
  "float_env \<Rightarrow> position3 \<Rightarrow> distance \<Rightarrow> oamd_error + room_position" where
  "project_room_position env coded range_code =
     (if \<not> finite64 env (pos_x coded) \<or> \<not> finite64 env (pos_y coded) \<or> \<not> finite64 env (pos_z coded)
      then Inl InvalidPropertyCode
      else if range_code = InsideRoom then Inr (FinitePosition coded)
      else
        case boundary_scale coded of
          None \<Rightarrow> Inl UndefinedRoomProjectionDirection
        | Some scale \<Rightarrow>
            if \<not> finite64 env scale then Inl UndefinedRoomProjectionDirection
            else
              let boundary_intersection = on_ray scale coded in
              case range_code of
                InsideRoom \<Rightarrow> Inr (FinitePosition coded)
              | InfiniteDistance \<Rightarrow> Inr (AtInfinity boundary_intersection)
              | FiniteDistance factor \<Rightarrow>
                  if \<not> finite64 env factor \<or> factor \<le> 1 then Inl InvalidRoomDistanceFactor
                  else Inr (FinitePosition (on_ray factor boundary_intersection)))"

section \<open>Object updates\<close>

datatype object_class = BedOrIsf | Dynamic

record object_basic_info =
  basic_gain :: gain
  basic_priority :: real

definition DEFAULT_BASIC :: object_basic_info where
  "DEFAULT_BASIC = \<lparr>basic_gain = NegativeInfinity, basic_priority = 0\<rparr>"

record object_render_info =
  render_position :: position3
  standard_position :: standard_position_bits
  render_coding :: position_coding
  render_distance :: distance
  render_zones :: "zone_constraint list"
  render_size :: extent3
  screen_anchor :: bool
  render_screen_factor :: real
  render_depth_factor :: real
  channel_lock :: bool

definition DEFAULT_RENDER :: object_render_info where
  "DEFAULT_RENDER =
     \<lparr>render_position = \<lparr>pos_x = 1 / 2, pos_y = 1 / 2, pos_z = 0\<rparr>,
      standard_position = \<lparr>std_x = 31, std_y = 31, std_z = 0\<rparr>,
      render_coding = Absolute \<lparr>std_x = 31, std_y = 31, std_z = 0\<rparr>,
      render_distance = InsideRoom, render_zones = replicate 6 Include, render_size = ZERO_EXTENT,
      screen_anchor = False, render_screen_factor = 0, render_depth_factor = 1, channel_lock = False\<rparr>"

definition room_position_of :: "float_env \<Rightarrow> object_render_info \<Rightarrow> oamd_error + room_position" where
  "room_position_of env r = project_room_position env (render_position r) (render_distance r)"

definition screen_position_of ::
  "float_env \<Rightarrow> object_render_info \<Rightarrow> reference_screen \<Rightarrow> oamd_error + position3 option" where
  "screen_position_of env r screen =
     (if \<not> screen_anchor r then Inr None
      else attempt (interpolate_screen_position env (render_position r) (render_screen_factor r)
                      (render_depth_factor r) screen) (\<lambda>p. Inr (Some p)))"

record object_update =
  update_active :: bool
  update_basic :: object_basic_info
  update_render :: object_render_info
  additional_table_data :: "u8 list option"

record object_element =
  element_timing :: metadata_timing
  element_objects :: "object_update list list"
  element_consumed_bits :: nat

definition as_current_absolute :: "object_render_info \<Rightarrow> object_render_info" where
  "as_current_absolute r = r\<lparr>render_coding := Absolute (standard_position r)\<rparr>"

text \<open>The code clamps before it narrows, so the conversions of the three components cannot fail.\<close>

definition standard_after_delta ::
  "standard_position_bits \<Rightarrow> nat \<times> nat \<times> nat \<Rightarrow> oamd_error + standard_position_bits" where
  "standard_after_delta previous delta =
     attempt (decode_deltas delta) (\<lambda>(dx, dy, dz).
       Inr \<lparr>std_x = nat (clamp 0 62 (int (std_x previous) + dx)),
            std_y = nat (clamp 0 62 (int (std_y previous) + dy)),
            std_z = clamp (- 15) 15 (std_z previous + dz)\<rparr>)"

section \<open>The object element parser\<close>

text \<open>A gain field, with the code word of the first coding only.\<close>

definition parse_gain :: "gain option \<Rightarrow> gain oamd_parser" where
  "parse_gain prior_gain =
     bind_rd (oamd_u8 2) (\<lambda>index.
     bind_rd (when_rd (index = 2) (oamd_u8 6)) (\<lambda>code.
       lift_rd (decode_gain index code prior_gain)))"

definition parse_priority :: "real oamd_parser" where
  "parse_priority =
     bind_rd oamd_bit (\<lambda>is_default.
     bind_rd (when_rd (\<not> is_default) (oamd_u8 5)) (\<lambda>code.
       lift_rd (decode_priority is_default code)))"

definition parse_basic_info ::
  "nat \<Rightarrow> object_update option \<Rightarrow> gain option \<Rightarrow> object_basic_info oamd_parser" where
  "parse_basic_info status previous prior_gain =
     (if status = 0 then ret DEFAULT_BASIC
      else if status = 2 then
        (case previous of Some u \<Rightarrow> ret (update_basic u) | None \<Rightarrow> fail MissingPreviousObjectUpdate)
      else if status = 1 \<or> status = 3 then
        bind_rd (if status = 1 then ret 3 else oamd_u8 2) (\<lambda>flags.
        let base = (case previous of None \<Rightarrow> DEFAULT_BASIC | Some u \<Rightarrow> update_basic u) in
        bind_rd (if bit flags 1 then parse_gain prior_gain else ret (basic_gain base)) (\<lambda>g.
        bind_rd (if bit flags 0 then parse_priority else ret (basic_priority base)) (\<lambda>p.
          ret \<lparr>basic_gain = g, basic_priority = p\<rparr>)))
      else fail InvalidPropertyCode)"

definition parse_triple :: "nat \<Rightarrow> (nat \<times> nat \<times> nat) oamd_parser" where
  "parse_triple width =
     bind_rd (oamd_u8 width) (\<lambda>x. bind_rd (oamd_u8 width) (\<lambda>y. bind_rd (oamd_u8 width) (\<lambda>z. ret (x, y, z))))"

definition parse_differential :: "object_render_info \<Rightarrow> object_render_info oamd_parser" where
  "parse_differential r =
     (let previous = standard_position r in
      bind_rd (parse_triple 3) (\<lambda>delta.
      bind_rd (lift_rd (decode_differential_position previous delta (None, None, None))) (\<lambda>p.
      bind_rd (lift_rd (standard_after_delta previous delta)) (\<lambda>st.
        ret (r\<lparr>render_position := p, standard_position := st, render_coding := Differential previous delta\<rparr>)))))"

definition parse_absolute :: "object_render_info \<Rightarrow> object_render_info oamd_parser" where
  "parse_absolute r =
     bind_rd (oamd_u8 6) (\<lambda>x.
     bind_rd (oamd_u8 6) (\<lambda>y.
     bind_rd oamd_bit (\<lambda>positive.
     bind_rd (oamd_u8 4) (\<lambda>z.
     bind_rd (lift_rd (decode_absolute_position x y positive z (None, None, None))) (\<lambda>p.
       let st = \<lparr>std_x = x, std_y = y, std_z = (if positive then int z else - int z)\<rparr> in
       ret (r\<lparr>render_position := p, standard_position := st, render_coding := Absolute st\<rparr>))))))"

definition parse_distance :: "distance oamd_parser" where
  "parse_distance =
     bind_rd oamd_bit (\<lambda>outside.
       if \<not> outside then ret InsideRoom
       else bind_rd oamd_bit (\<lambda>infinite.
              if infinite then ret InfiniteDistance
              else bind_rd (oamd_u8 4) (\<lambda>index.
                   bind_rd (lift_rd (decode_distance_factor index)) (\<lambda>f. ret (FiniteDistance f)))))"

definition parse_position :: "nat \<Rightarrow> object_render_info \<Rightarrow> object_render_info oamd_parser" where
  "parse_position block_index r =
     bind_rd (if block_index \<noteq> 0 then oamd_bit else ret False) (\<lambda>differential.
     bind_rd (if differential then parse_differential r else parse_absolute r) (\<lambda>r.
     bind_rd parse_distance (\<lambda>d. ret (r\<lparr>render_distance := d\<rparr>))))"

definition parse_zones :: "object_render_info \<Rightarrow> object_render_info oamd_parser" where
  "parse_zones r =
     bind_rd (oamd_u8 3) (\<lambda>index.
     bind_rd oamd_bit (\<lambda>elevation.
     bind_rd (lift_rd (decode_zone_constraints index elevation)) (\<lambda>z. ret (r\<lparr>render_zones := z\<rparr>))))"

definition parse_size :: "object_render_info \<Rightarrow> object_render_info oamd_parser" where
  "parse_size r =
     bind_rd (oamd_u8 2) (\<lambda>index.
     bind_rd
       (if index = 0 then lift_rd (decode_size index None None)
        else if index = 1 then bind_rd (oamd_u8 5) (\<lambda>u. lift_rd (decode_size index (Some u) None))
        else if index = 2 then bind_rd (parse_triple 5) (\<lambda>c. lift_rd (decode_size index None (Some c)))
        else fail ReservedSizeIndex) (\<lambda>s.
       ret (r\<lparr>render_size := s\<rparr>)))"

definition parse_screen :: "object_render_info \<Rightarrow> object_render_info oamd_parser" where
  "parse_screen r =
     bind_rd oamd_bit (\<lambda>anchor.
       if anchor then
         bind_rd (oamd_u8 3) (\<lambda>s. bind_rd (lift_rd (decode_screen_factor s)) (\<lambda>sf.
         bind_rd (oamd_u8 2) (\<lambda>d. bind_rd (lift_rd (decode_depth_factor d)) (\<lambda>df.
           ret (r\<lparr>screen_anchor := True, render_screen_factor := sf, render_depth_factor := df\<rparr>)))))
       else ret (r\<lparr>screen_anchor := False, render_screen_factor := 0, render_depth_factor := 1\<rparr>))"

definition parse_render_info ::
  "nat \<Rightarrow> nat \<Rightarrow> object_update option \<Rightarrow> object_render_info oamd_parser" where
  "parse_render_info status block_index previous =
     (if status = 0 then ret DEFAULT_RENDER
      else if status = 2 then
        (case previous of Some u \<Rightarrow> ret (as_current_absolute (update_render u))
         | None \<Rightarrow> fail MissingPreviousObjectUpdate)
      else if status = 1 \<or> status = 3 then
        bind_rd (if status = 1 then ret 15 else oamd_u8 4) (\<lambda>flags.
        let r = (case previous of None \<Rightarrow> DEFAULT_RENDER | Some u \<Rightarrow> as_current_absolute (update_render u)) in
        bind_rd (if bit flags 3 then parse_position block_index r else ret r) (\<lambda>r.
        bind_rd (if bit flags 2 then parse_zones r else ret r) (\<lambda>r.
        bind_rd (if bit flags 1 then parse_size r else ret r) (\<lambda>r.
        bind_rd (if bit flags 0 then parse_screen r else ret r) (\<lambda>r.
        bind_rd oamd_bit (\<lambda>lock.
          ret (r\<lparr>channel_lock := lock\<rparr>)))))))
      else fail InvalidPropertyCode)"

definition read_byte_window :: "nat \<Rightarrow> u8 list oamd_parser" where
  "read_byte_window byte_count =
     repeat_rd byte_count (bind_rd (oamd_u8 8) (\<lambda>n. ret (word_of_nat n)))"

text \<open>One update: block \<open>block_index\<close> of an object, given the updates of the object before it
  and of the same object so far.\<close>

definition parse_update ::
  "object_class \<Rightarrow> object_update list option \<Rightarrow> nat \<Rightarrow> object_update option \<Rightarrow> object_update oamd_parser" where
  "parse_update c prior_object block_index previous =
     bind_rd oamd_bit (\<lambda>inactive.
     let active = \<not> inactive in
     bind_rd (if \<not> active then ret 0 else if block_index = 0 then ret 1 else oamd_u8 2) (\<lambda>basic_status.
     let prior_gain = (case prior_object of
            None \<Rightarrow> None
          | Some us \<Rightarrow> if block_index < length us then Some (basic_gain (update_basic (us ! block_index)))
                       else None) in
     bind_rd (parse_basic_info basic_status previous prior_gain) (\<lambda>basic.
     bind_rd (if \<not> active \<or> c = BedOrIsf then ret 0 else if block_index = 0 then ret 1 else oamd_u8 2)
       (\<lambda>render_status.
     bind_rd (parse_render_info render_status block_index previous) (\<lambda>render.
     bind_rd oamd_bit (\<lambda>table.
     bind_rd (when_rd table (bind_rd (oamd_u8 4) (\<lambda>n. read_byte_window (n + 1)))) (\<lambda>data.
       ret \<lparr>update_active = active, update_basic = basic, update_render = render,
            additional_table_data = data\<rparr>)))))))"

text \<open>\<open>for block_index in 0..block_count\<close>: the updates so far are the accumulator.\<close>

fun parse_updates ::
  "object_class \<Rightarrow> object_update list option \<Rightarrow> nat \<Rightarrow> object_update list \<Rightarrow> object_update list oamd_parser" where
  "parse_updates c prior_object 0 updates = ret updates"
| "parse_updates c prior_object (Suc k) updates =
     bind_rd (parse_update c prior_object (length updates)
                (if updates = [] then None else Some (last updates))) (\<lambda>u.
     parse_updates c prior_object k (updates @ [u]))"

fun parse_objects ::
  "nat \<Rightarrow> object_class list \<Rightarrow> object_update list list \<Rightarrow> object_update list list oamd_parser" where
  "parse_objects block_count [] objects = ret objects"
| "parse_objects block_count (c # cs) objects =
     bind_rd (parse_updates c (if objects = [] then None else Some (last objects)) block_count []) (\<lambda>us.
     parse_objects block_count cs (objects @ [us]))"

definition parse_object_element_reader :: "object_class list \<Rightarrow> object_element oamd_parser" where
  "parse_object_element_reader classes =
     bind_rd (counted (
       bind_rd parse_metadata_timing_reader (\<lambda>timing.
       bind_rd oamd_bit (\<lambda>is_default.
       bind_rd (if is_default then ret () else
                  bind_rd (oamd_bits 5) (\<lambda>v. guard_rd (v = 0) OamdNonzeroReservedData)) (\<lambda>_.
       bind_rd (parse_objects (length (timing_blocks timing)) classes []) (\<lambda>objects.
         ret (timing, objects))))))) (\<lambda>((timing, objects), consumed).
     ret \<lparr>element_timing = timing, element_objects = objects, element_consumed_bits = consumed\<rparr>)"

definition parse_object_element :: "u8 list \<Rightarrow> object_class list \<Rightarrow> oamd_error + object_element" where
  "parse_object_element payload classes = fst (parse_object_element_reader classes (new_reader payload))"

end
