(* ===== verification/OamdTrim.thy ===== *)
theory OamdTrim
  imports OamdObject
begin

text \<open>
  Trim elements (\<open>trim.rs\<close>) and extended object metadata (\<open>extended_object.rs\<close>) of
  \<open>crates/openjoc-oamd/src\<close>.
\<close>

section \<open>Trim\<close>

datatype warp_mode = WarpNone | WarpDoubleY

record trim_controls =
  centre_db :: "real option"
  surround_db :: "real option"
  height_db :: "real option"
  top_bottom_y_balance :: "real option"
  listener_y_balance :: "real option"

datatype trim_configuration = TrimDefault | TrimDisabled | TrimCustom trim_controls

datatype global_trim = GlobalDefault | GlobalDisabled | GlobalCustom "trim_configuration list"

record trim_element =
  trim_warp_mode :: warp_mode
  trim_global :: global_trim
  disable_trim_per_object :: "bool list"
  trim_consumed_bits :: nat

definition TRIM_CENTRE :: "real list" where
  "TRIM_CENTRE = [6, 3, 3 / 2, 3 / 4, - (3 / 4), - (3 / 2), - 3, - (9 / 2), - 6, - (15 / 2), - 9,
     - (21 / 2), - 12, - (27 / 2), - 16, - 36]"

definition TRIM_SURROUND :: "real list" where
  "TRIM_SURROUND = [- (3 / 4), - (3 / 2), - 3, - (9 / 2), - 6, - (15 / 2), - 9, - (21 / 2), - 12,
     - (27 / 2), - 16, - 36]"

definition decode_trim_centre :: "nat \<Rightarrow> oamd_error + real" where
  "decode_trim_centre code = table_get TRIM_CENTRE code"

definition decode_trim_surround_or_height :: "nat \<Rightarrow> oamd_error + real" where
  "decode_trim_surround_or_height code =
     (if code < 4 then Inl (ReservedTrimCode code) else table_get TRIM_SURROUND (code - 4))"

definition decode_y_balance :: "nat \<Rightarrow> nat \<Rightarrow> oamd_error + real" where
  "decode_y_balance sign_code amount =
     attempt (if sign_code = 0 then Inr (- 1) else if sign_code = 1 then Inr 1 else Inl InvalidPropertyCode)
       (\<lambda>sign. if amount > 15 then Inl InvalidPropertyCode else Inr (sign * (real amount + 1) / 16))"

definition parse_y_balance :: "real oamd_parser" where
  "parse_y_balance =
     bind_rd (oamd_u8 1) (\<lambda>s. bind_rd (oamd_u8 4) (\<lambda>a. lift_rd (decode_y_balance s a)))"

definition parse_configuration :: "trim_configuration oamd_parser" where
  "parse_configuration =
     bind_rd oamd_bit (\<lambda>is_default.
       if is_default then ret TrimDefault
       else bind_rd oamd_bit (\<lambda>disabled.
         if disabled then ret TrimDisabled
         else
           bind_rd (oamd_u8 5) (\<lambda>presence.
           bind_rd (when_rd (bit presence 0) (bind_rd (oamd_u8 4) (\<lambda>c. lift_rd (decode_trim_centre c)))) (\<lambda>centre.
           bind_rd (when_rd (bit presence 1)
                      (bind_rd (oamd_u8 4) (\<lambda>c. lift_rd (decode_trim_surround_or_height c)))) (\<lambda>surround.
           bind_rd (when_rd (bit presence 2)
                      (bind_rd (oamd_u8 4) (\<lambda>c. lift_rd (decode_trim_surround_or_height c)))) (\<lambda>height.
           bind_rd (when_rd (bit presence 3) parse_y_balance) (\<lambda>top_bottom.
           bind_rd (when_rd (bit presence 4) parse_y_balance) (\<lambda>listener.
             ret (TrimCustom \<lparr>centre_db = centre, surround_db = surround, height_db = height,
                    top_bottom_y_balance = top_bottom, listener_y_balance = listener\<rparr>))))))))) "

definition parse_warp_mode :: "warp_mode oamd_parser" where
  "parse_warp_mode =
     bind_rd (oamd_u8 2) (\<lambda>code.
       if code = 0 then ret WarpNone
       else if code = 1 then ret WarpDoubleY
       else fail (ReservedWarpMode code))"

definition parse_global_trim :: "nat \<Rightarrow> global_trim oamd_parser" where
  "parse_global_trim trim_configuration_count =
     bind_rd (oamd_u8 2) (\<lambda>code.
       if code = 0 then ret GlobalDefault
       else if code = 1 then ret GlobalDisabled
       else if code = 2 then
         bind_rd (repeat_rd trim_configuration_count parse_configuration) (\<lambda>cs. ret (GlobalCustom cs))
       else fail ReservedGlobalTrimMode)"

definition parse_trim_element_reader :: "nat \<Rightarrow> nat \<Rightarrow> trim_element oamd_parser" where
  "parse_trim_element_reader object_count trim_configuration_count =
     bind_rd (counted (
       bind_rd parse_warp_mode (\<lambda>warp.
       bind_rd (oamd_bits 2) (\<lambda>reserved.
       bind_rd (guard_rd (reserved = 0) OamdNonzeroReservedData) (\<lambda>_.
       bind_rd (parse_global_trim trim_configuration_count) (\<lambda>global.
       bind_rd oamd_bit (\<lambda>per_object.
       bind_rd (if per_object then repeat_rd object_count oamd_bit else ret (replicate object_count False))
         (\<lambda>disabled. ret (warp, global, disabled))))))))) (\<lambda>((warp, global, disabled), consumed).
     ret \<lparr>trim_warp_mode = warp, trim_global = global, disable_trim_per_object = disabled,
          trim_consumed_bits = consumed\<rparr>)"

definition parse_trim_element :: "u8 list \<Rightarrow> nat \<Rightarrow> nat \<Rightarrow> oamd_error + trim_element" where
  "parse_trim_element payload object_count trim_configuration_count =
     fst (parse_trim_element_reader object_count trim_configuration_count (new_reader payload))"

section \<open>Extended object metadata\<close>

record extended_object_element =
  divergence :: "real list list option"
  extended_precision :: "extension3 list list option"
  extended_consumed_bits :: nat

text \<open>Position extensions of one object: the positions of its updates are decoded again.\<close>

definition extend_update :: "extension3 \<Rightarrow> object_update \<Rightarrow> oamd_error + object_update" where
  "extend_update extension u =
     attempt (decode_coding (render_coding (update_render u)) extension) (\<lambda>p.
       Inr (u\<lparr>update_render := (update_render u)\<lparr>render_position := p\<rparr>\<rparr>))"

definition extend_object :: "extension3 list \<times> object_update list \<Rightarrow> oamd_error + object_update list" where
  "extend_object eu =
     (case eu of (extensions, updates) \<Rightarrow>
        if length extensions \<noteq> length updates then Inl ExtendedObjectShapeMismatch
        else attempt_map (\<lambda>(e, u). extend_update e u) (zip extensions updates))"

definition apply_positions :: "extended_object_element \<Rightarrow> object_element \<Rightarrow> oamd_error + object_element" where
  "apply_positions ext objects =
     (case extended_precision ext of
        None \<Rightarrow> Inr objects
      | Some precision \<Rightarrow>
          if length precision \<noteq> length (element_objects objects) then Inl ExtendedObjectShapeMismatch
          else attempt (attempt_map extend_object (zip precision (element_objects objects)))
                 (\<lambda>os. Inr (objects\<lparr>element_objects := os\<rparr>)))"

definition DIVERGENCE_TABLE :: "real list" where
  "DIVERGENCE_TABLE = [500755 / 1000000, 608529 / 1000000, 704833 / 1000000, 1]"

definition DIVERGENCE_CODES :: "real list" where
  "DIVERGENCE_CODES = map (\<lambda>n. real n / 1000000)
     [0, 4026, 7160, 12731, 20173, 28485, 40210, 50582, 63601,
      79914, 100299, 125666, 140532, 157027, 175282, 195417, 217536,
      241718, 268002, 296377, 326766, 359017, 392895, 428081, 464184,
      500755, 537316, 573389, 608529, 642346, 674524, 704833, 733123,
      759320, 783416, 805451, 825506, 843686, 860112, 874914, 888222,
      900168, 910875, 920461, 929035, 936698, 943544, 949656, 955112,
      959980, 964322, 968195, 974729, 979923, 984050, 987330, 989935,
      992874, 994955, 996817, 998210, 998993, 1000000]"

definition decode_object_divergence_table :: "nat \<Rightarrow> oamd_error + real" where
  "decode_object_divergence_table code = table_get DIVERGENCE_TABLE code"

definition decode_object_divergence_code :: "nat \<Rightarrow> oamd_error + real" where
  "decode_object_divergence_code code =
     (if code = 0 then Inl ReservedObjectDivergenceCode else table_get DIVERGENCE_CODES (code - 1))"

definition validate_dimensions :: "object_element \<Rightarrow> object_class list \<Rightarrow> bool" where
  "validate_dimensions objects classes \<longleftrightarrow>
     length (element_objects objects) = length classes
   \<and> (\<forall>us \<in> set (element_objects objects). length us = length (timing_blocks (element_timing objects)))"

definition parse_divergence_value :: "object_class \<Rightarrow> object_update \<Rightarrow> real option \<Rightarrow> real oamd_parser" where
  "parse_divergence_value c u previous =
     bind_rd (if update_active u \<and> c = Dynamic then oamd_bit else ret False) (\<lambda>coded.
       if \<not> coded then ret 0
       else bind_rd (oamd_u8 2) (\<lambda>mode.
         if mode = 0 then bind_rd (oamd_u8 2) (\<lambda>n. lift_rd (decode_object_divergence_table n))
         else if mode = 1 then some_or previous MissingPreviousObjectDivergence
         else if mode = 2 then bind_rd (oamd_u8 6) (\<lambda>n. lift_rd (decode_object_divergence_code n))
         else fail ReservedObjectDivergenceMode))"

fun parse_divergence_object ::
  "object_class \<Rightarrow> object_update list \<Rightarrow> real option \<Rightarrow> real list oamd_parser" where
  "parse_divergence_object c [] previous = ret []"
| "parse_divergence_object c (u # us) previous =
     bind_rd (parse_divergence_value c u previous) (\<lambda>v.
     bind_rd (parse_divergence_object c us (Some v)) (\<lambda>vs. ret (v # vs)))"

definition parse_divergence :: "object_element \<Rightarrow> object_class list \<Rightarrow> real list list oamd_parser" where
  "parse_divergence objects classes =
     each_rd (\<lambda>(us, c). parse_divergence_object c us None) (zip (element_objects objects) classes)"

definition parse_extension :: "object_class \<Rightarrow> object_update \<Rightarrow> extension3 oamd_parser" where
  "parse_extension c u =
     bind_rd (if \<not> update_active u \<or> c \<noteq> Dynamic then ret False else oamd_bit) (\<lambda>coded.
       if \<not> coded then ret (None, None, None)
       else
         bind_rd (oamd_u8 3) (\<lambda>presence.
         bind_rd (when_rd (bit presence 2) (oamd_u8 2)) (\<lambda>x.
         bind_rd (when_rd (bit presence 1) (oamd_u8 2)) (\<lambda>y.
         bind_rd (when_rd (bit presence 0) (oamd_u8 2)) (\<lambda>z.
           ret (x, y, z))))))"

definition parse_precision :: "object_element \<Rightarrow> object_class list \<Rightarrow> extension3 list list oamd_parser" where
  "parse_precision objects classes =
     each_rd (\<lambda>(us, c). each_rd (parse_extension c) us) (zip (element_objects objects) classes)"

definition parse_extended_object_element_reader ::
  "object_element \<Rightarrow> object_class list \<Rightarrow> extended_object_element oamd_parser" where
  "parse_extended_object_element_reader objects classes =
     bind_rd (guard_rd (validate_dimensions objects classes) ExtendedObjectShapeMismatch) (\<lambda>_.
     bind_rd (counted (
       bind_rd oamd_bit (\<lambda>has_divergence.
       bind_rd (when_rd has_divergence (parse_divergence objects classes)) (\<lambda>divergence.
       bind_rd oamd_bit (\<lambda>has_precision.
       bind_rd (when_rd has_precision (parse_precision objects classes)) (\<lambda>precision.
         ret (divergence, precision))))))) (\<lambda>((divergence, precision), consumed).
     ret \<lparr>divergence = divergence, extended_precision = precision, extended_consumed_bits = consumed\<rparr>))"

definition parse_extended_object_element ::
  "u8 list \<Rightarrow> object_element \<Rightarrow> object_class list \<Rightarrow> oamd_error + extended_object_element" where
  "parse_extended_object_element payload objects classes =
     fst (parse_extended_object_element_reader objects classes (new_reader payload))"

end
