(* ===== verification/OamdPayload.thy ===== *)
theory OamdPayload
  imports OamdTrim
begin

text \<open>
  The top level of the OAMD payload, \<open>crates/openjoc-oamd/src/payload.rs\<close>: the bounded windows of
  the elements, their decoding or lossless retention, the vendor profile, and the bit trace.
  SHA-256 is code outside the sources: the parameter \<open>sha256\<close> maps bytes to the digest text.
\<close>

section \<open>Opaque bits\<close>

record opaque_bits =
  opaque_bytes :: "u8 list"
  opaque_len :: nat

text \<open>\<open>payload[bit / 8] & (0x80 >> (bit % 8)) != 0\<close>.\<close>

definition msb_bit :: "u8 list \<Rightarrow> nat \<Rightarrow> bool" where
  "msb_bit bs i = bit (bs ! (i div 8)) (7 - i mod 8)"

definition set_msb_bit :: "nat \<Rightarrow> u8 list \<Rightarrow> u8 list" where
  "set_msb_bit i bs = bs[i div 8 := bs ! (i div 8) OR push_bit (7 - i mod 8) 1]"

definition opaque_bit :: "opaque_bits \<Rightarrow> nat \<Rightarrow> bool option" where
  "opaque_bit b index = (if index < opaque_len b then Some (msb_bit (opaque_bytes b) index) else None)"

text \<open>The bits of a list set into zero bytes, from bit \<open>i\<close> on.\<close>

fun set_bits :: "nat \<Rightarrow> bool list \<Rightarrow> u8 list \<Rightarrow> u8 list" where
  "set_bits i [] bs = bs"
| "set_bits i (b # rest) bs = set_bits (Suc i) rest (if b then set_msb_bit i bs else bs)"

definition opaque_of :: "bool list \<Rightarrow> opaque_bits" where
  "opaque_of bits = \<lparr>opaque_bytes = set_bits 0 bits (replicate ((length bits + 7) div 8) 0),
     opaque_len = length bits\<rparr>"

definition read_window_u8 :: "u8 list \<Rightarrow> nat \<Rightarrow> nat \<Rightarrow> oamd_error + nat" where
  "read_window_u8 payload start_bit width =
     (let end_bit = start_bit + width; total_bits = length payload * 8 in
      if end_bit > usize_max \<or> total_bits > usize_max then Inl OamdValueOverflow
      else if end_bit > total_bits \<or> width > 8
      then Inl (OamdBit (EndOfInput width (total_bits - start_bit)))
      else Inr (bits_value (map (msb_bit payload) [start_bit..<end_bit])))"

definition copy_bit_window :: "u8 list \<Rightarrow> nat \<Rightarrow> nat \<Rightarrow> oamd_error + opaque_bits" where
  "copy_bit_window payload start_bit end_bit =
     (let bit_len = end_bit - start_bit; total_bits = length payload * 8 in
      if end_bit < start_bit then Inl OamdValueOverflow
      else if total_bits > usize_max then Inl OamdValueOverflow
      else if end_bit > total_bits then Inl (OamdBit (EndOfInput bit_len (total_bits - start_bit)))
      else if bit_len + 7 > usize_max then Inl OamdValueOverflow
      else Inr (opaque_of (map (msb_bit payload) [start_bit..<end_bit])))"

text \<open>\<open>u64::to_be_bytes\<close>.\<close>

definition be_bytes64 :: "nat \<Rightarrow> u8 list" where
  "be_bytes64 n = map (\<lambda>i. word_of_nat (n div 256 ^ (7 - i))) [0..<8]"

definition sha256_bit_window ::
  "(u8 list \<Rightarrow> string) \<Rightarrow> opaque_bits \<Rightarrow> nat \<Rightarrow> nat \<Rightarrow> oamd_error + string" where
  "sha256_bit_window sha256 b start_bit end_bit =
     (if end_bit < start_bit \<or> end_bit > opaque_len b then Inl OamdValueOverflow
      else attempt (copy_bit_window (opaque_bytes b) start_bit end_bit) (\<lambda>w.
             Inr (sha256 (be_bytes64 (opaque_len w) @ opaque_bytes w))))"

text \<open>\<open>read_opaque\<close>: every remaining bit of the reader.\<close>

definition read_opaque :: "opaque_bits oamd_parser" where
  "read_opaque r =
     (let bit_len = bits_remaining r in
      if bit_len + 7 > usize_max then (Inl OamdValueOverflow, r)
      else bind_rd (repeat_rd bit_len oamd_bit) (\<lambda>bits. ret (opaque_of bits)) r)"

section \<open>Elements\<close>

definition OAMD_ID :: u64 where
  "OAMD_ID = 11"

datatype oamd_parse_profile = OamdEtsiStrict | OamdObservedVendorCompat

definition NUM_TRIM_CONFIGS :: nat where
  "NUM_TRIM_CONFIGS = 9"

record oamd_decoder_config =
  trim_configuration_count :: "nat option"

definition with_trim_configuration_count :: "nat option \<Rightarrow> oamd_decoder_config" where
  "with_trim_configuration_count override_count =
     \<lparr>trim_configuration_count = (case override_count of None \<Rightarrow> Some NUM_TRIM_CONFIGS | Some n \<Rightarrow> Some n)\<rparr>"

definition default_config :: oamd_decoder_config where
  "default_config = with_trim_configuration_count None"

record observed_element =
  obs_element_id :: nat
  obs_alternate_data_id :: "nat option"
  obs_discard_unknown :: bool
  declared_bits :: nat
  declared_bytes :: nat
  valid_bits_in_last_byte :: nat
  raw_body :: opaque_bits
  raw_body_sha256 :: string
  body_payload_start_bit :: nat
  body_payload_end_bit :: nat
  first_parser_error :: oamd_error
  raw_warp :: nat
  warp_element_relative_start_bit :: nat
  warp_element_relative_end_bit :: nat
  warp_payload_start_bit :: nat
  warp_payload_end_bit :: nat
  continuation_element_relative_start_bit :: nat
  continuation_element_relative_end_bit :: nat
  continuation_payload_start_bit :: nat
  continuation_payload_end_bit :: nat
  continuation_sha256 :: string
  preservation_status :: string
  provenance :: string
  interpretation_status :: string
  deviation_code :: string

record vendor_continuation_view =
  view_source :: opaque_bits
  view_start_bit :: nat
  view_end_bit :: nat
  view_raw_warp :: nat
  view_provenance :: string
  view_interpretation_status :: string

definition vendor_continuation :: "observed_element \<Rightarrow> vendor_continuation_view" where
  "vendor_continuation e =
     \<lparr>view_source = raw_body e, view_start_bit = continuation_element_relative_start_bit e,
      view_end_bit = continuation_element_relative_end_bit e, view_raw_warp = raw_warp e,
      view_provenance = provenance e, view_interpretation_status = interpretation_status e\<rparr>"

definition view_bit_len :: "vendor_continuation_view \<Rightarrow> nat" where
  "view_bit_len v = view_end_bit v - view_start_bit v"

definition view_bit :: "vendor_continuation_view \<Rightarrow> nat \<Rightarrow> bool option" where
  "view_bit v index =
     (if index < view_bit_len v then opaque_bit (view_source v) (view_start_bit v + index) else None)"

datatype oamd_element =
  Objects object_element
| TrimOf trim_element
| OpaqueObservedKnown observed_element
| Extended extended_object_element
| UnknownElement opaque_bits

record oamd_element_metadata =
  meta_id :: nat
  meta_alternate_data_id :: "nat option"
  meta_discard_unknown :: bool
  meta_element :: oamd_element

record oamd_payload =
  oamd_prefix :: oamd_content_prefix
  oamd_object_classes :: "object_class list"
  oamd_elements :: "oamd_element_metadata list"
  oamd_consumed_bits :: nat

definition class_of_anchor :: "object_anchor \<Rightarrow> object_class" where
  "class_of_anchor a =
     (case a of AnchorDynamic \<Rightarrow> Dynamic | AnchorSpeaker _ \<Rightarrow> BedOrIsf | IntermediateSpatial _ \<Rightarrow> BedOrIsf)"

definition derive_object_classes :: "oamd_content_prefix \<Rightarrow> oamd_error + object_class list" where
  "derive_object_classes p = attempt (object_anchors p) (\<lambda>as. Inr (map class_of_anchor as))"

definition consume_zero_padding :: "unit oamd_parser" where
  "consume_zero_padding = zero_padding OamdBit OamdNonzeroPadding"

section \<open>The element loop\<close>

text \<open>
  The header of an element: identifier, size in bytes and bits.  The code checks the addition
  and the multiplication.
\<close>

definition parse_element_header :: "(nat \<times> nat \<times> nat) oamd_parser" where
  "parse_element_header =
     bind_rd (oamd_u8 4) (\<lambda>eid.
     bind_rd (variable_bits_max 4 4) (\<lambda>size_minus_one.
     bind_rd (some_or (checked_add64 size_minus_one 1) OamdValueOverflow) (\<lambda>size.
     bind_rd (some_or (checked_usize (unat size)) OamdValueOverflow) (\<lambda>size_bytes.
     bind_rd (some_or (checked_usize (size_bytes * 8)) OamdValueOverflow) (\<lambda>size_bits.
       ret (eid, size_bytes, size_bits))))))"

text \<open>The vendor fallback: the complete body of a trim element with the reserved warp code 3.\<close>

definition observe_trim ::
  "(u8 list \<Rightarrow> string) \<Rightarrow> u8 list \<Rightarrow> bool \<Rightarrow> nat option \<Rightarrow> bool \<Rightarrow> nat \<Rightarrow> nat \<Rightarrow> nat \<Rightarrow> nat \<Rightarrow>
   oamd_error + oamd_element" where
  "observe_trim sha256 raw alternate alternate_id discard size_bytes size_bits body_start body_end =
     (let e = ReservedWarpMode 3;
          relative_start = (if alternate then 1 else 0) * 4 + 1;
          relative_end = relative_start + 2;
          warp_start = body_start + relative_start in
      if relative_end > size_bits then Inl e
      else attempt (read_window_u8 raw warp_start 2) (\<lambda>raw_warp.
        if raw_warp \<noteq> 3 then Inl e
        else attempt (copy_bit_window raw body_start body_end) (\<lambda>body.
          attempt (sha256_bit_window sha256 body relative_end size_bits) (\<lambda>continuation.
            Inr (OpaqueObservedKnown
              \<lparr>obs_element_id = 2, obs_alternate_data_id = alternate_id, obs_discard_unknown = discard,
               declared_bits = size_bits, declared_bytes = size_bytes,
               valid_bits_in_last_byte = (if opaque_len body mod 8 = 0 then 8 else opaque_len body mod 8),
               raw_body = body, raw_body_sha256 = sha256 (opaque_bytes body),
               body_payload_start_bit = body_start, body_payload_end_bit = body_end,
               first_parser_error = e, raw_warp = raw_warp,
               warp_element_relative_start_bit = relative_start,
               warp_element_relative_end_bit = relative_end,
               warp_payload_start_bit = warp_start, warp_payload_end_bit = warp_start + 2,
               continuation_element_relative_start_bit = relative_end,
               continuation_element_relative_end_bit = size_bits,
               continuation_payload_start_bit = warp_start + 2,
               continuation_payload_end_bit = body_end,
               continuation_sha256 = continuation,
               preservation_status = ''opaque_lossless_bounded'',
               provenance = ''vendor_observed_normative_unresolved'',
               interpretation_status = ''unresolved'',
               deviation_code = ''LOGIC_OAMD_RESERVED_TRIM_WARP_3''\<rparr>)))))"

text \<open>The trim arm of the match: the formal parser first, then the fallback.\<close>

definition parse_trim_body ::
  "(u8 list \<Rightarrow> string) \<Rightarrow> oamd_decoder_config \<Rightarrow> oamd_parse_profile \<Rightarrow> u64 option \<Rightarrow> u8 list \<Rightarrow>
   oamd_content_prefix \<Rightarrow> nat option \<Rightarrow> bool \<Rightarrow> nat \<Rightarrow> nat \<Rightarrow> nat \<Rightarrow> nat \<Rightarrow> oamd_element oamd_parser" where
  "parse_trim_body sha256 config profile pid raw prefix alternate_id discard size_bytes size_bits
       body_start body_end r =
     (case trim_configuration_count config of
        None \<Rightarrow> (Inl MissingTrimConfigurationCount, r)
      | Some count \<Rightarrow>
          (case parse_trim_element_reader (prefix_object_count prefix) count r of
             (Inr t, r') \<Rightarrow> bind_rd consume_zero_padding (\<lambda>_. ret (TrimOf t)) r'
           | (Inl e, r') \<Rightarrow>
               if e = ReservedWarpMode 3 \<and> profile = OamdObservedVendorCompat \<and> pid = Some OAMD_ID
                  \<and> (alternate_id = None \<or> alternate_id = Some 0)
               then (observe_trim sha256 raw (prefix_alternate_data prefix) alternate_id discard
                       size_bytes size_bits body_start body_end, r')
               else (Inl e, r')))"

text \<open>\<open>rposition\<close> of an object element.\<close>

definition is_objects :: "oamd_element_metadata \<Rightarrow> bool" where
  "is_objects m = (case meta_element m of Objects _ \<Rightarrow> True | _ \<Rightarrow> False)"

definition last_objects :: "oamd_element_metadata list \<Rightarrow> (nat \<times> object_element) option" where
  "last_objects ms =
     (case filter (\<lambda>i. is_objects (ms ! i)) [0..<length ms] of
        [] \<Rightarrow> None
      | is \<Rightarrow> (case meta_element (ms ! last is) of Objects ob \<Rightarrow> Some (last is, ob) | _ \<Rightarrow> None))"

text \<open>The extension arm: it also updates the object element it extends.\<close>

definition parse_extension_body ::
  "object_class list \<Rightarrow> oamd_element_metadata list \<Rightarrow>
   (oamd_element \<times> oamd_element_metadata list) oamd_parser" where
  "parse_extension_body classes elements =
     bind_rd (some_or (last_objects elements) MissingObjectElementForExtension) (\<lambda>(index, objects).
     bind_rd (parse_extended_object_element_reader objects classes) (\<lambda>extension.
     bind_rd consume_zero_padding (\<lambda>_.
     bind_rd (lift_rd (apply_positions extension objects)) (\<lambda>objects'.
       ret (Extended extension,
            elements[index := (elements ! index)\<lparr>meta_element := Objects objects'\<rparr>])))))"

text \<open>The body of an element, read from its own window.\<close>

definition parse_element_body ::
  "(u8 list \<Rightarrow> string) \<Rightarrow> oamd_decoder_config \<Rightarrow> oamd_parse_profile \<Rightarrow> u64 option \<Rightarrow> u8 list \<Rightarrow>
   oamd_content_prefix \<Rightarrow> object_class list \<Rightarrow> oamd_element_metadata list \<Rightarrow>
   nat \<Rightarrow> nat \<Rightarrow> nat \<Rightarrow> nat \<Rightarrow> nat \<Rightarrow> oamd_element_metadata list oamd_parser" where
  "parse_element_body sha256 config profile pid raw prefix classes elements eid size_bytes size_bits
       body_start body_end =
     bind_rd (when_rd (prefix_alternate_data prefix) (oamd_u8 4)) (\<lambda>alternate_id.
     bind_rd (case alternate_id of
                Some a \<Rightarrow> guard_rd (\<not> (eid = 1 \<and> a \<noteq> 0)) (ReservedAlternateObjectData a)
              | None \<Rightarrow> ret ()) (\<lambda>_.
     bind_rd oamd_bit (\<lambda>discard.
     bind_rd
       (if eid = 1 then
          bind_rd (parse_object_element_reader classes) (\<lambda>objects.
          bind_rd consume_zero_padding (\<lambda>_. ret (Objects objects, elements)))
        else if eid = 2 then
          bind_rd (parse_trim_body sha256 config profile pid raw prefix alternate_id discard
                     size_bytes size_bits body_start body_end) (\<lambda>el. ret (el, elements))
        else if eid = 5 then parse_extension_body classes elements
        else bind_rd read_opaque (\<lambda>b. ret (UnknownElement b, elements))) (\<lambda>(element, elements').
     ret (elements' @ [\<lparr>meta_id = eid, meta_alternate_data_id = alternate_id,
                        meta_discard_unknown = discard, meta_element = element\<rparr>])))))"

text \<open>
  One iteration: the header, the window, the body.  The body runs on the window, the outer
  reader is behind it.
\<close>

definition parse_element ::
  "(u8 list \<Rightarrow> string) \<Rightarrow> oamd_decoder_config \<Rightarrow> oamd_parse_profile \<Rightarrow> u64 option \<Rightarrow> u8 list \<Rightarrow>
   oamd_content_prefix \<Rightarrow> object_class list \<Rightarrow> oamd_element_metadata list \<Rightarrow>
   oamd_element_metadata list oamd_parser" where
  "parse_element sha256 config profile pid raw prefix classes elements =
     bind_rd parse_element_header (\<lambda>(eid, size_bytes, size_bits) r.
       (let body_start = length raw * 8 - bits_remaining r in
        bind_rd (oamd_window size_bits) (\<lambda>window r'.
          (let body_end = length raw * 8 - bits_remaining r' in
           (fst (parse_element_body sha256 config profile pid raw prefix classes elements eid size_bytes
                   size_bits body_start body_end window), r'))) r))"

fun parse_elements ::
  "nat \<Rightarrow> (u8 list \<Rightarrow> string) \<Rightarrow> oamd_decoder_config \<Rightarrow> oamd_parse_profile \<Rightarrow> u64 option \<Rightarrow> u8 list \<Rightarrow>
   oamd_content_prefix \<Rightarrow> object_class list \<Rightarrow> oamd_element_metadata list \<Rightarrow>
   oamd_element_metadata list oamd_parser" where
  "parse_elements 0 sha256 config profile pid raw prefix classes elements = ret elements"
| "parse_elements (Suc n) sha256 config profile pid raw prefix classes elements =
     bind_rd (parse_element sha256 config profile pid raw prefix classes elements)
       (parse_elements n sha256 config profile pid raw prefix classes)"

definition parse_oamd_payload_inner ::
  "(u8 list \<Rightarrow> string) \<Rightarrow> u8 list \<Rightarrow> oamd_decoder_config \<Rightarrow> oamd_parse_profile \<Rightarrow> u64 option \<Rightarrow>
   oamd_error + oamd_payload" where
  "parse_oamd_payload_inner sha256 raw config profile pid =
     (if length raw * 8 > usize_max then Inl OamdValueOverflow
      else
        let initial_bits = bits_remaining (new_reader raw) in
        fst (bind_rd parse_oamd_content_prefix_reader (\<lambda>prefix.
             bind_rd (lift_rd (derive_object_classes prefix)) (\<lambda>classes.
             bind_rd (parse_elements (prefix_element_count prefix) sha256 config profile pid raw prefix classes [])
               (\<lambda>elements.
             bind_rd consume_zero_padding (\<lambda>_.
               ret \<lparr>oamd_prefix = prefix, oamd_object_classes = classes, oamd_elements = elements,
                    oamd_consumed_bits = initial_bits\<rparr>)))) (new_reader raw)))"

definition parse_oamd_payload_with_config ::
  "(u8 list \<Rightarrow> string) \<Rightarrow> u8 list \<Rightarrow> oamd_decoder_config \<Rightarrow> oamd_error + oamd_payload" where
  "parse_oamd_payload_with_config sha256 raw config = parse_oamd_payload_inner sha256 raw config OamdEtsiStrict None"

definition parse_oamd_payload :: "(u8 list \<Rightarrow> string) \<Rightarrow> u8 list \<Rightarrow> oamd_error + oamd_payload" where
  "parse_oamd_payload sha256 raw = parse_oamd_payload_with_config sha256 raw default_config"

definition parse_oamd_payload_with_profile ::
  "(u8 list \<Rightarrow> string) \<Rightarrow> u8 list \<Rightarrow> oamd_decoder_config \<Rightarrow> oamd_parse_profile \<Rightarrow> u64 \<Rightarrow>
   oamd_error + oamd_payload" where
  "parse_oamd_payload_with_profile sha256 raw config profile pid =
     (if profile = OamdObservedVendorCompat \<and> pid \<noteq> OAMD_ID then Inl (VendorProfilePayloadId pid)
      else parse_oamd_payload_inner sha256 raw config profile (Some pid))"

section \<open>The bit trace\<close>

record oamd_element_bit_trace =
  tr_index :: nat
  tr_id :: nat
  header_start_bit :: nat
  header_end_bit :: nat
  body_start_bit :: nat
  body_end_bit :: nat
  warp_mode_start_bit :: "nat option"
  warp_mode_raw :: "nat option"

record oamd_bit_trace =
  tr_payload_bits :: nat
  prefix_end_bit :: nat
  tr_object_count :: nat
  tr_element_count :: nat
  tr_elements :: "oamd_element_bit_trace list"

definition trace_element :: "nat \<Rightarrow> bool \<Rightarrow> nat \<Rightarrow> oamd_element_bit_trace oamd_parser" where
  "trace_element payload_bits alternate index r0 =
     (let header_start = payload_bits - bits_remaining r0 in
      bind_rd parse_element_header (\<lambda>(eid, size_bytes, size_bits) r.
       (let header_end = payload_bits - bits_remaining r in
        bind_rd (oamd_window size_bits) (\<lambda>window r'.
          (let body_end = payload_bits - bits_remaining r';
               result = fst (bind_rd (when_rd alternate (oamd_bits 4)) (\<lambda>_.
                   bind_rd oamd_bit (\<lambda>_.
                   when_rd (eid = 2) (oamd_u8 2))) window) in
           (case result of
              Inl e \<Rightarrow> Inl e
            | Inr warp \<Rightarrow>
                Inr \<lparr>tr_index = index, tr_id = eid, header_start_bit = header_start,
                     header_end_bit = header_end, body_start_bit = header_end, body_end_bit = body_end,
                     warp_mode_start_bit =
                       (if eid = 2 then Some (header_end + ((if alternate then 1 else 0) * 4 + 1)) else None),
                     warp_mode_raw = warp\<rparr>, r'))) r)) r0)"

definition trace_oamd_payload :: "u8 list \<Rightarrow> oamd_error + oamd_bit_trace" where
  "trace_oamd_payload raw =
     (let payload_bits = length raw * 8 in
      if payload_bits > usize_max then Inl OamdValueOverflow
      else
        fst (bind_rd parse_oamd_content_prefix_reader (\<lambda>prefix r.
               (let prefix_end = payload_bits - bits_remaining r in
                bind_rd (each_rd (trace_element payload_bits (prefix_alternate_data prefix))
                          [0..<prefix_element_count prefix]) (\<lambda>elements.
                ret \<lparr>tr_payload_bits = payload_bits, prefix_end_bit = prefix_end,
                     tr_object_count = prefix_object_count prefix,
                     tr_element_count = prefix_element_count prefix, tr_elements = elements\<rparr>) r))
             (new_reader raw)))"

end
