(* ===== verification/OamdObjectSpec.thy ===== *)
theory OamdObjectSpec
  imports OamdTrim
begin

text \<open>
  What the object parsers guarantee: positions agree with their codings, element shapes agree
  with the declared objects and blocks, and the room projection is the ray through the boundary.
\<close>

section \<open>Closure rules\<close>

lemma exact_oamd_fields [exact_intros]:
  "exact_parser (oamd_bits n)" "exact_parser oamd_bit" "exact_parser (oamd_u8 n)"
  "exact_parser (oamd_u16 n)" "exact_parser (oamd_u32 n)" "exact_parser (lift_rd x)"
  by (auto simp: oamd_bits_def oamd_bit_def oamd_u8_def oamd_u16_def oamd_u32_def lift_rd_def
      intro!: exact_intros split: sum.split)

lemma exact_Let [exact_intros]: "(\<And>a. exact_parser (f a)) \<Longrightarrow> exact_parser (Let x f)"
  by (simp add: Let_def)

lemma exact_option [exact_intros]:
  "exact_parser p \<Longrightarrow> (\<And>a. exact_parser (q a)) \<Longrightarrow> exact_parser (case x of None \<Rightarrow> p | Some a \<Rightarrow> q a)"
  by (cases x) auto

lemma exact_prod [exact_intros]: "(\<And>a b. exact_parser (q a b)) \<Longrightarrow> exact_parser (case x of (a, b) \<Rightarrow> q a b)"
  by (cases x) auto

lemma exact_timing [exact_intros]: "exact_parser parse_metadata_timing_reader"
  by (auto simp: parse_metadata_timing_reader_def parse_sample_offset_code_def parse_block_timing_def
      parse_ramp_duration_def intro!: exact_intros)

lemma exact_basic [exact_intros]:
  "exact_parser (parse_basic_info status previous prior)"
  by (auto simp: parse_basic_info_def parse_gain_def parse_priority_def intro!: exact_intros)

lemma exact_positions [exact_intros]:
  "exact_parser (parse_triple w)" "exact_parser parse_distance"
  by (auto simp: parse_triple_def parse_distance_def intro!: exact_intros)

section \<open>Positions and their codings\<close>

definition standard_ok :: "standard_position_bits \<Rightarrow> bool" where
  "standard_ok b \<longleftrightarrow> std_x b \<le> 63 \<and> std_y b \<le> 63 \<and> - 15 \<le> std_z b \<and> std_z b \<le> 15"

abbreviation no_extension :: extension3 where
  "no_extension \<equiv> (None, None, None)"

definition position_ok :: "object_render_info \<Rightarrow> bool" where
  "position_ok r \<longleftrightarrow> standard_ok (standard_position r)
     \<and> decode_coding (render_coding r) no_extension = Inr (render_position r)
     \<and> decode_coding (Absolute (standard_position r)) no_extension = Inr (render_position r)"

definition in_room :: "position3 \<Rightarrow> bool" where
  "in_room p \<longleftrightarrow> 0 \<le> pos_x p \<and> pos_x p \<le> 1 \<and> 0 \<le> pos_y p \<and> pos_y p \<le> 1 \<and> - 1 \<le> pos_z p \<and> pos_z p \<le> 1"

lemma decode_no_extension: "decode_extended3 no_extension = Inr (0, 0, 0)"
  by (simp add: decode_extended3_def decode_extended_def)

lemma decode_absolute_standard:
  assumes "standard_ok b"
  shows "decode_coding (Absolute b) no_extension =
    Inr \<lparr>pos_x = min (real (std_x b) / 62) 1, pos_y = min (real (std_y b) / 62) 1, pos_z = of_int (std_z b) / 15\<rparr>"
  using assms
  by (auto simp: decode_coding_def decode_absolute_position_def decode_no_extension standard_ok_def)

lemma position_in_room: "position_ok r \<Longrightarrow> in_room (render_position r)"
proof -
  assume ok: "position_ok r"
  then have "render_position r = \<lparr>pos_x = min (real (std_x (standard_position r)) / 62) 1,
      pos_y = min (real (std_y (standard_position r)) / 62) 1, pos_z = of_int (std_z (standard_position r)) / 15\<rparr>"
    by (auto simp: position_ok_def decode_absolute_standard)
  then show "in_room (render_position r)" using ok by (simp add: in_room_def position_ok_def standard_ok_def)
qed

lemma decode_deltas_Inr:
  "decode_deltas delta = Inr (dx, dy, dz) \<Longrightarrow> dx \<in> {-4..3} \<and> dy \<in> {-4..3} \<and> dz \<in> {-4..3}"
proof -
  have one: "decode_signed_position_delta raw = Inr d \<Longrightarrow> d \<in> {-4..3}" for raw d
  proof -
    assume d: "decode_signed_position_delta raw = Inr d"
    then have "raw \<in> {0, 1, 2, 3, 4, 5, 6, 7}" by (auto simp: decode_signed_position_delta_def split: if_splits)
    then show "d \<in> {-4..3}" using d by (auto simp: decode_signed_position_delta_def bit_nat_def)
  qed
  show "decode_deltas delta = Inr (dx, dy, dz) \<Longrightarrow> dx \<in> {-4..3} \<and> dy \<in> {-4..3} \<and> dz \<in> {-4..3}"
    using one by (auto simp: decode_deltas_def attempt_Inr split: prod.splits)
qed

lemma clamp_unit:
  fixes n m :: int
  assumes "lo \<le> hi" and "0 < m"
  shows "clamp (of_int lo / of_int m) (of_int hi / of_int m) (of_int n / of_int m) = (of_int (clamp lo hi n) / of_int m :: real)"
  using assms by (auto simp: clamp_def divide_less_cancel)

lemma clamp_axis:
  assumes "x \<le> 63"
  shows "clamp 0 1 (real x / 62 + of_int d / 62) = min (real (nat (clamp 0 62 (int x + d))) / 62) 1"
proof -
  have "real x / 62 + of_int d / 62 = of_int (int x + d) / of_int 62" by (simp add: add_divide_distrib)
  then show ?thesis
    using clamp_unit [of 0 62 62 "int x + d"] by (auto simp: clamp_def)
qed

lemma clamp_height: "clamp (- 1) 1 (of_int z / 15 + of_int d / 15 :: real) = of_int (clamp (- 15) 15 (z + d)) / 15"
proof -
  have "of_int z / 15 + of_int d / 15 = (of_int (z + d) / of_int 15 :: real)" by (simp add: add_divide_distrib)
  then show ?thesis using clamp_unit [of "- 15" 15 15 "z + d"] by (simp add: add_divide_distrib)
qed

lemma differential_is_absolute:
  assumes ok: "standard_ok b" and p: "decode_differential_position b delta no_extension = Inr p"
    and s: "standard_after_delta b delta = Inr s"
  shows "standard_ok s" and "decode_coding (Absolute s) no_extension = Inr p"
proof -
  obtain dx dy dz where d: "decode_deltas delta = Inr (dx, dy, dz)"
    and s_eq: "s = \<lparr>std_x = nat (clamp 0 62 (int (std_x b) + dx)), std_y = nat (clamp 0 62 (int (std_y b) + dy)),
        std_z = clamp (- 15) 15 (std_z b + dz)\<rparr>"
    using s by (auto simp: standard_after_delta_def attempt_Inr)
  show s_ok: "standard_ok s" by (auto simp: s_eq standard_ok_def clamp_def)
  have "p = \<lparr>pos_x = clamp 0 1 (real (std_x b) / 62 + of_int dx / 62),
      pos_y = clamp 0 1 (real (std_y b) / 62 + of_int dy / 62),
      pos_z = clamp (- 1) 1 (of_int (std_z b) / 15 + of_int dz / 15)\<rparr>"
    using p d by (auto simp: decode_differential_position_def decode_no_extension split: if_splits)
  then show "decode_coding (Absolute s) no_extension = Inr p"
    using ok unfolding decode_absolute_standard [OF s_ok] by (simp only: s_eq clamp_axis clamp_height standard_ok_def
        standard_position_bits.simps)
qed

lemma position_ok_default: "position_ok DEFAULT_RENDER"
  by (simp add: position_ok_def DEFAULT_RENDER_def decode_absolute_standard standard_ok_def)

lemma position_ok_current [simp]: "position_ok r \<Longrightarrow> position_ok (as_current_absolute r)"
  by (simp add: position_ok_def as_current_absolute_def)

section \<open>The object element\<close>

lemma yields_absolute: "yields (parse_absolute r) position_ok"
  unfolding parse_absolute_def
proof (rule yields_then, rule yields_then, rule yields_then, rule yields_then,
    rule yields_bind_lift)
  fix x y z :: nat and positive p
  assume p: "decode_absolute_position x y positive z no_extension = Inr p"
  let ?s = "\<lparr>std_x = x, std_y = y, std_z = if positive then int z else - int z\<rparr>"
  have ok: "standard_ok ?s" using p by (auto simp: standard_ok_def decode_absolute_position_def split: if_splits)
  have "decode_coding (Absolute ?s) no_extension = Inr p"
    unfolding decode_absolute_standard [OF ok] using p
    by (auto simp: decode_absolute_position_def decode_no_extension split: if_splits)
  then have "position_ok (r\<lparr>render_position := p, standard_position := ?s, render_coding := Absolute ?s\<rparr>)"
    using ok by (simp add: position_ok_def)
  then show "yields (let st = ?s in ret (r\<lparr>render_position := p, standard_position := st,
      render_coding := Absolute st\<rparr>)) position_ok"
    unfolding Let_def by (rule yields_ret)
qed

lemma yields_differential:
  assumes "position_ok r"
  shows "yields (parse_differential r) position_ok"
  unfolding parse_differential_def Let_def
proof (rule yields_then, rule yields_bind_lift, rule yields_bind_lift, rule yields_ret)
  fix delta p s
  assume p: "decode_differential_position (standard_position r) delta no_extension = Inr p"
    and s: "standard_after_delta (standard_position r) delta = Inr s"
  have "standard_ok (standard_position r)" using assms by (simp add: position_ok_def)
  then show "position_ok (r\<lparr>render_position := p, standard_position := s,
      render_coding := Differential (standard_position r) delta\<rparr>)"
    using differential_is_absolute [OF _ p s] p by (simp add: position_ok_def decode_coding_def)
qed

lemma position_ok_update [simp]:
  "position_ok (r\<lparr>render_distance := d\<rparr>) = position_ok r" "position_ok (r\<lparr>render_zones := z\<rparr>) = position_ok r"
  "position_ok (r\<lparr>render_size := sz\<rparr>) = position_ok r" "position_ok (r\<lparr>channel_lock := l\<rparr>) = position_ok r"
  "position_ok (r\<lparr>screen_anchor := a, render_screen_factor := sf, render_depth_factor := df\<rparr>) = position_ok r"
  by (simp_all add: position_ok_def)

lemma yields_position:
  assumes "position_ok r"
  shows "yields (parse_position i r) position_ok"
  unfolding parse_position_def
  by (rule yields_then, rule yields_bind [where P = position_ok])
    (auto intro!: yields_intros intro: yields_differential yields_absolute assms)

lemma yields_fields:
  assumes "position_ok r"
  shows "yields (parse_zones r) position_ok" "yields (parse_size r) position_ok" "yields (parse_screen r) position_ok"
  using assms unfolding parse_zones_def parse_size_def parse_screen_def
  by (auto intro!: yields_intros)

lemma yields_render:
  assumes "\<And>u. previous = Some u \<Longrightarrow> position_ok (update_render u)"
  shows "yields (parse_render_info status i previous) position_ok"
proof -
  let ?r = "case previous of None \<Rightarrow> DEFAULT_RENDER | Some u \<Rightarrow> as_current_absolute (update_render u)"
  have base: "position_ok ?r" using assms by (auto simp: position_ok_default split: option.split)
  have previous: "yields (case previous of Some u \<Rightarrow> ret (as_current_absolute (update_render u))
      | None \<Rightarrow> fail MissingPreviousObjectUpdate) position_ok"
    using assms by (auto intro!: yields_ret yields_fail split: option.split)
  have step: "position_ok r \<Longrightarrow> (\<And>r. position_ok r \<Longrightarrow> yields (p r) position_ok) \<Longrightarrow>
      (\<And>r. position_ok r \<Longrightarrow> yields (k r) position_ok) \<Longrightarrow> yields (bind_rd (if c then p r else ret r) k) position_ok"
    for r p k c
    by (rule yields_bind [where P = position_ok]) (auto intro: yields_ret)
  have body: "yields (bind_rd (if bit flags 3 then parse_position i ?r else ret ?r) (\<lambda>r.
        bind_rd (if bit flags 2 then parse_zones r else ret r) (\<lambda>r.
        bind_rd (if bit flags 1 then parse_size r else ret r) (\<lambda>r.
        bind_rd (if bit flags 0 then parse_screen r else ret r) (\<lambda>r.
        bind_rd oamd_bit (\<lambda>lock. ret (r\<lparr>channel_lock := lock\<rparr>))))))) position_ok" for flags :: nat
    by (intro step base yields_position yields_fields yields_then yields_ret) simp_all
  show ?thesis
    unfolding parse_render_info_def Let_def
    by (intro yields_if yields_ret yields_fail position_ok_default previous yields_then body)
qed

lemma yields_update:
  assumes "\<And>u. previous = Some u \<Longrightarrow> position_ok (update_render u)"
  shows "yields (parse_update c prior i previous) (\<lambda>u. position_ok (update_render u))"
  unfolding parse_update_def Let_def
  by (rule yields_then, rule yields_then, rule yields_then, rule yields_then,
      rule yields_bind [OF yields_render [OF assms]]) (auto intro!: yields_then yields_ret)

lemma yields_updates:
  "\<forall>u \<in> set updates. position_ok (update_render u) \<Longrightarrow>
   yields (parse_updates c prior k updates)
     (\<lambda>us. length us = length updates + k \<and> (\<forall>u \<in> set us. position_ok (update_render u)))"
proof (induction k arbitrary: updates)
  case (Suc k)
  have "yields (parse_update c prior (length updates) (if updates = [] then None else Some (last updates)))
      (\<lambda>u. position_ok (update_render u))"
    using Suc.prems by (intro yields_update) (auto split: if_splits)
  then show ?case
    by (simp only: parse_updates.simps) (rule yields_bind, assumption,
      rule yields_weaken [OF Suc.IH], use Suc.prems in auto)
qed (simp add: yields_ret)

definition updates_ok :: "nat \<Rightarrow> object_update list \<Rightarrow> bool" where
  "updates_ok n us \<longleftrightarrow> length us = n \<and> (\<forall>u \<in> set us. position_ok (update_render u))"

lemma yields_objects:
  "\<forall>us \<in> set objects. updates_ok n us \<Longrightarrow>
   yields (parse_objects n cs objects)
     (\<lambda>os. length os = length objects + length cs \<and> (\<forall>us \<in> set os. updates_ok n us))"
proof (induction cs arbitrary: objects)
  case (Cons c cs)
  have one: "yields (parse_updates c prior n []) (updates_ok n)" for prior
    by (rule yields_weaken [OF yields_updates]) (auto simp: updates_ok_def)
  show ?case
    by (simp only: parse_objects.simps) (rule yields_bind [OF one], rule yields_weaken [OF Cons.IH],
      use Cons.prems in auto)
qed (simp add: yields_ret)

definition element_ok :: "nat \<Rightarrow> object_element \<Rightarrow> bool" where
  "element_ok n e \<longleftrightarrow> length (element_objects e) = n
     \<and> (\<forall>us \<in> set (element_objects e). updates_ok (length (timing_blocks (element_timing e))) us)"

lemma yields_object_element: "yields (parse_object_element_reader classes) (element_ok (length classes))"
proof -
  have "yields (bind_rd parse_metadata_timing_reader (\<lambda>timing.
       bind_rd oamd_bit (\<lambda>is_default.
       bind_rd (if is_default then ret () else
                  bind_rd (oamd_bits 5) (\<lambda>v. guard_rd (v = 0) OamdNonzeroReservedData)) (\<lambda>_.
       bind_rd (parse_objects (length (timing_blocks timing)) classes []) (\<lambda>objects.
         ret (timing, objects))))))
      (\<lambda>(timing, objects). length objects = length classes
         \<and> (\<forall>us \<in> set objects. updates_ok (length (timing_blocks timing)) us))"
    by (rule yields_then, rule yields_then, rule yields_then, rule yields_bind [OF yields_objects])
      (auto intro: yields_ret)
  then show ?thesis
    unfolding parse_object_element_reader_def
    by (rule yields_bind [OF yields_counted]) (auto intro!: yields_ret simp: element_ok_def)
qed

lemma element_ok_dimensions: "element_ok (length classes) e \<Longrightarrow> validate_dimensions e classes"
  by (simp add: element_ok_def validate_dimensions_def updates_ok_def)

end
