(* ===== verification/OamdPayloadSpec.thy ===== *)
theory OamdPayloadSpec
  imports OamdPayload OamdObjectSpec Stateful
begin

text \<open>
  Specification lemmas of the object audio metadata: the geometry of the room projection, the
  frame offsets across a stream, speaker masks, lossless bit windows, and the agreement of the bit
  trace with the parser.
\<close>

section \<open>Extensions\<close>

lemma extend_update_none: "position_ok (update_render u) \<Longrightarrow> extend_update no_extension u = Inr u"
  by (simp add: extend_update_def position_ok_def)

lemma extend_object_none:
  "\<forall>u \<in> set us. position_ok (update_render u) \<Longrightarrow> extend_object (map (\<lambda>_. no_extension) us, us) = Inr us"
  unfolding extend_object_def by (induction us) (auto simp: extend_update_none)

lemma apply_positions_none:
  assumes ok: "element_ok n e"
    and ext: "extended_precision ext = Some (map (map (\<lambda>_. no_extension)) (element_objects e))"
  shows "apply_positions ext e = Inr e"
proof -
  have "attempt_map extend_object (zip (map (map (\<lambda>_. no_extension)) os) os) = Inr os"
    if "\<forall>us \<in> set os. \<forall>u \<in> set us. position_ok (update_render u)" for os
    using that by (induction os) (auto simp: extend_object_none)
  moreover have "\<forall>us \<in> set (element_objects e). \<forall>u \<in> set us. position_ok (update_render u)"
    using ok by (auto simp: element_ok_def updates_ok_def)
  ultimately show ?thesis by (simp add: apply_positions_def ext)
qed

section \<open>Geometry of the room\<close>

text \<open>The distance from the room centre in the norm whose unit ball is the room.\<close>

definition room_norm :: "position3 \<Rightarrow> real" where
  "room_norm p = max (2 * \<bar>pos_x p - 1 / 2\<bar>) (max (2 * \<bar>pos_y p - 1 / 2\<bar>) \<bar>pos_z p\<bar>)"

definition inverse_scale :: "real \<Rightarrow> real option" where
  "inverse_scale a = (if a = 0 then None else Some (1 / a))"

lemma min_scale_two: "0 \<le> a \<Longrightarrow> 0 \<le> b \<Longrightarrow>
  min_scale [inverse_scale a, inverse_scale b] = inverse_scale (max a b)"
  by (auto simp: inverse_scale_def min_def max_def divide_simps)

lemma min_scale_cons: "min_scale (x # ss) = min_scale [x, min_scale ss]"
  by (cases x; cases "min_scale ss") auto

lemma axis_scale: "0 < h \<Longrightarrow> axis_boundary_scale d h = inverse_scale (\<bar>d\<bar> / h)"
  by (auto simp: axis_boundary_scale_def inverse_scale_def)

lemma boundary_scale_norm: "boundary_scale p = inverse_scale (room_norm p)"
proof -
  let ?a = "2 * \<bar>pos_x p - 1 / 2\<bar>" and ?b = "2 * \<bar>pos_y p - 1 / 2\<bar>" and ?c = "\<bar>pos_z p\<bar>"
  have "boundary_scale p = min_scale [inverse_scale ?a, inverse_scale ?b, inverse_scale ?c]"
    by (simp add: boundary_scale_def axis_scale ROOM_ORIGIN_def mult.commute)
  also have "\<dots> = min_scale [inverse_scale ?a, inverse_scale (max ?b ?c)]"
    by (subst min_scale_cons) (simp only: min_scale_two abs_ge_zero mult_nonneg_nonneg zero_le_numeral)
  also have "\<dots> = inverse_scale (room_norm p)"
    unfolding room_norm_def by (intro min_scale_two) auto
  finally show ?thesis .
qed

lemma room_norm_ray:
  assumes "0 \<le> t"
  shows "room_norm (on_ray t p) = t * room_norm p"
proof -
  have "room_norm (on_ray t p)
      = max (t * (2 * \<bar>pos_x p - 1 / 2\<bar>)) (max (t * (2 * \<bar>pos_y p - 1 / 2\<bar>)) (t * \<bar>pos_z p\<bar>))"
    using assms by (simp add: room_norm_def on_ray_def ROOM_ORIGIN_def abs_mult mult.left_commute)
  then show ?thesis using assms by (simp add: room_norm_def max_mult_distrib_left)
qed

lemma on_ray_ray: "on_ray f (on_ray t p) = on_ray (f * t) p"
  by (simp add: on_ray_def ROOM_ORIGIN_def)

lemma room_norm_nonneg: "0 \<le> room_norm p"
  by (simp add: room_norm_def)

section \<open>Frame offsets\<close>

interpretation metadata_step: atomic_step decode_metadata_frame "\<lambda>s. md_frame_offset s < 2 ^ 64 \<and> 1536 dvd md_frame_offset s"
  by unfold_locales (auto simp: decode_metadata_frame_def split: sum.splits if_splits)

lemma feed_offsets:
  "md_frame_offset (snd (feed decode_metadata_frame frames s))
     = md_frame_offset s + 1536 * length (accepted (fst (feed decode_metadata_frame frames s)))
   \<and> (\<forall>k < length (accepted (fst (feed decode_metadata_frame frames s))).
        \<forall>b \<in> set (accepted (fst (feed decode_metadata_frame frames s)) ! k).
          timed_frame_offset b = md_frame_offset s + 1536 * k)"
proof (induction frames arbitrary: s)
  case (Cons f fs)
  obtain r t where run: "decode_metadata_frame f s = (r, t)" by (cases "decode_metadata_frame f s")
  show ?case
  proof (cases r)
    case (Inl e)
    then have "t = s" using run metadata_step.error_unchanged by simp
    then show ?thesis using Cons [of s] run Inl by (simp add: Let_def split_beta)
  next
    case (Inr blocks)
    then have t: "md_frame_offset t = md_frame_offset s + 1536" "\<forall>b \<in> set blocks. timed_frame_offset b = md_frame_offset s"
      using run by (auto simp: decode_metadata_frame_def split: sum.splits if_splits)
    show ?thesis
      using Cons [of t] run Inr t by (auto simp: Let_def split_beta nth_Cons algebra_simps split: nat.splits)
  qed
qed simp

section \<open>Speaker masks\<close>

lemma masked_nths: "masked m xs = nths xs {i. bit m i}"
proof (induction xs arbitrary: m)
  case (Cons x xs)
  have "masked m (x # xs) = (if odd m then [x] else []) @ masked (m div 2) xs"
    by (simp add: masked_def enumerate_Suc_eq filter_map comp_def case_prod_unfold bit_0 bit_Suc)
  then show ?case using Cons by (simp add: nths_Cons bit_0 bit_Suc)
qed (simp add: masked_def)

section \<open>Bit windows\<close>

lemma msb_bit_set:
  assumes "i < 8 * length bs" and "j < 8 * length bs"
  shows "msb_bit (set_msb_bit i bs) j \<longleftrightarrow> j = i \<or> msb_bit bs j"
proof (cases "j div 8 = i div 8")
  case True
  have "i mod 8 < 8" "j mod 8 < 8" by simp_all
  then have "7 - i mod 8 = 7 - j mod 8 \<longleftrightarrow> j mod 8 = i mod 8" by arith
  also have "\<dots> \<longleftrightarrow> j = i" using True by (metis div_mult_mod_eq)
  finally show ?thesis using True assms
    by (auto simp: msb_bit_def set_msb_bit_def bit_or_iff bit_push_bit_iff bit_1_iff bit_exp_iff)
next
  case False
  then show ?thesis using assms by (auto simp: msb_bit_def set_msb_bit_def)
qed

lemma length_set_bits [simp]: "length (set_bits i bits bs) = length bs"
  by (induction i bits bs rule: set_bits.induct) (auto simp: set_msb_bit_def)

lemma msb_bit_set_bits:
  "i + length bits \<le> 8 * length bs \<Longrightarrow> j < 8 * length bs \<Longrightarrow>
   msb_bit (set_bits i bits bs) j \<longleftrightarrow> msb_bit bs j \<or> (i \<le> j \<and> j < i + length bits \<and> bits ! (j - i))"
proof (induction i bits bs rule: set_bits.induct)
  case (2 i b rest bs)
  let ?bs = "if b then set_msb_bit i bs else bs"
  have len: "length ?bs = length bs" by (simp add: set_msb_bit_def)
  have at: "msb_bit ?bs j \<longleftrightarrow> msb_bit bs j \<or> (j = i \<and> b)"
    using "2.prems" by (auto simp: msb_bit_set)
  have "(b # rest) ! (j - i) = (if j \<le> i then b else rest ! (j - Suc i))"
    by (simp add: nth_Cons')
  then show ?case
    using "2.IH" "2.prems" unfolding set_bits.simps by (auto simp: len at)
qed auto

lemma opaque_bit_of: "opaque_bit (opaque_of bits) i = (if i < length bits then Some (bits ! i) else None)"
proof -
  have "msb_bit (replicate n 0) j = False" if "j div 8 < n" for n j
    using that by (simp add: msb_bit_def)
  moreover have "i < length bits \<Longrightarrow> i < 8 * ((length bits + 7) div 8)" by linarith
  moreover have "length bits \<le> 8 * ((length bits + 7) div 8)" by linarith
  ultimately show ?thesis
    by (auto simp: opaque_bit_def opaque_of_def msb_bit_set_bits)
qed

lemma copy_bit_window_Inr:
  assumes "copy_bit_window bs a b = Inr w"
  shows "opaque_len w = b - a" and "a \<le> b" and "b \<le> 8 * length bs"
    and "opaque_bit w i = (if i < b - a then Some (msb_bit bs (a + i)) else None)"
  using assms by (auto simp: copy_bit_window_def Let_def opaque_bit_of split: if_splits) (simp_all add: opaque_of_def)

lemma msb_bit_slice: "i < 8 * length bs \<Longrightarrow> msb_bit bs i = slice_bits bs ! i"
  by (simp add: slice_bits_nth byte_bits_def nth_bits_of msb_bit_def bit_unsigned_iff flip: bit_iff_odd)

section \<open>Elements and their windows\<close>

lemma exact_variable_bits_max [exact_intros]: "exact_parser (variable_bits_max w m)"
proof -
  have "exact_parser (variable_groups w k v)" for k v
    by (induction k arbitrary: v) (auto intro!: exact_intros)
  then show ?thesis by (auto simp: variable_bits_max_def intro!: exact_intros)
qed

lemma exact_header [exact_intros]: "exact_parser parse_element_header"
  by (auto simp: parse_element_header_def intro!: exact_intros)

lemma exact_reserved [exact_intros]: "exact_parser parse_reserved_window"
proof -
  have "exact_parser (bind_rd (oamd_window n) (\<lambda>_. ret ()))" for n
  proof (rule exactI)
    fix r u r'
    assume r: "reader_ok r" and run: "bind_rd (oamd_window n) (\<lambda>_. ret ()) r = (Inr u, r')"
    then have n: "n \<le> length (unread r)"
      by (cases "n \<le> length (unread r)") (auto simp: oamd_window_def bind_rd_def map_err_def take_bits_short)
    then have r': "r' = skip n r"
      using run r by (auto simp: oamd_window_def bind_rd_def map_err_def take_bits_success ret_eq)
    have "reads (bind_rd (oamd_window n) (\<lambda>_. ret ())) (take n (unread r)) u"
      using n by (auto simp: reads_def oamd_window_def bind_rd_def map_err_def take_bits_success ret_eq)
    with n r' show "\<exists>i \<le> length (unread r). r' = skip i r \<and> reads (bind_rd (oamd_window n) (\<lambda>_. ret ())) (take i (unread r)) u"
      by blast
  qed
  moreover have "exact_parser (oamd_u8 4)" by (intro exact_intros)
  ultimately show ?thesis unfolding parse_reserved_window_def by (blast intro: exact_bind)
qed

lemma exact_prefix [exact_intros]: "exact_parser parse_oamd_content_prefix_reader"
  by (auto simp: parse_oamd_content_prefix_reader_def extended_field_def parse_program_assignment_def
      parse_beds_def parse_bed_def parse_isf_index_def intro!: exact_intros)

lemma u8_Inr:
  assumes "reader_ok r" and "oamd_u8 n r = (Inr v, r')" and "n \<le> 64"
  shows "r' = skip n r" and "n \<le> length (unread r)"
  using assms read_bits_Inr [of r n]
  by (auto simp: oamd_u8_def read_uint_def map_err_Inr ret_Inr fail_Inr elim!: bind_rd_InrE split: if_splits)

lemma window_Inr:
  assumes r: "reader_ok r" and run: "oamd_window n r = (Inr w, r')"
  shows "n \<le> length (unread r)" and "r' = skip n r" and "reader_ok r'" and "reader_ok w"
    and "bit_position w = bit_position r" and "unread w = take n (unread r)"
proof -
  show n: "n \<le> length (unread r)"
    using run r by (cases "n \<le> length (unread r)") (auto simp: oamd_window_def map_err_def take_bits_short)
  then have w: "w = \<lparr>bytes = bytes r, bit_position = bit_position r, bit_len = Some (bit_position r + n)\<rparr>"
    and r': "r' = skip n r"
    using run r by (auto simp: oamd_window_def map_err_def take_bits_success)
  show "r' = skip n r" "reader_ok r'" using r' n r by (simp_all add: reader_ok_skip)
  show "reader_ok w" "unread w = take n (unread r)" using window_reader [OF r n w] by simp_all
  show "bit_position w = bit_position r" by (simp add: w)
qed

text \<open>The outer reader of a payload: it ends with the slice, so its position is what the code computes.\<close>

definition outer :: "u8 list \<Rightarrow> bit_reader \<Rightarrow> bool" where
  "outer raw r \<longleftrightarrow> reader_ok r \<and> bytes r = raw \<and> bit_len r = Some (length raw * 8)"

lemma outer_new: "length raw * 8 \<le> usize_max \<Longrightarrow> outer raw (new_reader raw)"
  by (simp add: outer_def new_reader_ok mult.commute) (simp add: new_reader_def)

lemma outer_skip: "outer raw r \<Longrightarrow> n \<le> length (unread r) \<Longrightarrow> outer raw (skip n r)"
  by (simp add: outer_def reader_ok_skip)

lemma outer_position: "outer raw r \<Longrightarrow> length raw * 8 - bits_remaining r = bit_position r"
  by (auto simp: outer_def bits_remaining_ok length_unread reader_ok_def)

lemma outer_exact:
  assumes "exact_parser p" and "outer raw r" and "p r = (Inr a, r')"
  shows "outer raw r'" and "bit_position r \<le> bit_position r'"
proof -
  obtain n where "n \<le> length (unread r)" "r' = skip n r"
    using exactE [OF assms(1) _ assms(3)] assms(2) by (auto simp: outer_def)
  then show "outer raw r'" "bit_position r \<le> bit_position r'" using outer_skip [OF assms(2)] by simp_all
qed

lemma header_Inr:
  assumes r: "outer raw r" and run: "parse_element_header r = (Inr (eid, size_bytes, size_bits), r1)"
  shows "outer raw r1" and "bit_position r < bit_position r1" and "size_bits = size_bytes * 8"
proof -
  show "outer raw r1" by (rule outer_exact [OF exact_header r run])
  obtain n s where first: "oamd_u8 4 r = (Inr n, s)"
    and rest: "bind_rd (variable_bits_max 4 4) (\<lambda>size_minus_one.
     bind_rd (some_or (checked_add64 size_minus_one 1) OamdValueOverflow) (\<lambda>size.
     bind_rd (some_or (checked_usize (unat size)) OamdValueOverflow) (\<lambda>size_bytes.
     bind_rd (some_or (checked_usize (size_bytes * 8)) OamdValueOverflow) (\<lambda>size_bits.
       ret (n, size_bytes, size_bits))))) s = (Inr (eid, size_bytes, size_bits), r1)"
    by (rule bind_rd_InrE [OF run [unfolded parse_element_header_def]])
  have s: "s = skip 4 r" "outer raw s"
    using u8_Inr [OF _ first] r outer_skip [OF r] by (auto simp: outer_def)
  have "exact_parser (bind_rd (variable_bits_max 4 4) (\<lambda>size_minus_one.
     bind_rd (some_or (checked_add64 size_minus_one 1) OamdValueOverflow) (\<lambda>size.
     bind_rd (some_or (checked_usize (unat size)) OamdValueOverflow) (\<lambda>size_bytes.
     bind_rd (some_or (checked_usize (size_bytes * 8)) OamdValueOverflow) (\<lambda>size_bits.
       ret (n, size_bytes, size_bits))))))"
    by (intro exact_intros)
  from outer_exact(2) [OF this s(2) rest] show "bit_position r < bit_position r1" by (simp add: s(1))
  show "size_bits = size_bytes * 8"
    using rest by (auto simp: some_or_Inr ret_Inr checked_usize_def elim!: bind_rd_InrE split: if_splits)
qed

lemma parse_element_Inr:
  assumes r: "outer raw r" and run: "parse_element sha256 config profile pid raw pre classes es r = (Inr es', r')"
  obtains eid size_bytes size_bits r1 w where
    "parse_element_header r = (Inr (eid, size_bytes, size_bits), r1)" "outer raw r1"
    "bit_position r < bit_position r1" "size_bits = size_bytes * 8"
    "oamd_window size_bits r1 = (Inr w, r')" "outer raw r'" "bit_position r' = bit_position r1 + size_bits"
    "reader_ok w" "bit_position w = bit_position r1" "unread w = take size_bits (unread r1)"
    "size_bits \<le> length (unread r1)"
    "fst (parse_element_body sha256 config profile pid raw pre classes es eid size_bytes size_bits
        (bit_position r1) (bit_position r') w) = Inr es'"
proof -
  obtain x r1 where x: "parse_element_header r = (Inr x, r1)"
    and kx: "(case x of (eid, size_bytes, size_bits) \<Rightarrow> (\<lambda>r.
          (let body_start = length raw * 8 - bits_remaining r in
           bind_rd (oamd_window size_bits) (\<lambda>window r'.
          (let body_end = length raw * 8 - bits_remaining r' in
           (fst (parse_element_body sha256 config profile pid raw pre classes es eid size_bytes
                   size_bits body_start body_end window), r'))) r))) r1 = (Inr es', r')"
    by (rule bind_rd_InrE [OF run [unfolded parse_element_def]])
  obtain eid size_bytes size_bits where xs: "x = (eid, size_bytes, size_bits)" by (cases x)
  note h = x [unfolded xs]
  have k: "bind_rd (oamd_window size_bits) (\<lambda>window r'.
          (let body_end = length raw * 8 - bits_remaining r' in
           (fst (parse_element_body sha256 config profile pid raw pre classes es eid size_bytes
                   size_bits (length raw * 8 - bits_remaining r1) body_end window), r'))) r1 = (Inr es', r')"
    using kx by (simp add: xs Let_def)
  note h' = header_Inr [OF r h]
  obtain w where w: "oamd_window size_bits r1 = (Inr w, r')"
    and body: "fst (parse_element_body sha256 config profile pid raw pre classes es eid size_bytes size_bits
        (length raw * 8 - bits_remaining r1) (length raw * 8 - bits_remaining r') w) = Inr es'"
    by (rule bind_rd_InrE [OF k]) (auto simp: Let_def)
  have r1: "reader_ok r1" using h'(1) by (simp add: outer_def)
  note w' = window_Inr [OF r1 w]
  have r': "outer raw r'" using outer_skip [OF h'(1) w'(1)] w'(2) by simp
  note body' = body [unfolded outer_position [OF h'(1)] outer_position [OF r']]
  show thesis
    using that [OF h h' w r'] w' body' by simp
qed

end
