(* ===== verification/OamdInvariant.thy ===== *)
theory OamdInvariant
  imports OamdPayloadSpec
begin

text \<open>
  What a parsed metadata payload satisfies: every element has the shape its identifier and the
  declared objects require, observed vendor bodies are exact windows of the payload, and the bit
  trace lists the same elements.
\<close>

section \<open>Positions with extended precision\<close>

text \<open>An extension moves an absolute position out of the room by at most two of its steps.\<close>

definition near_room :: "position3 \<Rightarrow> bool" where
  "near_room p \<longleftrightarrow> - 1 / 155 \<le> pos_x p \<and> pos_x p \<le> 1 \<and> - 1 / 155 \<le> pos_y p \<and> pos_y p \<le> 1
     \<and> - 77 / 75 \<le> pos_z p \<and> pos_z p \<le> 77 / 75"

lemma decode_extended_bound: "decode_extended v = Inr d \<Longrightarrow> - 2 \<le> d \<and> d \<le> 2"
  by (auto simp: decode_extended_def split: option.splits if_splits)

lemma decode_extended3_bound:
  "decode_extended3 vs = Inr (x, y, z) \<Longrightarrow> - 2 \<le> x \<and> x \<le> 2 \<and> - 2 \<le> y \<and> y \<le> 2 \<and> - 2 \<le> z \<and> z \<le> 2"
  by (auto simp: decode_extended3_def attempt_Inr split: prod.splits dest: decode_extended_bound)

lemma axis_near: "- 2 \<le> d \<Longrightarrow> - 1 / 155 \<le> min (real x / 62 + of_int d / 310) 1"
proof -
  assume "- 2 \<le> d"
  then have "- 2 / 310 \<le> (of_int d / 310 :: real)" by (simp add: divide_le_cancel)
  moreover have "0 \<le> real x / 62" by simp
  ultimately have "- 2 / 310 \<le> real x / 62 + of_int d / 310" by linarith
  then show ?thesis by simp
qed

lemma height_near:
  assumes "z \<le> 15" and "- 2 \<le> d" and "d \<le> 2" and "s = 1 \<or> s = - 1"
  shows "- 77 / 75 \<le> s * real z / 15 + of_int d / 75 \<and> s * real z / 15 + of_int d / 75 \<le> (77 / 75 :: real)"
proof -
  have "- 2 / 75 \<le> (of_int d / 75 :: real)" "of_int d / 75 \<le> (2 / 75 :: real)"
    using assms(2,3) by simp_all
  moreover have "real z / 15 \<le> 1" "0 \<le> real z / 15" using assms(1) by simp_all
  moreover have "s * real z / 15 = real z / 15 \<or> s * real z / 15 = - (real z / 15)" using assms(4) by auto
  ultimately show ?thesis by linarith
qed

lemma in_room_near: "in_room p \<Longrightarrow> near_room p"
  unfolding in_room_def near_room_def by linarith

lemma decode_coding_near: "decode_coding c ext = Inr p \<Longrightarrow> near_room p"
proof (cases c)
  case (Absolute b)
  assume "decode_coding c ext = Inr p"
  then obtain dx dy dz where ext: "decode_extended3 ext = Inr (dx, dy, dz)" and z: "nat \<bar>std_z b\<bar> \<le> 15"
    and p: "p = \<lparr>pos_x = min (real (std_x b) / 62 + of_int dx / 310) 1,
      pos_y = min (real (std_y b) / 62 + of_int dy / 310) 1,
      pos_z = (if std_z b \<ge> 0 then 1 else - 1) * real (nat \<bar>std_z b\<bar>) / 15 + of_int dz / 75\<rparr>"
    by (auto simp: Absolute decode_coding_def decode_absolute_position_def attempt_Inr split: if_splits prod.splits)
  have s: "(if std_z b \<ge> 0 then 1 else - 1 :: real) = 1 \<or> (if std_z b \<ge> 0 then 1 else - 1 :: real) = - 1" by simp
  from decode_extended3_bound [OF ext] have d: "- 2 \<le> dx" "- 2 \<le> dy" "- 2 \<le> dz" "dz \<le> 2" by simp_all
  show ?thesis
    using axis_near [OF d(1), of "std_x b"] axis_near [OF d(2), of "std_y b"] height_near [OF z d(3,4) s]
    by (simp only: near_room_def p position3.simps min.cobounded2 simp_thms)
next
  case (Differential b delta)
  assume "decode_coding c ext = Inr p"
  then obtain u v w where "p = \<lparr>pos_x = clamp 0 1 u, pos_y = clamp 0 1 v, pos_z = clamp (- 1) 1 w\<rparr>"
    by (auto simp: Differential decode_coding_def decode_differential_position_def attempt_Inr
        split: if_splits prod.splits)
  then have "in_room p" by (simp add: in_room_def clamp_def)
  then show ?thesis by (rule in_room_near)
qed

lemma position_ok_near: "position_ok r \<Longrightarrow> near_room (render_position r)"
  unfolding position_ok_def by (blast intro: decode_coding_near)

text \<open>The object elements of a payload, before and after extensions.\<close>

definition objects_ok :: "object_class list \<Rightarrow> object_element \<Rightarrow> bool" where
  "objects_ok classes e \<longleftrightarrow> validate_dimensions e classes
     \<and> (\<forall>us \<in> set (element_objects e). \<forall>u \<in> set us. near_room (render_position (update_render u)))"

lemma objects_ok_element: "element_ok (length classes) e \<Longrightarrow> objects_ok classes e"
  unfolding objects_ok_def
  by (auto simp: element_ok_dimensions element_ok_def updates_ok_def intro!: position_ok_near)

lemma extend_object_ok:
  "extend_object (ext, us) = Inr us' \<Longrightarrow>
   length us' = length us \<and> (\<forall>u \<in> set us'. near_room (render_position (update_render u)))"
proof (intro conjI ballI)
  assume "extend_object (ext, us) = Inr us'"
  then have len: "length ext = length us"
    and all: "list_all2 (\<lambda>(e, u) u'. extend_update e u = Inr u') (zip ext us) us'"
    by (auto simp: extend_object_def attempt_map_Inr case_prod_unfold split: if_splits)
  show "length us' = length us" using list_all2_lengthD [OF all] len by simp
  show "near_room (render_position (update_render u))" if "u \<in> set us'" for u
    using list_all2_mem2 [OF all that] by (auto simp: extend_update_def attempt_Inr intro: decode_coding_near)
qed

lemma apply_positions_ok:
  assumes "objects_ok classes e" and "apply_positions ext e = Inr e'"
  shows "objects_ok classes e'"
proof (cases "extended_precision ext")
  case None
  then show ?thesis using assms by (simp add: apply_positions_def)
next
  case (Some precision)
  then obtain os where len: "length precision = length (element_objects e)" and e': "e' = e\<lparr>element_objects := os\<rparr>"
    and all: "list_all2 (\<lambda>x us'. extend_object x = Inr us') (zip precision (element_objects e)) os"
    using assms(2) by (auto simp: apply_positions_def attempt_Inr attempt_map_Inr split: if_splits)
  have "length us' = length (timing_blocks (element_timing e))
      \<and> (\<forall>u \<in> set us'. near_room (render_position (update_render u)))" if us': "us' \<in> set os" for us'
  proof -
    obtain x us where "(x, us) \<in> set (zip precision (element_objects e))" "extend_object (x, us) = Inr us'"
      using list_all2_mem2 [OF all us'] by auto
    then show ?thesis using assms(1) extend_object_ok
      by (fastforce simp: objects_ok_def validate_dimensions_def dest: set_zip_rightD)
  qed
  then show ?thesis
    using assms(1) len list_all2_lengthD [OF all] by (simp add: e' objects_ok_def validate_dimensions_def)
qed

section \<open>The body of an element\<close>

text \<open>What the match on the identifier does to the elements so far.\<close>

definition body_arm ::
  "(u8 list \<Rightarrow> string) \<Rightarrow> oamd_decoder_config \<Rightarrow> oamd_parse_profile \<Rightarrow> u64 option \<Rightarrow> u8 list \<Rightarrow>
   oamd_content_prefix \<Rightarrow> object_class list \<Rightarrow> oamd_element_metadata list \<Rightarrow>
   nat \<Rightarrow> nat \<Rightarrow> nat \<Rightarrow> nat \<Rightarrow> nat \<Rightarrow> nat option \<Rightarrow> bool \<Rightarrow>
   (oamd_element \<times> oamd_element_metadata list) oamd_parser" where
  "body_arm sha256 config profile pid raw pre classes elements eid size_bytes size_bits body_start body_end
       alternate_id discard =
     (if eid = 1 then
        bind_rd (parse_object_element_reader classes) (\<lambda>objects.
        bind_rd consume_zero_padding (\<lambda>_. ret (Objects objects, elements)))
      else if eid = 2 then
        bind_rd (parse_trim_body sha256 config profile pid raw pre alternate_id discard
                   size_bytes size_bits body_start body_end) (\<lambda>el. ret (el, elements))
      else if eid = 5 then parse_extension_body classes elements
      else bind_rd read_opaque (\<lambda>b. ret (UnknownElement b, elements)))"

lemma body_Inr:
  assumes "parse_element_body sha256 config profile pid raw pre classes es eid size_bytes size_bits
      body_start body_end w = (Inr es', w')"
  obtains a discard el es1 s1 s2 s3 where
    "when_rd (prefix_alternate_data pre) (oamd_u8 4) w = (Inr a, s1)" "oamd_bit s1 = (Inr discard, s2)"
    "body_arm sha256 config profile pid raw pre classes es eid size_bytes size_bits body_start body_end
       a discard s2 = (Inr (el, es1), s3)"
    "es' = es1 @ [\<lparr>meta_id = eid, meta_alternate_data_id = a, meta_discard_unknown = discard, meta_element = el\<rparr>]"
proof -
  note run = assms [unfolded parse_element_body_def, folded body_arm_def]
  obtain a s1 where a: "when_rd (prefix_alternate_data pre) (oamd_u8 4) w = (Inr a, s1)"
    and k1: "bind_rd (case a of Some a \<Rightarrow> guard_rd (\<not> (eid = 1 \<and> a \<noteq> 0)) (ReservedAlternateObjectData a)
              | None \<Rightarrow> ret ()) (\<lambda>_. bind_rd oamd_bit (\<lambda>discard.
       bind_rd (body_arm sha256 config profile pid raw pre classes es eid size_bytes size_bits
            body_start body_end a discard) (\<lambda>(el, es1).
       ret (es1 @ [\<lparr>meta_id = eid, meta_alternate_data_id = a, meta_discard_unknown = discard,
            meta_element = el\<rparr>])))) s1 = (Inr es', w')"
    by (rule bind_rd_InrE [OF run])
  obtain u t where u: "(case a of Some a \<Rightarrow> guard_rd (\<not> (eid = 1 \<and> a \<noteq> 0)) (ReservedAlternateObjectData a)
      | None \<Rightarrow> ret ()) s1 = (Inr u, t)"
    and k2: "bind_rd oamd_bit (\<lambda>discard.
       bind_rd (body_arm sha256 config profile pid raw pre classes es eid size_bytes size_bits
            body_start body_end a discard) (\<lambda>(el, es1).
       ret (es1 @ [\<lparr>meta_id = eid, meta_alternate_data_id = a, meta_discard_unknown = discard,
            meta_element = el\<rparr>]))) t = (Inr es', w')"
    by (rule bind_rd_InrE [OF k1])
  have t: "t = s1" using u by (auto simp: guard_rd_Inr ret_Inr split: option.splits)
  obtain discard s2 where d: "oamd_bit s1 = (Inr discard, s2)"
    and k3: "bind_rd (body_arm sha256 config profile pid raw pre classes es eid size_bytes size_bits
            body_start body_end a discard) (\<lambda>(el, es1).
       ret (es1 @ [\<lparr>meta_id = eid, meta_alternate_data_id = a, meta_discard_unknown = discard,
            meta_element = el\<rparr>])) s2 = (Inr es', w')"
    by (rule bind_rd_InrE [OF k2 [unfolded t]])
  show thesis
    by (rule bind_rd_InrE [OF k3]) (use that [OF a d] in \<open>auto simp: ret_Inr\<close>)
qed

lemma arm_cases [consumes 1, case_names objects trim extension unknown]:
  assumes "body_arm sha256 config profile pid raw pre classes es eid size_bytes size_bits body_start body_end
       a discard s = (Inr (el, es1), s')"
  obtains e t where "eid = 1" "el = Objects e" "es1 = es" "parse_object_element_reader classes s = (Inr e, t)"
  | t where "eid = 2" "es1 = es" "parse_trim_body sha256 config profile pid raw pre a discard
       size_bytes size_bits body_start body_end s = (Inr el, t)"
  | i e ext e' t where "eid = 5" "last_objects es = Some (i, e)" "el = Extended ext"
      "parse_extended_object_element_reader e classes s = (Inr ext, t)" "apply_positions ext e = Inr e'"
      "es1 = es[i := (es ! i)\<lparr>meta_element := Objects e'\<rparr>]"
  | b where "eid \<noteq> 1" "eid \<noteq> 2" "eid \<noteq> 5" "el = UnknownElement b" "es1 = es"
proof -
  consider "eid = 1" | "eid = 2" | "eid = 5" | "eid \<noteq> 1" "eid \<noteq> 2" "eid \<noteq> 5" by blast
  then show thesis
  proof cases
    case 1
    show thesis
      by (rule bind_rd_InrE [OF assms [unfolded body_arm_def if_P [OF 1]]])
        (auto simp: 1 ret_Inr elim!: bind_rd_InrE intro: that(1))
  next
    case 2
    then have "bind_rd (parse_trim_body sha256 config profile pid raw pre a discard
        size_bytes size_bits body_start body_end) (\<lambda>el. ret (el, es)) s = (Inr (el, es1), s')"
      using assms by (simp add: body_arm_def)
    then show thesis by (rule bind_rd_InrE) (auto simp: 2 ret_Inr intro: that(2))
  next
    case 3
    then have run: "bind_rd (some_or (last_objects es) MissingObjectElementForExtension) (\<lambda>(i, e).
       bind_rd (parse_extended_object_element_reader e classes) (\<lambda>ext.
       bind_rd consume_zero_padding (\<lambda>_.
       bind_rd (lift_rd (apply_positions ext e)) (\<lambda>e'.
         ret (Extended ext, es[i := (es ! i)\<lparr>meta_element := Objects e'\<rparr>]))))) s = (Inr (el, es1), s')"
      using assms by (simp add: body_arm_def parse_extension_body_def)
    then obtain i e where last: "last_objects es = Some (i, e)"
      and k: "bind_rd (parse_extended_object_element_reader e classes) (\<lambda>ext.
       bind_rd consume_zero_padding (\<lambda>_.
       bind_rd (lift_rd (apply_positions ext e)) (\<lambda>e'.
         ret (Extended ext, es[i := (es ! i)\<lparr>meta_element := Objects e'\<rparr>])))) s = (Inr (el, es1), s')"
      by (rule bind_rd_InrE) (auto simp: some_or_Inr)
    show thesis
      by (rule bind_rd_InrE [OF k])
        (auto simp: ret_Inr lift_rd_Inr elim!: bind_rd_InrE intro: that(3) [OF 3 last])
  next
    case 4
    then have "bind_rd read_opaque (\<lambda>b. ret (UnknownElement b, es)) s = (Inr (el, es1), s')"
      using assms by (simp add: body_arm_def)
    then show thesis by (rule bind_rd_InrE) (auto simp: ret_Inr intro: that(4) [OF 4])
  qed
qed

section \<open>Observed vendor bodies\<close>

text \<open>The retained body is the window of the payload, bit for bit, and so is the continuation.\<close>

definition observed_ok :: "u8 list \<Rightarrow> observed_element \<Rightarrow> bool" where
  "observed_ok raw e \<longleftrightarrow>
     first_parser_error e = ReservedWarpMode 3 \<and> raw_warp e = 3
   \<and> declared_bits e = 8 * declared_bytes e
   \<and> body_payload_end_bit e = body_payload_start_bit e + declared_bits e
   \<and> body_payload_end_bit e \<le> 8 * length raw
   \<and> (\<forall>i. opaque_bit (raw_body e) i =
          (if i < declared_bits e then Some (msb_bit raw (body_payload_start_bit e + i)) else None))
   \<and> msb_bit raw (warp_payload_start_bit e) \<and> msb_bit raw (warp_payload_start_bit e + 1)
   \<and> continuation_payload_start_bit e = warp_payload_start_bit e + 2
   \<and> continuation_payload_start_bit e \<le> body_payload_end_bit e
   \<and> continuation_payload_end_bit e = body_payload_end_bit e
   \<and> (\<forall>i. view_bit (vendor_continuation e) i =
          (if continuation_payload_start_bit e + i < body_payload_end_bit e
           then Some (msb_bit raw (continuation_payload_start_bit e + i)) else None))"

lemma warp_bits:
  assumes "read_window_u8 raw s 2 = Inr 3"
  shows "msb_bit raw s \<and> msb_bit raw (s + 1)"
proof -
  have "[s..<s + 2] = [s, s + 1]" by (simp add: upt_rec)
  then show ?thesis using assms by (auto simp: read_window_u8_def Let_def split: if_splits)
qed

lemma observe_trim_Inr:
  assumes "observe_trim sha256 raw alternate a discard size_bytes size_bits body_start body_end = Inr el"
    and "size_bits = size_bytes * 8" and "body_end = body_start + size_bits"
  obtains e where "el = OpaqueObservedKnown e" "observed_ok raw e" "body_payload_start_bit e = body_start"
    "declared_bits e = size_bits" "warp_payload_start_bit e = body_start + ((if alternate then 1 else 0) * 4 + 1)"
proof -
  let ?rel = "(if alternate then 1 else 0) * 4 + 1 :: nat"
  from assms(1) obtain body cont where rel: "?rel + 2 \<le> size_bits"
    and warp: "read_window_u8 raw (body_start + ?rel) 2 = Inr 3"
    and body: "copy_bit_window raw body_start body_end = Inr body"
    and el: "el = OpaqueObservedKnown
              \<lparr>obs_element_id = 2, obs_alternate_data_id = a, obs_discard_unknown = discard,
               declared_bits = size_bits, declared_bytes = size_bytes,
               valid_bits_in_last_byte = (if opaque_len body mod 8 = 0 then 8 else opaque_len body mod 8),
               raw_body = body, raw_body_sha256 = sha256 (opaque_bytes body),
               body_payload_start_bit = body_start, body_payload_end_bit = body_end,
               first_parser_error = ReservedWarpMode 3, raw_warp = 3,
               warp_element_relative_start_bit = ?rel, warp_element_relative_end_bit = ?rel + 2,
               warp_payload_start_bit = body_start + ?rel, warp_payload_end_bit = body_start + ?rel + 2,
               continuation_element_relative_start_bit = ?rel + 2,
               continuation_element_relative_end_bit = size_bits,
               continuation_payload_start_bit = body_start + ?rel + 2,
               continuation_payload_end_bit = body_end,
               continuation_sha256 = cont,
               preservation_status = ''opaque_lossless_bounded'',
               provenance = ''vendor_observed_normative_unresolved'',
               interpretation_status = ''unresolved'',
               deviation_code = ''LOGIC_OAMD_RESERVED_TRIM_WARP_3''\<rparr>"
    unfolding observe_trim_def Let_def by (auto simp: attempt_Inr split: if_splits)
  note w = copy_bit_window_Inr [OF body] warp_bits [OF warp]
  show thesis
    by (rule that [OF el])
      (use rel w assms(2,3) in \<open>auto simp: observed_ok_def vendor_continuation_def view_bit_def view_bit_len_def ac_simps\<close>)
qed

lemma trim_cases [consumes 1, case_names formal observed]:
  assumes "parse_trim_body sha256 config profile pid raw pre a discard size_bytes size_bits body_start body_end s
      = (Inr el, s')"
  obtains count t s1 where "trim_configuration_count config = Some count" "el = TrimOf t"
      "parse_trim_element_reader (prefix_object_count pre) count s = (Inr t, s1)"
  | count s1 where "trim_configuration_count config = Some count" "profile = OamdObservedVendorCompat" "pid = Some OAMD_ID"
      "parse_trim_element_reader (prefix_object_count pre) count s = (Inl (ReservedWarpMode 3), s1)"
      "observe_trim sha256 raw (prefix_alternate_data pre) a discard size_bytes size_bits body_start body_end = Inr el"
proof (cases "trim_configuration_count config")
  case None
  then show thesis using assms by (simp add: parse_trim_body_def)
next
  case (Some count)
  obtain x s1 where run: "parse_trim_element_reader (prefix_object_count pre) count s = (x, s1)"
    by (cases "parse_trim_element_reader (prefix_object_count pre) count s")
  show thesis
  proof (cases x)
    case (Inl e)
    then show thesis using assms run Some by (auto simp: parse_trim_body_def intro: that(2) split: if_splits)
  next
    case (Inr t)
    then have "bind_rd consume_zero_padding (\<lambda>_. ret (TrimOf t)) s1 = (Inr el, s')"
      using assms run Some by (simp add: parse_trim_body_def)
    then have "el = TrimOf t" by (rule bind_rd_InrE) (simp add: ret_Inr)
    then show thesis using run Inr Some by (intro that(1)) auto
  qed
qed

section \<open>Values of trim and extension elements\<close>

definition level_ok :: "real option \<Rightarrow> bool" where
  "level_ok v \<longleftrightarrow> (case v of None \<Rightarrow> True | Some x \<Rightarrow> - 36 \<le> x \<and> x \<le> 6)"

definition balance_ok :: "real option \<Rightarrow> bool" where
  "balance_ok v \<longleftrightarrow> (case v of None \<Rightarrow> True | Some x \<Rightarrow> - 1 \<le> x \<and> x \<le> 1 \<and> x \<noteq> 0)"

definition configuration_ok :: "trim_configuration \<Rightarrow> bool" where
  "configuration_ok c \<longleftrightarrow>
     (case c of
        TrimCustom k \<Rightarrow> level_ok (centre_db k) \<and> level_ok (surround_db k) \<and> level_ok (height_db k)
          \<and> balance_ok (top_bottom_y_balance k) \<and> balance_ok (listener_y_balance k)
      | _ \<Rightarrow> True)"

definition trim_ok :: "nat \<Rightarrow> nat \<Rightarrow> trim_element \<Rightarrow> bool" where
  "trim_ok objects count t \<longleftrightarrow> length (disable_trim_per_object t) = objects
     \<and> (case trim_global t of
          GlobalCustom cs \<Rightarrow> length cs = count \<and> (\<forall>c \<in> set cs. configuration_ok c)
        | _ \<Rightarrow> True)"

lemma table_get_Inr: "table_get xs i = Inr v \<Longrightarrow> v \<in> set xs"
  by (auto simp: table_get_def split: if_splits)

lemma level_centre: "decode_trim_centre c = Inr v \<Longrightarrow> level_ok (Some v)"
  by (drule table_get_Inr [of TRIM_CENTRE c v, folded decode_trim_centre_def]) (auto simp: TRIM_CENTRE_def level_ok_def)

lemma level_surround: "decode_trim_surround_or_height c = Inr v \<Longrightarrow> level_ok (Some v)"
proof -
  assume "decode_trim_surround_or_height c = Inr v"
  then have "v \<in> set TRIM_SURROUND" by (auto simp: decode_trim_surround_or_height_def dest: table_get_Inr split: if_splits)
  then show ?thesis by (auto simp: TRIM_SURROUND_def level_ok_def)
qed

lemma balance_decoded: "decode_y_balance s a = Inr v \<Longrightarrow> balance_ok (Some v)"
  by (auto simp: decode_y_balance_def attempt_Inr balance_ok_def divide_simps split: if_splits)

lemma yields_balance: "yields (when_rd c parse_y_balance) balance_ok"
  by (rule yields_when)
    (auto simp: parse_y_balance_def balance_ok_def [of None] intro!: yields_then yields_lift dest: balance_decoded)

lemma yields_levels:
  "yields (when_rd c (bind_rd (oamd_u8 4) (\<lambda>c. lift_rd (decode_trim_centre c)))) level_ok"
  "yields (when_rd c (bind_rd (oamd_u8 4) (\<lambda>c. lift_rd (decode_trim_surround_or_height c)))) level_ok"
  by (rule yields_when,
      auto simp: level_ok_def [of None] intro!: yields_then yields_lift dest: level_centre level_surround)+

lemma yields_configuration: "yields parse_configuration configuration_ok"
  unfolding parse_configuration_def
  apply (rule yields_then)
  apply (rule yields_if)
   apply (rule yields_ret, simp add: configuration_ok_def)
  apply (rule yields_then)
  apply (rule yields_if)
   apply (rule yields_ret, simp add: configuration_ok_def)
  apply (rule yields_then)
  apply (rule yields_bind [OF yields_levels(1)])
  apply (rule yields_bind [OF yields_levels(2)])
  apply (rule yields_bind [OF yields_levels(2)])
  apply (rule yields_bind [OF yields_balance])
  apply (rule yields_bind [OF yields_balance])
  apply (rule yields_ret, simp add: configuration_ok_def)
  done

lemma yields_trim: "yields (parse_trim_element_reader objects count) (trim_ok objects count)"
proof -
  let ?Q = "\<lambda>(warp :: warp_mode, global, disabled :: bool list). length disabled = objects
     \<and> (case global of GlobalCustom cs \<Rightarrow> length cs = count \<and> (\<forall>c \<in> set cs. configuration_ok c) | _ \<Rightarrow> True)"
  have global: "yields (parse_global_trim count)
      (\<lambda>g. case g of GlobalCustom cs \<Rightarrow> length cs = count \<and> (\<forall>c \<in> set cs. configuration_ok c) | _ \<Rightarrow> True)"
    unfolding parse_global_trim_def
    by (rule yields_then, intro yields_if yields_ret yields_fail
        yields_bind [OF yields_repeat_all [OF yields_configuration]]) simp_all
  have disabled: "yields (if per then repeat_rd objects oamd_bit else ret (replicate objects False))
      (\<lambda>d. length d = objects)" for per
    by (intro yields_if yields_repeat yields_ret) simp
  have "yields (bind_rd parse_warp_mode (\<lambda>warp.
       bind_rd (oamd_bits 2) (\<lambda>reserved.
       bind_rd (guard_rd (reserved = 0) OamdNonzeroReservedData) (\<lambda>_.
       bind_rd (parse_global_trim count) (\<lambda>global.
       bind_rd oamd_bit (\<lambda>per_object.
       bind_rd (if per_object then repeat_rd objects oamd_bit else ret (replicate objects False))
         (\<lambda>disabled. ret (warp, global, disabled)))))))) ?Q"
    by (rule yields_then, rule yields_then, rule yields_then, rule yields_bind [OF global], rule yields_then,
        rule yields_bind [OF disabled], rule yields_ret) simp
  then show ?thesis
    unfolding parse_trim_element_reader_def
    by (rule yields_bind [OF yields_counted]) (auto intro!: yields_ret simp: trim_ok_def)
qed

text \<open>Divergences are fractions; both tables have one row for each declared object.\<close>

definition fraction :: "real \<Rightarrow> bool" where
  "fraction v \<longleftrightarrow> 0 \<le> v \<and> v \<le> 1"

definition extension_ok :: "nat \<Rightarrow> extended_object_element \<Rightarrow> bool" where
  "extension_ok n x \<longleftrightarrow>
     (case divergence x of None \<Rightarrow> True | Some rows \<Rightarrow> length rows = n \<and> (\<forall>row \<in> set rows. \<forall>v \<in> set row. fraction v))
   \<and> (case extended_precision x of None \<Rightarrow> True | Some rows \<Rightarrow> length rows = n)"

lemma fraction_tables:
  "decode_object_divergence_table c = Inr v \<Longrightarrow> fraction v"
  "decode_object_divergence_code c = Inr v \<Longrightarrow> fraction v"
proof -
  show "decode_object_divergence_table c = Inr v \<Longrightarrow> fraction v"
    by (drule table_get_Inr [of DIVERGENCE_TABLE, folded decode_object_divergence_table_def])
      (auto simp: DIVERGENCE_TABLE_def fraction_def)
  assume "decode_object_divergence_code c = Inr v"
  then have "v \<in> set DIVERGENCE_CODES"
    by (auto simp: decode_object_divergence_code_def dest: table_get_Inr split: if_splits)
  moreover have "\<forall>v \<in> set DIVERGENCE_CODES. 0 \<le> v \<and> v \<le> 1" unfolding DIVERGENCE_CODES_def by simp
  ultimately show "fraction v" by (simp add: fraction_def)
qed

lemma yields_divergence_value:
  "(\<And>v. previous = Some v \<Longrightarrow> fraction v) \<Longrightarrow> yields (parse_divergence_value c u previous) fraction"
  unfolding parse_divergence_value_def
  by (rule yields_then, intro yields_if yields_ret yields_then yields_lift yields_some_or yields_fail)
    (auto intro: fraction_tables simp: fraction_def [of 0])

lemma yields_divergence_object:
  "(\<And>v. previous = Some v \<Longrightarrow> fraction v) \<Longrightarrow>
   yields (parse_divergence_object c us previous) (\<lambda>vs. \<forall>v \<in> set vs. fraction v)"
proof (induction us arbitrary: previous)
  case (Cons u us)
  show ?case
    by (simp only: parse_divergence_object.simps)
      (rule yields_bind [OF yields_divergence_value [OF Cons.prems]], assumption,
       rule yields_bind [OF Cons.IH], simp, rule yields_ret, simp)
qed (simp add: yields_ret)

lemma yields_rows:
  "yields (parse_divergence e classes) (\<lambda>rows. length rows = length (zip (element_objects e) classes)
     \<and> (\<forall>row \<in> set rows. \<forall>v \<in> set row. fraction v))"
  "yields (parse_precision e classes) (\<lambda>rows. length rows = length (zip (element_objects e) classes))"
proof -
  show "yields (parse_divergence e classes) (\<lambda>rows. length rows = length (zip (element_objects e) classes)
     \<and> (\<forall>row \<in> set rows. \<forall>v \<in> set row. fraction v))"
    unfolding parse_divergence_def
    by (rule yields_each) (auto intro!: yields_divergence_object)
  have "yields (parse_precision e classes) (\<lambda>rows. length rows = length (zip (element_objects e) classes)
     \<and> (\<forall>row \<in> set rows. True))"
    unfolding parse_precision_def by (rule yields_each) (simp add: yields_def)
  then show "yields (parse_precision e classes) (\<lambda>rows. length rows = length (zip (element_objects e) classes))"
    by simp
qed

lemma yields_extension: "yields (parse_extended_object_element_reader e classes) (extension_ok (length classes))"
  unfolding parse_extended_object_element_reader_def
proof (rule yields_guard)
  assume "validate_dimensions e classes"
  then have n: "length (zip (element_objects e) classes) = length classes" by (simp add: validate_dimensions_def)
  let ?D = "\<lambda>d. case d of None \<Rightarrow> True
    | Some rows \<Rightarrow> length rows = length classes \<and> (\<forall>row \<in> set rows. \<forall>v \<in> set row. fraction v)"
  let ?P = "\<lambda>p. case p of None \<Rightarrow> True | Some rows \<Rightarrow> length rows = length classes"
  note rows = yields_rows [where e = e and classes = classes, unfolded n]
  have d: "yields (when_rd c (parse_divergence e classes)) ?D" for c
    by (rule yields_when [OF yields_weaken [OF rows(1)]]) simp_all
  have p: "yields (when_rd c (parse_precision e classes)) ?P" for c
    by (rule yields_when [OF yields_weaken [OF rows(2)]]) simp_all
  have "yields (bind_rd oamd_bit (\<lambda>has_divergence.
       bind_rd (when_rd has_divergence (parse_divergence e classes)) (\<lambda>divergence.
       bind_rd oamd_bit (\<lambda>has_precision.
       bind_rd (when_rd has_precision (parse_precision e classes)) (\<lambda>precision.
         ret (divergence, precision)))))) (\<lambda>(d, p). ?D d \<and> ?P p)"
    by (rule yields_then, rule yields_bind [OF d], rule yields_then, rule yields_bind [OF p], rule yields_ret) simp
  then show "yields (bind_rd (counted (bind_rd oamd_bit (\<lambda>has_divergence.
       bind_rd (when_rd has_divergence (parse_divergence e classes)) (\<lambda>divergence.
       bind_rd oamd_bit (\<lambda>has_precision.
       bind_rd (when_rd has_precision (parse_precision e classes)) (\<lambda>precision.
         ret (divergence, precision))))))) (\<lambda>((divergence, precision), consumed).
     ret \<lparr>divergence = divergence, extended_precision = precision, extended_consumed_bits = consumed\<rparr>))
     (extension_ok (length classes))"
    by (rule yields_bind [OF yields_counted]) (auto intro!: yields_ret simp: extension_ok_def)
qed

section \<open>The elements of a payload\<close>

definition metadata_ok ::
  "u8 list \<Rightarrow> oamd_decoder_config \<Rightarrow> oamd_parse_profile \<Rightarrow> nat \<Rightarrow> object_class list \<Rightarrow> oamd_element_metadata \<Rightarrow> bool" where
  "metadata_ok raw config profile objects classes m \<longleftrightarrow>
     (case meta_element m of
        Objects e \<Rightarrow> meta_id m = 1 \<and> objects_ok classes e
      | TrimOf t \<Rightarrow> meta_id m = 2 \<and> (\<exists>count. trim_configuration_count config = Some count \<and> trim_ok objects count t)
      | OpaqueObservedKnown e \<Rightarrow> meta_id m = 2 \<and> profile = OamdObservedVendorCompat \<and> observed_ok raw e
      | Extended x \<Rightarrow> meta_id m = 5 \<and> extension_ok (length classes) x
      | UnknownElement b \<Rightarrow> meta_id m \<notin> {1, 2, 5})"

lemma last_objects_Some:
  assumes "last_objects ms = Some (i, e)"
  shows "i < length ms" and "meta_element (ms ! i) = Objects e"
proof -
  obtain x xs where f: "filter (\<lambda>i. is_objects (ms ! i)) [0..<length ms] = x # xs"
    and "(case meta_element (ms ! last (x # xs)) of Objects ob \<Rightarrow> Some (last (x # xs), ob) | _ \<Rightarrow> None) = Some (i, e)"
    using assms by (auto simp: last_objects_def split: list.splits)
  then have i: "i = last (x # xs)" "meta_element (ms ! i) = Objects e" by (auto split: oamd_element.splits)
  then have "i \<in> set (filter (\<lambda>i. is_objects (ms ! i)) [0..<length ms])" unfolding f by simp
  with i show "i < length ms" "meta_element (ms ! i) = Objects e" by simp_all
qed

lemma body_keeps:
  assumes run: "fst (parse_element_body sha256 config profile pid raw pre classes es eid size_bytes size_bits
      body_start body_end w) = Inr es'"
    and es: "\<forall>m \<in> set es. metadata_ok raw config profile (prefix_object_count pre) classes m"
    and size: "size_bits = size_bytes * 8" "body_end = body_start + size_bits"
  shows "\<forall>m \<in> set es'. metadata_ok raw config profile (prefix_object_count pre) classes m"
proof -
  obtain w' where "parse_element_body sha256 config profile pid raw pre classes es eid size_bytes size_bits
      body_start body_end w = (Inr es', w')"
    using run by (metis prod.collapse)
  then obtain a discard el es1 s1 s2 s3 where
    arm: "body_arm sha256 config profile pid raw pre classes es eid size_bytes size_bits body_start body_end
       a discard s2 = (Inr (el, es1), s3)"
    and es': "es' = es1 @ [\<lparr>meta_id = eid, meta_alternate_data_id = a, meta_discard_unknown = discard, meta_element = el\<rparr>]"
    by (rule body_Inr)
  from arm have "(\<forall>m \<in> set es1. metadata_ok raw config profile (prefix_object_count pre) classes m)
      \<and> metadata_ok raw config profile (prefix_object_count pre) classes
         \<lparr>meta_id = eid, meta_alternate_data_id = a, meta_discard_unknown = discard, meta_element = el\<rparr>"
  proof (cases rule: arm_cases)
    case (objects e t)
    then show ?thesis
      using es objects_ok_element [OF yieldsD [OF yields_object_element]] by (simp add: metadata_ok_def)
  next
    case (trim t)
    show ?thesis using trim(3)
    proof (cases rule: trim_cases)
      case (formal count t s1)
      then show ?thesis using es trim(1,2) yieldsD [OF yields_trim formal(3)] by (simp add: metadata_ok_def)
    next
      case (observed count s1)
      from observed(5) size obtain e where "el = OpaqueObservedKnown e" "observed_ok raw e" by (rule observe_trim_Inr)
      then show ?thesis using es trim(1,2) observed(2) by (simp add: metadata_ok_def)
    qed
  next
    case (extension i e ext e' t)
    note i = last_objects_Some [OF extension(2)]
    have "metadata_ok raw config profile (prefix_object_count pre) classes (es ! i)" using es i(1) by simp
    then have "metadata_ok raw config profile (prefix_object_count pre) classes ((es ! i)\<lparr>meta_element := Objects e'\<rparr>)"
      using i(2) apply_positions_ok [OF _ extension(5)] by (simp add: metadata_ok_def)
    then show ?thesis
      using es extension yieldsD [OF yields_extension extension(4)]
      by (auto simp: metadata_ok_def dest!: subsetD [OF set_update_subset_insert])
  next
    case (unknown b)
    then show ?thesis using es by (simp add: metadata_ok_def)
  qed
  then show ?thesis by (simp add: es')
qed

lemma elements_keep:
  assumes "outer raw r" and "parse_elements n sha256 config profile pid raw pre classes es r = (Inr es', r')"
    and "\<forall>m \<in> set es. metadata_ok raw config profile (prefix_object_count pre) classes m"
  shows "(\<forall>m \<in> set es'. metadata_ok raw config profile (prefix_object_count pre) classes m) \<and> outer raw r'"
  using assms
proof (induction n arbitrary: es r)
  case 0
  then show ?case by (simp add: ret_Inr)
next
  case (Suc n)
  obtain es1 r1 where one: "parse_element sha256 config profile pid raw pre classes es r = (Inr es1, r1)"
    and rest: "parse_elements n sha256 config profile pid raw pre classes es1 r1 = (Inr es', r')"
    by (rule bind_rd_InrE [OF Suc.prems(2) [unfolded parse_elements.simps]])
  obtain eid size_bytes size_bits h w where
    "parse_element_header r = (Inr (eid, size_bytes, size_bits), h)" "outer raw h"
    "bit_position r < bit_position h" and size: "size_bits = size_bytes * 8"
    and "oamd_window size_bits h = (Inr w, r1)" and r1: "outer raw r1"
    and pos: "bit_position r1 = bit_position h + size_bits"
    and "reader_ok w" "bit_position w = bit_position h" "unread w = take size_bits (unread h)"
    "size_bits \<le> length (unread h)"
    and body: "fst (parse_element_body sha256 config profile pid raw pre classes es eid size_bytes size_bits
        (bit_position h) (bit_position r1) w) = Inr es1"
    by (rule parse_element_Inr [OF Suc.prems(1) one])
  show ?case by (rule Suc.IH [OF r1 rest body_keeps [OF body Suc.prems(3) size pos]])
qed

text \<open>The stages of a successful parse.\<close>

lemma payload_Inr:
  assumes "parse_oamd_payload_inner sha256 raw config profile pid = Inr p"
  obtains pre r1 classes es r2 u r3 where
    "length raw * 8 \<le> usize_max" "parse_oamd_content_prefix_reader (new_reader raw) = (Inr pre, r1)" "outer raw r1"
    "derive_object_classes pre = Inr classes"
    "parse_elements (prefix_element_count pre) sha256 config profile pid raw pre classes [] r1 = (Inr es, r2)"
    "consume_zero_padding r2 = (Inr u, r3)"
    "p = \<lparr>oamd_prefix = pre, oamd_object_classes = classes, oamd_elements = es, oamd_consumed_bits = 8 * length raw\<rparr>"
proof -
  have size: "length raw * 8 \<le> usize_max"
    using assms by (simp add: parse_oamd_payload_inner_def split: if_splits)
  note o = outer_new [OF size]
  have bits: "bits_remaining (new_reader raw) = 8 * length raw"
    using o by (simp add: outer_def bits_remaining_ok length_unread) (simp add: new_reader_def)
  have "\<exists>t. bind_rd parse_oamd_content_prefix_reader (\<lambda>pre.
       bind_rd (lift_rd (derive_object_classes pre)) (\<lambda>classes.
       bind_rd (parse_elements (prefix_element_count pre) sha256 config profile pid raw pre classes []) (\<lambda>es.
       bind_rd consume_zero_padding (\<lambda>_.
         ret \<lparr>oamd_prefix = pre, oamd_object_classes = classes, oamd_elements = es,
              oamd_consumed_bits = 8 * length raw\<rparr>)))) (new_reader raw) = (Inr p, t)"
    by (rule fst_run) (use assms size in \<open>simp add: parse_oamd_payload_inner_def bits Let_def\<close>)
  then obtain t where run: "bind_rd parse_oamd_content_prefix_reader (\<lambda>pre.
       bind_rd (lift_rd (derive_object_classes pre)) (\<lambda>classes.
       bind_rd (parse_elements (prefix_element_count pre) sha256 config profile pid raw pre classes []) (\<lambda>es.
       bind_rd consume_zero_padding (\<lambda>_.
         ret \<lparr>oamd_prefix = pre, oamd_object_classes = classes, oamd_elements = es,
              oamd_consumed_bits = 8 * length raw\<rparr>)))) (new_reader raw) = (Inr p, t)" by blast
  obtain pre r1 where pre: "parse_oamd_content_prefix_reader (new_reader raw) = (Inr pre, r1)"
    and k1: "bind_rd (lift_rd (derive_object_classes pre)) (\<lambda>classes.
       bind_rd (parse_elements (prefix_element_count pre) sha256 config profile pid raw pre classes []) (\<lambda>es.
       bind_rd consume_zero_padding (\<lambda>_.
         ret \<lparr>oamd_prefix = pre, oamd_object_classes = classes, oamd_elements = es,
              oamd_consumed_bits = 8 * length raw\<rparr>))) r1 = (Inr p, t)"
    by (rule bind_rd_InrE [OF run])
  obtain classes where classes: "derive_object_classes pre = Inr classes"
    and k2: "bind_rd (parse_elements (prefix_element_count pre) sha256 config profile pid raw pre classes []) (\<lambda>es.
       bind_rd consume_zero_padding (\<lambda>_.
         ret \<lparr>oamd_prefix = pre, oamd_object_classes = classes, oamd_elements = es,
              oamd_consumed_bits = 8 * length raw\<rparr>)) r1 = (Inr p, t)"
    by (rule bind_rd_InrE [OF k1]) (auto simp: lift_rd_Inr)
  show thesis
    by (rule bind_rd_InrE [OF k2], erule bind_rd_InrE)
      (rule that [OF size pre outer_exact(1) [OF exact_prefix o pre] classes], auto simp: ret_Inr)
qed

definition payload_ok :: "u8 list \<Rightarrow> oamd_decoder_config \<Rightarrow> oamd_parse_profile \<Rightarrow> oamd_payload \<Rightarrow> bool" where
  "payload_ok raw config profile p \<longleftrightarrow>
     length (oamd_object_classes p) = prefix_object_count (oamd_prefix p)
   \<and> length (oamd_elements p) = prefix_element_count (oamd_prefix p)
   \<and> (\<forall>m \<in> set (oamd_elements p).
        metadata_ok raw config profile (prefix_object_count (oamd_prefix p)) (oamd_object_classes p) m)"

lemma derive_classes_length: "derive_object_classes p = Inr cs \<Longrightarrow> length cs = prefix_object_count p"
  by (auto simp: derive_object_classes_def attempt_Inr object_anchors_def Let_def split: sum.splits if_splits)

lemma body_length:
  assumes "fst (parse_element_body sha256 config profile pid raw pre classes es eid size_bytes size_bits
      body_start body_end w) = Inr es'"
  shows "length es' = Suc (length es)"
proof -
  obtain w' where "parse_element_body sha256 config profile pid raw pre classes es eid size_bytes size_bits
      body_start body_end w = (Inr es', w')"
    using assms by (metis prod.collapse)
  then show ?thesis
  proof (rule body_Inr)
    fix a discard el es1 s1 s2 s3
    assume arm: "body_arm sha256 config profile pid raw pre classes es eid size_bytes size_bits body_start body_end
       a discard s2 = (Inr (el, es1), s3)"
      and es': "es' = es1 @ [\<lparr>meta_id = eid, meta_alternate_data_id = a, meta_discard_unknown = discard, meta_element = el\<rparr>]"
    from arm have "length es1 = length es" by (cases rule: arm_cases) simp_all
    then show ?thesis by (simp add: es')
  qed
qed

lemma elements_length:
  "parse_elements n sha256 config profile pid raw pre classes es r = (Inr es', r') \<Longrightarrow> length es' = length es + n"
proof (induction n arbitrary: es r)
  case (Suc n)
  obtain es1 r1 where one: "parse_element sha256 config profile pid raw pre classes es r = (Inr es1, r1)"
    and rest: "parse_elements n sha256 config profile pid raw pre classes es1 r1 = (Inr es', r')"
    by (rule bind_rd_InrE [OF Suc.prems [unfolded parse_elements.simps]])
  have "length es1 = Suc (length es)"
    using one by (auto simp: parse_element_def Let_def elim!: bind_rd_InrE dest: body_length)
  then show ?case using Suc.IH [OF rest] by simp
qed (simp add: ret_Inr)

lemma parsed_payload_ok:
  assumes "parse_oamd_payload_inner sha256 raw config profile pid = Inr p"
  shows "payload_ok raw config profile p"
proof (rule payload_Inr [OF assms])
  fix pre r1 classes es r2 u r3
  assume r1: "outer raw r1" and classes: "derive_object_classes pre = Inr classes"
    and es: "parse_elements (prefix_element_count pre) sha256 config profile pid raw pre classes [] r1 = (Inr es, r2)"
    and p: "p = \<lparr>oamd_prefix = pre, oamd_object_classes = classes, oamd_elements = es, oamd_consumed_bits = 8 * length raw\<rparr>"
  show ?thesis
    using elements_keep [OF r1 es] elements_length [OF es] derive_classes_length [OF classes]
    by (simp add: payload_ok_def p)
qed

end
