(* ===== verification/OamdTrace.thy ===== *)
theory OamdTrace
  imports OamdInvariant
begin

text \<open>
  The bit trace of a payload (\<open>trace_oamd_payload\<close>) against its parser: a payload that parses has a
  trace, which lists the same elements, tiles the payload and ends at the padding.
\<close>

section \<open>Relation of an element to its trace\<close>

definition warp_code :: "warp_mode \<Rightarrow> nat" where
  "warp_code w = (case w of WarpNone \<Rightarrow> 0 | WarpDoubleY \<Rightarrow> 1)"

definition traced_by :: "oamd_element_metadata \<Rightarrow> oamd_element_bit_trace \<Rightarrow> bool" where
  "traced_by m tr \<longleftrightarrow> tr_id tr = meta_id m
     \<and> (case meta_element m of
          TrimOf t \<Rightarrow> warp_mode_raw tr = Some (warp_code (trim_warp_mode t))
        | OpaqueObservedKnown e \<Rightarrow> body_payload_start_bit e = body_start_bit tr
            \<and> body_payload_end_bit e = body_end_bit tr
            \<and> warp_mode_start_bit tr = Some (warp_payload_start_bit e)
        | _ \<Rightarrow> True)"

fun tiles :: "nat \<Rightarrow> oamd_element_bit_trace list \<Rightarrow> nat \<Rightarrow> bool" where
  "tiles a [] b \<longleftrightarrow> a = b"
| "tiles a (t # ts) b \<longleftrightarrow> header_start_bit t = a \<and> a < header_end_bit t \<and> body_start_bit t = header_end_bit t
     \<and> body_start_bit t \<le> body_end_bit t \<and> (body_end_bit t - body_start_bit t) mod 8 = 0
     \<and> tiles (body_end_bit t) ts b"

text \<open>The fields that the trace reads from the window of an element.\<close>

definition trace_body :: "bool \<Rightarrow> nat \<Rightarrow> nat option oamd_parser" where
  "trace_body alternate eid =
     bind_rd (when_rd alternate (oamd_bits 4)) (\<lambda>_.
     bind_rd oamd_bit (\<lambda>_. when_rd (eid = 2) (oamd_u8 2)))"

lemma u8_error: "oamd_u8 n s = (Inl e, s') \<Longrightarrow> \<exists>b. e = OamdBit b \<or> e = OamdValueOverflow"
  by (auto simp: oamd_u8_def read_uint_def bind_rd_def map_err_def ret_def fail_def
      split: prod.splits sum.splits if_splits)

lemma when_u8_bits:
  "when_rd c (oamd_u8 n) s = (Inr a, s') \<Longrightarrow> \<exists>v. when_rd c (oamd_bits n) s = (Inr v, s')"
  by (auto simp: when_rd_def oamd_u8_def oamd_bits_def read_uint_def bind_rd_def map_err_def ret_def fail_def
      split: prod.splits sum.splits if_splits)

lemma warp_mode_Inr: "parse_warp_mode s = (Inr w, s') \<Longrightarrow> oamd_u8 2 s = (Inr (warp_code w), s')"
  unfolding parse_warp_mode_def
  by (erule bind_rd_InrE) (auto simp: warp_code_def ret_Inr fail_Inr split: if_splits)

lemma counted_Inr: "counted p r = (Inr x, r') \<Longrightarrow> p r = (Inr (fst x), r')"
  by (auto simp: counted_def split: prod.splits sum.splits)

lemma trim_reads_warp:
  assumes "parse_trim_element_reader objects count s = (Inr t, s')"
  shows "\<exists>s1. oamd_u8 2 s = (Inr (warp_code (trim_warp_mode t)), s1)"
proof -
  let ?K = "\<lambda>warp. bind_rd (oamd_bits 2) (\<lambda>reserved.
       bind_rd (guard_rd (reserved = 0) OamdNonzeroReservedData) (\<lambda>_.
       bind_rd (parse_global_trim count) (\<lambda>global.
       bind_rd oamd_bit (\<lambda>per_object.
       bind_rd (if per_object then repeat_rd objects oamd_bit else ret (replicate objects False))
         (\<lambda>disabled. ret (warp, global, disabled))))))"
  obtain x s1 where x: "counted (bind_rd parse_warp_mode ?K) s = (Inr x, s1)" and t: "trim_warp_mode t = fst (fst x)"
    by (rule bind_rd_InrE [OF assms [unfolded parse_trim_element_reader_def]])
      (auto simp: ret_Inr split: prod.splits)
  obtain w s2 where w: "parse_warp_mode s = (Inr w, s2)" and k: "?K w s2 = (Inr (fst x), s1)"
    by (rule bind_rd_InrE [OF counted_Inr [OF x]])
  have "yields (?K w) (\<lambda>y. fst y = w)"
    by (rule yields_then, rule yields_then, rule yields_then, rule yields_then, rule yields_then, rule yields_ret) simp
  from yieldsD [OF this k] t warp_mode_Inr [OF w] show ?thesis by auto
qed

lemma trim_error_reads:
  assumes "parse_trim_element_reader objects count s = (Inl (ReservedWarpMode 3), s')"
  shows "\<exists>v s1. oamd_u8 2 s = (Inr v, s1)"
proof (cases "oamd_u8 2 s")
  case (Pair x s1)
  show ?thesis
  proof (cases x)
    case (Inl e)
    with Pair have "\<exists>b. e = OamdBit b \<or> e = OamdValueOverflow" using u8_error by blast
    then show ?thesis using assms Pair Inl
      by (auto simp: parse_trim_element_reader_def counted_def parse_warp_mode_def bind_rd_Inl)
  qed (use Pair in auto)
qed

text \<open>Where the trace of an element lies.\<close>

definition located :: "bool \<Rightarrow> nat \<Rightarrow> nat \<Rightarrow> nat \<Rightarrow> oamd_element_bit_trace \<Rightarrow> bool" where
  "located alternate eid body_start body_end tr \<longleftrightarrow>
     tr_id tr = eid \<and> body_start_bit tr = body_start \<and> body_end_bit tr = body_end
   \<and> warp_mode_start_bit tr =
       (if eid = 2 then Some (body_start + ((if alternate then 1 else 0) * 4 + 1)) else None)"

text \<open>An element that parses has its trace fields in the window.\<close>

lemma body_traced:
  assumes run: "fst (parse_element_body sha256 config profile pid raw pre classes es eid size_bytes size_bits
      body_start body_end w) = Inr es'"
    and size: "size_bits = size_bytes * 8" "body_end = body_start + size_bits"
    and es: "list_all2 traced_by es trs"
  obtains v where "fst (trace_body (prefix_alternate_data pre) eid w) = Inr v"
    "\<And>tr. located (prefix_alternate_data pre) eid body_start body_end tr \<Longrightarrow> warp_mode_raw tr = v \<Longrightarrow>
       list_all2 traced_by es' (trs @ [tr])"
proof -
  obtain w' where "parse_element_body sha256 config profile pid raw pre classes es eid size_bytes size_bits
      body_start body_end w = (Inr es', w')"
    using run by (metis prod.collapse)
  then obtain a discard el es1 s1 s2 s3 where
    a: "when_rd (prefix_alternate_data pre) (oamd_u8 4) w = (Inr a, s1)" and d: "oamd_bit s1 = (Inr discard, s2)"
    and arm: "body_arm sha256 config profile pid raw pre classes es eid size_bytes size_bits body_start body_end
       a discard s2 = (Inr (el, es1), s3)"
    and es': "es' = es1 @ [\<lparr>meta_id = eid, meta_alternate_data_id = a, meta_discard_unknown = discard, meta_element = el\<rparr>]"
    by (rule body_Inr)
  let ?m = "\<lparr>meta_id = eid, meta_alternate_data_id = a, meta_discard_unknown = discard, meta_element = el\<rparr>"
  obtain b where "when_rd (prefix_alternate_data pre) (oamd_bits 4) w = (Inr b, s1)"
    using when_u8_bits [OF a] by blast
  then have trace: "trace_body (prefix_alternate_data pre) n w = when_rd (n = 2) (oamd_u8 2) s2" for n
    using d by (simp add: trace_body_def bind_rd_Inr)
  let ?loc = "located (prefix_alternate_data pre) eid body_start body_end"
  have fin: "\<exists>v. fst (trace_body (prefix_alternate_data pre) eid w) = Inr v
      \<and> list_all2 traced_by es1 trs \<and> (\<forall>tr. ?loc tr \<and> warp_mode_raw tr = v \<longrightarrow> traced_by ?m tr)"
    using arm
  proof (cases rule: arm_cases)
    case (objects e t)
    then show ?thesis using es by (simp add: trace located_def traced_by_def ret_eq)
  next
    case (trim t)
    show ?thesis using trim(3)
    proof (cases rule: trim_cases)
      case (formal count t s1)
      then show ?thesis using es trim(1,2) trim_reads_warp [OF formal(3)]
        by (auto simp: trace located_def traced_by_def when_rd_def bind_rd_Inr ret_eq)
    next
      case (observed count s1)
      obtain e where e: "el = OpaqueObservedKnown e" "observed_ok raw e" "body_payload_start_bit e = body_start"
          "declared_bits e = size_bits"
          "warp_payload_start_bit e = body_start + ((if prefix_alternate_data pre then 1 else 0) * 4 + 1)"
        by (rule observe_trim_Inr [OF observed(5) size])
      then have "body_payload_end_bit e = body_end" using size(2) by (simp add: observed_ok_def)
      then show ?thesis using es trim(1,2) e trim_error_reads [OF observed(4)]
        by (auto simp: trace located_def traced_by_def when_rd_def bind_rd_Inr ret_eq)
    qed
  next
    case (extension i e ext e' t)
    note i = last_objects_Some [OF extension(2)]
    have "i < length trs" using i(1) list_all2_lengthD [OF es] by simp
    moreover have "traced_by (es ! i) (trs ! i)" using es i(1) by (rule list_all2_nthD)
    ultimately have "list_all2 traced_by (es[i := (es ! i)\<lparr>meta_element := Objects e'\<rparr>]) (trs[i := trs ! i])"
      using i by (intro list_all2_update_cong [OF es]) (simp add: traced_by_def)
    then show ?thesis using extension by (simp add: trace located_def traced_by_def ret_eq)
  next
    case (unknown b)
    then show ?thesis using es by (simp add: trace located_def traced_by_def ret_eq)
  qed
  then show thesis using that by (auto simp: es' intro: list_all2_appendI)
qed

lemma outer_position': "outer raw r \<Longrightarrow> 8 * length raw - bits_remaining r = bit_position r"
  using outer_position [of raw r] by (simp add: mult.commute)

lemma element_traced:
  assumes r: "outer raw r"
    and run: "parse_element sha256 config profile pid raw pre classes es r = (Inr es', r')"
    and es: "list_all2 traced_by es trs"
  obtains tr where "trace_element (8 * length raw) (prefix_alternate_data pre) k r = (Inr tr, r')"
    "list_all2 traced_by es' (trs @ [tr])" "outer raw r'"
    "\<And>ts b. tiles (bit_position r) (tr # ts) b \<longleftrightarrow> tiles (bit_position r') ts b"
proof -
  obtain eid size_bytes size_bits h w where
    head: "parse_element_header r = (Inr (eid, size_bytes, size_bits), h)" and h: "outer raw h"
    and less: "bit_position r < bit_position h" and size: "size_bits = size_bytes * 8"
    and window: "oamd_window size_bits h = (Inr w, r')" and r': "outer raw r'"
    and pos: "bit_position r' = bit_position h + size_bits"
    and "reader_ok w" "bit_position w = bit_position h" "unread w = take size_bits (unread h)"
    "size_bits \<le> length (unread h)"
    and body: "fst (parse_element_body sha256 config profile pid raw pre classes es eid size_bytes size_bits
        (bit_position h) (bit_position r') w) = Inr es'"
    by (rule parse_element_Inr [OF r run])
  let ?tr = "\<lambda>v. \<lparr>tr_index = k, tr_id = eid, header_start_bit = bit_position r, header_end_bit = bit_position h,
      body_start_bit = bit_position h, body_end_bit = bit_position r',
      warp_mode_start_bit = (if eid = 2
        then Some (bit_position h + ((if prefix_alternate_data pre then 1 else 0) * 4 + 1)) else None),
      warp_mode_raw = v\<rparr>"
  obtain v where v: "fst (trace_body (prefix_alternate_data pre) eid w) = Inr v"
    and all: "\<And>tr. located (prefix_alternate_data pre) eid (bit_position h) (bit_position r') tr \<Longrightarrow>
       warp_mode_raw tr = v \<Longrightarrow> list_all2 traced_by es' (trs @ [tr])"
    by (rule body_traced [OF body size pos es]) blast
  have traced: "list_all2 traced_by es' (trs @ [?tr v])" by (rule all) (simp_all add: located_def)
  have "trace_element (8 * length raw) (prefix_alternate_data pre) k r = (Inr (?tr v), r')"
    using v head window unfolding trace_element_def trace_body_def [symmetric]
    by (simp add: Let_def bind_rd_Inr outer_position' [OF r] outer_position' [OF h]
        outer_position' [OF r'])
  then show thesis
    by (rule that) (use traced r' less pos size in simp_all)
qed

section \<open>The whole payload\<close>

lemma elements_traced:
  assumes "outer raw r"
    and "parse_elements n sha256 config profile pid raw pre classes es r = (Inr es', r')"
    and "list_all2 traced_by es trs"
  shows "\<exists>ts. each_rd (trace_element (8 * length raw) (prefix_alternate_data pre)) [k..<k + n] r = (Inr ts, r')
     \<and> list_all2 traced_by es' (trs @ ts) \<and> tiles (bit_position r) ts (bit_position r') \<and> outer raw r'"
  using assms
proof (induction n arbitrary: es trs r k)
  case 0
  then show ?case by (simp add: ret_Inr)
next
  case (Suc n)
  obtain es1 r1 where one: "parse_element sha256 config profile pid raw pre classes es r = (Inr es1, r1)"
    and rest: "parse_elements n sha256 config profile pid raw pre classes es1 r1 = (Inr es', r')"
    by (rule bind_rd_InrE [OF Suc.prems(2) [unfolded parse_elements.simps]])
  obtain tr where tr: "trace_element (8 * length raw) (prefix_alternate_data pre) k r = (Inr tr, r1)"
    and all: "list_all2 traced_by es1 (trs @ [tr])" and r1: "outer raw r1"
    and tiles: "\<And>ts b. tiles (bit_position r) (tr # ts) b \<longleftrightarrow> tiles (bit_position r1) ts b"
    by (rule element_traced [OF Suc.prems(1) one Suc.prems(3), where k = k]) blast
  obtain ts where "each_rd (trace_element (8 * length raw) (prefix_alternate_data pre)) [Suc k..<Suc k + n] r1 = (Inr ts, r')"
    "list_all2 traced_by es' ((trs @ [tr]) @ ts)" "tiles (bit_position r1) ts (bit_position r')" "outer raw r'"
    using Suc.IH [OF r1 rest all, of "Suc k"] by blast
  moreover have "[k..<k + Suc n] = k # [Suc k..<Suc k + n]" by (simp add: upt_conv_Cons)
  ultimately show ?case
    using tr by (intro exI [of _ "tr # ts"]) (simp add: bind_rd_Inr ret_eq tiles del: tiles.simps upt_Suc)
qed

definition trace_agrees :: "u8 list \<Rightarrow> oamd_payload \<Rightarrow> oamd_bit_trace \<Rightarrow> bool" where
  "trace_agrees raw p t \<longleftrightarrow>
     tr_payload_bits t = 8 * length raw
   \<and> tr_object_count t = prefix_object_count (oamd_prefix p)
   \<and> tr_element_count t = prefix_element_count (oamd_prefix p)
   \<and> list_all2 traced_by (oamd_elements p) (tr_elements t)
   \<and> (\<exists>b \<le> 8 * length raw. tiles (prefix_end_bit t) (tr_elements t) b
        \<and> (\<forall>i. b \<le> i \<and> i < 8 * length raw \<longrightarrow> \<not> msb_bit raw i))"

lemma padding_zero:
  assumes r: "outer raw r" and "consume_zero_padding r = (Inr u, r')"
    and "bit_position r \<le> i" "i < 8 * length raw"
  shows "\<not> msb_bit raw i"
proof -
  have "True \<notin> set (unread r)"
    using assms(1,2) by (auto simp: consume_zero_padding_def outer_def zero_padding_spec split: if_splits)
  moreover have "unread r = drop (bit_position r) (slice_bits raw)"
    using r by (simp add: outer_def unread_def)
  moreover have "slice_bits raw ! i \<in> set (drop (bit_position r) (slice_bits raw))"
    using assms(3,4) by (auto simp: in_set_conv_nth intro!: exI [of _ "i - bit_position r"])
  ultimately show ?thesis using assms(4) by (auto simp: msb_bit_slice)
qed

lemma parsed_traced:
  assumes "parse_oamd_payload_inner sha256 raw config profile pid = Inr p"
  shows "\<exists>t. trace_oamd_payload raw = Inr t \<and> trace_agrees raw p t"
proof (rule payload_Inr [OF assms])
  fix pre r1 classes es r2 u r3
  assume size: "length raw * 8 \<le> usize_max"
    and pre: "parse_oamd_content_prefix_reader (new_reader raw) = (Inr pre, r1)" and r1: "outer raw r1"
    and es: "parse_elements (prefix_element_count pre) sha256 config profile pid raw pre classes [] r1 = (Inr es, r2)"
    and pad: "consume_zero_padding r2 = (Inr u, r3)"
    and p: "p = \<lparr>oamd_prefix = pre, oamd_object_classes = classes, oamd_elements = es, oamd_consumed_bits = 8 * length raw\<rparr>"
  obtain ts where ts: "each_rd (trace_element (8 * length raw) (prefix_alternate_data pre))
        [0..<prefix_element_count pre] r1 = (Inr ts, r2)"
    and all: "list_all2 traced_by es ts" and tiles: "tiles (bit_position r1) ts (bit_position r2)" and r2: "outer raw r2"
    using elements_traced [OF r1 es, of "[]" 0] by auto
  let ?t = "\<lparr>tr_payload_bits = 8 * length raw, prefix_end_bit = bit_position r1,
      tr_object_count = prefix_object_count pre, tr_element_count = prefix_element_count pre, tr_elements = ts\<rparr>"
  have "trace_oamd_payload raw = Inr ?t"
    using size pre ts outer_position [OF r1]
    by (simp add: trace_oamd_payload_def Let_def bind_rd_Inr ret_eq mult.commute)
  moreover have "bit_position r2 \<le> 8 * length raw" using r2 by (auto simp: outer_def reader_ok_def)
  ultimately show ?thesis
    using all tiles padding_zero [OF r2 pad]
    by (intro exI [of _ ?t]) (auto simp: trace_agrees_def p intro!: exI [of _ "bit_position r2"])
qed

end
