(* ===== verification/OamdProof.thy ===== *)
theory OamdProof
  imports OamdPayload ProofCache
begin

text \<open>
  The parse proof of the OAMD payload, \<open>crates/openjoc-oamd/src/parsed_proof.rs\<close>.  A key is one
  of the two entry points with its arguments: the two never match each other.
\<close>

record parsed_oamd_proof =
  oamd_proof_raw :: "u8 list"
  oamd_proof_config :: oamd_decoder_config
  oamd_proof_profile :: oamd_parse_profile
  oamd_proof_payload_id :: "u64 option"
  oamd_proof_parsed :: oamd_payload

definition oamd_proof_with_config ::
  "(u8 list \<Rightarrow> string) \<Rightarrow> u8 list \<Rightarrow> oamd_decoder_config \<Rightarrow> oamd_error + parsed_oamd_proof" where
  "oamd_proof_with_config sha256 raw config =
     attempt (parse_oamd_payload_with_config sha256 raw config) (\<lambda>parsed.
       Inr \<lparr>oamd_proof_raw = raw, oamd_proof_config = config, oamd_proof_profile = OamdEtsiStrict,
            oamd_proof_payload_id = None, oamd_proof_parsed = parsed\<rparr>)"

definition oamd_proof_with_profile ::
  "(u8 list \<Rightarrow> string) \<Rightarrow> u8 list \<Rightarrow> oamd_decoder_config \<Rightarrow> oamd_parse_profile \<Rightarrow> u64 \<Rightarrow>
   oamd_error + parsed_oamd_proof" where
  "oamd_proof_with_profile sha256 raw config profile payload_id =
     attempt (parse_oamd_payload_with_profile sha256 raw config profile payload_id) (\<lambda>parsed.
       Inr \<lparr>oamd_proof_raw = raw, oamd_proof_config = config, oamd_proof_profile = profile,
            oamd_proof_payload_id = Some payload_id, oamd_proof_parsed = parsed\<rparr>)"

definition into_matching_payload ::
  "parsed_oamd_proof \<Rightarrow> u8 list \<Rightarrow> oamd_decoder_config \<Rightarrow> oamd_parse_profile \<Rightarrow> u64 option \<Rightarrow>
   oamd_payload option" where
  "into_matching_payload p raw config profile payload_id =
     (if oamd_proof_raw p = raw \<and> oamd_proof_config p = config \<and> oamd_proof_profile p = profile
         \<and> oamd_proof_payload_id p = payload_id
      then Some (oamd_proof_parsed p) else None)"

section \<open>The proof as a cache\<close>

datatype oamd_key =
  WithConfig "u8 list" oamd_decoder_config
| WithProfile "u8 list" oamd_decoder_config oamd_parse_profile u64

fun oamd_run :: "(u8 list \<Rightarrow> string) \<Rightarrow> oamd_key \<Rightarrow> oamd_error + oamd_payload" where
  "oamd_run sha256 (WithConfig raw config) = parse_oamd_payload_with_config sha256 raw config"
| "oamd_run sha256 (WithProfile raw config profile pid) =
     parse_oamd_payload_with_profile sha256 raw config profile pid"

fun oamd_make :: "(u8 list \<Rightarrow> string) \<Rightarrow> oamd_key \<Rightarrow> oamd_error + parsed_oamd_proof" where
  "oamd_make sha256 (WithConfig raw config) = oamd_proof_with_config sha256 raw config"
| "oamd_make sha256 (WithProfile raw config profile pid) = oamd_proof_with_profile sha256 raw config profile pid"

fun oamd_matching :: "parsed_oamd_proof \<Rightarrow> oamd_key \<Rightarrow> oamd_payload option" where
  "oamd_matching p (WithConfig raw config) = into_matching_payload p raw config OamdEtsiStrict None"
| "oamd_matching p (WithProfile raw config profile pid) = into_matching_payload p raw config profile (Some pid)"

lemma oamd_make_run: "oamd_make sha256 k = Inl e \<longleftrightarrow> oamd_run sha256 k = Inl e"
  by (cases k) (auto simp: oamd_proof_with_config_def oamd_proof_with_profile_def attempt_def split: sum.splits)

lemma oamd_make_matching:
  assumes "oamd_make sha256 k = Inr p" and "oamd_run sha256 k = Inr v"
  shows "oamd_matching p k' = (if k' = k then Some v else None)"
  using assms
  by (cases k; cases k')
    (auto simp: oamd_proof_with_config_def oamd_proof_with_profile_def into_matching_payload_def attempt_Inr)

interpretation oamd_cache: proof_cache "oamd_run sha256" "oamd_make sha256" oamd_matching for sha256
  by unfold_locales (rule oamd_make_run, rule oamd_make_matching)

end
