(* ===== verification/OamdProfileSpec.thy ===== *)
theory OamdProfileSpec
  imports OamdInvariant OamdProof
begin

text \<open>
  The vendor profile extends the strict one: what the strict parser accepts, it accepts with the
  same result.
\<close>

text \<open>\<open>below m m'\<close>: every success of \<open>m\<close> is the same success of \<open>m'\<close>.\<close>

definition below :: "('s, 'e, 'a) rd \<Rightarrow> ('s, 'e, 'a) rd \<Rightarrow> bool" where
  "below m m' \<longleftrightarrow> (\<forall>s a t. m s = (Inr a, t) \<longrightarrow> m' s = (Inr a, t))"

lemma belowD: "below m m' \<Longrightarrow> m s = (Inr a, t) \<Longrightarrow> m' s = (Inr a, t)"
  by (simp add: below_def)

lemma below_refl: "below m m"
  by (simp add: below_def)

lemma below_bind:
  assumes "below m m'" and "\<And>a. below (k a) (k' a)"
  shows "below (bind_rd m k) (bind_rd m' k')"
  unfolding below_def
proof (intro allI impI)
  fix s b t
  assume "bind_rd m k s = (Inr b, t)"
  then obtain a s' where "m s = (Inr a, s')" "k a s' = (Inr b, t)" by (rule bind_rd_InrE)
  then show "bind_rd m' k' s = (Inr b, t)"
    using belowD [OF assms(1)] belowD [OF assms(2)] by (simp add: bind_rd_def)
qed

lemma below_if: "below m m' \<Longrightarrow> below n n' \<Longrightarrow> below (if c then m else n) (if c then m' else n')"
  by simp

lemma below_trim:
  "below (parse_trim_body sha256 config OamdEtsiStrict None raw pre a d sb sz bs be)
     (parse_trim_body sha256 config profile pid raw pre a d sb sz bs be)"
  by (auto simp: below_def parse_trim_body_def split: option.splits prod.splits sum.splits if_splits)

lemma below_body:
  "below (parse_element_body sha256 config OamdEtsiStrict None raw pre classes es eid sb sz bs be)
     (parse_element_body sha256 config profile pid raw pre classes es eid sb sz bs be)"
  unfolding parse_element_body_def
  by (rule below_bind [OF below_refl], rule below_bind [OF below_refl], rule below_bind [OF below_refl], rule below_bind,
      rule below_if [OF below_refl], rule below_if [OF below_bind [OF below_trim below_refl] below_refl], rule below_refl)

lemma below_element:
  "below (parse_element sha256 config OamdEtsiStrict None raw pre classes es)
     (parse_element sha256 config profile pid raw pre classes es)"
  unfolding parse_element_def
proof (rule below_bind [OF below_refl])
  fix header :: "nat \<times> nat \<times> nat"
  obtain eid sb sz where header: "header = (eid, sb, sz)" by (cases header)
  let ?F = "\<lambda>profile pid r. let body_start = length raw * 8 - bits_remaining r in
      bind_rd (oamd_window sz) (\<lambda>window r'. let body_end = length raw * 8 - bits_remaining r' in
         (fst (parse_element_body sha256 config profile pid raw pre classes es eid sb sz body_start body_end window), r')) r"
  have "below (?F OamdEtsiStrict None) (?F profile pid)"
    unfolding below_def Let_def
  proof (intro allI impI)
    fix s a t
    assume "bind_rd (oamd_window sz) (\<lambda>window r'.
        (fst (parse_element_body sha256 config OamdEtsiStrict None raw pre classes es eid sb sz
                (length raw * 8 - bits_remaining s) (length raw * 8 - bits_remaining r') window), r')) s = (Inr a, t)"
    then obtain w where w: "oamd_window sz s = (Inr w, t)"
      and b: "fst (parse_element_body sha256 config OamdEtsiStrict None raw pre classes es eid sb sz
                (length raw * 8 - bits_remaining s) (length raw * 8 - bits_remaining t) w) = Inr a"
      by (rule bind_rd_InrE) auto
    obtain v where "parse_element_body sha256 config OamdEtsiStrict None raw pre classes es eid sb sz
                (length raw * 8 - bits_remaining s) (length raw * 8 - bits_remaining t) w = (Inr a, v)"
      by (rule exE [OF fst_run [OF b]])
    then have "parse_element_body sha256 config profile pid raw pre classes es eid sb sz
                (length raw * 8 - bits_remaining s) (length raw * 8 - bits_remaining t) w = (Inr a, v)"
      by (rule belowD [OF below_body])
    with w show "bind_rd (oamd_window sz) (\<lambda>window r'.
        (fst (parse_element_body sha256 config profile pid raw pre classes es eid sb sz
                (length raw * 8 - bits_remaining s) (length raw * 8 - bits_remaining r') window), r')) s = (Inr a, t)"
      by (simp add: bind_rd_Inr)
  qed
  then show "below (case header of (eid, sb, sz) \<Rightarrow> \<lambda>r. let body_start = length raw * 8 - bits_remaining r in
      bind_rd (oamd_window sz) (\<lambda>window r'. let body_end = length raw * 8 - bits_remaining r' in
         (fst (parse_element_body sha256 config OamdEtsiStrict None raw pre classes es eid sb sz body_start body_end window), r')) r)
    (case header of (eid, sb, sz) \<Rightarrow> \<lambda>r. let body_start = length raw * 8 - bits_remaining r in
      bind_rd (oamd_window sz) (\<lambda>window r'. let body_end = length raw * 8 - bits_remaining r' in
         (fst (parse_element_body sha256 config profile pid raw pre classes es eid sb sz body_start body_end window), r')) r)"
    by (simp only: header prod.case)
qed

lemma below_elements:
  "below (parse_elements n sha256 config OamdEtsiStrict None raw pre classes es)
     (parse_elements n sha256 config profile pid raw pre classes es)"
  by (induction n arbitrary: es) (simp_all only: parse_elements.simps below_refl below_bind [OF below_element])

lemma inner_extends:
  assumes "parse_oamd_payload_inner sha256 raw config OamdEtsiStrict None = Inr p"
  shows "parse_oamd_payload_inner sha256 raw config profile pid = Inr p"
proof -
  have size: "length raw * 8 \<le> usize_max"
    using assms by (simp add: parse_oamd_payload_inner_def split: if_splits)
  let ?M = "\<lambda>profile pid. bind_rd parse_oamd_content_prefix_reader (\<lambda>pre.
       bind_rd (lift_rd (derive_object_classes pre)) (\<lambda>classes.
       bind_rd (parse_elements (prefix_element_count pre) sha256 config profile pid raw pre classes []) (\<lambda>es.
       bind_rd consume_zero_padding (\<lambda>_.
         ret \<lparr>oamd_prefix = pre, oamd_object_classes = classes, oamd_elements = es,
              oamd_consumed_bits = bits_remaining (new_reader raw)\<rparr>))))"
  have mono: "below (?M OamdEtsiStrict None) (?M profile pid)"
    by (rule below_bind [OF below_refl], rule below_bind [OF below_refl],
        rule below_bind [OF below_elements], rule below_refl)
  have b: "fst (?M OamdEtsiStrict None (new_reader raw)) = Inr p"
    using assms size by (simp add: parse_oamd_payload_inner_def Let_def)
  obtain t where "?M OamdEtsiStrict None (new_reader raw) = (Inr p, t)" by (rule exE [OF fst_run [OF b]])
  from belowD [OF mono this] show ?thesis
    using size by (simp add: parse_oamd_payload_inner_def Let_def)
qed

end
