(* ===== verification/OamdProps.thy ===== *)
theory OamdProps
  imports OamdTrace OamdProfileSpec
begin

text \<open>The properties of the object audio metadata, each with a witness on a small payload.\<close>

section \<open>Examples\<close>

text \<open>
  One object and one trim element: with warp mode 1, and with the reserved warp mode 3, whose body
  ends in five bits of an unknown layout.  The digest is a constant.
\<close>

definition trim_payload :: "u8 list" where
  "trim_payload = [0x01, 0x04, 0x80, 0x40]"

definition vendor_payload :: "u8 list" where
  "vendor_payload = [0x01, 0x04, 0x80, 0xEC]"

definition unit_digest :: "u8 list \<Rightarrow> string" where
  "unit_digest bs = ''''"

lemma vendor_payload_parses:
  "succeeds (parse_oamd_payload_inner unit_digest vendor_payload default_config OamdObservedVendorCompat (Some OAMD_ID))"
  by code_simp

lemma trim_payload_parses: "succeeds (parse_oamd_payload_inner unit_digest trim_payload default_config OamdEtsiStrict None)"
  by code_simp

text \<open>The vendor body of a payload with one element.\<close>

definition has_observed :: "'e + oamd_payload \<Rightarrow> bool" where
  "has_observed x =
     (case x of
        Inr p \<Rightarrow>
          (case oamd_elements p of
             [m] \<Rightarrow> (case meta_element m of OpaqueObservedKnown e \<Rightarrow> True | _ \<Rightarrow> False)
           | _ \<Rightarrow> False)
      | Inl _ \<Rightarrow> False)"

lemma vendor_payload_observed:
  "has_observed (parse_oamd_payload_with_profile unit_digest vendor_payload default_config
     OamdObservedVendorCompat OAMD_ID)"
  by code_simp

lemma has_observedD:
  "has_observed x \<Longrightarrow> \<exists>p m e. x = Inr p \<and> m \<in> set (oamd_elements p) \<and> meta_element m = OpaqueObservedKnown e"
  unfolding has_observed_def
  by (cases x) (auto split: list.splits oamd_element.splits)

text \<open>An object element of one block: the object stays at the position with codes 31, 31, 0.\<close>

definition object_body :: "u8 list" where
  "object_body = [0x00, 0x04, 0x5F, 0x7E, 0x01, 0x00]"

lemma object_body_parses: "succeeds (parse_object_element object_body [Dynamic])"
  by code_simp

section \<open>The payload parser\<close>

text \<open>
  C34: every parsed metadata payload is well-formed.  It has one class for each declared object and
  the declared number of elements; object elements have an update of every block for every object,
  with positions in the extended room; trim elements have a flag for every object, levels and
  balances in their ranges; extension elements have a row for every object and divergences between
  0 and 1; observed vendor elements occur only in the vendor profile.
\<close>

theorem parsed_payload_is_well_formed:
  assumes "parse_oamd_payload_inner sha256 raw config profile pid = Inr p"
  shows "payload_ok raw config profile p"
  using assms by (rule parsed_payload_ok)

theorem parsed_payload_is_well_formed_witness:
  "\<exists>p. parse_oamd_payload_inner unit_digest trim_payload default_config OamdEtsiStrict None = Inr p
     \<and> payload_ok trim_payload default_config OamdEtsiStrict p"
  by (rule succeedsE [OF trim_payload_parses]) (blast intro: parsed_payload_is_well_formed)

text \<open>
  C35: the bit trace agrees with the parser.  A payload that parses has a trace; it lists the same
  elements in the same order, their headers and bodies tile the payload from the end of the prefix,
  only zero bits follow the last body, trim warp modes are the ones that the parser decoded, and
  the windows of observed vendor bodies are the traced ones.
\<close>

theorem bit_trace_agrees_with_parser:
  assumes "parse_oamd_payload_inner sha256 raw config profile pid = Inr p"
  shows "\<exists>t. trace_oamd_payload raw = Inr t \<and> trace_agrees raw p t"
  using assms by (rule parsed_traced)

theorem bit_trace_agrees_with_parser_witness:
  "\<exists>p t. trace_oamd_payload vendor_payload = Inr t \<and> trace_agrees vendor_payload p t"
  by (rule succeedsE [OF vendor_payload_parses]) (blast dest: bit_trace_agrees_with_parser)

text \<open>
  C36: a vendor body is kept without loss, and only under the vendor profile with the OAMD payload
  identifier: the retained bits are the payload bits of the body window, the two warp bits are
  set, and the continuation view is the rest of the body, bit by bit.
\<close>

theorem vendor_body_is_lossless:
  assumes "parse_oamd_payload_with_profile sha256 raw config profile pid = Inr p"
    and "m \<in> set (oamd_elements p)" and "meta_element m = OpaqueObservedKnown e"
  shows "profile = OamdObservedVendorCompat \<and> pid = OAMD_ID \<and> observed_ok raw e"
proof -
  have run: "parse_oamd_payload_inner sha256 raw config profile (Some pid) = Inr p"
    and id: "profile = OamdObservedVendorCompat \<Longrightarrow> pid = OAMD_ID"
    using assms(1) by (auto simp: parse_oamd_payload_with_profile_def split: if_splits)
  have "metadata_ok raw config profile (prefix_object_count (oamd_prefix p)) (oamd_object_classes p) m"
    using parsed_payload_ok [OF run] assms(2) by (simp add: payload_ok_def)
  then show ?thesis using assms(3) id by (simp add: metadata_ok_def)
qed

theorem vendor_body_is_lossless_witness:
  "\<exists>p m e. parse_oamd_payload_with_profile unit_digest vendor_payload default_config OamdObservedVendorCompat OAMD_ID
       = Inr p \<and> m \<in> set (oamd_elements p) \<and> meta_element m = OpaqueObservedKnown e \<and> observed_ok vendor_payload e"
proof -
  obtain p m e where run: "parse_oamd_payload_with_profile unit_digest vendor_payload default_config
       OamdObservedVendorCompat OAMD_ID = Inr p" and m: "m \<in> set (oamd_elements p)"
    and e: "meta_element m = OpaqueObservedKnown e"
    using has_observedD [OF vendor_payload_observed] by (elim exE conjE) (rule that)
  show ?thesis using vendor_body_is_lossless [OF run m e] by (intro exI conjI) (rule run, rule m, rule e, simp)
qed

text \<open>
  C37: the vendor profile is a conservative extension of the strict parser: a payload that the
  strict parser accepts parses to the same result under every profile, with every identifier that
  the profile admits.
\<close>

theorem vendor_profile_is_conservative:
  assumes "parse_oamd_payload_with_config sha256 raw config = Inr p"
    and "profile = OamdObservedVendorCompat \<longrightarrow> pid = OAMD_ID"
  shows "parse_oamd_payload_with_profile sha256 raw config profile pid = Inr p"
proof -
  have "parse_oamd_payload_inner sha256 raw config profile (Some pid) = Inr p"
    by (rule inner_extends) (use assms(1) in \<open>simp add: parse_oamd_payload_with_config_def\<close>)
  then show ?thesis using assms(2) by (simp add: parse_oamd_payload_with_profile_def)
qed

theorem vendor_profile_is_conservative_witness:
  "\<exists>p. parse_oamd_payload_with_config unit_digest trim_payload default_config = Inr p
     \<and> parse_oamd_payload_with_profile unit_digest trim_payload default_config OamdObservedVendorCompat OAMD_ID = Inr p"
proof (rule succeedsE [OF trim_payload_parses])
  fix p
  assume "parse_oamd_payload_inner unit_digest trim_payload default_config OamdEtsiStrict None = Inr p"
  then have run: "parse_oamd_payload_with_config unit_digest trim_payload default_config = Inr p"
    by (simp add: parse_oamd_payload_with_config_def)
  with vendor_profile_is_conservative [OF run, of OamdObservedVendorCompat OAMD_ID] show ?thesis by simp
qed

text \<open>
  The parse proof is a transparent cache.  A proof made by an entry point with its arguments
  gives its payload back for that call only, and looking a call up before parsing always yields
  what the parser returns.
\<close>

theorem oamd_proof_is_transparent:
  assumes "oamd_make sha256 k = Inr proof"
  shows "cached oamd_matching (oamd_run sha256) proof k' = oamd_run sha256 k'
    \<and> ((\<exists>p. oamd_matching proof k' = Some p) \<longleftrightarrow> k' = k)"
  using oamd_cache.transparent [OF assms] oamd_cache.hit_iff [OF assms] by blast

theorem oamd_proof_is_transparent_witness:
  "\<exists>proof. oamd_proof_with_config unit_digest trim_payload default_config = Inr proof
     \<and> into_matching_payload proof trim_payload default_config OamdEtsiStrict (Some OAMD_ID) = None"
proof (rule succeedsE [OF trim_payload_parses])
  fix p
  let ?k = "WithConfig trim_payload default_config"
  assume "parse_oamd_payload_inner unit_digest trim_payload default_config OamdEtsiStrict None = Inr p"
  then obtain q where made: "oamd_make unit_digest ?k = Inr q"
    by (auto simp: oamd_proof_with_config_def parse_oamd_payload_with_config_def)
  with oamd_proof_is_transparent [OF made, of "WithProfile trim_payload default_config OamdEtsiStrict OAMD_ID"]
  show ?thesis by auto
qed

section \<open>Objects\<close>

text \<open>
  C38: a parsed object element has one update of every metadata block for every object; every
  position lies in the room and is the decoding of its coding and of the absolute position that
  the next differential update refers to.
\<close>

theorem object_positions_are_in_room:
  assumes "parse_object_element raw classes = Inr e"
  shows "length (element_objects e) = length classes
    \<and> (\<forall>us \<in> set (element_objects e). length us = length (timing_blocks (element_timing e))
         \<and> (\<forall>u \<in> set us. in_room (render_position (update_render u)) \<and> position_ok (update_render u)))"
proof -
  obtain t where "parse_object_element_reader classes (new_reader raw) = (Inr e, t)"
    using fst_run [OF assms [unfolded parse_object_element_def]] by auto
  from yieldsD [OF yields_object_element this] show ?thesis
    by (auto simp: element_ok_def updates_ok_def intro: position_in_room)
qed

theorem object_positions_are_in_room_witness:
  "\<exists>e. parse_object_element object_body [Dynamic] = Inr e \<and> length (element_objects e) = 1"
  by (rule succeedsE [OF object_body_parses]) (use object_positions_are_in_room in fastforce)

text \<open>
  Extended precision refines positions and nothing else: an extension whose codes are all
  absent leaves a parsed object element as it is.
\<close>

theorem empty_extension_is_identity:
  assumes "parse_object_element raw classes = Inr e"
    and "extended_precision ext = Some (map (map (\<lambda>_. (None, None, None))) (element_objects e))"
  shows "apply_positions ext e = Inr e"
proof -
  obtain t where "parse_object_element_reader classes (new_reader raw) = (Inr e, t)"
    using fst_run [OF assms(1) [unfolded parse_object_element_def]] by auto
  from apply_positions_none [OF yieldsD [OF yields_object_element this] assms(2)] show ?thesis .
qed

theorem empty_extension_is_identity_witness:
  "\<exists>e. parse_object_element object_body [Dynamic] = Inr e
     \<and> apply_positions \<lparr>divergence = None, extended_precision =
          Some (map (map (\<lambda>_. (None, None, None))) (element_objects e)), extended_consumed_bits = 2\<rparr> e = Inr e"
  by (rule succeedsE [OF object_body_parses]) (use empty_extension_is_identity in fastforce)

text \<open>
  C39: the distance code projects a position along the ray from the room centre.  Inside the room
  nothing changes; an infinite distance gives the point where the ray meets the room boundary; a
  finite factor, always greater than one, gives the point whose distance in units of the room is
  the factor.
\<close>

theorem room_projection_is_on_ray:
  assumes "project_room_position env c d = Inr q"
  shows "case d of
      InsideRoom \<Rightarrow> q = FinitePosition c
    | FiniteDistance f \<Rightarrow> 1 < f \<and> (\<exists>p. q = FinitePosition p \<and> p = on_ray (f / room_norm c) c \<and> room_norm p = f)
    | InfiniteDistance \<Rightarrow> (\<exists>b. q = AtInfinity b \<and> b = on_ray (1 / room_norm c) c \<and> room_norm b = 1)"
proof (cases "d = InsideRoom")
  case True
  then show ?thesis using assms by (auto simp: project_room_position_def split: if_splits)
next
  case False
  then obtain scale where scale: "boundary_scale c = Some scale"
    and q: "(case d of InsideRoom \<Rightarrow> Inr (FinitePosition c) | InfiniteDistance \<Rightarrow> Inr (AtInfinity (on_ray scale c))
      | FiniteDistance f \<Rightarrow> if \<not> finite64 env f \<or> f \<le> 1 then Inl InvalidRoomDistanceFactor
          else Inr (FinitePosition (on_ray f (on_ray scale c)))) = Inr q"
    using assms by (auto simp: project_room_position_def Let_def split: if_splits option.splits)
  then have pos: "0 < room_norm c" and s: "scale = 1 / room_norm c"
    using room_norm_nonneg [of c] by (auto simp: boundary_scale_norm inverse_scale_def split: if_splits)
  then show ?thesis
    using q False by (cases d) (auto simp: on_ray_ray room_norm_ray split: if_splits)
qed

theorem room_projection_is_on_ray_witness:
  "\<exists>p. project_room_position \<lparr>finite64 = \<lambda>_. True, powf = \<lambda>x y. x\<rparr> \<lparr>pos_x = 1 / 4, pos_y = 1 / 2, pos_z = 0\<rparr>
       (FiniteDistance 2) = Inr (FinitePosition p) \<and> room_norm p = 2"
proof -
  let ?c = "\<lparr>pos_x = 1 / 4, pos_y = 1 / 2, pos_z = 0\<rparr> :: position3"
  obtain q where run: "project_room_position \<lparr>finite64 = \<lambda>_. True, powf = \<lambda>x y. x\<rparr> ?c (FiniteDistance 2) = Inr q"
    by (simp add: project_room_position_def boundary_scale_def axis_boundary_scale_def ROOM_ORIGIN_def Let_def)
  from room_projection_is_on_ray [OF run] run show ?thesis by auto
qed

section \<open>Content and timing\<close>

text \<open>The channels that an assignment selects.\<close>

definition bed_fits :: "bed_assignment \<Rightarrow> bool" where
  "bed_fits b = (case b of LfeOnly \<Rightarrow> True | Standard m \<Rightarrow> m < 2 ^ 10 | Nonstandard m \<Rightarrow> m < 2 ^ 17)"

definition bed_channels :: "bed_assignment \<Rightarrow> speaker_label set" where
  "bed_channels b =
     (case b of
        LfeOnly \<Rightarrow> {RcLfe}
      | Standard m \<Rightarrow> \<Union> {set (STANDARD_BEDS ! i) | i. i < 10 \<and> bit m i}
      | Nonstandard m \<Rightarrow> {NONSTANDARD_BEDS ! i | i. i < 17 \<and> bit m i})"

lemma distinct_concat_nths: "distinct (concat xs) \<Longrightarrow> distinct (concat (nths xs A))"
proof (induction xs arbitrary: A)
  case (Cons x xs)
  have "set x \<inter> set (concat (nths xs B)) = {}" for B
    using Cons.prems by (auto dest!: in_set_nthsD)
  then show ?case using Cons by (simp add: nths_Cons)
qed simp

lemma drop_bit_zero: "drop_bit n (m :: nat) = 0 \<longleftrightarrow> m < 2 ^ n"
  by (simp add: drop_bit_eq_div div_eq_0_iff)

text \<open>
  A bed assignment yields each of its channels exactly once: the labels are distinct, they are
  the channels whose mask bits are set, and exactly the masks with bits beyond the table are
  refused.
\<close>

theorem speaker_labels_are_the_masked_channels:
  "case speaker_labels b of
     Inl e \<Rightarrow> \<not> bed_fits b \<and> e = InvalidPropertyCode
   | Inr labels \<Rightarrow> bed_fits b \<and> distinct labels \<and> set labels = bed_channels b"
proof (cases b)
  case (Standard m)
  have "distinct (concat STANDARD_BEDS)" "length STANDARD_BEDS = 10" by (simp_all add: STANDARD_BEDS_def)
  then show ?thesis
    by (auto simp: Standard speaker_labels_def bed_fits_def bed_channels_def drop_bit_zero masked_nths
        distinct_concat_nths set_nths)
next
  case (Nonstandard m)
  have "distinct NONSTANDARD_BEDS" "length NONSTANDARD_BEDS = 17" by (simp_all add: NONSTANDARD_BEDS_def)
  then show ?thesis
    by (auto simp: Nonstandard speaker_labels_def bed_fits_def bed_channels_def drop_bit_zero masked_nths
        distinct_nthsI set_nths)
qed (simp add: speaker_labels_def bed_fits_def bed_channels_def)

text \<open>
  C40: the metadata timeline numbers accepted frames.  Over any stream of payloads, the blocks of the
  \<open>k\<close>-th accepted frame have the offset of 1536 samples times \<open>k\<close>, refused payloads take no time, and the
  state is the offset of the next frame.
\<close>

theorem metadata_frame_offsets:
  assumes "feed decode_metadata_frame frames new_metadata_timeline = (rs, s)"
  shows "md_frame_offset s = 1536 * length (accepted rs)
    \<and> (\<forall>k < length (accepted rs). \<forall>b \<in> set (accepted rs ! k). timed_frame_offset b = 1536 * k)"
  using feed_offsets [of frames new_metadata_timeline] assms by (simp add: new_metadata_timeline_def)

theorem metadata_frame_offsets_witness:
  "\<exists>rs s. feed decode_metadata_frame [[0, 0], [0xC0], [0, 0]] new_metadata_timeline = (rs, s)
     \<and> length (accepted rs) = 2 \<and> md_frame_offset s = 3072"
proof -
  obtain rs s where run: "feed decode_metadata_frame [[0, 0], [0xC0], [0, 0]] new_metadata_timeline = (rs, s)"
    by (cases "feed decode_metadata_frame [[0, 0], [0xC0], [0, 0]] new_metadata_timeline")
  have "length (accepted (fst (feed decode_metadata_frame [[0, 0], [0xC0], [0, 0]] new_metadata_timeline))) = 2"
    by code_simp
  with run metadata_frame_offsets [OF run] show ?thesis by simp
qed

end
