(* ===== verification/Eac3Header.thy ===== *)
theory Eac3Header
  imports Parsing EmdfProfile
begin

text \<open>
  The acquisition syntax of one syncframe, \<open>crates/openjoc-eac3/src/lib.rs\<close>: the header in the
  original AC-3 syntax and in the Enhanced AC-3 syntax, and the bit stream information up to
  \<open>addbsi\<close>.  Narrow unsigned fields are natural numbers below the bound that the conversion
  checks; \<open>eac3_error\<close> has the variants of \<open>Eac3Error\<close> that the modelled functions return.
\<close>

section \<open>Errors and fields\<close>

datatype (plugins only: code size) eac3_error =
  Eac3Bit bit_error
| InvalidSyncword nat
| UnsupportedBitstreamId nat
| ReservedStreamType
| ReservedSampleRate
| ReservedSnrOffsetStrategy
| FrameSizeOverflow
| TruncatedFrame nat nat nat
| InvalidAddbsiLength nat
| NonzeroReservedData
| InvalidDeltaBitAllocationStrategy nat
| InvalidBitAllocationParameterCode string nat
| InvalidBitAllocationTableIndex string nat
| InvalidPsdRange nat nat
| MissingJocExtensionFlag
| ComplexityIndexOutOfRange nat
| ComplexityIndexMismatch nat nat
| InvalidFrameExponentStrategy nat
| InvalidExponentStrategy nat
| InvalidChannelBandwidthCode nat
| InvalidGroupedExponent nat
| ExponentOutOfRange int
| ExponentGroupCountMismatch nat nat
| InvalidExponentDimensions nat
| InvalidMantissaBap nat
| InvalidMantissaCode nat nat
| InvalidMantissaGroupCode nat nat
| MantissaExponentLengthMismatch nat nat
| MantissaDitherLengthMismatch nat nat
| MissingDitherValue nat
| InvalidSpectralExtensionCode nat nat
| InvalidSpectralExtensionRange nat nat
| InvalidCouplingRange int int
| InvalidBlockStartDimensions nat nat
| NonFiniteAhtCoefficient
| InvalidAhtGaqMode nat
| InvalidAhtGaqGainWord nat
| InvalidAhtGaqHebap nat
| InvalidAhtGaqGain nat
| InvalidAhtGaqCode nat
| InvalidAhtVqHebap nat
| InvalidAhtVqIndex nat nat
| MissingIndependentSubstreamZero nat
| NonsequentialIndependentSubstream nat nat
| NonsequentialDependentSubstream nat nat
| DependentAfterConvertedSubstream nat
| SubstreamTimingMismatch nat
| AuxDataLengthOutOfRange nat nat
| AuxDataNotByteAligned nat
| EmdfCarrierTrailingData nat nat
| Eac3Emdf emdf_error
| JocProfileValidation joc_profile_validation_failure
| InvalidAccessUnitRange
| UnsupportedJocAccessUnitFrameCount nat
| MultipleJocCarriers
| MissingJocAddbsi nat
| MissingJocCarrier nat
| InvalidJocCarrierPlacement nat nat
| InvalidAc3Crc string
| InvalidAc3Syntax string
| UnsupportedAc3CodingTool string
| Ac3AudioBlock nat eac3_error
| Ac3SyntaxField string eac3_error
| AudioBlockCarrierTraversalUnresolved nat nat

type_synonym 'a eac3_parser = "(eac3_error, 'a) parser"

definition eac3_bits :: "nat \<Rightarrow> u64 eac3_parser" where
  "eac3_bits n = map_err Eac3Bit (read_bits n)"

definition eac3_bit :: "bool eac3_parser" where
  "eac3_bit = map_err Eac3Bit read_bit"

definition eac3_u8 :: "nat \<Rightarrow> nat eac3_parser" where
  "eac3_u8 width = read_uint Eac3Bit FrameSizeOverflow 256 width"

definition eac3_u16 :: "nat \<Rightarrow> nat eac3_parser" where
  "eac3_u16 width = read_uint Eac3Bit FrameSizeOverflow (2 ^ 16) width"

definition eac3_skip :: "nat \<Rightarrow> unit eac3_parser" where
  "eac3_skip width = bind_rd (eac3_bits width) (\<lambda>_. ret ())"

definition skip_optional :: "nat \<Rightarrow> unit eac3_parser" where
  "skip_optional width = bind_rd eac3_bit (\<lambda>p. if p then eac3_skip width else ret ())"

text \<open>\<open>bits.read_bit()?.then(|| read_u8(bits, w)).transpose()?\<close>.\<close>

definition flagged_u8 :: "nat \<Rightarrow> nat option eac3_parser" where
  "flagged_u8 width = bind_rd eac3_bit (\<lambda>p. when_rd p (eac3_u8 width))"

section \<open>The syncframe header\<close>

definition EAC3_SYNCWORD :: nat where
  "EAC3_SYNCWORD = 0x0B77"

datatype stream_type = LegacyIndependent | Independent | Dependent | ConvertedIndependent

record syncframe_header =
  stream_type :: stream_type
  substream_id :: nat
  hdr_bitstream_id :: nat
  frame_size :: nat
  sample_rate :: nat
  audio_blocks :: nat
  frame_samples :: nat

definition check_syncword :: "unit eac3_parser" where
  "check_syncword =
     bind_rd (eac3_u16 16) (\<lambda>syncword. guard_rd (syncword = EAC3_SYNCWORD) (InvalidSyncword syncword))"

definition sample_rate_of :: "nat \<Rightarrow> nat option" where
  "sample_rate_of code =
     (if code = 0 then Some 48000 else if code = 1 then Some 44100 else if code = 2 then Some 32000 else None)"

definition FRAME_SIZE_WORDS :: "nat list list" where
  "FRAME_SIZE_WORDS =
     [[64, 69, 96], [64, 70, 96], [80, 87, 120], [80, 88, 120], [96, 104, 144], [96, 105, 144],
      [112, 121, 168], [112, 122, 168], [128, 139, 192], [128, 140, 192], [160, 174, 240],
      [160, 175, 240], [192, 208, 288], [192, 209, 288], [224, 243, 336], [224, 244, 336],
      [256, 278, 384], [256, 279, 384], [320, 348, 480], [320, 349, 480], [384, 417, 576],
      [384, 418, 576], [448, 487, 672], [448, 488, 672], [512, 557, 768], [512, 558, 768],
      [640, 696, 960], [640, 697, 960], [768, 835, 1152], [768, 836, 1152], [896, 975, 1344],
      [896, 976, 1344], [1024, 1114, 1536], [1024, 1115, 1536], [1152, 1253, 1728],
      [1152, 1254, 1728], [1280, 1393, 1920], [1280, 1394, 1920]]"

definition frame_words :: "nat \<Rightarrow> nat \<Rightarrow> nat option" where
  "frame_words frame_size_code sample_rate_code =
     (if frame_size_code < length FRAME_SIZE_WORDS
         \<and> sample_rate_code < length (FRAME_SIZE_WORDS ! frame_size_code)
      then Some (FRAME_SIZE_WORDS ! frame_size_code ! sample_rate_code) else None)"

definition parse_ac3_header_reader :: "syncframe_header eac3_parser" where
  "parse_ac3_header_reader =
     bind_rd check_syncword (\<lambda>_.
     bind_rd (eac3_bits 16) (\<lambda>_.
     bind_rd (eac3_u8 2) (\<lambda>sample_rate_code.
     bind_rd (some_or (sample_rate_of sample_rate_code) ReservedSampleRate) (\<lambda>rate.
     bind_rd (eac3_u8 6) (\<lambda>frame_size_code.
     bind_rd (eac3_u8 5) (\<lambda>bitstream_id.
     bind_rd (some_or (frame_words frame_size_code sample_rate_code) FrameSizeOverflow) (\<lambda>words.
     bind_rd (some_or (checked_usize (words * 2)) FrameSizeOverflow) (\<lambda>size.
       ret \<lparr>stream_type = LegacyIndependent, substream_id = 0, hdr_bitstream_id = bitstream_id,
            frame_size = size, sample_rate = rate, audio_blocks = 6, frame_samples = 1536\<rparr>))))))))"

text \<open>The four values of a two-bit field, in the order of the match arms.\<close>

definition parse_stream_type :: "stream_type eac3_parser" where
  "parse_stream_type =
     bind_rd (eac3_bits 2) (\<lambda>code.
       if code = 0 then ret Independent
       else if code = 1 then ret Dependent
       else if code = 2 then ret ConvertedIndependent
       else fail ReservedStreamType)"

definition blocks_from_code :: "nat \<Rightarrow> nat" where
  "blocks_from_code code = [1, 2, 3, 6] ! code"

definition parse_header_reader :: "(syncframe_header \<times> nat) eac3_parser" where
  "parse_header_reader =
     bind_rd check_syncword (\<lambda>_.
     bind_rd parse_stream_type (\<lambda>type.
     bind_rd (eac3_u8 3) (\<lambda>substream.
     bind_rd (eac3_bits 11) (\<lambda>words_minus_one.
     bind_rd (some_or (checked_usize (unat words_minus_one + 1)) FrameSizeOverflow) (\<lambda>words.
     bind_rd (some_or (checked_usize (words * 2)) FrameSizeOverflow) (\<lambda>size.
     bind_rd (eac3_bits 2) (\<lambda>rate_code.
     bind_rd (some_or (sample_rate_of (unat rate_code)) ReservedSampleRate) (\<lambda>rate.
     bind_rd (eac3_u8 2) (\<lambda>num_blocks_code.
       ret (\<lparr>stream_type = type, substream_id = substream, hdr_bitstream_id = 16, frame_size = size,
             sample_rate = rate, audio_blocks = blocks_from_code num_blocks_code,
             frame_samples = blocks_from_code num_blocks_code * 256\<rparr>, num_blocks_code))))))))))"

text \<open>The probe reads the identifier on its own reader; the header is read from the start again.\<close>

definition parse_syncframe_header :: "u8 list \<Rightarrow> eac3_error + syncframe_header" where
  "parse_syncframe_header bs =
     attempt (fst (bind_rd check_syncword (\<lambda>_.
                   bind_rd (eac3_bits 24) (\<lambda>_. eac3_u8 5)) (new_reader bs))) (\<lambda>bitstream_id.
       if bitstream_id \<le> 8 then fst (parse_ac3_header_reader (new_reader bs))
       else if bitstream_id = 16
       then attempt (fst (parse_header_reader (new_reader bs))) (\<lambda>(header, _).
              Inr (header\<lparr>hdr_bitstream_id := bitstream_id\<rparr>))
       else Inl (UnsupportedBitstreamId bitstream_id))"

section \<open>Bit stream information\<close>

record downmix_metadata =
  dmixmod :: "nat option"
  ltrt_center_mix_level :: "nat option"
  loro_center_mix_level :: "nat option"
  ltrt_surround_mix_level :: "nat option"
  loro_surround_mix_level :: "nat option"
  lfe_mix_level_code :: "nat option"

definition no_downmix :: downmix_metadata where
  "no_downmix = \<lparr>dmixmod = None, ltrt_center_mix_level = None, loro_center_mix_level = None,
     ltrt_surround_mix_level = None, loro_surround_mix_level = None, lfe_mix_level_code = None\<rparr>"

record bitstream_information =
  bsi_header :: syncframe_header
  bitstream_mode :: "nat option"
  audio_coding_mode :: nat
  lfe_on :: bool
  bsi_bitstream_id :: nat
  dialnorm :: nat
  dialnorm_2 :: "nat option"
  compr :: "nat option"
  compr_2 :: "nat option"
  bsi_downmix :: downmix_metadata
  channel_map :: "nat option"
  convsync :: "bool option"
  addbsi :: "u8 list option"

text \<open>The terminal \<open>addbsi\<close> field.\<close>

definition parse_addbsi :: "u8 list option eac3_parser" where
  "parse_addbsi =
     bind_rd eac3_bit (\<lambda>present.
     when_rd present
       (bind_rd (eac3_u8 6) (\<lambda>n.
        repeat_rd (n + 1) (bind_rd (eac3_u8 8) (\<lambda>b. ret (word_of_nat b))))))"

definition map_center :: "nat \<Rightarrow> nat" where
  "map_center code = (if code = 0 then 4 else if code = 1 then 5 else if code = 2 then 6 else 5)"

definition map_surround :: "nat \<Rightarrow> nat" where
  "map_surround code = (if code = 0 then 4 else if code = 1 then 6 else if code = 2 then 7 else 6)"

text \<open>A dialogue normalisation code of the original syntax: zero stands for 31.\<close>

definition ac3_dialnorm :: "nat eac3_parser" where
  "ac3_dialnorm = bind_rd (eac3_u8 5) (\<lambda>v. ret (if v = 0 then 31 else v))"

text \<open>Dialogue normalisation, compression, language code, mixing level and room type.\<close>

definition ac3_programme :: "(nat \<times> nat option) eac3_parser" where
  "ac3_programme =
     bind_rd ac3_dialnorm (\<lambda>d.
     bind_rd (flagged_u8 8) (\<lambda>c.
     bind_rd (skip_optional 8) (\<lambda>_.
     bind_rd (skip_optional 7) (\<lambda>_. ret (d, c)))))"

text \<open>The extended bit stream information of identifier 6, or the two time codes.\<close>

definition ac3_extension :: "nat \<Rightarrow> downmix_metadata option eac3_parser" where
  "ac3_extension bitstream_id =
     (if bitstream_id = 6 then
        bind_rd eac3_bit (\<lambda>xbsi1.
        bind_rd (when_rd xbsi1
          (bind_rd (eac3_u8 2) (\<lambda>mode.
           bind_rd (eac3_u8 3) (\<lambda>ltrt_center.
           bind_rd (eac3_u8 3) (\<lambda>ltrt_surround.
           bind_rd (eac3_u8 3) (\<lambda>loro_center.
           bind_rd (eac3_u8 3) (\<lambda>loro_surround.
             ret \<lparr>dmixmod = Some mode, ltrt_center_mix_level = Some ltrt_center,
                  loro_center_mix_level = Some loro_center, ltrt_surround_mix_level = Some ltrt_surround,
                  loro_surround_mix_level = Some loro_surround, lfe_mix_level_code = None\<rparr>)))))))
          (\<lambda>downmix.
        bind_rd eac3_bit (\<lambda>xbsi2.
        bind_rd (if xbsi2 then
            bind_rd (eac3_u8 2) (\<lambda>_. bind_rd (eac3_u8 2) (\<lambda>_. bind_rd eac3_bit (\<lambda>_.
            bind_rd (eac3_u8 8) (\<lambda>_. bind_rd eac3_bit (\<lambda>_. ret ())))))
          else ret ()) (\<lambda>_. ret downmix))))
      else
        bind_rd (skip_optional 14) (\<lambda>_.
        bind_rd (skip_optional 14) (\<lambda>_. ret None)))"

definition parse_ac3_bsi_reader :: "bitstream_information eac3_parser" where
  "parse_ac3_bsi_reader =
     bind_rd parse_ac3_header_reader (\<lambda>header.
     bind_rd (eac3_u8 3) (\<lambda>mode.
     bind_rd (eac3_u8 3) (\<lambda>acmod.
     bind_rd (when_rd (bit acmod 0 \<and> acmod \<noteq> 1) (eac3_u8 2)) (\<lambda>centre_mix.
     bind_rd (when_rd (bit acmod 2) (eac3_u8 2)) (\<lambda>surround_mix.
     bind_rd (when_rd (acmod = 2) (eac3_u8 2)) (\<lambda>dolby_surround_mode.
     bind_rd eac3_bit (\<lambda>lfe.
     bind_rd ac3_programme (\<lambda>(d, c).
     bind_rd (when_rd (acmod = 0) ac3_programme) (\<lambda>second.
     bind_rd (eac3_skip 1) (\<lambda>_.
     bind_rd (eac3_skip 1) (\<lambda>_.
     bind_rd (ac3_extension (hdr_bitstream_id header)) (\<lambda>extended.
     bind_rd parse_addbsi (\<lambda>add.
     let center = map_option map_center centre_mix; surround = map_option map_surround surround_mix in
       ret \<lparr>bsi_header = header, bitstream_mode = Some mode, audio_coding_mode = acmod, lfe_on = lfe,
            bsi_bitstream_id = hdr_bitstream_id header, dialnorm = d,
            dialnorm_2 = map_option fst second, compr = c, compr_2 = Option.bind second snd,
            bsi_downmix = (case extended of
                Some m \<Rightarrow> m
              | None \<Rightarrow> \<lparr>dmixmod = map_option (\<lambda>m. if m = 2 then 1 else 2) dolby_surround_mode,
                  ltrt_center_mix_level = center, loro_center_mix_level = center,
                  ltrt_surround_mix_level = surround, loro_surround_mix_level = surround,
                  lfe_mix_level_code = None\<rparr>),
            channel_map = None, convsync = None, addbsi = add\<rparr>)))))))))))))"

section \<open>Enhanced syntax\<close>

definition pair_of_levels :: "bool \<Rightarrow> (nat option \<times> nat option) eac3_parser" where
  "pair_of_levels present =
     (if present
      then bind_rd (eac3_u8 3) (\<lambda>a. bind_rd (eac3_u8 3) (\<lambda>b. ret (Some a, Some b)))
      else ret (None, None))"

text \<open>The mixing parameters of an independent substream, which are passed over.\<close>

definition skip_mixing_region :: "unit eac3_parser" where
  "skip_mixing_region =
     bind_rd (eac3_bits 2) (\<lambda>code.
       if code = 0 then ret ()
       else if code = 1 then eac3_skip 5
       else if code = 2 then eac3_skip 12
       else bind_rd (eac3_u8 5) (\<lambda>length_code.
            bind_rd (map_err Eac3Bit (take_bits ((length_code + 2) * 8 - 5))) (\<lambda>_. ret ())))"

definition skip_independent_mixing :: "nat \<Rightarrow> nat \<Rightarrow> unit eac3_parser" where
  "skip_independent_mixing acmod num_blocks_code =
     bind_rd (skip_optional 6) (\<lambda>_.
     bind_rd (if acmod = 0 then skip_optional 6 else ret ()) (\<lambda>_.
     bind_rd (skip_optional 6) (\<lambda>_.
     bind_rd skip_mixing_region (\<lambda>_.
     bind_rd (if acmod < 2
              then bind_rd (skip_optional 14) (\<lambda>_. if acmod = 0 then skip_optional 14 else ret ())
              else ret ()) (\<lambda>_.
     bind_rd eac3_bit (\<lambda>frame_mix.
       if frame_mix
       then (if num_blocks_code = 0 then eac3_skip 5
             else bind_rd (repeat_rd (blocks_from_code num_blocks_code) (skip_optional 5)) (\<lambda>_. ret ()))
       else ret ()))))))"

definition parse_mixing_metadata ::
  "stream_type \<Rightarrow> nat \<Rightarrow> bool \<Rightarrow> nat \<Rightarrow> downmix_metadata eac3_parser" where
  "parse_mixing_metadata type acmod lfe num_blocks_code =
     bind_rd (when_rd (acmod > 2) (eac3_u8 2)) (\<lambda>mode.
     bind_rd (pair_of_levels (bit acmod 0 \<and> acmod > 2)) (\<lambda>(ltrt_center, loro_center).
     bind_rd (pair_of_levels (bit acmod 2)) (\<lambda>(ltrt_surround, loro_surround).
     bind_rd (if lfe then flagged_u8 5 else ret None) (\<lambda>lfe_code.
     let metadata = \<lparr>dmixmod = mode, ltrt_center_mix_level = ltrt_center, loro_center_mix_level = loro_center,
            ltrt_surround_mix_level = ltrt_surround, loro_surround_mix_level = loro_surround,
            lfe_mix_level_code = lfe_code\<rparr> in
     if type \<noteq> Independent then ret metadata
     else bind_rd (skip_independent_mixing acmod num_blocks_code) (\<lambda>_. ret metadata)))))"

definition parse_informational_metadata :: "nat \<Rightarrow> unit eac3_parser" where
  "parse_informational_metadata acmod =
     bind_rd (eac3_skip 5) (\<lambda>_.
     bind_rd (if acmod = 2 then eac3_skip 4 else ret ()) (\<lambda>_.
     bind_rd (if acmod \<ge> 6 then eac3_skip 2 else ret ()) (\<lambda>_.
     bind_rd (skip_optional 8) (\<lambda>_.
     bind_rd (if acmod = 0 then skip_optional 8 else ret ()) (\<lambda>_.
       eac3_skip 1)))))"

definition parse_block_identification :: "syncframe_header \<Rightarrow> nat \<Rightarrow> unit eac3_parser" where
  "parse_block_identification header num_blocks_code =
     (if stream_type header = ConvertedIndependent
      then bind_rd (if num_blocks_code = 3 then ret True else eac3_bit) (\<lambda>block_id.
             if block_id then eac3_skip 6 else ret ())
      else ret ())"

definition parse_bsi_reader :: "(bitstream_information \<times> nat) eac3_parser" where
  "parse_bsi_reader =
     bind_rd parse_header_reader (\<lambda>(header, num_blocks_code).
     bind_rd (eac3_u8 3) (\<lambda>acmod.
     bind_rd eac3_bit (\<lambda>lfe.
     bind_rd (eac3_u8 5) (\<lambda>bitstream_id.
     bind_rd (eac3_u8 5) (\<lambda>d.
     bind_rd (flagged_u8 8) (\<lambda>c.
     bind_rd (when_rd (acmod = 0) (bind_rd (eac3_u8 5) (\<lambda>d. bind_rd (flagged_u8 8) (\<lambda>c. ret (d, c))))) (\<lambda>second.
     bind_rd (if stream_type header = Dependent
              then bind_rd eac3_bit (\<lambda>p. when_rd p (eac3_u16 16)) else ret None) (\<lambda>chanmap.
     bind_rd eac3_bit (\<lambda>mixing.
     bind_rd (if mixing then parse_mixing_metadata (stream_type header) acmod lfe num_blocks_code
              else ret no_downmix) (\<lambda>downmix.
     bind_rd eac3_bit (\<lambda>informational.
     bind_rd (if informational then parse_informational_metadata acmod else ret ()) (\<lambda>_.
     bind_rd (when_rd (stream_type header = Independent \<and> num_blocks_code \<noteq> 3) eac3_bit) (\<lambda>sync.
     bind_rd (parse_block_identification header num_blocks_code) (\<lambda>_.
     bind_rd parse_addbsi (\<lambda>add.
       ret (\<lparr>bsi_header = header, bitstream_mode = None, audio_coding_mode = acmod, lfe_on = lfe,
             bsi_bitstream_id = bitstream_id, dialnorm = d, dialnorm_2 = map_option fst second,
             compr = c, compr_2 = Option.bind second snd, bsi_downmix = downmix, channel_map = chanmap,
             convsync = sync, addbsi = add\<rparr>, num_blocks_code))))))))))))))))"

definition parse_bsi :: "u8 list \<Rightarrow> eac3_error + bitstream_information" where
  "parse_bsi bs =
     attempt (parse_syncframe_header bs) (\<lambda>header.
       if frame_size header > length bs then Inl (TruncatedFrame 0 (frame_size header) (length bs))
       else
         let r = new_reader (take (frame_size header) bs) in
         if stream_type header = LegacyIndependent then fst (parse_ac3_bsi_reader r)
         else attempt (fst (parse_bsi_reader r)) (\<lambda>(bsi, _). Inr bsi))"

end
