(* ===== verification/Eac3Units.thy ===== *)
theory Eac3Units
  imports Eac3Header
begin

text \<open>
  Framing of a stream, \<open>crates/openjoc-eac3/src/lib.rs\<close>: the index of its syncframes, the grouping
  of frames into access units of six blocks, and the streaming search for the end of the first
  unit.  The loops are functions whose measure is what is left of the input; that a header
  declares a nonempty frame is what makes them end.
\<close>

section \<open>Syncframes\<close>

record syncframe_index_entry =
  entry_offset :: nat
  entry_header :: syncframe_header

lemma frame_words_pos: "frame_words f s = Some w \<Longrightarrow> 0 < w"
proof -
  assume w: "frame_words f s = Some w"
  have all: "\<forall>row \<in> set FRAME_SIZE_WORDS. \<forall>v \<in> set row. 0 < v" by (simp add: FRAME_SIZE_WORDS_def)
  have "w \<in> set (FRAME_SIZE_WORDS ! f)" "FRAME_SIZE_WORDS ! f \<in> set FRAME_SIZE_WORDS"
    using w by (auto simp: frame_words_def split: if_splits)
  then show ?thesis using all by blast
qed

lemma yields_header_size:
  "yields parse_ac3_header_reader (\<lambda>h. 0 < frame_size h)"
  "yields parse_header_reader (\<lambda>x. 0 < frame_size (fst x))"
proof -
  have size: "yields (some_or (checked_usize (w * 2)) FrameSizeOverflow) (\<lambda>n. n = w * 2)" for w
    by (rule yields_some_or) (auto simp: checked_usize_def split: if_splits)
  show "yields parse_ac3_header_reader (\<lambda>h. 0 < frame_size h)"
    unfolding parse_ac3_header_reader_def
    by (rule yields_then, rule yields_then, rule yields_then, rule yields_then, rule yields_then, rule yields_then,
        rule yields_bind [OF yields_some_or [where Q = "\<lambda>w. 0 < w"]], erule frame_words_pos,
        rule yields_bind [OF size], rule yields_ret) simp
  show "yields parse_header_reader (\<lambda>x. 0 < frame_size (fst x))"
    unfolding parse_header_reader_def
    by (rule yields_then, rule yields_then, rule yields_then, rule yields_then,
        rule yields_bind [OF yields_some_or [where Q = "\<lambda>w. 0 < w"]], simp add: checked_usize_def split: if_splits,
        rule yields_bind [OF size], rule yields_then, rule yields_then, rule yields_then, rule yields_ret) simp
qed

lemma header_cases:
  assumes "parse_syncframe_header bs = Inr h"
  obtains (ac3) t where "parse_ac3_header_reader (new_reader bs) = (Inr h, t)"
  | (eac3) g n t where "parse_header_reader (new_reader bs) = (Inr (g, n), t)" "h = g\<lparr>hdr_bitstream_id := 16\<rparr>"
proof -
  obtain v where v: "(if v \<le> 8 then fst (parse_ac3_header_reader (new_reader bs))
      else if v = 16 then attempt (fst (parse_header_reader (new_reader bs))) (\<lambda>(header, _).
              Inr (header\<lparr>hdr_bitstream_id := v\<rparr>))
      else Inl (UnsupportedBitstreamId v)) = Inr h"
    using assms unfolding parse_syncframe_header_def attempt_Inr by blast
  show thesis
  proof (cases "v \<le> 8")
    case True
    then have "fst (parse_ac3_header_reader (new_reader bs)) = Inr h" using v by simp
    from fst_run [OF this] show thesis using ac3 by blast
  next
    case False
    then obtain g n where g: "fst (parse_header_reader (new_reader bs)) = Inr (g, n)" and h: "h = g\<lparr>hdr_bitstream_id := 16\<rparr>"
      using v by (auto simp: attempt_Inr split: if_splits)
    show thesis using fst_run [OF g] h eac3 by blast
  qed
qed

lemma frame_size_pos: "parse_syncframe_header bs = Inr h \<Longrightarrow> 0 < frame_size h"
  by (erule header_cases) (auto dest: yieldsD [OF yields_header_size(1)] yieldsD [OF yields_header_size(2)])

function index_from ::
  "u8 list \<Rightarrow> nat \<Rightarrow> syncframe_index_entry list \<Rightarrow> eac3_error + syncframe_index_entry list" where
  "index_from bs offset entries =
     (if offset < length bs then
        (case parse_syncframe_header (drop offset bs) of
           Inl e \<Rightarrow> Inl e
         | Inr header \<Rightarrow>
             (case checked_usize (offset + frame_size header) of
                None \<Rightarrow> Inl FrameSizeOverflow
              | Some end \<Rightarrow>
                  if end > length bs
                  then Inl (TruncatedFrame offset (frame_size header) (length bs - offset))
                  else index_from bs end (entries @ [\<lparr>entry_offset = offset, entry_header = header\<rparr>])))
      else Inr entries)"
  by pat_completeness auto
termination
  by (relation "measure (\<lambda>(bs, offset, entries). length bs - offset)")
    (auto simp: checked_usize_def dest: frame_size_pos split: if_splits)

declare index_from.simps [simp del]

definition index_syncframes :: "u8 list \<Rightarrow> eac3_error + syncframe_index_entry list" where
  "index_syncframes bs = index_from bs 0 []"

definition frame_bytes :: "u8 list \<Rightarrow> syncframe_index_entry \<Rightarrow> eac3_error + u8 list" where
  "frame_bytes stream entry =
     (case checked_usize (entry_offset entry + frame_size (entry_header entry)) of
        None \<Rightarrow> Inl FrameSizeOverflow
      | Some end \<Rightarrow>
          if end \<le> length stream
          then Inr (take (frame_size (entry_header entry)) (drop (entry_offset entry) stream))
          else Inl (TruncatedFrame (entry_offset entry) (frame_size (entry_header entry))
                     (length stream - entry_offset entry)))"

section \<open>Access units\<close>

definition GENERAL_MAX_DEPENDENT_SUBSTREAMS :: nat where
  "GENERAL_MAX_DEPENDENT_SUBSTREAMS = 8"

definition MAX_SYNCFRAME_BYTES :: nat where
  "MAX_SYNCFRAME_BYTES = 4096"

record access_unit_index =
  first_frame :: nat
  frame_count :: nat
  unit_sample_rate :: nat
  unit_samples :: nat

abbreviation header_at :: "syncframe_index_entry list \<Rightarrow> nat \<Rightarrow> syncframe_header" where
  "header_at frames i \<equiv> entry_header (frames ! i)"

text \<open>
  The inner loop of a unit of six-block frames: the expected identifiers of the next independent
  and dependent substream, and whether a dependent one may follow.  It returns the index behind
  the unit.  The counter of the independent substreams is a \<open>u8\<close>.
\<close>

function group_long ::
  "syncframe_index_entry list \<Rightarrow> nat \<Rightarrow> nat \<Rightarrow> nat \<Rightarrow> bool \<Rightarrow> nat \<Rightarrow> eac3_error + nat" where
  "group_long frames first expected_independent expected_dependent dependent_allowed index =
     (if index < length frames then
        let base = header_at frames first; header = header_at frames index in
        if index > first \<and> stream_type header \<noteq> Dependent \<and> substream_id header = 0 then Inr index
        else if sample_rate header \<noteq> sample_rate base \<or> audio_blocks header \<noteq> audio_blocks base
                \<or> frame_samples header \<noteq> frame_samples base
        then Inl (SubstreamTimingMismatch index)
        else if stream_type header = Dependent then
          (if \<not> dependent_allowed then Inl (DependentAfterConvertedSubstream index)
           else if expected_dependent \<ge> GENERAL_MAX_DEPENDENT_SUBSTREAMS
           then Inl (UnsupportedJocAccessUnitFrameCount (index - first + 1))
           else if substream_id header \<noteq> expected_dependent
           then Inl (NonsequentialDependentSubstream expected_dependent (substream_id header))
           else group_long frames first expected_independent (expected_dependent + 1) dependent_allowed (index + 1))
        else
          (if substream_id header \<noteq> expected_independent
           then Inl (NonsequentialIndependentSubstream expected_independent (substream_id header))
           else group_long frames first ((expected_independent + 1) mod 256) 0
                  (stream_type header \<in> {LegacyIndependent, Independent}) (index + 1))
      else Inr index)"
  by pat_completeness auto
termination by (relation "measure (\<lambda>(frames, first, ei, ed, da, index). length frames - index)") auto

declare group_long.simps [simp del]

text \<open>The dependent frames of one programme set of a short unit.\<close>

function group_dependents ::
  "syncframe_index_entry list \<Rightarrow> syncframe_header \<Rightarrow> nat \<Rightarrow> nat \<Rightarrow> eac3_error + nat" where
  "group_dependents frames parent expected_dependent index =
     (if index < length frames \<and> stream_type (header_at frames index) = Dependent then
        let dep = header_at frames index in
        if expected_dependent \<ge> GENERAL_MAX_DEPENDENT_SUBSTREAMS \<or> substream_id dep \<noteq> expected_dependent
        then Inl (NonsequentialDependentSubstream expected_dependent (substream_id dep))
        else if sample_rate dep \<noteq> sample_rate parent \<or> audio_blocks dep \<noteq> audio_blocks parent
        then Inl (SubstreamTimingMismatch index)
        else group_dependents frames parent (expected_dependent + 1) (index + 1)
      else Inr index)"
  by pat_completeness auto
termination by (relation "measure (\<lambda>(frames, h, ed, index). length frames - index)") auto

declare group_dependents.simps [simp del]

lemma group_dependents_index:
  "group_dependents frames h d i = Inr j \<Longrightarrow> i \<le> j \<and> (i \<le> length frames \<longrightarrow> j \<le> length frames)"
proof (induction frames h d i rule: group_dependents.induct)
  case (1 frames h d i)
  then show ?case
    by (subst (asm) (2) group_dependents.simps) (fastforce simp: Let_def split: if_splits)
qed

text \<open>The programme sets of a short unit, until six blocks are complete.\<close>

function group_sets ::
  "syncframe_index_entry list \<Rightarrow> syncframe_header \<Rightarrow> nat \<Rightarrow> nat option \<Rightarrow> nat \<Rightarrow> eac3_error + nat" where
  "group_sets frames base total_blocks expected_dependents index =
     (if index < length frames then
        let parent = header_at frames index; next_total = total_blocks + audio_blocks parent in
        if stream_type parent \<noteq> Independent \<or> substream_id parent \<noteq> 0
        then Inl (MissingIndependentSubstreamZero index)
        else if sample_rate parent \<noteq> sample_rate base then Inl (SubstreamTimingMismatch index)
        else if next_total > 255 then Inl FrameSizeOverflow
        else if next_total > 6 then Inl (SubstreamTimingMismatch index)
        else
          (case group_dependents frames parent 0 (index + 1) of
             Inl e \<Rightarrow> Inl e
           | Inr after \<Rightarrow>
               let dependent_count = after - (index + 1) in
               if expected_dependents \<noteq> None \<and> expected_dependents \<noteq> Some dependent_count
               then Inl (SubstreamTimingMismatch after)
               else if next_total = 6 then Inr after
               else if after \<ge> length frames then Inl InvalidAccessUnitRange
               else if stream_type (header_at frames after) \<noteq> Independent \<or> substream_id (header_at frames after) \<noteq> 0
               then Inl (MissingIndependentSubstreamZero after)
               else group_sets frames base next_total (Some dependent_count) after)
      else Inl InvalidAccessUnitRange)"
  by pat_completeness auto
termination
  by (relation "measure (\<lambda>(frames, base, t, ed, index). length frames - index)")
    (auto dest: group_dependents_index)

declare group_sets.simps [simp del]

definition group_short_access_unit :: "syncframe_index_entry list \<Rightarrow> nat \<Rightarrow> eac3_error + nat" where
  "group_short_access_unit frames first = group_sets frames (header_at frames first) 0 None first"

lemma group_long_index:
  "group_long frames first ei ed da i = Inr j \<Longrightarrow> first \<le> i \<Longrightarrow> i \<le> length frames \<Longrightarrow>
   i \<le> j \<and> j \<le> length frames \<and> (i = first \<and> i < length frames \<longrightarrow> i < j)"
proof (induction frames first ei ed da i rule: group_long.induct)
  case (1 frames first ei ed da i)
  from 1(3) show ?case
    by (subst (asm) group_long.simps)
      (use 1 in \<open>fastforce simp: Let_def split: if_splits\<close>)
qed

lemma group_sets_index:
  "group_sets frames base t ed i = Inr j \<Longrightarrow> i < j \<and> j \<le> length frames"
proof (induction frames base t ed i rule: group_sets.induct)
  case (1 frames base t ed i)
  from 1(2) show ?case
    by (subst (asm) group_sets.simps)
      (use 1(1) in \<open>fastforce simp: Let_def dest: group_dependents_index split: if_splits sum.splits\<close>)
qed

function group_from ::
  "syncframe_index_entry list \<Rightarrow> access_unit_index list \<Rightarrow> nat \<Rightarrow> eac3_error + access_unit_index list" where
  "group_from frames units first =
     (if first < length frames then
        let base = header_at frames first in
        if stream_type base = Dependent \<or> substream_id base \<noteq> 0 then Inl (MissingIndependentSubstreamZero first)
        else if audio_blocks base < 6 then
          (case group_short_access_unit frames first of
             Inl e \<Rightarrow> Inl e
           | Inr end \<Rightarrow>
               group_from frames
                 (units @ [\<lparr>first_frame = first, frame_count = end - first,
                            unit_sample_rate = sample_rate base, unit_samples = 1536\<rparr>]) end)
        else
          (case group_long frames first 0 0 False first of
             Inl e \<Rightarrow> Inl e
           | Inr index \<Rightarrow>
               group_from frames
                 (units @ [\<lparr>first_frame = first, frame_count = index - first,
                            unit_sample_rate = sample_rate base, unit_samples = frame_samples base\<rparr>]) index)
      else Inr units)"
  by pat_completeness auto
termination
  by (relation "measure (\<lambda>(frames, units, first). length frames - first)")
    (auto simp: group_short_access_unit_def dest: group_sets_index group_long_index)

declare group_from.simps [simp del]

definition group_access_units :: "syncframe_index_entry list \<Rightarrow> eac3_error + access_unit_index list" where
  "group_access_units frames = group_from frames [] 0"

section \<open>The end of the first unit\<close>

datatype access_unit_parse = NeedMore | Complete nat

text \<open>What a missing byte means at the end of the stream and before it.\<close>

definition starved :: "bool \<Rightarrow> eac3_error + access_unit_parse" where
  "starved eos = (if eos then Inl InvalidAccessUnitRange else Inr NeedMore)"

definition is_independent_zero :: "syncframe_header \<Rightarrow> bool" where
  "is_independent_zero h \<longleftrightarrow> stream_type h \<in> {LegacyIndependent, Independent} \<and> substream_id h = 0"

text \<open>
  The loop over the dependents of a six-block frame; the first component of its measure is the
  distance to the end.  The additions of the code cannot overflow for a slice in memory; they are
  checked here too.
\<close>

function long_bounds ::
  "u8 list \<Rightarrow> bool \<Rightarrow> syncframe_header \<Rightarrow> nat \<Rightarrow> nat \<Rightarrow> eac3_error + access_unit_parse" where
  "long_bounds bs eos first expected_dependent consumed =
     (if length bs = consumed then (if eos then Inr (Complete consumed) else Inr NeedMore)
      else if consumed + 8 > usize_max then Inl InvalidAccessUnitRange
      else if length bs < consumed + 8 then starved eos
      else
        (case parse_syncframe_header (drop consumed bs) of
           Inl e \<Rightarrow> Inl e
         | Inr next \<Rightarrow>
             if is_independent_zero next then Inr (Complete consumed)
             else if stream_type next \<noteq> Dependent
             then Inl (UnsupportedJocAccessUnitFrameCount (expected_dependent + 2))
             else if expected_dependent \<ge> GENERAL_MAX_DEPENDENT_SUBSTREAMS
                     \<or> substream_id next \<noteq> expected_dependent
             then Inl (NonsequentialDependentSubstream expected_dependent (substream_id next))
             else if frame_size next > MAX_SYNCFRAME_BYTES \<or> sample_rate next \<noteq> sample_rate first
                     \<or> audio_blocks next \<noteq> audio_blocks first \<or> frame_samples next \<noteq> frame_samples first
             then Inl (SubstreamTimingMismatch (expected_dependent + 1))
             else if consumed + frame_size next > usize_max then Inl InvalidAccessUnitRange
             else if length bs < consumed + frame_size next then starved eos
             else long_bounds bs eos first (expected_dependent + 1) (consumed + frame_size next)))"
  by pat_completeness auto
termination
  by (relation "measure (\<lambda>(bs, eos, first, ed, consumed). length bs - consumed)") (auto dest: frame_size_pos)

declare long_bounds.simps [simp del]

text \<open>The loop over the programme sets of short frames.\<close>

function short_bounds ::
  "u8 list \<Rightarrow> bool \<Rightarrow> syncframe_header \<Rightarrow> syncframe_header \<Rightarrow> nat \<Rightarrow> nat \<Rightarrow> nat \<Rightarrow>
   eac3_error + access_unit_parse" where
  "short_bounds bs eos first current total_blocks expected_dependent consumed =
     (if length bs = consumed then
        (if eos \<and> total_blocks = 6 then Inr (Complete consumed) else starved eos)
      else if consumed + 8 > usize_max then Inl InvalidAccessUnitRange
      else if length bs < consumed + 8 then starved eos
      else
        (case parse_syncframe_header (drop consumed bs) of
           Inl e \<Rightarrow> Inl e
         | Inr next \<Rightarrow>
             let next_end = consumed + frame_size next in
             if frame_size next > MAX_SYNCFRAME_BYTES \<or> sample_rate next \<noteq> sample_rate first
             then Inl (SubstreamTimingMismatch consumed)
             else if next_end > usize_max then Inl InvalidAccessUnitRange
             else if length bs < next_end then starved eos
             else if stream_type next = Dependent then
               (if expected_dependent \<ge> GENERAL_MAX_DEPENDENT_SUBSTREAMS \<or> substream_id next \<noteq> expected_dependent
                then Inl (NonsequentialDependentSubstream expected_dependent (substream_id next))
                else if audio_blocks next \<noteq> audio_blocks current \<or> frame_samples next \<noteq> frame_samples current
                then Inl (SubstreamTimingMismatch consumed)
                else short_bounds bs eos first current total_blocks (expected_dependent + 1) next_end)
             else if stream_type next \<noteq> Independent \<or> substream_id next \<noteq> 0
             then Inl (MissingIndependentSubstreamZero consumed)
             else if total_blocks = 6 then Inr (Complete consumed)
             else if total_blocks + audio_blocks next > 255 then Inl FrameSizeOverflow
             else if total_blocks + audio_blocks next > 6 then Inl (SubstreamTimingMismatch consumed)
             else
               (case parse_bsi (take (frame_size next) (drop consumed bs)) of
                  Inl e \<Rightarrow> Inl e
                | Inr bsi \<Rightarrow>
                    if convsync bsi \<noteq> Some False then Inl InvalidAccessUnitRange
                    else short_bounds bs eos first next (total_blocks + audio_blocks next) 0 next_end)))"
  by pat_completeness auto
termination
  by (relation "measure (\<lambda>(bs, eos, first, current, t, ed, consumed). length bs - consumed)")
    (auto dest: frame_size_pos)

declare short_bounds.simps [simp del]

definition parse_short_access_unit_bounds ::
  "u8 list \<Rightarrow> bool \<Rightarrow> syncframe_header \<Rightarrow> eac3_error + access_unit_parse" where
  "parse_short_access_unit_bounds bs eos first =
     attempt (parse_bsi (take (frame_size first) bs)) (\<lambda>bsi.
       if convsync bsi \<noteq> Some True then Inl InvalidAccessUnitRange
       else short_bounds bs eos first first (audio_blocks first) 0 (frame_size first))"

definition parse_access_unit_bounds :: "u8 list \<Rightarrow> bool \<Rightarrow> eac3_error + access_unit_parse" where
  "parse_access_unit_bounds bs eos =
     (if length bs < 8 then starved eos
      else
        (case parse_syncframe_header bs of
           Inl e \<Rightarrow> Inl e
         | Inr first \<Rightarrow>
             if \<not> is_independent_zero first then Inl (MissingIndependentSubstreamZero 0)
             else if frame_size first > MAX_SYNCFRAME_BYTES \<or> sample_rate first \<noteq> 48000
             then Inl (UnsupportedJocAccessUnitFrameCount 1)
             else if length bs < frame_size first then starved eos
             else if audio_blocks first < 6 then parse_short_access_unit_bounds bs eos first
             else long_bounds bs eos first 0 (frame_size first)))"

text \<open>The \<open>convsync\<close> markers of a short unit: set on its first independent frame only.\<close>

fun check_convsync :: "u8 list \<Rightarrow> bool \<Rightarrow> syncframe_index_entry list \<Rightarrow> eac3_error + bool" where
  "check_convsync stream first_independent [] = Inr first_independent"
| "check_convsync stream first_independent (entry # entries) =
     (if stream_type (entry_header entry) \<noteq> Independent \<or> substream_id (entry_header entry) \<noteq> 0
      then check_convsync stream first_independent entries
      else
        attempt (frame_bytes stream entry) (\<lambda>bs.
        attempt (parse_bsi bs) (\<lambda>bsi.
          if convsync bsi \<noteq> Some first_independent then Inl InvalidAccessUnitRange
          else check_convsync stream False entries)))"

text \<open>\<open>frames.get(first..end)\<close>.\<close>

definition unit_frames ::
  "syncframe_index_entry list \<Rightarrow> access_unit_index \<Rightarrow> eac3_error + syncframe_index_entry list" where
  "unit_frames frames u =
     (case checked_usize (first_frame u + frame_count u) of
        None \<Rightarrow> Inl InvalidAccessUnitRange
      | Some end \<Rightarrow>
          if end \<le> length frames then Inr (take (frame_count u) (drop (first_frame u) frames))
          else Inl InvalidAccessUnitRange)"

definition validate_short_access_unit_convsync ::
  "u8 list \<Rightarrow> syncframe_index_entry list \<Rightarrow> access_unit_index \<Rightarrow> eac3_error + unit" where
  "validate_short_access_unit_convsync stream frames u =
     attempt (unit_frames frames u) (\<lambda>entries.
       if entries = [] \<or> audio_blocks (entry_header (hd entries)) = 6 then Inr ()
       else attempt (check_convsync stream True entries) (\<lambda>first_independent.
              if first_independent then Inl InvalidAccessUnitRange else Inr ()))"

end
