(* ===== verification/Eac3Carrier.thy ===== *)
theory Eac3Carrier
  imports Eac3Units
begin

text \<open>
  Metadata carriers at the end of a syncframe, \<open>crates/openjoc-eac3/src/lib.rs\<close>: auxiliary data, the
  \<open>addbsi\<close> extension, and what a candidate is classified as.
\<close>

section \<open>Auxiliary data\<close>

record auxiliary_data =
  aux_bit_len :: nat
  aux_bytes :: "u8 list"

definition eac3_bit_at :: "u8 list \<Rightarrow> nat \<Rightarrow> bool" where
  "eac3_bit_at bs position = bit (bs ! (position div 8)) (7 - position mod 8)"

definition bits_at :: "u8 list \<Rightarrow> nat \<Rightarrow> nat \<Rightarrow> u64" where
  "bits_at bs position width =
     fold (\<lambda>index v. push_bit 1 v OR (if eac3_bit_at bs (position + index) then 1 else 0)) [0..<width] 0"

text \<open>\<open>bytes[index / 8] |= 1 << (7 - index % 8)\<close> for the set bits of a list, from zero bytes.\<close>

definition pack_aux :: "bool list \<Rightarrow> u8 list" where
  "pack_aux bits =
     fold (\<lambda>index bs. if bits ! index then bs[index div 8 := bs ! (index div 8) OR push_bit (7 - index mod 8) 1] else bs)
       [0..<length bits] (replicate ((length bits + 7) div 8) 0)"

definition extract_auxdata :: "u8 list \<Rightarrow> eac3_error + auxiliary_data option" where
  "extract_auxdata bs =
     attempt (parse_syncframe_header bs) (\<lambda>header.
       if frame_size header > length bs then Inl (TruncatedFrame 0 (frame_size header) (length bs))
       else
         let frame = take (frame_size header) bs; frame_bits = frame_size header * 8 in
         if frame_bits > usize_max \<or> frame_bits < 18 then Inl FrameSizeOverflow
         else if \<not> eac3_bit_at frame (frame_bits - 18) then Inr None
         else if frame_bits - 18 < 14 then Inl FrameSizeOverflow
         else
           let length_position = frame_bits - 18 - 14;
               declared = unat (bits_at frame length_position 14) in
           if declared > length_position then Inl (AuxDataLengthOutOfRange declared length_position)
           else Inr (Some \<lparr>aux_bit_len = declared,
                  aux_bytes = pack_aux (map (eac3_bit_at frame) [length_position - declared..<length_position])\<rparr>))"

definition extract_aux_emdf :: "u8 list \<Rightarrow> eac3_error + parsed_emdf option" where
  "extract_aux_emdf frame =
     attempt (extract_auxdata frame) (\<lambda>aux.
       (case aux of
          None \<Rightarrow> Inr None
        | Some auxdata \<Rightarrow>
            if aux_bit_len auxdata mod 8 \<noteq> 0 then Inl (AuxDataNotByteAligned (aux_bit_len auxdata))
            else attempt (lift_err Eac3Emdf (parse_emdf_sync (aux_bytes auxdata))) (\<lambda>cand.
              if bytes_consumed cand \<noteq> length (aux_bytes auxdata)
              then Inl (EmdfCarrierTrailingData (bytes_consumed cand) (length (aux_bytes auxdata)))
              else Inr (Some cand))))"

definition classify_aux_emdf :: "u8 list \<Rightarrow> eac3_error + carrier_classification option" where
  "classify_aux_emdf frame =
     attempt (extract_auxdata frame) (\<lambda>aux.
       (case aux of
          None \<Rightarrow> Inr None
        | Some auxdata \<Rightarrow>
            if aux_bit_len auxdata mod 8 \<noteq> 0 then Inl (AuxDataNotByteAligned (aux_bit_len auxdata))
            else Inr (Some (classify_emdf_carrier (aux_bytes auxdata)))))"

definition classify_skip_field_emdf :: "auxiliary_data \<Rightarrow> carrier_classification" where
  "classify_skip_field_emdf auxdata = classify_emdf_carrier (aux_bytes auxdata)"

section \<open>The \<open>addbsi\<close> extension\<close>

record joc_addbsi =
  addbsi_complexity :: nat

definition parse_joc_addbsi :: "u8 list \<Rightarrow> eac3_error + joc_addbsi" where
  "parse_joc_addbsi bs =
     (if length bs \<noteq> 2 then Inl (InvalidAddbsiLength (length bs))
      else if drop_bit 1 (bs ! 0) \<noteq> 0 then Inl NonzeroReservedData
      else if \<not> bit (bs ! 0) 0 then Inl MissingJocExtensionFlag
      else if unat (bs ! 1) > 16 then Inl (ComplexityIndexOutOfRange (unat (bs ! 1)))
      else Inr \<lparr>addbsi_complexity = unat (bs ! 1)\<rparr>)"

definition validate_complexity_index :: "nat \<Rightarrow> nat \<Rightarrow> eac3_error + unit" where
  "validate_complexity_index complexity objects =
     (if complexity \<noteq> objects then Inl (ComplexityIndexMismatch complexity objects) else Inr ())"

text \<open>The last frame of the unit with an \<open>addbsi\<close> field.\<close>

fun last_addbsi :: "u8 list \<Rightarrow> syncframe_index_entry list \<Rightarrow> eac3_error + joc_addbsi option" where
  "last_addbsi stream [] = Inr None"
| "last_addbsi stream (entry # entries) =
     attempt (frame_bytes stream entry) (\<lambda>frame.
     attempt (parse_bsi frame) (\<lambda>bsi.
       (case addbsi bsi of
          None \<Rightarrow> last_addbsi stream entries
        | Some a \<Rightarrow> attempt (parse_joc_addbsi a) (\<lambda>x. Inr (Some x)))))"

definition extract_joc_addbsi_access_unit ::
  "u8 list \<Rightarrow> syncframe_index_entry list \<Rightarrow> access_unit_index \<Rightarrow> eac3_error + joc_addbsi option" where
  "extract_joc_addbsi_access_unit stream frames u =
     attempt (unit_frames frames u) (\<lambda>entries. last_addbsi stream (rev entries))"

end
