(* ===== verification/Eac3Frame.thy ===== *)
theory Eac3Frame
  imports Eac3Carrier
begin

text \<open>
  The frame-wide audio syntax of \<open>crates/openjoc-eac3/src/lib.rs\<close>: strategies, the derived widths of
  clause 6.1.3, the grouped differential exponents, and \<open>parse_audio_frame\<close>, which reads what the
  audio blocks of a frame share; and the two checksums of the original syntax
  (\<open>crates/openjoc-eac3/src/ac3.rs\<close>).
\<close>

section \<open>Exponents\<close>

definition FRAME_EXPONENT_STRATEGIES :: "nat list list" where
  "FRAME_EXPONENT_STRATEGIES =
     [[1, 0, 0, 0, 0, 0], [1, 0, 0, 0, 0, 3], [1, 0, 0, 0, 2, 0], [1, 0, 0, 0, 3, 3],
      [2, 0, 0, 2, 0, 0], [2, 0, 0, 2, 0, 3], [2, 0, 0, 3, 2, 0], [2, 0, 0, 3, 3, 3],
      [2, 0, 1, 0, 0, 0], [2, 0, 2, 0, 0, 3], [2, 0, 2, 0, 2, 0], [2, 0, 2, 0, 3, 3],
      [2, 0, 3, 2, 0, 0], [2, 0, 3, 2, 0, 3], [2, 0, 3, 3, 2, 0], [2, 0, 3, 3, 3, 3],
      [3, 1, 0, 0, 0, 0], [3, 1, 0, 0, 0, 3], [3, 2, 0, 0, 2, 0], [3, 2, 0, 0, 3, 3],
      [3, 2, 0, 2, 0, 0], [3, 2, 0, 2, 0, 3], [3, 2, 0, 3, 2, 0], [3, 2, 0, 3, 3, 3],
      [3, 3, 1, 0, 0, 0], [3, 3, 2, 0, 0, 3], [3, 3, 2, 0, 2, 0], [3, 3, 2, 0, 3, 3],
      [3, 3, 3, 2, 0, 0], [3, 3, 3, 2, 0, 3], [3, 3, 3, 3, 2, 0], [3, 3, 3, 3, 3, 3]]"

definition decode_frame_exponent_strategy :: "nat \<Rightarrow> eac3_error + nat list" where
  "decode_frame_exponent_strategy code =
     (if code < length FRAME_EXPONENT_STRATEGIES then Inr (FRAME_EXPONENT_STRATEGIES ! code)
      else Inl (InvalidFrameExponentStrategy code))"

text \<open>\<open>usize::BITS - (words - 1).leading_zeros()\<close>: the number of bits of \<open>words - 1\<close>.\<close>

fun bit_width :: "nat \<Rightarrow> nat" where
  "bit_width n = (if n = 0 then 0 else Suc (bit_width (n div 2)))"

declare bit_width.simps [simp del]

definition block_start_information_length :: "nat \<Rightarrow> nat \<Rightarrow> eac3_error + nat" where
  "block_start_information_length size_bytes blocks =
     (if size_bytes = 0 \<or> size_bytes mod 2 \<noteq> 0 \<or> blocks \<notin> {1, 2, 3, 6}
      then Inl (InvalidBlockStartDimensions size_bytes blocks)
      else
        (case checked_usize (4 + bit_width (size_bytes div 2 - 1)) of
           None \<Rightarrow> Inl FrameSizeOverflow
         | Some width \<Rightarrow>
             (case checked_usize ((blocks - 1) * width) of
                None \<Rightarrow> Inl FrameSizeOverflow
              | Some n \<Rightarrow> Inr n)))"

definition channel_end_mantissa :: "nat \<Rightarrow> eac3_error + nat" where
  "channel_end_mantissa code =
     (if code > 60 then Inl (InvalidChannelBandwidthCode code) else Inr ((code + 12) * 3 + 37))"

definition channel_exponent_group_count :: "nat \<Rightarrow> nat \<Rightarrow> eac3_error + nat" where
  "channel_exponent_group_count end_mantissa strategy =
     (if strategy = 1 then Inr ((end_mantissa - 1) div 3)
      else if strategy = 2 then Inr (min (end_mantissa + 2) usize_max div 6)
      else if strategy = 3 then Inr (min (end_mantissa + 8) usize_max div 12)
      else Inl (InvalidExponentStrategy strategy))"

text \<open>One of the three differentials of a group: the running exponent and the bins written so far.\<close>

fun decode_digits :: "nat \<Rightarrow> nat \<Rightarrow> nat list \<Rightarrow> int \<Rightarrow> nat list \<Rightarrow> eac3_error + int \<times> nat list" where
  "decode_digits repeats end_mantissa [] exponent decoded = Inr (exponent, decoded)"
| "decode_digits repeats end_mantissa (d # ds) exponent decoded =
     (let exponent = exponent + (int d - 2) in
      if \<not> (0 \<le> exponent \<and> exponent \<le> 24) then Inl (ExponentOutOfRange exponent)
      else decode_digits repeats end_mantissa ds exponent
             (decoded @ replicate (min repeats (end_mantissa - length decoded)) (nat exponent)))"

fun decode_groups :: "nat \<Rightarrow> nat \<Rightarrow> nat list \<Rightarrow> int \<Rightarrow> nat list \<Rightarrow> eac3_error + nat list" where
  "decode_groups repeats end_mantissa [] exponent decoded = Inr decoded"
| "decode_groups repeats end_mantissa (grp # groups) exponent decoded =
     (if grp > 124 then Inl (InvalidGroupedExponent grp)
      else attempt (decode_digits repeats end_mantissa [grp div 25, grp mod 25 div 5, grp mod 5] exponent decoded)
             (\<lambda>(exponent, decoded). decode_groups repeats end_mantissa groups exponent decoded))"

definition decode_exponents :: "nat \<Rightarrow> nat list \<Rightarrow> nat \<Rightarrow> nat \<Rightarrow> eac3_error + nat list" where
  "decode_exponents initial groups strategy end_mantissa =
     (if end_mantissa = 0 \<or> end_mantissa > 253 then Inl (InvalidExponentDimensions end_mantissa)
      else
        attempt (channel_exponent_group_count end_mantissa strategy) (\<lambda>expected.
          if length groups \<noteq> expected then Inl (ExponentGroupCountMismatch expected (length groups))
          else if initial > 24 then Inl (ExponentOutOfRange (int initial))
          else decode_groups (push_bit (strategy - 1) 1) end_mantissa groups (int initial) [initial]))"

definition spx_subband_range :: "nat \<Rightarrow> nat \<Rightarrow> eac3_error + nat \<times> nat" where
  "spx_subband_range begin_code end_code =
     (if begin_code > 7 \<or> end_code > 7 then Inl (InvalidSpectralExtensionCode begin_code end_code)
      else
        let first = (if begin_code < 6 then begin_code + 2 else begin_code * 2 - 3);
            last = (if end_code < 3 then end_code + 5 else end_code * 2 + 3) in
        if first \<ge> last then Inl (InvalidSpectralExtensionRange first last) else Inr (first, last))"

definition full_bandwidth_channels :: "nat \<Rightarrow> nat" where
  "full_bandwidth_channels acmod = [2, 1, 2, 3, 3, 4, 4, 5] ! acmod"

section \<open>The frame state\<close>

record audio_frame_information =
  af_bsi :: bitstream_information
  af_full_bandwidth_channels :: nat
  snr_offset_strategy :: nat
  frame_coarse_snr_code :: "nat option"
  frame_fine_snr_code :: "nat option"
  af_syntax :: nat
  coupling_in_use :: "bool list"
  coupling_strategy_exists :: "bool list"
  coupling_exponent_strategy :: "nat list"
  channel_exponent_strategy :: "nat list list"
  lfe_exponent_strategy :: "bool list"
  coupling_aht_in_use :: bool
  channel_aht_in_use :: "bool list"
  lfe_aht_in_use :: bool
  spx_attenuation_codes :: "nat option list"
  block_start_information :: "auxiliary_data option"
  audio_blocks_offset_bits :: nat

text \<open>The seven enable flags; flag \<open>i\<close> is bit \<open>i\<close>.\<close>

definition syntax_flags :: "nat eac3_parser" where
  "syntax_flags = bind_rd (repeat_rd 7 eac3_bit) (\<lambda>flags. ret (horner_sum of_bool 2 flags))"

definition syntax_spx_attenuation :: "nat \<Rightarrow> bool" where
  "syntax_spx_attenuation flags \<longleftrightarrow> bit flags 6"

text \<open>\<open>read_raw_bits\<close>.\<close>

definition read_raw_bits :: "nat \<Rightarrow> auxiliary_data eac3_parser" where
  "read_raw_bits n =
     (if n + 7 > usize_max then fail FrameSizeOverflow
      else bind_rd (repeat_rd n eac3_bit) (\<lambda>bits. ret \<lparr>aux_bit_len = n, aux_bytes = pack_aux bits\<rparr>))"

text \<open>Coupling of the blocks behind the first: a flag, and a value or the one of the block before.\<close>

fun later_couplings :: "nat \<Rightarrow> bool \<Rightarrow> (bool \<times> bool) list eac3_parser" where
  "later_couplings 0 previous = ret []"
| "later_couplings (Suc n) previous =
     bind_rd eac3_bit (\<lambda>present.
     bind_rd (if present then eac3_bit else ret previous) (\<lambda>in_use.
     bind_rd (later_couplings n in_use) (\<lambda>rest. ret ((present, in_use) # rest))))"

definition read_couplings :: "nat \<Rightarrow> nat \<Rightarrow> (bool \<times> bool) list eac3_parser" where
  "read_couplings acmod blocks =
     (if acmod > 1 then
        bind_rd eac3_bit (\<lambda>in_use.
        bind_rd (later_couplings (blocks - 1) in_use) (\<lambda>rest. ret ((True, in_use) # rest)))
      else ret (replicate blocks (False, False)))"

definition read_block_strategies :: "nat \<Rightarrow> bool list \<Rightarrow> (nat list \<times> nat list list) eac3_parser" where
  "read_block_strategies channels in_use =
     bind_rd (each_rd (\<lambda>used.
       bind_rd (if used then eac3_u8 2 else ret 0) (\<lambda>c.
       bind_rd (repeat_rd channels (eac3_u8 2)) (\<lambda>cs. ret (c, cs)))) in_use) (\<lambda>rows.
       ret (map fst rows, map snd rows))"

definition read_frame_strategy :: "nat list eac3_parser" where
  "read_frame_strategy = bind_rd (eac3_u8 5) (\<lambda>code. lift_rd (decode_frame_exponent_strategy code))"

definition read_frame_strategies ::
  "nat \<Rightarrow> nat \<Rightarrow> bool list \<Rightarrow> (nat list \<times> nat list list) eac3_parser" where
  "read_frame_strategies acmod channels in_use =
     bind_rd (if acmod > 1 \<and> True \<in> set in_use then read_frame_strategy else ret (replicate (length in_use) 0)) (\<lambda>c.
     bind_rd (repeat_rd channels read_frame_strategy) (\<lambda>rows.
       ret (c, map (\<lambda>block. map (\<lambda>row. row ! block) rows) [0..<length in_use])))"

definition skip_converter_exponents :: "syncframe_header \<Rightarrow> nat \<Rightarrow> nat \<Rightarrow> unit eac3_parser" where
  "skip_converter_exponents header num_blocks_code channels =
     (if stream_type header = Independent then
        bind_rd (if num_blocks_code = 3 then ret True else eac3_bit) (\<lambda>present.
          if present then bind_rd (repeat_rd channels (eac3_skip 5)) (\<lambda>_. ret ()) else ret ())
      else ret ())"

text \<open>The transform flags: one bit for each element whose exponents are sent exactly once.\<close>

definition read_aht ::
  "bool \<Rightarrow> (bool \<times> bool) list \<Rightarrow> nat list \<Rightarrow> nat list list \<Rightarrow> nat \<Rightarrow> bool \<Rightarrow> bool list \<Rightarrow>
   (bool \<times> bool list \<times> bool) eac3_parser" where
  "read_aht aht_exists couplings coupling_strategy channel_strategy channels lfe lfe_strategy =
     (if \<not> aht_exists then ret (False, replicate channels False, False)
      else
        let regions = length (filter (\<lambda>(present, strategy). present \<or> strategy \<noteq> 0)
              (zip (map fst couplings) coupling_strategy)) in
        bind_rd (if (\<forall>c \<in> set couplings. snd c) \<and> regions = 1 then eac3_bit else ret False) (\<lambda>coupling_aht.
        bind_rd (each_rd (\<lambda>channel.
            if length (filter (\<lambda>row. row ! channel \<noteq> 0) channel_strategy) = 1 then eac3_bit else ret False)
          [0..<channels]) (\<lambda>channel_aht.
        bind_rd (if lfe \<and> length (filter (\<lambda>v. v) lfe_strategy) = 1 then eac3_bit else ret False) (\<lambda>lfe_aht.
          ret (coupling_aht, channel_aht, lfe_aht)))))"

definition skip_transients :: "bool \<Rightarrow> nat \<Rightarrow> unit eac3_parser" where
  "skip_transients present channels =
     (if present then bind_rd (repeat_rd channels (skip_optional 18)) (\<lambda>_. ret ()) else ret ())"

definition read_spx_attenuation :: "bool \<Rightarrow> nat \<Rightarrow> nat option list eac3_parser" where
  "read_spx_attenuation present channels =
     (if present then repeat_rd channels (flagged_u8 5) else ret (replicate channels None))"

definition read_block_start :: "nat \<Rightarrow> syncframe_header \<Rightarrow> auxiliary_data option eac3_parser" where
  "read_block_start num_blocks_code header =
     bind_rd (if num_blocks_code \<noteq> 0 then eac3_bit else ret False) (\<lambda>present.
     when_rd present
       (bind_rd (lift_rd (block_start_information_length (frame_size header) (audio_blocks header))) read_raw_bits))"

text \<open>\<open>frame_bits.checked_sub(bits.bits_remaining())\<close>.\<close>

definition read_offset :: "nat \<Rightarrow> nat eac3_parser" where
  "read_offset frame_bits r =
     (if bits_remaining r \<le> frame_bits then (Inr (frame_bits - bits_remaining r), r) else (Inl FrameSizeOverflow, r))"

definition parse_ac3_audio_frame :: "nat \<Rightarrow> audio_frame_information eac3_parser" where
  "parse_ac3_audio_frame frame_bits =
     bind_rd parse_ac3_bsi_reader (\<lambda>bsi.
     let channels = full_bandwidth_channels (audio_coding_mode bsi); blocks = audio_blocks (bsi_header bsi) in
     bind_rd (read_offset frame_bits) (\<lambda>offset.
       ret \<lparr>af_bsi = bsi, af_full_bandwidth_channels = channels, snr_offset_strategy = 2,
            frame_coarse_snr_code = None, frame_fine_snr_code = None, af_syntax = 0x37,
            coupling_in_use = replicate blocks False, coupling_strategy_exists = replicate blocks False,
            coupling_exponent_strategy = replicate blocks 0,
            channel_exponent_strategy = replicate blocks (replicate channels 0),
            lfe_exponent_strategy = replicate blocks False, coupling_aht_in_use = False,
            channel_aht_in_use = replicate channels False, lfe_aht_in_use = False,
            spx_attenuation_codes = replicate channels None, block_start_information = None,
            audio_blocks_offset_bits = offset\<rparr>))"

definition parse_eac3_audio_frame :: "nat \<Rightarrow> audio_frame_information eac3_parser" where
  "parse_eac3_audio_frame frame_bits =
     bind_rd parse_bsi_reader (\<lambda>(bsi, num_blocks_code).
     bind_rd (if num_blocks_code = 3
              then bind_rd eac3_bit (\<lambda>a. bind_rd eac3_bit (\<lambda>b. ret (a, b))) else ret (True, False))
       (\<lambda>(exponent_strategy_exists, aht_exists).
     bind_rd (eac3_u8 2) (\<lambda>snr.
     bind_rd (guard_rd (snr \<noteq> 3) ReservedSnrOffsetStrategy) (\<lambda>_.
     bind_rd eac3_bit (\<lambda>transient.
     bind_rd syntax_flags (\<lambda>flags.
     let acmod = audio_coding_mode bsi; channels = full_bandwidth_channels acmod;
         header = bsi_header bsi; blocks = audio_blocks header in
     bind_rd (read_couplings acmod blocks) (\<lambda>couplings.
     bind_rd (if exponent_strategy_exists then read_block_strategies channels (map snd couplings)
              else read_frame_strategies acmod channels (map snd couplings)) (\<lambda>(coupling_strategy, channel_strategy).
     bind_rd (if lfe_on bsi then repeat_rd blocks eac3_bit else ret (replicate blocks False)) (\<lambda>lfe_strategy.
     bind_rd (skip_converter_exponents header num_blocks_code channels) (\<lambda>_.
     bind_rd (read_aht aht_exists couplings coupling_strategy channel_strategy channels (lfe_on bsi) lfe_strategy)
       (\<lambda>(coupling_aht, channel_aht, lfe_aht).
     bind_rd (when_rd (snr = 0) (bind_rd (eac3_u8 6) (\<lambda>c. bind_rd (eac3_u8 4) (\<lambda>f. ret (c, f))))) (\<lambda>codes.
     bind_rd (skip_transients transient channels) (\<lambda>_.
     bind_rd (read_spx_attenuation (syntax_spx_attenuation flags) channels) (\<lambda>spx.
     bind_rd (read_block_start num_blocks_code header) (\<lambda>start.
     bind_rd (read_offset frame_bits) (\<lambda>offset.
       ret \<lparr>af_bsi = bsi, af_full_bandwidth_channels = channels, snr_offset_strategy = snr,
            frame_coarse_snr_code = map_option fst codes, frame_fine_snr_code = map_option snd codes,
            af_syntax = flags, coupling_in_use = map snd couplings, coupling_strategy_exists = map fst couplings,
            coupling_exponent_strategy = coupling_strategy, channel_exponent_strategy = channel_strategy,
            lfe_exponent_strategy = lfe_strategy, coupling_aht_in_use = coupling_aht,
            channel_aht_in_use = channel_aht, lfe_aht_in_use = lfe_aht, spx_attenuation_codes = spx,
            block_start_information = start, audio_blocks_offset_bits = offset\<rparr>))))))))))))))))"

definition parse_audio_frame :: "u8 list \<Rightarrow> eac3_error + audio_frame_information" where
  "parse_audio_frame bs =
     attempt (parse_syncframe_header bs) (\<lambda>header.
       if frame_size header > length bs then Inl (TruncatedFrame 0 (frame_size header) (length bs))
       else
         (case checked_usize (frame_size header * 8) of
            None \<Rightarrow> Inl FrameSizeOverflow
          | Some frame_bits \<Rightarrow>
              let r = new_reader (take (frame_size header) bs) in
              if stream_type header = LegacyIndependent then fst (parse_ac3_audio_frame frame_bits r)
              else fst (parse_eac3_audio_frame frame_bits r)))"

section \<open>Checksums\<close>

definition CRC_POLYNOMIAL :: "16 word" where
  "CRC_POLYNOMIAL = 0x8005"

definition crc_bit :: "16 word \<Rightarrow> bool \<Rightarrow> 16 word" where
  "crc_bit register input =
     (if bit register 15 \<noteq> input then push_bit 1 register XOR CRC_POLYNOMIAL else push_bit 1 register)"

definition crc_byte :: "u8 \<Rightarrow> 16 word \<Rightarrow> 16 word" where
  "crc_byte byte register = fold (\<lambda>shift r. crc_bit r (bit byte shift)) (rev [0..<8]) register"

definition crc16 :: "u8 list \<Rightarrow> 16 word" where
  "crc16 bs = fold crc_byte bs 0"

definition validate_ac3_crc :: "u8 list \<Rightarrow> eac3_error + unit" where
  "validate_ac3_crc bs =
     attempt (parse_syncframe_header bs) (\<lambda>header.
       if stream_type header \<noteq> LegacyIndependent then Inl (InvalidAc3Crc ''non-ac3-syncframe'')
       else if frame_size header > length bs then Inl (TruncatedFrame 0 (frame_size header) (length bs))
       else
         let frame = take (frame_size header) bs; frame_words = frame_size header div 2;
             five_eighth_words = drop_bit 1 frame_words + drop_bit 3 frame_words in
         if five_eighth_words * 2 > usize_max then Inl FrameSizeOverflow
         else if crc16 (drop 2 (take (five_eighth_words * 2) frame)) \<noteq> 0 then Inl (InvalidAc3Crc ''crc1'')
         else if crc16 (drop 2 frame) \<noteq> 0 then Inl (InvalidAc3Crc ''crc2'')
         else Inr ())"

end
