(* ===== verification/Eac3UnitsSpec.thy ===== *)
theory Eac3UnitsSpec
  imports Eac3Units
begin

text \<open>
  Specifications of the framing: an index is a tiling of the stream by its declared frames, the
  access units are a tiling of the frames, and the streaming search finds the first of them.
\<close>

section \<open>The index\<close>

fun frames_tile :: "u8 list \<Rightarrow> nat \<Rightarrow> syncframe_index_entry list \<Rightarrow> bool" where
  "frames_tile bs off [] \<longleftrightarrow> off = length bs"
| "frames_tile bs off (e # es) \<longleftrightarrow> entry_offset e = off \<and> off < length bs
     \<and> parse_syncframe_header (drop off bs) = Inr (entry_header e)
     \<and> off + frame_size (entry_header e) \<le> length bs
     \<and> frames_tile bs (off + frame_size (entry_header e)) es"

lemma index_from_tile:
  "length bs \<le> usize_max \<Longrightarrow> off \<le> length bs \<Longrightarrow>
   index_from bs off acc = Inr es \<longleftrightarrow> (\<exists>rest. es = acc @ rest \<and> frames_tile bs off rest)"
proof (induction bs off acc rule: index_from.induct)
  case (1 bs off acc)
  show ?case
  proof (cases "off < length bs")
    case False
    then have "off = length bs" using "1.prems" by simp
    then show ?thesis by (subst index_from.simps) (auto elim: frames_tile.elims)
  next
    case True
    show ?thesis
    proof (cases "parse_syncframe_header (drop off bs)")
      case (Inl e)
      have "\<not> frames_tile bs off rest" for rest using True Inl by (cases rest) auto
      then show ?thesis using True Inl by (subst index_from.simps) simp
    next
      case (Inr h)
      show ?thesis
      proof (cases "off + frame_size h \<le> length bs")
        case False
        have "\<not> frames_tile bs off rest" for rest using True Inr False by (cases rest) auto
        then show ?thesis
          using True Inr False by (subst index_from.simps) (simp add: checked_usize_def)
      next
        case inside: True
        then have fits: "checked_usize (off + frame_size h) = Some (off + frame_size h)" using "1.prems" by simp
        let ?e = "\<lparr>entry_offset = off, entry_header = h\<rparr>"
        have "index_from bs off acc = index_from bs (off + frame_size h) (acc @ [?e])"
          using True Inr inside fits by (subst index_from.simps) simp
        moreover have "frames_tile bs off rest \<longleftrightarrow>
            (\<exists>tl. rest = ?e # tl \<and> frames_tile bs (off + frame_size h) tl)" for rest
          using True Inr inside by (cases rest) auto
        ultimately show ?thesis
          using "1.IH" [OF True Inr fits] inside "1.prems" by auto
      qed
    qed
  qed
qed

section \<open>Access units\<close>

text \<open>
  What a unit of the frames \<open>i..<j\<close> is: it starts with an independent frame of identifier 0, has
  one sampling rate, each run of dependent frames is numbered from 0, at most eight of them, with
  the block count of the frame before, and the frames of identifier 0 that are not dependent carry
  six blocks together (a first frame of more carries them alone).
\<close>

abbreviation is_dependent :: "syncframe_header \<Rightarrow> bool" where
  "is_dependent h \<equiv> stream_type h = Dependent"

abbreviation is_programme :: "syncframe_header \<Rightarrow> bool" where
  "is_programme h \<equiv> stream_type h \<noteq> Dependent \<and> substream_id h = 0"

definition follows :: "syncframe_header \<Rightarrow> syncframe_header \<Rightarrow> bool" where
  "follows p h \<longleftrightarrow> substream_id h < 8 \<and> audio_blocks h = audio_blocks p
     \<and> substream_id h = (if is_dependent p then Suc (substream_id p) else 0)"

definition dependents_in_order :: "syncframe_index_entry list \<Rightarrow> nat \<Rightarrow> nat \<Rightarrow> bool" where
  "dependents_in_order fs i j \<longleftrightarrow>
     (\<forall>k. i < k \<and> k < j \<and> is_dependent (header_at fs k) \<longrightarrow> follows (header_at fs (k - 1)) (header_at fs k))"

definition one_rate :: "syncframe_index_entry list \<Rightarrow> nat \<Rightarrow> nat \<Rightarrow> bool" where
  "one_rate fs i j \<longleftrightarrow> (\<forall>k. i \<le> k \<and> k < j \<longrightarrow> sample_rate (header_at fs k) = sample_rate (header_at fs i))"

definition programme_blocks :: "syncframe_index_entry list \<Rightarrow> nat \<Rightarrow> nat \<Rightarrow> nat" where
  "programme_blocks fs i j =
     (\<Sum>k \<in> {i..<j}. if is_programme (header_at fs k) then audio_blocks (header_at fs k) else 0)"

definition unit_ok :: "syncframe_index_entry list \<Rightarrow> access_unit_index \<Rightarrow> bool" where
  "unit_ok fs u \<longleftrightarrow>
     (let i = first_frame u; j = i + frame_count u in
      i < j \<and> j \<le> length fs \<and> is_programme (header_at fs i)
    \<and> unit_sample_rate u = sample_rate (header_at fs i) \<and> one_rate fs i j
    \<and> dependents_in_order fs i j
    \<and> programme_blocks fs i j = max 6 (audio_blocks (header_at fs i)))"

fun units_tile :: "syncframe_index_entry list \<Rightarrow> nat \<Rightarrow> access_unit_index list \<Rightarrow> bool" where
  "units_tile fs i [] \<longleftrightarrow> i = length fs"
| "units_tile fs i (u # us) \<longleftrightarrow> first_frame u = i \<and> unit_ok fs u \<and> units_tile fs (i + frame_count u) us"

lemma dependents_step:
  "dependents_in_order fs i k \<Longrightarrow>
   (is_dependent (header_at fs k) \<Longrightarrow> i < k \<Longrightarrow> follows (header_at fs (k - 1)) (header_at fs k)) \<Longrightarrow>
   dependents_in_order fs i (Suc k)"
  by (auto simp: dependents_in_order_def less_Suc_eq)

lemma one_rate_step:
  "one_rate fs i k \<Longrightarrow> sample_rate (header_at fs k) = sample_rate (header_at fs i) \<Longrightarrow> one_rate fs i (Suc k)"
  by (auto simp: one_rate_def less_Suc_eq)

lemma blocks_step:
  "i \<le> k \<Longrightarrow> programme_blocks fs i (Suc k) = programme_blocks fs i k
     + (if is_programme (header_at fs k) then audio_blocks (header_at fs k) else 0)"
  by (simp add: programme_blocks_def)

lemma empty_stretch [simp]:
  "programme_blocks fs i i = 0" "dependents_in_order fs i i" "one_rate fs i i"
  by (auto simp: programme_blocks_def dependents_in_order_def one_rate_def)

text \<open>The identifier a next dependent frame behind frame \<open>k - 1\<close> must have.\<close>

definition next_dependent :: "syncframe_header \<Rightarrow> nat" where
  "next_dependent p = (if is_dependent p then Suc (substream_id p) else 0)"

lemma group_long_step:
  assumes "group_long fs i ei ed da k = Inr j" and "k < length fs"
  obtains (stop) "j = k" "i < k"
  | (step) ei' ed' da' where "group_long fs i ei' ed' da' (Suc k) = Inr j"
      "\<not> (i < k \<and> is_programme (header_at fs k))"
      "sample_rate (header_at fs k) = sample_rate (header_at fs i)"
      "audio_blocks (header_at fs k) = audio_blocks (header_at fs i)"
      "is_dependent (header_at fs k) \<Longrightarrow> ed < 8 \<and> substream_id (header_at fs k) = ed"
      "ed' = next_dependent (header_at fs k)"
proof -
  note run = assms(1) [unfolded group_long.simps [of fs i ei ed da k]]
  show thesis
  proof (cases "i < k \<and> is_programme (header_at fs k)")
    case True
    then show thesis using stop run assms(2) by (simp add: Let_def)
  next
    case False
    then show thesis
      using run assms(2) step
      by (auto simp: Let_def next_dependent_def GENERAL_MAX_DEPENDENT_SUBSTREAMS_def split: if_splits)
  qed
qed

lemma group_long_ok:
  assumes "group_long fs i ei ed da k = Inr j" and "i < k" and "k \<le> length fs"
    and "dependents_in_order fs i k" and "one_rate fs i k"
    and "audio_blocks (header_at fs (k - 1)) = audio_blocks (header_at fs i)"
    and "ed = next_dependent (header_at fs (k - 1))"
  shows "dependents_in_order fs i j \<and> one_rate fs i j \<and> programme_blocks fs i j = programme_blocks fs i k"
  using assms
proof (induction "length fs - k" arbitrary: k ei ed da)
  case 0
  then have "j = k" by (subst (asm) group_long.simps) simp
  then show ?case using 0 by simp
next
  case (Suc n)
  then have k: "k < length fs" by simp
  from Suc.prems(1) k show ?case
  proof (cases rule: group_long_step)
    case stop
    then show ?thesis using Suc.prems by simp
  next
    case (step ei' ed' da')
    have order: "dependents_in_order fs i (Suc k)"
      using Suc.prems(4)
      by (rule dependents_step) (use step(4,5) Suc.prems(6,7) in \<open>auto simp: follows_def next_dependent_def\<close>)
    have blocks: "programme_blocks fs i (Suc k) = programme_blocks fs i k"
      using step(2) Suc.prems(2) blocks_step [of i k fs] by auto
    have "dependents_in_order fs i j \<and> one_rate fs i j \<and> programme_blocks fs i j = programme_blocks fs i (Suc k)"
      using Suc.hyps(2) Suc.prems(2) k step(4,6)
      by (intro Suc.hyps(1) [OF _ step(1) _ _ order one_rate_step [OF Suc.prems(5) step(3)]]) auto
    then show ?thesis using blocks by simp
  qed
qed

text \<open>The dependent frames of one set, and the sets of a short unit.\<close>

lemma group_dependents_ok:
  assumes "group_dependents fs h d k = Inr j" and "i < k" and "k \<le> length fs"
    and "dependents_in_order fs i k" and "one_rate fs i k"
    and "sample_rate h = sample_rate (header_at fs i)"
    and "audio_blocks (header_at fs (k - 1)) = audio_blocks h"
    and "d = next_dependent (header_at fs (k - 1))"
  shows "dependents_in_order fs i j \<and> one_rate fs i j \<and> programme_blocks fs i j = programme_blocks fs i k"
  using assms
proof (induction "length fs - k" arbitrary: k d)
  case 0
  then have "j = k" by (subst (asm) group_dependents.simps) simp
  then show ?case using 0 by simp
next
  case (Suc n)
  then have k: "k < length fs" by simp
  let ?h = "header_at fs k"
  show ?case
  proof (cases "is_dependent ?h")
    case False
    then have "j = k" using Suc.prems(1) by (subst (asm) group_dependents.simps) simp
    then show ?thesis using Suc.prems by simp
  next
    case True
    then have run: "group_dependents fs h (d + 1) (Suc k) = Inr j"
      and d: "d < 8" "substream_id ?h = d" "sample_rate ?h = sample_rate h" "audio_blocks ?h = audio_blocks h"
      using Suc.prems(1) k
      by (subst (asm) group_dependents.simps; auto simp: Let_def GENERAL_MAX_DEPENDENT_SUBSTREAMS_def split: if_splits)+
    have order: "dependents_in_order fs i (Suc k)"
      using Suc.prems(4)
      by (rule dependents_step) (use d Suc.prems(7,8) in \<open>auto simp: follows_def next_dependent_def\<close>)
    have "one_rate fs i (Suc k)"
      using Suc.prems(5) by (rule one_rate_step) (use d Suc.prems(6) in simp)
    then have "dependents_in_order fs i j \<and> one_rate fs i j \<and> programme_blocks fs i j = programme_blocks fs i (Suc k)"
      using Suc.hyps(2) Suc.prems(2,6) k d True
      by (intro Suc.hyps(1) [OF _ run _ _ order]) (auto simp: next_dependent_def)
    then show ?thesis using True Suc.prems(2) by (simp add: blocks_step)
  qed
qed

lemma group_sets_step:
  assumes "group_sets fs b t e k = Inr j"
  obtains after where "k < length fs" "is_programme (header_at fs k)"
    "sample_rate (header_at fs k) = sample_rate b" "t + audio_blocks (header_at fs k) \<le> 6"
    "group_dependents fs (header_at fs k) 0 (Suc k) = Inr after"
    "if t + audio_blocks (header_at fs k) = 6 then j = after
     else group_sets fs b (t + audio_blocks (header_at fs k)) (Some (after - Suc k)) after = Inr j"
  using assms
  by (subst (asm) group_sets.simps) (auto simp: Let_def split: if_splits sum.splits)

lemma group_sets_ok:
  assumes "group_sets fs b t e k = Inr j" and "i \<le> k" and "b = header_at fs i"
    and "dependents_in_order fs i k" and "one_rate fs i k" and "programme_blocks fs i k = t"
  shows "dependents_in_order fs i j \<and> one_rate fs i j \<and> programme_blocks fs i j = 6"
  using assms
proof (induction "length fs - k" arbitrary: k t e rule: less_induct)
  case less
  obtain after where k: "k < length fs" and prog: "is_programme (header_at fs k)"
    and rate: "sample_rate (header_at fs k) = sample_rate b"
    and deps: "group_dependents fs (header_at fs k) 0 (Suc k) = Inr after"
    and rest: "if t + audio_blocks (header_at fs k) = 6 then j = after
      else group_sets fs b (t + audio_blocks (header_at fs k)) (Some (after - Suc k)) after = Inr j"
    using less.prems(1) by (rule group_sets_step) blast
  have order: "dependents_in_order fs i (Suc k)" using less.prems(4) prog by (intro dependents_step) simp_all
  have one: "one_rate fs i (Suc k)" using less.prems(3,5) rate by (intro one_rate_step) simp_all
  have blocks: "programme_blocks fs i (Suc k) = t + audio_blocks (header_at fs k)"
    using less.prems(2,6) prog by (simp add: blocks_step)
  have after: "dependents_in_order fs i after \<and> one_rate fs i after
      \<and> programme_blocks fs i after = programme_blocks fs i (Suc k)"
    using less.prems(2,3) k prog rate
    by (intro group_dependents_ok [OF deps _ _ order one]) (auto simp: next_dependent_def)
  show ?case
  proof (cases "t + audio_blocks (header_at fs k) = 6")
    case True
    then show ?thesis using rest after blocks by simp
  next
    case False
    have "Suc k \<le> after" using group_dependents_index [OF deps] by simp
    then show ?thesis
      using False rest after blocks less.prems(2,3) k
      by (intro less.hyps [of after]) auto
  qed
qed

lemma group_from_tile:
  assumes "group_from fs acc i = Inr us" and "i \<le> length fs"
  shows "\<exists>rest. us = acc @ rest \<and> units_tile fs i rest"
  using assms
proof (induction "length fs - i" arbitrary: i acc rule: less_induct)
  case less
  show ?case
  proof (cases "i < length fs")
    case False
    then show ?thesis using less.prems by (subst (asm) group_from.simps) auto
  next
    case True
    let ?h = "header_at fs i"
    have prog: "is_programme ?h"
      using less.prems(1) True by (subst (asm) group_from.simps) (auto simp: Let_def split: if_splits)
    obtain j u where run: "group_from fs (acc @ [u]) j = Inr us"
      and u: "first_frame u = i" "frame_count u = j - i" "unit_sample_rate u = sample_rate ?h"
      and j: "i < j" "j \<le> length fs"
      and ok: "dependents_in_order fs i j \<and> one_rate fs i j \<and> programme_blocks fs i j = max 6 (audio_blocks ?h)"
    proof (cases "audio_blocks ?h < 6")
      case short: True
      obtain j where j: "group_sets fs ?h 0 None i = Inr j"
        and run: "group_from fs (acc @ [\<lparr>first_frame = i, frame_count = j - i,
            unit_sample_rate = sample_rate ?h, unit_samples = 1536\<rparr>]) j = Inr us"
        using less.prems(1) True prog short
        by (subst (asm) group_from.simps)
          (auto simp: Let_def group_short_access_unit_def split: if_splits sum.splits)
      show thesis
        using that [OF run] short group_sets_index [OF j] group_sets_ok [OF j, of i] by simp
    next
      case long: False
      obtain j where j: "group_long fs i 0 0 False i = Inr j"
        and run: "group_from fs (acc @ [\<lparr>first_frame = i, frame_count = j - i,
            unit_sample_rate = sample_rate ?h, unit_samples = frame_samples ?h\<rparr>]) j = Inr us"
        using less.prems(1) True prog long
        by (subst (asm) group_from.simps) (auto simp: Let_def split: if_splits sum.splits)
      from j True obtain ei ed da where onward: "group_long fs i ei ed da (Suc i) = Inr j"
        and ed: "ed = next_dependent ?h"
        by (rule group_long_step) auto
      have "dependents_in_order fs i j \<and> one_rate fs i j \<and> programme_blocks fs i j = programme_blocks fs i (Suc i)"
        using True ed by (intro group_long_ok [OF onward]) (auto intro: dependents_step one_rate_step)
      then show thesis
        using that [OF run] long prog group_long_index [OF j] True by (simp add: blocks_step)
    qed
    have "unit_ok fs u" using u j ok prog by (simp add: unit_ok_def)
    moreover obtain rest where "us = (acc @ [u]) @ rest" "units_tile fs j rest"
      using less.hyps [OF _ run] j by fastforce
    ultimately show ?thesis using u j by (intro exI [of _ "u # rest"]) simp
  qed
qed

end
