(* ===== verification/Eac3Streaming.thy ===== *)
theory Eac3Streaming
  imports Eac3UnitsSpec OamdObjectSpec
begin

text \<open>
  The streaming search against the batch functions.  A header is read from a bounded prefix, so
  it is the same on the bytes of one unit and on the whole buffer; the loop of the search and the
  loop of the grouping then take the same decisions, frame by frame.
\<close>

section \<open>A header depends on a prefix only\<close>

lemma exact_eac3_fields [exact_intros]:
  "exact_parser (eac3_bits n)" "exact_parser eac3_bit" "exact_parser (eac3_u8 n)" "exact_parser (eac3_u16 n)"
  by (auto simp: eac3_bits_def eac3_bit_def eac3_u8_def eac3_u16_def intro!: exact_intros)

lemma exact_headers [exact_intros]:
  "exact_parser check_syncword" "exact_parser parse_stream_type"
  "exact_parser parse_ac3_header_reader" "exact_parser parse_header_reader"
  by (auto simp: check_syncword_def parse_stream_type_def parse_ac3_header_reader_def parse_header_reader_def
      intro!: exact_intros)

lemma exact_extends:
  assumes p: "exact_parser p" and run: "fst (p (new_reader x)) = Inr a" and fits: "8 * length (x @ y) \<le> usize_max"
  shows "fst (p (new_reader (x @ y))) = Inr a"
proof -
  obtain t where t: "p (new_reader x) = (Inr a, t)" using fst_run [OF run] by blast
  have okx: "reader_ok (new_reader x)" and oky: "reader_ok (new_reader (x @ y))"
    using fits by (auto intro: new_reader_ok)
  obtain n where n: "n \<le> length (unread (new_reader x))" and r: "reads p (take n (unread (new_reader x))) a"
    using exactE [OF p okx t] by metis
  have "unread (new_reader (x @ y)) = take n (unread (new_reader x)) @ (drop n (unread (new_reader x)) @ slice_bits y)"
    using fits by (simp add: unread_new_reader)
  from readsD [OF r oky this] show ?thesis by simp
qed

lemma header_extends:
  assumes "parse_syncframe_header x = Inr h" and fits: "8 * length (x @ y) \<le> usize_max"
  shows "parse_syncframe_header (x @ y) = Inr h"
proof -
  let ?probe = "bind_rd check_syncword (\<lambda>_. bind_rd (eac3_bits 24) (\<lambda>_. eac3_u8 5))"
  have probe: "exact_parser ?probe" by (intro exact_intros)
  obtain v where v: "fst (?probe (new_reader x)) = Inr v"
    and rest: "(if v \<le> 8 then fst (parse_ac3_header_reader (new_reader x))
      else if v = 16 then attempt (fst (parse_header_reader (new_reader x))) (\<lambda>(header, _).
              Inr (header\<lparr>hdr_bitstream_id := v\<rparr>))
      else Inl (UnsupportedBitstreamId v)) = Inr h"
    using assms(1) unfolding parse_syncframe_header_def attempt_Inr by blast
  note v' = exact_extends [OF probe v fits]
  show ?thesis
  proof (cases "v \<le> 8")
    case True
    then have "fst (parse_ac3_header_reader (new_reader x)) = Inr h" using rest by simp
    from exact_extends [OF exact_headers(3) this fits] show ?thesis
      using True v' by (simp add: parse_syncframe_header_def attempt_Inr)
  next
    case False
    then obtain g n where g: "fst (parse_header_reader (new_reader x)) = Inr (g, n)"
      and h: "v = 16" "h = g\<lparr>hdr_bitstream_id := v\<rparr>"
      using rest by (auto simp: attempt_Inr split: if_splits)
    from exact_extends [OF exact_headers(4) g fits] show ?thesis
      using h v' by (simp add: parse_syncframe_header_def attempt_Inr)
  qed
qed

lemma header_of_prefix:
  assumes "parse_syncframe_header (drop c (take n bs)) = Inr h" and "8 * length bs \<le> usize_max" and "c \<le> n"
  shows "parse_syncframe_header (drop c bs) = Inr h"
proof -
  have "drop c bs = drop c (take n bs) @ drop n bs"
  proof (cases "n \<le> length bs")
    case True
    then have "drop c (take n bs @ drop n bs) = drop c (take n bs) @ drop n bs"
      using assms(3) by (subst drop_append) simp
    then show ?thesis by simp
  qed simp
  then show ?thesis using header_extends [OF assms(1), of "drop n bs"] assms(2) by (metis diff_le_self le_trans length_drop mult_le_mono2)
qed

section \<open>The two loops\<close>

lemma long_bounds_step:
  assumes "long_bounds bs eos first d c = Inr (Complete n)"
  shows "c \<le> n" and "c \<noteq> n \<Longrightarrow>
    \<exists>h. parse_syncframe_header (drop c bs) = Inr h \<and> is_dependent h \<and> d < 8 \<and> substream_id h = d
      \<and> sample_rate h = sample_rate first \<and> audio_blocks h = audio_blocks first \<and> frame_samples h = frame_samples first
      \<and> c + frame_size h \<le> length bs \<and> long_bounds bs eos first (Suc d) (c + frame_size h) = Inr (Complete n)"
proof -
  have step: "c = n \<or> (\<exists>h. parse_syncframe_header (drop c bs) = Inr h \<and> is_dependent h \<and> d < 8 \<and> substream_id h = d
      \<and> sample_rate h = sample_rate first \<and> audio_blocks h = audio_blocks first \<and> frame_samples h = frame_samples first
      \<and> c + frame_size h \<le> length bs \<and> long_bounds bs eos first (Suc d) (c + frame_size h) = Inr (Complete n))"
    if "long_bounds bs eos first d c = Inr (Complete n)" for d c
    using that [unfolded long_bounds.simps [of bs eos first d c]]
    by (auto simp: starved_def GENERAL_MAX_DEPENDENT_SUBSTREAMS_def split: if_splits sum.splits)
  show "c \<noteq> n \<Longrightarrow> \<exists>h. parse_syncframe_header (drop c bs) = Inr h \<and> is_dependent h \<and> d < 8 \<and> substream_id h = d
      \<and> sample_rate h = sample_rate first \<and> audio_blocks h = audio_blocks first \<and> frame_samples h = frame_samples first
      \<and> c + frame_size h \<le> length bs \<and> long_bounds bs eos first (Suc d) (c + frame_size h) = Inr (Complete n)"
    using step [OF assms] by blast
  show "c \<le> n" using assms
  proof (induction "length bs - c" arbitrary: c d rule: less_induct)
    case less
    show ?case
    proof (cases "c = n")
      case False
      then obtain h where h: "parse_syncframe_header (drop c bs) = Inr h" "c + frame_size h \<le> length bs"
        "long_bounds bs eos first (Suc d) (c + frame_size h) = Inr (Complete n)"
        using step [OF less.prems] by blast
      from frame_size_pos [OF h(1)] h(2) have "c + frame_size h \<le> n" by (intro less.hyps [OF _ h(3)]) simp
      then show ?thesis by simp
    qed simp
  qed
qed

lemma long_bounds_group:
  assumes "long_bounds bs eos first d c = Inr (Complete n)" and "frames_tile (take n bs) c es"
    and "8 * length bs \<le> usize_max" and "pre \<noteq> []" and "entry_header (hd pre) = first"
  shows "group_long (pre @ es) 0 ei d True (length pre) = Inr (length (pre @ es))"
  using assms
proof (induction es arbitrary: pre c d)
  case Nil
  then show ?case by (subst group_long.simps) simp
next
  case (Cons e es)
  let ?h = "entry_header e"
  have c: "c < length (take n bs)" and parse: "parse_syncframe_header (drop c (take n bs)) = Inr ?h"
    and tile: "frames_tile (take n bs) (c + frame_size ?h) es"
    using Cons.prems(2) by auto
  have "c < n" using c by simp
  have here: "parse_syncframe_header (drop c bs) = Inr ?h"
    using header_of_prefix [OF parse Cons.prems(3)] \<open>c < n\<close> by simp
  have h: "is_dependent ?h" "d < 8" "substream_id ?h = d" "sample_rate ?h = sample_rate first"
    "audio_blocks ?h = audio_blocks first" "frame_samples ?h = frame_samples first"
    and onward: "long_bounds bs eos first (Suc d) (c + frame_size ?h) = Inr (Complete n)"
    using long_bounds_step(2) [OF Cons.prems(1)] \<open>c < n\<close> here by auto
  have at: "header_at (pre @ e # es) (length pre) = ?h" "header_at (pre @ e # es) 0 = first"
    using Cons.prems(4,5) by (simp_all add: nth_append hd_conv_nth)
  have "group_long ((pre @ [e]) @ es) 0 ei (Suc d) True (length (pre @ [e])) = Inr (length ((pre @ [e]) @ es))"
    using Cons.prems(3-5) by (intro Cons.IH [OF onward tile]) auto
  then show ?case
    using at h by (subst group_long.simps) (simp add: Let_def GENERAL_MAX_DEPENDENT_SUBSTREAMS_def)
qed

lemma bounds_of_long_unit:
  assumes "parse_access_unit_bounds bs eos = Inr (Complete n)" and "parse_syncframe_header bs = Inr h"
    and "6 \<le> audio_blocks h"
  shows "is_independent_zero h" and "sample_rate h = 48000" and "frame_size h \<le> length bs"
    and "long_bounds bs eos h 0 (frame_size h) = Inr (Complete n)"
  using assms by (auto simp: parse_access_unit_bounds_def starved_def split: if_splits)

lemma streaming_unit:
  assumes bounds: "parse_access_unit_bounds bs eos = Inr (Complete n)" and first: "parse_syncframe_header bs = Inr h"
    and long: "6 \<le> audio_blocks h" and fits: "8 * length bs \<le> usize_max"
    and index: "index_syncframes (take n bs) = Inr es"
  shows "group_access_units es = Inr [\<lparr>first_frame = 0, frame_count = length es,
           unit_sample_rate = 48000, unit_samples = frame_samples h\<rparr>]"
proof -
  note u = bounds_of_long_unit [OF bounds first long]
  have n: "frame_size h \<le> n" by (rule long_bounds_step(1) [OF u(4)])
  have "length (take n bs) \<le> usize_max" using fits by simp
  then have tile: "frames_tile (take n bs) 0 es"
    using index index_from_tile [of "take n bs" 0 "[]" es] by (simp add: index_syncframes_def)
  have "0 < n" "0 < length bs" using n frame_size_pos [OF first] u(3) by auto
  then obtain e rest where es: "es = e # rest" using tile by (cases es) (auto simp: min_def split: if_splits)
  then have parse: "parse_syncframe_header (drop 0 (take n bs)) = Inr (entry_header e)" using tile by simp
  then have e: "entry_header e = h" using header_of_prefix [OF parse fits] first by simp
  have tail: "frames_tile (take n bs) (frame_size h) rest" using tile e by (simp add: es)
  have "group_long ([e] @ rest) 0 1 0 True (length [e]) = Inr (length ([e] @ rest))"
    using e by (intro long_bounds_group [OF u(4) tail fits]) simp_all
  then have "group_long es 0 0 0 False 0 = Inr (length es)"
    using u(1) e es by (subst group_long.simps) (auto simp: Let_def is_independent_zero_def)
  moreover have "group_from es us (length es) = Inr us" for us
    by (subst group_from.simps) simp
  ultimately show ?thesis
    using u(1,2) e es long unfolding group_access_units_def
    by (subst group_from.simps) (auto simp: Let_def is_independent_zero_def)
qed

end
