(* ===== verification/Eac3FrameSpec.thy ===== *)
theory Eac3FrameSpec
  imports Eac3Frame Eac3Streaming
begin

text \<open>
  What the frame-wide syntax means: grouped exponents are exactly the packed differentials of a
  path of exponents, and the checksum register is a linear, injective machine, so that a burst of
  at most 16 bits never goes unnoticed.
\<close>

section \<open>Exponents are differential paths\<close>

fun exponent_path :: "int \<Rightarrow> int list \<Rightarrow> bool" where
  "exponent_path x [] \<longleftrightarrow> True"
| "exponent_path x (e # es) \<longleftrightarrow> \<bar>e - x\<bar> \<le> 2 \<and> 0 \<le> e \<and> e \<le> 24 \<and> exponent_path e es"

fun differentials :: "int \<Rightarrow> int list \<Rightarrow> nat list" where
  "differentials x [] = []"
| "differentials x (e # es) = nat (e - x + 2) # differentials e es"

fun pack_differentials :: "nat list \<Rightarrow> nat list" where
  "pack_differentials (a # b # c # ds) = (25 * a + 5 * b + c) # pack_differentials ds"
| "pack_differentials ds = []"

definition spread :: "nat \<Rightarrow> int list \<Rightarrow> nat list" where
  "spread repeats es = concat (map (\<lambda>e. replicate repeats (nat e)) es)"

lemma spread_simps [simp]: "spread n [] = []" "spread n (e # es) = replicate n (nat e) @ spread n es"
  by (simp_all add: spread_def)

lemma length_spread: "length (spread n es) = n * length es"
  by (induction es) auto

lemma decode_digits_Inr:
  assumes "\<forall>d \<in> set ds. d \<le> 4"
  shows "decode_digits n stop ds x (take stop xs) = Inr y \<longleftrightarrow>
    (\<exists>es. exponent_path x es \<and> differentials x es = ds \<and> y = (last (x # es), take stop (xs @ spread n es)))"
  using assms
proof (induction ds arbitrary: x xs)
  case Nil
  have "differentials x es = [] \<longleftrightarrow> es = []" for es by (cases es) auto
  then show ?case by auto
next
  case (Cons d ds)
  let ?e = "x + (int d - 2)"
  have out: "take stop xs @ replicate (min n (stop - length (take stop xs))) (nat ?e) = take stop (xs @ replicate n (nat ?e))"
    by (simp add: take_replicate min.commute min_def)
  have diff: "differentials x es = d # ds \<longleftrightarrow> (\<exists>es'. es = ?e # es' \<and> differentials ?e es' = ds)"
    if "exponent_path x es" for es
    using that by (cases es) auto
  have IH: "decode_digits n stop ds ?e (take stop (xs @ replicate n (nat ?e))) = Inr y \<longleftrightarrow>
      (\<exists>es. exponent_path ?e es \<and> differentials ?e es = ds
        \<and> y = (last (?e # es), take stop ((xs @ replicate n (nat ?e)) @ spread n es)))"
    by (rule Cons.IH) (use Cons.prems in simp)
  have "decode_digits n stop (d # ds) x (take stop xs) = Inr y \<longleftrightarrow>
      0 \<le> ?e \<and> ?e \<le> 24 \<and> decode_digits n stop ds ?e (take stop (xs @ replicate n (nat ?e))) = Inr y"
    by (simp only: decode_digits.simps Let_def out) auto
  also have "\<dots> \<longleftrightarrow> 0 \<le> ?e \<and> ?e \<le> 24 \<and> (\<exists>es. exponent_path ?e es \<and> differentials ?e es = ds
      \<and> y = (last (?e # es), take stop ((xs @ replicate n (nat ?e)) @ spread n es)))"
    unfolding IH by (rule refl)
  also have "\<dots> \<longleftrightarrow> (\<exists>es. exponent_path x (?e # es) \<and> differentials ?e es = ds
      \<and> y = (last (x # ?e # es), take stop (xs @ spread n (?e # es))))"
    using Cons.prems by auto
  also have "\<dots> \<longleftrightarrow> (\<exists>es. exponent_path x es \<and> differentials x es = d # ds
      \<and> y = (last (x # es), take stop (xs @ spread n es)))"
    using diff by (metis exponent_path.simps(2))
  finally show ?case .
qed

lemma path_append:
  "exponent_path x (es @ fs) \<longleftrightarrow> exponent_path x es \<and> exponent_path (last (x # es)) fs"
  by (induction es arbitrary: x) auto

lemma differentials_append: "differentials x (es @ fs) = differentials x es @ differentials (last (x # es)) fs"
  by (induction es arbitrary: x) auto

lemma length_differentials [simp]: "length (differentials x es) = length es"
  by (induction x es rule: differentials.induct) auto

lemma differentials_le: "exponent_path x es \<Longrightarrow> \<forall>d \<in> set (differentials x es). d \<le> 4"
  by (induction es arbitrary: x) auto

lemma length_three: "length xs = 3 \<longleftrightarrow> (\<exists>a b c. xs = [a, b, c])"
  by (auto simp: length_Suc_conv numeral_3_eq_3)

lemma base_five:
  assumes "b \<le> 4" "c \<le> (4 :: nat)"
  shows "(25 * a + 5 * b + c) div 25 = a" "(25 * a + 5 * b + c) mod 25 div 5 = b" "(25 * a + 5 * b + c) mod 5 = c"
proof -
  have small: "5 * b + c < 25" using assms by simp
  have split: "25 * a + 5 * b + c = 25 * a + (5 * b + c)" "25 * a + 5 * b + c = 5 * (5 * a + b) + c" by simp_all
  show "(25 * a + 5 * b + c) div 25 = a" unfolding split(1) using small by simp
  have "(25 * a + 5 * b + c) mod 25 = 5 * b + c" unfolding split(1) using small by simp
  then show "(25 * a + 5 * b + c) mod 25 div 5 = b" using assms(2) by simp
  show "(25 * a + 5 * b + c) mod 5 = c" unfolding split(2) mod_mult_self4 using assms(2) by simp
qed

lemma base_five_digits: "25 * (g div 25) + 5 * (g mod 25 div 5) + g mod 5 = (g :: nat)"
proof -
  have "g mod 25 mod 5 = g mod 5" by (rule mod_mod_cancel) simp
  then have "5 * (g mod 25 div 5) + g mod 5 = g mod 25" using mult_div_mod_eq [of 5 "g mod 25"] by simp
  then show ?thesis using mult_div_mod_eq [of 25 g] by linarith
qed

lemma decode_groups_Inr:
  "decode_groups n stop gs x (take stop xs) = Inr out \<longleftrightarrow>
    (\<exists>es. length es = 3 * length gs \<and> exponent_path x es \<and> pack_differentials (differentials x es) = gs
      \<and> out = take stop (xs @ spread n es))"
proof (induction gs arbitrary: x xs)
  case Nil
  then show ?case by auto
next
  case (Cons g gs)
  let ?ds = "[g div 25, g mod 25 div 5, g mod 5]"
  show ?case
  proof
    assume run: "decode_groups n stop (g # gs) x (take stop xs) = Inr out"
    then have small: "g \<le> 124" by (simp split: if_splits)
    then have ds: "\<forall>d \<in> set ?ds. d \<le> 4" by auto
    obtain y where y: "decode_digits n stop ?ds x (take stop xs) = Inr y"
      "decode_groups n stop gs (fst y) (snd y) = Inr out"
      using run small by (auto simp: attempt_Inr simp del: decode_digits.simps)
    obtain es where es: "exponent_path x es" "differentials x es = ?ds" "y = (last (x # es), take stop (xs @ spread n es))"
      using y(1) unfolding decode_digits_Inr [OF ds] by blast
    obtain fs where fs: "length fs = 3 * length gs" "exponent_path (last (x # es)) fs"
      "pack_differentials (differentials (last (x # es)) fs) = gs" "out = take stop ((xs @ spread n es) @ spread n fs)"
      using y(2) unfolding es(3) fst_conv snd_conv Cons.IH by blast
    have len: "length es = 3" using length_differentials [of x es] unfolding es(2) by simp
    have "pack_differentials (differentials x (es @ fs)) = g # gs"
      using fs(3) base_five_digits [of g] unfolding differentials_append es(2) by simp
    then show "\<exists>es. length es = 3 * length (g # gs) \<and> exponent_path x es \<and> pack_differentials (differentials x es) = g # gs
        \<and> out = take stop (xs @ spread n es)"
      using es(1) fs(1,2,4) len by (intro exI [of _ "es @ fs"]) (simp add: path_append spread_def)
  next
    assume "\<exists>es. length es = 3 * length (g # gs) \<and> exponent_path x es \<and> pack_differentials (differentials x es) = g # gs
        \<and> out = take stop (xs @ spread n es)"
    then obtain es where es: "length es = 3 * length (g # gs)" "exponent_path x es"
      "pack_differentials (differentials x es) = g # gs" "out = take stop (xs @ spread n es)" by blast
    let ?f = "take 3 es" and ?r = "drop 3 es"
    have split: "es = ?f @ ?r" by simp
    have f: "exponent_path x ?f" and r: "exponent_path (last (x # ?f)) ?r"
      using es(2) path_append [of x ?f ?r] by simp_all
    have "length (differentials x ?f) = 3" using es(1) by simp
    then obtain a b c where abc: "differentials x ?f = [a, b, c]" unfolding length_three by blast
    have le: "a \<le> 4" "b \<le> 4" "c \<le> 4" using differentials_le [OF f] abc by auto
    have "differentials x es = a # b # c # differentials (last (x # ?f)) ?r"
      using differentials_append [of x ?f ?r] abc by simp
    then have g: "g = 25 * a + 5 * b + c" and gs: "pack_differentials (differentials (last (x # ?f)) ?r) = gs"
      using es(3) by simp_all
    have ds: "?ds = [a, b, c]" "\<forall>d \<in> set ?ds. d \<le> 4" "g \<le> 124" using base_five [OF le(2,3), of a] le g by auto
    have first: "decode_digits n stop ?ds x (take stop xs) = Inr (last (x # ?f), take stop (xs @ spread n ?f))"
      unfolding decode_digits_Inr [OF ds(2)] using f abc ds(1) by (intro exI [of _ ?f]) simp
    have "spread n ?f @ spread n ?r = spread n es"
      unfolding spread_def by (simp only: concat_append [symmetric] map_append [symmetric] append_take_drop_id)
    then have "decode_groups n stop gs (last (x # ?f)) (take stop (xs @ spread n ?f)) = Inr out"
      unfolding Cons.IH using es(1,4) r gs by (intro exI [of _ ?r]) simp
    then show "decode_groups n stop (g # gs) x (take stop xs) = Inr out"
      using first ds(3) by (simp del: decode_digits.simps)
  qed
qed

lemma decode_exponents_Inr:
  "decode_exponents initial groups strategy stop = Inr out \<longleftrightarrow>
     0 < stop \<and> stop \<le> 253 \<and> channel_exponent_group_count stop strategy = Inr (length groups) \<and> initial \<le> 24
     \<and> (\<exists>es. length es = 3 * length groups \<and> exponent_path (int initial) es
          \<and> pack_differentials (differentials (int initial) es) = groups
          \<and> out = take stop (initial # spread (2 ^ (strategy - 1)) es))"
proof -
  have one: "0 < stop \<Longrightarrow> take stop [initial] = [initial]" by (cases stop) auto
  show ?thesis
    using decode_groups_Inr [of "2 ^ (strategy - 1)" stop groups "int initial" "[initial]" out] one
    by (cases "0 < stop") (auto simp: decode_exponents_def attempt_Inr push_bit_eq_mult)
qed

lemma group_count_covers:
  assumes "channel_exponent_group_count stop strategy = Inr n" and "stop mod 3 = 1" and "stop \<le> 253"
  shows "stop \<le> 1 + 2 ^ (strategy - 1) * (3 * n)"
proof -
  have small: "stop + 8 \<le> usize_max" using assms(3) by (simp add: usize_max_def)
  have "strategy = 1 \<or> strategy = 2 \<or> strategy = 3" using assms(1) by (auto simp: channel_exponent_group_count_def split: if_splits)
  then show ?thesis
  proof (elim disjE)
    assume s: "strategy = 1"
    then have "n = (stop - 1) div 3" using assms(1) by (simp add: channel_exponent_group_count_def)
    then show ?thesis using assms(2) s by simp presburger
  next
    assume s: "strategy = 2"
    then have "n = (stop + 2) div 6" using assms(1) small by (simp add: channel_exponent_group_count_def min_def)
    then show ?thesis using assms(2) s by simp presburger
  next
    assume s: "strategy = 3"
    then have "n = (stop + 8) div 12" using assms(1) small by (simp add: channel_exponent_group_count_def min_def)
    then show ?thesis using assms(2) s by simp presburger
  qed
qed

section \<open>The checksum register\<close>

definition crc_bits :: "bool list \<Rightarrow> 16 word \<Rightarrow> 16 word" where
  "crc_bits bs register = fold (\<lambda>b r. crc_bit r b) bs register"

lemma crc_bits_simps [simp]: "crc_bits [] r = r" "crc_bits (b # bs) r = crc_bits bs (crc_bit r b)"
  by (simp_all add: crc_bits_def)

lemma crc_bits_append: "crc_bits (xs @ ys) r = crc_bits ys (crc_bits xs r)"
  by (simp add: crc_bits_def)

lemma byte_bits_map: "byte_bits b = map (bit b) (rev [0..<8])"
proof (rule nth_equalityI)
  fix i assume "i < length (byte_bits b)"
  then have i: "i < 8" by simp
  have "byte_bits b ! i = bit (unat b) (7 - i)" using i by (simp add: byte_bits_def nth_bits_of bit_iff_odd)
  also have "\<dots> = bit b (7 - i)" by (simp add: bit_unsigned_iff)
  finally show "byte_bits b ! i = map (bit b) (rev [0..<8]) ! i" using i by (simp add: rev_nth)
qed simp

lemma crc_byte_bits: "crc_byte b = crc_bits (byte_bits b)"
  by (rule ext) (simp add: crc_byte_def crc_bits_def byte_bits_map fold_map o_def)

lemma crc16_bits: "crc16 bs = crc_bits (slice_bits bs) 0"
proof -
  have "fold crc_byte bs r = crc_bits (slice_bits bs) r" for r
    by (induction bs arbitrary: r) (simp_all add: slice_bits_def crc_byte_bits crc_bits_append)
  then show ?thesis by (simp add: crc16_def)
qed

text \<open>The register is linear in its content and its input.\<close>

definition flip :: "bool \<Rightarrow> bool \<Rightarrow> bool" where
  "flip b c \<longleftrightarrow> b \<noteq> c"

lemma crc_bit_xor: "crc_bit (r XOR s) (flip b c) = crc_bit r b XOR crc_bit s c"
  by (rule bit_word_eqI) (auto simp: crc_bit_def flip_def bit_xor_iff bit_push_bit_iff)

lemma crc_bits_xor:
  "length xs = length ys \<Longrightarrow> crc_bits (map2 flip xs ys) (r XOR s) = crc_bits xs r XOR crc_bits ys s"
  by (induction xs ys arbitrary: r s rule: list_induct2) (simp_all add: crc_bit_xor)

text \<open>Clocking is injective: bit 0 of the polynomial tells whether it was added.\<close>

lemma crc_bit_zero: "crc_bit r False = 0 \<Longrightarrow> r = 0"
proof -
  assume z: "crc_bit r False = 0"
  have even: "\<not> bit (push_bit 1 r) 0" and odd: "bit (0x8005 :: 16 word) 0" by (simp_all add: bit_0)
  have "bit (crc_bit r False) 0 = bit r 15"
    using even odd by (cases "bit r 15") (simp_all only: crc_bit_def CRC_POLYNOMIAL_def bit_xor_iff if_True if_False simp_thms)
  then have top: "\<not> bit r 15" using z by simp
  then have p: "push_bit 1 r = 0" using z by (simp add: crc_bit_def)
  show ?thesis
  proof (rule bit_word_eqI)
    fix n assume n: "n < LENGTH(16)"
    show "bit r n = bit (0 :: 16 word) n"
    proof (cases "n = 15")
      case False
      then have "bit (push_bit 1 r) (Suc n) = bit r n" using n by (simp only: bit_push_bit_iff) simp
      then show ?thesis using p by simp
    qed (use top in simp)
  qed
qed

lemma crc_zeros: "crc_bits (replicate n False) r = 0 \<Longrightarrow> r = 0"
  by (induction n arbitrary: r) (auto dest: crc_bit_zero)

text \<open>A register that a short input clears holds exactly that input, at its top.\<close>

lemma crc_bit_shift: "k < 15 \<Longrightarrow> bit (push_bit 1 (r :: 16 word)) (Suc k) = bit r k"
  by (simp only: bit_push_bit_iff) simp

lemma crc_bit_0: "bit (crc_bit r b) 0 \<longleftrightarrow> bit r 15 \<noteq> b"
proof -
  have "\<not> bit (push_bit 1 r) 0" "bit (0x8005 :: 16 word) 0" by (simp_all add: bit_0)
  then show ?thesis by (auto simp only: crc_bit_def CRC_POLYNOMIAL_def bit_xor_iff split: if_splits)
qed

lemma crc_window:
  "crc_bits w r = 0 \<Longrightarrow> length w \<le> 16 \<Longrightarrow> k < 16 \<Longrightarrow> bit r k \<longleftrightarrow> 16 - length w \<le> k \<and> w ! (15 - k)"
proof (induction w arbitrary: r k)
  case (Cons b w)
  let ?r = "crc_bit r b"
  have IH: "bit ?r k \<longleftrightarrow> 16 - length w \<le> k \<and> w ! (15 - k)" if "k < 16" for k
    using Cons.IH [of ?r k] Cons.prems that by simp
  have top: "bit r 15 = b" using IH [of 0] Cons.prems(2) crc_bit_0 [of r b] by simp
  then have shift: "?r = push_bit 1 r" by (simp add: crc_bit_def)
  show ?case
  proof (cases "k = 15")
    case True
    then show ?thesis using top by simp
  next
    case False
    then have k: "k < 15" using Cons.prems(3) by simp
    then have "bit r k \<longleftrightarrow> 16 - length w \<le> Suc k \<and> w ! (15 - Suc k)"
      using IH [of "Suc k"] crc_bit_shift [OF k, of r] shift by simp
    moreover have "15 - k = Suc (15 - Suc k)" using k by simp
    ultimately show ?thesis by (auto simp: nth_Cons')
  qed
qed simp

lemma crc_zero_zeros: "crc_bits (replicate n False) 0 = 0"
  by (induction n) (simp_all add: crc_bit_def)

lemma burst_unique:
  assumes len: "length xs = length ys" and crc: "crc_bits xs 0 = 0" "crc_bits ys 0 = 0"
    and same: "\<And>i. i < length xs \<Longrightarrow> i < p \<or> p + 16 \<le> i \<Longrightarrow> xs ! i = ys ! i"
  shows "xs = ys"
proof -
  let ?e = "map2 flip xs ys"
  let ?w = "take 16 (drop p ?e)"
  have e: "crc_bits ?e 0 = 0" using crc_bits_xor [OF len, of 0 0] crc by simp
  have nth: "i < length xs \<Longrightarrow> ?e ! i = (xs ! i \<noteq> ys ! i)" for i using len by (simp add: flip_def)
  have head: "take p ?e = replicate (min p (length ?e)) False"
    by (rule nth_equalityI) (use same len in \<open>auto simp: flip_def\<close>)
  have tail: "drop (p + 16) ?e = replicate (length ?e - (p + 16)) False"
    by (rule nth_equalityI) (use same len in \<open>auto simp: flip_def\<close>)
  have "?e = take p ?e @ ?w @ drop (p + 16) ?e"
    by (metis add.commute append_take_drop_id drop_drop)
  then have "crc_bits (drop (p + 16) ?e) (crc_bits ?w (crc_bits (take p ?e) 0)) = 0"
    using e by (metis crc_bits_append)
  then have w: "crc_bits ?w 0 = 0" unfolding head tail crc_zero_zeros by (rule crc_zeros)
  have zero: "\<not> ?w ! j" if j: "j < length ?w" for j
  proof -
    have "j < 16" "16 - length ?w \<le> 15 - j" "15 - (15 - j) = j" using j by auto
    then show ?thesis using crc_window [OF w, of "15 - j"] by simp
  qed
  show ?thesis
  proof (rule nth_equalityI [OF len])
    fix i assume i: "i < length xs"
    show "xs ! i = ys ! i"
    proof (cases "i < p \<or> p + 16 \<le> i")
      case False
      then have "i - p < length ?w" "?w ! (i - p) = ?e ! i" using i len by auto
      then show ?thesis using zero [of "i - p"] nth [OF i] by simp
    qed (rule same [OF i])
  qed
qed

lemma slice_bits_take: "slice_bits (take n bs) = take (8 * n) (slice_bits bs)"
proof (cases "n \<le> length bs")
  case True
  have "slice_bits bs = slice_bits (take n bs) @ slice_bits (drop n bs)"
    by (simp only: slice_bits_append [symmetric] append_take_drop_id)
  then show ?thesis using True by simp
qed simp

lemma slice_bits_drop: "slice_bits (drop n bs) = drop (8 * n) (slice_bits bs)"
proof (cases "n \<le> length bs")
  case True
  have "slice_bits bs = slice_bits (take n bs) @ slice_bits (drop n bs)"
    by (simp only: slice_bits_append [symmetric] append_take_drop_id)
  then show ?thesis using True by simp
next
  case False
  then have "drop n bs = []" "length (slice_bits bs) \<le> 8 * n" by simp_all
  then show ?thesis by (simp only: drop_all) (simp add: slice_bits_def)
qed

lemma crc_ok_register:
  "validate_ac3_crc bs = Inr () \<Longrightarrow> parse_syncframe_header bs = Inr h \<Longrightarrow>
   frame_size h \<le> length bs \<and> crc_bits (drop 16 (take (8 * frame_size h) (slice_bits bs))) 0 = 0"
  by (auto simp: validate_ac3_crc_def crc16_bits slice_bits_take slice_bits_drop Let_def split: if_splits)

lemma burst_detected:
  assumes ok: "validate_ac3_crc bs = Inr ()" "parse_syncframe_header bs = Inr h"
    and ok': "validate_ac3_crc bs' = Inr ()" "parse_syncframe_header bs' = Inr h"
    and p: "16 \<le> p" and len: "length bs' = length bs"
    and same: "\<And>i. i < 8 * frame_size h \<Longrightarrow> i < p \<or> p + 16 \<le> i \<Longrightarrow> slice_bits bs' ! i = slice_bits bs ! i"
  shows "take (frame_size h) bs' = take (frame_size h) bs"
proof -
  let ?x = "drop 16 (take (8 * frame_size h) (slice_bits bs'))" and ?y = "drop 16 (take (8 * frame_size h) (slice_bits bs))"
  note c = crc_ok_register [OF ok] and c' = crc_ok_register [OF ok']
  have eq: "?x = ?y"
  proof (rule burst_unique [of _ _ "p - 16"])
    fix i assume i: "i < length ?x" and "i < p - 16 \<or> p - 16 + 16 \<le> i"
    then have "16 + i < p \<or> p + 16 \<le> 16 + i" "16 + i < 8 * frame_size h" using p by auto
    then have "slice_bits bs' ! (16 + i) = slice_bits bs ! (16 + i)" by (intro same)
    moreover have "16 \<le> 8 * frame_size h" "16 \<le> 8 * length bs" "16 + i < 8 * frame_size h" using i len by simp_all
    ultimately show "?x ! i = ?y ! i" using len by simp
  qed (use c c' len in simp_all)
  have "take (8 * frame_size h) (slice_bits bs') = take (8 * frame_size h) (slice_bits bs)"
  proof (rule nth_equalityI)
    fix i assume i: "i < length (take (8 * frame_size h) (slice_bits bs'))"
    show "take (8 * frame_size h) (slice_bits bs') ! i = take (8 * frame_size h) (slice_bits bs) ! i"
    proof (cases "i < 16")
      case True
      then show ?thesis using same [of i] p i by simp
    next
      case False
      then have "?x ! (i - 16) = ?y ! (i - 16)" using eq by simp
      then show ?thesis using False i len c by simp
    qed
  qed (use len in simp)
  then show ?thesis
    by (intro slice_bits_inject) (simp add: slice_bits_take)
qed

end
