(* ===== verification/Eac3FrameTypes.thy ===== *)
theory Eac3FrameTypes
  imports Eac3FrameSpec
begin

text \<open>
  The frame state that \<open>parse_audio_frame\<close> returns is well typed: one entry per block and per
  channel, every code in the range of its field, the optional fields present exactly when the
  strategy says so.
\<close>

section \<open>Exactness of the parts\<close>

lemma ensures_then: "exact_parser m \<Longrightarrow> (\<And>a. ensures (k a) Q) \<Longrightarrow> ensures (bind_rd m k) Q"
  by (rule ensures_bind [OF ensures_exact]) simp_all

lemma ensures_bind_pair:
  "ensures m P \<Longrightarrow> (\<And>a b. P (a, b) \<Longrightarrow> ensures (k a b) Q) \<Longrightarrow> ensures (bind_rd m (\<lambda>(a, b). k a b)) Q"
  by (erule ensures_bind) (auto split: prod.split)

lemma ensures_then_pair: "exact_parser m \<Longrightarrow> (\<And>a b. ensures (k a b) Q) \<Longrightarrow> ensures (bind_rd m (\<lambda>(a, b). k a b)) Q"
  by (rule ensures_bind_pair [OF ensures_exact])

lemma ensures_bind_guard: "(c \<Longrightarrow> ensures (k ()) Q) \<Longrightarrow> ensures (bind_rd (guard_rd c e) k) Q"
  by (cases c) (simp_all add: ensures_fail)

lemma ensures_Let: "ensures (f x) Q \<Longrightarrow> ensures (Let x f) Q"
  by (simp add: Let_def)

lemma exact_skips [exact_intros]:
  "exact_parser (eac3_skip n)" "exact_parser (skip_optional n)" "exact_parser (flagged_u8 n)"
  by (auto simp: eac3_skip_def skip_optional_def flagged_u8_def intro!: exact_intros)

lemma exact_bsi_parts [exact_intros]:
  "exact_parser parse_addbsi" "exact_parser ac3_dialnorm" "exact_parser ac3_programme" "exact_parser (ac3_extension n)"
  "exact_parser (pair_of_levels b)" "exact_parser (parse_block_identification h n)"
  "exact_parser (parse_informational_metadata n)"
  by (auto simp: parse_addbsi_def ac3_dialnorm_def ac3_programme_def ac3_extension_def pair_of_levels_def
      parse_block_identification_def parse_informational_metadata_def intro!: exact_intros)

lemma exact_take_bits: "exact_parser (bind_rd (map_err f (take_bits n)) (\<lambda>_. ret ()))"
proof (rule exactI)
  fix r a r'
  assume r: "reader_ok r" and run: "bind_rd (map_err f (take_bits n)) (\<lambda>_. ret ()) r = (Inr a, r')"
  then obtain w where w: "take_bits n r = (Inr w, r')" by (auto simp: map_err_Inr ret_Inr elim!: bind_rd_InrE)
  have n: "n \<le> length (unread r)" using w r take_bits_short [of r n] by (cases "n \<le> length (unread r)") auto
  then have "r' = skip n r" using w take_bits_success [OF r n] by simp
  moreover have "reads (bind_rd (map_err f (take_bits n)) (\<lambda>_. ret ())) (take n (unread r)) a"
    unfolding reads_def
    using n by (auto simp: bind_rd_def map_err_def ret_def take_bits_success)
  ultimately show "\<exists>m \<le> length (unread r). r' = skip m r
      \<and> reads (bind_rd (map_err f (take_bits n)) (\<lambda>_. ret ())) (take m (unread r)) a" using n by blast
qed

lemma exact_mixing [exact_intros]:
  "exact_parser skip_mixing_region" "exact_parser (skip_independent_mixing a n)"
  "exact_parser (parse_mixing_metadata t a l n)"
proof -
  show region: "exact_parser skip_mixing_region"
    by (auto simp: skip_mixing_region_def intro!: exact_intros exact_take_bits)
  then show mixing: "exact_parser (skip_independent_mixing a n)" for a n
    by (auto simp: skip_independent_mixing_def intro!: exact_intros)
  then show "exact_parser (parse_mixing_metadata t a l n)"
    by (auto simp: parse_mixing_metadata_def Let_def intro!: exact_intros split: prod.split)
qed

lemma exact_frame_parts [exact_intros]:
  "exact_parser (later_couplings n b)" "exact_parser (read_couplings a n)"
  "exact_parser (skip_converter_exponents h c n)" "exact_parser (skip_transients b n)"
proof -
  show later: "exact_parser (later_couplings n b)" for n b
    by (induction n arbitrary: b) (auto intro!: exact_intros)
  then show "exact_parser (read_couplings a n)" by (auto simp: read_couplings_def intro!: exact_intros)
  show "exact_parser (skip_converter_exponents h c n)" "exact_parser (skip_transients b n)"
    by (auto simp: skip_converter_exponents_def skip_transients_def intro!: exact_intros)
qed

lemma ensures_u8: "(\<And>v. v < 2 ^ n \<Longrightarrow> Q v) \<Longrightarrow> ensures (eac3_u8 n) Q"
  unfolding eac3_u8_def by (rule ensures_read_uint)

section \<open>Bit stream information\<close>

definition block_code_ok :: "syncframe_header \<Rightarrow> nat \<Rightarrow> bool" where
  "block_code_ok h code \<longleftrightarrow> code < 4 \<and> audio_blocks h = blocks_from_code code"

lemma ensures_header: "ensures parse_header_reader (\<lambda>(h, code). block_code_ok h code)"
  unfolding parse_header_reader_def
  by (intro ensures_then ensures_bind [OF ensures_u8 [where Q = "\<lambda>v. v < 4"]] ensures_ret exact_intros)
    (simp_all add: block_code_ok_def)

lemma ensures_bsi:
  "ensures parse_bsi_reader (\<lambda>(bsi, code). audio_coding_mode bsi < 8 \<and> block_code_ok (bsi_header bsi) code)"
  unfolding parse_bsi_reader_def
  by (rule ensures_bind_pair [OF ensures_header], rule ensures_bind [OF ensures_u8 [where Q = "\<lambda>v. v < 8"]], simp)
    (intro ensures_then exact_intros ensures_ret, simp)

lemma ensures_ac3_header: "ensures parse_ac3_header_reader (\<lambda>h. audio_blocks h = 6)"
  unfolding parse_ac3_header_reader_def by (intro ensures_then ensures_ret exact_intros) simp

lemma ensures_ac3_bsi:
  "ensures parse_ac3_bsi_reader (\<lambda>bsi. audio_coding_mode bsi < 8 \<and> audio_blocks (bsi_header bsi) = 6)"
  unfolding parse_ac3_bsi_reader_def
  by (rule ensures_bind [OF ensures_ac3_header], rule ensures_then, rule exact_intros,
      rule ensures_bind [OF ensures_u8 [where Q = "\<lambda>v. v < 8"]], simp)
    (intro ensures_then ensures_then_pair ensures_Let exact_intros ensures_ret, simp)

section \<open>The frame state\<close>

definition codes_match :: "nat \<Rightarrow> nat option \<Rightarrow> nat option \<Rightarrow> bool" where
  "codes_match strategy coarse fine \<longleftrightarrow>
     (case (coarse, fine) of
        (Some c, Some f) \<Rightarrow> strategy = 0 \<and> c < 64 \<and> f < 16
      | (None, None) \<Rightarrow> strategy \<noteq> 0
      | _ \<Rightarrow> False)"

definition below :: "nat \<Rightarrow> nat list \<Rightarrow> bool" where
  "below n xs \<longleftrightarrow> (\<forall>x \<in> set xs. x < n)"

definition frame_well_typed :: "audio_frame_information \<Rightarrow> bool" where
  "frame_well_typed f \<longleftrightarrow>
     (let bsi = af_bsi f; b = audio_blocks (bsi_header bsi); c = af_full_bandwidth_channels f in
      audio_coding_mode bsi < 8 \<and> c = full_bandwidth_channels (audio_coding_mode bsi) \<and> 1 \<le> c \<and> c \<le> 5
    \<and> b \<in> {1, 2, 3, 6} \<and> snr_offset_strategy f < 3 \<and> af_syntax f < 128
    \<and> codes_match (snr_offset_strategy f) (frame_coarse_snr_code f) (frame_fine_snr_code f)
    \<and> length (coupling_in_use f) = b \<and> length (coupling_strategy_exists f) = b
    \<and> (audio_coding_mode bsi < 2 \<longrightarrow> True \<notin> set (coupling_in_use f))
    \<and> length (coupling_exponent_strategy f) = b \<and> below 4 (coupling_exponent_strategy f)
    \<and> length (channel_exponent_strategy f) = b
    \<and> (\<forall>row \<in> set (channel_exponent_strategy f). length row = c \<and> below 4 row)
    \<and> length (lfe_exponent_strategy f) = b \<and> (\<not> lfe_on bsi \<longrightarrow> True \<notin> set (lfe_exponent_strategy f))
    \<and> length (channel_aht_in_use f) = c
    \<and> (coupling_aht_in_use f \<or> True \<in> set (channel_aht_in_use f) \<or> lfe_aht_in_use f \<longrightarrow> b = 6)
    \<and> length (spx_attenuation_codes f) = c \<and> (\<forall>x. Some x \<in> set (spx_attenuation_codes f) \<longrightarrow> x < 32)
    \<and> (\<forall>a. block_start_information f = Some a \<longrightarrow> b \<noteq> 1
          \<and> block_start_information_length (frame_size (bsi_header bsi)) b = Inr (aux_bit_len a)))"

lemma full_bandwidth_range: "acmod < 8 \<Longrightarrow> 1 \<le> full_bandwidth_channels acmod \<and> full_bandwidth_channels acmod \<le> 5"
proof -
  assume "acmod < 8"
  moreover have "list_all (\<lambda>a. 1 \<le> full_bandwidth_channels a \<and> full_bandwidth_channels a \<le> 5) [0..<8]"
    by (simp add: full_bandwidth_channels_def upt_rec)
  ultimately show ?thesis by (simp add: list_all_iff)
qed

lemma blocks_of_code: "c < 4 \<Longrightarrow> blocks_from_code c \<in> {1, 2, 3, 6}" "c < 4 \<Longrightarrow> blocks_from_code c = 6 \<longleftrightarrow> c = 3"
  "c < 4 \<Longrightarrow> blocks_from_code c = 1 \<longleftrightarrow> c = 0"
  by (auto simp: blocks_from_code_def less_Suc_eq numeral_eq_Suc)

lemma frame_strategy_rows:
  "decode_frame_exponent_strategy code = Inr row \<Longrightarrow> length row = 6 \<and> below 4 row"
proof -
  have "list_all (\<lambda>row. length row = 6 \<and> list_all (\<lambda>x. x < 4) row) FRAME_EXPONENT_STRATEGIES"
    by (simp add: FRAME_EXPONENT_STRATEGIES_def)
  then show "decode_frame_exponent_strategy code = Inr row \<Longrightarrow> length row = 6 \<and> below 4 row"
    by (auto simp: decode_frame_exponent_strategy_def below_def list_all_length in_set_conv_nth split: if_splits)
qed

lemma ensures_lift: "(\<And>a. x = Inr a \<Longrightarrow> Q a) \<Longrightarrow> ensures (lift_rd x) Q"
  by (cases x) (auto intro: ensures_ret ensures_fail)

lemma ensures_flags: "ensures syntax_flags (\<lambda>v. v < 128)"
proof -
  have "horner_sum of_bool 2 bs < (2 :: nat) ^ length bs" for bs
    by (induction bs) auto
  then have seven: "length bs = 7 \<Longrightarrow> horner_sum of_bool 2 bs < (128 :: nat)" for bs
    by (rule less_le_trans) simp
  show ?thesis
    unfolding syntax_flags_def
    by (rule ensures_bind [OF ensures_repeat [OF ensures_exact [OF exact_eac3_fields(2)]]], rule ensures_ret)
      (simp add: seven)
qed

lemma ensures_couplings:
  "ensures (later_couplings n p) (\<lambda>xs. length xs = n)"
  "0 < n \<Longrightarrow> ensures (read_couplings acmod n)
     (\<lambda>xs. length xs = n \<and> (acmod < 2 \<longrightarrow> True \<notin> set (map snd xs)))"
proof -
  show later: "ensures (later_couplings n p) (\<lambda>xs. length xs = n)" for n p
  proof (induction n arbitrary: p)
    case (Suc n)
    show ?case
      by (simp only: later_couplings.simps)
        (rule ensures_then, intro exact_intros, rule ensures_then, intro exact_intros, rule ensures_bind [OF Suc],
          rule ensures_ret, simp)
  qed (simp add: ensures_ret)
  assume n: "0 < n"
  show "ensures (read_couplings acmod n) (\<lambda>xs. length xs = n \<and> (acmod < 2 \<longrightarrow> True \<notin> set (map snd xs)))"
    unfolding read_couplings_def
    by (rule ensures_if, rule ensures_then, intro exact_intros, rule ensures_bind [OF later], rule ensures_ret)
      (use n in \<open>auto intro: ensures_ret\<close>)
qed

definition strategies_ok :: "nat \<Rightarrow> nat \<Rightarrow> nat list \<times> nat list list \<Rightarrow> bool" where
  "strategies_ok blocks channels x \<longleftrightarrow> length (fst x) = blocks \<and> below 4 (fst x) \<and> length (snd x) = blocks
     \<and> (\<forall>row \<in> set (snd x). length row = channels \<and> below 4 row)"

lemma ensures_block_strategies:
  "ensures (read_block_strategies channels used) (strategies_ok (length used) channels)"
proof -
  let ?P = "\<lambda>x :: nat \<times> nat list. fst x < 4 \<and> length (snd x) = channels \<and> below 4 (snd x)"
  have row: "ensures (bind_rd (if u then eac3_u8 2 else ret 0) (\<lambda>c.
       bind_rd (repeat_rd channels (eac3_u8 2)) (\<lambda>cs. ret (c, cs)))) ?P" for u
    by (rule ensures_bind [of _ "\<lambda>c. c < 4"], intro ensures_if ensures_u8 ensures_ret, simp, simp,
        rule ensures_bind [OF ensures_repeat [OF ensures_u8 [where Q = "\<lambda>c. c < 4"]]], simp, rule ensures_ret)
      (simp add: below_def)
  show ?thesis
    unfolding read_block_strategies_def
    by (rule ensures_bind [OF ensures_each [OF row]], rule ensures_ret)
      (auto simp: strategies_ok_def below_def dest: list_all2_lengthD list_all2_mem2)
qed

lemma ensures_frame_strategy: "ensures read_frame_strategy (\<lambda>row. length row = 6 \<and> below 4 row)"
  unfolding read_frame_strategy_def by (intro ensures_then exact_intros ensures_lift frame_strategy_rows)

lemma ensures_frame_strategies:
  assumes "length used = 6"
  shows "ensures (read_frame_strategies acmod channels used) (strategies_ok 6 channels)"
proof -
  have c: "ensures (if acmod > 1 \<and> True \<in> set used then read_frame_strategy else ret (replicate (length used) 0))
      (\<lambda>row. length row = 6 \<and> below 4 row)"
    by (intro ensures_if ensures_frame_strategy ensures_ret) (simp add: assms below_def)
  show ?thesis
    unfolding read_frame_strategies_def
    by (rule ensures_bind [OF c], rule ensures_bind [OF ensures_repeat [OF ensures_frame_strategy]], rule ensures_ret)
      (auto simp: strategies_ok_def below_def assms)
qed

lemma ensures_aht:
  "ensures (read_aht a couplings cs rows channels lfe ls)
     (\<lambda>(c, xs, l). length xs = channels \<and> (c \<or> True \<in> set xs \<or> l \<longrightarrow> a))"
proof -
  have each: "ensures (each_rd (\<lambda>channel.
            if length (filter (\<lambda>row. row ! channel \<noteq> 0) rows) = 1 then eac3_bit else ret False) [0..<channels])
      (\<lambda>xs. length xs = channels)"
    by (rule ensures_weaken [OF ensures_each [where P = "\<lambda>_ _. True"]])
      (auto intro!: ensures_if ensures_exact exact_intros ensures_ret dest: list_all2_lengthD)
  show ?thesis
    unfolding read_aht_def Let_def
    by (rule ensures_if, rule ensures_ret, simp, rule ensures_then, intro exact_intros, rule ensures_bind [OF each],
        rule ensures_then, intro exact_intros, rule ensures_ret, simp)
qed

lemma ensures_spx: "ensures (read_spx_attenuation b n) (\<lambda>xs. length xs = n \<and> (\<forall>x. Some x \<in> set xs \<longrightarrow> x < 32))"
proof -
  have "ensures (flagged_u8 5) (\<lambda>x. \<forall>v. x = Some v \<longrightarrow> v < 32)"
    unfolding flagged_u8_def
    by (intro ensures_then exact_intros ensures_when [OF ensures_u8 [where Q = "\<lambda>v. v < 32"]]) auto
  then show ?thesis
    unfolding read_spx_attenuation_def
    by (intro ensures_if ensures_ret) (erule ensures_weaken [OF ensures_repeat], auto)
qed

lemma ensures_raw_bits: "ensures (read_raw_bits n) (\<lambda>a. aux_bit_len a = n)"
  unfolding read_raw_bits_def by (intro ensures_if ensures_fail ensures_then exact_intros ensures_ret) simp

lemma ensures_block_start:
  "ensures (read_block_start code h) (\<lambda>x. \<forall>a. x = Some a \<longrightarrow> code \<noteq> 0
     \<and> block_start_information_length (frame_size h) (audio_blocks h) = Inr (aux_bit_len a))"
proof -
  have flag: "ensures (if code \<noteq> 0 then eac3_bit else ret False) (\<lambda>p. p \<longrightarrow> code \<noteq> 0)"
    by (rule ensures_if, rule ensures_weaken [OF ensures_exact]) (auto intro: exact_intros ensures_ret)
  have field: "ensures (bind_rd (lift_rd (block_start_information_length (frame_size h) (audio_blocks h))) read_raw_bits)
      (\<lambda>a. block_start_information_length (frame_size h) (audio_blocks h) = Inr (aux_bit_len a))"
    by (rule ensures_bind [OF ensures_lift [where Q = "\<lambda>n. block_start_information_length (frame_size h) (audio_blocks h) = Inr n"]],
        simp, rule ensures_weaken [OF ensures_raw_bits], simp)
  show ?thesis
    unfolding read_block_start_def by (rule ensures_bind [OF flag], rule ensures_when [OF field]) auto
qed

lemma ensures_codes:
  "ensures (when_rd (snr = 0) (bind_rd (eac3_u8 6) (\<lambda>c. bind_rd (eac3_u8 4) (\<lambda>f. ret (c, f)))))
     (\<lambda>x. codes_match snr (map_option fst x) (map_option snd x))"
proof -
  have "ensures (bind_rd (eac3_u8 6) (\<lambda>c. bind_rd (eac3_u8 4) (\<lambda>f. ret (c, f)))) (\<lambda>x. fst x < 64 \<and> snd x < 16)"
    by (rule ensures_bind [OF ensures_u8 [where Q = "\<lambda>v. v < 64"]], simp,
        rule ensures_bind [OF ensures_u8 [where Q = "\<lambda>v. v < 16"]], simp, rule ensures_ret) simp
  then show ?thesis by (rule ensures_when) (auto simp: codes_match_def)
qed

lemma ensures_offset: "ensures (read_offset n) (\<lambda>k. k \<le> n)"
  by (auto simp: ensures_def read_offset_def split: if_splits)

lemma ensures_eac3_frame:
  "ensures (parse_eac3_audio_frame bits) (\<lambda>f. frame_well_typed f \<and> audio_blocks_offset_bits f \<le> bits)"
  unfolding parse_eac3_audio_frame_def Let_def
proof (rule ensures_bind_pair [OF ensures_bsi], clarify, goal_cases)
  case (1 bsi code)
  let ?c = "full_bandwidth_channels (audio_coding_mode bsi)" and ?b = "audio_blocks (bsi_header bsi)"
  note c = full_bandwidth_range [OF 1(1)]
  have code: "code < 4" and b: "?b = blocks_from_code code" using 1(2) by (simp_all add: block_code_ok_def)
  note blocks = blocks_of_code [OF code]
  have pos: "0 < ?b" using blocks(1) b by auto
  have exists: "ensures (if code = 3 then bind_rd eac3_bit (\<lambda>a. bind_rd eac3_bit (\<lambda>b. ret (a, b))) else ret (True, False))
      (\<lambda>(x, aht). (\<not> x \<longrightarrow> ?b = 6) \<and> (aht \<longrightarrow> ?b = 6))"
    using blocks(2) b by (intro ensures_if ensures_then exact_intros ensures_ret) auto
  have strategies: "ensures (if x then read_block_strategies ?c (map snd couplings)
        else read_frame_strategies (audio_coding_mode bsi) ?c (map snd couplings)) (strategies_ok ?b ?c)"
    if "\<not> x \<longrightarrow> ?b = 6" "length couplings = ?b" for x couplings
    using that ensures_block_strategies [of ?c "map snd couplings"]
      ensures_frame_strategies [of "map snd couplings" "audio_coding_mode bsi" ?c] by simp
  have lfe: "ensures (if lfe_on bsi then repeat_rd ?b eac3_bit else ret (replicate ?b False))
      (\<lambda>xs. length xs = ?b \<and> (\<not> lfe_on bsi \<longrightarrow> True \<notin> set xs))"
    by (rule ensures_if, rule ensures_weaken [OF ensures_repeat [OF ensures_exact [OF exact_eac3_fields(2)]]])
      (auto intro: ensures_ret)
  show ?case
    apply (rule ensures_bind_pair [OF exists])
    apply (rule ensures_bind [OF ensures_u8 [where Q = "\<lambda>v. v < 4"]], simp)
    apply (rule ensures_bind_guard)
    apply (rule ensures_then, intro exact_intros)
    apply (rule ensures_bind [OF ensures_flags])
    apply (rule ensures_bind [OF ensures_couplings(2) [OF pos]])
    apply (rule ensures_bind_pair [OF strategies], simp, simp)
    apply (rule ensures_bind [OF lfe])
    apply (rule ensures_then, intro exact_intros)
    apply (rule ensures_bind [OF ensures_aht], clarify)
    apply (rule ensures_bind [OF ensures_codes])
    apply (rule ensures_then, intro exact_intros)
    apply (rule ensures_bind [OF ensures_spx])
    apply (rule ensures_bind [OF ensures_block_start])
    apply (rule ensures_bind [OF ensures_offset])
    apply (rule ensures_ret)
    using 1 c blocks b
    apply (auto simp: frame_well_typed_def strategies_ok_def)
    done
qed

lemma ensures_ac3_frame:
  "ensures (parse_ac3_audio_frame bits) (\<lambda>f. frame_well_typed f \<and> audio_blocks_offset_bits f \<le> bits)"
  unfolding parse_ac3_audio_frame_def Let_def
proof (rule ensures_bind [OF ensures_ac3_bsi], goal_cases)
  case (1 bsi)
  then show ?case
    using full_bandwidth_range [of "audio_coding_mode bsi"]
    by (intro ensures_bind [OF ensures_offset] ensures_ret) (simp add: frame_well_typed_def codes_match_def below_def)
qed

lemma audio_frame_typed:
  assumes "parse_audio_frame bs = Inr f" and fits: "8 * length bs \<le> usize_max"
  shows "frame_well_typed f \<and> audio_blocks_offset_bits f \<le> 8 * length bs"
proof -
  obtain h where h: "parse_syncframe_header bs = Inr h" "frame_size h \<le> length bs"
    and run: "fst (if stream_type h = LegacyIndependent
        then parse_ac3_audio_frame (frame_size h * 8) (new_reader (take (frame_size h) bs))
        else parse_eac3_audio_frame (frame_size h * 8) (new_reader (take (frame_size h) bs))) = Inr f"
    using assms(1) by (auto simp: parse_audio_frame_def attempt_Inr Let_def checked_usize_def split: if_splits)
  have ok: "reader_ok (new_reader (take (frame_size h) bs))" using fits h(2) by (intro new_reader_ok) simp
  have "frame_well_typed f \<and> audio_blocks_offset_bits f \<le> frame_size h * 8"
  proof (cases "stream_type h = LegacyIndependent")
    case True
    then have "fst (parse_ac3_audio_frame (frame_size h * 8) (new_reader (take (frame_size h) bs))) = Inr f"
      using run by simp
    from fst_run [OF this] show ?thesis using ensuresD [OF ensures_ac3_frame ok] by blast
  next
    case False
    then have "fst (parse_eac3_audio_frame (frame_size h * 8) (new_reader (take (frame_size h) bs))) = Inr f"
      using run by simp
    from fst_run [OF this] show ?thesis using ensuresD [OF ensures_eac3_frame ok] by blast
  qed
  then show ?thesis using h(2) by auto
qed

end
