(* ===== verification/Eac3ShortUnits.thy ===== *)
theory Eac3ShortUnits
  imports Eac3FrameTypes
begin

text \<open>
  The streaming search against the batch functions for units of short frames.  Both follow the
  programme sets of the unit, an independent frame and its dependent ones; the grouping also asks that
  the sets have the same number of dependent frames, which the search does not.
\<close>

section \<open>The programme sets of a unit\<close>

abbreviation dep :: "syncframe_index_entry \<Rightarrow> bool" where
  "dep e \<equiv> is_dependent (entry_header e)"

text \<open>How many dependent frames follow each independent one.\<close>

function dependent_runs :: "syncframe_index_entry list \<Rightarrow> nat list" where
  "dependent_runs [] = []"
| "dependent_runs (e # es) = length (takeWhile dep es) # dependent_runs (dropWhile dep es)"
  by pat_completeness auto
termination by (relation "measure length") (auto simp: length_dropWhile_le less_Suc_eq_le)

text \<open>All of one number, which may be given.\<close>

fun uniform :: "nat option \<Rightarrow> nat list \<Rightarrow> bool" where
  "uniform expected [] = True"
| "uniform expected (k # ks) = ((expected = None \<or> expected = Some k) \<and> uniform (Some k) ks)"

lemma uniform_Some: "uniform (Some k) ks \<longleftrightarrow> (\<forall>x \<in> set ks. x = k)"
  by (induction ks) auto

lemma uniform_None: "uniform None ks \<longleftrightarrow> (\<forall>x \<in> set ks. \<forall>y \<in> set ks. x = y)"
  by (cases ks) (simp_all add: uniform_Some, metis)

section \<open>One step of the search\<close>

lemma short_bounds_step:
  assumes "short_bounds bs eos first current t d c = Inr (Complete n)"
  obtains (stop) "c = n" "t = 6"
  | (dependent) h where "parse_syncframe_header (drop c bs) = Inr h" "is_dependent h" "d < 8" "substream_id h = d"
      "sample_rate h = sample_rate first" "audio_blocks h = audio_blocks current"
      "c + frame_size h \<le> length bs" "short_bounds bs eos first current t (Suc d) (c + frame_size h) = Inr (Complete n)"
  | (programme) h where "parse_syncframe_header (drop c bs) = Inr h" "stream_type h = Independent" "substream_id h = 0"
      "sample_rate h = sample_rate first" "t \<noteq> 6" "t + audio_blocks h \<le> 6"
      "c + frame_size h \<le> length bs" "short_bounds bs eos first h (t + audio_blocks h) 0 (c + frame_size h) = Inr (Complete n)"
  using assms [unfolded short_bounds.simps [of bs eos first current t d c]]
  by (auto simp: starved_def GENERAL_MAX_DEPENDENT_SUBSTREAMS_def Let_def split: if_splits sum.splits)

lemma short_bounds_range:
  "short_bounds bs eos first current t d c = Inr (Complete n) \<Longrightarrow> c \<le> n \<and> (c \<le> length bs \<longrightarrow> n \<le> length bs)"
proof (induction "length bs - c" arbitrary: c current t d rule: less_induct)
  case less
  from less.prems show ?case
  proof (cases rule: short_bounds_step)
    case (dependent h)
    from frame_size_pos [OF dependent(1)] dependent(7) have "c + frame_size h \<le> n \<and> n \<le> length bs"
      using less.hyps [OF _ dependent(8)] by simp
    then show ?thesis by simp
  next
    case (programme h)
    from frame_size_pos [OF programme(1)] programme(7) have "c + frame_size h \<le> n \<and> n \<le> length bs"
      using less.hyps [OF _ programme(8)] by simp
    then show ?thesis by simp
  qed simp
qed

lemmas short_bounds_le = short_bounds_range [THEN conjunct1]

text \<open>The step at the frame that the index has there.\<close>

lemma short_bounds_at:
  assumes run: "short_bounds bs eos first current t d c = Inr (Complete n)"
    and tile: "frames_tile (take n bs) c (e # es)" and fits: "8 * length bs \<le> usize_max"
  obtains (dependent) "dep e" "d < 8" "substream_id (entry_header e) = d"
      "sample_rate (entry_header e) = sample_rate first" "audio_blocks (entry_header e) = audio_blocks current"
      "short_bounds bs eos first current t (Suc d) (c + frame_size (entry_header e)) = Inr (Complete n)"
  | (programme) "stream_type (entry_header e) = Independent" "substream_id (entry_header e) = 0"
      "sample_rate (entry_header e) = sample_rate first" "t \<noteq> 6" "t + audio_blocks (entry_header e) \<le> 6"
      "short_bounds bs eos first (entry_header e) (t + audio_blocks (entry_header e)) 0 (c + frame_size (entry_header e))
        = Inr (Complete n)"
proof -
  have c: "c < n" and parse: "parse_syncframe_header (drop c (take n bs)) = Inr (entry_header e)" using tile by auto
  have here: "parse_syncframe_header (drop c bs) = Inr (entry_header e)"
    using header_of_prefix [OF parse fits] c by simp
  from run show thesis
  proof (cases rule: short_bounds_step)
    case stop
    then show thesis using c by simp
  next
    case (dependent h)
    then show thesis using that(1) here by simp
  next
    case (programme h)
    then show thesis using that(2) here by simp
  qed
qed

section \<open>The dependent frames of a set\<close>

lemma short_dependents:
  assumes "short_bounds bs eos first current t d c = Inr (Complete n)" and "frames_tile (take n bs) c es"
    and "8 * length bs \<le> usize_max" and "sample_rate current = sample_rate first"
    and "n \<le> length bs"
  shows "group_dependents (pre @ es) current d (length pre) = Inr (length pre + length (takeWhile dep es))"
    and "dropWhile dep es = [] \<Longrightarrow> t = 6"
    and "dropWhile dep es = e # rest \<Longrightarrow> stream_type (entry_header e) = Independent \<and> substream_id (entry_header e) = 0
      \<and> sample_rate (entry_header e) = sample_rate first \<and> t \<noteq> 6 \<and> t + audio_blocks (entry_header e) \<le> 6
      \<and> (\<exists>c'. short_bounds bs eos first (entry_header e) (t + audio_blocks (entry_header e)) 0 c' = Inr (Complete n)
           \<and> frames_tile (take n bs) c' rest)"
proof -
  have "group_dependents (pre @ es) current d (length pre) = Inr (length pre + length (takeWhile dep es))
    \<and> (dropWhile dep es = [] \<longrightarrow> t = 6)
    \<and> (\<forall>e rest. dropWhile dep es = e # rest \<longrightarrow> stream_type (entry_header e) = Independent \<and> substream_id (entry_header e) = 0
      \<and> sample_rate (entry_header e) = sample_rate first \<and> t \<noteq> 6 \<and> t + audio_blocks (entry_header e) \<le> 6
      \<and> (\<exists>c'. short_bounds bs eos first (entry_header e) (t + audio_blocks (entry_header e)) 0 c' = Inr (Complete n)
           \<and> frames_tile (take n bs) c' rest))"
    using assms
  proof (induction es arbitrary: pre c d)
    case Nil
    then have c: "c = n" by simp
    from Nil.prems(1) have "t = 6"
    proof (cases rule: short_bounds_step)
      case (dependent h)
      then show ?thesis using short_bounds_le [OF dependent(8)] frame_size_pos [OF dependent(1)] c by simp
    next
      case (programme h)
      then show ?thesis using short_bounds_le [OF programme(8)] frame_size_pos [OF programme(1)] c by simp
    qed simp
    then show ?case by (subst group_dependents.simps) simp
  next
    case (Cons e es)
    have tile: "frames_tile (take n bs) (c + frame_size (entry_header e)) es" using Cons.prems(2) by simp
    have at: "header_at (pre @ e # es) (length pre) = entry_header e" by simp
    from Cons.prems(1-3) show ?case
    proof (cases rule: short_bounds_at)
      case dependent
      note ih = Cons.IH [OF dependent(6) tile Cons.prems(3-5), of "pre @ [e]"]
      have "group_dependents (pre @ e # es) current d (length pre)
          = group_dependents (pre @ e # es) current (Suc d) (Suc (length pre))"
        using dependent Cons.prems(4) at
        by (subst group_dependents.simps) (simp add: Let_def GENERAL_MAX_DEPENDENT_SUBSTREAMS_def)
      moreover have w: "takeWhile dep (e # es) = e # takeWhile dep es" "dropWhile dep (e # es) = dropWhile dep es"
        using dependent(1) by simp_all
      moreover have "group_dependents (pre @ e # es) current (Suc d) (Suc (length pre))
          = Inr (length pre + length (takeWhile dep (e # es)))"
        using conjunct1 [OF ih] w(1) by simp
      ultimately have "group_dependents (pre @ e # es) current d (length pre)
          = Inr (length pre + length (takeWhile dep (e # es)))" by simp
      then show ?thesis unfolding w(2) by (rule conjI) (rule conjunct2 [OF ih])
    next
      case programme
      then have "\<not> dep e" by simp
      moreover have "group_dependents (pre @ e # es) current d (length pre) = Inr (length pre)"
        using \<open>\<not> dep e\<close> at by (subst group_dependents.simps) simp
      ultimately show ?thesis using programme tile by auto
    qed
  qed
  then show "group_dependents (pre @ es) current d (length pre) = Inr (length pre + length (takeWhile dep es))"
    and "dropWhile dep es = [] \<Longrightarrow> t = 6"
    and "dropWhile dep es = e # rest \<Longrightarrow> stream_type (entry_header e) = Independent \<and> substream_id (entry_header e) = 0
      \<and> sample_rate (entry_header e) = sample_rate first \<and> t \<noteq> 6 \<and> t + audio_blocks (entry_header e) \<le> 6
      \<and> (\<exists>c'. short_bounds bs eos first (entry_header e) (t + audio_blocks (entry_header e)) 0 c' = Inr (Complete n)
           \<and> frames_tile (take n bs) c' rest)" by blast+
qed

section \<open>The sets of a unit\<close>

definition decided :: "bool \<Rightarrow> 'a \<Rightarrow> 'e + 'a \<Rightarrow> bool" where
  "decided c a out \<longleftrightarrow> (if c then out = Inr a else \<exists>err. out = Inl err)"

lemma short_sets:
  assumes "short_bounds bs eos base (entry_header e) (t + audio_blocks (entry_header e)) 0 c = Inr (Complete n)"
    and "frames_tile (take n bs) c es" and "8 * length bs \<le> usize_max"
    and "stream_type (entry_header e) = Independent" and "substream_id (entry_header e) = 0"
    and "sample_rate (entry_header e) = sample_rate base" and "t + audio_blocks (entry_header e) \<le> 6"
    and "n \<le> length bs"
  shows "decided (uniform expected (dependent_runs (e # es))) (length (pre @ e # es))
    (group_sets (pre @ e # es) base t expected (length pre))"
  using assms
proof (induction "length es" arbitrary: pre e es t c expected rule: less_induct)
  case less
  let ?fs = "pre @ e # es" and ?h = "entry_header e" and ?k = "length (takeWhile dep es)"
  let ?t = "t + audio_blocks ?h"
  note dependents = short_dependents [OF less.prems(1-3,6,8)]
  have split: "es = takeWhile dep es @ dropWhile dep es" by simp
  have "group_dependents ((pre @ [e]) @ es) ?h 0 (length (pre @ [e])) = Inr (length (pre @ [e]) + ?k)"
    by (rule dependents(1))
  then have run: "group_dependents ?fs ?h 0 (length pre + 1) = Inr (length pre + 1 + ?k)" by simp
  have at: "header_at ?fs (length pre) = ?h" by simp
  have sets: "group_sets ?fs base t expected (length pre) =
      (if expected \<noteq> None \<and> expected \<noteq> Some ?k then Inl (SubstreamTimingMismatch (length pre + 1 + ?k))
       else if ?t = 6 then Inr (length pre + 1 + ?k)
       else if length pre + 1 + ?k \<ge> length ?fs then Inl InvalidAccessUnitRange
       else if stream_type (header_at ?fs (length pre + 1 + ?k)) \<noteq> Independent
            \<or> substream_id (header_at ?fs (length pre + 1 + ?k)) \<noteq> 0
       then Inl (MissingIndependentSubstreamZero (length pre + 1 + ?k))
       else group_sets ?fs base ?t (Some ?k) (length pre + 1 + ?k))"
    using less.prems(4-7) run at by (subst group_sets.simps) (simp add: Let_def)
  show ?case
  proof (cases "expected = None \<or> expected = Some ?k")
    case False
    then show ?thesis using sets by (auto simp: decided_def)
  next
    case True
    show ?thesis
    proof (cases "dropWhile dep es")
      case Nil
      have "length es = ?k" using split Nil by (metis append_Nil2)
      moreover have "dependent_runs (e # es) = [?k]" by (simp only: dependent_runs.simps Nil)
      moreover have "group_sets ?fs base t expected (length pre) = Inr (length pre + 1 + ?k)"
        unfolding sets using True dependents(2) [OF Nil] by auto
      ultimately show ?thesis using True by (auto simp: decided_def)
    next
      case (Cons e' rest)
      from dependents(3) [OF Cons] obtain c' where succ: "stream_type (entry_header e') = Independent"
        "substream_id (entry_header e') = 0" "sample_rate (entry_header e') = sample_rate base" "?t \<noteq> 6"
        "?t + audio_blocks (entry_header e') \<le> 6" "frames_tile (take n bs) c' rest"
        "short_bounds bs eos base (entry_header e') (?t + audio_blocks (entry_header e')) 0 c' = Inr (Complete n)"
        by blast
      let ?pre = "pre @ e # takeWhile dep es"
      have fs: "?fs = ?pre @ e' # rest" using split Cons by simp
      have at': "header_at (?pre @ e' # rest) (length ?pre) = entry_header e'" by (simp only: nth_append_length)
      have after: "length pre + 1 + ?k = length ?pre" by simp
      have shorter: "length rest < length es" using split Cons by (metis add_Suc_right length_Cons length_append less_add_Suc2)
      have "group_sets ?fs base t expected (length pre) = group_sets ?fs base ?t (Some ?k) (length ?pre)"
        using sets [unfolded after fs at'] True succ(1,2,4) unfolding fs by auto
      moreover have "uniform expected (dependent_runs (e # es)) = uniform (Some ?k) (dependent_runs (e' # rest))"
        using True by (simp only: dependent_runs.simps(2) [of e es] Cons uniform.simps simp_thms)
      ultimately show ?thesis
        using less.hyps [OF shorter succ(7,6) less.prems(3) succ(1-3,5) less.prems(8), of "Some ?k" ?pre]
        by (simp only: fs)
    qed
  qed
qed

text \<open>
  Both kinds of units: six-block frames, where there is nothing to compare, and short frames.
\<close>

lemma streaming_grouping:
  assumes bounds: "parse_access_unit_bounds bs eos = Inr (Complete n)" and first: "parse_syncframe_header bs = Inr h"
    and fits: "8 * length bs \<le> usize_max" and index: "index_syncframes (take n bs) = Inr es"
  shows "group_access_units es = Inr [\<lparr>first_frame = 0, frame_count = length es, unit_sample_rate = 48000,
             unit_samples = (if 6 \<le> audio_blocks h then frame_samples h else 1536)\<rparr>]
         \<longleftrightarrow> 6 \<le> audio_blocks h \<or> (\<forall>x \<in> set (dependent_runs es). \<forall>y \<in> set (dependent_runs es). x = y)"
proof (cases "6 \<le> audio_blocks h")
  case True
  then show ?thesis using streaming_unit [OF bounds first True fits index] by simp
next
  case short: False
  have zero: "is_independent_zero h" "sample_rate h = 48000" "frame_size h \<le> length bs"
    and run: "short_bounds bs eos h h (audio_blocks h) 0 (frame_size h) = Inr (Complete n)"
    using bounds first short
    by (auto simp: parse_access_unit_bounds_def starved_def parse_short_access_unit_bounds_def attempt_Inr split: if_splits)
  have indep: "stream_type h = Independent" "substream_id h = 0"
  proof -
    have "audio_blocks h = 6" if "stream_type h = LegacyIndependent"
    proof -
      have ok: "reader_ok (new_reader bs)" using fits by (rule new_reader_ok)
      from first show ?thesis
      proof (cases rule: header_cases)
        case (ac3 u)
        then show ?thesis using ensuresD [OF ensures_ac3_header ok] by blast
      next
        case (eac3 g m u)
        have "ensures parse_header_reader (\<lambda>(g, _). stream_type g \<noteq> LegacyIndependent)"
          unfolding parse_header_reader_def
          by (rule ensures_then [OF exact_headers(1)],
              rule ensures_bind [where P = "\<lambda>t. t \<noteq> LegacyIndependent"])
            (auto simp: parse_stream_type_def intro!: ensures_then ensures_ret ensures_fail ensures_if exact_intros)
        from ensuresD [OF this ok eac3(1)] that eac3(2) show ?thesis by simp
      qed
    qed
    then have "stream_type h \<noteq> LegacyIndependent" using short by auto
    then show "stream_type h = Independent" "substream_id h = 0" using zero(1) by (auto simp: is_independent_zero_def)
  qed
  have n: "frame_size h \<le> n" by (rule short_bounds_le [OF run])
  have "length (take n bs) \<le> usize_max" using fits by simp
  then have tile: "frames_tile (take n bs) 0 es"
    using index index_from_tile [of "take n bs" 0 "[]" es] by (simp add: index_syncframes_def)
  have "0 < n" "0 < length bs" using n frame_size_pos [OF first] zero(3) by auto
  then obtain e rest where es: "es = e # rest" using tile by (cases es) (auto simp: min_def split: if_splits)
  then have parse: "parse_syncframe_header (drop 0 (take n bs)) = Inr (entry_header e)" using tile by simp
  then have e: "entry_header e = h" using header_of_prefix [OF parse fits] first by simp
  have tail: "frames_tile (take n bs) (frame_size h) rest" using tile e by (simp add: es)
  have blocks: "audio_blocks h \<le> 6" using short by simp
  have inside: "n \<le> length bs" using short_bounds_range [OF run] zero(3) by simp
  have "decided (uniform None (dependent_runs (e # rest))) (length ([] @ e # rest)) (group_sets ([] @ e # rest) h 0 None (length []))"
    using short_sets [of bs eos h e 0 "frame_size h" n rest None "[]"] inside run tail fits indep e blocks by simp
  then have sets: "decided (uniform None (dependent_runs es)) (length es) (group_sets es h 0 None 0)"
    unfolding es append_Nil list.size(3) .
  have unit: "group_access_units es = (case group_sets es h 0 None 0 of Inl err \<Rightarrow> Inl err
      | Inr end \<Rightarrow> group_from es [\<lparr>first_frame = 0, frame_count = end, unit_sample_rate = 48000, unit_samples = 1536\<rparr>] end)"
    using short indep zero(2) e unfolding group_access_units_def
    by (subst group_from.simps) (simp add: es Let_def group_short_access_unit_def split: sum.split)
  have stop: "group_from es us (length es) = Inr us" for us
    by (subst group_from.simps) simp
  show ?thesis
    using sets unit stop short by (auto simp: decided_def uniform_None [symmetric] split: if_splits)
qed

end
