(* ===== verification/Eac3BitAllocation.thy ===== *)
theory Eac3BitAllocation
  imports Eac3Header
begin

text \<open>
  The fixed-point bit allocation, \<open>crates/openjoc-eac3/src/bit_allocation.rs\<close>: from exponents to the
  power spectral density, its integration into 50 bands, the excitation function, the masking
  curve with its delta segments, and the bit allocation pointers.  An \<open>i16\<close> is an integer; the
  saturating operations are \<open>saturating_add16\<close> and \<open>saturating_sub16\<close>, and where the code adds
  without saturation its guards keep the value in range.
\<close>

section \<open>Tables\<close>

record bit_allocation_band =
  band_start :: nat
  band_size :: nat

text \<open>The rows of the band table, as pairs of start and size.\<close>

definition BIT_ALLOCATION_BANDS :: "bit_allocation_band list" where
  "BIT_ALLOCATION_BANDS = map (\<lambda>(s, n). \<lparr>band_start = s, band_size = n\<rparr>)
     [(0, 1), (1, 1), (2, 1), (3, 1), (4, 1), (5, 1), (6, 1), (7, 1), (8, 1), (9, 1), (10, 1),
      (11, 1), (12, 1), (13, 1), (14, 1), (15, 1), (16, 1), (17, 1), (18, 1), (19, 1), (20, 1),
      (21, 1), (22, 1), (23, 1), (24, 1), (25, 1), (26, 1), (27, 1), (28, 3), (31, 3), (34, 3),
      (37, 3), (40, 3), (43, 3), (46, 3), (49, 6), (55, 6), (61, 6), (67, 6), (73, 6), (79, 6),
      (85, 12), (97, 12), (109, 12), (121, 12), (133, 24), (157, 24), (181, 24), (205, 24),
      (229, 24)]"

definition BIT_ALLOCATION_POINTERS :: "nat list" where
  "BIT_ALLOCATION_POINTERS =
     [0, 1, 1, 1, 1, 1, 2, 2, 3, 3, 3, 4, 4, 5, 5, 6, 6, 6, 6, 7, 7, 7, 7, 8, 8, 8, 8, 9, 9, 9,
      9, 10, 10, 10, 10, 11, 11, 11, 11, 12, 12, 12, 12, 13, 13, 13, 13, 14, 14, 14, 14, 14,
      14, 14, 14, 15, 15, 15, 15, 15, 15, 15, 15, 15]"

definition HIGH_EFFICIENCY_BIT_ALLOCATION_POINTERS :: "nat list" where
  "HIGH_EFFICIENCY_BIT_ALLOCATION_POINTERS =
     [0, 1, 2, 3, 4, 5, 6, 7, 8, 8, 8, 8, 9, 9, 9, 10, 10, 10, 10, 11, 11, 11, 11, 12, 12, 12,
      12, 13, 13, 13, 13, 14, 14, 14, 14, 15, 15, 15, 15, 16, 16, 16, 16, 17, 17, 17, 17, 18,
      18, 18, 18, 18, 18, 18, 18, 19, 19, 19, 19, 19, 19, 19, 19, 19]"

definition LOG_ADDITION_TABLE :: "int list list" where
  "LOG_ADDITION_TABLE =
     [[0x40, 0x3f, 0x3e, 0x3d, 0x3c, 0x3b, 0x3a, 0x39, 0x38, 0x37],
      [0x36, 0x35, 0x34, 0x34, 0x33, 0x32, 0x31, 0x30, 0x2f, 0x2f],
      [0x2e, 0x2d, 0x2c, 0x2c, 0x2b, 0x2a, 0x29, 0x29, 0x28, 0x27],
      [0x26, 0x26, 0x25, 0x24, 0x24, 0x23, 0x23, 0x22, 0x21, 0x21],
      [0x20, 0x20, 0x1f, 0x1e, 0x1e, 0x1d, 0x1d, 0x1c, 0x1c, 0x1b],
      [0x1b, 0x1a, 0x1a, 0x19, 0x19, 0x18, 0x18, 0x17, 0x17, 0x16],
      [0x16, 0x15, 0x15, 0x15, 0x14, 0x14, 0x13, 0x13, 0x13, 0x12],
      [0x12, 0x12, 0x11, 0x11, 0x11, 0x10, 0x10, 0x10, 0x0f, 0x0f],
      [0x0f, 0x0e, 0x0e, 0x0e, 0x0d, 0x0d, 0x0d, 0x0d, 0x0c, 0x0c],
      [0x0c, 0x0c, 0x0b, 0x0b, 0x0b, 0x0b, 0x0a, 0x0a, 0x0a, 0x0a],
      [0x0a, 0x09, 0x09, 0x09, 0x09, 0x09, 0x08, 0x08, 0x08, 0x08],
      [0x08, 0x08, 0x07, 0x07, 0x07, 0x07, 0x07, 0x07, 0x06, 0x06],
      [0x06, 0x06, 0x06, 0x06, 0x06, 0x06, 0x05, 0x05, 0x05, 0x05],
      [0x05, 0x05, 0x05, 0x05, 0x04, 0x04, 0x04, 0x04, 0x04, 0x04],
      [0x04, 0x04, 0x04, 0x04, 0x04, 0x03, 0x03, 0x03, 0x03, 0x03],
      [0x03, 0x03, 0x03, 0x03, 0x03, 0x03, 0x03, 0x03, 0x03, 0x02],
      [0x02, 0x02, 0x02, 0x02, 0x02, 0x02, 0x02, 0x02, 0x02, 0x02],
      [0x02, 0x02, 0x02, 0x02, 0x02, 0x02, 0x02, 0x02, 0x01, 0x01],
      [0x01, 0x01, 0x01, 0x01, 0x01, 0x01, 0x01, 0x01, 0x01, 0x01],
      [0x01, 0x01, 0x01, 0x01, 0x01, 0x01, 0x01, 0x01, 0x01, 0x01],
      [0x01, 0x01, 0x01, 0x01, 0x01, 0x01, 0x01, 0x01, 0x01, 0x01],
      [0x00, 0x00, 0x00, 0x00, 0x00, 0x00, 0x00, 0x00, 0x00, 0x00],
      [0x00, 0x00, 0x00, 0x00, 0x00, 0x00, 0x00, 0x00, 0x00, 0x00],
      [0x00, 0x00, 0x00, 0x00, 0x00, 0x00, 0x00, 0x00, 0x00, 0x00],
      [0x00, 0x00, 0x00, 0x00, 0x00, 0x00, 0x00, 0x00, 0x00, 0x00],
      [0x00, 0x00, 0x00, 0x00, 0x00, 0x00, 0x00, 0x00, 0x00, 0x00]]"

text \<open>The hearing thresholds of the three sampling rates.\<close>

definition HEARING :: "int list list" where
  "HEARING =
     [[0x04d0, 0x04d0, 0x0440, 0x0400, 0x03e0, 0x03c0, 0x03b0, 0x03b0, 0x03a0, 0x03a0, 0x03a0,
       0x03a0, 0x03a0, 0x0390, 0x0390, 0x0390, 0x0380, 0x0380, 0x0370, 0x0370, 0x0360, 0x0360,
       0x0350, 0x0350, 0x0340, 0x0340, 0x0330, 0x0320, 0x0310, 0x0300, 0x02f0, 0x02f0, 0x02f0,
       0x02f0, 0x0300, 0x0310, 0x0340, 0x0390, 0x03e0, 0x0420, 0x0460, 0x0490, 0x04a0, 0x0460,
       0x0440, 0x0440, 0x0520, 0x0800, 0x0840, 0x0840],
      [0x04f0, 0x04f0, 0x0460, 0x0410, 0x03e0, 0x03d0, 0x03c0, 0x03b0, 0x03b0, 0x03a0, 0x03a0,
       0x03a0, 0x03a0, 0x03a0, 0x0390, 0x0390, 0x0390, 0x0380, 0x0380, 0x0380, 0x0370, 0x0370,
       0x0360, 0x0360, 0x0350, 0x0350, 0x0340, 0x0340, 0x0320, 0x0310, 0x0300, 0x02f0, 0x02f0,
       0x02f0, 0x02f0, 0x0300, 0x0320, 0x0350, 0x0390, 0x03e0, 0x0420, 0x0450, 0x04a0, 0x0490,
       0x0460, 0x0440, 0x0480, 0x0630, 0x0840, 0x0840],
      [0x0580, 0x0580, 0x04b0, 0x0450, 0x0420, 0x03f0, 0x03e0, 0x03d0, 0x03c0, 0x03b0, 0x03b0,
       0x03b0, 0x03a0, 0x03a0, 0x03a0, 0x03a0, 0x03a0, 0x03a0, 0x03a0, 0x03a0, 0x0390, 0x0390,
       0x0390, 0x0390, 0x0380, 0x0380, 0x0380, 0x0370, 0x0360, 0x0350, 0x0340, 0x0330, 0x0320,
       0x0310, 0x0300, 0x02f0, 0x02f0, 0x02f0, 0x0300, 0x0310, 0x0330, 0x0350, 0x03c0, 0x0410,
       0x0470, 0x04a0, 0x0460, 0x0440, 0x0450, 0x04e0]]"

section \<open>Integers of 16 bits\<close>

definition saturate16 :: "int \<Rightarrow> int" where
  "saturate16 v = max (- 32768) (min 32767 v)"

definition saturating_add16 :: "int \<Rightarrow> int \<Rightarrow> int" where
  "saturating_add16 a b = saturate16 (a + b)"

definition saturating_sub16 :: "int \<Rightarrow> int \<Rightarrow> int" where
  "saturating_sub16 a b = saturate16 (a - b)"

text \<open>\<open>i16::try_from(value).unwrap_or(i16::MAX)\<close>.\<close>

definition to_i16_or_max :: "int \<Rightarrow> int" where
  "to_i16_or_max v = (if - 32768 \<le> v \<and> v \<le> 32767 then v else 32767)"

section \<open>Parameters\<close>

record bit_allocation_parameters =
  slow_decay_code :: nat
  fast_decay_code :: nat
  slow_gain_code :: nat
  db_per_bit_code :: nat
  floor_code :: nat

record delta_bit_allocation_segment =
  segment_offset :: nat
  segment_length :: nat
  segment_delta :: nat

record delta_bit_allocation_element =
  delta_strategy :: nat
  delta_segments :: "delta_bit_allocation_segment list"

record fixed_bit_allocation_parameters =
  slow_decay :: int
  fast_decay :: int
  slow_gain :: int
  db_per_bit :: int
  ba_floor :: int
  fast_gain :: int

definition table_value :: "int list \<Rightarrow> string \<Rightarrow> nat \<Rightarrow> eac3_error + int" where
  "table_value table parameter code =
     (if code < length table then Inr (table ! code)
      else Inl (InvalidBitAllocationParameterCode parameter code))"

definition decode_bit_allocation_parameters ::
  "bit_allocation_parameters \<Rightarrow> nat \<Rightarrow> eac3_error + fixed_bit_allocation_parameters" where
  "decode_bit_allocation_parameters codes fast_gain_code =
     attempt (table_value [0x0f, 0x11, 0x13, 0x15] ''slow decay'' (slow_decay_code codes)) (\<lambda>sd.
     attempt (table_value [0x3f, 0x53, 0x67, 0x7b] ''fast decay'' (fast_decay_code codes)) (\<lambda>fd.
     attempt (table_value [0x540, 0x4d8, 0x478, 0x410] ''slow gain'' (slow_gain_code codes)) (\<lambda>sg.
     attempt (table_value [0x000, 0x700, 0x900, 0xb00] ''dB per bit'' (db_per_bit_code codes)) (\<lambda>db.
     attempt (table_value [0x2f0, 0x2b0, 0x270, 0x230, 0x1f0, 0x170, 0x0f0, - 0x800] ''floor''
       (floor_code codes)) (\<lambda>fl.
     attempt (table_value [0x080, 0x100, 0x180, 0x200, 0x280, 0x300, 0x380, 0x400] ''fast gain''
       fast_gain_code) (\<lambda>fg.
       Inr \<lparr>slow_decay = sd, fast_decay = fd, slow_gain = sg, db_per_bit = db, ba_floor = fl,
            fast_gain = fg\<rparr>))))))"

definition exponents_to_psd :: "nat list \<Rightarrow> eac3_error + int list" where
  "exponents_to_psd exponents =
     attempt_map (\<lambda>exponent.
       if exponent > 24 then Inl (ExponentOutOfRange (int exponent))
       else Inr (3072 - push_bit 7 (int exponent))) exponents"

definition snr_offset :: "nat \<Rightarrow> nat \<Rightarrow> eac3_error + int" where
  "snr_offset coarse_code fine_code =
     (if coarse_code > 63 then Inl (InvalidBitAllocationParameterCode ''coarse SNR offset'' coarse_code)
      else if fine_code > 15 then Inl (InvalidBitAllocationParameterCode ''fine SNR offset'' fine_code)
      else Inr ((int coarse_code - 15) * 64 + int fine_code * 4))"

definition snr_offsets_are_zero :: "nat \<Rightarrow> nat list \<Rightarrow> eac3_error + bool" where
  "snr_offsets_are_zero coarse_code fine_codes =
     attempt (snr_offset coarse_code 0) (\<lambda>_.
     attempt (attempt_map (snr_offset 15) fine_codes) (\<lambda>_.
       Inr (coarse_code = 0 \<and> (\<forall>fine \<in> set fine_codes. fine = 0))))"

section \<open>Bands and pointers\<close>

definition bit_allocation_band_at :: "nat \<Rightarrow> eac3_error + bit_allocation_band" where
  "bit_allocation_band_at index =
     (if index < length BIT_ALLOCATION_BANDS then Inr (BIT_ALLOCATION_BANDS ! index)
      else Inl (InvalidBitAllocationTableIndex ''band'' index))"

text \<open>\<open>iter().position(..)\<close>: the first index with the property.\<close>

fun position_of :: "('a \<Rightarrow> bool) \<Rightarrow> 'a list \<Rightarrow> nat option" where
  "position_of P [] = None"
| "position_of P (x # xs) = (if P x then Some 0 else map_option Suc (position_of P xs))"

definition bit_allocation_band_for_bin :: "nat \<Rightarrow> eac3_error + nat" where
  "bit_allocation_band_for_bin bin =
     (case position_of (\<lambda>band. bin \<ge> band_start band \<and> bin < band_start band + band_size band)
             BIT_ALLOCATION_BANDS of
        Some index \<Rightarrow> Inr index
      | None \<Rightarrow> Inl (InvalidBitAllocationTableIndex ''bin'' bin))"

definition bit_allocation_pointer :: "nat \<Rightarrow> eac3_error + nat" where
  "bit_allocation_pointer address =
     (if address < length BIT_ALLOCATION_POINTERS then Inr (BIT_ALLOCATION_POINTERS ! address)
      else Inl (InvalidBitAllocationTableIndex ''pointer'' address))"

definition high_efficiency_bit_allocation_pointer :: "nat \<Rightarrow> eac3_error + nat" where
  "high_efficiency_bit_allocation_pointer address =
     (if address < length HIGH_EFFICIENCY_BIT_ALLOCATION_POINTERS
      then Inr (HIGH_EFFICIENCY_BIT_ALLOCATION_POINTERS ! address)
      else Inl (InvalidBitAllocationTableIndex ''high-efficiency pointer'' address))"

definition active_band_range :: "nat \<Rightarrow> nat \<Rightarrow> nat \<Rightarrow> nat \<Rightarrow> eac3_error + nat \<times> nat" where
  "active_band_range start stop psd_len band_len =
     (if start \<ge> stop \<or> stop > 253 \<or> stop > psd_len then Inl (InvalidPsdRange start stop)
      else
        attempt (bit_allocation_band_for_bin start) (\<lambda>first.
        attempt (bit_allocation_band_for_bin (stop - 1)) (\<lambda>last.
          if last + 1 > band_len then Inl (InvalidPsdRange start stop) else Inr (first, last + 1))))"

section \<open>Integration\<close>

definition log_add :: "int \<Rightarrow> int \<Rightarrow> int" where
  "log_add a b =
     (let difference = a - b;
          address = nat (min (drop_bit 1 \<bar>difference\<bar>) 255);
          correction = LOG_ADDITION_TABLE ! (address div 10) ! (address mod 10) in
      if difference \<ge> 0 then saturating_add16 a correction else saturating_add16 b correction)"

text \<open>
  The loop over the bands.  The inner loop starts behind the first bin of the band and ends at the
  end of the band or of the range; \<open>psd.get(bin)\<close> cannot fail there, as \<open>stop \<le> length psd\<close>.
\<close>

function integrate_bands ::
  "int list \<Rightarrow> nat \<Rightarrow> nat \<Rightarrow> nat \<Rightarrow> nat \<Rightarrow> int list \<Rightarrow> eac3_error + int list" where
  "integrate_bands psd start stop bin band integrated =
     (if bin < stop then
        (if band \<ge> length BIT_ALLOCATION_BANDS then Inl (InvalidPsdRange start stop)
         else
           let row = BIT_ALLOCATION_BANDS ! band;
               last_bin = min (band_start row + band_size row) stop;
               value = fold (\<lambda>i v. log_add v (psd ! i)) [Suc bin..<last_bin] (psd ! bin) in
           integrate_bands psd start stop (max (Suc bin) last_bin) (band + 1) (integrated[band := value]))
      else Inr integrated)"
  by pat_completeness auto
termination by (relation "measure (\<lambda>(psd, start, stop, bin, band, integrated). stop - bin)") auto

declare integrate_bands.simps [simp del]

definition integrate_psd :: "int list \<Rightarrow> nat \<Rightarrow> nat \<Rightarrow> eac3_error + int list" where
  "integrate_psd psd start stop =
     (if start \<ge> stop \<or> stop > 253 \<or> stop > length psd then Inl (InvalidPsdRange start stop)
      else attempt (bit_allocation_band_for_bin start) (\<lambda>first_band.
             integrate_bands psd start stop start first_band (replicate (length BIT_ALLOCATION_BANDS) 0)))"

section \<open>Excitation\<close>

definition calc_lowcomp :: "int \<Rightarrow> int \<Rightarrow> int \<Rightarrow> nat \<Rightarrow> int" where
  "calc_lowcomp a b0 b1 bin =
     (let v = (if bin < 7 then (if b0 + 256 = b1 then 384 else if b0 > b1 then a - 64 else a)
               else if bin < 20 then (if b0 + 256 = b1 then 320 else if b0 > b1 then a - 64 else a)
               else a - 128) in
      to_i16_or_max (max v 0))"

text \<open>One leak: it decays and never falls below the band's own level minus the gain.\<close>

definition leak :: "int \<Rightarrow> int \<Rightarrow> int \<Rightarrow> int \<Rightarrow> int" where
  "leak old decay level gain = max (saturating_sub16 old decay) (saturating_sub16 level gain)"

text \<open>The loop state: low-frequency compensation, fast and slow leak, excitation.\<close>

type_synonym excitation_state = "int \<times> int \<times> int \<times> int list"

definition next_lowcomp :: "int list \<Rightarrow> nat \<Rightarrow> nat \<Rightarrow> int \<Rightarrow> int" where
  "next_lowcomp bndpsd bndend bin lowcomp =
     (if bndend \<noteq> 7 \<or> bin \<noteq> 6 then calc_lowcomp lowcomp (bndpsd ! bin) (bndpsd ! (bin + 1)) bin else lowcomp)"

text \<open>The coupling path.\<close>

definition coupling_step ::
  "int list \<Rightarrow> fixed_bit_allocation_parameters \<Rightarrow> nat \<Rightarrow> int \<times> int \<times> int list \<Rightarrow> int \<times> int \<times> int list" where
  "coupling_step bndpsd p bin = (\<lambda>(fastleak, slowleak, excite).
     let f = leak fastleak (fast_decay p) (bndpsd ! bin) (fast_gain p);
         s = leak slowleak (slow_decay p) (bndpsd ! bin) (slow_gain p) in
     (f, s, excite[bin := max f s]))"

text \<open>The first two bands, the loop over bands 2 to 6 with its \<open>break\<close>, and the two loops behind it.\<close>

definition head_step ::
  "int list \<Rightarrow> fixed_bit_allocation_parameters \<Rightarrow> nat \<Rightarrow> int \<times> int list \<Rightarrow> int \<times> int list" where
  "head_step bndpsd p bin = (\<lambda>(lowcomp, excite).
     let c = calc_lowcomp lowcomp (bndpsd ! bin) (bndpsd ! (bin + 1)) bin in
     (c, excite[bin := saturating_sub16 (saturating_sub16 (bndpsd ! bin) (fast_gain p)) c]))"

function low_loop ::
  "int list \<Rightarrow> nat \<Rightarrow> fixed_bit_allocation_parameters \<Rightarrow> nat \<Rightarrow> excitation_state \<Rightarrow> nat \<times> excitation_state" where
  "low_loop bndpsd bndend p bin st =
     (if bin < 7 then
        let (lowcomp, fastleak, slowleak, excite) = st;
            c = next_lowcomp bndpsd bndend bin lowcomp;
            f = saturating_sub16 (bndpsd ! bin) (fast_gain p);
            s = saturating_sub16 (bndpsd ! bin) (slow_gain p);
            st' = (c, f, s, excite[bin := saturating_sub16 f c]) in
        if (bndend \<noteq> 7 \<or> bin \<noteq> 6) \<and> bndpsd ! bin \<le> bndpsd ! (bin + 1) then (bin + 1, st')
        else low_loop bndpsd bndend p (bin + 1) st'
      else (7, st))"
  by pat_completeness auto
termination by (relation "measure (\<lambda>(bndpsd, bndend, p, bin, st). 7 - bin)") auto

declare low_loop.simps [simp del]

definition mid_step ::
  "int list \<Rightarrow> nat \<Rightarrow> fixed_bit_allocation_parameters \<Rightarrow> nat \<Rightarrow> excitation_state \<Rightarrow> excitation_state" where
  "mid_step bndpsd bndend p bin = (\<lambda>(lowcomp, fastleak, slowleak, excite).
     let c = next_lowcomp bndpsd bndend bin lowcomp;
         f = leak fastleak (fast_decay p) (bndpsd ! bin) (fast_gain p);
         s = leak slowleak (slow_decay p) (bndpsd ! bin) (slow_gain p) in
     (c, f, s, excite[bin := max (saturating_sub16 f c) s]))"

definition high_step ::
  "int list \<Rightarrow> fixed_bit_allocation_parameters \<Rightarrow> nat \<Rightarrow> excitation_state \<Rightarrow> excitation_state" where
  "high_step bndpsd p bin = (\<lambda>(lowcomp, fastleak, slowleak, excite).
     let f = leak fastleak (fast_decay p) (bndpsd ! bin) (fast_gain p);
         s = leak slowleak (slow_decay p) (bndpsd ! bin) (slow_gain p) in
     (lowcomp, f, s, excite[bin := max f s]))"

definition uncoupled_excitation ::
  "int list \<Rightarrow> nat \<Rightarrow> fixed_bit_allocation_parameters \<Rightarrow> int list" where
  "uncoupled_excitation bndpsd bndend p =
     (let (lowcomp, excite) = head_step bndpsd p 1 (head_step bndpsd p 0 (0, replicate 50 0));
          (begin', st) = low_loop bndpsd bndend p 2 (lowcomp, 0, 0, excite);
          st = fold (mid_step bndpsd bndend p) [begin'..<min bndend 22] st;
          (lowcomp, fastleak, slowleak, excite) = fold (high_step bndpsd p) [22..<bndend] st in
      excite)"

definition compute_excitation ::
  "int list \<Rightarrow> int list \<Rightarrow> nat \<Rightarrow> nat \<Rightarrow> fixed_bit_allocation_parameters \<Rightarrow> (int \<times> int) option \<Rightarrow>
   eac3_error + int list" where
  "compute_excitation psd bndpsd start stop p initial_leaks =
     attempt (active_band_range start stop (length psd) (length bndpsd)) (\<lambda>(bndstrt, bndend).
       if length bndpsd < 50 then Inl (InvalidPsdRange start stop)
       else
         (case initial_leaks of
            Some (fastleak, slowleak) \<Rightarrow>
              (let (f, s, excite) = fold (coupling_step bndpsd p) [bndstrt..<bndend]
                                      (fastleak, slowleak, replicate 50 0) in
               Inr excite)
          | None \<Rightarrow>
              if bndstrt \<noteq> 0 \<or> bndend < 7 then Inl (InvalidPsdRange start stop)
              else Inr (uncoupled_excitation bndpsd bndend p)))"

section \<open>Masking\<close>

definition mask_value :: "int list \<Rightarrow> int list \<Rightarrow> int \<Rightarrow> int list \<Rightarrow> nat \<Rightarrow> int" where
  "mask_value bndpsd excite dbknee hearing band =
     (let knee = (if bndpsd ! band < dbknee then drop_bit 2 (dbknee - bndpsd ! band) else 0) in
      to_i16_or_max (max (excite ! band + knee) (hearing ! band)))"

definition compute_masking_curve ::
  "int list \<Rightarrow> int list \<Rightarrow> nat \<Rightarrow> nat \<Rightarrow> nat \<Rightarrow> int \<Rightarrow> eac3_error + int list" where
  "compute_masking_curve bndpsd excite start stop fscod dbknee =
     attempt (active_band_range start stop 253 (length bndpsd)) (\<lambda>(bndstrt, bndend).
       if length excite < bndend then Inl (InvalidPsdRange start stop)
       else if fscod \<ge> length HEARING then Inl ReservedSampleRate
       else Inr (fold (\<lambda>band curve. curve[band := mask_value bndpsd excite dbknee (HEARING ! fscod) band])
                   [bndstrt..<bndend] (replicate 50 0)))"

definition delta_value :: "nat \<Rightarrow> int" where
  "delta_value code = (if code \<ge> 4 then push_bit 7 (int code - 3) else push_bit 7 (int code - 4))"

fun apply_segments ::
  "delta_bit_allocation_segment list \<Rightarrow> nat \<Rightarrow> int list \<Rightarrow> eac3_error + int list" where
  "apply_segments [] band adjusted = Inr adjusted"
| "apply_segments (seg # segs) band adjusted =
     (case checked_usize (band + segment_offset seg) of
        None \<Rightarrow> Inl FrameSizeOverflow
      | Some band \<Rightarrow>
          (case checked_usize (band + segment_length seg) of
             None \<Rightarrow> Inl FrameSizeOverflow
           | Some stop \<Rightarrow>
               if stop > 50 \<or> segment_delta seg > 7 then Inl (InvalidPsdRange band stop)
               else apply_segments segs stop
                 (fold (\<lambda>i adjusted. adjusted[i := saturating_add16 (adjusted ! i) (delta_value (segment_delta seg))])
                    [band..<stop] adjusted)))"

definition apply_delta_bit_allocation ::
  "int list \<Rightarrow> delta_bit_allocation_element \<Rightarrow> eac3_error + int list" where
  "apply_delta_bit_allocation curve delta =
     (if length curve < 50 then Inl (InvalidPsdRange (length curve) 50)
      else if delta_strategy delta = 2 then Inr curve
      else if delta_strategy delta \<noteq> 1 then Inl (InvalidDeltaBitAllocationStrategy (delta_strategy delta))
      else apply_segments (delta_segments delta) 0 curve)"

section \<open>Pointers\<close>

text \<open>The threshold of one band, and the six-bit address of one bin.\<close>

definition adjusted_mask :: "int \<Rightarrow> int \<Rightarrow> int \<Rightarrow> int" where
  "adjusted_mask m snroffset floor' = (max 0 (m - snroffset - floor') AND 0x1fe0) + floor'"

definition bap_address :: "int \<Rightarrow> int \<Rightarrow> nat" where
  "bap_address p adjusted = nat (max 0 (min 63 (drop_bit 5 (p - adjusted))))"

fun fill_bins ::
  "(nat \<Rightarrow> eac3_error + nat) \<Rightarrow> int list \<Rightarrow> int \<Rightarrow> nat list \<Rightarrow> nat list \<Rightarrow> eac3_error + nat list" where
  "fill_bins pointer psd adjusted [] bap = Inr bap"
| "fill_bins pointer psd adjusted (bin # bins) bap =
     attempt (pointer (bap_address (psd ! bin) adjusted)) (\<lambda>v.
       fill_bins pointer psd adjusted bins (bap[bin := v]))"

fun fill_bands ::
  "(nat \<Rightarrow> eac3_error + nat) \<Rightarrow> int list \<Rightarrow> int list \<Rightarrow> nat \<Rightarrow> int \<Rightarrow> int \<Rightarrow> nat list \<Rightarrow> nat \<Rightarrow> nat list \<Rightarrow>
   eac3_error + nat list" where
  "fill_bands pointer psd curve stop snroffset floor' [] bin bap = Inr bap"
| "fill_bands pointer psd curve stop snroffset floor' (band # bands) bin bap =
     attempt (bit_allocation_band_at band) (\<lambda>row.
       let last = min (band_start row + band_size row) stop in
       attempt (fill_bins pointer psd (adjusted_mask (curve ! band) snroffset floor') [bin..<last] bap) (\<lambda>bap.
         fill_bands pointer psd curve stop snroffset floor' bands (max bin last) bap))"

definition compute_bap_with_pointer ::
  "int list \<Rightarrow> int list \<Rightarrow> nat \<Rightarrow> nat \<Rightarrow> int \<Rightarrow> int \<Rightarrow> (nat \<Rightarrow> eac3_error + nat) \<Rightarrow> eac3_error + nat list" where
  "compute_bap_with_pointer psd curve start stop snroffset floor' pointer =
     attempt (active_band_range start stop (length psd) (length curve)) (\<lambda>(bndstrt, bndend).
       if length curve < 50 then Inl (InvalidPsdRange start stop)
       else fill_bands pointer psd curve stop snroffset floor' [bndstrt..<bndend] start (replicate (length psd) 0))"

definition compute_bap ::
  "int list \<Rightarrow> int list \<Rightarrow> nat \<Rightarrow> nat \<Rightarrow> int \<Rightarrow> int \<Rightarrow> eac3_error + nat list" where
  "compute_bap psd curve start stop snroffset floor' =
     compute_bap_with_pointer psd curve start stop snroffset floor' bit_allocation_pointer"

definition compute_high_efficiency_bap ::
  "int list \<Rightarrow> int list \<Rightarrow> nat \<Rightarrow> nat \<Rightarrow> int \<Rightarrow> int \<Rightarrow> eac3_error + nat list" where
  "compute_high_efficiency_bap psd curve start stop snroffset floor' =
     compute_bap_with_pointer psd curve start stop snroffset floor' high_efficiency_bit_allocation_pointer"

section \<open>One element\<close>

definition decode_leaks :: "(nat \<times> nat) option \<Rightarrow> eac3_error + (int \<times> int) option" where
  "decode_leaks codes =
     (case codes of
        None \<Rightarrow> Inr None
      | Some (fast_code, slow_code) \<Rightarrow>
          if fast_code > 7 then Inl (InvalidBitAllocationParameterCode ''coupling fast leak'' fast_code)
          else if slow_code > 7 then Inl (InvalidBitAllocationParameterCode ''coupling slow leak'' slow_code)
          else Inr (Some (push_bit 8 (int fast_code) + 768, push_bit 8 (int slow_code) + 768)))"

text \<open>The two element functions differ in the pointer table only; the common body takes it as an argument.\<close>

definition element_bap ::
  "(nat \<Rightarrow> eac3_error + nat) \<Rightarrow> nat list \<Rightarrow> nat \<Rightarrow> nat \<Rightarrow> bit_allocation_parameters \<Rightarrow> nat \<Rightarrow> nat \<Rightarrow> nat \<Rightarrow> nat \<Rightarrow>
   delta_bit_allocation_element option \<Rightarrow> (nat \<times> nat) option \<Rightarrow> eac3_error + nat list" where
  "element_bap pointer exponents start stop codes fast_gain_code coarse fine fscod delta leaks =
     attempt (exponents_to_psd exponents) (\<lambda>psd.
       if start \<ge> stop \<or> stop > length psd \<or> stop > 253 then Inl (InvalidPsdRange start stop)
       else
         attempt (integrate_psd psd start stop) (\<lambda>bndpsd.
         attempt (decode_bit_allocation_parameters codes fast_gain_code) (\<lambda>p.
         attempt (decode_leaks leaks) (\<lambda>initial_leaks.
         attempt (compute_excitation psd bndpsd start stop p initial_leaks) (\<lambda>excite.
         attempt (compute_masking_curve bndpsd excite start stop fscod (db_per_bit p)) (\<lambda>curve.
         attempt (case delta of Some d \<Rightarrow> apply_delta_bit_allocation curve d | None \<Rightarrow> Inr curve) (\<lambda>curve.
         attempt (snr_offset coarse fine) (\<lambda>snr.
           compute_bap_with_pointer psd curve start stop snr (ba_floor p) pointer))))))))"

definition compute_element_bap ::
  "nat list \<Rightarrow> nat \<Rightarrow> nat \<Rightarrow> bit_allocation_parameters \<Rightarrow> nat \<Rightarrow> nat \<Rightarrow> nat \<Rightarrow> nat \<Rightarrow>
   delta_bit_allocation_element option \<Rightarrow> (nat \<times> nat) option \<Rightarrow> eac3_error + nat list" where
  "compute_element_bap = element_bap bit_allocation_pointer"

definition compute_high_efficiency_element_bap ::
  "nat list \<Rightarrow> nat \<Rightarrow> nat \<Rightarrow> bit_allocation_parameters \<Rightarrow> nat \<Rightarrow> nat \<Rightarrow> nat \<Rightarrow> nat \<Rightarrow>
   delta_bit_allocation_element option \<Rightarrow> (nat \<times> nat) option \<Rightarrow> eac3_error + nat list" where
  "compute_high_efficiency_element_bap = element_bap high_efficiency_bit_allocation_pointer"

end
