(* ===== verification/Eac3BitAllocationSpec.thy ===== *)
theory Eac3BitAllocationSpec
  imports Eac3BitAllocation
begin

text \<open>
  What the bit allocation computes.  The band table is a partition of the 253 bins; every stage is
  total on its domain and has a range that the 16-bit arithmetic never leaves; the pointer of a
  bin is a function of its own density and of the threshold of its band, monotone in the
  signal-to-noise offset.
\<close>

section \<open>The band table is a partition\<close>

abbreviation band_lo :: "nat \<Rightarrow> nat" where
  "band_lo b \<equiv> band_start (BIT_ALLOCATION_BANDS ! b)"

abbreviation band_hi :: "nat \<Rightarrow> nat" where
  "band_hi b \<equiv> band_start (BIT_ALLOCATION_BANDS ! b) + band_size (BIT_ALLOCATION_BANDS ! b)"

lemma length_bands [simp]: "length BIT_ALLOCATION_BANDS = 50"
  by (simp add: BIT_ALLOCATION_BANDS_def)

lemma bands_tile:
  "map (\<lambda>r. band_start r + band_size r) (butlast BIT_ALLOCATION_BANDS) = map band_start (tl BIT_ALLOCATION_BANDS)"
  "concat (map (\<lambda>r. [band_start r..<band_start r + band_size r]) BIT_ALLOCATION_BANDS) = [0..<253]"
  "band_hi 49 = 253" "map band_start (take 7 BIT_ALLOCATION_BANDS) = [0..<7]" "band_hi 6 = 7"
  "list_all (\<lambda>r. 0 < band_size r) BIT_ALLOCATION_BANDS"
  by (simp_all add: BIT_ALLOCATION_BANDS_def upt_rec)

lemma band_hi_next: "b < 49 \<Longrightarrow> band_hi b = band_lo (Suc b)"
proof -
  assume b: "b < 49"
  have "map (\<lambda>r. band_start r + band_size r) (butlast BIT_ALLOCATION_BANDS) ! b = band_hi b"
    using b by (simp add: nth_butlast)
  moreover have "map band_start (tl BIT_ALLOCATION_BANDS) ! b = band_lo (Suc b)"
    using b by (simp add: nth_tl)
  ultimately show ?thesis unfolding bands_tile(1) by simp
qed

lemma band_lo_low: "b < 7 \<Longrightarrow> band_lo b = b"
  using arg_cong [OF bands_tile(4), of "\<lambda>xs. xs ! b"] by simp

lemma band_size_pos: "b < 50 \<Longrightarrow> 0 < band_size (BIT_ALLOCATION_BANDS ! b)"
  using bands_tile(6) by (simp add: list_all_iff)

lemma band_hi_le_lo: "b < c \<Longrightarrow> c < 50 \<Longrightarrow> band_hi b \<le> band_lo c"
proof (induction c)
  case (Suc c)
  show ?case
  proof (cases "b = c")
    case True
    then show ?thesis using Suc.prems band_hi_next [of c] by simp
  next
    case False
    then have "band_hi b \<le> band_lo c" using Suc by simp
    also have "\<dots> \<le> band_lo (Suc c)" using band_hi_next [of c] Suc.prems by simp
    finally show ?thesis .
  qed
qed simp

lemma band_unique: "b < 50 \<Longrightarrow> c < 50 \<Longrightarrow> band_lo b \<le> i \<Longrightarrow> i < band_hi b \<Longrightarrow> band_lo c \<le> i \<Longrightarrow> i < band_hi c \<Longrightarrow> b = c"
  using band_hi_le_lo [of b c] band_hi_le_lo [of c b] by (cases b c rule: linorder_cases) simp_all

lemma band_hi_le: "b < 50 \<Longrightarrow> band_hi b \<le> 253"
  using band_hi_le_lo [of b 49] bands_tile(3) by (cases "b = 49") auto

lemma position_of_Some: "position_of P xs = Some i \<Longrightarrow> i < length xs \<and> P (xs ! i)"
  by (induction xs arbitrary: i) (auto split: if_splits)

lemma position_of_None: "position_of P xs = None \<Longrightarrow> x \<in> set xs \<Longrightarrow> \<not> P x"
  by (induction xs) (auto split: if_splits)

definition band_of :: "nat \<Rightarrow> nat" where
  "band_of i = (case bit_allocation_band_for_bin i of Inr b \<Rightarrow> b | Inl _ \<Rightarrow> 0)"

lemma band_of:
  assumes "i < 253"
  shows "bit_allocation_band_for_bin i = Inr (band_of i)" "band_of i < 50"
    "band_lo (band_of i) \<le> i" "i < band_hi (band_of i)"
proof -
  let ?P = "\<lambda>band. i \<ge> band_start band \<and> i < band_start band + band_size band"
  have "i \<in> set (concat (map (\<lambda>r. [band_start r..<band_start r + band_size r]) BIT_ALLOCATION_BANDS))"
    unfolding bands_tile(2) using assms by simp
  then obtain r where r: "r \<in> set BIT_ALLOCATION_BANDS" "?P r" by auto
  obtain b where b: "position_of ?P BIT_ALLOCATION_BANDS = Some b"
    using position_of_None [of ?P BIT_ALLOCATION_BANDS r] r by (cases "position_of ?P BIT_ALLOCATION_BANDS") auto
  then have eq: "bit_allocation_band_for_bin i = Inr b" by (simp add: bit_allocation_band_for_bin_def)
  then have "band_of i = b" by (simp add: band_of_def)
  with eq position_of_Some [OF b] show "bit_allocation_band_for_bin i = Inr (band_of i)" "band_of i < 50"
    "band_lo (band_of i) \<le> i" "i < band_hi (band_of i)" by simp_all
qed

lemma band_of_eq: "b < 50 \<Longrightarrow> band_lo b \<le> i \<Longrightarrow> i < band_hi b \<Longrightarrow> band_of i = b"
  using band_hi_le [of b] by (intro band_unique [of "band_of i" b i] band_of) simp_all

lemma band_of_mono: "i \<le> j \<Longrightarrow> j < 253 \<Longrightarrow> band_of i \<le> band_of j"
  using band_of [of i] band_of [of j] band_hi_le_lo [of "band_of j" "band_of i"] by (cases "band_of i \<le> band_of j") simp_all

lemma band_of_low: "i < 7 \<Longrightarrow> band_of i = i"
proof -
  assume "i < 7"
  then have "band_lo i = i" "band_lo (Suc i) = Suc i \<or> i = 6" using band_lo_low [of i] band_lo_low [of "Suc i"] by auto
  then show ?thesis using \<open>i < 7\<close> band_hi_next [of i] bands_tile(5) by (intro band_of_eq) auto
qed

lemma band_of_ge6: "i < 253 \<Longrightarrow> 6 \<le> band_of i \<longleftrightarrow> 6 \<le> i"
  using band_of_mono [of 6 i] band_of_low [of 6] band_of_low [of i] by (cases "6 \<le> i") auto

lemma band_of_zero: "i < 253 \<Longrightarrow> band_of i = 0 \<longleftrightarrow> i = 0"
  using band_of_mono [of 1 i] band_of_low [of 1] band_of_low [of 0] by (cases "i = 0") auto

text \<open>The range of bands that a range of bins touches.\<close>

lemma active_band_range_iff:
  "active_band_range start stop psd_len band_len = Inr x \<longleftrightarrow>
     start < stop \<and> stop \<le> 253 \<and> stop \<le> psd_len \<and> Suc (band_of (stop - 1)) \<le> band_len
     \<and> x = (band_of start, Suc (band_of (stop - 1)))"
  using band_of(1) [of start] band_of(1) [of "stop - 1"]
  by (cases "start < stop \<and> stop \<le> 253") (auto simp: active_band_range_def split: if_splits)

section \<open>Ranges of the stages\<close>

definition between :: "int \<Rightarrow> int \<Rightarrow> int list \<Rightarrow> bool" where
  "between l u xs \<longleftrightarrow> (\<forall>x \<in> set xs. l \<le> x \<and> x \<le> u)"

lemma betweenI: "(\<And>x. x \<in> set xs \<Longrightarrow> l \<le> x \<and> x \<le> u) \<Longrightarrow> between l u xs"
  by (simp add: between_def)

lemma between_nth: "between l u xs \<Longrightarrow> i < length xs \<Longrightarrow> l \<le> xs ! i \<and> xs ! i \<le> u"
  by (simp add: between_def)

lemma between_update: "between l u xs \<Longrightarrow> l \<le> v \<Longrightarrow> v \<le> u \<Longrightarrow> between l u (xs[i := v])"
  by (auto simp: between_def dest: set_update_subset_insert [THEN subsetD])

lemma between_replicate: "l \<le> v \<Longrightarrow> v \<le> u \<Longrightarrow> between l u (replicate n v)"
  by (simp add: between_def)

lemma log_rows:
  "length LOG_ADDITION_TABLE = 26" "\<forall>row \<in> set LOG_ADDITION_TABLE. length row = 10 \<and> (\<forall>c \<in> set row. 0 \<le> c \<and> c \<le> 64)"
  "\<forall>row \<in> set (drop 21 LOG_ADDITION_TABLE). row = replicate 10 0"
  by code_simp+

lemma log_table:
  assumes "a < 256"
  shows "0 \<le> LOG_ADDITION_TABLE ! (a div 10) ! (a mod 10)" "LOG_ADDITION_TABLE ! (a div 10) ! (a mod 10) \<le> 64"
    "210 \<le> a \<Longrightarrow> LOG_ADDITION_TABLE ! (a div 10) ! (a mod 10) = 0"
proof -
  have row: "LOG_ADDITION_TABLE ! (a div 10) \<in> set LOG_ADDITION_TABLE" using assms log_rows(1) by simp
  then have entry: "LOG_ADDITION_TABLE ! (a div 10) ! (a mod 10) \<in> set (LOG_ADDITION_TABLE ! (a div 10))"
    using log_rows(2) by simp
  show "0 \<le> LOG_ADDITION_TABLE ! (a div 10) ! (a mod 10)" "LOG_ADDITION_TABLE ! (a div 10) ! (a mod 10) \<le> 64"
    using log_rows(2) row entry by blast+
  assume "210 \<le> a"
  then have "LOG_ADDITION_TABLE ! (a div 10) \<in> set (drop 21 LOG_ADDITION_TABLE)"
    using assms log_rows(1) nth_drop [of 21 LOG_ADDITION_TABLE "a div 10 - 21"]
    by (auto simp: in_set_conv_nth intro!: exI [of _ "a div 10 - 21"])
  then have "LOG_ADDITION_TABLE ! (a div 10) = replicate 10 0" using log_rows(3) by blast
  then show "LOG_ADDITION_TABLE ! (a div 10) ! (a mod 10) = 0" by simp
qed

lemma log_add_cases:
  obtains c where "0 \<le> c" "c \<le> 64" "420 \<le> \<bar>a - b\<bar> \<Longrightarrow> c = 0"
    "log_add a b = saturating_add16 (max a b) c"
proof -
  let ?a = "nat (min (drop_bit 1 \<bar>a - b\<bar>) 255)"
  let ?c = "LOG_ADDITION_TABLE ! (?a div 10) ! (?a mod 10)"
  have "?a < 256" by linarith
  then have "0 \<le> ?c" "?c \<le> 64" "210 \<le> ?a \<Longrightarrow> ?c = 0" by (rule log_table)+
  moreover have "420 \<le> \<bar>a - b\<bar> \<Longrightarrow> 210 \<le> ?a" by (simp add: drop_bit_eq_div)
  moreover have "log_add a b = saturating_add16 (max a b) ?c"
    by (simp add: log_add_def Let_def max_def)
  ultimately show thesis using that by blast
qed

text \<open>The largest value that an integration of densities up to 3072 reaches.\<close>

lemma log_add_range: "0 \<le> a \<Longrightarrow> a \<le> 3555 \<Longrightarrow> 0 \<le> b \<Longrightarrow> b \<le> 3072 \<Longrightarrow> 0 \<le> log_add a b \<and> log_add a b \<le> 3555"
  by (rule log_add_cases [of a b], cases "420 \<le> \<bar>a - b\<bar>")
    (auto simp: saturating_add16_def saturate16_def max_def min_def abs_if split: if_splits)

lemma integrate_value:
  assumes "between 0 3072 psd" and "0 \<le> v" and "v \<le> 3555" and "j \<le> length psd"
  shows "0 \<le> fold (\<lambda>i v. log_add v (psd ! i)) [i..<j] v \<and> fold (\<lambda>i v. log_add v (psd ! i)) [i..<j] v \<le> 3555"
  using assms
proof (induction "j - i" arbitrary: i v)
  case (Suc n)
  then have split: "[i..<j] = i # [Suc i..<j]" by (simp add: upt_conv_Cons)
  have "0 \<le> log_add v (psd ! i) \<and> log_add v (psd ! i) \<le> 3555"
    using Suc.prems Suc.hyps(2) between_nth [OF Suc.prems(1), of i] by (intro log_add_range) auto
  then show ?case
    using Suc.prems Suc.hyps(2) unfolding split by (simp add: Suc.hyps(1))
qed simp

lemma integrate_bands_ok:
  assumes "stop \<le> 253" and "stop \<le> length psd" and "between 0 3072 psd"
    and "bin \<le> stop" and "bin < stop \<Longrightarrow> band < 50 \<and> band_lo band \<le> bin \<and> bin < band_hi band"
    and "length acc = 50" and "between 0 3555 acc"
  shows "\<exists>out. integrate_bands psd start stop bin band acc = Inr out \<and> length out = 50 \<and> between 0 3555 out"
  using assms
proof (induction "stop - bin" arbitrary: bin band acc rule: less_induct)
  case less
  show ?case
  proof (cases "bin < stop")
    case False
    then show ?thesis using less.prems by (subst integrate_bands.simps) simp
  next
    case True
    then have b: "band < 50" "band_lo band \<le> bin" "bin < band_hi band" using less.prems(5) by simp_all
    let ?last = "min (band_hi band) stop"
    let ?v = "fold (\<lambda>i v. log_add v (psd ! i)) [Suc bin..<?last] (psd ! bin)"
    have last: "max (Suc bin) ?last = ?last" using b True by simp
    have step: "integrate_bands psd start stop bin band acc
        = integrate_bands psd start stop ?last (band + 1) (acc[band := ?v])"
      using True b last by (subst integrate_bands.simps) (simp add: Let_def)
    have v: "0 \<le> ?v \<and> ?v \<le> 3555"
      using less.prems(2,3) True between_nth [OF less.prems(3), of bin] by (intro integrate_value) auto
    have inside: "band + 1 < 50 \<and> band_lo (band + 1) \<le> ?last \<and> ?last < band_hi (band + 1)" if "?last < stop"
    proof -
      have "band \<noteq> 49" using that less.prems(1) bands_tile(3) by auto
      then have "band < 49" using b by simp
      then show ?thesis using that band_hi_next [of band] band_size_pos [of "band + 1"] by simp
    qed
    have "\<exists>out. integrate_bands psd start stop ?last (band + 1) (acc[band := ?v]) = Inr out
        \<and> length out = 50 \<and> between 0 3555 out"
      using True b v less.prems
      by (intro less.hyps) (use inside in \<open>auto intro: between_update\<close>)
    then show ?thesis using step by simp
  qed
qed

lemma integrate_psd_ok:
  assumes "start < stop" "stop \<le> 253" "stop \<le> length psd" "between 0 3072 psd"
  shows "\<exists>out. integrate_psd psd start stop = Inr out \<and> length out = 50 \<and> between 0 3555 out"
  using assms band_of [of start] integrate_bands_ok [of stop psd start "band_of start" "replicate 50 0" start]
  by (simp add: integrate_psd_def between_replicate)

end
