(* ===== verification/Eac3Masking.thy ===== *)
theory Eac3Masking
  imports Eac3BitAllocationSpec
begin

text \<open>
  The later stages of the bit allocation: upper bounds of the excitation and of the masking curve,
  the delta segments, and the pointers as a function of the bin.
\<close>

section \<open>Excitation\<close>

definition parameters_ok :: "fixed_bit_allocation_parameters \<Rightarrow> bool" where
  "parameters_ok p \<longleftrightarrow> 0 \<le> slow_decay p \<and> 0 \<le> fast_decay p \<and> 0 \<le> slow_gain p \<and> 0 \<le> fast_gain p
     \<and> 0 \<le> db_per_bit p \<and> db_per_bit p \<le> 2816 \<and> - 2048 \<le> ba_floor p \<and> ba_floor p \<le> 752"

definition codes_ok :: "bit_allocation_parameters \<Rightarrow> nat \<Rightarrow> bool" where
  "codes_ok codes fast_gain_code \<longleftrightarrow> slow_decay_code codes < 4 \<and> fast_decay_code codes < 4 \<and> slow_gain_code codes < 4
     \<and> db_per_bit_code codes < 4 \<and> floor_code codes < 8 \<and> fast_gain_code < 8"

lemma table_value_Inr: "table_value t s c = Inr v \<longleftrightarrow> c < length t \<and> v = t ! c"
  by (auto simp: table_value_def)

lemma nth_all: "i < length xs \<Longrightarrow> list_all P xs \<Longrightarrow> P (xs ! i)"
  by (simp add: list_all_length)

lemma decode_parameters:
  "succeeds (decode_bit_allocation_parameters codes fg) \<longleftrightarrow> codes_ok codes fg"
  "decode_bit_allocation_parameters codes fg = Inr p \<Longrightarrow> parameters_ok p"
proof -
  show "succeeds (decode_bit_allocation_parameters codes fg) \<longleftrightarrow> codes_ok codes fg"
    by (auto simp: decode_bit_allocation_parameters_def table_value_def succeeds_def codes_ok_def)
  assume "decode_bit_allocation_parameters codes fg = Inr p"
  then show "parameters_ok p"
    using nth_all [of "slow_decay_code codes" "[0x0f, 0x11, 0x13, 0x15]" "\<lambda>v::int. 0 \<le> v"]
      nth_all [of "fast_decay_code codes" "[0x3f, 0x53, 0x67, 0x7b]" "\<lambda>v::int. 0 \<le> v"]
      nth_all [of "slow_gain_code codes" "[0x540, 0x4d8, 0x478, 0x410]" "\<lambda>v::int. 0 \<le> v"]
      nth_all [of "db_per_bit_code codes" "[0x000, 0x700, 0x900, 0xb00]" "\<lambda>v::int. 0 \<le> v \<and> v \<le> 2816"]
      nth_all [of "floor_code codes" "[0x2f0, 0x2b0, 0x270, 0x230, 0x1f0, 0x170, 0x0f0, - 0x800]" "\<lambda>v::int. - 2048 \<le> v \<and> v \<le> 752"]
      nth_all [of fg "[0x080, 0x100, 0x180, 0x200, 0x280, 0x300, 0x380, 0x400]" "\<lambda>v::int. 0 \<le> v"]
    by (auto simp: decode_bit_allocation_parameters_def attempt_Inr table_value_Inr parameters_ok_def)
qed

text \<open>No step of the excitation raises a level.\<close>

lemma sub_le: "0 \<le> y \<Longrightarrow> x \<le> u \<Longrightarrow> 0 \<le> u \<Longrightarrow> saturating_sub16 x y \<le> u"
  by (auto simp: saturating_sub16_def saturate16_def)

lemma leak_le: "0 \<le> d \<Longrightarrow> 0 \<le> g \<Longrightarrow> x \<le> u \<Longrightarrow> y \<le> u \<Longrightarrow> 0 \<le> u \<Longrightarrow> leak x d y g \<le> u"
  by (simp add: leak_def sub_le)

lemma lowcomp_nonneg: "0 \<le> calc_lowcomp a b0 b1 bin"
  by (simp add: calc_lowcomp_def to_i16_or_max_def Let_def)

lemma next_lowcomp_nonneg: "0 \<le> c \<Longrightarrow> 0 \<le> next_lowcomp bndpsd bndend bin c"
  by (simp add: next_lowcomp_def lowcomp_nonneg)

definition capped :: "int list \<Rightarrow> bool" where
  "capped xs \<longleftrightarrow> length xs = 50 \<and> (\<forall>x \<in> set xs. x \<le> 3555)"

lemma capped_update: "capped xs \<Longrightarrow> v \<le> 3555 \<Longrightarrow> capped (xs[i := v])"
  by (auto simp: capped_def dest: set_update_subset_insert [THEN subsetD])

fun state_capped :: "excitation_state \<Rightarrow> bool" where
  "state_capped (lowcomp, fastleak, slowleak, excite) \<longleftrightarrow>
     0 \<le> lowcomp \<and> fastleak \<le> 3555 \<and> slowleak \<le> 3555 \<and> capped excite"

text \<open>The domain of the excitation: legal parameters and fifty levels of the integration.\<close>

definition excitable :: "int list \<Rightarrow> fixed_bit_allocation_parameters \<Rightarrow> bool" where
  "excitable bndpsd p \<longleftrightarrow> parameters_ok p \<and> length bndpsd = 50 \<and> between 0 3555 bndpsd"

lemma level: "excitable bndpsd p \<Longrightarrow> i < 50 \<Longrightarrow> bndpsd ! i \<le> 3555"
  using between_nth [of 0 3555 bndpsd i] by (simp add: excitable_def)

lemma signs:
  assumes "excitable bndpsd p"
  shows "0 \<le> slow_decay p" "0 \<le> fast_decay p" "0 \<le> slow_gain p" "0 \<le> fast_gain p"
  using assms by (simp_all add: excitable_def parameters_ok_def)

lemma mid_capped: "excitable bndpsd p \<Longrightarrow> i < 50 \<Longrightarrow> state_capped st \<Longrightarrow> state_capped (mid_step bndpsd bndend p i st)"
  by (cases st)
    (simp add: mid_step_def Let_def next_lowcomp_nonneg leak_le signs level capped_update sub_le)

lemma high_capped: "excitable bndpsd p \<Longrightarrow> i < 50 \<Longrightarrow> state_capped st \<Longrightarrow> state_capped (high_step bndpsd p i st)"
  by (cases st) (simp add: high_step_def Let_def leak_le signs level capped_update)

lemma fold_capped:
  assumes "\<And>i st. i < 50 \<Longrightarrow> state_capped st \<Longrightarrow> state_capped (f i st)" and "\<forall>i \<in> set is. i < 50" and "state_capped st"
  shows "state_capped (fold f is st)"
  using assms(2,3) by (induction "is" arbitrary: st) (simp_all add: assms(1))

lemma low_capped:
  assumes dom: "excitable bndpsd p" and "state_capped st" and "bin \<le> 7"
  shows "state_capped (snd (low_loop bndpsd bndend p bin st))"
  using assms(2,3)
proof (induction "7 - bin" arbitrary: bin st)
  case 0
  then show ?case by (subst low_loop.simps) simp
next
  case (Suc n)
  obtain c f s e where st: "st = (c, f, s, e)" by (cases st) auto
  have new: "state_capped (next_lowcomp bndpsd bndend bin c, saturating_sub16 (bndpsd ! bin) (fast_gain p),
      saturating_sub16 (bndpsd ! bin) (slow_gain p),
      e[bin := saturating_sub16 (saturating_sub16 (bndpsd ! bin) (fast_gain p)) (next_lowcomp bndpsd bndend bin c)])"
    using Suc.prems Suc.hyps(2) st
    by (simp add: next_lowcomp_nonneg sub_le signs [OF dom] level [OF dom] capped_update)
  show ?case
    using Suc.prems Suc.hyps(2) new
    by (subst low_loop.simps) (simp add: Let_def st Suc.hyps(1) del: state_capped.simps)
qed

lemma head_capped: "excitable bndpsd p \<Longrightarrow> i < 49 \<Longrightarrow> 0 \<le> c \<Longrightarrow> capped e \<Longrightarrow>
   0 \<le> fst (head_step bndpsd p i (c, e)) \<and> capped (snd (head_step bndpsd p i (c, e)))"
  by (simp add: head_step_def Let_def lowcomp_nonneg capped_update sub_le signs level)

lemma uncoupled_capped:
  assumes dom: "excitable bndpsd p" and "bndend \<le> 50"
  shows "capped (uncoupled_excitation bndpsd bndend p)"
proof -
  let ?h0 = "head_step bndpsd p 0 (0, replicate 50 0)"
  let ?h1 = "head_step bndpsd p 1 ?h0"
  have "capped (replicate 50 (0::int))" by (simp add: capped_def)
  then have "0 \<le> fst ?h0 \<and> capped (snd ?h0)" by (intro head_capped dom) simp_all
  then have "0 \<le> fst ?h1 \<and> capped (snd ?h1)" using head_capped [OF dom, of 1 "fst ?h0" "snd ?h0"] by simp
  then have "state_capped (fst ?h1, 0, 0, snd ?h1)" by simp
  then have low: "state_capped (snd (low_loop bndpsd bndend p 2 (fst ?h1, 0, 0, snd ?h1)))"
    by (rule low_capped [OF dom]) simp
  define l where "l = low_loop bndpsd bndend p 2 (fst ?h1, 0, 0, snd ?h1)"
  have mid: "state_capped (fold (mid_step bndpsd bndend p) [fst l..<min bndend 22] (snd l))"
    using low by (intro fold_capped mid_capped dom) (auto simp: l_def)
  have "state_capped (fold (high_step bndpsd p) [22..<bndend]
      (fold (mid_step bndpsd bndend p) [fst l..<min bndend 22] (snd l)))"
    using assms(2) by (intro fold_capped high_capped mid dom) auto
  then show ?thesis
    unfolding uncoupled_excitation_def Let_def
    by (auto simp: l_def case_prod_beta) (metis prod.collapse state_capped.simps)
qed

lemma coupling_capped:
  assumes dom: "excitable bndpsd p" and "\<forall>i \<in> set is. i < 50" and "f \<le> 3555" and "s \<le> 3555" and "capped e"
  shows "capped (snd (snd (fold (coupling_step bndpsd p) is (f, s, e))))"
  using assms(2-)
proof (induction "is" arbitrary: f s e)
  case (Cons i "is")
  have "leak f (fast_decay p) (bndpsd ! i) (fast_gain p) \<le> 3555" "leak s (slow_decay p) (bndpsd ! i) (slow_gain p) \<le> 3555"
    using Cons.prems by (auto intro!: leak_le simp: signs [OF dom] level [OF dom])
  then show ?case using Cons by (simp add: coupling_step_def Let_def capped_update)
qed simp

lemma excitation_ok:
  assumes dom: "excitable bndpsd p" and "start < stop" "stop \<le> 253" "stop \<le> length fine"
    and "leaks = None \<Longrightarrow> start = 0 \<and> 7 \<le> stop" and "\<And>f s. leaks = Some (f, s) \<Longrightarrow> f \<le> 3555 \<and> s \<le> 3555"
  shows "\<exists>e. compute_excitation fine bndpsd start stop p leaks = Inr e \<and> capped e"
proof -
  have last: "Suc (band_of (stop - 1)) \<le> 50" using band_of(2) [of "stop - 1"] assms(2,3) by fastforce
  then have range: "active_band_range start stop (length fine) (length bndpsd) = Inr (band_of start, Suc (band_of (stop - 1)))"
    using assms(2-4) dom by (simp add: excitable_def active_band_range_iff)
  show ?thesis
  proof (cases leaks)
    case None
    then have "start = 0" "7 \<le> stop" using assms(5) by auto
    then have "band_of start = 0" "7 \<le> Suc (band_of (stop - 1))"
      using band_of_zero [of 0] band_of_ge6 [of "stop - 1"] assms(3) by auto
    then show ?thesis
      using None range dom uncoupled_capped [OF dom last] by (simp add: excitable_def compute_excitation_def)
  next
    case (Some l)
    then obtain f s where l: "leaks = Some (f, s)" by (cases l) auto
    have "capped (replicate 50 (0::int))" by (simp add: capped_def)
    then have "capped (snd (snd (fold (coupling_step bndpsd p) [band_of start..<Suc (band_of (stop - 1))] (f, s, replicate 50 0))))"
      using last assms(6) [OF l] by (intro coupling_capped [OF dom]) auto
    then show ?thesis
      using l range dom by (simp add: excitable_def compute_excitation_def case_prod_beta del: upt_Suc)
  qed
qed

lemma excitation_needs:
  assumes "compute_excitation fine bndpsd start stop p None = Inr e"
  shows "start = 0 \<and> 7 \<le> stop"
proof -
  obtain x where x: "active_band_range start stop (length fine) (length bndpsd) = Inr x" "fst x = 0" "7 \<le> snd x"
    using assms by (auto simp: compute_excitation_def attempt_Inr split: if_splits)
  then have "start < 253" "stop - 1 < 253" "band_of start = 0" "6 \<le> band_of (stop - 1)"
    by (auto simp: active_band_range_iff)
  then show ?thesis using band_of_zero [of start] band_of_ge6 [of "stop - 1"] by auto
qed

section \<open>Masking curve\<close>

lemma hearing: "length HEARING = 3" "\<forall>row \<in> set HEARING. length row = 50 \<and> (\<forall>h \<in> set row. 0 \<le> h \<and> h \<le> 2112)"
  by (simp_all add: HEARING_def)

lemma mask_value_range:
  assumes "excitable bndpsd p" and "capped e" and "c < 3" and "i < 50"
  shows "0 \<le> mask_value bndpsd e (db_per_bit p) (HEARING ! c) i \<and> mask_value bndpsd e (db_per_bit p) (HEARING ! c) i \<le> 4259"
proof -
  have row: "HEARING ! c \<in> set HEARING" using assms(3) hearing(1) by simp
  then have h: "0 \<le> HEARING ! c ! i" "HEARING ! c ! i \<le> 2112" using hearing(2) assms(4) by (metis nth_mem)+
  have e: "e ! i \<le> 3555" using assms(2,4) by (simp add: capped_def)
  have l: "0 \<le> bndpsd ! i" "bndpsd ! i \<le> 3555" using assms(1,4) between_nth [of 0 3555 bndpsd i] by (auto simp: excitable_def)
  have d: "db_per_bit p \<le> 2816" using assms(1) by (simp add: excitable_def parameters_ok_def)
  have knee: "(db_per_bit p - bndpsd ! i) div 4 \<le> 704" using l d by linarith
  show ?thesis using h e knee by (simp add: mask_value_def Let_def to_i16_or_max_def drop_bit_eq_div le_max_iff_disj)
qed

lemma fold_update_all:
  "\<forall>i \<in> set is. P (f i) \<Longrightarrow> \<forall>x \<in> set xs. P x \<Longrightarrow>
   length (fold (\<lambda>i xs. xs[i := f i]) is xs) = length xs \<and> (\<forall>x \<in> set (fold (\<lambda>i xs. xs[i := f i]) is xs). P x)"
proof (induction "is" arbitrary: xs)
  case (Cons i "is")
  have "\<forall>x \<in> set (xs[i := f i]). P x" using Cons.prems set_update_subset_insert [of xs i "f i"] by auto
  from Cons.IH [OF _ this] Cons.prems(1) show ?case by simp
qed simp

lemma masking_ok:
  assumes "excitable bndpsd p" and "capped e" and "start < stop" and "stop \<le> 253"
  shows "fscod < 3 \<Longrightarrow> \<exists>c. compute_masking_curve bndpsd e start stop fscod (db_per_bit p) = Inr c \<and> length c = 50 \<and> between 0 4259 c"
    and "compute_masking_curve bndpsd e start stop fscod (db_per_bit p) = Inr c \<Longrightarrow> fscod < 3"
proof -
  have last: "Suc (band_of (stop - 1)) \<le> 50" using band_of(2) [of "stop - 1"] assms(3,4) by fastforce
  have len: "length bndpsd = 50" using assms(1) by (simp add: excitable_def)
  then have range: "active_band_range start stop 253 50 = Inr (band_of start, Suc (band_of (stop - 1)))"
    using assms(3,4) last by (simp add: active_band_range_iff)
  have eq: "compute_masking_curve bndpsd e start stop fscod (db_per_bit p)
      = (if 3 \<le> fscod then Inl ReservedSampleRate
         else Inr (fold (\<lambda>i m. m[i := mask_value bndpsd e (db_per_bit p) (HEARING ! fscod) i])
                [band_of start..<Suc (band_of (stop - 1))] (replicate 50 0)))"
    using range last assms(2) by (simp add: compute_masking_curve_def len hearing(1) capped_def del: upt_Suc)
  show "compute_masking_curve bndpsd e start stop fscod (db_per_bit p) = Inr c \<Longrightarrow> fscod < 3"
    unfolding eq by (simp split: if_splits)
  assume "fscod < 3"
  then show "\<exists>c. compute_masking_curve bndpsd e start stop fscod (db_per_bit p) = Inr c \<and> length c = 50 \<and> between 0 4259 c"
    using last fold_update_all [of "[band_of start..<Suc (band_of (stop - 1))]" "\<lambda>x. 0 \<le> x \<and> x \<le> 4259"
        "mask_value bndpsd e (db_per_bit p) (HEARING ! fscod)" "replicate 50 0"]
      mask_value_range [OF assms(1,2)]
    unfolding eq by (simp add: between_def del: upt_Suc)
qed

section \<open>Delta segments\<close>

fun segments_fit :: "delta_bit_allocation_segment list \<Rightarrow> nat \<Rightarrow> bool" where
  "segments_fit [] band \<longleftrightarrow> True"
| "segments_fit (seg # segs) band \<longleftrightarrow>
     band + segment_offset seg + segment_length seg \<le> 50 \<and> segment_delta seg \<le> 7
     \<and> segments_fit segs (band + segment_offset seg + segment_length seg)"

lemma delta_value_range: "n \<le> 7 \<Longrightarrow> - 512 \<le> delta_value n \<and> delta_value n \<le> 512"
  by (auto simp: delta_value_def push_bit_eq_mult)

text \<open>A segment moves the thresholds of its own bands, by at most 512.\<close>

lemma segment_nth:
  "stop \<le> length xs \<Longrightarrow>
   length (fold (\<lambda>i a. a[i := saturating_add16 (a ! i) d]) [band..<stop] xs) = length xs
   \<and> (\<forall>i < length xs. fold (\<lambda>i a. a[i := saturating_add16 (a ! i) d]) [band..<stop] xs ! i
        = (if band \<le> i \<and> i < stop then saturating_add16 (xs ! i) d else xs ! i))"
proof (induction stop)
  case (Suc stop)
  then show ?case by (cases "band \<le> stop") (auto simp: nth_list_update less_Suc_eq)
qed simp

lemma apply_segments_ok:
  assumes "length xs = 50" and "\<forall>i < 50. - 512 \<le> xs ! i \<and> xs ! i \<le> 4771" and "\<forall>i < 50. band \<le> i \<longrightarrow> 0 \<le> xs ! i \<and> xs ! i \<le> 4259"
    and "segments_fit segs band"
  shows "\<exists>ys. apply_segments segs band xs = Inr ys \<and> length ys = 50 \<and> (\<forall>i < 50. - 512 \<le> ys ! i \<and> ys ! i \<le> 4771)"
  using assms
proof (induction segs arbitrary: band xs)
  case (Cons seg segs)
  let ?b = "band + segment_offset seg" and ?d = "delta_value (segment_delta seg)"
  let ?e = "?b + segment_length seg"
  let ?ys = "fold (\<lambda>i a. a[i := saturating_add16 (a ! i) ?d]) [?b..<?e] xs"
  have fit: "?e \<le> 50" "segment_delta seg \<le> 7" "segments_fit segs ?e" using Cons.prems(4) by auto
  have ys: "length ?ys = 50"
    "\<forall>i < 50. ?ys ! i = (if ?b \<le> i \<and> i < ?e then saturating_add16 (xs ! i) ?d else xs ! i)"
    using segment_nth [of ?e xs ?d ?b] fit(1) Cons.prems(1) by auto
  have d: "- 512 \<le> ?d" "?d \<le> 512" using delta_value_range [OF fit(2)] by auto
  have all: "\<forall>i < 50. - 512 \<le> ?ys ! i \<and> ?ys ! i \<le> 4771"
  proof (intro allI impI)
    fix i :: nat assume i: "i < 50"
    show "- 512 \<le> ?ys ! i \<and> ?ys ! i \<le> 4771"
    proof (cases "?b \<le> i \<and> i < ?e")
      case True
      then have "0 \<le> xs ! i" "xs ! i \<le> 4259" using Cons.prems(3) i by auto
      then have "saturating_add16 (xs ! i) ?d = xs ! i + ?d" using d by (simp add: saturating_add16_def saturate16_def)
      then show ?thesis using True ys(2) i d \<open>0 \<le> xs ! i\<close> \<open>xs ! i \<le> 4259\<close> by simp
    next
      case False
      then show ?thesis using ys(2) i Cons.prems(2) by auto
    qed
  qed
  have behind: "\<forall>i < 50. ?e \<le> i \<longrightarrow> 0 \<le> ?ys ! i \<and> ?ys ! i \<le> 4259" using ys(2) Cons.prems(3) by auto
  have "checked_usize ?b = Some ?b" "checked_usize ?e = Some ?e" using fit(1) by (auto simp: checked_usize_def usize_max_def)
  then have "apply_segments (seg # segs) band xs = apply_segments segs ?e ?ys"
    using fit(1,2) by simp
  then show ?case using Cons.IH [OF ys(1) all behind fit(3)] by simp
qed simp

lemma apply_segments_needs: "apply_segments segs band xs = Inr ys \<Longrightarrow> segments_fit segs band"
  by (induction segs arbitrary: band xs)
    (auto simp: checked_usize_def not_less not_le split: if_splits option.splits)

definition delta_ok :: "delta_bit_allocation_element option \<Rightarrow> bool" where
  "delta_ok delta \<longleftrightarrow> (case delta of None \<Rightarrow> True
     | Some d \<Rightarrow> delta_strategy d = 2 \<or> delta_strategy d = 1 \<and> segments_fit (delta_segments d) 0)"

definition apply_delta :: "int list \<Rightarrow> delta_bit_allocation_element option \<Rightarrow> eac3_error + int list" where
  "apply_delta curve delta = (case delta of Some d \<Rightarrow> apply_delta_bit_allocation curve d | None \<Rightarrow> Inr curve)"

lemma apply_delta_ok:
  assumes "length c = 50" and "between 0 4259 c"
  shows "delta_ok delta \<Longrightarrow> \<exists>m. apply_delta c delta = Inr m \<and> length m = 50 \<and> between (- 512) 4771 m"
    and "apply_delta c delta = Inr m \<Longrightarrow> delta_ok delta"
proof -
  have nth: "\<forall>i < 50. 0 \<le> c ! i \<and> c ! i \<le> 4259" using assms between_nth [of 0 4259 c] by simp
  show "apply_delta c delta = Inr m \<Longrightarrow> delta_ok delta"
    using assms by (auto simp: delta_ok_def apply_delta_def apply_delta_bit_allocation_def
        dest: apply_segments_needs split: if_splits option.splits)
  assume ok: "delta_ok delta"
  show "\<exists>m. apply_delta c delta = Inr m \<and> length m = 50 \<and> between (- 512) 4771 m"
  proof (cases "delta = None \<or> delta_strategy (the delta) = 2")
    case True
    moreover have "between (- 512) 4771 c" using assms(2) by (auto simp: between_def)
    ultimately show ?thesis
      using assms by (auto simp: apply_delta_def apply_delta_bit_allocation_def split: option.splits)
  next
    case False
    then obtain d where d: "delta = Some d" "delta_strategy d = 1" "segments_fit (delta_segments d) 0"
      using ok by (auto simp: delta_ok_def split: option.splits)
    have "\<exists>ys. apply_segments (delta_segments d) 0 c = Inr ys \<and> length ys = 50 \<and> (\<forall>i < 50. - 512 \<le> ys ! i \<and> ys ! i \<le> 4771)"
      using assms(1) nth d(3) by (intro apply_segments_ok) auto
    then show ?thesis
      using d assms(1) by (auto simp: apply_delta_def apply_delta_bit_allocation_def between_def in_set_conv_nth)
  qed
qed

end
