(* ===== verification/Eac3Pointers.thy ===== *)
theory Eac3Pointers
  imports Eac3Masking
begin

text \<open>
  The last stage and the whole pipeline of one element: the pointer of a bin as a function of its
  density and the threshold of its band, when the pipeline succeeds, and its monotonicity in the
  signal-to-noise offset.
\<close>

section \<open>Thresholds and addresses\<close>

lemma clear_low_bits: "0 \<le> x \<Longrightarrow> x < 8192 \<Longrightarrow> x AND 0x1fe0 = x div 32 * (32 :: int)"
proof -
  assume x: "0 \<le> x" "x < 8192"
  have m: "(0x1fe0 :: int) = push_bit 5 (take_bit 8 (- 1))" by code_simp
  have "x AND 0x1fe0 = push_bit 5 (take_bit 8 (drop_bit 5 x))"
    unfolding m by (rule bit_eqI) (auto simp: bit_and_iff bit_push_bit_iff bit_take_bit_iff bit_drop_bit_eq bit_mask_iff)
  also have "take_bit 8 (drop_bit 5 x) = x div 32"
    using x by (simp add: drop_bit_eq_div take_bit_eq_mod)
  finally show ?thesis by (simp add: push_bit_eq_mult)
qed

text \<open>For the thresholds that occur, the 13-bit mask of the code never cuts a bit off.\<close>

lemma adjusted_mask_eq:
  assumes "m \<le> 4771" and "- 960 \<le> s" and "- 2048 \<le> fl"
  shows "adjusted_mask m s fl = max 0 (m - s - fl) div 32 * 32 + fl"
  using assms by (simp add: adjusted_mask_def clear_low_bits)

lemma adjusted_mask_antimono:
  assumes "m \<le> 4771" and "- 960 \<le> s" and "s \<le> t" and "- 2048 \<le> fl"
  shows "adjusted_mask m t fl \<le> adjusted_mask m s fl"
proof -
  have "max 0 (m - t - fl) div 32 \<le> max 0 (m - s - fl) div 32" using assms(3) by (intro zdiv_mono1) auto
  then show ?thesis using assms by (simp add: adjusted_mask_eq)
qed

lemma bap_address_less: "bap_address p a < 64"
  by (simp add: bap_address_def)

lemma bap_address_antimono: "a \<le> b \<Longrightarrow> bap_address p b \<le> bap_address p a"
proof -
  assume "a \<le> b"
  then have "drop_bit 5 (p - b) \<le> drop_bit 5 (p - a)" by (simp add: drop_bit_eq_div zdiv_mono1)
  then show ?thesis by (simp add: bap_address_def nat_mono)
qed

section \<open>Pointers of bins\<close>

text \<open>A pointer function that is the look-up in a table of 64 entries.\<close>

definition pointer_table :: "(nat \<Rightarrow> eac3_error + nat) \<Rightarrow> nat list \<Rightarrow> bool" where
  "pointer_table pointer table \<longleftrightarrow> length table = 64 \<and> (\<forall>a < 64. pointer a = Inr (table ! a))"

lemma pointer_tables:
  "pointer_table bit_allocation_pointer BIT_ALLOCATION_POINTERS"
  "pointer_table high_efficiency_bit_allocation_pointer HIGH_EFFICIENCY_BIT_ALLOCATION_POINTERS"
  by (simp_all add: pointer_table_def bit_allocation_pointer_def high_efficiency_bit_allocation_pointer_def
      BIT_ALLOCATION_POINTERS_def HIGH_EFFICIENCY_BIT_ALLOCATION_POINTERS_def)

lemma tables_sorted:
  "sorted BIT_ALLOCATION_POINTERS" "sorted HIGH_EFFICIENCY_BIT_ALLOCATION_POINTERS"
  "list_all (\<lambda>v. v \<le> 15) BIT_ALLOCATION_POINTERS" "list_all (\<lambda>v. v \<le> 19) HIGH_EFFICIENCY_BIT_ALLOCATION_POINTERS"
  by (simp_all add: BIT_ALLOCATION_POINTERS_def HIGH_EFFICIENCY_BIT_ALLOCATION_POINTERS_def)

definition bin_pointer :: "nat list \<Rightarrow> int list \<Rightarrow> int list \<Rightarrow> int \<Rightarrow> int \<Rightarrow> nat \<Rightarrow> nat" where
  "bin_pointer table psd curve snr fl i =
     table ! bap_address (psd ! i) (adjusted_mask (curve ! band_of i) snr fl)"

lemma fill_bins_ok:
  assumes "pointer_table pointer table" and "b \<le> length bap"
  shows "\<exists>out. fill_bins pointer psd adj [a..<b] bap = Inr out \<and> length out = length bap
    \<and> (\<forall>i < length bap. out ! i = (if a \<le> i \<and> i < b then table ! bap_address (psd ! i) adj else bap ! i))"
  using assms(2)
proof (induction "b - a" arbitrary: a bap)
  case (Suc n)
  then have split: "[a..<b] = a # [Suc a..<b]" by (simp add: upt_conv_Cons)
  have "pointer (bap_address (psd ! a) adj) = Inr (table ! bap_address (psd ! a) adj)"
    using assms(1) bap_address_less by (simp add: pointer_table_def)
  moreover have "n = b - Suc a" using Suc.hyps(2) by simp
  then obtain out where "fill_bins pointer psd adj [Suc a..<b] (bap[a := table ! bap_address (psd ! a) adj]) = Inr out"
    "length out = length bap"
    "\<forall>i < length bap. out ! i = (if Suc a \<le> i \<and> i < b then table ! bap_address (psd ! i) adj
        else bap[a := table ! bap_address (psd ! a) adj] ! i)"
    using Suc.hyps(1) [of "Suc a" "bap[a := table ! bap_address (psd ! a) adj]"] Suc.prems by auto
  ultimately have run: "fill_bins pointer psd adj (a # [Suc a..<b]) bap = Inr out" "length out = length bap"
    and nth: "\<forall>i < length bap. out ! i = (if Suc a \<le> i \<and> i < b then table ! bap_address (psd ! i) adj
        else bap[a := table ! bap_address (psd ! a) adj] ! i)" by simp_all
  have "out ! i = (if a \<le> i \<and> i < b then table ! bap_address (psd ! i) adj else bap ! i)" if "i < length bap" for i
    using nth that Suc.hyps(2) by (cases "i = a") (auto simp: not_less_eq_eq)
  then show ?case using run unfolding split by blast
qed simp

lemma fill_bands_ok:
  assumes table: "pointer_table pointer table" and stop: "stop \<le> 253" "stop \<le> length bap"
    and bin: "bin < stop \<Longrightarrow> band_of bin = band" and here: "bin \<le> stop"
    and last: "bin < stop \<Longrightarrow> bandend = Suc (band_of (stop - 1))" "bin = stop \<Longrightarrow> bandend \<le> band"
  shows "\<exists>out. fill_bands pointer psd curve stop snr fl [band..<bandend] bin bap = Inr out \<and> length out = length bap
    \<and> (\<forall>i < length bap. out ! i = (if bin \<le> i \<and> i < stop then bin_pointer table psd curve snr fl i else bap ! i))"
  using stop bin here last
proof (induction "stop - bin" arbitrary: bin band bap rule: less_induct)
  case less
  show ?case
  proof (cases "bin < stop")
    case False
    then have e: "bin = stop" "[band..<bandend] = []" using less.prems by auto
    show ?thesis unfolding e by simp
  next
    case True
    then have band: "band = band_of bin" and bandend: "bandend = Suc (band_of (stop - 1))" using less.prems by auto
    have b: "band < 50" "band_lo band \<le> bin" "bin < band_hi band" "band \<le> band_of (stop - 1)"
      using band_of [of bin] band_of_mono [of bin "stop - 1"] True less.prems(1) band by auto
    let ?last = "min (band_hi band) stop"
    have split: "[band..<bandend] = band # [Suc band..<bandend]" using b(4) bandend by (simp add: upt_conv_Cons del: upt_Suc)
    obtain mid where mid: "fill_bins pointer psd (adjusted_mask (curve ! band) snr fl) [bin..<?last] bap = Inr mid"
      "length mid = length bap"
      "\<forall>i < length bap. mid ! i = (if bin \<le> i \<and> i < ?last
          then table ! bap_address (psd ! i) (adjusted_mask (curve ! band) snr fl) else bap ! i)"
      using fill_bins_ok [OF table, of ?last bap psd "adjusted_mask (curve ! band) snr fl" bin] less.prems(2)
      by (meson min.coboundedI2)
    have same: "\<forall>i. bin \<le> i \<and> i < ?last \<longrightarrow> band_of i = band" using b band_of_eq [of band] by auto
    have max: "max bin ?last = ?last" using True b by simp
    have follow: "band_of ?last = Suc band" if "?last < stop"
    proof -
      have hi: "?last = band_hi band" "band_hi band < 253" using that less.prems(1) by auto
      then have "band < 49" using b(1) bands_tile(3) by (cases "band = 49") auto
      then show ?thesis
        using hi band_hi_next [of band] band_size_pos [of "Suc band"] by (intro band_of_eq) auto
    qed
    have stopped: "bandend \<le> Suc band" if "?last = stop"
    proof -
      have "stop - 1 < band_hi band" "band_lo band \<le> stop - 1" using that True b by auto
      then show ?thesis using b(1) band_of_eq [of band "stop - 1"] bandend by simp
    qed
    have closer: "stop - ?last < stop - bin" using True b by auto
    have "\<exists>out. fill_bands pointer psd curve stop snr fl [Suc band..<bandend] ?last mid = Inr out
        \<and> length out = length mid
        \<and> (\<forall>i < length mid. out ! i = (if ?last \<le> i \<and> i < stop then bin_pointer table psd curve snr fl i else mid ! i))"
      by (rule less.hyps [OF closer])
        (use less.prems(1,2) mid(2) follow stopped bandend in simp_all)
    then obtain out where out: "fill_bands pointer psd curve stop snr fl [Suc band..<bandend] ?last mid = Inr out"
      "length out = length mid"
      "\<forall>i < length mid. out ! i = (if ?last \<le> i \<and> i < stop then bin_pointer table psd curve snr fl i else mid ! i)"
      by blast
    have "fill_bands pointer psd curve stop snr fl [band..<bandend] bin bap = Inr out"
      unfolding split using mid(1) out(1) b(1) max
      by (simp add: bit_allocation_band_at_def Let_def del: upt_Suc)
    moreover have "out ! i = (if bin \<le> i \<and> i < stop then bin_pointer table psd curve snr fl i else bap ! i)"
      if "i < length bap" for i
      using that out(2,3) mid(2,3) same b True by (auto simp: bin_pointer_def)
    ultimately show ?thesis using out(2) mid(2) by auto
  qed
qed

lemma compute_bap_ok:
  assumes "pointer_table pointer table" and "start < stop" "stop \<le> 253" "stop \<le> length psd" "length curve = 50"
  shows "\<exists>out. compute_bap_with_pointer psd curve start stop snr fl pointer = Inr out \<and> length out = length psd
    \<and> (\<forall>i < length psd. out ! i = (if start \<le> i \<and> i < stop then bin_pointer table psd curve snr fl i else 0))"
proof -
  have last: "Suc (band_of (stop - 1)) \<le> 50" using band_of(2) [of "stop - 1"] assms(2,3) by fastforce
  then have range: "active_band_range start stop (length psd) (length curve) = Inr (band_of start, Suc (band_of (stop - 1)))"
    using assms by (simp add: active_band_range_iff)
  show ?thesis
    using fill_bands_ok [OF assms(1), of stop "replicate (length psd) 0" start "band_of start" "Suc (band_of (stop - 1))" psd curve snr fl]
      range assms(2-5)
    by (auto simp: compute_bap_with_pointer_def simp del: upt_Suc)
qed

section \<open>The pipeline of one element\<close>

definition leaks_ok :: "nat \<Rightarrow> nat \<Rightarrow> (nat \<times> nat) option \<Rightarrow> bool" where
  "leaks_ok start stop leaks \<longleftrightarrow>
     (case leaks of None \<Rightarrow> start = 0 \<and> 7 \<le> stop | Some (f, s) \<Rightarrow> f \<le> 7 \<and> s \<le> 7)"

text \<open>The inputs without the codes of the offset.\<close>

definition element_ok ::
  "nat list \<Rightarrow> nat \<Rightarrow> nat \<Rightarrow> bit_allocation_parameters \<Rightarrow> nat \<Rightarrow> nat \<Rightarrow>
   delta_bit_allocation_element option \<Rightarrow> (nat \<times> nat) option \<Rightarrow> bool" where
  "element_ok exponents start stop codes fast_gain_code fscod delta leaks \<longleftrightarrow>
     (\<forall>x \<in> set exponents. x \<le> 24) \<and> start < stop \<and> stop \<le> length exponents \<and> stop \<le> 253
     \<and> codes_ok codes fast_gain_code \<and> fscod < 3 \<and> delta_ok delta \<and> leaks_ok start stop leaks"

lemma psd_of_exponents:
  "exponents_to_psd xs = Inr ys \<longleftrightarrow> (\<forall>x \<in> set xs. x \<le> 24) \<and> ys = map (\<lambda>x. 3072 - 128 * int x) xs"
proof -
  have "exponents_to_psd xs = Inr ys \<longleftrightarrow> list_all2 (\<lambda>x y. x \<le> 24 \<and> y = 3072 - 128 * int x) xs ys"
    unfolding exponents_to_psd_def attempt_map_Inr by (rule arg_cong2 [where f = "\<lambda>P x. list_all2 P x ys"])
      (auto simp: fun_eq_iff push_bit_eq_mult)
  also have "\<dots> \<longleftrightarrow> (\<forall>x \<in> set xs. x \<le> 24) \<and> ys = map (\<lambda>x. 3072 - 128 * int x) xs"
    by (induction xs arbitrary: ys) (auto simp: list_all2_Cons1)
  finally show ?thesis .
qed

lemma snr_offset_Inr:
  "snr_offset c f = Inr v \<longleftrightarrow> c \<le> 63 \<and> f \<le> 15 \<and> v = (int c - 15) * 64 + int f * 4"
  by (auto simp: snr_offset_def)

lemma leak_values:
  "decode_leaks leaks = Inr l \<Longrightarrow> l = Some (f, s) \<Longrightarrow> f \<le> 3555 \<and> s \<le> 3555"
  by (auto simp: decode_leaks_def push_bit_eq_mult split: option.splits if_splits)

text \<open>The threshold curve of an element does not depend on the offset.\<close>

lemma element_curve:
  assumes "element_ok exponents start stop codes fg fscod delta leaks"
  obtains psd curve fl where "psd = map (\<lambda>x. 3072 - 128 * int x) exponents" "length curve = 50"
    "\<forall>x \<in> set curve. x \<le> 4771" "- 2048 \<le> fl"
    "\<And>pointer c f. element_bap pointer exponents start stop codes fg c f fscod delta leaks
      = attempt (snr_offset c f) (\<lambda>snr. compute_bap_with_pointer psd curve start stop snr fl pointer)"
proof -
  let ?psd = "map (\<lambda>x. 3072 - 128 * int x) exponents"
  have dom: "\<forall>x \<in> set exponents. x \<le> 24" "start < stop" "stop \<le> length exponents" "stop \<le> 253"
    "codes_ok codes fg" "fscod < 3" "delta_ok delta" "leaks_ok start stop leaks"
    using assms by (auto simp: element_ok_def)
  have psd: "exponents_to_psd exponents = Inr ?psd" using dom(1) by (simp add: psd_of_exponents)
  have "between 0 3072 ?psd" using dom(1) by (auto simp: between_def)
  then obtain b where b: "integrate_psd ?psd start stop = Inr b" "length b = 50" "between 0 3555 b"
    using integrate_psd_ok [of start stop ?psd] dom(2-4) by auto
  obtain p where p: "decode_bit_allocation_parameters codes fg = Inr p"
    using decode_parameters(1) [of codes fg] dom(5) by (auto elim: succeedsE)
  have dom_p: "excitable b p" using decode_parameters(2) [OF p] b by (simp add: excitable_def)
  obtain l where l: "decode_leaks leaks = Inr l" "l = None \<longleftrightarrow> leaks = None"
    using dom(8) by (auto simp: leaks_ok_def decode_leaks_def split: option.splits)
  obtain e where e: "compute_excitation ?psd b start stop p l = Inr e" "capped e"
  proof -
    have "l = None \<Longrightarrow> start = 0 \<and> 7 \<le> stop" using l(2) dom(8) by (auto simp: leaks_ok_def)
    then show thesis
      using that excitation_ok [OF dom_p dom(2,4), of ?psd l] dom(3) leak_values [OF l(1)] by auto
  qed
  obtain c where c: "compute_masking_curve b e start stop fscod (db_per_bit p) = Inr c" "length c = 50" "between 0 4259 c"
    using masking_ok(1) [OF dom_p e(2) dom(2,4,6)] by blast
  obtain m where m: "apply_delta c delta = Inr m" "length m = 50" "between (- 512) 4771 m"
    using apply_delta_ok(1) [OF c(2,3) dom(7)] by blast
  show thesis
  proof (rule that [of ?psd m "ba_floor p"])
    show "- 2048 \<le> ba_floor p" using dom_p by (simp add: excitable_def parameters_ok_def)
    show "\<forall>x \<in> set m. x \<le> 4771" using m(3) by (simp add: between_def)
    show "element_bap pointer exponents start stop codes fg c f fscod delta leaks
        = attempt (snr_offset c f) (\<lambda>snr. compute_bap_with_pointer ?psd m start stop snr (ba_floor p) pointer)" for pointer c f
      using psd b(1) p l(1) e(1) c(1) m(1) dom(2-4) unfolding element_bap_def
      by (simp add: apply_delta_def)
  qed (use m in simp_all)
qed

lemma element_needs:
  assumes "element_bap pointer exponents start stop codes fg c f fscod delta leaks = Inr bap"
  shows "element_ok exponents start stop codes fg fscod delta leaks \<and> c \<le> 63 \<and> f \<le> 15"
proof -
  let ?psd = "map (\<lambda>x. 3072 - 128 * int x) exponents"
  obtain b p l e m where x: "\<forall>x \<in> set exponents. x \<le> 24" and r: "start < stop" "stop \<le> length exponents" "stop \<le> 253"
    and b: "integrate_psd ?psd start stop = Inr b" and p: "decode_bit_allocation_parameters codes fg = Inr p"
    and l: "decode_leaks leaks = Inr l" and e: "compute_excitation ?psd b start stop p l = Inr e"
    and m: "compute_masking_curve b e start stop fscod (db_per_bit p) = Inr m"
    and d: "\<exists>y. apply_delta m delta = Inr y" and s: "\<exists>v. snr_offset c f = Inr v"
    using assms unfolding element_bap_def apply_delta_def attempt_Inr psd_of_exponents
    by (auto simp: attempt_Inr not_le not_less split: if_splits)
  have "between 0 3072 ?psd" using x by (auto simp: between_def)
  then have b': "length b = 50" "between 0 3555 b" using integrate_psd_ok [of start stop ?psd] r b by auto
  have dom_p: "excitable b p" using decode_parameters(2) [OF p] b' by (simp add: excitable_def)
  have leaks: "leaks_ok start stop leaks"
    using l excitation_needs [of ?psd b start stop p e] e
    by (auto simp: leaks_ok_def decode_leaks_def split: option.splits if_splits)
  have capped: "capped e"
    using excitation_ok [OF dom_p r(1,3), of ?psd l] r(2) e leak_values [OF l] excitation_needs [of ?psd b start stop p e] by auto
  have fscod: "fscod < 3" by (rule masking_ok(2) [OF dom_p capped r(1,3) m])
  then have "length m = 50 \<and> between 0 4259 m" using masking_ok(1) [OF dom_p capped r(1,3) fscod] m by auto
  then have "delta_ok delta" using d apply_delta_ok(2) [of m delta] by blast
  moreover have "codes_ok codes fg" using decode_parameters(1) [of codes fg] p by (simp add: succeeds_def)
  ultimately show ?thesis using x r leaks fscod s by (auto simp: element_ok_def snr_offset_Inr)
qed

lemma element_result:
  assumes "pointer_table pointer table" and ok: "element_ok exponents start stop codes fg fscod delta leaks"
    and "c \<le> 63" and "f \<le> 15"
  shows "\<exists>bap. element_bap pointer exponents start stop codes fg c f fscod delta leaks = Inr bap
    \<and> length bap = length exponents \<and> (\<forall>i < length bap. (start \<le> i \<and> i < stop \<longrightarrow> bap ! i \<in> set table)
      \<and> (\<not> (start \<le> i \<and> i < stop) \<longrightarrow> bap ! i = 0))"
proof -
  have r: "start < stop" "stop \<le> 253" "stop \<le> length exponents" using ok by (auto simp: element_ok_def)
  obtain psd curve fl where el: "psd = map (\<lambda>x. 3072 - 128 * int x) exponents" "length curve = 50"
    "\<And>pointer c f. element_bap pointer exponents start stop codes fg c f fscod delta leaks
      = attempt (snr_offset c f) (\<lambda>snr. compute_bap_with_pointer psd curve start stop snr fl pointer)"
    using element_curve [OF ok] by metis
  let ?snr = "(int c - 15) * 64 + int f * 4"
  have len: "length psd = length exponents" by (simp add: el(1))
  obtain bap where "compute_bap_with_pointer psd curve start stop ?snr fl pointer = Inr bap" "length bap = length psd"
    "\<forall>i < length psd. bap ! i = (if start \<le> i \<and> i < stop then bin_pointer table psd curve ?snr fl i else 0)"
    using compute_bap_ok [OF assms(1) r(1,2), of psd curve ?snr fl] r(3) el(2) len by auto
  moreover have "bin_pointer table psd curve ?snr fl i \<in> set table" for i
    using assms(1) bap_address_less by (simp add: bin_pointer_def pointer_table_def)
  moreover have "snr_offset c f = Inr ?snr" using assms(3,4) by (simp add: snr_offset_def)
  ultimately show ?thesis using len by (auto simp: el(3))
qed

lemma element_monotone:
  assumes "pointer_table pointer table" and "sorted table"
    and low: "element_bap pointer exponents start stop codes fg c f fscod delta leaks = Inr bap"
    and high: "element_bap pointer exponents start stop codes fg c' f' fscod delta leaks = Inr bap'"
    and le: "16 * c + f \<le> 16 * c' + f'"
  shows "length bap = length bap' \<and> (\<forall>i < length bap. bap ! i \<le> bap' ! i)"
proof -
  have ok: "element_ok exponents start stop codes fg fscod delta leaks" and cf: "c \<le> 63" "f \<le> 15" "c' \<le> 63" "f' \<le> 15"
    using element_needs [OF low] element_needs [OF high] by auto
  have r: "start < stop" "stop \<le> 253" "stop \<le> length exponents" using ok by (auto simp: element_ok_def)
  obtain psd curve fl where el: "psd = map (\<lambda>x. 3072 - 128 * int x) exponents" "length curve = 50"
    "\<forall>x \<in> set curve. x \<le> 4771" "- 2048 \<le> fl"
    "\<And>pointer c f. element_bap pointer exponents start stop codes fg c f fscod delta leaks
      = attempt (snr_offset c f) (\<lambda>snr. compute_bap_with_pointer psd curve start stop snr fl pointer)"
    by (rule element_curve [OF ok]) blast
  let ?s = "(int c - 15) * 64 + int f * 4" and ?t = "(int c' - 15) * 64 + int f' * 4"
  have snr: "snr_offset c f = Inr ?s" "snr_offset c' f' = Inr ?t" using cf by (simp_all add: snr_offset_def)
  have "int (16 * c + f) \<le> int (16 * c' + f')" using le by (simp only: of_nat_le_iff)
  then have st: "- 960 \<le> ?s" "?s \<le> ?t" by simp_all
  have len: "stop \<le> length psd" using r(3) el(1) by simp
  note out = compute_bap_ok [OF assms(1) r(1,2) len el(2)]
  have bap: "length bap = length psd \<and> (\<forall>i < length psd. bap ! i =
      (if start \<le> i \<and> i < stop then bin_pointer table psd curve ?s fl i else 0))"
    using out [of ?s fl] low by (auto simp: el(5) snr)
  have bap': "length bap' = length psd \<and> (\<forall>i < length psd. bap' ! i =
      (if start \<le> i \<and> i < stop then bin_pointer table psd curve ?t fl i else 0))"
    using out [of ?t fl] high by (auto simp: el(5) snr)
  have "bin_pointer table psd curve ?s fl i \<le> bin_pointer table psd curve ?t fl i" if "i < stop" for i
  proof -
    have "band_of i < 50" using that r(2) by (intro band_of(2)) simp
    then have "curve ! band_of i \<le> 4771" using el(2,3) by simp
    then have "bap_address (psd ! i) (adjusted_mask (curve ! band_of i) ?s fl)
        \<le> bap_address (psd ! i) (adjusted_mask (curve ! band_of i) ?t fl)"
      using st el(4) by (intro bap_address_antimono adjusted_mask_antimono)
    then show ?thesis
      using assms(1,2) bap_address_less by (simp add: bin_pointer_def pointer_table_def sorted_nth_mono)
  qed
  then show ?thesis using bap bap' by auto
qed

text \<open>The two directions together, with the bounds of the pointers.\<close>

definition pointers_ok :: "nat \<Rightarrow> nat list \<Rightarrow> nat \<Rightarrow> nat \<Rightarrow> nat list \<Rightarrow> bool" where
  "pointers_ok bound exponents start stop bap \<longleftrightarrow> length bap = length exponents
     \<and> (\<forall>i < length bap. bap ! i \<le> bound \<and> (\<not> (start \<le> i \<and> i < stop) \<longrightarrow> bap ! i = 0))"

lemma element_total:
  assumes "pointer_table pointer table" and "list_all (\<lambda>v. v \<le> bound) table"
  shows "(succeeds (element_bap pointer exponents start stop codes fg c f fscod delta leaks)
      \<longleftrightarrow> element_ok exponents start stop codes fg fscod delta leaks \<and> c \<le> 63 \<and> f \<le> 15)
    \<and> (\<forall>bap. element_bap pointer exponents start stop codes fg c f fscod delta leaks = Inr bap
      \<longrightarrow> pointers_ok bound exponents start stop bap)"
proof (intro conjI allI impI iffI)
  assume "succeeds (element_bap pointer exponents start stop codes fg c f fscod delta leaks)"
  then show "element_ok exponents start stop codes fg fscod delta leaks" "c \<le> 63" "f \<le> 15"
    using element_needs by (blast elim: succeedsE)+
next
  assume "element_ok exponents start stop codes fg fscod delta leaks \<and> c \<le> 63 \<and> f \<le> 15"
  then show "succeeds (element_bap pointer exponents start stop codes fg c f fscod delta leaks)"
    using element_result [OF assms(1), of exponents start stop codes fg fscod delta leaks c f] by (auto simp: succeeds_def)
next
  fix bap assume run: "element_bap pointer exponents start stop codes fg c f fscod delta leaks = Inr bap"
  then have "length bap = length exponents \<and> (\<forall>i < length bap. (start \<le> i \<and> i < stop \<longrightarrow> bap ! i \<in> set table)
      \<and> (\<not> (start \<le> i \<and> i < stop) \<longrightarrow> bap ! i = 0))"
    using element_needs [OF run] element_result [OF assms(1), of exponents start stop codes fg fscod delta leaks c f] by auto
  then show "pointers_ok bound exponents start stop bap"
    using assms(2) by (force simp: pointers_ok_def list_all_iff)
qed

end
