(* ===== verification/Eac3Mantissa.thy ===== *)
theory Eac3Mantissa
  imports Eac3Header
begin

text \<open>
  Mantissa words, \<open>crates/openjoc-eac3/src/mantissa.rs\<close>: the quantizers, the grouped words that are
  shared by several bins, and the traversal of a channel in frequency order.  The code computes
  in \<open>f64\<close>; the model has the exact quotients, as real numbers.  The state of the traversal is
  the bit reader and the grouping state, both behind \<open>&mut\<close>.
\<close>

section \<open>Quantizers\<close>

record mantissa_quantizer =
  levels :: nat
  group_bits :: nat
  group_size :: nat
  symmetric :: bool

text \<open>The match arms, as rows of levels, bits, words and symmetry.\<close>

definition QUANTIZERS :: "mantissa_quantizer list" where
  "QUANTIZERS = map (\<lambda>(l, b, g, s). \<lparr>levels = l, group_bits = b, group_size = g, symmetric = s\<rparr>)
     [(0, 0, 1, False), (3, 5, 3, True), (5, 7, 3, True), (7, 3, 1, True), (11, 7, 2, True),
      (15, 4, 1, True), (32, 5, 1, False), (64, 6, 1, False), (128, 7, 1, False), (256, 8, 1, False),
      (512, 9, 1, False), (1024, 10, 1, False), (2048, 11, 1, False), (4096, 12, 1, False),
      (16384, 14, 1, False), (65536, 16, 1, False)]"

definition mantissa_quantizer :: "nat \<Rightarrow> eac3_error + mantissa_quantizer" where
  "mantissa_quantizer bap =
     (if bap < length QUANTIZERS then Inr (QUANTIZERS ! bap) else Inl (InvalidMantissaBap bap))"

definition decode_mantissa_code :: "nat \<Rightarrow> nat \<Rightarrow> eac3_error + real" where
  "decode_mantissa_code bap code =
     attempt (mantissa_quantizer bap) (\<lambda>q.
       if code \<ge> levels q then Inl (InvalidMantissaCode bap code)
       else if bap = 0 then Inr 0
       else if symmetric q then
         (let midpoint = int (levels q - 1) div 2; numerator = 2 * (int code - midpoint) in
          Inr (of_int numerator / of_nat (levels q)))
       else
         (let raw = int code;
              signed = (if bit raw (group_bits q - 1) then raw - 2 ^ group_bits q else raw) in
          Inr (of_int signed / 2 ^ (group_bits q - 1))))"

definition shift_mantissa :: "real \<Rightarrow> nat \<Rightarrow> eac3_error + real" where
  "shift_mantissa v exponent =
     (if exponent > 24 then Inl (ExponentOutOfRange (int exponent)) else Inr (v / 2 ^ exponent))"

definition ungroup_mantissa_code :: "nat \<Rightarrow> nat \<Rightarrow> eac3_error + nat list" where
  "ungroup_mantissa_code bap group_code =
     attempt (mantissa_quantizer bap) (\<lambda>_.
       if bap = 1 then
         (if group_code \<ge> 27 then Inl (InvalidMantissaGroupCode bap group_code)
          else Inr [group_code div 9, (group_code mod 9) div 3, group_code mod 3])
       else if bap = 2 then
         (if group_code \<ge> 125 then Inl (InvalidMantissaGroupCode bap group_code)
          else Inr [group_code div 25, (group_code mod 25) div 5, group_code mod 5])
       else if bap = 4 then
         (if group_code \<ge> 121 then Inl (InvalidMantissaGroupCode bap group_code)
          else Inr [group_code div 11, group_code mod 11])
       else Inl (InvalidMantissaBap bap))"

section \<open>Grouping state\<close>

record mantissa_grouping_state =
  gr_values :: "nat list list"
  gr_raw_codes :: "nat list"
  gr_positions :: "nat list"

definition initial_grouping :: mantissa_grouping_state where
  "initial_grouping = \<lparr>gr_values = replicate 16 [0, 0, 0], gr_raw_codes = replicate 16 0,
     gr_positions = replicate 16 0\<rparr>"

record mantissa_code =
  mc_value :: nat
  mc_raw_code :: nat
  mc_grouped :: bool
  mc_group_position :: nat

definition plain_code :: "nat \<Rightarrow> mantissa_code" where
  "plain_code v = \<lparr>mc_value = v, mc_raw_code = v, mc_grouped = False, mc_group_position = 0\<rparr>"

text \<open>The stateful part: a packed word is read when no group of this kind is pending.\<close>

type_synonym 'a mantissa_reader = "(bit_reader \<times> mantissa_grouping_state, eac3_error, 'a) rd"

definition on_reader :: "'a eac3_parser \<Rightarrow> 'a mantissa_reader" where
  "on_reader p = (\<lambda>(r, g). case p r of (x, r') \<Rightarrow> (x, (r', g)))"

definition get_grouping :: "mantissa_grouping_state mantissa_reader" where
  "get_grouping = (\<lambda>(r, g). (Inr g, (r, g)))"

definition put_grouping :: "mantissa_grouping_state \<Rightarrow> unit mantissa_reader" where
  "put_grouping g' = (\<lambda>(r, g). (Inr (), (r, g')))"

text \<open>\<open>self.values[index][slot] = value\<close> for the slots of the new group.\<close>

definition store_group :: "nat \<Rightarrow> nat \<Rightarrow> nat list \<Rightarrow> mantissa_grouping_state \<Rightarrow> mantissa_grouping_state" where
  "store_group index raw_code vs g =
     g\<lparr>gr_values := (gr_values g)[index := vs @ drop (length vs) (gr_values g ! index)],
       gr_raw_codes := (gr_raw_codes g)[index := raw_code]\<rparr>"

definition advance :: "nat \<Rightarrow> mantissa_quantizer \<Rightarrow> mantissa_grouping_state \<Rightarrow> mantissa_grouping_state" where
  "advance index q g =
     (let next_position = gr_positions g ! index + 1 in
      g\<lparr>gr_positions := (gr_positions g)[index := if next_position = group_size q then 0 else next_position]\<rparr>)"

definition next_code :: "nat \<Rightarrow> mantissa_code mantissa_reader" where
  "next_code bap =
     bind_rd (lift_rd (mantissa_quantizer bap)) (\<lambda>q.
       if bap = 0 then ret (plain_code 0)
       else if group_size q = 1 then
         bind_rd (on_reader (eac3_u16 (group_bits q))) (\<lambda>raw.
           if raw \<ge> levels q then fail (InvalidMantissaCode bap raw) else ret (plain_code raw))
       else
         bind_rd get_grouping (\<lambda>g.
         let group_position = gr_positions g ! bap in
         bind_rd
           (if group_position = 0 then
              bind_rd (on_reader (eac3_u16 (group_bits q))) (\<lambda>raw.
                if raw \<ge> levels q ^ group_size q then fail (InvalidMantissaGroupCode bap raw)
                else
                  bind_rd (lift_rd (ungroup_mantissa_code bap raw)) (\<lambda>vs.
                  bind_rd (put_grouping (store_group bap raw vs g)) (\<lambda>_. ret raw)))
            else ret (gr_raw_codes g ! bap)) (\<lambda>raw.
         bind_rd get_grouping (\<lambda>g.
         let v = gr_values g ! bap ! group_position in
         bind_rd (put_grouping (advance bap q g)) (\<lambda>_.
           ret \<lparr>mc_value = v, mc_raw_code = raw, mc_grouped = True, mc_group_position = group_position\<rparr>)))))"

text \<open>The plan: the width of the next word and its place in the group, without a reader.\<close>

definition next_width ::
  "nat \<Rightarrow> mantissa_grouping_state \<Rightarrow> (eac3_error + nat \<times> nat) \<times> mantissa_grouping_state" where
  "next_width bap g =
     (case mantissa_quantizer bap of
        Inl e \<Rightarrow> (Inl e, g)
      | Inr q \<Rightarrow>
          if bap = 0 then (Inr (0, 0), g)
          else if group_size q = 1 then (Inr (group_bits q, 0), g)
          else
            (let group_position = gr_positions g ! bap;
                 width = (if group_position = 0 then group_bits q else 0) in
             (Inr (width, group_position), advance bap q g)))"

section \<open>Traversal\<close>

record mantissa_decode_trace =
  tr_raw_codes :: "nat list"
  tr_grouped :: "bool list"
  tr_group_positions :: "nat list"
  tr_dither_values :: "real list"
  tr_dequantized :: "real list"

definition push_trace :: "nat \<Rightarrow> bool \<Rightarrow> nat \<Rightarrow> real \<Rightarrow> real \<Rightarrow> mantissa_decode_trace \<Rightarrow> mantissa_decode_trace" where
  "push_trace raw grouped position dither v t =
     \<lparr>tr_raw_codes = tr_raw_codes t @ [raw], tr_grouped = tr_grouped t @ [grouped],
      tr_group_positions = tr_group_positions t @ [position], tr_dither_values = tr_dither_values t @ [dither],
      tr_dequantized = tr_dequantized t @ [v]\<rparr>"

text \<open>
  The loop.  \<open>items\<close> are the parallel arrays from \<open>index\<close> on, \<open>dither\<close> the dither values not yet
  used; the trace is the optional \<open>&mut\<close> argument, returned updated.
\<close>

fun mantissa_loop ::
  "nat \<Rightarrow> (nat \<times> nat \<times> bool) list \<Rightarrow> real list \<Rightarrow> mantissa_decode_trace option \<Rightarrow>
   (real list \<times> mantissa_decode_trace option) mantissa_reader" where
  "mantissa_loop index [] dither trace = ret ([], trace)"
| "mantissa_loop index ((bap, exponent, dithered) # items) dither trace =
     (if bap = 0 then
        bind_rd (if dithered
                 then (case dither of [] \<Rightarrow> fail (MissingDitherValue index) | d # ds \<Rightarrow> ret (d, ds))
                 else ret (0, dither)) (\<lambda>(d, dither).
        bind_rd (lift_rd (shift_mantissa d exponent)) (\<lambda>v.
        bind_rd (mantissa_loop (index + 1) items dither (map_option (push_trace 0 False 0 d v) trace)) (\<lambda>(vs, trace).
          ret (v # vs, trace))))
      else
        bind_rd (next_code bap) (\<lambda>code.
        bind_rd (lift_rd (decode_mantissa_code bap (mc_value code))) (\<lambda>m.
        bind_rd (lift_rd (shift_mantissa m exponent)) (\<lambda>v.
        bind_rd (mantissa_loop (index + 1) items dither
                   (map_option (push_trace (mc_raw_code code) (mc_grouped code) (mc_group_position code) 0 v) trace))
          (\<lambda>(vs, trace). ret (v # vs, trace))))))"

definition decode_mantissas_with_state_and_trace ::
  "nat list \<Rightarrow> nat list \<Rightarrow> bool list \<Rightarrow> real list \<Rightarrow> mantissa_decode_trace option \<Rightarrow>
   (real list \<times> mantissa_decode_trace option) mantissa_reader" where
  "decode_mantissas_with_state_and_trace baps exponents dither_flags dither_values trace =
     (if length baps \<noteq> length exponents
      then fail (MantissaExponentLengthMismatch (length baps) (length exponents))
      else if length baps \<noteq> length dither_flags
      then fail (MantissaDitherLengthMismatch (length baps) (length dither_flags))
      else
        bind_rd (each_rd (\<lambda>bap. lift_rd (mantissa_quantizer bap)) baps) (\<lambda>_.
        bind_rd (each_rd (\<lambda>exponent. guard_rd (exponent \<le> 24) (ExponentOutOfRange (int exponent))) exponents) (\<lambda>_.
          mantissa_loop 0 (zip baps (zip exponents dither_flags)) dither_values trace)))"

definition decode_mantissas_with_state ::
  "nat list \<Rightarrow> nat list \<Rightarrow> bool list \<Rightarrow> real list \<Rightarrow> real list mantissa_reader" where
  "decode_mantissas_with_state baps exponents dither_flags dither_values =
     bind_rd (decode_mantissas_with_state_and_trace baps exponents dither_flags dither_values None) (\<lambda>(vs, _). ret vs)"

definition decode_mantissas ::
  "nat list \<Rightarrow> nat list \<Rightarrow> bool list \<Rightarrow> real list \<Rightarrow> real list eac3_parser" where
  "decode_mantissas baps exponents dither_flags dither_values r =
     (case decode_mantissas_with_state baps exponents dither_flags dither_values (r, initial_grouping) of
        (x, (r', _)) \<Rightarrow> (x, r'))"

end
