(* ===== verification/Eac3MantissaSpec.thy ===== *)
theory Eac3MantissaSpec
  imports Eac3Mantissa
begin

text \<open>
  The traversal of the mantissa words against its plan: the widths that \<open>next_width\<close> predicts
  without a reader are the widths that are consumed, the pending words of the grouping state are
  always words of their quantizer, and the dequantized values are fractions.
\<close>

section \<open>Quantizer rows\<close>

definition row_ok :: "mantissa_quantizer \<Rightarrow> bool" where
  "row_ok q \<longleftrightarrow> (if symmetric q then odd (levels q) else 0 < group_bits q \<and> levels q = 2 ^ group_bits q)
     \<and> group_bits q \<le> 16 \<and> 1 \<le> group_size q \<and> group_size q \<le> 3"

lemma length_quantizers [simp]: "length QUANTIZERS = 16"
  by (simp add: QUANTIZERS_def)

lemma quantizer_rows: "list_all row_ok (tl QUANTIZERS)"
  by (simp add: QUANTIZERS_def row_ok_def)

lemma quantizer_Inr: "mantissa_quantizer bap = Inr q \<longleftrightarrow> bap < 16 \<and> q = QUANTIZERS ! bap"
  by (auto simp: mantissa_quantizer_def)

lemma row: "0 < bap \<Longrightarrow> bap < 16 \<Longrightarrow> row_ok (QUANTIZERS ! bap)"
  using quantizer_rows by (cases bap) (auto simp: list_all_length nth_tl)

lemma grouped_rows: "bap < 16 \<Longrightarrow> group_size (QUANTIZERS ! bap) \<noteq> 1 \<longleftrightarrow> bap \<in> {1, 2, 4}"
proof -
  assume "bap < 16"
  moreover have "list_all (\<lambda>b. group_size (QUANTIZERS ! b) \<noteq> 1 \<longleftrightarrow> b \<in> {1, 2, 4}) [0..<16]"
    by (simp add: QUANTIZERS_def upt_rec)
  ultimately show ?thesis by (simp add: list_all_iff)
qed

lemma grouped_row [simp]:
  "QUANTIZERS ! 1 = \<lparr>levels = 3, group_bits = 5, group_size = 3, symmetric = True\<rparr>"
  "QUANTIZERS ! Suc 0 = \<lparr>levels = 3, group_bits = 5, group_size = 3, symmetric = True\<rparr>"
  "QUANTIZERS ! 2 = \<lparr>levels = 5, group_bits = 7, group_size = 3, symmetric = True\<rparr>"
  "QUANTIZERS ! 4 = \<lparr>levels = 11, group_bits = 7, group_size = 2, symmetric = True\<rparr>"
  by (simp_all add: QUANTIZERS_def)

text \<open>A dequantized word is a fraction.\<close>

lemma two_complement:
  assumes "c < 2 ^ n" and "0 < n"
  shows "\<bar>if bit (int c) (n - 1) then int c - 2 ^ n else int c\<bar> \<le> 2 ^ (n - 1)"
proof -
  obtain m where n: "n = Suc m" using assms(2) by (cases n) auto
  have c: "int c < 2 ^ n" using assms(1) by (metis of_nat_less_iff of_nat_numeral of_nat_power)
  have "bit (int c) m \<longleftrightarrow> 2 ^ m \<le> int c"
  proof (cases "2 ^ m \<le> int c")
    case True
    have "int c div 2 ^ m = 1" by (rule int_div_pos_eq [of _ _ _ "int c - 2 ^ m"]) (use True c n in auto)
    then show ?thesis using True by (simp add: bit_iff_odd)
  next
    case False
    then show ?thesis by (simp add: bit_iff_odd)
  qed
  then show ?thesis using c n by auto
qed

lemma decode_mantissa_range:
  assumes "0 < bap" and "bap < 16" and "c < levels (QUANTIZERS ! bap)"
  shows "\<exists>m. decode_mantissa_code bap c = Inr m \<and> \<bar>m\<bar> \<le> 1"
proof -
  let ?q = "QUANTIZERS ! bap"
  note r = row [OF assms(1,2)]
  show ?thesis
  proof (cases "symmetric ?q")
    case True
    obtain k where k: "levels ?q = 2 * k + 1" using r True by (auto simp: row_ok_def elim: oddE)
    have "int c \<le> 2 * int k" using assms(3) k by linarith
    then have "\<bar>2 * (int c - int k)\<bar> \<le> int (2 * k + 1)" by (simp add: abs_le_iff)
    then have "\<bar>of_int (2 * (int c - int k)) :: real\<bar> \<le> of_nat (2 * k + 1)"
      by (metis of_int_abs of_int_le_iff of_int_of_nat_eq)
    then have "\<bar>of_int (2 * (int c - int k)) / of_nat (2 * k + 1) :: real\<bar> \<le> 1"
      by (simp add: abs_divide divide_le_eq)
    then show ?thesis
      using assms True k by (simp add: decode_mantissa_code_def quantizer_Inr [THEN iffD2] Let_def)
  next
    case False
    let ?n = "group_bits ?q"
    let ?s = "if bit (int c) (?n - 1) then int c - 2 ^ ?n else int c"
    have n: "0 < ?n" "levels ?q = 2 ^ ?n" using r False by (auto simp: row_ok_def)
    have "\<bar>?s\<bar> \<le> 2 ^ (?n - 1)" using two_complement [of c ?n] assms(3) n by simp
    then have "\<bar>of_int ?s :: real\<bar> \<le> 2 ^ (?n - 1)"
      by (metis of_int_abs of_int_le_iff of_int_numeral of_int_power)
    then have "\<bar>of_int ?s / 2 ^ (?n - 1) :: real\<bar> \<le> 1"
      by (simp add: abs_divide divide_le_eq)
    moreover have "decode_mantissa_code bap c = Inr (of_int ?s / 2 ^ (?n - 1))"
      using assms False by (simp only: decode_mantissa_code_def quantizer_Inr [THEN iffD2] Let_def) simp
    ultimately show ?thesis by blast
  qed
qed

section \<open>Pending groups\<close>

definition group_ok :: "mantissa_grouping_state \<Rightarrow> nat \<Rightarrow> bool" where
  "group_ok g b \<longleftrightarrow> gr_positions g ! b < group_size (QUANTIZERS ! b) \<and> length (gr_values g ! b) = 3
     \<and> (0 < gr_positions g ! b \<longrightarrow>
          (\<forall>s < group_size (QUANTIZERS ! b). gr_values g ! b ! s < levels (QUANTIZERS ! b)))"

definition grouping_ok :: "mantissa_grouping_state \<Rightarrow> bool" where
  "grouping_ok g \<longleftrightarrow> length (gr_values g) = 16 \<and> length (gr_positions g) = 16 \<and> (\<forall>b \<in> {1, 2, 4}. group_ok g b)"

lemma initial_grouping_ok: "grouping_ok initial_grouping"
  by (simp add: grouping_ok_def group_ok_def initial_grouping_def)

lemma grouping_okD: "grouping_ok g \<Longrightarrow> b \<in> {1, 2, 4} \<Longrightarrow> group_ok g b"
  unfolding grouping_ok_def by blast

lemma group_ok_cong:
  "gr_positions h ! b = gr_positions g ! b \<Longrightarrow> gr_values h ! b = gr_values g ! b \<Longrightarrow> group_ok h b \<longleftrightarrow> group_ok g b"
  by (simp add: group_ok_def)

lemma kind_less: "b \<in> {1, 2, 4} \<Longrightarrow> b < (16 :: nat)"
  by auto

lemma three_digits: "c < a * (a * a) \<Longrightarrow> c div (a * a) < a \<and> c mod (a * a) div a < a \<and> c mod a < (a :: nat)"
  by (cases "a = 0") (simp_all add: less_mult_imp_div_less)

lemma ungroup_ok:
  assumes "bap \<in> {1, 2, 4}" and "raw < levels (QUANTIZERS ! bap) ^ group_size (QUANTIZERS ! bap)"
  shows "\<exists>vs. ungroup_mantissa_code bap raw = Inr vs \<and> length vs = group_size (QUANTIZERS ! bap)
    \<and> (\<forall>v \<in> set vs. v < levels (QUANTIZERS ! bap))"
proof -
  consider "bap = 1" | "bap = 2" | "bap = 4" using assms(1) by blast
  then show ?thesis
  proof cases
    case 1
    then have "raw < 27" using assms(2) by (simp add: power3_eq_cube)
    then show ?thesis using 1 three_digits [of raw 3] by (simp add: ungroup_mantissa_code_def mantissa_quantizer_def)
  next
    case 2
    then have "raw < 125" using assms(2) by (simp add: power3_eq_cube)
    then show ?thesis using 2 three_digits [of raw 5] by (simp add: ungroup_mantissa_code_def mantissa_quantizer_def)
  next
    case 3
    then have "raw < 121" using assms(2) by (simp add: power2_eq_square)
    then have "raw div 11 < 11" by (simp add: less_mult_imp_div_less)
    then show ?thesis using 3 \<open>raw < 121\<close> by (simp add: ungroup_mantissa_code_def mantissa_quantizer_def)
  qed
qed

lemma advance_ok:
  assumes g: "grouping_ok g" and kind: "bap \<in> {1, 2, 4}"
    and vals: "\<forall>s < group_size (QUANTIZERS ! bap). gr_values g ! bap ! s < levels (QUANTIZERS ! bap)"
  shows "grouping_ok (advance bap (QUANTIZERS ! bap) g)"
proof -
  have "group_ok (advance bap (QUANTIZERS ! bap) g) b" if b: "b \<in> {1, 2, 4}" for b
  proof (cases "b = bap")
    case True
    have "gr_positions g ! bap < group_size (QUANTIZERS ! bap)" "length (gr_values g ! bap) = 3" "bap < length (gr_positions g)"
      using grouping_okD [OF g kind] kind_less [OF kind] g by (simp_all add: group_ok_def grouping_ok_def)
    then show ?thesis using True vals by (simp add: group_ok_def advance_def Let_def)
  next
    case False
    then show ?thesis
      using grouping_okD [OF g b] group_ok_cong [of "advance bap (QUANTIZERS ! bap) g" b g]
      by (simp add: advance_def Let_def)
  qed
  then show ?thesis using g unfolding grouping_ok_def by (simp add: advance_def Let_def)
qed

lemma store_ok:
  assumes g: "grouping_ok g" and kind: "bap \<in> {1, 2, 4}" and vs: "length vs = group_size (QUANTIZERS ! bap)"
    "\<forall>v \<in> set vs. v < levels (QUANTIZERS ! bap)"
  shows "grouping_ok (store_group bap raw vs g)"
    and "\<forall>s < group_size (QUANTIZERS ! bap). gr_values (store_group bap raw vs g) ! bap ! s < levels (QUANTIZERS ! bap)"
proof -
  have len: "bap < length (gr_values g)" "length (gr_values g ! bap) = 3" "length vs \<le> 3"
    "gr_positions g ! bap < group_size (QUANTIZERS ! bap)"
    using grouping_okD [OF g kind] kind_less [OF kind] g vs(1) row [of bap] kind
    by (auto simp only: group_ok_def grouping_ok_def row_ok_def)
  have at: "gr_values (store_group bap raw vs g) ! bap = vs @ drop (length vs) (gr_values g ! bap)"
    using len(1) by (simp add: store_group_def)
  show vals: "\<forall>s < group_size (QUANTIZERS ! bap). gr_values (store_group bap raw vs g) ! bap ! s < levels (QUANTIZERS ! bap)"
    unfolding at using vs by (simp add: nth_append)
  have same: "gr_positions (store_group bap raw vs g) = gr_positions g" by (simp add: store_group_def)
  have "group_ok (store_group bap raw vs g) b" if b: "b \<in> {1, 2, 4}" for b
  proof (cases "b = bap")
    case True
    have "length (gr_values (store_group bap raw vs g) ! bap) = 3" unfolding at using len by simp
    then show ?thesis using True len(4) vals by (simp add: group_ok_def same)
  next
    case False
    then show ?thesis
      using grouping_okD [OF g b] group_ok_cong [of "store_group bap raw vs g" b g] by (simp add: store_group_def)
  qed
  then show "grouping_ok (store_group bap raw vs g)" using g unfolding grouping_ok_def by (simp add: store_group_def)
qed

section \<open>One word\<close>

text \<open>The errors that a word can raise by its value, and the one of a reader that is too short.\<close>

definition bad_code :: "eac3_error \<Rightarrow> bool" where
  "bad_code e \<longleftrightarrow> (\<exists>b c. e = InvalidMantissaCode b c \<or> e = InvalidMantissaGroupCode b c)"

definition starved_read :: "eac3_error \<Rightarrow> bool" where
  "starved_read e \<longleftrightarrow> (\<exists>a b. e = Eac3Bit (EndOfInput a b))"

lemma u16_field:
  assumes "reader_ok r" and "n \<le> 16"
  shows "n \<le> length (unread r) \<Longrightarrow> eac3_u16 n r = (Inr (bits_value (take n (unread r))), skip n r)"
    and "length (unread r) < n \<Longrightarrow> eac3_u16 n r = (Inl (Eac3Bit (EndOfInput n (length (unread r)))), r)"
proof -
  assume n: "n \<le> length (unread r)"
  have "(2 :: nat) ^ n \<le> 2 ^ 16" using assms(2) by (intro power_increasing) simp_all
  then have "reads (eac3_u16 n) (take n (unread r)) (bits_value (take n (unread r)))"
    unfolding eac3_u16_def using assms(2) n by (intro reads_read_uint) simp_all
  from readsD [OF this assms(1), of "drop n (unread r)"]
  show "eac3_u16 n r = (Inr (bits_value (take n (unread r))), skip n r)" using n by (simp add: min_absorb2)
next
  assume "length (unread r) < n"
  then show "eac3_u16 n r = (Inl (Eac3Bit (EndOfInput n (length (unread r)))), r)"
    using assms by (simp add: eac3_u16_def read_uint_def bind_rd_def map_err_def read_bits_short)
qed

definition word_step ::
  "nat \<Rightarrow> bit_reader \<Rightarrow> nat \<Rightarrow> mantissa_grouping_state \<Rightarrow>
   (eac3_error + mantissa_code) \<times> (bit_reader \<times> mantissa_grouping_state) \<Rightarrow> bool" where
  "word_step bap r w h x \<longleftrightarrow>
     (case x of
        (Inl e, _) \<Rightarrow> bad_code e \<or> starved_read e \<and> length (unread r) < w
      | (Inr code, (r', g')) \<Rightarrow> w \<le> length (unread r) \<and> r' = skip w r \<and> grouping_ok g'
          \<and> gr_positions g' = gr_positions h \<and> (0 < bap \<longrightarrow> mc_value code < levels (QUANTIZERS ! bap)))"

lemma next_code_step:
  assumes r: "reader_ok r" and g: "grouping_ok g" and width: "next_width bap g = (Inr (w, p), h)"
  shows "word_step bap r w h (next_code bap (r, g))"
proof -
  have bap: "bap < 16" using width by (cases "bap < 16") (auto simp: next_width_def mantissa_quantizer_def)
  then have q: "mantissa_quantizer bap = Inr (QUANTIZERS ! bap)" by (simp add: quantizer_Inr)
  let ?q = "QUANTIZERS ! bap"
  consider "bap = 0" | "0 < bap" "group_size ?q = 1" | "bap \<in> {1, 2, 4}" "group_size ?q \<noteq> 1"
    using bap grouped_rows by fastforce
  then show ?thesis
  proof cases
    case 1
    then show ?thesis using width q g by (simp add: word_step_def next_code_def next_width_def rd_simps)
  next
    case 2
    then have w: "w = group_bits ?q" "h = g" using width q by (auto simp: next_width_def)
    have n: "group_bits ?q \<le> 16" using row [OF 2(1) bap] by (simp add: row_ok_def)
    show ?thesis
    proof (cases "w \<le> length (unread r)")
      case True
      then show ?thesis
        using 2 g w u16_field(1) [OF r n]
        by (simp add: word_step_def next_code_def q on_reader_def bind_rd_def ret_def fail_def bad_code_def plain_code_def)
    next
      case False
      then show ?thesis
        using 2 w u16_field(2) [OF r n]
        by (simp add: word_step_def next_code_def q on_reader_def bind_rd_def starved_read_def)
    qed
  next
    case 3
    let ?pos = "gr_positions g ! bap"
    have nz: "bap \<noteq> 0" using 3 by auto
    have w: "w = (if ?pos = 0 then group_bits ?q else 0)" "h = advance bap ?q g"
      using width q 3 nz by (auto simp: next_width_def Let_def)
    have pos: "?pos < group_size ?q" using grouping_okD [OF g 3(1)] by (simp add: group_ok_def)
    have n: "group_bits ?q \<le> 16" using row [of bap] bap nz by (simp add: row_ok_def)
    have finish: "word_step bap r w h (Inr c, (skip w r, advance bap ?q g'))"
      if "w \<le> length (unread r)" "grouping_ok g'" "gr_positions g' = gr_positions g"
        "\<forall>s < group_size ?q. gr_values g' ! bap ! s < levels ?q" "mc_value c = gr_values g' ! bap ! ?pos" for c g'
    proof -
      have "gr_positions (advance bap ?q g') = gr_positions h" using that(3) by (simp add: w(2) advance_def Let_def)
      then show ?thesis
        using that advance_ok [OF that(2) 3(1) that(4)] pos by (simp add: word_step_def)
    qed
    show ?thesis
    proof (cases "?pos = 0")
      case False
      have vals: "\<forall>s < group_size ?q. gr_values g ! bap ! s < levels ?q"
        using grouping_okD [OF g 3(1)] False by (simp add: group_ok_def)
      show ?thesis
        using finish [OF _ g refl vals] False 3(2) nz w(1)
        by (simp add: next_code_def q get_grouping_def put_grouping_def bind_rd_def ret_def Let_def)
    next
      case True
      show ?thesis
      proof (cases "w \<le> length (unread r)")
        case False
        then show ?thesis
          using True 3(2) nz w u16_field(2) [OF r n]
          by (simp add: word_step_def next_code_def q get_grouping_def on_reader_def bind_rd_def starved_read_def Let_def)
      next
        case enough: True
        let ?raw = "bits_value (take (group_bits ?q) (unread r))"
        have read: "eac3_u16 (group_bits ?q) r = (Inr ?raw, skip (group_bits ?q) r)"
          using enough True w(1) by (intro u16_field(1) [OF r n]) simp
        show ?thesis
        proof (cases "?raw < levels ?q ^ group_size ?q")
          case False
          then show ?thesis
            using True 3(2) nz read
            by (simp add: word_step_def next_code_def q get_grouping_def on_reader_def bind_rd_def fail_def bad_code_def Let_def)
        next
          case small: True
          obtain vs where vs: "ungroup_mantissa_code bap ?raw = Inr vs" "length vs = group_size ?q"
            "\<forall>v \<in> set vs. v < levels ?q"
            using ungroup_ok [OF 3(1) small] by blast
          note st = store_ok [OF g 3(1) vs(2,3), of ?raw]
          show ?thesis
            using finish [OF enough st(1) _ st(2)] True small 3(2) nz read vs(1) w(1)
            by (simp add: next_code_def q get_grouping_def put_grouping_def on_reader_def bind_rd_def ret_def Let_def)
              (simp add: store_group_def)
        qed
      qed
    qed
  qed
qed

section \<open>The traversal\<close>

text \<open>The number of bits that the plan of a list of pointers needs.\<close>

fun planned :: "nat list \<Rightarrow> mantissa_grouping_state \<Rightarrow> (eac3_error + nat) \<times> mantissa_grouping_state" where
  "planned [] g = (Inr 0, g)"
| "planned (bap # baps) g =
     (case next_width bap g of
        (Inl e, g) \<Rightarrow> (Inl e, g)
      | (Inr (w, _), g) \<Rightarrow> (case planned baps g of (Inl e, g) \<Rightarrow> (Inl e, g) | (Inr n, g) \<Rightarrow> (Inr (w + n), g)))"

lemma next_width_cong:
  "gr_positions g = gr_positions g' \<Longrightarrow>
   fst (next_width bap g) = fst (next_width bap g') \<and> gr_positions (snd (next_width bap g)) = gr_positions (snd (next_width bap g'))"
  by (auto simp: next_width_def advance_def Let_def split: sum.split)

lemma planned_cong:
  "gr_positions g = gr_positions g' \<Longrightarrow>
   fst (planned baps g) = fst (planned baps g') \<and> gr_positions (snd (planned baps g)) = gr_positions (snd (planned baps g'))"
proof (induction baps arbitrary: g g')
  case (Cons bap baps)
  obtain x h x' h' where n: "next_width bap g = (x, h)" "next_width bap g' = (x', h')" by fastforce
  have same: "x = x'" "gr_positions h = gr_positions h'" using next_width_cong [OF Cons.prems, of bap] n by auto
  show ?case
    using Cons.IH [OF same(2)] same n Cons.prems by (auto split: sum.splits prod.splits)
qed simp

lemma planned_total:
  "\<forall>b \<in> set baps. b < 16 \<Longrightarrow> \<exists>n h. planned baps g = (Inr n, h)"
proof (induction baps arbitrary: g)
  case (Cons bap baps)
  have "bap < 16" using Cons.prems by simp
  then have "\<exists>w p h. next_width bap g = (Inr (w, p), h)"
    by (simp add: next_width_def mantissa_quantizer_def Let_def)
  then obtain w p h where "next_width bap g = (Inr (w, p), h)" by blast
  moreover obtain n h' where "planned baps h = (Inr n, h')" using Cons by fastforce
  ultimately show ?case by simp
qed simp

text \<open>What a traversal may return: a code or a reader that is no good, or values of the right size.\<close>

definition item_ok :: "nat \<times> nat \<times> bool \<Rightarrow> real \<Rightarrow> bool" where
  "item_ok x v \<longleftrightarrow> (case x of (bap, exponent, dithered) \<Rightarrow>
     (0 < bap \<longrightarrow> \<bar>v\<bar> \<le> 1 / 2 ^ exponent) \<and> (bap = 0 \<and> \<not> dithered \<longrightarrow> v = 0))"

definition traversal_ok ::
  "(nat \<times> nat \<times> bool) list \<Rightarrow> bit_reader \<Rightarrow> nat \<Rightarrow> nat list \<Rightarrow>
   (eac3_error + real list \<times> mantissa_decode_trace option) \<times> (bit_reader \<times> mantissa_grouping_state) \<Rightarrow> bool" where
  "traversal_ok items r n positions x \<longleftrightarrow>
     (case x of
        (Inl e, _) \<Rightarrow> bad_code e \<or> starved_read e \<and> length (unread r) < n
      | (Inr (vs, _), (r', g')) \<Rightarrow> n \<le> length (unread r) \<and> r' = skip n r \<and> grouping_ok g'
          \<and> gr_positions g' = positions \<and> list_all2 item_ok items vs)"

definition dithered_zeros :: "(nat \<times> nat \<times> bool) list \<Rightarrow> nat" where
  "dithered_zeros items = length (filter (\<lambda>(bap, exponent, dithered). bap = 0 \<and> dithered) items)"

lemma shifted_item:
  "\<bar>m\<bar> \<le> 1 \<Longrightarrow> item_ok (bap, e, d) (m / 2 ^ e) \<longleftrightarrow> bap = 0 \<and> \<not> d \<longrightarrow> m = 0"
  by (auto simp: item_ok_def abs_divide divide_right_mono)

lemma loop_ok:
  assumes "reader_ok r" and "grouping_ok g" and "\<forall>(bap, e, d) \<in> set items. bap < 16 \<and> e \<le> 24"
    and "dithered_zeros items \<le> length dither" and "planned (map fst items) g = (Inr n, h)"
  shows "traversal_ok items r n (gr_positions h) (mantissa_loop index items dither trace (r, g))"
  using assms
proof (induction items arbitrary: r g dither n h index trace)
  case Nil
  then show ?case by (simp add: traversal_ok_def rd_simps)
next
  case (Cons item items)
  obtain bap e d where item: "item = (bap, e, d)" by (cases item) auto
  have e: "e \<le> 24" using Cons.prems(3) item by auto
  obtain w p g1 m where w: "next_width bap g = (Inr (w, p), g1)" and m: "planned (map fst items) g1 = (Inr m, h)" "n = w + m"
    using Cons.prems(5) item by (auto split: sum.splits prod.splits)
  show ?case
  proof (cases "bap = 0")
    case True
    have w0: "w = 0" "g1 = g" using w True by (auto simp: next_width_def mantissa_quantizer_def)
    obtain x ds where x: "(if d then (case dither of [] \<Rightarrow> fail (MissingDitherValue index) | x # ds \<Rightarrow> ret (x, ds))
        else ret (0, dither)) (r, g) = (Inr (x, ds), (r, g))" "\<not> d \<Longrightarrow> x = 0" "dithered_zeros items \<le> length ds"
    proof (cases d)
      case True
      then obtain x ds where "dither = x # ds" using Cons.prems(4) \<open>bap = 0\<close> item
        by (cases dither) (auto simp: dithered_zeros_def)
      then show thesis using that True Cons.prems(4) \<open>bap = 0\<close> item by (simp add: dithered_zeros_def ret_def)
    next
      case False
      then show thesis using that Cons.prems(4) \<open>bap = 0\<close> item by (simp add: dithered_zeros_def ret_def)
    qed
    let ?t = "map_option (push_trace 0 False 0 x (x / 2 ^ e)) trace"
    have "traversal_ok items r m (gr_positions h) (mantissa_loop (index + 1) items ds ?t (r, g))"
      using Cons.prems(1-3) x(3) m(1) w0 by (intro Cons.IH) auto
    moreover have "item_ok item (x / 2 ^ e)" using item True x(2) by (simp add: item_ok_def)
    moreover have "mantissa_loop index (item # items) dither trace (r, g) =
        bind_rd (mantissa_loop (index + 1) items ds ?t) (\<lambda>(vs, trace). ret (x / 2 ^ e # vs, trace)) (r, g)"
      using True item e x(1) by (simp add: bind_rd_def [of "if d then _ else _"] shift_mantissa_def)
    ultimately show ?thesis
      using w0 m(2) unfolding traversal_ok_def
      by (auto simp: bind_rd_def ret_def split: sum.splits prod.splits)
  next
    case False
    have word: "word_step bap r w g1 (next_code bap (r, g))" by (rule next_code_step [OF Cons.prems(1,2) w])
    obtain y st where Pair: "next_code bap (r, g) = (y, st)" by (rule prod.exhaust)
    show ?thesis
    proof (cases y)
      case (Inl err)
      then have "mantissa_loop index (item # items) dither trace (r, g) = (Inl err, st)"
        using False Pair item by (simp add: bind_rd_def)
      then show ?thesis using word Pair Inl m(2) by (auto simp: word_step_def traversal_ok_def)
    next
      case (Inr code)
      obtain r1 g2 where st: "st = (r1, g2)" by (cases st)
      have c: "w \<le> length (unread r)" "r1 = skip w r" "grouping_ok g2" "gr_positions g2 = gr_positions g1"
        "mc_value code < levels (QUANTIZERS ! bap)"
        using word Pair Inr st False by (auto simp: word_step_def)
      have "bap < 16" using Cons.prems(3) item by auto
      then obtain v where v: "decode_mantissa_code bap (mc_value code) = Inr v" "\<bar>v\<bar> \<le> 1"
        using decode_mantissa_range [OF _ _ c(5)] False by auto
      obtain h2 where h2: "planned (map fst items) g2 = (Inr m, h2)" "gr_positions h2 = gr_positions h"
        using planned_cong [OF c(4), of "map fst items"] m(1) by (cases "planned (map fst items) g2") auto
      let ?t = "map_option (push_trace (mc_raw_code code) (mc_grouped code) (mc_group_position code) 0 (v / 2 ^ e)) trace"
      have "traversal_ok items r1 m (gr_positions h2) (mantissa_loop (index + 1) items dither ?t (r1, g2))"
        using Cons.prems(3,4) item False h2(1) c(2,3) reader_ok_skip [OF Cons.prems(1) c(1)]
        by (intro Cons.IH) (auto simp: dithered_zeros_def)
      moreover have "item_ok item (v / 2 ^ e)" using item False shifted_item [OF v(2), of bap e d] by simp
      moreover have "mantissa_loop index (item # items) dither trace (r, g) =
          bind_rd (mantissa_loop (index + 1) items dither ?t) (\<lambda>(vs, trace). ret (v / 2 ^ e # vs, trace)) (r1, g2)"
        using False item e v Pair Inr st by (simp add: bind_rd_Inr [of "next_code bap"] shift_mantissa_def)
      moreover have "length (unread (skip w r)) = length (unread r) - w" using c(1) Cons.prems(1) by (simp add: unread_skip)
      ultimately show ?thesis
        using c(1,2) m(2) h2(2) unfolding traversal_ok_def
        by (auto simp: bind_rd_def ret_def skip_skip split: sum.splits prod.splits)
    qed
  qed
qed

lemma each_pass: "(\<And>x. x \<in> set xs \<Longrightarrow> \<exists>y. f x s = (Inr y, s)) \<Longrightarrow> \<exists>ys. each_rd f xs s = (Inr ys, s)"
proof (induction xs)
  case (Cons x xs)
  then obtain y ys where "f x s = (Inr y, s)" "each_rd f xs s = (Inr ys, s)" by fastforce
  then show ?case by (simp add: bind_rd_Inr [of "f x"] bind_rd_Inr [of "each_rd f xs"] ret_def)
qed (simp add: ret_def)

lemma decode_with_trace_ok:
  assumes "reader_ok r" and "grouping_ok g" and "\<forall>b \<in> set baps. b < 16" and "\<forall>x \<in> set exponents. x \<le> 24"
    and "length exponents = length baps" and "length flags = length baps"
    and "dithered_zeros (zip baps (zip exponents flags)) \<le> length dither" and "planned baps g = (Inr n, h)"
  shows "traversal_ok (zip baps (zip exponents flags)) r n (gr_positions h)
    (decode_mantissas_with_state_and_trace baps exponents flags dither trace (r, g))"
proof -
  obtain ys where ys: "each_rd (\<lambda>bap. lift_rd (mantissa_quantizer bap)) baps (r, g) = (Inr ys, (r, g))"
    using each_pass [of baps "\<lambda>bap. lift_rd (mantissa_quantizer bap)" "(r, g)"] assms(3)
    by (auto simp: mantissa_quantizer_def ret_def)
  obtain zs where zs: "each_rd (\<lambda>x. guard_rd (x \<le> 24) (ExponentOutOfRange (int x))) exponents (r, g) = (Inr zs, (r, g))"
    using each_pass [of exponents "\<lambda>x. guard_rd (x \<le> 24) (ExponentOutOfRange (int x))" "(r, g)"] assms(4)
    by (auto simp: ret_def)
  have "decode_mantissas_with_state_and_trace baps exponents flags dither trace (r, g)
      = mantissa_loop 0 (zip baps (zip exponents flags)) dither trace (r, g)"
    using assms(5,6) by (simp add: decode_mantissas_with_state_and_trace_def bind_rd_def ys zs)
  moreover have "map fst (zip baps (zip exponents flags)) = baps" using assms(5,6) by simp
  ultimately show ?thesis
    using assms by (auto intro!: loop_ok dest: set_zip_leftD set_zip_rightD)
qed

end
