(* ===== verification/Eac3Props.thy ===== *)
theory Eac3Props
  imports Eac3ShortUnits Eac3Pointers Eac3MantissaSpec
begin

text \<open>
  Properties of the E-AC-3 front end: framing, the frame-wide syntax, the checksums of the original
  syntax, the bit allocation and the mantissas; with concrete instances.
\<close>

section \<open>Framing\<close>

text \<open>
  A stream of three frames of eight bytes: an independent frame of six blocks, its dependent
  frame, and the next independent frame.
\<close>

definition three_frames :: "u8 list" where
  "three_frames = [0x0B, 0x77, 0x00, 0x03, 0x34, 0x80, 0, 0, 0x0B, 0x77, 0x40, 0x03, 0x34, 0x80, 0, 0,
                   0x0B, 0x77, 0x00, 0x03, 0x34, 0x80, 0, 0]"

definition frame_header :: "stream_type \<Rightarrow> syncframe_header" where
  "frame_header t = \<lparr>stream_type = t, substream_id = 0, hdr_bitstream_id = 16, frame_size = 8,
     sample_rate = 48000, audio_blocks = 6, frame_samples = 1536\<rparr>"

definition three_entries :: "syncframe_index_entry list" where
  "three_entries = [\<lparr>entry_offset = 0, entry_header = frame_header Independent\<rparr>,
     \<lparr>entry_offset = 8, entry_header = frame_header Dependent\<rparr>,
     \<lparr>entry_offset = 16, entry_header = frame_header Independent\<rparr>]"

lemma three_frames_index: "index_syncframes three_frames = Inr three_entries"
  by code_simp

lemma three_frames_fit: "8 * length three_frames \<le> usize_max" "length three_frames \<le> usize_max"
  by code_simp+

text \<open>
  C21: the index of a stream is its tiling by syncframes.  \<open>index_syncframes\<close> returns the entries
  \<open>es\<close> exactly when they cover the stream from its first byte to its last without gap or overlap,
  each at the offset where the one before ends, with the header that stands there.
\<close>

theorem index_is_the_frame_tiling:
  assumes "length bs \<le> usize_max"
  shows "index_syncframes bs = Inr es \<longleftrightarrow> frames_tile bs 0 es"
  using index_from_tile [OF assms, of 0 "[]" es] by (simp add: index_syncframes_def)

theorem index_is_the_frame_tiling_witness:
  "index_syncframes three_frames = Inr three_entries \<longleftrightarrow> frames_tile three_frames 0 three_entries"
  by (rule index_is_the_frame_tiling [OF three_frames_fit(2)])

text \<open>
  C19: grouping returns complete access units.  When \<open>group_access_units\<close> accepts a sequence of
  frames, the units tile it in order; each starts with a frame of identifier 0 that is not
  dependent, has one sampling rate, numbers the dependent frames of each run from 0 with at most
  eight of them and the block count of the frame before, and the programme frames in it carry six
  audio blocks (more only for a single first frame of more).
\<close>

theorem grouped_units_are_complete:
  assumes "group_access_units frames = Inr units"
  shows "units_tile frames 0 units"
  using group_from_tile [of frames "[]" 0 units] assms by (simp add: group_access_units_def)

lemma three_entries_group:
  "group_access_units three_entries = Inr
     [\<lparr>first_frame = 0, frame_count = 2, unit_sample_rate = 48000, unit_samples = 1536\<rparr>,
      \<lparr>first_frame = 2, frame_count = 1, unit_sample_rate = 48000, unit_samples = 1536\<rparr>]"
  by code_simp

theorem grouped_units_are_complete_witness:
  "units_tile three_entries 0
     [\<lparr>first_frame = 0, frame_count = 2, unit_sample_rate = 48000, unit_samples = 1536\<rparr>,
      \<lparr>first_frame = 2, frame_count = 1, unit_sample_rate = 48000, unit_samples = 1536\<rparr>]"
  by (rule grouped_units_are_complete [OF three_entries_group])

text \<open>
  C16: where the streaming search and the batch functions agree.  Suppose that the streaming search
  reports the first access unit of a buffer to be its first \<open>n\<close> bytes, and that these bytes have an index
  \<open>es\<close>.  A unit that starts with a frame of six blocks is then, for the grouping, one unit of all frames
  of the index, at 48 kHz and as long as its first frame.  A unit of shorter frames is one unit of 1536
  samples for the grouping exactly if all its programme sets have the same number of dependent frames:
  the search does not compare these numbers, so it also accepts units that the grouping refuses.
\<close>

theorem streaming_agrees_with_batch:
  assumes "parse_access_unit_bounds bs eos = Inr (Complete n)" and "parse_syncframe_header bs = Inr h"
    and "8 * length bs \<le> usize_max" and "index_syncframes (take n bs) = Inr es"
  shows "group_access_units es = Inr [\<lparr>first_frame = 0, frame_count = length es, unit_sample_rate = 48000,
             unit_samples = (if 6 \<le> audio_blocks h then frame_samples h else 1536)\<rparr>]
         \<longleftrightarrow> 6 \<le> audio_blocks h \<or> (\<forall>x \<in> set (dependent_runs es). \<forall>y \<in> set (dependent_runs es). x = y)"
  by (rule streaming_grouping [OF assms])

lemma three_frames_bounds:
  "parse_access_unit_bounds three_frames False = Inr (Complete 16)"
  "parse_syncframe_header three_frames = Inr (frame_header Independent)"
  "index_syncframes (take 16 three_frames) = Inr (take 2 three_entries)"
  by code_simp+

text \<open>Two sets of three blocks each, the second with a dependent frame, and a unit without it.\<close>

definition short_frames :: "u8 list" where
  "short_frames = [0x0B, 0x77, 0x00, 0x07, 0x22, 0x80, 4, 0, 0, 0, 0, 0, 0, 0, 0, 0,
                   0x0B, 0x77, 0x00, 0x07, 0x22, 0x80, 0, 0, 0, 0, 0, 0, 0, 0, 0, 0,
                   0x0B, 0x77, 0x40, 0x07, 0x22, 0x80, 0, 0, 0, 0, 0, 0, 0, 0, 0, 0]"

definition short_header :: "stream_type \<Rightarrow> syncframe_header" where
  "short_header t = \<lparr>stream_type = t, substream_id = 0, hdr_bitstream_id = 16, frame_size = 16,
     sample_rate = 48000, audio_blocks = 3, frame_samples = 768\<rparr>"

definition short_entries :: "syncframe_index_entry list" where
  "short_entries = [\<lparr>entry_offset = 0, entry_header = short_header Independent\<rparr>,
     \<lparr>entry_offset = 16, entry_header = short_header Independent\<rparr>,
     \<lparr>entry_offset = 32, entry_header = short_header Dependent\<rparr>]"

lemma short_frames_bounds: "parse_access_unit_bounds short_frames True = Inr (Complete 48)"
  by code_simp

lemma short_frames_index:
  "parse_syncframe_header short_frames = Inr (short_header Independent)" "8 * length short_frames \<le> usize_max"
  "index_syncframes (take 48 short_frames) = Inr short_entries"
  by code_simp+

lemma two_frames_bounds: "parse_access_unit_bounds (take 32 short_frames) True = Inr (Complete 32)"
  by code_simp

lemma two_frames_index:
  "parse_syncframe_header (take 32 short_frames) = Inr (short_header Independent)"
  "8 * length (take 32 short_frames) \<le> usize_max"
  "index_syncframes (take 32 (take 32 short_frames)) = Inr (take 2 short_entries)"
  by code_simp+

lemma entries_facts:
  "length three_entries = 3" "length short_entries = 3"
  "dependent_runs (take 2 short_entries) = [0, 0]" "dependent_runs short_entries = [0, 1]"
  "audio_blocks (frame_header t) = 6" "audio_blocks (short_header t) = 3" "frame_samples (frame_header t) = 1536"
  by (simp_all add: three_entries_def short_entries_def frame_header_def short_header_def numeral_2_eq_2)

theorem streaming_agrees_with_batch_witness:
  "group_access_units (take 2 three_entries) = Inr [\<lparr>first_frame = 0, frame_count = 2,
     unit_sample_rate = 48000, unit_samples = 1536\<rparr>]
   \<and> group_access_units (take 2 short_entries) = Inr [\<lparr>first_frame = 0, frame_count = 2,
     unit_sample_rate = 48000, unit_samples = 1536\<rparr>]
   \<and> group_access_units short_entries \<noteq> Inr [\<lparr>first_frame = 0, frame_count = 3,
     unit_sample_rate = 48000, unit_samples = 1536\<rparr>]"
  using streaming_agrees_with_batch [OF three_frames_bounds(1,2) three_frames_fit(1) three_frames_bounds(3)]
    streaming_agrees_with_batch [OF short_frames_bounds short_frames_index] streaming_agrees_with_batch [OF two_frames_bounds two_frames_index]
  by (simp add: entries_facts del: take_Suc_Cons)

section \<open>Frame-wide syntax\<close>

text \<open>
  C20: grouped exponents are the packed differentials of exponent paths.  \<open>decode_exponents\<close> returns
  \<open>out\<close> exactly when the groups are, in number, what the end and the strategy ask for, and pack the
  differences of a sequence of exponents that starts at the initial one, moves by at most two per
  step and stays between 0 and 24; \<open>out\<close> is that sequence with each exponent repeated, cut at the
  end.  For the ends that the channel bandwidth codes give, one exponent for each bin; with the first
  strategy and any other end, fewer.
\<close>

theorem exponents_are_differential_paths:
  "(decode_exponents initial groups strategy stop = Inr out \<longleftrightarrow>
     0 < stop \<and> stop \<le> 253 \<and> channel_exponent_group_count stop strategy = Inr (length groups) \<and> initial \<le> 24
     \<and> (\<exists>es. length es = 3 * length groups \<and> exponent_path (int initial) es
          \<and> pack_differentials (differentials (int initial) es) = groups
          \<and> out = take stop (initial # spread (2 ^ (strategy - 1)) es)))
   \<and> (decode_exponents initial groups strategy stop = Inr out \<and> stop mod 3 = 1 \<longrightarrow> length out = stop)
   \<and> (decode_exponents initial groups 1 stop = Inr out \<and> stop mod 3 \<noteq> 1 \<longrightarrow> length out < stop)"
proof (intro conjI impI)
  assume "decode_exponents initial groups 1 stop = Inr out \<and> stop mod 3 \<noteq> 1"
  then obtain es where "0 < stop" "stop mod 3 \<noteq> 1" "(stop - 1) div 3 = length groups"
    "length es = 3 * length groups" "out = take stop (initial # spread 1 es)"
    unfolding decode_exponents_Inr by (auto simp: channel_exponent_group_count_def)
  moreover have "1 + 3 * ((stop - 1) div 3) < stop" using calculation(1,2) by presburger
  ultimately show "length out < stop" by (simp add: length_spread)
next
  assume "decode_exponents initial groups strategy stop = Inr out \<and> stop mod 3 = 1"
  then obtain es where "stop \<le> 253" "stop mod 3 = 1" "channel_exponent_group_count stop strategy = Inr (length groups)"
    "length es = 3 * length groups" "out = take stop (initial # spread (2 ^ (strategy - 1)) es)"
    unfolding decode_exponents_Inr by blast
  then show "length out = stop"
    using group_count_covers [of stop strategy "length groups"] by (simp add: length_spread)
qed (rule decode_exponents_Inr)

theorem exponents_are_differential_paths_witness:
  "length [4, 5, 5, 3, 4, 6, 6 :: nat] = 7"
  using exponents_are_differential_paths [of 4 "[85, 92]" 1 7 "[4, 5, 5, 3, 4, 6, 6]"]
  by (simp add: decode_exponents_def channel_exponent_group_count_def)

text \<open>
  C18: the frame state is well typed.  Whatever bytes \<open>parse_audio_frame\<close> accepts, the state it
  returns has one entry per audio block and per channel in each of its lists, codes within their
  fields, the frame-wide offset codes exactly under strategy 0, transform flags only in frames of
  six blocks, coupling only with more than one channel, block start information of the length that
  the frame size gives, and an offset of the audio blocks inside the frame.
\<close>

theorem audio_frame_is_well_typed:
  assumes "parse_audio_frame bs = Inr f" and "8 * length bs \<le> usize_max"
  shows "frame_well_typed f \<and> audio_blocks_offset_bits f \<le> 8 * length bs"
  by (rule audio_frame_typed [OF assms])

definition mono_frame :: "u8 list" where
  "mono_frame = [11, 119, 0, 7, 50, 135, 192, 64, 10, 0, 0, 0, 0, 0, 0, 0]"

lemma mono_frame_parses:
  "succeeds (parse_audio_frame mono_frame)" "8 * length mono_frame \<le> usize_max"
  by code_simp+

theorem audio_frame_is_well_typed_witness:
  "\<exists>f. parse_audio_frame mono_frame = Inr f \<and> frame_well_typed f \<and> audio_blocks_offset_bits f \<le> 8 * length mono_frame"
  using mono_frame_parses(1) audio_frame_is_well_typed [OF _ mono_frame_parses(2)] by (auto elim: succeedsE)

text \<open>
  C15: a burst of at most 16 bits never passes.  Take a frame of the original syntax that
  \<open>validate_ac3_crc\<close> accepts, and bytes with the same header and length that differ from it inside
  the frame, in a window of 16 consecutive bits behind the synchronization word and nowhere else:
  the validation rejects them.
\<close>

theorem ac3_crc_detects_bursts:
  assumes "validate_ac3_crc bs = Inr ()" and "parse_syncframe_header bs = Inr h"
    and "parse_syncframe_header bs' = Inr h" and "length bs' = length bs" and "16 \<le> p"
    and "take p (slice_bits bs') = take p (slice_bits bs)"
    and "drop (p + 16) (slice_bits bs') = drop (p + 16) (slice_bits bs)"
    and "take (frame_size h) bs' \<noteq> take (frame_size h) bs"
  shows "validate_ac3_crc bs' \<noteq> Inr ()"
proof
  assume "validate_ac3_crc bs' = Inr ()"
  then have "take (frame_size h) bs' = take (frame_size h) bs"
  proof (rule burst_detected [OF assms(1,2) _ assms(3,5,4)])
    fix i assume "i < 8 * frame_size h" and "i < p \<or> p + 16 \<le> i"
    then show "slice_bits bs' ! i = slice_bits bs ! i"
    proof (elim disjE)
      assume "i < p"
      then show ?thesis using arg_cong [OF assms(6), of "\<lambda>xs. xs ! i"] by simp
    next
      assume i: "p + 16 \<le> i"
      moreover have "8 * frame_size h \<le> length (slice_bits bs)"
        using crc_ok_register [OF assms(1,2)] by simp
      ultimately show ?thesis
        using \<open>i < 8 * frame_size h\<close> assms(4) arg_cong [OF assms(7), of "\<lambda>xs. xs ! (i - (p + 16))"] by simp
    qed
  qed
  with assms(8) show False ..
qed

definition ac3_head :: "u8 list" where
  "ac3_head = [0x0B, 0x77, 0x7F, 0xE1, 0x00, 0x40]"

definition ac3_frame :: "u8 list" where
  "ac3_frame = ac3_head @ replicate 122 0"

definition ac3_burst :: "u8 list" where
  "ac3_burst = (ac3_head @ replicate 54 0) @ [0x81, 0x01] @ replicate 66 0"

definition ac3_header :: syncframe_header where
  "ac3_header = \<lparr>stream_type = LegacyIndependent, substream_id = 0, hdr_bitstream_id = 8, frame_size = 128,
     sample_rate = 48000, audio_blocks = 6, frame_samples = 1536\<rparr>"

lemma ac3_frame_split: "ac3_frame = (ac3_head @ replicate 54 0) @ [0, 0] @ replicate 66 0"
  by (simp add: ac3_frame_def replicate_add [symmetric] numeral_eq_Suc flip: append_assoc)

lemma ac3_headers:
  "parse_syncframe_header ac3_frame = Inr ac3_header" "parse_syncframe_header ac3_burst = Inr ac3_header"
proof -
  have head: "parse_syncframe_header ac3_head = Inr ac3_header" by code_simp
  show "parse_syncframe_header ac3_frame = Inr ac3_header"
    using header_extends [OF head, of "replicate 122 0"] by (simp add: ac3_frame_def ac3_head_def usize_max_def)
  show "parse_syncframe_header ac3_burst = Inr ac3_header"
    using header_extends [OF head, of "replicate 54 0 @ [0x81, 0x01] @ replicate 66 0"]
    by (simp add: ac3_burst_def ac3_head_def usize_max_def)
qed

lemma crc16_zeros: "crc16 xs = 0 \<Longrightarrow> crc16 (xs @ replicate n 0) = 0"
proof -
  assume "crc16 xs = 0"
  moreover have "fold crc_byte (replicate n 0) 0 = 0"
  proof (induction n)
    case (Suc n)
    have "crc_byte 0 0 = 0" by (simp add: crc_byte_def crc_bit_def upt_rec)
    then show ?case using Suc by simp
  qed simp
  ultimately show ?thesis by (simp add: crc16_def)
qed

lemma ac3_frame_valid: "validate_ac3_crc ac3_frame = Inr ()"
proof -
  have zero: "crc16 [0x7F, 0xE1, 0x00, 0x40] = 0"
    by (simp add: crc16_def crc_byte_def crc_bit_def CRC_POLYNOMIAL_def upt_rec)
  have parts: "take 128 ac3_frame = ac3_frame" "drop 2 (take 80 ac3_frame) = [0x7F, 0xE1, 0x00, 0x40] @ replicate 74 0"
    "drop 2 ac3_frame = [0x7F, 0xE1, 0x00, 0x40] @ replicate 122 0" "length ac3_frame = 128"
    by (simp_all add: ac3_frame_def ac3_head_def)
  show ?thesis
    using crc16_zeros [OF zero, of 74] crc16_zeros [OF zero, of 122]
    by (simp add: validate_ac3_crc_def ac3_headers ac3_header_def parts Let_def drop_bit_eq_div usize_max_def)
qed

lemma ac3_window:
  "take 480 (slice_bits ac3_burst) = take 480 (slice_bits ac3_frame)"
  "drop 496 (slice_bits ac3_burst) = drop 496 (slice_bits ac3_frame)"
  "length ac3_burst = length ac3_frame" "take 128 ac3_burst \<noteq> take 128 ac3_frame"
  unfolding ac3_burst_def ac3_frame_split slice_bits_append by (simp_all add: ac3_head_def)

theorem ac3_crc_detects_bursts_witness: "validate_ac3_crc ac3_burst \<noteq> Inr ()"
  using ac3_crc_detects_bursts [OF ac3_frame_valid ac3_headers ac3_window(3) _ ac3_window(1)] ac3_window(2,4)
  by (simp add: ac3_header_def)

section \<open>Bit allocation\<close>

text \<open>
  C13: the allocation succeeds on exactly the legal inputs, within bounds.  Both element functions
  return pointers if and only if the exponents are at most 24, the bins are a non-empty range inside
  the channel, the codes are within their tables, the delta segments fit into the fifty bands, a
  channel without leak codes starts at bin 0 and has at least seven bins, and the offset codes fit
  their fields; no saturation and no table look-up fails on the way.  The pointers are one for
  each exponent, 0 outside the range, at most 15 in the standard and at most 19 in the high
  efficiency allocation.
\<close>

theorem bit_allocation_is_total_and_bounded:
  "(succeeds (compute_element_bap exponents start stop codes fg c f fscod delta leaks)
      \<longleftrightarrow> element_ok exponents start stop codes fg fscod delta leaks \<and> c \<le> 63 \<and> f \<le> 15)
   \<and> (succeeds (compute_high_efficiency_element_bap exponents start stop codes fg c f fscod delta leaks)
      \<longleftrightarrow> element_ok exponents start stop codes fg fscod delta leaks \<and> c \<le> 63 \<and> f \<le> 15)
   \<and> (\<forall>bap. compute_element_bap exponents start stop codes fg c f fscod delta leaks = Inr bap
      \<longrightarrow> pointers_ok 15 exponents start stop bap)
   \<and> (\<forall>bap. compute_high_efficiency_element_bap exponents start stop codes fg c f fscod delta leaks = Inr bap
      \<longrightarrow> pointers_ok 19 exponents start stop bap)"
  unfolding compute_element_bap_def compute_high_efficiency_element_bap_def
  using element_total [OF pointer_tables(1) tables_sorted(3), of exponents start stop codes fg c f fscod delta leaks]
    element_total [OF pointer_tables(2) tables_sorted(4), of exponents start stop codes fg c f fscod delta leaks]
  by blast

definition plain_codes :: bit_allocation_parameters where
  "plain_codes = \<lparr>slow_decay_code = 0, fast_decay_code = 0, slow_gain_code = 0, db_per_bit_code = 0, floor_code = 7\<rparr>"

lemma plain_element: "element_ok [0, 1, 2, 3, 4, 5, 6] 0 7 plain_codes 0 0 None None"
  by (simp add: element_ok_def codes_ok_def plain_codes_def delta_ok_def leaks_ok_def)

theorem bit_allocation_is_total_and_bounded_witness:
  "\<exists>bap. compute_element_bap [0, 1, 2, 3, 4, 5, 6] 0 7 plain_codes 0 20 0 0 None None = Inr bap
     \<and> pointers_ok 15 [0, 1, 2, 3, 4, 5, 6] 0 7 bap"
  using bit_allocation_is_total_and_bounded [of "[0, 1, 2, 3, 4, 5, 6]" 0 7 plain_codes 0 20 0 0 None None] plain_element
  by (auto elim: succeedsE)

text \<open>
  C17: a larger offset never takes bits away.  When the same element is allocated twice with the
  same codes and the second signal-to-noise offset is at least the first, the pointer of no bin gets
  smaller; in the standard and in the high efficiency allocation.
\<close>

theorem bit_allocation_is_monotone:
  assumes "16 * c + f \<le> 16 * c' + f'"
  shows "(compute_element_bap exponents start stop codes fg c f fscod delta leaks = Inr bap
      \<longrightarrow> compute_element_bap exponents start stop codes fg c' f' fscod delta leaks = Inr bap'
      \<longrightarrow> list_all2 (\<le>) bap bap')
    \<and> (compute_high_efficiency_element_bap exponents start stop codes fg c f fscod delta leaks = Inr bap
      \<longrightarrow> compute_high_efficiency_element_bap exponents start stop codes fg c' f' fscod delta leaks = Inr bap'
      \<longrightarrow> list_all2 (\<le>) bap bap')"
proof (intro conjI impI)
  assume "compute_element_bap exponents start stop codes fg c f fscod delta leaks = Inr bap"
    and "compute_element_bap exponents start stop codes fg c' f' fscod delta leaks = Inr bap'"
  then show "list_all2 (\<le>) bap bap'"
    unfolding compute_element_bap_def list_all2_conv_all_nth
    by (rule element_monotone [OF pointer_tables(1) tables_sorted(1) _ _ assms])
next
  assume "compute_high_efficiency_element_bap exponents start stop codes fg c f fscod delta leaks = Inr bap"
    and "compute_high_efficiency_element_bap exponents start stop codes fg c' f' fscod delta leaks = Inr bap'"
  then show "list_all2 (\<le>) bap bap'"
    unfolding compute_high_efficiency_element_bap_def list_all2_conv_all_nth
    by (rule element_monotone [OF pointer_tables(2) tables_sorted(2) _ _ assms])
qed

lemma plain_allocation:
  assumes "c \<le> 63" and "f \<le> 15"
  obtains bap where "compute_element_bap [0, 1, 2, 3, 4, 5, 6] 0 7 plain_codes 0 c f 0 None None = Inr bap"
proof -
  have "succeeds (element_bap bit_allocation_pointer [0, 1, 2, 3, 4, 5, 6] 0 7 plain_codes 0 c f 0 None None)"
    using element_total [OF pointer_tables(1) tables_sorted(3)] plain_element assms by blast
  then show thesis using that by (auto simp: compute_element_bap_def elim: succeedsE)
qed

theorem bit_allocation_is_monotone_witness:
  "\<exists>bap bap'. compute_element_bap [0, 1, 2, 3, 4, 5, 6] 0 7 plain_codes 0 20 0 0 None None = Inr bap
     \<and> compute_element_bap [0, 1, 2, 3, 4, 5, 6] 0 7 plain_codes 0 21 2 0 None None = Inr bap'
     \<and> list_all2 (\<le>) bap bap'"
proof -
  obtain bap where low: "compute_element_bap [0, 1, 2, 3, 4, 5, 6] 0 7 plain_codes 0 20 0 0 None None = Inr bap"
    by (rule plain_allocation [of 20 0]) simp_all
  obtain bap' where high: "compute_element_bap [0, 1, 2, 3, 4, 5, 6] 0 7 plain_codes 0 21 2 0 None None = Inr bap'"
    by (rule plain_allocation [of 21 2]) simp_all
  have "16 * 20 + 0 \<le> 16 * 21 + (2 :: nat)" by simp
  from bit_allocation_is_monotone [OF this, THEN conjunct1, rule_format, OF low high]
  show ?thesis using low high by blast
qed

section \<open>Mantissas\<close>

text \<open>
  C14: the mantissas follow their plan.  For pointers below 16, exponents of at most 24, lists of one
  length and enough dither values, \<open>next_width\<close> predicts the number of bits from the pointers and
  the grouping state alone.  The traversal then either consumes exactly these bits, leaves the
  grouping state at the predicted positions with legal pending words, and returns one value per
  bin, of magnitude at most \<open>2\<close> to minus the exponent and 0 for a bin without word and without
  dither; or it fails, with a code that is no word of its quantizer or because the reader holds
  less than the plan.
\<close>

theorem mantissas_follow_the_plan:
  assumes "reader_ok r" and "grouping_ok g" and "\<forall>b \<in> set baps. b < 16" and "\<forall>x \<in> set exponents. x \<le> 24"
    and "length exponents = length baps" and "length flags = length baps"
    and "dithered_zeros (zip baps (zip exponents flags)) \<le> length dither"
  shows "\<exists>n h. planned baps g = (Inr n, h)
    \<and> (case decode_mantissas_with_state baps exponents flags dither (r, g) of
         (Inl e, _) \<Rightarrow> bad_code e \<or> starved_read e \<and> length (unread r) < n
       | (Inr vs, (r', g')) \<Rightarrow> n \<le> length (unread r) \<and> r' = skip n r \<and> grouping_ok g'
           \<and> gr_positions g' = gr_positions h \<and> list_all2 item_ok (zip baps (zip exponents flags)) vs)"
proof -
  obtain n h where plan: "planned baps g = (Inr n, h)" using planned_total [OF assms(3)] by blast
  show ?thesis
    using decode_with_trace_ok [OF assms plan, of None] plan
    by (auto simp: decode_mantissas_with_state_def traversal_ok_def bind_rd_def ret_def split: sum.splits prod.splits)
qed

text \<open>A group of three words of pointer 1 and a word of pointer 3, in one byte.\<close>

theorem mantissas_follow_the_plan_witness:
  "\<exists>n h. planned [1, 1, 1, 3] initial_grouping = (Inr n, h)
    \<and> (case decode_mantissas_with_state [1, 1, 1, 3] [0, 1, 2, 3] [False, False, False, False] []
              (new_reader [0x33], initial_grouping) of
         (Inl e, _) \<Rightarrow> bad_code e \<or> starved_read e \<and> length (unread (new_reader [0x33])) < n
       | (Inr vs, (r', g')) \<Rightarrow> n \<le> length (unread (new_reader [0x33])) \<and> r' = skip n (new_reader [0x33]) \<and> grouping_ok g'
           \<and> gr_positions g' = gr_positions h
           \<and> list_all2 item_ok (zip [1, 1, 1, 3] (zip [0, 1, 2, 3] [False, False, False, False])) vs)"
  by (rule mantissas_follow_the_plan [OF _ initial_grouping_ok])
    (simp_all add: new_reader_ok dithered_zeros_def usize_max_def)

end
