(* ===== verification/Eac3Block.thy ===== *)
theory Eac3Block
  imports Eac3BitAllocation Eac3Frame
begin

text \<open>
  The audio-block syntax, first part of \<open>crates/openjoc-eac3/src/audio_block.rs\<close>: the state records,
  the fields that all blocks share, and the prefix of the first block of an enhanced frame, from
  its switch flags to the optional skip field.  Products and sums of table indices and frequency
  codes stay far below every width, so their checked operations are written as plain ones.
\<close>

section \<open>Tables\<close>

definition ENHANCED_COUPLING_SUBBAND_MANTISSA :: "nat list" where
  "ENHANCED_COUPLING_SUBBAND_MANTISSA =
     [13, 19, 25, 31, 37, 49, 61, 73, 85, 97, 109, 121, 133, 145, 157, 169, 181, 193, 205, 217, 229, 241, 253]"

definition SPX_SUBBAND_MANTISSA :: "nat list" where
  "SPX_SUBBAND_MANTISSA =
     [25, 37, 49, 61, 73, 85, 97, 109, 121, 133, 145, 157, 169, 181, 193, 205, 217, 229]"

definition DEFAULT_SPX_BAND_STRUCTURE :: "bool list" where
  "DEFAULT_SPX_BAND_STRUCTURE =
     [False, False, False, False, False, False, False, False, True, False, True, False, True, False, True,
      False, True]"

definition DEFAULT_STANDARD_COUPLING_STRUCTURE :: "bool list" where
  "DEFAULT_STANDARD_COUPLING_STRUCTURE =
     [False, False, False, False, False, False, False, False, True, False, True, True, False, True, True,
      True, True, True]"

definition DEFAULT_ENHANCED_COUPLING_STRUCTURE :: "bool list" where
  "DEFAULT_ENHANCED_COUPLING_STRUCTURE =
     [False, False, False, False, False, False, False, False, False, True, False, True, False, True, False,
      True, True, True, False, True, True, True]"

text \<open>\<open>table.get(index).copied().ok_or(e)\<close>.\<close>

definition get_or :: "'a list \<Rightarrow> nat \<Rightarrow> 'e \<Rightarrow> 'e + 'a" where
  "get_or xs i e = (if i < length xs then Inr (xs ! i) else Inl e)"

section \<open>Records\<close>

record exponent_information =
  exp_strategy :: nat
  initial_exponent :: nat
  grouped_exponents :: "nat list"
  start_mantissa :: nat
  end_mantissa :: nat
  exp_decoded :: "nat list"
  gain_range :: "nat option"

record snr_offsets =
  coarse_code :: nat
  coupling_fine_code :: "nat option"
  channel_fine_codes :: "nat list"
  lfe_fine_code :: "nat option"

record fast_gain_codes =
  gain_coupling :: "nat option"
  gain_channels :: "nat list"
  gain_lfe :: "nat option"

record coupling_leak =
  fast_code :: nat
  slow_code :: nat

record delta_bit_allocation =
  delta_coupling :: "delta_bit_allocation_element option"
  delta_channels :: "delta_bit_allocation_element list"

record spectral_extension_coordinates =
  spx_blend :: nat
  spx_master :: nat
  spx_bands :: "(nat \<times> nat) list"

record spectral_extension_information =
  spx_channel_in_use :: "bool list"
  start_copy_frequency_code :: nat
  spx_begin_frequency_code :: nat
  spx_begin_subband :: nat
  spx_end_subband :: nat
  spx_band_structure :: "bool list"
  spx_band_count :: nat
  spx_coordinates :: "spectral_extension_coordinates option list"

record standard_coupling_coordinates =
  cpl_master :: nat
  cpl_bands :: "(nat \<times> nat) list"

record standard_coupling_information =
  std_channel_in_use :: "bool list"
  phase_flags_in_use :: bool
  std_begin_frequency_code :: nat
  std_end_frequency_code :: int
  subband_count :: nat
  std_band_structure :: "bool list"
  std_band_count :: nat
  std_coordinates :: "standard_coupling_coordinates option list"
  phase_flags :: "bool list"

record enhanced_coupling_information =
  enh_channel_in_use :: "bool list"
  enh_begin_frequency_code :: nat
  enh_begin_subband :: nat
  enh_end_subband :: nat
  enh_band_structure :: "bool list"
  enh_band_count :: nat
  enh_amplitudes :: "nat list option list"

datatype coupling_information =
  StandardCoupling standard_coupling_information
| EnhancedCoupling enhanced_coupling_information

record audio_block_prefix =
  block_switch :: "bool list"
  dither :: "bool list"
  dynamic_range :: "nat option"
  dynamic_range_2 :: "nat option"
  spectral_extension :: "spectral_extension_information option"
  coupling :: "coupling_information option"
  rematrix_flags :: "bool list"
  channel_bandwidth_codes :: "nat option list"
  coupling_exponents :: "exponent_information option"
  channel_exponents :: "exponent_information option list"
  lfe_exponents :: "exponent_information option"
  bit_allocation_codes :: "bit_allocation_parameters option"
  block_snr_offsets :: "snr_offsets option"
  block_fast_gains :: "fast_gain_codes option"
  converter_snr_offset :: "nat option"
  block_coupling_leak :: "coupling_leak option"
  delta_allocation :: "delta_bit_allocation option"
  skip_field :: "auxiliary_data option"
  skip_field_start_offset_bits :: "nat option"
  next_offset_bits :: nat

section \<open>Flags and short fields\<close>

definition syntax_block_switch :: "nat \<Rightarrow> bool" where
  "syntax_block_switch flags \<longleftrightarrow> bit flags 0"

definition syntax_dither :: "nat \<Rightarrow> bool" where
  "syntax_dither flags \<longleftrightarrow> bit flags 1"

definition syntax_bit_allocation :: "nat \<Rightarrow> bool" where
  "syntax_bit_allocation flags \<longleftrightarrow> bit flags 2"

definition syntax_frame_fast_gain :: "nat \<Rightarrow> bool" where
  "syntax_frame_fast_gain flags \<longleftrightarrow> bit flags 3"

definition syntax_delta_bit_allocation :: "nat \<Rightarrow> bool" where
  "syntax_delta_bit_allocation flags \<longleftrightarrow> bit flags 4"

definition syntax_skip_field :: "nat \<Rightarrow> bool" where
  "syntax_skip_field flags \<longleftrightarrow> bit flags 5"

abbreviation frame_acmod :: "audio_frame_information \<Rightarrow> nat" where
  "frame_acmod frame \<equiv> audio_coding_mode (af_bsi frame)"

abbreviation frame_channels :: "audio_frame_information \<Rightarrow> nat" where
  "frame_channels frame \<equiv> af_full_bandwidth_channels frame"

definition read_flags_or_default :: "nat \<Rightarrow> bool \<Rightarrow> bool \<Rightarrow> bool list eac3_parser" where
  "read_flags_or_default count encoded default_flag =
     (if \<not> encoded then ret (replicate count default_flag) else repeat_rd count eac3_bit)"

definition read_optional_u8 :: "nat \<Rightarrow> nat option eac3_parser" where
  "read_optional_u8 width = bind_rd eac3_bit (\<lambda>p. when_rd p (eac3_u8 width))"

definition read_zero_bits :: "nat \<Rightarrow> unit eac3_parser" where
  "read_zero_bits count =
     bind_rd (repeat_rd count (bind_rd eac3_bit (\<lambda>b. guard_rd (\<not> b) NonzeroReservedData))) (\<lambda>_. ret ())"

definition count_unmerged :: "bool list \<Rightarrow> nat" where
  "count_unmerged structure = length (filter Not structure)"

text \<open>The slice \<open>xs[lo..hi]\<close>.\<close>

definition slice :: "nat \<Rightarrow> nat \<Rightarrow> 'a list \<Rightarrow> 'a list" where
  "slice lo hi xs = take (hi - lo) (drop lo xs)"

text \<open>
  A band structure: behind its flag, the entries \<open>lo..hi\<close> are replaced by bits of the stream.
\<close>

definition overwrite :: "nat \<Rightarrow> 'a list \<Rightarrow> 'a list \<Rightarrow> 'a list" where
  "overwrite lo ys xs = take lo xs @ ys @ drop (lo + length ys) xs"

definition read_structure :: "nat \<Rightarrow> nat \<Rightarrow> bool list \<Rightarrow> bool list eac3_parser" where
  "read_structure lo hi structure =
     bind_rd eac3_bit (\<lambda>explicit.
       if explicit then bind_rd (repeat_rd (hi - lo) eac3_bit) (\<lambda>bs. ret (overwrite lo bs structure))
       else ret structure)"

section \<open>Spectral extension\<close>

definition read_spx_coordinates :: "nat \<Rightarrow> spectral_extension_coordinates eac3_parser" where
  "read_spx_coordinates band_count =
     bind_rd (eac3_u8 5) (\<lambda>blend.
     bind_rd (eac3_u8 2) (\<lambda>master.
     bind_rd (repeat_rd band_count (bind_rd (eac3_u8 4) (\<lambda>a. bind_rd (eac3_u8 2) (\<lambda>b. ret (a, b))))) (\<lambda>bands.
       ret \<lparr>spx_blend = blend, spx_master = master, spx_bands = bands\<rparr>)))"

definition read_spx_channels :: "audio_frame_information \<Rightarrow> nat \<Rightarrow> bool list eac3_parser" where
  "read_spx_channels frame channels =
     (if frame_acmod frame = 1 then ret [True] else read_flags_or_default channels True False)"

definition parse_first_spx :: "audio_frame_information \<Rightarrow> nat \<Rightarrow> spectral_extension_information eac3_parser" where
  "parse_first_spx frame channels =
     bind_rd (read_spx_channels frame channels) (\<lambda>in_use.
     bind_rd (eac3_u8 2) (\<lambda>start_copy.
     bind_rd (eac3_u8 3) (\<lambda>begin_code.
     bind_rd (eac3_u8 3) (\<lambda>end_code.
     bind_rd (lift_rd (spx_subband_range begin_code end_code)) (\<lambda>(first, ending).
     bind_rd (read_structure (first + 1) ending DEFAULT_SPX_BAND_STRUCTURE) (\<lambda>structure.
     let band_count = count_unmerged (slice (first + 1) ending structure) + 1 in
     bind_rd (each_rd (\<lambda>used. when_rd used (read_spx_coordinates band_count)) in_use) (\<lambda>coordinates.
       ret \<lparr>spx_channel_in_use = in_use, start_copy_frequency_code = start_copy,
            spx_begin_frequency_code = begin_code, spx_begin_subband = first, spx_end_subband = ending,
            spx_band_structure = structure, spx_band_count = band_count,
            spx_coordinates = coordinates\<rparr>)))))))"

section \<open>Coupling\<close>

definition read_standard_coordinates :: "nat \<Rightarrow> standard_coupling_coordinates eac3_parser" where
  "read_standard_coordinates band_count =
     bind_rd (eac3_u8 2) (\<lambda>master.
     bind_rd (repeat_rd band_count (bind_rd (eac3_u8 4) (\<lambda>a. bind_rd (eac3_u8 4) (\<lambda>b. ret (a, b))))) (\<lambda>bands.
       ret \<lparr>cpl_master = master, cpl_bands = bands\<rparr>))"

text \<open>The entries of the absolute structure from the begin code on; the first one never merges.\<close>

definition standard_coupling_structure :: "bool list \<Rightarrow> nat \<Rightarrow> int \<Rightarrow> nat \<Rightarrow> eac3_error + bool list" where
  "standard_coupling_structure absolute first ending count =
     (if first + count \<le> length absolute
      then Inr (overwrite 1 (slice (first + 1) (first + count) absolute) (replicate 18 False))
      else Inl (InvalidCouplingRange (int first) ending))"

text \<open>The end code of standard coupling: of the spectral extension, or a field.\<close>

definition read_standard_end :: "spectral_extension_information option \<Rightarrow> int eac3_parser" where
  "read_standard_end spx =
     (case spx of
        Some s \<Rightarrow> (let code = int (spx_begin_frequency_code s) in ret (if code < 6 then code - 2 else code * 2 - 7))
      | None \<Rightarrow> bind_rd (eac3_u8 4) (\<lambda>code. ret (int code)))"

text \<open>Phase flag, begin and end codes and the number of subbands.\<close>

definition read_standard_range ::
  "audio_frame_information \<Rightarrow> int eac3_parser \<Rightarrow> (bool \<times> nat \<times> int \<times> nat) eac3_parser" where
  "read_standard_range frame read_end =
     bind_rd (if frame_acmod frame = 2 then eac3_bit else ret False) (\<lambda>phase.
     bind_rd (eac3_u8 4) (\<lambda>first.
     bind_rd read_end (\<lambda>ending.
     let count = 3 + ending - int first in
     bind_rd (guard_rd (1 \<le> count \<and> count \<le> 18) (InvalidCouplingRange (int first) ending)) (\<lambda>_.
       ret (phase, first, ending, nat count)))))"

definition parse_standard_coupling ::
  "audio_frame_information \<Rightarrow> bool list \<Rightarrow> spectral_extension_information option \<Rightarrow>
   standard_coupling_information eac3_parser" where
  "parse_standard_coupling frame in_use spx =
     bind_rd (read_standard_range frame (read_standard_end spx)) (\<lambda>(phase, first, ending, count).
     bind_rd (lift_rd (standard_coupling_structure DEFAULT_STANDARD_COUPLING_STRUCTURE first ending count)) (\<lambda>structure.
     bind_rd (read_structure 1 count structure) (\<lambda>structure.
     let band_count = count_unmerged (take count structure) in
     bind_rd (each_rd (\<lambda>used. when_rd used (read_standard_coordinates band_count)) in_use) (\<lambda>coordinates.
     bind_rd (if phase \<and> (\<exists>c \<in> set coordinates. c \<noteq> None) then read_flags_or_default band_count True False
              else ret []) (\<lambda>flags.
       ret \<lparr>std_channel_in_use = in_use, phase_flags_in_use = phase, std_begin_frequency_code = first,
            std_end_frequency_code = ending, subband_count = count, std_band_structure = structure,
            std_band_count = band_count, std_coordinates = coordinates, phase_flags = flags\<rparr>)))))"

definition enhanced_begin_subband :: "nat \<Rightarrow> nat" where
  "enhanced_begin_subband code = (if code < 3 then code * 2 else if code < 13 then code + 2 else code * 2 - 10)"

definition read_enhanced_range ::
  "spectral_extension_information option \<Rightarrow> (nat \<times> nat \<times> nat) eac3_parser" where
  "read_enhanced_range spx =
     bind_rd (eac3_u8 4) (\<lambda>code.
     let first = enhanced_begin_subband code in
     bind_rd (case spx of
                Some s \<Rightarrow> ret (if spx_begin_frequency_code s < 6 then spx_begin_frequency_code s + 5
                              else spx_begin_frequency_code s * 2)
              | None \<Rightarrow> bind_rd (eac3_u8 4) (\<lambda>n. ret (n + 7))) (\<lambda>ending.
     bind_rd (guard_rd (first < ending \<and> ending \<le> 22) (InvalidCouplingRange (int first) (int ending))) (\<lambda>_.
       ret (code, first, ending))))"

definition read_enhanced_structure :: "nat \<Rightarrow> nat \<Rightarrow> bool list eac3_parser" where
  "read_enhanced_structure first ending =
     read_structure (max (first + 1) 9) ending DEFAULT_ENHANCED_COUPLING_STRUCTURE"

fun first_in_use :: "bool list \<Rightarrow> nat option" where
  "first_in_use [] = None"
| "first_in_use (used # rest) = (if used then Some 0 else map_option Suc (first_in_use rest))"

text \<open>The amplitudes of one channel; channels behind the first one carry reserved bits.\<close>

definition read_amplitudes :: "nat \<Rightarrow> bool \<Rightarrow> nat list eac3_parser" where
  "read_amplitudes band_count later =
     bind_rd (repeat_rd band_count (eac3_u8 5)) (\<lambda>vs.
     bind_rd (if later
              then bind_rd (read_zero_bits ((band_count - 1) * 9)) (\<lambda>_. read_zero_bits 1)
              else ret ()) (\<lambda>_. ret vs))"

definition parse_enhanced_coupling ::
  "bool list \<Rightarrow> spectral_extension_information option \<Rightarrow> enhanced_coupling_information eac3_parser" where
  "parse_enhanced_coupling in_use spx =
     bind_rd (read_enhanced_range spx) (\<lambda>(code, first, ending).
     bind_rd (read_enhanced_structure first ending) (\<lambda>structure.
     let band_count = count_unmerged (slice first ending structure) in
     bind_rd (read_zero_bits 1) (\<lambda>_.
     bind_rd (some_or (first_in_use in_use) (InvalidCouplingRange (int first) (int ending))) (\<lambda>first_channel.
     bind_rd (each_rd (\<lambda>(channel, used). when_rd used (read_amplitudes band_count (channel > first_channel)))
                (zip [0..<length in_use] in_use)) (\<lambda>amplitudes.
       ret \<lparr>enh_channel_in_use = in_use, enh_begin_frequency_code = code, enh_begin_subband = first,
            enh_end_subband = ending, enh_band_structure = structure, enh_band_count = band_count,
            enh_amplitudes = amplitudes\<rparr>)))))"

definition read_coupling_channels :: "audio_frame_information \<Rightarrow> nat \<Rightarrow> bool list eac3_parser" where
  "read_coupling_channels frame channels =
     (if frame_acmod frame = 2 then ret [True, True] else read_flags_or_default channels True False)"

definition parse_first_coupling ::
  "audio_frame_information \<Rightarrow> nat \<Rightarrow> spectral_extension_information option \<Rightarrow> coupling_information eac3_parser" where
  "parse_first_coupling frame channels spx =
     bind_rd eac3_bit (\<lambda>enhanced.
     bind_rd (read_coupling_channels frame channels) (\<lambda>in_use.
       if enhanced then bind_rd (parse_enhanced_coupling in_use spx) (\<lambda>c. ret (EnhancedCoupling c))
       else bind_rd (parse_standard_coupling frame in_use spx) (\<lambda>c. ret (StandardCoupling c))))"

definition coupling_channel_in_use :: "coupling_information \<Rightarrow> bool list" where
  "coupling_channel_in_use c =
     (case c of StandardCoupling s \<Rightarrow> std_channel_in_use s | EnhancedCoupling e \<Rightarrow> enh_channel_in_use e)"

definition channel_uses_coupling :: "coupling_information option \<Rightarrow> nat \<Rightarrow> bool" where
  "channel_uses_coupling c channel =
     (case c of Some info \<Rightarrow> coupling_channel_in_use info ! channel | None \<Rightarrow> False)"

definition rematrix_band_count ::
  "coupling_information option \<Rightarrow> spectral_extension_information option \<Rightarrow> nat" where
  "rematrix_band_count c spx =
     (case c of
        Some (EnhancedCoupling info) \<Rightarrow>
          (let code = enh_begin_frequency_code info in
           if code = 0 then 0 else if code = 1 then 1 else if code = 2 then 2 else if code \<in> {3, 4} then 3 else 4)
      | Some (StandardCoupling info) \<Rightarrow>
          (let code = std_begin_frequency_code info in
           if code = 0 then 2 else if code \<in> {1, 2} then 3 else 4)
      | None \<Rightarrow> (case spx of Some info \<Rightarrow> if spx_begin_frequency_code info < 2 then 3 else 4 | None \<Rightarrow> 4))"

end
