(* ===== verification/Eac3Prefix.thy ===== *)
theory Eac3Prefix
  imports Eac3Block
begin

text \<open>
  The rest of the block syntax of \<open>crates/openjoc-eac3/src/audio_block.rs\<close>: bandwidths, exponents,
  allocation codes and the skip field, the prefix of the first block of an enhanced frame.
\<close>

section \<open>Bandwidths and exponents\<close>

definition standard_begin :: "standard_coupling_information \<Rightarrow> nat" where
  "standard_begin s = std_begin_frequency_code s * 12 + 37"

definition parse_channel_bandwidth ::
  "coupling_information option \<Rightarrow> spectral_extension_information option \<Rightarrow> nat \<Rightarrow> (nat option \<times> nat) eac3_parser" where
  "parse_channel_bandwidth c spx channel =
     bind_rd (lift_rd
       (case c of
          Some (StandardCoupling s) \<Rightarrow>
            Inr (if std_channel_in_use s ! channel then Some (standard_begin s) else None)
        | Some (EnhancedCoupling e) \<Rightarrow>
            if enh_channel_in_use e ! channel
            then attempt (get_or ENHANCED_COUPLING_SUBBAND_MANTISSA (enh_begin_subband e)
                     (InvalidCouplingRange (int (enh_begin_subband e)) (int (enh_end_subband e)))) (\<lambda>m. Inr (Some m))
            else Inr None
        | None \<Rightarrow> Inr None)) (\<lambda>coupling_end.
     let spx_end = (case spx of
            Some s \<Rightarrow>
              if channel < length (spx_channel_in_use s) \<and> spx_channel_in_use s ! channel
                 \<and> spx_begin_subband s < length SPX_SUBBAND_MANTISSA
              then Some (SPX_SUBBAND_MANTISSA ! spx_begin_subband s) else None
          | None \<Rightarrow> None) in
     (case (case coupling_end of Some m \<Rightarrow> Some m | None \<Rightarrow> spx_end) of
        Some m \<Rightarrow> ret (None, m)
      | None \<Rightarrow>
          bind_rd (eac3_u8 6) (\<lambda>code.
          bind_rd (lift_rd (channel_end_mantissa code)) (\<lambda>m. ret (Some code, m)))))"

definition parse_channel_bandwidths ::
  "coupling_information option \<Rightarrow> spectral_extension_information option \<Rightarrow> nat \<Rightarrow>
   (nat option list \<times> nat list) eac3_parser" where
  "parse_channel_bandwidths c spx channels =
     bind_rd (each_rd (parse_channel_bandwidth c spx) [0..<channels]) (\<lambda>rows. ret (map fst rows, map snd rows))"

definition read_grouped_exponents :: "nat \<Rightarrow> nat list eac3_parser" where
  "read_grouped_exponents count = repeat_rd count (eac3_u8 7)"

text \<open>The bins of the coupling channel.\<close>

definition coupling_range :: "coupling_information \<Rightarrow> eac3_error + nat \<times> nat" where
  "coupling_range c =
     (case c of
        StandardCoupling s \<Rightarrow>
          (let end_code = std_end_frequency_code s + 3 in
           if end_code < 0
           then Inl (InvalidCouplingRange (int (std_begin_frequency_code s)) (std_end_frequency_code s))
           else Inr (standard_begin s, nat end_code * 12 + 37))
      | EnhancedCoupling e \<Rightarrow>
          (let err = InvalidCouplingRange (int (enh_begin_subband e)) (int (enh_end_subband e)) in
           attempt (get_or ENHANCED_COUPLING_SUBBAND_MANTISSA (enh_begin_subband e) err) (\<lambda>first.
           attempt (get_or ENHANCED_COUPLING_SUBBAND_MANTISSA (enh_end_subband e) err) (\<lambda>ending.
             Inr (first, ending)))))"

text \<open>\<open>parse_coupling_exponents_for_strategy\<close>, which the first block spells out again.\<close>

definition parse_coupling_exponents_for_strategy :: "nat \<Rightarrow> coupling_information \<Rightarrow> exponent_information eac3_parser" where
  "parse_coupling_exponents_for_strategy strategy c =
     bind_rd (lift_rd (coupling_range c)) (\<lambda>(first, ending).
     bind_rd (eac3_u8 4) (\<lambda>absolute.
     let initial = absolute * 2 in
     bind_rd (guard_rd (first \<le> ending) (InvalidCouplingRange (int first) (int ending))) (\<lambda>_.
     let decoded_length = ending - first + 1 in
     bind_rd (lift_rd (channel_exponent_group_count decoded_length strategy)) (\<lambda>group_count.
     bind_rd (read_grouped_exponents group_count) (\<lambda>grouped.
     bind_rd (lift_rd (decode_exponents initial grouped strategy decoded_length)) (\<lambda>decoded.
       ret \<lparr>exp_strategy = strategy, initial_exponent = initial, grouped_exponents = grouped,
            start_mantissa = first, end_mantissa = ending, exp_decoded = tl decoded, gain_range = None\<rparr>))))))"

definition parse_coupling_exponents ::
  "audio_frame_information \<Rightarrow> coupling_information option \<Rightarrow> exponent_information option eac3_parser" where
  "parse_coupling_exponents frame c =
     (case c of
        None \<Rightarrow> ret None
      | Some info \<Rightarrow>
          bind_rd (parse_coupling_exponents_for_strategy (coupling_exponent_strategy frame ! 0) info) (\<lambda>e. ret (Some e)))"

definition read_channel_exponents :: "nat \<Rightarrow> nat \<Rightarrow> exponent_information eac3_parser" where
  "read_channel_exponents strategy ending =
     bind_rd (eac3_u8 4) (\<lambda>initial.
     bind_rd (lift_rd (channel_exponent_group_count ending strategy)) (\<lambda>group_count.
     bind_rd (read_grouped_exponents group_count) (\<lambda>grouped.
     bind_rd (lift_rd (decode_exponents initial grouped strategy ending)) (\<lambda>decoded.
     bind_rd (eac3_u8 2) (\<lambda>gain.
       ret \<lparr>exp_strategy = strategy, initial_exponent = initial, grouped_exponents = grouped,
            start_mantissa = 0, end_mantissa = ending, exp_decoded = decoded, gain_range = Some gain\<rparr>)))))"

definition parse_channel_exponents ::
  "audio_frame_information \<Rightarrow> nat list \<Rightarrow> exponent_information option list eac3_parser" where
  "parse_channel_exponents frame ends =
     each_rd (\<lambda>(channel, ending).
       bind_rd (read_channel_exponents (channel_exponent_strategy frame ! 0 ! channel) ending) (\<lambda>e. ret (Some e)))
     (zip [0..<length ends] ends)"

definition read_lfe_exponents :: "exponent_information eac3_parser" where
  "read_lfe_exponents =
     bind_rd (eac3_u8 4) (\<lambda>initial.
     bind_rd (read_grouped_exponents 2) (\<lambda>grouped.
     bind_rd (lift_rd (decode_exponents initial grouped 1 7)) (\<lambda>decoded.
       ret \<lparr>exp_strategy = 1, initial_exponent = initial, grouped_exponents = grouped,
            start_mantissa = 0, end_mantissa = 7, exp_decoded = decoded, gain_range = None\<rparr>)))"

definition parse_lfe_exponents :: "audio_frame_information \<Rightarrow> exponent_information option eac3_parser" where
  "parse_lfe_exponents frame =
     (if \<not> lfe_on (af_bsi frame) then ret None
      else if \<not> lfe_exponent_strategy frame ! 0 then fail (InvalidExponentStrategy 0)
      else bind_rd read_lfe_exponents (\<lambda>e. ret (Some e)))"

section \<open>Allocation codes\<close>

definition DEFAULT_PARAMETERS :: bit_allocation_parameters where
  "DEFAULT_PARAMETERS = \<lparr>slow_decay_code = 2, fast_decay_code = 1, slow_gain_code = 1, db_per_bit_code = 2,
     floor_code = 7\<rparr>"

definition parse_bit_allocation_parameters ::
  "audio_frame_information \<Rightarrow> bit_allocation_parameters option eac3_parser" where
  "parse_bit_allocation_parameters frame =
     (if \<not> syntax_bit_allocation (af_syntax frame) then ret (Some DEFAULT_PARAMETERS)
      else
        bind_rd eac3_bit (\<lambda>present.
        when_rd present
          (bind_rd (eac3_u8 2) (\<lambda>sd. bind_rd (eac3_u8 2) (\<lambda>fd. bind_rd (eac3_u8 2) (\<lambda>sg.
           bind_rd (eac3_u8 2) (\<lambda>db. bind_rd (eac3_u8 3) (\<lambda>fl.
             ret \<lparr>slow_decay_code = sd, fast_decay_code = fd, slow_gain_code = sg, db_per_bit_code = db,
                  floor_code = fl\<rparr>))))))))"

text \<open>One code for each element that is present: the coupling channel, the channels, the LFE channel.\<close>

definition read_element_codes ::
  "nat \<Rightarrow> bool \<Rightarrow> nat \<Rightarrow> bool \<Rightarrow> (nat option \<times> nat list \<times> nat option) eac3_parser" where
  "read_element_codes width coupled channels lfe =
     bind_rd (when_rd coupled (eac3_u8 width)) (\<lambda>c.
     bind_rd (repeat_rd channels (eac3_u8 width)) (\<lambda>cs.
     bind_rd (when_rd lfe (eac3_u8 width)) (\<lambda>l. ret (c, cs, l))))"

definition uniform_offsets :: "nat \<Rightarrow> nat \<Rightarrow> bool \<Rightarrow> nat \<Rightarrow> bool \<Rightarrow> snr_offsets" where
  "uniform_offsets coarse fine coupled channels lfe =
     \<lparr>coarse_code = coarse, coupling_fine_code = (if coupled then Some fine else None),
      channel_fine_codes = replicate channels fine, lfe_fine_code = (if lfe then Some fine else None)\<rparr>"

definition read_snr_offsets :: "nat \<Rightarrow> bool \<Rightarrow> nat \<Rightarrow> bool \<Rightarrow> snr_offsets eac3_parser" where
  "read_snr_offsets strategy coupled channels lfe =
     bind_rd (eac3_u8 6) (\<lambda>coarse.
       if strategy = 1 then bind_rd (eac3_u8 4) (\<lambda>fine. ret (uniform_offsets coarse fine coupled channels lfe))
       else
         bind_rd (read_element_codes 4 coupled channels lfe) (\<lambda>(c, cs, l).
           ret \<lparr>coarse_code = coarse, coupling_fine_code = c, channel_fine_codes = cs, lfe_fine_code = l\<rparr>))"

definition parse_snr_offsets ::
  "audio_frame_information \<Rightarrow> coupling_information option \<Rightarrow> nat \<Rightarrow> snr_offsets option eac3_parser" where
  "parse_snr_offsets frame c channels =
     (if snr_offset_strategy frame = 0 then ret None
      else
        bind_rd (read_snr_offsets (snr_offset_strategy frame) (c \<noteq> None) channels (lfe_on (af_bsi frame))) (\<lambda>s.
          ret (Some s)))"

definition parse_fast_gain_codes ::
  "audio_frame_information \<Rightarrow> coupling_information option \<Rightarrow> nat \<Rightarrow> fast_gain_codes option eac3_parser" where
  "parse_fast_gain_codes frame c channels =
     (let lfe = lfe_on (af_bsi frame) in
      bind_rd (if syntax_frame_fast_gain (af_syntax frame) then eac3_bit else ret False) (\<lambda>new_codes.
        if \<not> new_codes
        then ret (Some \<lparr>gain_coupling = (if c \<noteq> None then Some 4 else None), gain_channels = replicate channels 4,
                        gain_lfe = (if lfe then Some 4 else None)\<rparr>)
        else
          bind_rd (read_element_codes 3 (c \<noteq> None) channels lfe) (\<lambda>(a, bs, l).
            ret (Some \<lparr>gain_coupling = a, gain_channels = bs, gain_lfe = l\<rparr>))))"

definition parse_converter_snr_offset :: "audio_frame_information \<Rightarrow> nat option eac3_parser" where
  "parse_converter_snr_offset frame =
     bind_rd (if stream_type (bsi_header (af_bsi frame)) \<noteq> Independent then ret False else eac3_bit) (\<lambda>present.
       when_rd present (eac3_u16 10))"

definition read_coupling_leak :: "coupling_leak eac3_parser" where
  "read_coupling_leak =
     bind_rd (eac3_u8 3) (\<lambda>f. bind_rd (eac3_u8 3) (\<lambda>s. ret \<lparr>fast_code = f, slow_code = s\<rparr>))"

definition parse_first_coupling_leak :: "coupling_information option \<Rightarrow> coupling_leak option eac3_parser" where
  "parse_first_coupling_leak c = when_rd (c \<noteq> None) read_coupling_leak"

definition no_delta_allocation :: delta_bit_allocation_element where
  "no_delta_allocation = \<lparr>delta_strategy = 2, delta_segments = []\<rparr>"

definition no_delta_allocation_for :: "coupling_information option \<Rightarrow> nat \<Rightarrow> delta_bit_allocation" where
  "no_delta_allocation_for c channels =
     \<lparr>delta_coupling = (if c \<noteq> None then Some no_delta_allocation else None),
      delta_channels = replicate channels no_delta_allocation\<rparr>"

definition read_delta_strategy :: "nat eac3_parser" where
  "read_delta_strategy =
     bind_rd (eac3_u8 2) (\<lambda>s.
     bind_rd (guard_rd (s \<in> {1, 2}) (InvalidDeltaBitAllocationStrategy s)) (\<lambda>_. ret s))"

definition parse_delta_element :: "nat \<Rightarrow> delta_bit_allocation_element eac3_parser" where
  "parse_delta_element strategy =
     bind_rd (if strategy = 1 then
                bind_rd (eac3_u8 3) (\<lambda>n.
                repeat_rd (n + 1)
                  (bind_rd (eac3_u8 5) (\<lambda>a. bind_rd (eac3_u8 4) (\<lambda>b. bind_rd (eac3_u8 3) (\<lambda>c.
                     ret \<lparr>segment_offset = a, segment_length = b, segment_delta = c\<rparr>)))))
              else ret []) (\<lambda>segments.
       ret \<lparr>delta_strategy = strategy, delta_segments = segments\<rparr>)"

definition parse_delta_bit_allocation ::
  "audio_frame_information \<Rightarrow> coupling_information option \<Rightarrow> nat \<Rightarrow> delta_bit_allocation option eac3_parser" where
  "parse_delta_bit_allocation frame c channels =
     (if \<not> syntax_delta_bit_allocation (af_syntax frame) then ret None
      else
        bind_rd eac3_bit (\<lambda>present.
          if \<not> present then ret (Some (no_delta_allocation_for c channels))
          else
            bind_rd (when_rd (c \<noteq> None) read_delta_strategy) (\<lambda>coupling_strategy.
            bind_rd (repeat_rd channels read_delta_strategy) (\<lambda>channel_strategies.
            bind_rd (case coupling_strategy of
                       Some s \<Rightarrow> bind_rd (parse_delta_element s) (\<lambda>d. ret (Some d))
                     | None \<Rightarrow> ret None) (\<lambda>cd.
            bind_rd (each_rd parse_delta_element channel_strategies) (\<lambda>ds.
              ret (Some \<lparr>delta_coupling = cd, delta_channels = ds\<rparr>)))))))"

section \<open>The skip field\<close>

definition frame_bits_of :: "audio_frame_information \<Rightarrow> nat" where
  "frame_bits_of frame = frame_size (bsi_header (af_bsi frame)) * 8"

definition read_position :: "audio_frame_information \<Rightarrow> nat eac3_parser" where
  "read_position frame =
     (if frame_bits_of frame > usize_max then fail FrameSizeOverflow else read_offset (frame_bits_of frame))"

definition parse_skip_field :: "audio_frame_information \<Rightarrow> (auxiliary_data option \<times> nat option) eac3_parser" where
  "parse_skip_field frame =
     bind_rd (if syntax_skip_field (af_syntax frame) then eac3_bit else ret False) (\<lambda>present.
       if \<not> present then ret (None, None)
       else
         bind_rd (eac3_u16 9) (\<lambda>byte_len.
         bind_rd (read_position frame) (\<lambda>start.
         bind_rd (repeat_rd byte_len (bind_rd (eac3_u8 8) (\<lambda>b. ret (word_of_nat b)))) (\<lambda>bs.
           ret (Some \<lparr>aux_bit_len = byte_len * 8, aux_bytes = bs\<rparr>, Some start)))))"

section \<open>The first block\<close>

definition parse_first_prefix_reader :: "audio_frame_information \<Rightarrow> audio_block_prefix eac3_parser" where
  "parse_first_prefix_reader frame =
     (let channels = frame_channels frame; flags = af_syntax frame; acmod = frame_acmod frame in
     bind_rd (read_flags_or_default channels (syntax_block_switch flags) False) (\<lambda>switch.
     bind_rd (read_flags_or_default channels (syntax_dither flags) True) (\<lambda>dith.
     bind_rd (read_optional_u8 8) (\<lambda>drc.
     bind_rd (if acmod = 0 then read_optional_u8 8 else ret None) (\<lambda>drc2.
     bind_rd eac3_bit (\<lambda>spx_present.
     bind_rd (when_rd spx_present (parse_first_spx frame channels)) (\<lambda>spx.
     bind_rd (when_rd (coupling_in_use frame ! 0) (parse_first_coupling frame channels spx)) (\<lambda>c.
     bind_rd (if acmod = 2 then read_flags_or_default (rematrix_band_count c spx) True False else ret []) (\<lambda>rematrix.
     bind_rd (parse_channel_bandwidths c spx channels) (\<lambda>(codes, ends).
     bind_rd (parse_coupling_exponents frame c) (\<lambda>ce.
     bind_rd (parse_channel_exponents frame ends) (\<lambda>che.
     bind_rd (parse_lfe_exponents frame) (\<lambda>le.
     bind_rd (parse_bit_allocation_parameters frame) (\<lambda>params.
     bind_rd (parse_snr_offsets frame c channels) (\<lambda>snr.
     bind_rd (parse_fast_gain_codes frame c channels) (\<lambda>gains.
     bind_rd (parse_converter_snr_offset frame) (\<lambda>conv.
     bind_rd (parse_first_coupling_leak c) (\<lambda>leak.
     bind_rd (parse_delta_bit_allocation frame c channels) (\<lambda>delta.
     bind_rd (parse_skip_field frame) (\<lambda>(skipped, skip_start).
     bind_rd (read_position frame) (\<lambda>position.
       ret \<lparr>block_switch = switch, dither = dith, dynamic_range = drc, dynamic_range_2 = drc2,
            spectral_extension = spx, coupling = c, rematrix_flags = rematrix, channel_bandwidth_codes = codes,
            coupling_exponents = ce, channel_exponents = che, lfe_exponents = le, bit_allocation_codes = params,
            block_snr_offsets = snr, block_fast_gains = gains, converter_snr_offset = conv,
            block_coupling_leak = leak, delta_allocation = delta, skip_field = skipped,
            skip_field_start_offset_bits = skip_start, next_offset_bits = position\<rparr>)))))))))))))))))))))"

end
