(* ===== verification/Eac3AhtTables.thy ===== *)
theory Eac3AhtTables
  imports Main
begin

text \<open>
  The vector quantizer tables of the adaptive hybrid transform, \<open>AHT_VQ_1\<close> to \<open>AHT_VQ_7\<close> of
  \<open>crates/openjoc-eac3/src/aht.rs\<close>: rows of six 16-bit words.
\<close>

definition AHT_VQ_1 :: "nat list list" where
  "AHT_VQ_1 =
     [[0x1bff, 0x1283, 0x0452, 0x10ad, 0x28ac, 0x12d4], [0xe9ba, 0xf38d, 0xc76d, 0xfa90, 0xf815, 0x0351],
      [0x0279, 0x1837, 0x1b61, 0xce15, 0xf6fe, 0xf5b4], [0xfa44, 0xe489, 0x1da8, 0x2979, 0xe8c6, 0xf40a]]"

definition AHT_VQ_2 :: "nat list list" where
  "AHT_VQ_2 =
     [[0xd0d7, 0x0260, 0xe495, 0x024e, 0x0fa0, 0x0365], [0x1a24, 0x3d49, 0xe7de, 0xdbe9, 0xffb6, 0x0085],
      [0x073f, 0xfc23, 0x5074, 0xf498, 0xee85, 0x00e1], [0xfb56, 0xf0c3, 0xfccb, 0xe65a, 0xfc95, 0xb0b6],
      [0xf536, 0xf393, 0xf002, 0xea09, 0xbdcf, 0x2625], [0x060b, 0x1ab7, 0x07bc, 0x4f09, 0xfbd1, 0xec86],
      [0x184d, 0xba05, 0xea74, 0x187a, 0x0166, 0x048a], [0x0ea9, 0xfbd6, 0x10bb, 0xf365, 0x3e38, 0x27ca]]"

definition AHT_VQ_3 :: "nat list list" where
  "AHT_VQ_3 =
     [[0xd8d4, 0x512b, 0x2ae6, 0xee30, 0x031e, 0xffbc], [0x2b2a, 0x500a, 0xe627, 0xeb22, 0xf8fb, 0xf9a1],
      [0x0f89, 0xfde2, 0x1bce, 0xfb72, 0x499c, 0x3956], [0xef20, 0xffa0, 0xe381, 0xfe14, 0xa9de, 0xef4b],
      [0x0a84, 0x16e0, 0x159a, 0x5566, 0xe3d4, 0xeb33], [0xff79, 0xa4a1, 0x03c2, 0x1fb3, 0xfd7c, 0x017e],
      [0xf9e5, 0x0d48, 0xf31d, 0x1255, 0xe514, 0x577e], [0x0dcf, 0x0bd6, 0x1c80, 0x1846, 0x4ffc, 0xd0bd],
      [0x0039, 0xe559, 0x0738, 0xa8b3, 0xe8e1, 0x1aa7], [0xfccb, 0xf1b9, 0xfe7d, 0xe793, 0xf939, 0xa89b],
      [0xe862, 0x0632, 0xb636, 0xc7c8, 0x23fe, 0x02c1], [0xe9ac, 0x0108, 0xb9d4, 0x391a, 0x1ef1, 0xfeaf],
      [0xff92, 0x006c, 0x0008, 0x004a, 0xffa7, 0xffce], [0x19d4, 0xfa13, 0x54b7, 0xf986, 0xe0f3, 0xff0a],
      [0x54a3, 0xe741, 0xdf9e, 0xff9b, 0xfabb, 0xffea], [0xaa0d, 0xe6b4, 0x1f26, 0x0288, 0x0806, 0xfeb5]]"

definition AHT_VQ_4 :: "nat list list" where
  "AHT_VQ_4 =
     [[0x5903, 0x15c0, 0xe9e6, 0xff64, 0xfe06, 0xffdf], [0x19ec, 0xee0f, 0x375d, 0xbc6f, 0xbf75, 0x0360],
      [0x0e4a, 0x580c, 0x0068, 0xf91d, 0xffac, 0x0006], [0x544c, 0xba69, 0xe38e, 0xf9d9, 0xf7e2, 0xfec0],
      [0xf747, 0x2721, 0xf558, 0x3a5a, 0xcab8, 0xbb05], [0xf9e4, 0xbab6, 0xb527, 0x35a7, 0x0ac5, 0x0b87],
      [0x11a8, 0x1586, 0x1ce1, 0x2a2f, 0x4b1f, 0xca36], [0x018f, 0x0ba0, 0xfbb5, 0x1395, 0xfb79, 0x564f],
      [0x0e28, 0xf6c9, 0x1248, 0xf742, 0x58ae, 0x0eb5], [0xef97, 0xdfa3, 0xe566, 0xcf9a, 0xb812, 0x3c16],
      [0xebb2, 0xe52b, 0xd8c1, 0xdf54, 0xc16a, 0xafae], [0xff72, 0xa771, 0xfe90, 0x1127, 0xfe30, 0xfff3],
      [0x032e, 0xfba2, 0xfbbf, 0xa9fd, 0x004a, 0x0611], [0xf9ae, 0x4b16, 0xbb16, 0xcb4e, 0x034a, 0xf6fb],
      [0x1251, 0x406a, 0x514d, 0xc3e5, 0xefbc, 0xf080], [0xf314, 0x2bce, 0xcb1a, 0x351f, 0xb3ef, 0x35ca],
      [0x0719, 0x0356, 0x52e9, 0xfc3a, 0xf995, 0xfef4], [0xf5e5, 0xff95, 0xb146, 0x0178, 0x0496, 0xfed0],
      [0xf499, 0x01c5, 0xeaf2, 0x02ee, 0xa9ee, 0xfc2e], [0xb5bc, 0x41c7, 0x2710, 0xf204, 0x08a3, 0x05b3],
      [0x0553, 0xf59e, 0xffdf, 0xf01d, 0x048d, 0xaa1f], [0xde70, 0xf538, 0xbb90, 0xc18f, 0x3a31, 0x052b],
      [0x028c, 0xdb8d, 0x0cb5, 0xc6e2, 0x2f95, 0x4cec], [0xe727, 0x168d, 0xc3dd, 0x438b, 0x40ce, 0xf496],
      [0xfd6b, 0xfda7, 0x0649, 0x5852, 0x03e0, 0xfbeb], [0x1361, 0x2393, 0x2bd9, 0x1e95, 0x3fc0, 0x48c3],
      [0xaa90, 0xfa67, 0x008a, 0x05be, 0xf89d, 0xff3c], [0xb3d5, 0xb8e5, 0x2b30, 0xfdfc, 0x09ef, 0xf737],
      [0xfb54, 0xbb5a, 0x4eb6, 0x2cc6, 0xfe6f, 0x0a3b], [0x121e, 0xe026, 0x2e73, 0xc271, 0x44cf, 0xc595],
      [0xffad, 0x0116, 0x0143, 0x0037, 0xff66, 0x00e8], [0x1e6c, 0x05b6, 0x47db, 0x3bc0, 0xc26d, 0xfb95]]"

definition AHT_VQ_5 :: "nat list list" where
  "AHT_VQ_5 =
     [[0xf2be, 0xb2ee, 0x0b93, 0x2576, 0x1234, 0x4cd9], [0xc2cf, 0xe6fb, 0x4507, 0x0f14, 0xdfd8, 0xb41b],
      [0x1173, 0x019c, 0xba2f, 0xe09b, 0x02b3, 0xbc65], [0x0dfc, 0x093b, 0x1ae6, 0x0eb3, 0x18eb, 0xafd6],
      [0xbcb2, 0xc8cb, 0xfa8c, 0xa27d, 0x20b5, 0xcf07], [0xe077, 0xac23, 0xc2ea, 0x0c8e, 0x1fa9, 0xe8b3],
      [0x10f7, 0x1431, 0x0a7b, 0xbe4a, 0xebe6, 0xbf52], [0x18cc, 0xd654, 0x32c3, 0x9c64, 0xa9b6, 0x0ffb],
      [0xf4c0, 0xdf52, 0xe8b0, 0xbcfa, 0xf5b2, 0x5a5c], [0xec19, 0xc837, 0xa89d, 0x54ed, 0x0e69, 0x0b91],
      [0xf675, 0xbab5, 0x6243, 0x0a93, 0x063a, 0x0007], [0xb835, 0x2332, 0x10ae, 0x02db, 0xfe56, 0xfd80],
      [0xa371, 0x609c, 0x160a, 0x0264, 0xfecc, 0xfc3c], [0xfd01, 0x04f4, 0x00e1, 0x0663, 0x00ad, 0x0394],
      [0x154f, 0x195d, 0x1326, 0x2940, 0x5a01, 0xbd0c], [0x4343, 0xadc2, 0xb6e4, 0x1348, 0xf2a4, 0x0d1d],
      [0xfa92, 0x3c80, 0xaa46, 0xc6ed, 0x053b, 0x021e], [0xe52e, 0xf732, 0xd0da, 0xf3fd, 0xb1f3, 0xaf72],
      [0xf8f5, 0x2dff, 0x053f, 0x22d5, 0x02b5, 0x5fb1], [0xab96, 0x24f6, 0x1249, 0x2426, 0xe179, 0x3e20],
      [0xea49, 0xf436, 0xdc2f, 0xfabd, 0xa7ed, 0x3244], [0xfe92, 0x13d4, 0xf941, 0x4fcb, 0xfee5, 0xf495],
      [0xf8a2, 0xe757, 0xfc55, 0xf7df, 0xfa89, 0x0db9], [0xf3a7, 0xfde7, 0xec2d, 0x2c04, 0x4bc4, 0x03dd],
      [0x0929, 0x1039, 0x1689, 0xef4f, 0x00e9, 0xfe71], [0xaa7a, 0xfb8e, 0xbfa6, 0x170e, 0x1570, 0xf375],
      [0x2717, 0xcf0e, 0x498d, 0x51c4, 0xfb7a, 0x06fe], [0xfb73, 0x1396, 0xfb51, 0x190f, 0xdf1e, 0xadd2],
      [0x0764, 0xf232, 0x0ee7, 0xe92a, 0x402b, 0x4f40], [0xf598, 0xd295, 0xefcd, 0xb879, 0xa74a, 0x3a00],
      [0x4368, 0x28b3, 0x1e54, 0x2f08, 0x4a0c, 0x09dd], [0xac55, 0xb703, 0xd56f, 0x1110, 0xe475, 0x11bb],
      [0xf9da, 0x0802, 0x1680, 0x60b4, 0x3e6f, 0x450e], [0xfde6, 0xa6ad, 0x2b3b, 0x283d, 0x0181, 0x0210],
      [0xdeef, 0xf42f, 0xc01b, 0xa53b, 0x406b, 0x0e46], [0x16d0, 0x023f, 0x2e72, 0x079b, 0x6245, 0x19fd],
      [0x19e1, 0xf244, 0xf854, 0x0f0a, 0xfe7a, 0xff8c], [0x4655, 0x51a4, 0x37f3, 0xe23b, 0xd556, 0x2e1a],
      [0xed07, 0xf48c, 0xcbea, 0xe179, 0x5476, 0x08db], [0xfdbd, 0xdb29, 0xfd14, 0xacb7, 0x304f, 0x2049],
      [0xdf83, 0x055f, 0xba49, 0x0b69, 0x2366, 0x561e], [0x47de, 0x21bb, 0xfa21, 0xf68e, 0xb889, 0xc672],
      [0xf455, 0x3b19, 0xf2fd, 0x571c, 0x3636, 0xcab9], [0x16f2, 0xb5ae, 0x3ce3, 0x2c56, 0xaefe, 0x07b3],
      [0x062d, 0xe4d5, 0xac40, 0x0997, 0x0041, 0x019e], [0x0203, 0xee8c, 0xfd67, 0xedc0, 0x007d, 0xb4ea],
      [0x53f7, 0xb0b3, 0xf8b0, 0xf87a, 0xff2d, 0xfc02], [0x1445, 0xd026, 0xf911, 0xa402, 0xee3e, 0x16b5],
      [0x0141, 0xe745, 0x3936, 0x1b3f, 0xf913, 0x0363], [0xca0a, 0x0c6c, 0x1ef7, 0x01bc, 0x4c60, 0x0c4a],
      [0xe5fc, 0x2fdc, 0xf84c, 0x4400, 0xa128, 0xcd64], [0xfd17, 0x3814, 0xfbad, 0x5cbe, 0xda61, 0xb858],
      [0x476c, 0xe11b, 0xe295, 0x4aae, 0x1e29, 0xce8d], [0x0786, 0x3afd, 0xcdd0, 0x0869, 0x547f, 0x0748],
      [0xf7ae, 0x5b78, 0x42a0, 0xc313, 0xf9f8, 0x0057], [0x207a, 0xd1d0, 0x38f5, 0xaf91, 0x1ed3, 0xf7cd],
      [0x4c90, 0x591e, 0xbc68, 0xf808, 0x011d, 0xf0e9], [0xdfea, 0xb86e, 0x29e4, 0xca50, 0xcb63, 0xf97e],
      [0x380f, 0x1310, 0xb1be, 0x03c4, 0xef83, 0xff4c], [0x9fea, 0xbf05, 0x4d0c, 0x1725, 0x12a9, 0x113e],
      [0xf641, 0x5bc5, 0xc0f3, 0x0b66, 0xfbf2, 0xf826], [0x4a1e, 0xf614, 0x341f, 0x057d, 0xe7ce, 0xfb90],
      [0x09b9, 0x3566, 0x586e, 0xe371, 0xff7f, 0xf518], [0xc976, 0x4187, 0x59e4, 0x02d8, 0x0d45, 0x00a2],
      [0x0bde, 0x03e1, 0x2246, 0xaa2f, 0xe62f, 0x038e], [0xcf64, 0xa88e, 0xf5be, 0xeb51, 0x4c40, 0x2690],
      [0xf889, 0xb89e, 0xb7b6, 0xc58e, 0x1298, 0x1bcf], [0x206a, 0xf45e, 0x651e, 0x1dec, 0xe127, 0x03fc],
      [0x17f4, 0x3b17, 0x4945, 0xa0ce, 0xe67f, 0xe61d], [0x1ef4, 0x2f5d, 0xdb0d, 0xa266, 0x157e, 0x03a9],
      [0xbd60, 0xeb03, 0x09da, 0x0147, 0x0469, 0xfe7a], [0x3d9e, 0x4df3, 0xd774, 0x2ba4, 0xf3dd, 0x3a05],
      [0xd180, 0xe065, 0xb9f8, 0xa8f1, 0xbcab, 0xe56d], [0xcdc2, 0xf784, 0xe693, 0x1727, 0x30aa, 0xa8ad],
      [0xfe0f, 0x0142, 0x040e, 0xe60d, 0xeae4, 0x4f57], [0x043b, 0xa638, 0xded2, 0x2f62, 0xfd06, 0x0a3f],
      [0x13cb, 0x4d00, 0xf893, 0xffe2, 0xfebb, 0x0055], [0x03db, 0xe93a, 0x1074, 0xdcba, 0x23a1, 0x9e32],
      [0xe144, 0x1c74, 0xcffc, 0x3272, 0xaba8, 0x51cd], [0xf9a2, 0xe1f2, 0xf775, 0xdeb3, 0xea1c, 0x9d94],
      [0xe5f4, 0x0184, 0xa7f9, 0x05f6, 0x237a, 0x00c1], [0xe145, 0xa8dc, 0x142b, 0x016a, 0x03b0, 0xfefd],
      [0x0ef0, 0xd1b6, 0x1da7, 0xa578, 0x62fe, 0x5cdb], [0xd6f8, 0x101b, 0xad89, 0x52b5, 0x57a7, 0xfcba],
      [0xed8d, 0x5523, 0x1828, 0xff86, 0x066a, 0xfd33], [0x5fb8, 0x4daf, 0xf805, 0x03da, 0x0007, 0xffc9],
      [0x954f, 0xff79, 0x0985, 0x0103, 0x0059, 0x0133], [0x5f7e, 0xf0df, 0xeaf1, 0xfccc, 0xf6ad, 0x0169],
      [0x1599, 0x1698, 0x48fa, 0x00f2, 0xaa78, 0xf05d], [0x5720, 0x1183, 0x02d2, 0xd02e, 0x1d92, 0x3c58],
      [0x21e1, 0x0bc1, 0x4fd5, 0x5274, 0xad94, 0xf3f8], [0xfb94, 0x0a91, 0xf8df, 0x152c, 0xfcef, 0x4864],
      [0x4224, 0xcb33, 0xbf83, 0xc5f6, 0xb099, 0xc873], [0x08ab, 0x0564, 0x53e2, 0xfb98, 0x0147, 0x0053],
      [0xf77f, 0x540d, 0xf0f0, 0xc89c, 0xff34, 0xf771], [0x03b9, 0xdb2e, 0x3e02, 0xd62a, 0xf361, 0x5226],
      [0xfe5b, 0xfa9f, 0x0280, 0xdfd1, 0xae10, 0x087e], [0x10d5, 0x4852, 0xdc74, 0xb871, 0xc362, 0x0e78],
      [0xe8c9, 0x01c1, 0xdf3d, 0x0433, 0xa93e, 0xec80], [0x0b89, 0x31f4, 0x476d, 0x0596, 0x3a59, 0x54e3],
      [0xf49f, 0x0191, 0xed7d, 0xb177, 0x06a3, 0xfb85], [0x0d79, 0x1479, 0x2295, 0x5676, 0xe285, 0x05ab],
      [0xf796, 0x2188, 0x46c8, 0xc302, 0x4b77, 0xe899], [0x0dad, 0x0b19, 0x1709, 0x18fd, 0x21b6, 0x59ea],
      [0x09a3, 0x0b8c, 0x017b, 0x1647, 0xa9e1, 0xf773], [0xbdbd, 0xfdae, 0x4986, 0xeb51, 0x0668, 0x0306],
      [0x0b50, 0xfa70, 0x0e02, 0xf70c, 0x4dc6, 0xf8e2], [0xb771, 0x52e3, 0xc94f, 0xcee3, 0x4052, 0x027b],
      [0xf832, 0xb48e, 0xbf71, 0x2fb0, 0xbf40, 0xe152], [0xda36, 0x03f4, 0xab73, 0x0b43, 0xce58, 0x0911],
      [0xfc13, 0x01d7, 0xf1d3, 0x1f6d, 0xd4b1, 0x63bd], [0x102d, 0xac20, 0xf58f, 0x02f4, 0xfd69, 0xfdf5],
      [0x195a, 0x2153, 0x4b59, 0x4a05, 0x17cc, 0xdb7d], [0x4245, 0x6017, 0x36c8, 0x2758, 0xfde8, 0xd73a],
      [0xe02d, 0x0861, 0xa60c, 0xbd4f, 0x154b, 0xeecf], [0xc5e7, 0x5028, 0xb881, 0xda0b, 0xd193, 0xba59],
      [0xf70e, 0xc8d8, 0x0816, 0x57c3, 0x0687, 0x02d5], [0xdea6, 0x3925, 0x0dc1, 0xaf9f, 0x1a11, 0x2008],
      [0x4f18, 0x113a, 0xfaaa, 0xfdb7, 0x04cd, 0xf66f], [0x1d2b, 0xe414, 0x3563, 0xdfca, 0x5778, 0xbc58],
      [0xf874, 0x0f23, 0xdc98, 0xf11c, 0x03be, 0x0109], [0xeed1, 0x0b8f, 0xc1d9, 0x4c8e, 0x135a, 0xfbaf],
      [0x4659, 0xd93d, 0xb927, 0xf0ea, 0x2baa, 0x16bd], [0xc6fc, 0xfb35, 0x25bc, 0x5473, 0x2bdc, 0xd237],
      [0xfd2f, 0xf95c, 0x006d, 0xf7a2, 0x003d, 0xe58c], [0x9fd5, 0xa808, 0x15e8, 0xf85b, 0xf91f, 0xfc0c],
      [0xa350, 0xee9d, 0xf580, 0xc6a9, 0xef56, 0x26bf], [0x212f, 0xfc82, 0x4fd6, 0xca04, 0xbc8d, 0x008b]]"

definition AHT_VQ_6 :: "nat list list" where
  "AHT_VQ_6 =
     [[0x27aa, 0x1cc5, 0x41dd, 0x48f9, 0xa693, 0xf1cc], [0xf5c5, 0xf134, 0xea67, 0xebb8, 0xdccf, 0xb0b6],
      [0xea31, 0xa6f0, 0x5331, 0x1b64, 0x02e9, 0x02d0], [0x01ac, 0xfa4d, 0x006d, 0xf3f6, 0x0169, 0xdf2d],
      [0x1fe1, 0x5781, 0x00f1, 0x06db, 0xfc96, 0xf4f8], [0x0474, 0x3163, 0x0902, 0x56f7, 0x9dc6, 0xbb6b],
      [0xf5cf, 0x0d33, 0x2861, 0xb2ee, 0xc394, 0xa278], [0xf038, 0xce04, 0x9b54, 0x3328, 0x0f41, 0x0523],
      [0x1210, 0xa309, 0x3528, 0x62e5, 0xfb69, 0x087d], [0xff9f, 0x35b3, 0xebfe, 0x5ad7, 0x1076, 0xa97f],
      [0x1ade, 0xfebe, 0x4758, 0xfcaa, 0xd174, 0xfd23], [0x4380, 0xce83, 0xda23, 0x5c0b, 0xc090, 0xfae3],
      [0x16aa, 0xec98, 0x4c46, 0xad36, 0x9fd2, 0xff49], [0x16db, 0xc0f7, 0x3b7d, 0xdae8, 0xf9fe, 0x0179],
      [0x3710, 0x61e1, 0x346b, 0x2062, 0x5b18, 0x41b2], [0xe3a3, 0x0076, 0xc205, 0x4a99, 0x2635, 0xfeeb],
      [0xef40, 0x5455, 0xcc18, 0xc07d, 0x40f9, 0xed02], [0x132d, 0xb4ef, 0x5b73, 0x3971, 0xfd2e, 0x007d],
      [0x4c06, 0xed84, 0xf878, 0xd2f9, 0x5122, 0x1531], [0x9456, 0xf4bf, 0xef15, 0x0180, 0xf7c9, 0x0557],
      [0xfef6, 0xdc29, 0x1541, 0x66dd, 0xf87c, 0x107d], [0xf466, 0xb136, 0xaac8, 0x154a, 0xe2fe, 0x14e0],
      [0xff23, 0xe5d8, 0x025b, 0xdc4c, 0x051c, 0x948e], [0x2595, 0xdf44, 0xf851, 0x24bb, 0xf98d, 0x5921],
      [0x1d8e, 0xeb7e, 0xefbb, 0x0569, 0xfc22, 0x0230], [0xfb12, 0x60a2, 0xb58f, 0x29f5, 0x1da1, 0xe446],
      [0x01c3, 0x4ea2, 0xd923, 0xe881, 0xf774, 0xfa4e], [0x56e9, 0x24a4, 0x2388, 0x2acf, 0xf6c3, 0xf174],
      [0x48ec, 0xfd76, 0xfb2e, 0x2b54, 0x1dfe, 0x1751], [0x4b07, 0xfa33, 0xfbcc, 0xfd25, 0xfd54, 0x002b],
      [0xec93, 0x3476, 0x4eab, 0x003c, 0x01dc, 0xfc59], [0xb1c3, 0x2206, 0x09c3, 0x03f8, 0xfb7a, 0x014f],
      [0x98d3, 0x48a6, 0xf767, 0xfd63, 0x0d51, 0x0319], [0xed8a, 0x22ab, 0x9fe1, 0xda52, 0x0e3b, 0xfee5],
      [0x33f7, 0xac64, 0xf195, 0xfb60, 0xf84e, 0x064c], [0x00ad, 0x003c, 0x0397, 0x04cd, 0x1b1e, 0xfd67],
      [0x3ff9, 0x425f, 0x14dd, 0xc941, 0xf700, 0xb05a], [0x62f6, 0xd68f, 0x2eab, 0xe21b, 0xe725, 0x36ea],
      [0x5d79, 0xcc35, 0xe3c6, 0xfc57, 0x00ea, 0xff45], [0x18a7, 0xf8ab, 0x30da, 0xf8a9, 0x493f, 0xa4d3],
      [0x026d, 0x192d, 0x0d1a, 0xa12e, 0x20d6, 0x14c3], [0xf31f, 0xec56, 0xeda0, 0xec28, 0x9b7e, 0x14e3],
      [0xfb05, 0xcc11, 0xfc3b, 0xa4ea, 0x04be, 0x6693], [0xe794, 0x2733, 0xb177, 0x3bc5, 0xc137, 0x1410],
      [0x255a, 0xf0b9, 0xb3ca, 0x1289, 0x56fe, 0xefb5], [0x1f2a, 0xb370, 0x36c8, 0xe98f, 0xae89, 0x22eb],
      [0x0007, 0xf039, 0x03df, 0xe84f, 0x0034, 0xb421], [0x0d9d, 0x0b99, 0x1e34, 0x1e6a, 0x62e0, 0x183e],
      [0xfc41, 0xcdf4, 0xf8d0, 0xa729, 0x1c9c, 0x2a4e], [0xedb2, 0x068e, 0xd844, 0xebab, 0x10c6, 0xfb09],
      [0x0f31, 0x0516, 0x1d1a, 0x027e, 0x4f96, 0xf3c3], [0xcf30, 0xdc5d, 0x481f, 0xcfc9, 0xe3ba, 0x4878],
      [0xe7d7, 0x21c9, 0xe509, 0xfc81, 0x42d5, 0x40dc], [0xd958, 0x6fa3, 0x0b1d, 0x0668, 0x0b6d, 0xfed6],
      [0x3a78, 0x9a7c, 0x3a1e, 0xa234, 0x0717, 0xe6b6], [0x65fb, 0x142e, 0x52e9, 0x3e01, 0x5471, 0x39e9],
      [0xab4c, 0x4036, 0x5018, 0xc7f6, 0xe436, 0xefbe], [0x6fe7, 0x005a, 0xf9dc, 0x0315, 0xfc7a, 0xffb5],
      [0xfa39, 0x09a7, 0xf023, 0x0e1c, 0xf740, 0x2aa2], [0x21a8, 0x4453, 0x4367, 0xbbd0, 0x427e, 0xc01b],
      [0xaf0e, 0xb75b, 0x62ba, 0x4538, 0xf20b, 0x069f], [0xfc1b, 0x17f1, 0xe761, 0x2bf2, 0xd3a1, 0xb2e5],
      [0xffb6, 0xf05f, 0xf9d0, 0x3448, 0x00a2, 0xff70], [0xfdef, 0x524c, 0x1ef3, 0xd37c, 0x01a6, 0xffe6],
      [0x1bbe, 0xcb25, 0xb1a9, 0x0a45, 0xff4e, 0xfe53], [0x23f1, 0x0558, 0xa922, 0x0a3f, 0xafed, 0x6139],
      [0xfe50, 0x1a13, 0xfef6, 0x2213, 0x0050, 0x6d78], [0x4c25, 0xf3dc, 0xdbd3, 0x0776, 0xaaef, 0x14e1],
      [0x36ff, 0xd31f, 0x313c, 0x17bf, 0x4da5, 0x0523], [0x2ac3, 0x266d, 0xb74c, 0x3d7e, 0x12b8, 0x025d],
      [0xf90f, 0x0eae, 0xf009, 0x54c0, 0x1788, 0xfdc0], [0x0def, 0xf206, 0x3ffb, 0x0a78, 0xf928, 0x02cc],
      [0xec47, 0xfa89, 0xee3a, 0xfd74, 0xbac7, 0xf2da], [0xf1cd, 0xeeec, 0xe686, 0xa978, 0x1cd6, 0x05b2],
      [0x2fd2, 0x4af6, 0x160e, 0xe179, 0xb0bf, 0x5360], [0xe2ac, 0x4df0, 0x5bf6, 0xd9e7, 0x1625, 0xf83a],
      [0xf71d, 0x3c4e, 0x2a9b, 0xba29, 0x1961, 0x350e], [0xc1ea, 0xc2e2, 0xed94, 0x1783, 0x5eba, 0xe7dd],
      [0xf7ff, 0xe538, 0xfb48, 0x0396, 0x4547, 0xffbb], [0xf177, 0x238b, 0xc13f, 0xa3bb, 0x175d, 0xf6d8],
      [0x1eb6, 0xdd2a, 0x5de1, 0x63a4, 0xd4e7, 0xfd1b], [0xced4, 0x4c0c, 0x3939, 0x3c5b, 0xad16, 0x0493],
      [0x0836, 0x047b, 0x0ae5, 0x1000, 0x0883, 0x222e], [0xb8da, 0xbaa2, 0xd782, 0xebad, 0xfbd6, 0xf22b],
      [0xf4fd, 0xb20a, 0xd16f, 0x1790, 0x207b, 0x2886], [0xdc8a, 0xf7cc, 0x4be7, 0xffef, 0x02dc, 0xfd4f],
      [0xc750, 0xb4e8, 0xe449, 0x4927, 0x074e, 0x597a], [0x0f48, 0x0293, 0x63fd, 0xf05a, 0x2593, 0x036d],
      [0x0a38, 0x58a7, 0xe976, 0x4600, 0x0ee4, 0x4efc], [0x0a01, 0x68df, 0xeb83, 0xd564, 0x08d0, 0xfdfb],
      [0xec92, 0x00c6, 0xaa21, 0xf1e8, 0x569e, 0xb614], [0x533c, 0xfb45, 0x4ac8, 0x4133, 0xf9cc, 0x2c7e],
      [0xf902, 0x0f77, 0xf260, 0x1b5b, 0xe43d, 0x518d], [0xe824, 0xb9dd, 0xb6de, 0x60bb, 0x407c, 0x0c8b],
      [0x4fee, 0x9e65, 0xb077, 0x1184, 0xec09, 0xfe22], [0xe716, 0xf832, 0xd80b, 0xfdcf, 0xa9e9, 0xa8bd],
      [0x0be7, 0xb65e, 0x1da2, 0x3997, 0xb26a, 0x18cf], [0xec49, 0x057d, 0xda38, 0x041f, 0xaa87, 0x2ba2],
      [0x0d99, 0xda1d, 0x197e, 0xbef1, 0x591d, 0x5593], [0xb776, 0x445d, 0x3948, 0x050b, 0x13a2, 0x4cdc],
      [0x3f06, 0xb29e, 0xbdc4, 0xb9ed, 0xbddb, 0x16a8], [0xdfe0, 0x132c, 0x22e7, 0x08e0, 0xfb8c, 0xa54f],
      [0x0624, 0x0ac1, 0xf9c2, 0x085f, 0xf2ee, 0xaa5a], [0xd998, 0xfbdc, 0x9356, 0x04be, 0x1c79, 0x0096],
      [0x0062, 0x0602, 0x0217, 0x4415, 0xa562, 0xfc7b], [0x535c, 0xb14e, 0x0ce1, 0xf930, 0xdff1, 0xac2a],
      [0xefba, 0xede7, 0xba12, 0x1566, 0x0505, 0x0088], [0x4919, 0x520b, 0x60f2, 0x2c9d, 0x0502, 0xedf6],
      [0xf231, 0x1dd4, 0xfef7, 0x085d, 0xfcc3, 0xf80d], [0xf390, 0x4d01, 0x0ad7, 0xfffe, 0x0442, 0x0068],
      [0xe58d, 0xb127, 0x0b7a, 0xf7b3, 0xffdc, 0x04f4], [0x2558, 0x24d6, 0x2572, 0x5654, 0x3603, 0x1898],
      [0xfde9, 0xb1ce, 0x10b4, 0xf8b4, 0xfe40, 0xbce1], [0xa0e0, 0x37a4, 0xcab1, 0xadd0, 0x08df, 0x2d23],
      [0xf5aa, 0x3c4d, 0xee13, 0x48ce, 0xef35, 0xfd92], [0xb1a0, 0x1049, 0x46c3, 0xfa84, 0x359a, 0xf8df],
      [0xc019, 0x2378, 0x02e8, 0x5605, 0x007d, 0x2a2a], [0x25ac, 0xc6f1, 0xb7d1, 0xc686, 0x2ba6, 0xaeee],
      [0xfeba, 0xa32e, 0x1800, 0x1ee5, 0x025a, 0x0604], [0xe606, 0x19ea, 0xce75, 0x5394, 0x5131, 0xe549],
      [0x109c, 0xadcd, 0x15fc, 0x48ff, 0x5d34, 0x2088], [0x4642, 0x1648, 0xeb83, 0xb953, 0xfdd5, 0x0c93],
      [0x17cb, 0x3798, 0xec03, 0xbbd0, 0xb404, 0xd27f], [0xabae, 0x2c26, 0x3c4a, 0x63f6, 0x1a79, 0x97c5],
      [0x536b, 0xdfcc, 0x16f5, 0xf22c, 0x17bf, 0xf5f9], [0x0a2b, 0xf669, 0x152d, 0xd002, 0xb564, 0x15c6],
      [0xf947, 0x98e7, 0xa390, 0x5978, 0xfea3, 0x0ecb], [0x088d, 0xfb4d, 0x14dc, 0x0cb1, 0xa7a7, 0x0068],
      [0xf980, 0xd4f4, 0xf4d7, 0xaf0d, 0xa20f, 0x4dbc], [0x5959, 0xe34f, 0xb7cf, 0xc6e8, 0xdf30, 0xcd5b],
      [0x0ec1, 0x0f76, 0x202f, 0x500e, 0xe4b1, 0xfb4f], [0xff60, 0xf9b3, 0xfce7, 0xde17, 0x023d, 0x0308],
      [0x10c9, 0xf136, 0x4f95, 0x17c2, 0xeb37, 0xb820], [0x4939, 0x099f, 0x3102, 0xe1bb, 0xe1ca, 0xf779],
      [0x2b42, 0xed90, 0x5667, 0x0721, 0xa0e1, 0x0ff0], [0x05df, 0xb516, 0xf9df, 0x000d, 0xfec7, 0x0177],
      [0x013e, 0xfdc1, 0x09f0, 0x00b2, 0x0066, 0x0028], [0xc184, 0x96ef, 0x1390, 0x0cf8, 0x02ae, 0x0487],
      [0x649b, 0x6906, 0x023e, 0xe8d6, 0xf0b4, 0x057f], [0xdc44, 0xe20f, 0xf4c5, 0xdf40, 0xb719, 0x6720],
      [0xe2eb, 0xb988, 0xb824, 0x2262, 0xf734, 0xaa82], [0x1eab, 0x2dfd, 0x6b5d, 0xcdd1, 0xfa7e, 0x4c86],
      [0x08c0, 0x173b, 0x2bef, 0x3e6c, 0xe69d, 0x5ed8], [0x54a9, 0xb7ad, 0x262b, 0x1996, 0xf556, 0x014e],
      [0xefcb, 0x0628, 0xd4fe, 0x0059, 0xa093, 0xe9b2], [0x1e28, 0x05c6, 0x53a4, 0x9e3f, 0xdf3f, 0x0009],
      [0xf670, 0x27ea, 0xce2c, 0xc131, 0x0489, 0xacdc], [0xddcb, 0xc7a3, 0xa67a, 0xc624, 0x0a45, 0x3614],
      [0xe3ac, 0x0b1b, 0xda59, 0x0b42, 0xc6df, 0x5fb1], [0xfd5e, 0xe67e, 0x019e, 0xa4db, 0xaca1, 0x01c6],
      [0x0838, 0xe758, 0x2a87, 0x46a7, 0xfb51, 0x00af], [0xfe13, 0xfdce, 0xf54d, 0x0076, 0xfbce, 0x005d],
      [0xd8e5, 0xf015, 0x9259, 0x56a4, 0x3ae5, 0xfd84], [0xede3, 0xbfe8, 0xdcd5, 0xb03e, 0xd2a8, 0xae3c],
      [0x12cf, 0x3e14, 0x5eae, 0xcabe, 0xf3fe, 0xfbdd], [0xe5bc, 0x1202, 0xb6ac, 0xc44d, 0xbed3, 0x5db4],
      [0x3bf5, 0xfd5e, 0xf19e, 0x54af, 0x117b, 0xd0c8], [0x1294, 0x0a21, 0x14ea, 0x1771, 0x3ad7, 0x677a],
      [0xa2f9, 0xbc9d, 0x1b20, 0x017a, 0x02b6, 0x029e], [0x5b60, 0xdd79, 0xc687, 0x1d78, 0xfc94, 0x2b50],
      [0x0e38, 0x0d08, 0x5841, 0xf259, 0xf6e8, 0xff8f], [0x011c, 0x1b02, 0x0c19, 0x27bb, 0x19ee, 0xb743],
      [0x09a8, 0x1758, 0x2b2e, 0xd160, 0xfda5, 0xfd69], [0x3f2f, 0x4039, 0x336c, 0xf035, 0x123b, 0x1d07],
      [0x4b8a, 0x3cae, 0xe67b, 0x0691, 0xed07, 0x4298], [0x4283, 0x0214, 0xb588, 0xfa5f, 0xebf6, 0x043d],
      [0xceb7, 0xbb37, 0x080e, 0x9d0c, 0x4a41, 0xc107], [0x2748, 0xadf8, 0xcabe, 0xf47b, 0x3c07, 0x4dde],
      [0xfd78, 0xf9bb, 0x273e, 0xf9c8, 0x33f0, 0x4d60], [0xfbe2, 0x29f8, 0x021a, 0x616a, 0x259e, 0xdca4],
      [0xd88d, 0x0be2, 0x9e0c, 0xa20c, 0x3693, 0x0064], [0x1993, 0x1afb, 0x1b77, 0x286c, 0x5cdf, 0xba22],
      [0xa6f7, 0xf840, 0xfa8f, 0xf2fe, 0x2433, 0x37ed], [0xc7f6, 0xf081, 0x0be2, 0x3f7e, 0xbc69, 0x25ae],
      [0xac6f, 0x5c4c, 0x4185, 0x02cc, 0x0a67, 0x0072], [0xb5b8, 0xf422, 0x0626, 0xff0b, 0x05b7, 0xfce7],
      [0x578a, 0x5b91, 0xc6d3, 0xfdee, 0x439e, 0x3531], [0xd2c2, 0x1eff, 0xc97e, 0x5ba9, 0x9fcc, 0x67b6],
      [0xfbeb, 0x0e5f, 0xf756, 0x294c, 0x5207, 0xf18a], [0xc367, 0x00c5, 0x414e, 0x9fe5, 0x1351, 0x0005],
      [0x2a1d, 0x10ef, 0x68a6, 0xdc9d, 0xc0e8, 0xf4e8], [0x3ecb, 0xa1dc, 0xf0a3, 0xe54f, 0x3165, 0xe48b],
      [0x0830, 0x9c1c, 0xdf4e, 0x1a9e, 0x000b, 0x049a], [0xd1b8, 0xfdb9, 0xdd47, 0xafc1, 0xd719, 0xfe84],
      [0xf649, 0x60c9, 0xab79, 0xb473, 0x067c, 0xfd24], [0x0909, 0x356f, 0x0ff5, 0x5fe5, 0x6073, 0xad45],
      [0xf6c2, 0xfe08, 0xefde, 0xd6b6, 0x5c74, 0x07a9], [0x4f9b, 0x4591, 0xdade, 0x0e95, 0xb5f6, 0xe76c],
      [0xf0f0, 0x41a2, 0xfc5f, 0xb0aa, 0xbab5, 0x1a8d], [0x308f, 0x17be, 0xd3f8, 0xc78e, 0x1b01, 0x5bb4],
      [0x1dd4, 0xf989, 0x59e9, 0x29df, 0xdf9c, 0x0346], [0xde91, 0xfb2d, 0xb950, 0x0f39, 0x3edd, 0x05d2],
      [0xf1fe, 0x2054, 0x3b3d, 0xf131, 0xad63, 0x06cd], [0xee6f, 0x54eb, 0x093e, 0xfeea, 0xed48, 0x3cbd],
      [0xa5ae, 0xca74, 0x1df4, 0x3f68, 0x5e38, 0x3ab1], [0xb1b5, 0x3215, 0xb140, 0x4133, 0xd279, 0xc12f],
      [0xcec7, 0x4f0f, 0x0da8, 0xf60b, 0xe5a7, 0xd1b6], [0x1159, 0x1e84, 0x512f, 0x42b8, 0x2d03, 0xda55],
      [0x60be, 0x212e, 0xa4fe, 0xf342, 0x2b5d, 0xe430], [0xd885, 0xe239, 0xa978, 0xb881, 0x6815, 0x254e],
      [0x9c33, 0x01dd, 0x1ec2, 0xf9fe, 0x0463, 0xff58], [0x01d6, 0x266a, 0xfea5, 0x5d89, 0xd773, 0xdb05],
      [0xf000, 0xda1a, 0xe538, 0xabd8, 0x516d, 0x1c06], [0x14fa, 0x2614, 0xa32b, 0xfb5a, 0x0200, 0xf9fe],
      [0xfc12, 0xd8c2, 0xce97, 0x4b22, 0xf902, 0xfc86], [0x3b04, 0x5c44, 0xc2e2, 0xf626, 0xfb4d, 0xfad3],
      [0xe312, 0xf5d3, 0x0447, 0xff09, 0xfe27, 0x00b1], [0x1f99, 0x0004, 0x3088, 0xa8f4, 0x28a5, 0xe1d0],
      [0x56b4, 0x2a17, 0xec4d, 0x02b2, 0x0216, 0xff2c], [0xf3af, 0xfa76, 0xbe3d, 0x47fa, 0x3dcd, 0x59ac],
      [0x1631, 0xf74b, 0x0c7c, 0xf2aa, 0xaac7, 0xc629], [0x0013, 0x0313, 0x0408, 0x00aa, 0xdf99, 0xfd7b],
      [0xfc8e, 0xf6f1, 0x961f, 0x01b0, 0xeed8, 0x05db], [0xfab6, 0xd1d5, 0xffb4, 0xb064, 0xd7cb, 0x2c40],
      [0x00d3, 0xed6f, 0xedbd, 0xe4eb, 0xcb1e, 0x388f], [0x179b, 0x148c, 0xfe35, 0xfe32, 0x008f, 0xffbf],
      [0xf5f4, 0x1c58, 0xf30b, 0x23fc, 0xa570, 0xd8fa], [0x9ece, 0xdac4, 0x49ba, 0x17d5, 0x097d, 0xc76e],
      [0x207a, 0x08e5, 0x3770, 0x0db8, 0x6519, 0x55f0], [0x00d0, 0x4efa, 0xfee7, 0x9f36, 0xffc1, 0xfb61],
      [0x0447, 0xe86e, 0x0a92, 0xaa51, 0xf5a1, 0x0233], [0x0017, 0xe8d6, 0x00f3, 0xdce3, 0x14e1, 0x504e],
      [0xc396, 0x319b, 0x1040, 0x2b4f, 0x508d, 0xd750], [0x5203, 0xffab, 0xdeec, 0x00c2, 0x03eb, 0xdad5],
      [0xb34b, 0xf2f9, 0xc8ff, 0x0df6, 0xa4ab, 0xfd65], [0xf7e4, 0x0da1, 0xf388, 0xb459, 0x021b, 0xfa06],
      [0x1cb8, 0xc493, 0x5844, 0x4ba9, 0x0413, 0x40f3], [0xf8b0, 0xfe63, 0x04d3, 0xeb64, 0xf222, 0x558f],
      [0x1efb, 0xf828, 0x4248, 0xe571, 0x72d1, 0xf655], [0xcaeb, 0x20c5, 0xa3ac, 0xa9b5, 0xc89e, 0xc827],
      [0xd2c9, 0xb186, 0x3eb8, 0xf8c8, 0x3d69, 0x1194], [0x0f09, 0xbf3b, 0x4ec1, 0xad5d, 0x1e62, 0x2e58],
      [0xe66d, 0xfb07, 0xb66b, 0xd42e, 0x2d74, 0x0414], [0x09e0, 0xe5dd, 0xba03, 0xd39e, 0xece2, 0xfc10],
      [0x04d9, 0x10a4, 0x090f, 0x17df, 0x0d9d, 0x4ef1], [0x0bc6, 0xf418, 0x14c4, 0xee45, 0x515f, 0x21fe],
      [0xf902, 0xc6a5, 0x0116, 0x3684, 0xd8af, 0xd6cd], [0xa734, 0xe0eb, 0xfb7e, 0x35fd, 0xfa34, 0xfb21],
      [0xe36b, 0xfd99, 0x3326, 0x49ef, 0x26a9, 0x05ac], [0x09f8, 0xf6de, 0x0d60, 0xedea, 0x2b74, 0xb380],
      [0xd48b, 0xafb7, 0xd599, 0xd5e1, 0xaee1, 0x1ab1], [0x03d8, 0xc509, 0x168f, 0x6225, 0x1501, 0xb2a9],
      [0x0205, 0x33d8, 0xe2de, 0xf951, 0x5084, 0xe883], [0xac57, 0x33c3, 0xaec5, 0x3489, 0x4381, 0x3330],
      [0xc23d, 0xc088, 0x5a35, 0xf03b, 0xdffd, 0x0367], [0x0246, 0x311b, 0xad77, 0xc652, 0xdc1d, 0x1635],
      [0x10de, 0xf910, 0x2ca1, 0xba9d, 0xd93f, 0x0241], [0x177d, 0x41be, 0x44f7, 0x9b5a, 0xeed0, 0xf222],
      [0xca50, 0xbf63, 0x0e34, 0xf2fe, 0xad9d, 0xc1f2], [0x19a5, 0xd475, 0x21c9, 0xccc6, 0x5b31, 0xcb03],
      [0xf612, 0xdcaa, 0xe27a, 0x7238, 0x0e75, 0xfe81], [0xd68c, 0x61a3, 0x0765, 0xdfee, 0x51b8, 0xc0ae],
      [0x149c, 0x4156, 0x29a3, 0x4de4, 0xed41, 0xb484], [0xfdec, 0xdbac, 0x6cd0, 0x1365, 0xff0f, 0x0218],
      [0xfd03, 0xaf1e, 0xf2ac, 0x49b6, 0x0acd, 0x058c], [0xf40d, 0x0a94, 0xb5b2, 0xfeb5, 0x0dd1, 0x0074]]"

definition AHT_VQ_7 :: "nat list list" where
  "AHT_VQ_7 =
     [[0xad4b, 0x5585, 0x2896, 0x354e, 0x29de, 0xdc27], [0xa809, 0xdfff, 0x4798, 0xe61b, 0x63ae, 0xd5a0],
      [0x1a90, 0xca42, 0xcc22, 0x5792, 0x394b, 0xae36], [0x092b, 0x2914, 0x0465, 0xf281, 0x15c1, 0x6a00],
      [0xe627, 0x2e4b, 0xa034, 0x5999, 0x4f8a, 0xe87d], [0xaaf8, 0x29b9, 0xb361, 0xc553, 0xdee2, 0xf7df],
      [0xf547, 0x21ec, 0xece1, 0x6c5b, 0x1d82, 0xd147], [0xfc04, 0x099c, 0xfc46, 0x1292, 0xfd8d, 0xc010],
      [0xb30a, 0x5a39, 0x004b, 0xca8c, 0xf5ac, 0x083c], [0x0fd1, 0xf4c8, 0x16db, 0xee95, 0x5686, 0x3110],
      [0xacc8, 0xbd17, 0xfd26, 0x1cfb, 0xd276, 0xd6e5], [0x2c44, 0x0700, 0x682a, 0x5bde, 0xb397, 0xfe15],
      [0xba5d, 0xbe77, 0xcada, 0xc7cb, 0xa9f3, 0xf660], [0x0443, 0xe8b1, 0xe0d9, 0xbdaf, 0xb030, 0xaa55],
      [0x47d4, 0xfbb1, 0x078d, 0x341e, 0xbbc9, 0x46c2], [0x5876, 0x43c1, 0xd912, 0x45ff, 0x4762, 0x02ba],
      [0x05cc, 0x4f49, 0xe986, 0x986d, 0x134d, 0xa909], [0xf5d5, 0x11eb, 0xe92e, 0x4820, 0x223f, 0xf5f8],
      [0xf513, 0xf9be, 0x54d1, 0x0c1b, 0x9bad, 0x0c98], [0xb5ad, 0x1255, 0xec71, 0x17ac, 0x07b4, 0xc509],
      [0xf773, 0x252c, 0xfdee, 0x50bd, 0xedca, 0xdf93], [0xa8cb, 0xdd49, 0x09e1, 0xd3a8, 0x1564, 0x03e6],
      [0x5654, 0xec44, 0x0673, 0xf59f, 0x1207, 0x090f], [0x5177, 0xf3fa, 0xf2fe, 0x1009, 0x349e, 0x0bfd],
      [0x0055, 0x4389, 0x2818, 0xc660, 0x00d6, 0x005a], [0x9903, 0xb65f, 0xb468, 0x4b2c, 0xd816, 0x26b5],
      [0xd9f5, 0x5011, 0xe64d, 0xe4b9, 0x0b4b, 0xfd1e], [0x505f, 0xc20c, 0xa67f, 0x1ad6, 0x004c, 0x0147],
      [0x2228, 0xcdb3, 0xa65f, 0xf6bc, 0xb420, 0xd9d5], [0xcdaa, 0x3f37, 0x525c, 0x0eed, 0x02ed, 0xca20],
      [0xc185, 0x47df, 0x0957, 0xbb03, 0x4c1c, 0xe87e], [0x058f, 0x2dd6, 0x0fd3, 0x4b5a, 0x1ac9, 0xb31f],
      [0xebb0, 0x2626, 0x4746, 0x099f, 0x494c, 0xed0c], [0xfdab, 0x4c2a, 0x052b, 0xdc78, 0xfecc, 0xfbb0],
      [0xf3e5, 0x9b7d, 0xc2cf, 0x62f4, 0x121a, 0x0a4b], [0x4ca7, 0xf6b0, 0xe117, 0x2e14, 0xdb8b, 0xc8fc],
      [0x0a52, 0x6755, 0xad9d, 0xd78e, 0xf963, 0xf951], [0x560f, 0x5479, 0x2d3c, 0xa67d, 0xefd3, 0x0081],
      [0xe816, 0x0dd6, 0x0393, 0xfefb, 0xffef, 0xfe81], [0x06a0, 0x1a30, 0xfa6f, 0x5166, 0x0359, 0xeec0],
      [0x058f, 0xc450, 0xde9a, 0xda3d, 0x145a, 0x1637], [0xee58, 0xfd9b, 0xd25d, 0x15f2, 0x1086, 0x026b],
      [0x03a9, 0xec9d, 0xc8ea, 0xbd30, 0xe506, 0xe8c0], [0xc524, 0xfe1f, 0xe3bb, 0xc5d2, 0x49bc, 0x54a9],
      [0x9bc6, 0x0b5e, 0x0477, 0xfeb9, 0xfe36, 0xfc1d], [0xda48, 0xfccd, 0x9ebc, 0x0af4, 0x4f01, 0x043b],
      [0xfba9, 0xf19e, 0xf904, 0xb3dc, 0x03c6, 0x0335], [0x1c7d, 0xab01, 0x2a26, 0xe46d, 0xa503, 0xf945],
      [0xfee6, 0xd4ab, 0x00aa, 0xae2a, 0x8f02, 0x3147], [0x4612, 0x0e81, 0xf9e5, 0x0375, 0x0005, 0x0234],
      [0x17e4, 0x58a8, 0x08c2, 0xe4d9, 0x26f7, 0xe80c], [0x10f2, 0x68b8, 0xf187, 0x07b8, 0xfbc9, 0xf5f6],
      [0xfd6b, 0xe123, 0xf594, 0xc4a6, 0x453a, 0x1117], [0xefb2, 0xd4d3, 0x02cd, 0xa816, 0x061a, 0x2fdc],
      [0xe6fb, 0x479e, 0x17d7, 0x1b47, 0x1744, 0x4713], [0x267b, 0x14fa, 0x5c34, 0xe533, 0xe657, 0xffc2],
      [0x55cc, 0x342f, 0xfd55, 0x0ec9, 0x0878, 0x00d1], [0xf20f, 0xfb99, 0xb2f4, 0xf9f8, 0x051c, 0xfcdd],
      [0xf3f5, 0x3eb1, 0xca21, 0xf3fb, 0x10c6, 0x5ca1], [0xd8f1, 0x26d7, 0xc200, 0x3286, 0xa3b1, 0x54c3],
      [0x25fa, 0x5935, 0x2fa0, 0x3af3, 0x159d, 0x12e5], [0x08c3, 0x0833, 0x04db, 0x0ff9, 0x128c, 0x329c],
      [0x0fa7, 0xf65c, 0x0d19, 0xf3ec, 0x228b, 0x4280], [0x10ea, 0x17ef, 0x15ad, 0x2421, 0x2bda, 0x6fb0],
      [0xda8e, 0xdd87, 0x00ec, 0x03f1, 0x01c7, 0xfc3c], [0x1aad, 0x4b5a, 0xfc06, 0x00c8, 0x071d, 0x0242],
      [0x144c, 0x03bd, 0x2884, 0x0d02, 0xce00, 0xff81], [0xf432, 0xdfff, 0xc723, 0x562d, 0x1720, 0x041d],
      [0x2ae6, 0x6556, 0xa01e, 0xa512, 0xd17f, 0xe57b], [0x588b, 0xd4fe, 0x1668, 0x0a07, 0x5c99, 0xd7f3],
      [0xf2f1, 0xef77, 0xeaae, 0x50bb, 0xd5a5, 0xf1eb], [0xefdd, 0xf1e4, 0x11df, 0xfcc3, 0xfea2, 0xfcb1],
      [0xf319, 0x0d7b, 0xe31a, 0xd2ac, 0x0bcf, 0x01c7], [0x0c80, 0xdab5, 0x0c82, 0xa693, 0x2bb0, 0x989e],
      [0xc8f3, 0xefeb, 0x3c16, 0x37d7, 0xd55d, 0xb067], [0x0edf, 0xd4f8, 0x5624, 0x3822, 0xc420, 0xe1cb],
      [0xe76d, 0xbac9, 0xf9e8, 0x2f10, 0xb2a3, 0xfe45], [0xe7fd, 0xef76, 0xff60, 0x20ab, 0x586e, 0x2e87],
      [0x4afd, 0x0497, 0x1cfe, 0xd96d, 0xefd8, 0x1260], [0xffb8, 0xe21c, 0xff90, 0xd14d, 0xf362, 0x6a27],
      [0x0cca, 0x174b, 0x1d4d, 0xbd85, 0x0362, 0x9c94], [0x02e1, 0x0745, 0x0729, 0x07e6, 0x0950, 0x1293],
      [0xeb9f, 0x1d58, 0x0cfb, 0x0a9b, 0x0bf9, 0xf9ba], [0x1097, 0x0235, 0x15fd, 0x09c1, 0x4663, 0xecc8],
      [0xf4ef, 0xba00, 0xe082, 0x3d7a, 0xfc06, 0x0858], [0x0bea, 0xb3e5, 0x4222, 0x748b, 0xd812, 0x3b31],
      [0xd3ae, 0x0076, 0x9b3c, 0xca3f, 0x3bd8, 0xfe2c], [0xed28, 0x1360, 0xef59, 0x0627, 0xd69f, 0x4c69],
      [0xdff5, 0xfa7f, 0xfd05, 0xfb8d, 0xfda1, 0x0580], [0xf765, 0xd369, 0x07e5, 0xe70c, 0xf5d8, 0x02c7],
      [0xfe63, 0xf631, 0xff28, 0xf241, 0x9195, 0x06b7], [0xc792, 0x429a, 0x365d, 0x34bb, 0x9b5e, 0xc107],
      [0x4b1c, 0x1cad, 0xcff3, 0x02aa, 0xf131, 0xff39], [0xef9f, 0x510a, 0xc2dd, 0x2c55, 0x16e4, 0xfcc8],
      [0xac0e, 0xf226, 0xfffd, 0xf957, 0xf089, 0x23fd], [0x3c55, 0xf8ac, 0x07dc, 0xb355, 0x3f64, 0xed13],
      [0xf4cd, 0xf16b, 0xe346, 0xff51, 0xb169, 0x2ba6], [0xf20d, 0x9ff5, 0x4cf4, 0x19fe, 0x03d3, 0xfd72],
      [0x553c, 0xe2fa, 0xe611, 0xd5f1, 0xdf56, 0x3cb7], [0x39eb, 0x4639, 0xe3dc, 0xf2af, 0x0772, 0xbc78],
      [0x0dc5, 0xf095, 0xfa79, 0xf512, 0x44f0, 0x0822], [0xe64c, 0xc469, 0xba07, 0x0539, 0x3bea, 0x52a6],
      [0x1842, 0x25e2, 0x3b33, 0x9fa6, 0xa815, 0xf061], [0xf934, 0xfdaf, 0x0447, 0xe19d, 0x61e2, 0x15e1],
      [0x53a7, 0xfe50, 0xf986, 0xe50e, 0xfa62, 0xc78a], [0xe4e1, 0x02bc, 0xd095, 0xfd17, 0xa185, 0x57c2],
      [0x188f, 0x0cd3, 0x2afe, 0x0f04, 0x4af0, 0x39bd], [0xa81a, 0x3baa, 0x1543, 0xf508, 0xfc36, 0xf2f1],
      [0x0cb9, 0xf184, 0x1288, 0xdf93, 0x591e, 0xd820], [0x5f1a, 0xae16, 0x4d86, 0x03db, 0xd14a, 0xe77b],
      [0x0f42, 0xb30b, 0x3304, 0xf9b7, 0x48d1, 0x1d2a], [0x98d7, 0xa7eb, 0x3fb1, 0x07de, 0x2adf, 0x4670],
      [0xe481, 0x122f, 0xc61e, 0x4933, 0x3dad, 0x0510], [0x245e, 0xf96f, 0x394b, 0xf302, 0x67a7, 0xd1b3],
      [0x1660, 0x171d, 0x3458, 0x2724, 0xf744, 0x9f80], [0x06cd, 0xe5b9, 0x3197, 0xaa07, 0x0ff0, 0x154a],
      [0xf5c3, 0x24b1, 0x5297, 0x9aae, 0xf3a6, 0xf61f], [0x50c0, 0x49ce, 0xc98d, 0x1b4e, 0xdfbc, 0x3dc3],
      [0xa2f6, 0x2baf, 0xcab9, 0x2e5c, 0x3ead, 0x0a46], [0x47b9, 0xd814, 0x033d, 0x0358, 0xfc0e, 0x009d],
      [0x3840, 0xedba, 0x1421, 0xcc16, 0x94d6, 0xd4ec], [0x546d, 0x2bf8, 0x442d, 0x1db4, 0x334a, 0xfe1c],
      [0x0007, 0x04d4, 0x023d, 0x1076, 0x15c8, 0xf3f7], [0x0394, 0xdc7c, 0x0505, 0xdd02, 0x04a1, 0x8fe5],
      [0x5453, 0x5c8f, 0x4aac, 0xf4bb, 0xc836, 0xdf0a], [0x5b76, 0xe7ef, 0x32b2, 0x0bf5, 0xdb79, 0x08bc],
      [0xf402, 0xe350, 0xb154, 0x169c, 0x0246, 0xfdd9], [0xf067, 0x013b, 0xe1a3, 0x2020, 0x924e, 0xcf4f],
      [0x35c6, 0xc403, 0x4b05, 0xaf70, 0x32f3, 0xb4d1], [0x0ec1, 0xff4f, 0x1f5d, 0xfc17, 0x4594, 0x142a],
      [0xe374, 0xef19, 0xb950, 0xfd94, 0xfaba, 0x3a54], [0x39a4, 0xfb3b, 0xcded, 0xc5b6, 0xfddd, 0x69f5],
      [0x08ba, 0x06ac, 0x0acc, 0x1528, 0x1f32, 0x9db5], [0x0b39, 0x0e34, 0x0f98, 0x14e0, 0x279e, 0x530b],
      [0x0486, 0x1503, 0x01fc, 0xd6ee, 0x0122, 0xf9b1], [0x045a, 0x60d5, 0x40bf, 0x9db0, 0xfed6, 0xf4f0],
      [0xfbad, 0xe800, 0xf882, 0xe191, 0xf465, 0xa514], [0x0fb0, 0x2a29, 0x43a5, 0xef0a, 0xae0a, 0xf2c9],
      [0xee72, 0xff31, 0xd921, 0xf209, 0x1f0b, 0x0482], [0xe268, 0x1fb5, 0xc921, 0x4256, 0x98a7, 0x946c],
      [0xc4c4, 0x3ee0, 0xbe34, 0xdd4a, 0xa358, 0x3e22], [0x615a, 0x1630, 0xf8ae, 0x01a4, 0x0084, 0x0075],
      [0xfe06, 0xb492, 0xff3a, 0x019c, 0xfec9, 0x02f0], [0xf88e, 0x0f8d, 0xe1f8, 0x40b6, 0xb4a5, 0xc67e],
      [0xfe71, 0xfd27, 0xf121, 0xef9c, 0xcf95, 0x1dd7], [0x0d28, 0x091a, 0x2384, 0x5c86, 0xd7ce, 0xf957],
      [0xf3b4, 0x0a24, 0xe0ce, 0x390a, 0xed39, 0x40f3], [0x1f79, 0x05c9, 0x0031, 0x4335, 0x6125, 0x1d32],
      [0xb498, 0xfdff, 0x2e81, 0x092a, 0x15d4, 0x0d25], [0xec39, 0xaacc, 0x2c6a, 0x2a90, 0x1311, 0x0105],
      [0x12ba, 0x5061, 0x13f5, 0xe877, 0xe08f, 0xfa0f], [0x1fbd, 0xc65c, 0x509f, 0xc5ba, 0x5d85, 0xf1be],
      [0x30a3, 0x0565, 0x0e1d, 0x21ef, 0xa23e, 0x12f0], [0x1a46, 0x2993, 0x2766, 0x6281, 0x9db9, 0xfbd7],
      [0x19a1, 0x3699, 0x0b5f, 0x54e9, 0x4051, 0x9a3e], [0xf910, 0x0a0f, 0xb36a, 0xbe60, 0x0bd8, 0x1a17],
      [0x3aa4, 0xba0a, 0xdf0a, 0xabce, 0x9619, 0x2e20], [0x0d78, 0xfc64, 0xc1d7, 0xfb91, 0x1406, 0xaf7b],
      [0x1e28, 0x08b2, 0x4437, 0x153a, 0x710e, 0x4490], [0x04de, 0x3cfe, 0xd221, 0x602a, 0xbb7d, 0x0cc8],
      [0x0c8f, 0x461e, 0x0adf, 0xfd2e, 0xa770, 0x175b], [0xe9d2, 0xf390, 0x9a19, 0x65b2, 0x19b7, 0x0ce6],
      [0x4f56, 0xf21d, 0xf565, 0xfe44, 0xfa31, 0x05f6], [0xaf60, 0xaa2e, 0xd051, 0x9b3f, 0x229f, 0xfbf4],
      [0x45e0, 0x023a, 0xc11a, 0x2089, 0xf607, 0x3bab], [0xf58b, 0x26de, 0xf8a9, 0x405d, 0xce26, 0x8eb1],
      [0xff88, 0xf753, 0x00db, 0x0061, 0x016d, 0x0023], [0x04f6, 0xfd32, 0x05c8, 0xf57f, 0x078a, 0xe299],
      [0x0768, 0x222e, 0x0772, 0x473b, 0xce6c, 0xe7e2], [0xf16b, 0x3591, 0xd966, 0xc1a8, 0xfaa0, 0xe416],
      [0xd698, 0x2130, 0x3e5f, 0xdda8, 0x1d6c, 0x4fd7], [0x0be1, 0xcb6f, 0x0408, 0x96b8, 0x169b, 0x6198],
      [0xee12, 0xdfe4, 0xdb96, 0xe820, 0xbca5, 0x6491], [0xba70, 0x1b3a, 0x0ea8, 0x0272, 0xff8e, 0x0882],
      [0x1161, 0xed02, 0x1b8e, 0xeae4, 0x1282, 0xf4f5], [0x133a, 0xfd75, 0x49fb, 0xd976, 0x0350, 0x075e],
      [0xfeb0, 0xeade, 0x1c42, 0x4fdc, 0xda91, 0xfda8], [0x030d, 0xb3ee, 0xce98, 0x19ea, 0x0586, 0x01c2],
      [0xf2b9, 0xbe7e, 0x2b63, 0x3390, 0xea86, 0x549f], [0xf33f, 0x12fb, 0xe8b7, 0x1d6a, 0xd5ab, 0x6db6],
      [0x286e, 0xcd9b, 0x6463, 0x6428, 0xfd81, 0x015f], [0x048b, 0x494b, 0xeaa6, 0xc511, 0xff6f, 0xfa9f],
      [0xc773, 0x6a5d, 0x8569, 0x8073, 0x53bf, 0xf4b2], [0x3c3c, 0x4987, 0x5670, 0x4bc6, 0x5837, 0x3513],
      [0xd64e, 0x29d6, 0x13e1, 0xed6c, 0x038d, 0xaee8], [0xcd6c, 0xaf4c, 0x1cf2, 0x0aa2, 0x0d63, 0x2d41],
      [0xfbaf, 0x47c6, 0x4d13, 0xda4e, 0x57aa, 0x4cb2], [0xfed8, 0xe572, 0xc6ab, 0x5463, 0x4d54, 0x5397],
      [0xb46a, 0xe2b3, 0x6366, 0x3358, 0x218c, 0x9d2e], [0x0c14, 0xd686, 0x51a0, 0x2421, 0xf302, 0x0704],
      [0xfcd5, 0x05a9, 0x0c22, 0x128c, 0x2f29, 0xc84a], [0xaf10, 0x37c3, 0xef14, 0x9b12, 0xe96b, 0xad63],
      [0xebf4, 0x293a, 0xc93c, 0xa97a, 0x0b18, 0xfdd6], [0x63bd, 0x44f0, 0x3a26, 0xadae, 0x099b, 0x6236],
      [0xdb66, 0xf904, 0xcdc2, 0xe912, 0x9b2d, 0xd4f1], [0x1a2a, 0x0333, 0x2849, 0x00a6, 0x6bbd, 0x020b],
      [0x0065, 0xb444, 0x0d55, 0x25a6, 0x0040, 0x0326], [0xf54a, 0xb9f5, 0xf5f0, 0x5922, 0x2169, 0x0466],
      [0x0b9c, 0x3b63, 0x0700, 0x635a, 0xe9a0, 0xbc8f], [0xfa75, 0x0644, 0x112e, 0x2cbc, 0x06c3, 0x5ceb],
      [0xebf0, 0x1211, 0xd663, 0x6d4d, 0x26a9, 0xf632], [0xd6e0, 0x927f, 0x0bb7, 0xfa06, 0xfcc0, 0xfcc2],
      [0xd483, 0xcf21, 0x56be, 0xe3b5, 0xa3e6, 0xab3e], [0x4227, 0xaa7c, 0x0745, 0xda7a, 0x24d8, 0x4a52],
      [0x2825, 0x252c, 0x68bf, 0x07da, 0xecb1, 0xdc88], [0x15ab, 0xf75e, 0x37be, 0xc43c, 0xb48c, 0x071e],
      [0xed0e, 0xfcf1, 0xdd01, 0xf3fc, 0xb1a8, 0xf383], [0x2028, 0xf516, 0xbaa8, 0x33fc, 0x0c9d, 0xfc21],
      [0xd033, 0xe64b, 0x284b, 0xdab0, 0x08d4, 0xaf58], [0xe4a8, 0x1599, 0xe27f, 0xe2be, 0xd79a, 0xd7e6],
      [0x0e39, 0x4c17, 0xe8ac, 0xb567, 0xb776, 0x3205], [0x0503, 0xefbc, 0x1066, 0x90c7, 0xf63e, 0x074a],
      [0x3eaf, 0x68ca, 0xcd03, 0xe754, 0x03d9, 0xf9c3], [0xfe6d, 0x3570, 0x1939, 0x61ee, 0x69f4, 0xaf1a],
      [0xb96a, 0xf902, 0x9e66, 0x1741, 0xfc46, 0x67e8], [0xa160, 0xc3e9, 0x60d4, 0x07a1, 0xfb90, 0x00bb],
      [0xf70f, 0x30d9, 0xaefe, 0xfc78, 0x4794, 0x530a], [0x0a62, 0xe804, 0x3f33, 0x5704, 0xfdd4, 0x086a],
      [0xe839, 0x367e, 0x9bae, 0x93bf, 0x0fd1, 0xed45], [0xac34, 0x6769, 0x4beb, 0xdc5c, 0x037f, 0x012f],
      [0xa948, 0x99bf, 0xe876, 0x6099, 0xa672, 0xdcba], [0xc83c, 0xc192, 0x5cb4, 0xa6bd, 0x2434, 0xf0ff],
      [0x732a, 0x55a3, 0xe7bb, 0x068f, 0xf7f5, 0xfba0], [0xfe4d, 0x264a, 0xf0cd, 0x3047, 0xef40, 0xb5e5],
      [0x4d38, 0xffaa, 0x09a3, 0x07c6, 0xfc03, 0xeb16], [0x51fa, 0xddb1, 0xeb2f, 0xa3f6, 0xed86, 0x0a71],
      [0xec19, 0x15e5, 0xedeb, 0x4ace, 0x65b5, 0xd01d], [0x03cc, 0x1aca, 0x11c7, 0x6d2d, 0xf047, 0xf720],
      [0x17bb, 0xf344, 0xec83, 0xfe8b, 0xf9dd, 0xf16e], [0xe3a8, 0xcd40, 0xdd8c, 0xec0b, 0x5a0e, 0x13be],
      [0x0398, 0x0a37, 0x1ee8, 0xe347, 0xecd7, 0x4eda], [0xff06, 0x154e, 0x0c44, 0x1b10, 0xb6dd, 0xf7fd],
      [0xd7c5, 0xeeec, 0x4c98, 0x130f, 0xfd6b, 0xf8a3], [0x39e0, 0xde65, 0xb299, 0x17f7, 0xad26, 0x371c],
      [0xd157, 0xf751, 0x139a, 0x2e74, 0x58d5, 0x0196], [0xcc80, 0xf5cb, 0xcc38, 0xa85f, 0xcf3e, 0xdf44],
      [0x42aa, 0x62b3, 0xf71f, 0x13c0, 0xfeaa, 0x0091], [0x20d1, 0xbaed, 0x4aa8, 0x2977, 0xb403, 0x42bb],
      [0x5155, 0xe9bc, 0x300a, 0x9c02, 0x2897, 0x1e0c], [0x11c6, 0x3da3, 0x43ba, 0xb44d, 0xed60, 0x04b6],
      [0xe1d5, 0x2a54, 0x95e4, 0xd351, 0x1ab3, 0xf910], [0x09ee, 0x0c7f, 0x115a, 0x4469, 0xf181, 0xfc6e],
      [0x51e0, 0xbe7a, 0xe94a, 0x2b4f, 0xffba, 0x59b1], [0x0ce9, 0x0b67, 0x1870, 0xed40, 0xae1a, 0xf362],
      [0x1724, 0xbf5d, 0x0887, 0x0aad, 0x0d76, 0xa4f6], [0xe853, 0xff3e, 0xc9e4, 0xd525, 0x4c20, 0x0405],
      [0x1173, 0xe8b4, 0xb5c4, 0x05ef, 0xfe99, 0x0357], [0xf9d3, 0xe249, 0x5636, 0xd2c4, 0xd8d0, 0x42ce],
      [0xcf84, 0x09f9, 0x10e4, 0x57e4, 0x1677, 0x2f8a], [0x9dd9, 0x464c, 0xe710, 0x049c, 0x049e, 0x2596],
      [0x5ba6, 0xdee9, 0xeed8, 0xf593, 0x1dd6, 0xbe3d], [0xea79, 0xf4b9, 0xd5fb, 0xae6d, 0x1c4e, 0x041d],
      [0x0a8f, 0xaf86, 0xe27e, 0x1d5c, 0xe1c4, 0x16ec], [0x50be, 0x558d, 0x01c9, 0x3a79, 0xbb07, 0xd16f],
      [0x0e13, 0xf9c5, 0xf77f, 0xff63, 0xffd5, 0x025d], [0x09d1, 0x22fa, 0x291f, 0x581f, 0xc11c, 0xc157],
      [0x1772, 0x1357, 0x1a8b, 0xed02, 0xa880, 0x49a1], [0x1da6, 0xf963, 0x9f90, 0xf2b4, 0x3759, 0x04be],
      [0xeed2, 0xe5f9, 0xe52a, 0xd89d, 0x9fec, 0x2425], [0x28e4, 0x4557, 0xe1bc, 0x0093, 0xe756, 0x1143],
      [0x3f3b, 0xbf53, 0xefe9, 0x10ce, 0x1dc9, 0x1521], [0x0ce7, 0x0aaf, 0x1d22, 0xb242, 0xf732, 0xf18a],
      [0xf7e3, 0x5469, 0x3a16, 0x3101, 0xe83f, 0xf91c], [0x1246, 0x2ddc, 0x0b2b, 0x1b29, 0x077f, 0xf0e1],
      [0x0dc2, 0xaaa3, 0xf65b, 0xd72b, 0x49cd, 0xd60a], [0x0eaf, 0xd831, 0xecfe, 0xf59d, 0xba59, 0xfb26],
      [0x3a8f, 0x2487, 0x2e5e, 0xf9db, 0xed10, 0x5815], [0x2525, 0x95f0, 0x29ee, 0x5173, 0x99b7, 0xba2a],
      [0xe3fe, 0xfa90, 0xb3d9, 0x31ca, 0x2006, 0xf83c], [0x075b, 0x6dfe, 0xfcb2, 0xe3bd, 0x00f9, 0x00e9],
      [0xe3e0, 0x029d, 0xfe8d, 0xf47c, 0x5ac2, 0xe9fd], [0x0c45, 0x0120, 0x0c97, 0xfb16, 0xff9e, 0x9429],
      [0x43dd, 0xa53d, 0x13f6, 0xd441, 0xf5f2, 0xd321], [0xecc0, 0x05ee, 0xeab0, 0x029e, 0xb89a, 0x079f],
      [0x285e, 0xb267, 0xedd7, 0x0169, 0xff60, 0xfc65], [0x492c, 0x37b8, 0xf3ad, 0xe2c3, 0xf300, 0x1747],
      [0xf1e2, 0x5255, 0x1c6c, 0x0dd0, 0x1fb9, 0xfa08], [0xdf1a, 0x01f4, 0xb512, 0x49f1, 0x6718, 0xfbf1],
      [0x3d17, 0x6444, 0x20b7, 0x076f, 0x0799, 0xd135], [0xf564, 0x0d3d, 0x68e2, 0xee15, 0x070b, 0x0016],
      [0x0499, 0xfd71, 0x04d1, 0xf7b0, 0x1ea4, 0x06e7], [0xfd07, 0x2011, 0xb4a6, 0xee0f, 0x0783, 0xfea9],
      [0xfd4f, 0xf236, 0xf33d, 0xf124, 0xf53f, 0x4886], [0xf7c2, 0x07aa, 0xfab7, 0x4103, 0x0acd, 0xa5c2],
      [0xfe4f, 0x1329, 0x012e, 0x32d8, 0x3e3d, 0xe8ef], [0x0c83, 0x101e, 0x2bad, 0xea88, 0xf61f, 0xfb78],
      [0xfbbd, 0xe6bb, 0xfa79, 0x1632, 0xfef4, 0x0247], [0xdb43, 0xb38c, 0x1848, 0x067a, 0x03e1, 0xffb5],
      [0xf961, 0xee68, 0xf70f, 0xf008, 0xe664, 0xbf3f], [0x1298, 0xfc84, 0xd56a, 0x1974, 0x5e87, 0xe885],
      [0xff03, 0x03e8, 0x003f, 0xffaf, 0xff8d, 0xfe82], [0xfacb, 0x5ea0, 0xfd46, 0xedc5, 0xf50f, 0xb538],
      [0xfc94, 0x8f3e, 0xaa8f, 0x3185, 0xe738, 0x0ca3], [0x41cf, 0x5299, 0x99c4, 0xf391, 0xfe74, 0x00e6],
      [0x4778, 0xe192, 0xcdc7, 0xfd59, 0xfa3f, 0x0005], [0xd708, 0x2ca5, 0x64cd, 0xfb9e, 0x0579, 0xfe4a],
      [0x0ec6, 0xe2fb, 0x6860, 0x449f, 0x4b39, 0x30fe], [0x18bc, 0xfd16, 0x31f5, 0x2464, 0xa7f2, 0xeb16],
      [0x0d5a, 0xa738, 0x6962, 0x477f, 0x0434, 0x03bc], [0x954d, 0xf454, 0x0398, 0x00eb, 0x08b9, 0x0051],
      [0x1837, 0x14b0, 0x3edd, 0x39b0, 0xdf13, 0xfba8], [0xe6e0, 0x4b2c, 0x26c1, 0xf34b, 0x04fe, 0xfc46],
      [0x5e95, 0x0801, 0xa66d, 0x0a19, 0xf696, 0xef88], [0x2446, 0x37ca, 0xb2e9, 0xf06f, 0xf6d8, 0x0404],
      [0xb160, 0x4649, 0xdb0e, 0x59e4, 0xbda9, 0x21b1], [0xe510, 0xaf06, 0x0eb2, 0x4407, 0x5745, 0x4a50],
      [0x034a, 0x5e75, 0x61e6, 0xe931, 0xffb2, 0x03a9], [0xfd93, 0x4d0a, 0xa174, 0xf856, 0xc5fa, 0xffc8],
      [0x58ee, 0xec01, 0x43d5, 0x5d3c, 0xb3e8, 0xe662], [0xf792, 0x4452, 0xac45, 0x0d0c, 0xcded, 0xb0b9],
      [0xda6b, 0x43ad, 0x02cb, 0x08d9, 0xefe5, 0xfe14], [0x23c4, 0x3293, 0x6aa7, 0xad49, 0xe848, 0xdb0f],
      [0xcc94, 0xa51b, 0xc94a, 0xefa8, 0x1b42, 0x0002], [0x03aa, 0xcbbb, 0x0dc0, 0xa117, 0x5976, 0x4c85],
      [0xecd1, 0xb2c2, 0x4d34, 0xdba2, 0xce96, 0x0eeb], [0xeaaa, 0xef67, 0xe4b5, 0xe78c, 0xc989, 0x9dc2],
      [0x247d, 0x2881, 0xc9da, 0xe5d0, 0x581c, 0xfdf9], [0x19fb, 0x4950, 0xed09, 0x311a, 0x398a, 0xd81f],
      [0xfcc9, 0x46c7, 0x018e, 0xf9d2, 0xff8c, 0xfe95], [0xe4e9, 0xce6a, 0x9118, 0x2168, 0x1b31, 0xff11],
      [0xf5d6, 0xeda0, 0xfc03, 0x07df, 0x1409, 0x5c76], [0xcef1, 0xe002, 0x9e3c, 0x4870, 0x3763, 0x067f],
      [0x0ee5, 0x522c, 0xda6c, 0xec45, 0xf8f8, 0xfbc1], [0xa9d7, 0x4123, 0x3a70, 0x24f3, 0x0ae2, 0x425f],
      [0x9a48, 0xb48a, 0xe6f2, 0x0450, 0x16a6, 0xb989], [0xf937, 0x60f9, 0x28b1, 0xd4b1, 0x0380, 0xeb67],
      [0xf8c1, 0x2d8d, 0xf50d, 0x60e9, 0xac45, 0xb2b0], [0xa44f, 0xbea7, 0xe96a, 0x160b, 0x0a4c, 0x134c],
      [0xf944, 0x1124, 0x97cf, 0xca81, 0x294a, 0x9ad9], [0x3bfe, 0xb3d8, 0x6682, 0xb7c3, 0x06c8, 0x1f76],
      [0x1634, 0x519a, 0x0ffb, 0xb564, 0xc704, 0xd71c], [0x436c, 0xc05d, 0x3a0b, 0xbad1, 0xb51a, 0x3093],
      [0x95cf, 0xcee3, 0x1a57, 0xfdce, 0x03d0, 0xfeff], [0x306b, 0xde56, 0xa918, 0xb27d, 0x2b05, 0x1e52],
      [0x0ed7, 0x2e4d, 0x941a, 0xdee7, 0x0441, 0xfa29], [0x102d, 0xf77a, 0x97a0, 0xfd21, 0xfcfa, 0x05bd],
      [0x0c35, 0x35c2, 0x11fe, 0x7249, 0x4953, 0xd91a], [0xbbc7, 0xdb1b, 0xbb66, 0xf61e, 0xe6dd, 0xf172],
      [0xf932, 0x10ff, 0xe547, 0xb2c3, 0x259b, 0xd662], [0x1c53, 0x0dc5, 0x2a53, 0x15e1, 0x626e, 0xa4cc],
      [0xd7c4, 0xba5a, 0x0277, 0x2d78, 0x07fc, 0xae72], [0xfc97, 0xdeca, 0xfbd9, 0xc2c6, 0xd63b, 0x3a56],
      [0xc1ab, 0x6de9, 0x1494, 0x01dd, 0xfbe3, 0x0486], [0xfa29, 0xdd92, 0xe97c, 0x9e7b, 0x6584, 0x1ee3],
      [0xfbf2, 0xff8e, 0xf6fc, 0xfad9, 0xe6b0, 0x05c0], [0x131f, 0xba17, 0x9b06, 0x14b5, 0xff44, 0x062d],
      [0x0c80, 0x4349, 0x10fa, 0x5655, 0xb791, 0x560c], [0xd7f6, 0x0221, 0xd54c, 0x08e4, 0x925a, 0x1fb6],
      [0x3bef, 0x0919, 0x2464, 0x5039, 0x3a3c, 0x521d], [0x18b9, 0x17f2, 0xa044, 0x0345, 0xde43, 0xe92c],
      [0x1cda, 0xfe0b, 0x2907, 0x4ea3, 0x2cab, 0xed6d], [0xf547, 0x5e6e, 0xdbc6, 0x3ba9, 0xdf3b, 0xe935],
      [0x0bb0, 0xf4d0, 0x17a0, 0xe2cf, 0x2da7, 0xb1e4], [0xfc8d, 0xd14e, 0xd908, 0xaabb, 0xeeac, 0x95d6],
      [0x0d82, 0x4caa, 0x0500, 0x0a25, 0x4d89, 0x1487], [0xeb3d, 0x4abd, 0xc74a, 0xdd0e, 0x35b5, 0xfab8],
      [0x48d2, 0x44f7, 0x2af9, 0x1aa1, 0xb80e, 0x18c0], [0xf95f, 0x08c4, 0xede0, 0x0f6c, 0xcda6, 0xeb67],
      [0x4fcc, 0x292e, 0x104a, 0xfc0c, 0x4bef, 0x54bb], [0xf481, 0xb2e9, 0xef90, 0x0528, 0x038d, 0xdd3f],
      [0x2487, 0xe07e, 0xf5c6, 0xcd7b, 0x67d6, 0x0db3], [0x25e9, 0xa79c, 0x2077, 0x1fe7, 0xcc13, 0x15e8],
      [0x0c96, 0x0ea5, 0xfa1c, 0x00a5, 0xffcc, 0xff3c], [0x0066, 0xa728, 0xdd80, 0x0387, 0xd363, 0xc6ba],
      [0xff88, 0x176e, 0x4d35, 0x3459, 0x0e2c, 0x144d], [0x2150, 0x16c3, 0xfbd6, 0x0306, 0xffd9, 0xff5a],
      [0x24c3, 0xdafc, 0x256d, 0xcd34, 0x5f88, 0x6144], [0x45d6, 0x08bb, 0xab79, 0x4ffe, 0x126c, 0xe3ea],
      [0xf64e, 0x2527, 0x064b, 0xaa49, 0x3796, 0xfaf7], [0x2448, 0xf70d, 0x5aaf, 0xf284, 0xd5a6, 0x000b],
      [0x2518, 0x0be1, 0x140a, 0xf0ce, 0xad1d, 0xa7c3], [0x37b6, 0xd992, 0x4ee3, 0x36c3, 0x005b, 0xbcd0],
      [0xb761, 0x03d4, 0x0011, 0x0335, 0x0078, 0xfdc2], [0x2ffd, 0xb4bb, 0x35ae, 0x3ff5, 0xff5f, 0x1789],
      [0xf2dc, 0x05fa, 0xf05b, 0x0996, 0xd588, 0xa2e1], [0x0069, 0x13dd, 0xfefc, 0x169e, 0xfdb4, 0x4ae2],
      [0x1019, 0x1049, 0x347f, 0x3934, 0x51a3, 0x1d0a], [0xff51, 0x332d, 0xf188, 0x5ac1, 0x0f43, 0x277a],
      [0xe82b, 0x5bab, 0x1454, 0xfac3, 0x063f, 0x3376], [0xf36f, 0xf25a, 0x3b0d, 0xdf3d, 0xd20e, 0xed72],
      [0x047a, 0x1243, 0xb44e, 0x3a45, 0xec1d, 0x00f9], [0xabfe, 0x2798, 0xbfa7, 0xcc07, 0x47ce, 0xde67],
      [0x0274, 0x098f, 0x0d10, 0x0c3a, 0xec05, 0x0077], [0x45ec, 0xa86a, 0xbb1f, 0x55cf, 0xc05b, 0xe204],
      [0x41df, 0x5e96, 0x15ec, 0xf0ee, 0xfcd7, 0x0eee], [0xf70d, 0x276b, 0xf6c8, 0x9deb, 0xfb36, 0x0138],
      [0x0b8d, 0x2bf8, 0x6879, 0xcc2e, 0xf281, 0xfb98], [0xb2ce, 0xf56c, 0x11fc, 0x18d3, 0x0666, 0x639d],
      [0xb377, 0xe1b7, 0x0c57, 0xffab, 0xfe17, 0xf8c1], [0x032e, 0x30de, 0x4a85, 0xedb7, 0xf5ce, 0xfa3e],
      [0xa490, 0xb5ad, 0x1fc9, 0x4da6, 0x1ee8, 0xfee6], [0x0347, 0xb33c, 0x2e97, 0x6a8e, 0xf375, 0x08da],
      [0x0fb4, 0xfbaa, 0x2022, 0xfb06, 0x51ba, 0x61e4], [0x67d0, 0x0145, 0xde0b, 0xff18, 0xf756, 0xfd45],
      [0xd3e3, 0xef98, 0x070d, 0xe5ef, 0xa664, 0xfac5], [0xf82b, 0xc1f2, 0xfbe9, 0x93d9, 0xcc4d, 0x3822],
      [0xa9c7, 0x079d, 0x3377, 0xc2d8, 0xf8ca, 0x1f77], [0x0bdf, 0x2ef9, 0x1bdc, 0x9fc8, 0x019d, 0xf6d5],
      [0xa210, 0xff32, 0x30ab, 0xe602, 0xfe5f, 0xd895], [0x4703, 0xa378, 0xafdd, 0xbff4, 0x1c3e, 0x02fb],
      [0x161b, 0xec23, 0x3636, 0xa34f, 0xd4bb, 0xb37d], [0x2c4c, 0x01f5, 0x61d0, 0x1dc0, 0xb336, 0x0645],
      [0x97e6, 0x22ae, 0x2930, 0x01a1, 0x0513, 0x0105], [0x387c, 0x2c69, 0xf341, 0x2706, 0x2002, 0x46bf],
      [0x054b, 0xae9a, 0xdc14, 0xc144, 0xde91, 0xfd26], [0xf882, 0xae37, 0xb88b, 0xf663, 0xf5a5, 0x10dc],
      [0xf506, 0x5fc9, 0xd50c, 0x9b87, 0x0134, 0xfb2e], [0xdc8d, 0xbc80, 0xf8d7, 0x8d62, 0xa16b, 0xbf09],
      [0xf4e5, 0x27b5, 0xeb25, 0xf4b8, 0x5562, 0xaca4], [0xc228, 0x3a01, 0xa31c, 0x1440, 0x2781, 0xaf61],
      [0xb3b1, 0xd39f, 0x20dd, 0x05ce, 0xa396, 0xe981], [0xe2a8, 0x0403, 0xaec6, 0x35a4, 0x4db4, 0xaa52],
      [0xd09c, 0xe492, 0xb519, 0xdd78, 0x566d, 0xbf96], [0x0791, 0x145a, 0xe752, 0xa314, 0x3355, 0x2b4a],
      [0xff33, 0x1794, 0xfe84, 0x21d2, 0xff17, 0x6d74], [0xea6d, 0x1d35, 0x1dd3, 0x5c2b, 0x2623, 0xf5e2],
      [0x549a, 0x9167, 0xf3f2, 0xfed4, 0xfbf8, 0x06d0], [0xa8b0, 0x4106, 0x00d0, 0x1a09, 0xbc08, 0xf42c],
      [0x4832, 0x2478, 0xf54f, 0xb454, 0x0197, 0xeedb], [0xeccf, 0xbc26, 0x4983, 0xbb0a, 0x3468, 0x3b80],
      [0x1e45, 0x18e0, 0x5a5f, 0xb902, 0x1da0, 0xef68], [0xfa2f, 0xe685, 0x024a, 0xd853, 0x3a74, 0x63e0],
      [0x0f04, 0xe7f4, 0x1321, 0xcd0b, 0xa802, 0x160f], [0xded5, 0xf7c7, 0x9f3a, 0x0389, 0xdb92, 0x05b0],
      [0xf420, 0xfa3c, 0x048e, 0xeeb4, 0x2be4, 0x23f4], [0x0d45, 0xfa55, 0x351e, 0xc21f, 0x5fdc, 0x16bb],
      [0x2123, 0xf44f, 0x542b, 0xbdec, 0x1e3d, 0x5dd2], [0xc5ac, 0xa332, 0xeb2c, 0xe5f8, 0xee6f, 0x33d3],
      [0x4bb3, 0x3274, 0xf7a2, 0xfd1f, 0x526c, 0xa9ab], [0x0d41, 0xedeb, 0x1667, 0xb61f, 0xe4c7, 0x0a7f],
      [0x047c, 0xc0ed, 0xac47, 0x9241, 0xfd8a, 0xc78f], [0x1c84, 0x02a0, 0x4862, 0xbbd4, 0xd85b, 0x015f],
      [0x2c5c, 0xd522, 0x433c, 0x1210, 0x0091, 0x457f], [0xfd39, 0xf269, 0xf742, 0x3e0f, 0x07eb, 0x0000],
      [0x9270, 0x0702, 0xfdaf, 0xf53a, 0xaaa4, 0x2d0f], [0xb31d, 0x1349, 0x55f4, 0x5413, 0xf3b4, 0x06fe],
      [0x032d, 0x2027, 0x0a49, 0x2ecd, 0xf41d, 0x56b9], [0x22f8, 0x9f48, 0xfd4e, 0x3a19, 0xf6c2, 0xeb04],
      [0x20d6, 0xeac1, 0xfeee, 0xfd7e, 0xff6f, 0x030a], [0xe633, 0x1c5a, 0x512c, 0xa42d, 0xb73f, 0x58fe],
      [0xa690, 0x9c70, 0x2724, 0xf9b2, 0x05e4, 0xfa8f], [0x1db7, 0x0197, 0x9f9a, 0xbfff, 0xf8f4, 0xeda5],
      [0xd6a0, 0xb53d, 0x28de, 0xf15d, 0x2211, 0xe4f9], [0x32d2, 0x14ac, 0xe7aa, 0xecec, 0xae58, 0xf8fb],
      [0x41fb, 0xca36, 0xfe2f, 0x4b8f, 0xd60b, 0xcd61], [0x6269, 0xc631, 0xe9cf, 0xfdf7, 0xfebf, 0xfb45],
      [0x1b05, 0xf3eb, 0x4ed7, 0x96e9, 0xd106, 0x050f], [0x0131, 0x07c8, 0x4c01, 0xfc27, 0x0019, 0xfdf7],
      [0x1a33, 0xf18e, 0x20ad, 0xde11, 0x55a1, 0x95e2], [0x123c, 0x176d, 0x1bcd, 0x2db0, 0x5f51, 0xd5d6],
      [0x02e8, 0xdb38, 0x4db5, 0x07ab, 0x1ef2, 0xd9a0], [0x0d66, 0x5322, 0xf938, 0x2a5c, 0x2275, 0x6987],
      [0xdd93, 0x05f1, 0xa21a, 0x0673, 0x1e9e, 0xfb48], [0x0f47, 0xd42b, 0x0cc9, 0xcf03, 0x1c00, 0x47e2],
      [0x548a, 0x239d, 0xd2f0, 0xeb78, 0x1ba5, 0x094e], [0x0064, 0x0ee9, 0xe5c7, 0x04dc, 0x05ee, 0xfebf],
      [0x1f0a, 0xb712, 0x29ab, 0xecfe, 0x02d7, 0x0308], [0xc1f5, 0xe02a, 0xf7d9, 0x58d3, 0x061f, 0xf266],
      [0x111c, 0xf551, 0x2115, 0xe48f, 0xd360, 0x0525], [0x695a, 0x1129, 0x1df1, 0x4499, 0xfd36, 0x028a],
      [0xc0c1, 0xfcbd, 0x20ad, 0x0703, 0xc816, 0x3fa9], [0x1198, 0xd8c0, 0x1dee, 0x97be, 0xbbec, 0x0a14],
      [0x0030, 0xf070, 0x0234, 0xe911, 0x0a62, 0xb71e], [0x3123, 0x9a60, 0xc2e6, 0x0a70, 0xfabd, 0xfc89],
      [0xecaa, 0x1070, 0xe565, 0x0a09, 0xaf73, 0xde2e], [0xf8d4, 0xc61e, 0xea3d, 0xa4e6, 0xc630, 0x650b],
      [0x153a, 0x9215, 0xf6cb, 0xf4bd, 0xfdc6, 0x097f], [0x3328, 0xf52d, 0x61a2, 0xcf30, 0x9f6d, 0xfbff],
      [0xe9d4, 0xef0d, 0x0774, 0x48c4, 0xacb5, 0x43d6], [0x6c0c, 0x9307, 0xc3cf, 0x059c, 0xe438, 0xf73f],
      [0x1f53, 0x0f07, 0x5ff8, 0xfe2b, 0x25ca, 0x29bb], [0xfc79, 0xd85b, 0x0709, 0xacf4, 0x12bb, 0xddd1],
      [0x0462, 0xda92, 0x0a41, 0x5907, 0x03bc, 0x0372], [0x1ec4, 0x4a83, 0xd954, 0xa136, 0x1d48, 0x243d],
      [0x03d4, 0x9774, 0xeaf6, 0x1514, 0x043e, 0x0670], [0x70a6, 0xfb0a, 0xfe41, 0x0005, 0xfe53, 0xffec],
      [0xc44d, 0x17f4, 0x591c, 0x04e4, 0xd915, 0x01ff], [0x0353, 0x1ef5, 0xfe37, 0xd04e, 0x10a5, 0x1d9b],
      [0xee4e, 0x2104, 0xfb22, 0x38a5, 0x9e89, 0xe980], [0xba6a, 0xd619, 0x269f, 0xa287, 0xcb88, 0x0756],
      [0xc537, 0x27b5, 0x406b, 0xc6f5, 0xd240, 0xad5c], [0xf30b, 0x0348, 0xe9cd, 0x578d, 0x07ca, 0x024a],
      [0x5a76, 0xe964, 0xc53d, 0xd77c, 0xdbc9, 0xcb2d], [0xfcfb, 0xdadb, 0xf067, 0xa138, 0x210f, 0x16ac],
      [0xde9f, 0xfd41, 0xcf68, 0xf06f, 0x9dde, 0x920d], [0xbeed, 0x3e81, 0x0aba, 0x064b, 0x13e9, 0xfbed],
      [0x0029, 0xe3f3, 0x4dbf, 0x7b43, 0x8213, 0x3667], [0xe9e6, 0x034d, 0xce1a, 0x1649, 0x4137, 0xffaa],
      [0x14a2, 0x3a1b, 0x6992, 0x5284, 0x3da0, 0xd713], [0x3978, 0x4cc0, 0xd321, 0xcbcf, 0xb11c, 0xc483],
      [0x2195, 0xdc4e, 0xfd8e, 0x2a8b, 0xe881, 0x18ca], [0xfa30, 0xfb08, 0xfa39, 0xfae9, 0xf188, 0xea93],
      [0xf2d6, 0x45cf, 0xe634, 0x6162, 0x651e, 0xf3c9], [0x20e0, 0x6c87, 0xfa97, 0x14e6, 0xef5c, 0x4e19],
      [0x1638, 0x016a, 0x435e, 0x0ee1, 0xf352, 0x0440], [0xff97, 0x8c59, 0x0abb, 0x3b77, 0xff59, 0x0e8a],
      [0x0dae, 0xf385, 0x219a, 0x1e5c, 0xf9e2, 0xfc6d], [0xfe15, 0x0cb9, 0xf689, 0x1592, 0x507e, 0xff9c],
      [0xc984, 0xd398, 0xc3f1, 0xaa96, 0xdeb8, 0x2fbd], [0xfd98, 0x0978, 0xf819, 0x112e, 0xf123, 0x1fac],
      [0xe3dc, 0x5233, 0x52db, 0xdb4d, 0xb441, 0x0380], [0xe997, 0xc4c8, 0xacce, 0x42aa, 0xfc12, 0xfe92],
      [0x1875, 0x0ca8, 0xd15f, 0xc0ab, 0xc234, 0x19b5], [0xf3ad, 0x60dc, 0x0aad, 0xfb17, 0xfc95, 0xf9c3],
      [0xb00b, 0x2b56, 0x5e07, 0xdce5, 0x3738, 0x08ac], [0xc8e6, 0x2eb7, 0xa821, 0x1027, 0xfbe1, 0xead4],
      [0x0321, 0xf5a1, 0x003c, 0xeb34, 0xfcea, 0x1731], [0xe334, 0xf91c, 0xa85f, 0x9a34, 0x54cb, 0x1052],
      [0xe9ad, 0xe608, 0xc5c4, 0x052d, 0xa214, 0x05d5], [0xe878, 0xcf38, 0x5d7a, 0x0b86, 0x0641, 0x0495],
      [0x4a7b, 0x44de, 0x4609, 0xd662, 0x2ab0, 0xeca2], [0x0c9f, 0xf32c, 0x6ac8, 0x104e, 0xf96d, 0x01f1]]"

end
