(* ===== verification/Eac3Aht.thy ===== *)
theory Eac3Aht
  imports Eac3AhtTables Eac3Mantissa Complex_Main
begin

text \<open>
  The adaptive hybrid transform, \<open>crates/openjoc-eac3/src/aht.rs\<close> and \<open>inverse_aht_dct\<close> of
  \<open>audio_block.rs\<close>: vector and gain-adaptive quantized bins of one element for all six blocks.  An
  \<open>f64\<close> is a real number; the values are bounded fractions, so that the tests for finiteness pass.
\<close>

section \<open>Vector quantization\<close>

definition signed_fraction :: "nat \<Rightarrow> nat \<Rightarrow> real" where
  "signed_fraction code bits =
     (let raw = int code; signed = (if bit raw (bits - 1) then raw - 2 ^ bits else raw) in
      of_int signed / 2 ^ (bits - 1))"

definition aht_vq_table :: "nat \<Rightarrow> nat list list option" where
  "aht_vq_table hebap =
     (if hebap = 1 then Some AHT_VQ_1 else if hebap = 2 then Some AHT_VQ_2 else if hebap = 3 then Some AHT_VQ_3
      else if hebap = 4 then Some AHT_VQ_4 else if hebap = 5 then Some AHT_VQ_5 else if hebap = 6 then Some AHT_VQ_6
      else if hebap = 7 then Some AHT_VQ_7 else None)"

definition decode_aht_vq_vector :: "nat \<Rightarrow> nat \<Rightarrow> eac3_error + real list" where
  "decode_aht_vq_vector hebap index =
     (case aht_vq_table hebap of
        None \<Rightarrow> Inl (InvalidAhtVqHebap hebap)
      | Some table \<Rightarrow>
          if index < length table then Inr (map (\<lambda>v. signed_fraction v 16) (table ! index))
          else Inl (InvalidAhtVqIndex hebap index))"

section \<open>Gain-adaptive quantization\<close>

definition aht_gaq_code_bits :: "nat \<Rightarrow> nat \<Rightarrow> bool \<Rightarrow> eac3_error + nat" where
  "aht_gaq_code_bits hebap gain large =
     attempt (if 8 \<le> hebap \<and> hebap \<le> 16 then Inr (hebap - 5)
              else if hebap = 17 then Inr 12 else if hebap = 18 then Inr 14 else if hebap = 19 then Inr 16
              else Inl (InvalidAhtGaqHebap hebap)) (\<lambda>mantissa_bits.
       if gain = 1 then Inr mantissa_bits
       else if gain = 2 then (if hebap > 16 then Inl (InvalidAhtGaqGain gain) else Inr (mantissa_bits - 1))
       else if gain = 4 then
         (if hebap > 16 then Inl (InvalidAhtGaqGain gain)
          else if large then Inr mantissa_bits else Inr (mantissa_bits - 2))
       else Inl (InvalidAhtGaqGain gain))"

definition G1_A :: "nat list" where
  "G1_A = [0x1249, 0x0889, 0x0421, 0x0208, 0x0102, 0x0081, 0x0040, 0x0020, 0x0010, 0x0008, 0x0002, 0x0000]"

definition G2_A :: "nat list" where
  "G2_A = [0xd555, 0xc925, 0xc444, 0xc211, 0xc104, 0xc081, 0xc040, 0xc020, 0xc010]"

definition G2_B_POS :: "nat list" where
  "G2_B_POS = [0x4000, 0x4000, 0x4000, 0x4000, 0x4000, 0x4000, 0x4000, 0x4000, 0x4000]"

definition G2_B_NEG :: "nat list" where
  "G2_B_NEG = [0xeaab, 0xd249, 0xc889, 0xc421, 0xc208, 0xc102, 0xc081, 0xc040, 0xc020]"

definition G4_A :: "nat list" where
  "G4_A = [0xedb7, 0xe666, 0xe319, 0xe186, 0xe0c2, 0xe060, 0xe030, 0xe018, 0xe00c]"

definition G4_B_POS :: "nat list" where
  "G4_B_POS = [0x2000, 0x2000, 0x2000, 0x2000, 0x2000, 0x2000, 0x2000, 0x2000, 0x2000]"

definition G4_B_NEG :: "nat list" where
  "G4_B_NEG = [0xfb6e, 0xeccd, 0xe632, 0xe30c, 0xe183, 0xe0c1, 0xe060, 0xe030, 0xe018]"

definition remap_aht_gaq :: "nat \<Rightarrow> nat \<Rightarrow> real \<Rightarrow> eac3_error + real" where
  "remap_aht_gaq hebap gain v =
     (let index = hebap - 8 in
      attempt
        (if gain = 1 then Inr (G1_A ! index, 0)
         else if gain = 2 \<and> index < length G2_A
         then Inr (G2_A ! index, if v \<ge> 0 then G2_B_POS ! index else G2_B_NEG ! index)
         else if gain = 4 \<and> index < length G4_A
         then Inr (G4_A ! index, if v \<ge> 0 then G4_B_POS ! index else G4_B_NEG ! index)
         else Inl (InvalidAhtGaqGain gain)) (\<lambda>(a, b).
        Inr (v + signed_fraction a 16 * v + signed_fraction b 16)))"

definition decode_aht_gaq_mantissa :: "nat \<Rightarrow> nat \<Rightarrow> bool \<Rightarrow> nat \<Rightarrow> eac3_error + real" where
  "decode_aht_gaq_mantissa hebap gain large code =
     attempt (aht_gaq_code_bits hebap gain large) (\<lambda>bits.
       if code \<ge> 2 ^ bits then Inl (InvalidAhtGaqCode code)
       else
         let v = signed_fraction code bits in
         if gain = 1 then remap_aht_gaq hebap gain v
         else if large then remap_aht_gaq hebap gain v
         else Inr (v / of_nat gain))"

text \<open>The three gains of a word of mode 3, up to the number of sections that are left.\<close>

definition mapped_gain :: "nat \<Rightarrow> nat" where
  "mapped_gain state = (if state = 0 then 1 else if state = 1 then 2 else 4)"

fun expand_words :: "nat list \<Rightarrow> nat \<Rightarrow> nat list \<Rightarrow> eac3_error + nat list" where
  "expand_words [] sections gains = Inr gains"
| "expand_words (word # words) sections gains =
     (if word > 26 then Inl (InvalidAhtGaqGainWord word)
      else
        expand_words words sections
          (gains @ take (sections - length gains) (map mapped_gain [word div 9, word mod 9 div 3, word mod 3])))"

definition expand_aht_gaq_gains :: "nat \<Rightarrow> nat list \<Rightarrow> nat \<Rightarrow> eac3_error + nat list" where
  "expand_aht_gaq_gains mode words sections =
     (if mode = 0 then (if words \<noteq> [] then Inl FrameSizeOverflow else Inr (replicate sections 1))
      else if mode = 1 \<or> mode = 2 then
        (if length words \<noteq> sections then Inl FrameSizeOverflow
         else attempt_map (\<lambda>word. if word = 0 then Inr 1 else if word = 1 then Inr (if mode = 1 then 2 else 4)
                                 else Inl (InvalidAhtGaqGainWord word)) words)
      else if mode = 3 then
        (if length words \<noteq> (sections + 2) div 3 then Inl FrameSizeOverflow
         else attempt (expand_words words sections []) (\<lambda>gains.
                if length gains \<noteq> sections then Inl FrameSizeOverflow else Inr gains))
      else Inl (InvalidAhtGaqMode mode))"

section \<open>The syntax of one element\<close>

definition zero_values :: "real list" where
  "zero_values = replicate 6 0"

definition aht_vq_width :: "nat \<Rightarrow> nat" where
  "aht_vq_width hebap =
     (if hebap = 1 then 2 else if hebap = 2 then 3 else if hebap = 3 then 4 else if hebap = 4 then 5
      else if hebap = 5 then 7 else if hebap = 6 then 8 else 9)"

definition decode_aht_non_gaq_bin :: "nat \<Rightarrow> real list eac3_parser" where
  "decode_aht_non_gaq_bin hebap =
     (if hebap = 0 then ret zero_values
      else if hebap \<le> 7 then
        bind_rd (eac3_u16 (aht_vq_width hebap)) (\<lambda>index. lift_rd (decode_aht_vq_vector hebap index))
      else if hebap \<le> 19 then
        bind_rd (lift_rd (aht_gaq_code_bits hebap 1 False)) (\<lambda>width.
        bind_rd (eac3_u16 width) (\<lambda>code.
        bind_rd (lift_rd (decode_aht_gaq_mantissa hebap 1 False code)) (\<lambda>v. ret (zero_values[0 := v]))))
      else fail (InvalidAhtGaqHebap hebap))"

definition decode_aht_gaq_symbol :: "nat \<Rightarrow> nat \<Rightarrow> real eac3_parser" where
  "decode_aht_gaq_symbol hebap gain =
     (if gain = 1 then
        bind_rd (lift_rd (aht_gaq_code_bits hebap gain False)) (\<lambda>width.
        bind_rd (eac3_u16 width) (\<lambda>code. lift_rd (decode_aht_gaq_mantissa hebap gain False code)))
      else
        bind_rd (lift_rd (aht_gaq_code_bits hebap gain False)) (\<lambda>small_width.
        bind_rd (eac3_u16 small_width) (\<lambda>small_code.
          if small_code = 2 ^ (small_width - 1) then
            bind_rd (lift_rd (aht_gaq_code_bits hebap gain True)) (\<lambda>large_width.
            bind_rd (eac3_u16 large_width) (\<lambda>large_code. lift_rd (decode_aht_gaq_mantissa hebap gain True large_code)))
          else lift_rd (decode_aht_gaq_mantissa hebap gain False small_code))))"

record aht_element_mantissas =
  aht_values :: "real list list"
  aht_gain_words :: "nat list"
  aht_gains :: "nat list"

definition read_gain_words :: "nat \<Rightarrow> nat \<Rightarrow> nat list eac3_parser" where
  "read_gain_words mode active_count =
     (if mode = 0 then ret []
      else if mode \<le> 2 then repeat_rd active_count (eac3_u8 1)
      else repeat_rd ((active_count + 2) div 3) (eac3_u8 5))"

text \<open>The loop over the bins; \<open>gains\<close> are the gains not yet used.\<close>

fun aht_bins :: "(nat \<times> bool) list \<Rightarrow> nat list \<Rightarrow> real list list eac3_parser" where
  "aht_bins [] gains = ret []"
| "aht_bins ((hebap, active) # bins) gains =
     (if active then
        (case gains of
           [] \<Rightarrow> fail FrameSizeOverflow
         | gain # gains \<Rightarrow>
             bind_rd (repeat_rd 6 (decode_aht_gaq_symbol hebap gain)) (\<lambda>vs.
             bind_rd (aht_bins bins gains) (\<lambda>rest. ret (vs # rest))))
      else
        bind_rd (decode_aht_non_gaq_bin hebap) (\<lambda>vs.
        bind_rd (aht_bins bins gains) (\<lambda>rest. ret (vs # rest))))"

definition aht_active :: "nat \<Rightarrow> nat \<Rightarrow> bool" where
  "aht_active mode hebap \<longleftrightarrow>
     (let endbap = (if mode = 0 then 0 else if mode < 2 then 12 else 17) in mode \<noteq> 0 \<and> hebap > 7 \<and> hebap < endbap)"

definition decode_aht_element_mantissas_with_information ::
  "nat list \<Rightarrow> nat \<Rightarrow> aht_element_mantissas eac3_parser" where
  "decode_aht_element_mantissas_with_information hebaps mode =
     (if mode > 3 then fail (InvalidAhtGaqMode mode)
      else
        let active = map (aht_active mode) hebaps; active_count = length (filter (\<lambda>a. a) active) in
        bind_rd (read_gain_words mode active_count) (\<lambda>words.
        bind_rd (lift_rd (expand_aht_gaq_gains mode words active_count)) (\<lambda>gains.
        bind_rd (aht_bins (zip hebaps active) gains) (\<lambda>vs.
          ret \<lparr>aht_values = vs, aht_gain_words = words, aht_gains = gains\<rparr>))))"

definition decode_aht_element_mantissas :: "nat list \<Rightarrow> nat \<Rightarrow> real list list eac3_parser" where
  "decode_aht_element_mantissas hebaps mode =
     bind_rd (decode_aht_element_mantissas_with_information hebaps mode) (\<lambda>m. ret (aht_values m))"

section \<open>The six blocks\<close>

definition inverse_aht_dct :: "real list list \<Rightarrow> real list list" where
  "inverse_aht_dct spectrum =
     map (\<lambda>input. map (\<lambda>m.
        sqrt 2 * sum_list (map (\<lambda>j.
          (if j = 0 then sqrt (1 / 2) else 1) * input ! j * cos (real j * real (2 * m + 1) * pi / 12)) [0..<6]))
        [0..<6]) spectrum"

record aht_quantization_information =
  aq_mode :: nat
  aq_gain_words :: "nat list"
  aq_gains :: "nat list"
  aq_hebaps :: "nat list"

record aht_element_state =
  aht_information :: aht_quantization_information
  aht_coefficients :: "real list list"

text \<open>
  The values of one block: the first block with exponents reads the element, later ones reuse it.
  The state of the element is returned updated.
\<close>

definition decode_aht_values ::
  "aht_element_state option \<Rightarrow> nat list \<Rightarrow> nat list \<Rightarrow> nat \<Rightarrow>
   (real list \<times> aht_quantization_information option \<times> aht_element_state) eac3_parser" where
  "decode_aht_values state hebaps exponents block_index =
     bind_rd
       (case state of
          None \<Rightarrow>
            bind_rd (eac3_u8 2) (\<lambda>mode.
            bind_rd (decode_aht_element_mantissas_with_information hebaps mode) (\<lambda>decoded.
              let information = \<lparr>aq_mode = mode, aq_gain_words = aht_gain_words decoded,
                    aq_gains = aht_gains decoded, aq_hebaps = hebaps\<rparr> in
              ret (Some information, \<lparr>aht_information = information,
                    aht_coefficients = inverse_aht_dct (aht_values decoded)\<rparr>)))
        | Some element \<Rightarrow> ret (None, element)) (\<lambda>(metadata, element).
     if aq_hebaps (aht_information element) \<noteq> hebaps \<or> length (aht_coefficients element) \<noteq> length exponents
     then fail (MantissaExponentLengthMismatch (length (aht_coefficients element)) (length exponents))
     else
       bind_rd (each_rd (\<lambda>(row, exponent).
           if block_index < length row then lift_rd (shift_mantissa (row ! block_index) exponent)
           else fail FrameSizeOverflow) (zip (aht_coefficients element) exponents)) (\<lambda>vs.
         ret (vs, metadata, element)))"

end
