(* ===== verification/Eac3BlockState.thy ===== *)
theory Eac3BlockState
  imports Eac3Prefix Eac3Aht
begin

text \<open>
  The state that the audio blocks of a frame share and the syntax of the blocks behind the first,
  \<open>crates/openjoc-eac3/src/audio_block.rs\<close>.  A function of the code that updates a \<open>&mut\<close> argument
  returns the new value; after an error the walk over the blocks ends, so the half updated state is
  not part of the result.
\<close>

section \<open>The state\<close>

record audio_block_state =
  st_dynamic_range :: "nat option"
  st_dynamic_range_2 :: "nat option"
  st_spectral_extension :: "spectral_extension_information option"
  st_coupling :: "coupling_information option"
  st_standard_structure :: "bool list"
  first_spx_coordinates :: "bool list"
  first_coupling_coordinates :: "bool list"
  first_coupling_leak :: bool
  st_bandwidth_codes :: "nat option list"
  st_end_mantissas :: "nat list"
  st_coupling_exponents :: "exponent_information option"
  st_channel_exponents :: "exponent_information option list"
  st_lfe_exponents :: "exponent_information option"
  st_parameters :: "bit_allocation_parameters option"
  st_snr_offsets :: "snr_offsets option"
  st_fast_gains :: "fast_gain_codes option"
  st_coupling_leak :: "coupling_leak option"
  st_delta :: "delta_bit_allocation option"
  st_rematrix_flags :: "bool list"
  st_channel_aht :: "aht_element_state option list"
  st_coupling_aht :: "aht_element_state option"
  st_lfe_aht :: "aht_element_state option"
  spx_noise_seed :: "32 word"

definition new_block_state :: "nat \<Rightarrow> audio_block_state" where
  "new_block_state channels =
     \<lparr>st_dynamic_range = None, st_dynamic_range_2 = None, st_spectral_extension = None, st_coupling = None,
      st_standard_structure = DEFAULT_STANDARD_COUPLING_STRUCTURE,
      first_spx_coordinates = replicate channels True, first_coupling_coordinates = replicate channels True,
      first_coupling_leak = True, st_bandwidth_codes = replicate channels None,
      st_end_mantissas = replicate channels 0, st_coupling_exponents = None,
      st_channel_exponents = replicate channels None, st_lfe_exponents = None, st_parameters = None,
      st_snr_offsets = None, st_fast_gains = None, st_coupling_leak = None, st_delta = None,
      st_rematrix_flags = [], st_channel_aht = replicate channels None, st_coupling_aht = None,
      st_lfe_aht = None, spx_noise_seed = 0x6d2b79f5\<rparr>"

text \<open>\<open>a.or(b)\<close>.\<close>

definition or_else :: "'a option \<Rightarrow> 'a option \<Rightarrow> 'a option" where
  "or_else a b = (case a of Some x \<Rightarrow> Some x | None \<Rightarrow> b)"

text \<open>The frame-wide offset codes, for blocks that send none.\<close>

definition frame_offsets :: "audio_frame_information \<Rightarrow> bool \<Rightarrow> snr_offsets option" where
  "frame_offsets frame coupled =
     (case (frame_coarse_snr_code frame, frame_fine_snr_code frame) of
        (Some coarse, Some fine) \<Rightarrow>
          Some (uniform_offsets coarse fine coupled (frame_channels frame) (lfe_on (af_bsi frame)))
      | _ \<Rightarrow> None)"

definition seed_structure :: "coupling_information option \<Rightarrow> bool list" where
  "seed_structure c =
     (case c of
        Some (StandardCoupling info) \<Rightarrow>
          overwrite (std_begin_frequency_code info + 1) (slice 1 (subband_count info) (std_band_structure info))
            DEFAULT_STANDARD_COUPLING_STRUCTURE
      | _ \<Rightarrow> DEFAULT_STANDARD_COUPLING_STRUCTURE)"

definition seed_first ::
  "audio_block_prefix \<Rightarrow> audio_frame_information \<Rightarrow> audio_block_state \<Rightarrow> eac3_error + audio_block_state" where
  "seed_first p frame st =
     attempt (attempt_map (\<lambda>e. case e of Some x \<Rightarrow> Inr (end_mantissa x) | None \<Rightarrow> Inl FrameSizeOverflow)
                (channel_exponents p)) (\<lambda>ends.
       Inr (st\<lparr>st_dynamic_range := or_else (dynamic_range p) (Some 0),
           st_dynamic_range_2 := (if frame_acmod frame = 0 then or_else (dynamic_range_2 p) (Some 0) else None),
           st_spectral_extension := spectral_extension p, st_coupling := coupling p,
           st_standard_structure := seed_structure (coupling p),
           st_bandwidth_codes := channel_bandwidth_codes p, st_end_mantissas := ends,
           st_coupling_exponents := coupling_exponents p, st_channel_exponents := channel_exponents p,
           st_lfe_exponents := lfe_exponents p,
           st_parameters := or_else (bit_allocation_codes p) (Some DEFAULT_PARAMETERS),
           st_snr_offsets := or_else (block_snr_offsets p) (frame_offsets frame (coupling p \<noteq> None)),
           st_fast_gains := block_fast_gains p, st_coupling_leak := block_coupling_leak p,
           first_coupling_leak := coupling p = None, st_delta := delta_allocation p,
           st_rematrix_flags := rematrix_flags p,
           first_spx_coordinates := (case spectral_extension p of
               Some s \<Rightarrow> map (\<lambda>c. c = None) (spx_coordinates s)
             | None \<Rightarrow> replicate (frame_channels frame) True),
           first_coupling_coordinates := (case coupling p of
               Some (StandardCoupling s) \<Rightarrow> map (\<lambda>c. c = None) (std_coordinates s)
             | Some (EnhancedCoupling e) \<Rightarrow> map Not (enh_channel_in_use e)
             | None \<Rightarrow> replicate (frame_channels frame) True)\<rparr>))"

section \<open>Spectral extension\<close>

text \<open>The coordinates of one channel, and whether the next ones are its first.\<close>

definition following_spx_coordinates ::
  "nat \<Rightarrow> spectral_extension_information option \<Rightarrow> nat \<times> bool \<times> bool \<Rightarrow>
   (spectral_extension_coordinates option \<times> bool) eac3_parser" where
  "following_spx_coordinates band_count previous = (\<lambda>(channel, used, first).
     if \<not> used then ret (None, True)
     else
       bind_rd (if first then ret True else eac3_bit) (\<lambda>present.
         if present then bind_rd (read_spx_coordinates band_count) (\<lambda>c. ret (Some c, False))
         else
           (case previous of
              Some s \<Rightarrow>
                if channel < length (spx_coordinates s) \<and> spx_coordinates s ! channel \<noteq> None
                then ret (spx_coordinates s ! channel, False) else fail FrameSizeOverflow
            | None \<Rightarrow> fail FrameSizeOverflow)))"

definition parse_following_spx ::
  "audio_frame_information \<Rightarrow> nat \<Rightarrow> spectral_extension_information option \<Rightarrow> bool list \<Rightarrow>
   (spectral_extension_information \<times> bool list) eac3_parser" where
  "parse_following_spx frame channels previous first_coordinates =
     bind_rd (read_spx_channels frame channels) (\<lambda>in_use.
     bind_rd (eac3_u8 2) (\<lambda>start_copy.
     bind_rd (eac3_u8 3) (\<lambda>begin_code.
     bind_rd (eac3_u8 3) (\<lambda>end_code.
     bind_rd (lift_rd (spx_subband_range begin_code end_code)) (\<lambda>(first, ending).
     let kept = (case previous of
            Some s \<Rightarrow> if spx_begin_subband s = first \<and> spx_end_subband s = ending
                      then spx_band_structure s else DEFAULT_SPX_BAND_STRUCTURE
          | None \<Rightarrow> DEFAULT_SPX_BAND_STRUCTURE) in
     bind_rd (read_structure (first + 1) ending kept) (\<lambda>structure.
     let band_count = count_unmerged (slice first ending structure) in
     bind_rd (each_rd (following_spx_coordinates band_count previous)
                (zip [0..<channels] (zip in_use first_coordinates))) (\<lambda>rows.
       ret (\<lparr>spx_channel_in_use = in_use, start_copy_frequency_code = start_copy,
             spx_begin_frequency_code = begin_code, spx_begin_subband = first, spx_end_subband = ending,
             spx_band_structure = structure, spx_band_count = band_count,
             spx_coordinates = map fst rows\<rparr>, map snd rows))))))))"

section \<open>Coupling\<close>

text \<open>The strategy without coordinates; the absolute structure is returned updated.\<close>

definition following_standard ::
  "audio_frame_information \<Rightarrow> nat \<Rightarrow> bool list \<Rightarrow> spectral_extension_information option \<Rightarrow> bool list \<Rightarrow>
   (coupling_information \<times> bool list) eac3_parser" where
  "following_standard frame channels in_use spx absolute =
     bind_rd (read_standard_range frame (read_standard_end spx)) (\<lambda>(phase, first, ending, count).
     bind_rd (lift_rd (standard_coupling_structure absolute first ending count)) (\<lambda>kept.
     bind_rd eac3_bit (\<lambda>explicit.
     bind_rd (if explicit
              then bind_rd (repeat_rd (count - 1) eac3_bit) (\<lambda>bs. ret (overwrite 1 bs kept, overwrite (first + 1) bs absolute))
              else ret (kept, absolute)) (\<lambda>(structure, absolute).
       ret (StandardCoupling \<lparr>std_channel_in_use = in_use, phase_flags_in_use = phase,
              std_begin_frequency_code = first, std_end_frequency_code = ending, subband_count = count,
              std_band_structure = structure, std_band_count = count_unmerged (take count structure),
              std_coordinates = replicate channels None, phase_flags = []\<rparr>, absolute)))))"

definition following_enhanced ::
  "nat \<Rightarrow> bool list \<Rightarrow> spectral_extension_information option \<Rightarrow> coupling_information eac3_parser" where
  "following_enhanced channels in_use spx =
     bind_rd (read_enhanced_range spx) (\<lambda>(code, first, ending).
     bind_rd (read_enhanced_structure first ending) (\<lambda>structure.
     bind_rd (read_zero_bits 1) (\<lambda>_.
       ret (EnhancedCoupling \<lparr>enh_channel_in_use = in_use, enh_begin_frequency_code = code,
              enh_begin_subband = first, enh_end_subband = ending, enh_band_structure = structure,
              enh_band_count = count_unmerged (slice first ending structure),
              enh_amplitudes = replicate channels None\<rparr>))))"

definition parse_following_coupling_strategy ::
  "audio_frame_information \<Rightarrow> nat \<Rightarrow> spectral_extension_information option \<Rightarrow> bool list \<Rightarrow>
   (coupling_information \<times> bool list) eac3_parser" where
  "parse_following_coupling_strategy frame channels spx absolute =
     bind_rd eac3_bit (\<lambda>enhanced.
     bind_rd (read_coupling_channels frame channels) (\<lambda>in_use.
       if enhanced then bind_rd (following_enhanced channels in_use spx) (\<lambda>c. ret (c, absolute))
       else following_standard frame channels in_use spx absolute))"

fun merge_reusable_coupling ::
  "coupling_information \<Rightarrow> coupling_information option \<Rightarrow> coupling_information" where
  "merge_reusable_coupling (StandardCoupling current) (Some (StandardCoupling previous)) =
     (if std_band_count current = std_band_count previous \<and> subband_count current = subband_count previous
         \<and> std_begin_frequency_code current = std_begin_frequency_code previous
         \<and> std_end_frequency_code current = std_end_frequency_code previous
      then StandardCoupling (current\<lparr>std_coordinates := std_coordinates previous, phase_flags := phase_flags previous\<rparr>)
      else StandardCoupling current)"
| "merge_reusable_coupling (EnhancedCoupling current) (Some (EnhancedCoupling previous)) =
     (if enh_band_count current = enh_band_count previous \<and> enh_begin_subband current = enh_begin_subband previous
         \<and> enh_end_subband current = enh_end_subband previous
      then EnhancedCoupling (current\<lparr>enh_amplitudes := enh_amplitudes previous\<rparr>)
      else EnhancedCoupling current)"
| "merge_reusable_coupling current _ = current"

text \<open>
  The coordinates of one channel of standard coupling: the coordinates, whether they were sent, and
  whether the next ones are the first.
\<close>

definition following_standard_coordinates ::
  "nat \<Rightarrow> bool \<times> bool \<times> standard_coupling_coordinates option \<Rightarrow>
   (standard_coupling_coordinates option \<times> bool \<times> bool) eac3_parser" where
  "following_standard_coordinates band_count = (\<lambda>(used, first, old).
     if \<not> used then ret (old, False, True)
     else
       bind_rd (if first then ret True else eac3_bit) (\<lambda>present.
         if present then bind_rd (read_standard_coordinates band_count) (\<lambda>c. ret (Some c, True, False))
         else (case old of Some c \<Rightarrow> ret (Some c, False, False) | None \<Rightarrow> fail FrameSizeOverflow)))"

definition following_amplitudes ::
  "nat \<Rightarrow> nat \<Rightarrow> nat \<times> bool \<times> bool \<times> nat list option \<Rightarrow> (nat list option \<times> bool) eac3_parser" where
  "following_amplitudes band_count first_channel = (\<lambda>(channel, used, first, old).
     if \<not> used then ret (old, True)
     else
       bind_rd (if first then ret True else eac3_bit) (\<lambda>present.
       bind_rd (if first then ret (channel > first_channel)
                else if channel > first_channel then eac3_bit else ret False) (\<lambda>reserved_fields.
       bind_rd (if present then bind_rd (repeat_rd band_count (eac3_u8 5)) (\<lambda>vs. ret (Some vs))
                else if old = None then fail FrameSizeOverflow else ret old) (\<lambda>new.
       bind_rd (if reserved_fields then read_zero_bits ((band_count - 1) * 9) else ret ()) (\<lambda>_.
       bind_rd (if channel > first_channel then read_zero_bits 1 else ret ()) (\<lambda>_.
         ret (new, False)))))))"

definition parse_following_coupling_coordinates ::
  "audio_frame_information \<Rightarrow> coupling_information \<Rightarrow> bool list \<Rightarrow> (coupling_information \<times> bool list) eac3_parser" where
  "parse_following_coupling_coordinates frame c first_coordinates =
     (case c of
        StandardCoupling info \<Rightarrow>
          bind_rd (each_rd (following_standard_coordinates (std_band_count info))
                     (zip (std_channel_in_use info) (zip first_coordinates (std_coordinates info)))) (\<lambda>rows.
          let coordinate_exists = (\<exists>r \<in> set rows. fst (snd r)) in
          bind_rd (if frame_acmod frame = 2 \<and> phase_flags_in_use info \<and> coordinate_exists
                   then read_flags_or_default (std_band_count info) True False else ret (phase_flags info)) (\<lambda>flags.
            ret (StandardCoupling (info\<lparr>std_coordinates := map fst rows, phase_flags := flags\<rparr>),
                 map (\<lambda>r. snd (snd r)) rows)))
      | EnhancedCoupling info \<Rightarrow>
          bind_rd (some_or (first_in_use (enh_channel_in_use info)) FrameSizeOverflow) (\<lambda>first_channel.
          bind_rd (each_rd (following_amplitudes (enh_band_count info) first_channel)
                     (zip [0..<length (enh_channel_in_use info)]
                        (zip (enh_channel_in_use info) (zip first_coordinates (enh_amplitudes info))))) (\<lambda>rows.
            ret (EnhancedCoupling (info\<lparr>enh_amplitudes := map fst rows\<rparr>), map snd rows))))"

section \<open>Bandwidths and exponents\<close>

definition coupling_end_mantissa :: "coupling_information option \<Rightarrow> nat \<Rightarrow> eac3_error + nat" where
  "coupling_end_mantissa c channel =
     (case c of
        None \<Rightarrow> Inl FrameSizeOverflow
      | Some info \<Rightarrow>
          if \<not> coupling_channel_in_use info ! channel then Inl FrameSizeOverflow
          else
            (case info of
               StandardCoupling s \<Rightarrow> Inr (standard_begin s)
             | EnhancedCoupling e \<Rightarrow>
                 get_or ENHANCED_COUPLING_SUBBAND_MANTISSA (enh_end_subband e)
                   (InvalidCouplingRange (int (enh_begin_subband e)) (int (enh_end_subband e)))))"

definition spx_channel_active :: "spectral_extension_information option \<Rightarrow> nat \<Rightarrow> bool" where
  "spx_channel_active spx channel =
     (case spx of
        Some s \<Rightarrow> channel < length (spx_channel_in_use s) \<and> spx_channel_in_use s ! channel
      | None \<Rightarrow> False)"

definition spx_end_mantissa :: "spectral_extension_information option \<Rightarrow> nat \<Rightarrow> eac3_error + nat" where
  "spx_end_mantissa spx channel =
     (case spx of
        None \<Rightarrow> Inl FrameSizeOverflow
      | Some s \<Rightarrow>
          if \<not> spx_channel_active spx channel then Inl FrameSizeOverflow
          else get_or SPX_SUBBAND_MANTISSA (spx_begin_subband s)
                 (InvalidSpectralExtensionRange (spx_begin_subband s) (spx_end_subband s)))"

definition following_channel_bandwidth ::
  "audio_frame_information \<Rightarrow> nat \<Rightarrow> coupling_information option \<Rightarrow> spectral_extension_information option \<Rightarrow>
   audio_block_state \<Rightarrow> nat \<Rightarrow> (nat option \<times> nat) eac3_parser" where
  "following_channel_bandwidth frame block_index c spx previous channel =
     (let coupled = channel_uses_coupling c channel; spx_active = spx_channel_active spx channel in
      if channel_exponent_strategy frame ! block_index ! channel \<noteq> 0 \<and> \<not> coupled \<and> \<not> spx_active then
        bind_rd (eac3_u8 6) (\<lambda>code.
        bind_rd (lift_rd (channel_end_mantissa code)) (\<lambda>m. ret (Some code, m)))
      else if coupled then bind_rd (lift_rd (coupling_end_mantissa c channel)) (\<lambda>m. ret (None, m))
      else if spx_active then bind_rd (lift_rd (spx_end_mantissa spx channel)) (\<lambda>m. ret (None, m))
      else bind_rd (lift_rd (get_or (st_end_mantissas previous) channel FrameSizeOverflow)) (\<lambda>m. ret (None, m)))"

definition parse_following_channel_bandwidths ::
  "audio_frame_information \<Rightarrow> nat \<Rightarrow> coupling_information option \<Rightarrow> spectral_extension_information option \<Rightarrow>
   audio_block_state \<Rightarrow> (nat option list \<times> nat list) eac3_parser" where
  "parse_following_channel_bandwidths frame block_index c spx previous =
     bind_rd (each_rd (following_channel_bandwidth frame block_index c spx previous) [0..<frame_channels frame])
       (\<lambda>rows. ret (map fst rows, map snd rows))"

definition parse_following_coupling_exponents ::
  "audio_frame_information \<Rightarrow> nat \<Rightarrow> coupling_information option \<Rightarrow> exponent_information option \<Rightarrow>
   exponent_information option eac3_parser" where
  "parse_following_coupling_exponents frame block_index c previous =
     (case c of
        None \<Rightarrow> ret None
      | Some info \<Rightarrow>
          if coupling_exponent_strategy frame ! block_index = 0
          then (case previous of Some e \<Rightarrow> ret (Some e) | None \<Rightarrow> fail FrameSizeOverflow)
          else bind_rd (parse_coupling_exponents_for_strategy (coupling_exponent_strategy frame ! block_index) info)
                 (\<lambda>e. ret (Some e)))"

definition parse_following_channel_exponents ::
  "audio_frame_information \<Rightarrow> nat \<Rightarrow> nat list \<Rightarrow> exponent_information option list \<Rightarrow>
   exponent_information option list eac3_parser" where
  "parse_following_channel_exponents frame block_index ends previous =
     each_rd (\<lambda>(channel, ending).
       let strategy = channel_exponent_strategy frame ! block_index ! channel in
       if strategy = 0 then
         (if channel < length previous \<and> previous ! channel \<noteq> None then ret (previous ! channel)
          else fail FrameSizeOverflow)
       else bind_rd (read_channel_exponents strategy ending) (\<lambda>e. ret (Some e)))
     (zip [0..<length ends] ends)"

definition parse_following_lfe_exponents ::
  "audio_frame_information \<Rightarrow> nat \<Rightarrow> exponent_information option \<Rightarrow> exponent_information option eac3_parser" where
  "parse_following_lfe_exponents frame block_index previous =
     (if \<not> lfe_on (af_bsi frame) then ret None
      else if \<not> lfe_exponent_strategy frame ! block_index
      then (case previous of Some e \<Rightarrow> ret (Some e) | None \<Rightarrow> fail FrameSizeOverflow)
      else bind_rd read_lfe_exponents (\<lambda>e. ret (Some e)))"

section \<open>Allocation codes\<close>

definition parse_following_snr_offsets ::
  "audio_frame_information \<Rightarrow> nat \<Rightarrow> coupling_information option \<Rightarrow> nat \<Rightarrow> snr_offsets option \<Rightarrow>
   snr_offsets option eac3_parser" where
  "parse_following_snr_offsets frame block_index c channels previous =
     (if snr_offset_strategy frame = 0 then ret None
      else
        bind_rd (if block_index = 0 then ret True else eac3_bit) (\<lambda>present.
          if \<not> present then ret None
          else
            bind_rd (read_snr_offsets (snr_offset_strategy frame) (c \<noteq> None) channels (lfe_on (af_bsi frame))) (\<lambda>s.
              if block_index > 0 \<and> previous = None then fail FrameSizeOverflow else ret (Some s))))"

definition parse_following_coupling_leak ::
  "coupling_information option \<Rightarrow> bool \<Rightarrow> coupling_leak option \<Rightarrow> coupling_leak option eac3_parser" where
  "parse_following_coupling_leak c first_leak previous =
     (if c = None then ret None
      else
        bind_rd (if first_leak then ret True else eac3_bit) (\<lambda>present.
          if present then bind_rd read_coupling_leak (\<lambda>l. ret (Some l))
          else (case previous of Some l \<Rightarrow> ret (Some l) | None \<Rightarrow> fail FrameSizeOverflow)))"

definition parse_following_delta_element ::
  "nat \<Rightarrow> delta_bit_allocation_element option \<Rightarrow> delta_bit_allocation_element eac3_parser" where
  "parse_following_delta_element strategy previous =
     (if strategy = 0 then (case previous of Some d \<Rightarrow> ret d | None \<Rightarrow> fail FrameSizeOverflow)
      else if strategy = 1 then parse_delta_element strategy
      else if strategy = 2 then ret no_delta_allocation
      else fail (InvalidDeltaBitAllocationStrategy strategy))"

text \<open>The element of a channel in the delta state before.\<close>

definition previous_delta :: "delta_bit_allocation option \<Rightarrow> nat \<Rightarrow> delta_bit_allocation_element option" where
  "previous_delta previous channel =
     (case previous of
        Some d \<Rightarrow> if channel < length (delta_channels d) then Some (delta_channels d ! channel) else None
      | None \<Rightarrow> None)"

definition parse_following_delta_bit_allocation ::
  "audio_frame_information \<Rightarrow> coupling_information option \<Rightarrow> nat \<Rightarrow> delta_bit_allocation option \<Rightarrow>
   delta_bit_allocation option eac3_parser" where
  "parse_following_delta_bit_allocation frame c channels previous =
     (if \<not> syntax_delta_bit_allocation (af_syntax frame) then ret None
      else
        bind_rd eac3_bit (\<lambda>present.
          if \<not> present then ret (Some (no_delta_allocation_for c channels))
          else
            bind_rd (when_rd (c \<noteq> None) (eac3_u8 2)) (\<lambda>coupling_strategy.
            bind_rd (repeat_rd channels (eac3_u8 2)) (\<lambda>channel_strategies.
            bind_rd (case coupling_strategy of
                       Some s \<Rightarrow> bind_rd (parse_following_delta_element s (Option.bind previous delta_coupling)) (\<lambda>d. ret (Some d))
                     | None \<Rightarrow> ret None) (\<lambda>cd.
            bind_rd (each_rd (\<lambda>(channel, s). parse_following_delta_element s (previous_delta previous channel))
                       (zip [0..<channels] channel_strategies)) (\<lambda>ds.
              ret (Some \<lparr>delta_coupling = cd, delta_channels = ds\<rparr>)))))))"

section \<open>The following blocks\<close>

definition following_spx_step ::
  "audio_frame_information \<Rightarrow> audio_block_state \<Rightarrow>
   (spectral_extension_information option \<times> bool list) eac3_parser" where
  "following_spx_step frame st =
     bind_rd eac3_bit (\<lambda>strategy_exists.
       if \<not> strategy_exists then ret (st_spectral_extension st, first_spx_coordinates st)
       else
         bind_rd eac3_bit (\<lambda>in_use.
           if in_use then
             bind_rd (parse_following_spx frame (frame_channels frame) (st_spectral_extension st) (first_spx_coordinates st))
               (\<lambda>(s, first). ret (Some s, first))
           else ret (None, replicate (frame_channels frame) True)))"

text \<open>The coupling of the block, its first-coordinate flags and the absolute structure.\<close>

definition following_coupling_step ::
  "audio_frame_information \<Rightarrow> nat \<Rightarrow> spectral_extension_information option \<Rightarrow> audio_block_state \<Rightarrow>
   (coupling_information option \<times> bool list \<times> bool list) eac3_parser" where
  "following_coupling_step frame block_index spx st =
     (if \<not> coupling_in_use frame ! block_index
      then ret (None, replicate (frame_channels frame) True, st_standard_structure st)
      else
        bind_rd
          (if coupling_strategy_exists frame ! block_index then
             bind_rd (parse_following_coupling_strategy frame (frame_channels frame) spx (st_standard_structure st))
               (\<lambda>(v, absolute). ret (merge_reusable_coupling v (st_coupling st), absolute))
           else (case st_coupling st of
                   Some v \<Rightarrow> ret (v, st_standard_structure st)
                 | None \<Rightarrow> fail FrameSizeOverflow)) (\<lambda>(v, absolute).
        bind_rd (parse_following_coupling_coordinates frame v (first_coupling_coordinates st)) (\<lambda>(v, first).
          ret (Some v, first, absolute))))"

definition following_rematrix_step ::
  "audio_frame_information \<Rightarrow> coupling_information option \<Rightarrow> spectral_extension_information option \<Rightarrow> bool list \<Rightarrow>
   bool list eac3_parser" where
  "following_rematrix_step frame c spx previous =
     (if frame_acmod frame = 2 then
        bind_rd eac3_bit (\<lambda>present.
          if present then read_flags_or_default (rematrix_band_count c spx) True False else ret previous)
      else ret [])"

definition parse_following_prefix ::
  "audio_frame_information \<Rightarrow> nat \<Rightarrow> audio_block_state \<Rightarrow> (audio_block_prefix \<times> audio_block_state) eac3_parser" where
  "parse_following_prefix frame block_index st =
     (let channels = frame_channels frame; flags = af_syntax frame; acmod = frame_acmod frame in
     bind_rd (read_flags_or_default channels (syntax_block_switch flags) False) (\<lambda>switch.
     bind_rd (read_flags_or_default channels (syntax_dither flags) True) (\<lambda>dith.
     bind_rd (read_optional_u8 8) (\<lambda>drc.
     bind_rd (if acmod = 0 then read_optional_u8 8 else ret None) (\<lambda>drc2.
     bind_rd (following_spx_step frame st) (\<lambda>(spx, first_spx).
     bind_rd (following_coupling_step frame block_index spx st) (\<lambda>(c, first_cpl, absolute).
     bind_rd (following_rematrix_step frame c spx (st_rematrix_flags st)) (\<lambda>rematrix.
     bind_rd (parse_following_channel_bandwidths frame block_index c spx st) (\<lambda>(codes, ends).
     bind_rd (parse_following_coupling_exponents frame block_index c (st_coupling_exponents st)) (\<lambda>ce.
     bind_rd (parse_following_channel_exponents frame block_index ends (st_channel_exponents st)) (\<lambda>che.
     bind_rd (parse_following_lfe_exponents frame block_index (st_lfe_exponents st)) (\<lambda>le.
     bind_rd (parse_bit_allocation_parameters frame) (\<lambda>params.
     bind_rd (parse_following_snr_offsets frame block_index c channels (st_snr_offsets st)) (\<lambda>snr.
     bind_rd (parse_fast_gain_codes frame c channels) (\<lambda>gains.
     bind_rd (parse_converter_snr_offset frame) (\<lambda>conv.
     bind_rd (parse_following_coupling_leak c (first_coupling_leak st) (st_coupling_leak st)) (\<lambda>leak.
     bind_rd (parse_following_delta_bit_allocation frame c channels (st_delta st)) (\<lambda>delta.
     bind_rd (parse_skip_field frame) (\<lambda>(skipped, skip_start).
     bind_rd (read_position frame) (\<lambda>position.
       ret (\<lparr>block_switch = switch, dither = dith, dynamic_range = drc, dynamic_range_2 = drc2,
             spectral_extension = spx, coupling = c, rematrix_flags = rematrix, channel_bandwidth_codes = codes,
             coupling_exponents = ce, channel_exponents = che, lfe_exponents = le, bit_allocation_codes = params,
             block_snr_offsets = snr, block_fast_gains = gains, converter_snr_offset = conv,
             block_coupling_leak = leak, delta_allocation = delta, skip_field = skipped,
             skip_field_start_offset_bits = skip_start, next_offset_bits = position\<rparr>,
            st\<lparr>st_dynamic_range := or_else drc (or_else (st_dynamic_range st) (Some 0)),
               st_dynamic_range_2 := (if acmod = 0 then or_else drc2 (or_else (st_dynamic_range_2 st) (Some 0)) else None),
               st_spectral_extension := spx, first_spx_coordinates := first_spx, st_coupling := c,
               first_coupling_coordinates := first_cpl, st_standard_structure := absolute,
               st_rematrix_flags := rematrix,
               st_bandwidth_codes := map2 or_else codes (st_bandwidth_codes st), st_end_mantissas := ends,
               st_coupling_exponents := ce, st_channel_exponents := che, st_lfe_exponents := le,
               st_parameters := or_else params (or_else (st_parameters st) (Some DEFAULT_PARAMETERS)),
               st_snr_offsets := or_else snr (or_else (st_snr_offsets st) (frame_offsets frame (c \<noteq> None))),
               st_fast_gains := gains, st_coupling_leak := leak, first_coupling_leak := c = None,
               st_delta := delta\<rparr>)))))))))))))))))))))"

definition parse_audio_block_prefix_reader ::
  "audio_frame_information \<Rightarrow> nat \<Rightarrow> audio_block_state \<Rightarrow> (audio_block_prefix \<times> audio_block_state) eac3_parser" where
  "parse_audio_block_prefix_reader frame block_index st =
     (if block_index = 0 then
        bind_rd (parse_first_prefix_reader frame) (\<lambda>p.
        bind_rd (lift_rd (seed_first p frame st)) (\<lambda>st. ret (p, st)))
      else parse_following_prefix frame block_index st)"

end
