(* ===== verification/Eac3Ac3Block.thy ===== *)
theory Eac3Ac3Block
  imports Eac3BlockState
begin

text \<open>
  The audio blocks of the original syntax, \<open>parse_ac3_audio_block_prefix_reader\<close> of
  \<open>crates/openjoc-eac3/src/audio_block.rs\<close>.  These blocks carry the strategies that enhanced frames
  keep in the frame state, so the frame state is an argument that is returned updated.
\<close>

section \<open>Coupling\<close>

definition previous_standard :: "audio_block_state \<Rightarrow> standard_coupling_information option" where
  "previous_standard st = (case st_coupling st of Some (StandardCoupling v) \<Rightarrow> Some v | _ \<Rightarrow> None)"

text \<open>A new strategy.\<close>

definition read_ac3_strategy :: "audio_frame_information \<Rightarrow> nat \<Rightarrow> standard_coupling_information eac3_parser" where
  "read_ac3_strategy frame channels =
     bind_rd (read_flags_or_default channels True False) (\<lambda>in_use.
     bind_rd (guard_rd (True \<in> set in_use) (InvalidCouplingRange 0 0)) (\<lambda>_.
     bind_rd (read_standard_range frame (bind_rd (eac3_u8 4) (\<lambda>code. ret (int code)))) (\<lambda>(phase, first, ending, count).
     bind_rd (repeat_rd (count - 1) eac3_bit) (\<lambda>bs.
     let structure = overwrite 1 bs (replicate 18 False) in
       ret \<lparr>std_channel_in_use = in_use, phase_flags_in_use = phase, std_begin_frequency_code = first,
            std_end_frequency_code = ending, subband_count = count, std_band_structure = structure,
            std_band_count = count_unmerged (take count structure), std_coordinates = replicate channels None,
            phase_flags = []\<rparr>))))"

text \<open>The coordinates of one channel, and whether they are new.\<close>

definition ac3_coordinates ::
  "nat \<Rightarrow> standard_coupling_information option \<Rightarrow> nat \<times> bool \<Rightarrow>
   (standard_coupling_coordinates option \<times> bool) eac3_parser" where
  "ac3_coordinates band_count previous = (\<lambda>(channel, used).
     if \<not> used then ret (None, False)
     else
       bind_rd eac3_bit (\<lambda>present.
         if present then bind_rd (read_standard_coordinates band_count) (\<lambda>c. ret (Some c, True))
         else
           (case previous of
              Some v \<Rightarrow>
                if channel < length (std_coordinates v) \<and> std_coordinates v ! channel \<noteq> None
                then ret (std_coordinates v ! channel, False) else fail FrameSizeOverflow
            | None \<Rightarrow> fail FrameSizeOverflow)))"

definition ac3_coupling ::
  "audio_frame_information \<Rightarrow> bool \<Rightarrow> audio_block_state \<Rightarrow> coupling_information eac3_parser" where
  "ac3_coupling frame strategy_exists st =
     bind_rd (guard_rd (frame_acmod frame \<ge> 2) (InvalidAc3Syntax ''coupling in mono/dual-mono'')) (\<lambda>_.
     bind_rd (if strategy_exists then read_ac3_strategy frame (frame_channels frame)
              else some_or (previous_standard st) FrameSizeOverflow) (\<lambda>info.
     bind_rd (each_rd (ac3_coordinates (std_band_count info) (previous_standard st))
                (zip [0..<length (std_channel_in_use info)] (std_channel_in_use info))) (\<lambda>rows.
     bind_rd (if phase_flags_in_use info \<and> (\<exists>r \<in> set rows. snd r)
              then read_flags_or_default (std_band_count info) True False
              else ret (case previous_standard st of Some v \<Rightarrow> phase_flags v | None \<Rightarrow> [])) (\<lambda>flags.
       ret (StandardCoupling (info\<lparr>std_coordinates := map fst rows, phase_flags := flags\<rparr>))))))"

text \<open>The flags of the block and its coupling; the frame state is returned with both flags.\<close>

definition ac3_coupling_step ::
  "audio_frame_information \<Rightarrow> nat \<Rightarrow> audio_block_state \<Rightarrow>
   (coupling_information option \<times> audio_frame_information) eac3_parser" where
  "ac3_coupling_step frame block_index st =
     bind_rd eac3_bit (\<lambda>strategy_exists.
     bind_rd (guard_rd (\<not> (block_index = 0 \<and> \<not> strategy_exists))
                (UnsupportedAc3CodingTool ''block-zero coupling strategy reuse'')) (\<lambda>_.
     bind_rd (if strategy_exists then eac3_bit else ret (st_coupling st \<noteq> None)) (\<lambda>in_use.
     let frame = frame\<lparr>
           coupling_strategy_exists := (coupling_strategy_exists frame)[block_index := strategy_exists],
           coupling_in_use := (coupling_in_use frame)[block_index := in_use]\<rparr> in
     bind_rd (when_rd in_use (ac3_coupling frame strategy_exists st)) (\<lambda>c. ret (c, frame)))))"

definition ac3_rematrix ::
  "audio_frame_information \<Rightarrow> nat \<Rightarrow> coupling_information option \<Rightarrow> bool list \<Rightarrow> bool list eac3_parser" where
  "ac3_rematrix frame block_index c previous =
     (if frame_acmod frame = 2 then
        bind_rd eac3_bit (\<lambda>present.
          if present then read_flags_or_default (rematrix_band_count c None) True False
          else if block_index = 0 then ret (replicate 4 False) else ret previous)
      else ret [])"

section \<open>Strategies and exponents\<close>

definition ac3_strategies ::
  "audio_frame_information \<Rightarrow> nat \<Rightarrow> bool \<Rightarrow> audio_frame_information eac3_parser" where
  "ac3_strategies frame block_index coupled =
     bind_rd (if coupled then eac3_u8 2 else ret (coupling_exponent_strategy frame ! block_index)) (\<lambda>cs.
     bind_rd (repeat_rd (frame_channels frame) (eac3_u8 2)) (\<lambda>chs.
     bind_rd (if lfe_on (af_bsi frame) then eac3_bit else ret (lfe_exponent_strategy frame ! block_index)) (\<lambda>ls.
       ret (frame\<lparr>coupling_exponent_strategy := (coupling_exponent_strategy frame)[block_index := cs],
              channel_exponent_strategy := (channel_exponent_strategy frame)[block_index := chs],
              lfe_exponent_strategy := (lfe_exponent_strategy frame)[block_index := ls]\<rparr>))))"

definition ac3_exponents ::
  "audio_frame_information \<Rightarrow> nat \<Rightarrow> coupling_information option \<Rightarrow> nat list \<Rightarrow> audio_block_state \<Rightarrow>
   (exponent_information option \<times> exponent_information option list \<times> exponent_information option) eac3_parser" where
  "ac3_exponents frame block_index c ends st =
     bind_rd (map_err (Ac3SyntaxField ''coupling exponents'')
        (if block_index = 0 then parse_coupling_exponents frame c
         else parse_following_coupling_exponents frame block_index c (st_coupling_exponents st))) (\<lambda>ce.
     bind_rd (map_err (Ac3SyntaxField ''channel exponents'')
        (if block_index = 0 then parse_channel_exponents frame ends
         else parse_following_channel_exponents frame block_index ends (st_channel_exponents st))) (\<lambda>che.
     bind_rd (map_err (Ac3SyntaxField ''LFE exponents'')
        (if block_index = 0 then parse_lfe_exponents frame
         else parse_following_lfe_exponents frame block_index (st_lfe_exponents st))) (\<lambda>le.
       ret (ce, che, le))))"

section \<open>Allocation codes\<close>

text \<open>Offsets and gains of the elements, interleaved.\<close>

definition read_ac3_codes ::
  "bool \<Rightarrow> nat \<Rightarrow> bool \<Rightarrow> (snr_offsets \<times> fast_gain_codes) eac3_parser" where
  "read_ac3_codes coupled channels lfe =
     bind_rd (eac3_u8 6) (\<lambda>coarse.
     bind_rd (when_rd coupled (eac3_u8 4)) (\<lambda>cf.
     bind_rd (when_rd coupled (eac3_u8 3)) (\<lambda>cg.
     bind_rd (repeat_rd channels (bind_rd (eac3_u8 4) (\<lambda>f. bind_rd (eac3_u8 3) (\<lambda>g. ret (f, g))))) (\<lambda>rows.
     bind_rd (when_rd lfe (eac3_u8 4)) (\<lambda>lf.
     bind_rd (when_rd lfe (eac3_u8 3)) (\<lambda>lg.
       ret (\<lparr>coarse_code = coarse, coupling_fine_code = cf, channel_fine_codes = map fst rows, lfe_fine_code = lf\<rparr>,
            \<lparr>gain_coupling = cg, gain_channels = map snd rows, gain_lfe = lg\<rparr>)))))))"

definition ac3_coupling_leak ::
  "coupling_information option \<Rightarrow> coupling_leak option \<Rightarrow> coupling_leak option eac3_parser" where
  "ac3_coupling_leak c previous =
     (if c = None then ret None
      else
        bind_rd eac3_bit (\<lambda>present.
          if present then bind_rd read_coupling_leak (\<lambda>l. ret (Some l))
          else (case previous of Some l \<Rightarrow> ret (Some l) | None \<Rightarrow> fail FrameSizeOverflow)))"

definition resolve_ac3_delta ::
  "nat \<Rightarrow> delta_bit_allocation_element option \<Rightarrow> delta_bit_allocation_element eac3_parser" where
  "resolve_ac3_delta strategy prior =
     (if strategy = 0
      then (case prior of Some d \<Rightarrow> ret d | None \<Rightarrow> fail (InvalidDeltaBitAllocationStrategy strategy))
      else if strategy \<in> {1, 2} then parse_delta_element strategy
      else fail (InvalidDeltaBitAllocationStrategy strategy))"

definition parse_ac3_delta_bit_allocation ::
  "coupling_information option \<Rightarrow> nat \<Rightarrow> delta_bit_allocation option \<Rightarrow> delta_bit_allocation option eac3_parser" where
  "parse_ac3_delta_bit_allocation c channels previous =
     bind_rd eac3_bit (\<lambda>present.
       if \<not> present then ret None
       else
         bind_rd (when_rd (c \<noteq> None) (eac3_u8 2)) (\<lambda>coupling_strategy.
         bind_rd (repeat_rd channels (eac3_u8 2)) (\<lambda>channel_strategies.
         bind_rd (case coupling_strategy of
                    Some s \<Rightarrow> bind_rd (resolve_ac3_delta s (Option.bind previous delta_coupling)) (\<lambda>d. ret (Some d))
                  | None \<Rightarrow> ret None) (\<lambda>cd.
         bind_rd (each_rd (\<lambda>(channel, s). resolve_ac3_delta s (previous_delta previous channel))
                    (zip [0..<channels] channel_strategies)) (\<lambda>ds.
           ret (Some \<lparr>delta_coupling = cd, delta_channels = ds\<rparr>))))))"

section \<open>The block\<close>

definition parse_ac3_audio_block_prefix_reader ::
  "audio_frame_information \<Rightarrow> nat \<Rightarrow> audio_block_state \<Rightarrow>
   (audio_block_prefix \<times> audio_frame_information \<times> audio_block_state) eac3_parser" where
  "parse_ac3_audio_block_prefix_reader frame block_index st =
     (let channels = frame_channels frame; acmod = frame_acmod frame; lfe = lfe_on (af_bsi frame) in
     bind_rd (read_flags_or_default channels True False) (\<lambda>switch.
     bind_rd (read_flags_or_default channels True False) (\<lambda>dith.
     bind_rd (read_optional_u8 8) (\<lambda>drc.
     bind_rd (if acmod = 0 then read_optional_u8 8 else ret None) (\<lambda>drc2.
     bind_rd (ac3_coupling_step frame block_index st) (\<lambda>(c, frame).
     bind_rd (ac3_rematrix frame block_index c (st_rematrix_flags st)) (\<lambda>rematrix.
     bind_rd (ac3_strategies frame block_index (c \<noteq> None)) (\<lambda>frame.
     bind_rd (if block_index = 0 then parse_channel_bandwidths c None channels
              else parse_following_channel_bandwidths frame block_index c None st) (\<lambda>(codes, ends).
     bind_rd (ac3_exponents frame block_index c ends st) (\<lambda>(ce, che, le).
     bind_rd (parse_bit_allocation_parameters frame) (\<lambda>params.
     bind_rd (guard_rd (\<not> (block_index = 0 \<and> params = None))
                (InvalidAc3Syntax ''block-zero bit allocation reuse'')) (\<lambda>_.
     bind_rd eac3_bit (\<lambda>codes_present.
     bind_rd (when_rd codes_present (read_ac3_codes (c \<noteq> None) channels lfe)) (\<lambda>new_codes.
     let snr = map_option fst new_codes; gains = map_option snd new_codes in
     bind_rd (guard_rd (\<not> (block_index = 0 \<and> snr = None))
                (InvalidAc3Syntax ''block-zero SNR offset reuse'')) (\<lambda>_.
     bind_rd (ac3_coupling_leak c (st_coupling_leak st)) (\<lambda>leak.
     bind_rd (parse_ac3_delta_bit_allocation c channels (st_delta st)) (\<lambda>delta.
     bind_rd (parse_skip_field frame) (\<lambda>(skipped, skip_start).
     bind_rd (read_position frame) (\<lambda>position.
       ret (\<lparr>block_switch = switch, dither = dith, dynamic_range = drc, dynamic_range_2 = drc2,
             spectral_extension = None, coupling = c, rematrix_flags = rematrix, channel_bandwidth_codes = codes,
             coupling_exponents = ce, channel_exponents = che, lfe_exponents = le, bit_allocation_codes = params,
             block_snr_offsets = snr, block_fast_gains = gains, converter_snr_offset = None,
             block_coupling_leak = leak, delta_allocation = delta, skip_field = skipped,
             skip_field_start_offset_bits = skip_start, next_offset_bits = position\<rparr>,
            frame,
            st\<lparr>st_dynamic_range := or_else drc (or_else (st_dynamic_range st) (Some 0)),
               st_dynamic_range_2 := (if acmod = 0 then or_else drc2 (or_else (st_dynamic_range_2 st) (Some 0)) else None),
               st_coupling := c, st_spectral_extension := None, st_rematrix_flags := rematrix,
               st_bandwidth_codes := map2 or_else codes (st_bandwidth_codes st), st_end_mantissas := ends,
               st_coupling_exponents := ce, st_channel_exponents := che, st_lfe_exponents := le,
               st_parameters := or_else params (or_else (st_parameters st) (Some DEFAULT_PARAMETERS)),
               st_snr_offsets := or_else snr (st_snr_offsets st), st_fast_gains := or_else gains (st_fast_gains st),
               st_coupling_leak := leak, st_delta := or_else delta (st_delta st)\<rparr>))))))))))))))))))))"

end
