(* ===== verification/Eac3Walk.thy ===== *)
theory Eac3Walk
  imports Eac3Ac3Block
begin

text \<open>
  The parse-only walk over the audio blocks of a frame, \<open>inspect_audio_block_carriers\<close> of
  \<open>crates/openjoc-eac3/src/audio_block.rs\<close>, and the search of JOC carriers that uses it
  (\<open>parse_joc_access_unit\<close> of \<open>lib.rs\<close>).
\<close>

section \<open>Bit allocation of one element\<close>

definition full_exponents :: "exponent_information \<Rightarrow> eac3_error + nat list" where
  "full_exponents information =
     (let first = start_mantissa information; ending = end_mantissa information; decoded = exp_decoded information in
      if first > ending \<or> length decoded \<noteq> ending - first
      then Inl (MantissaExponentLengthMismatch (ending - first) (length decoded))
      else Inr (replicate first 0 @ decoded))"

definition element_baps ::
  "exponent_information \<Rightarrow> bit_allocation_parameters \<Rightarrow> nat \<Rightarrow> nat \<Rightarrow> nat \<Rightarrow> nat \<Rightarrow>
   delta_bit_allocation_element option \<Rightarrow> (nat \<times> nat) option \<Rightarrow> bool \<Rightarrow> eac3_error + nat list" where
  "element_baps information codes fast_gain_code coarse fine fscod delta leaks zero_bap =
     attempt (full_exponents information) (\<lambda>exponents.
       if zero_bap then Inr (replicate (end_mantissa information) 0)
       else compute_element_bap exponents (start_mantissa information) (end_mantissa information) codes
              fast_gain_code coarse fine fscod delta leaks)"

definition active_baps :: "exponent_information \<Rightarrow> nat list \<Rightarrow> eac3_error + nat list" where
  "active_baps information baps =
     (let first = start_mantissa information; ending = end_mantissa information in
      if first \<le> ending \<and> ending \<le> length baps then Inr (slice first ending baps)
      else Inl (MantissaExponentLengthMismatch (length baps) (ending - first)))"

definition high_efficiency_element_baps ::
  "exponent_information \<Rightarrow> bit_allocation_parameters \<Rightarrow> nat \<Rightarrow> nat \<Rightarrow> nat \<Rightarrow> nat \<Rightarrow>
   delta_bit_allocation_element option \<Rightarrow> (nat \<times> nat) option \<Rightarrow> bool \<Rightarrow> eac3_error + nat list" where
  "high_efficiency_element_baps information codes fast_gain_code coarse fine fscod delta leaks zero_bap =
     attempt (full_exponents information) (\<lambda>exponents.
     attempt (if zero_bap then Inr (replicate (end_mantissa information) 0)
              else compute_high_efficiency_element_bap exponents (start_mantissa information)
                     (end_mantissa information) codes fast_gain_code coarse fine fscod delta leaks) (\<lambda>baps.
       active_baps information baps))"

section \<open>Consuming mantissas\<close>

datatype mantissa_element = ChannelElement | CouplingElement | LfeElement

record audio_block_mantissa_failure =
  fl_block_index :: nat
  fl_element :: mantissa_element
  fl_channel :: "nat option"
  fl_bin_index :: nat
  fl_bap :: nat
  fl_raw_code :: nat
  fl_bit_width :: nat
  fl_grouped :: bool
  fl_bit_offset_bits :: nat
  fl_error :: eac3_error

text \<open>The malformed words of a frame so far: their number and the first one.\<close>

type_synonym failures = "nat \<times> audio_block_mantissa_failure option"

definition record_failure :: "audio_block_mantissa_failure \<Rightarrow> failures \<Rightarrow> failures" where
  "record_failure f = (\<lambda>(n, first). (n + 1, case first of Some g \<Rightarrow> Some g | None \<Rightarrow> Some f))"

definition invalid_code :: "eac3_error \<Rightarrow> nat option" where
  "invalid_code e =
     (case e of InvalidMantissaCode _ code \<Rightarrow> Some code | InvalidMantissaGroupCode _ code \<Rightarrow> Some code | _ \<Rightarrow> None)"

text \<open>
  The loop over the bins: \<open>True\<close> when all words were consumed, \<open>False\<close> behind a word that is no code
  of its quantizer.
\<close>

fun consume_bins ::
  "mantissa_element \<Rightarrow> nat option \<Rightarrow> nat \<Rightarrow> nat \<Rightarrow> nat \<Rightarrow> nat list \<Rightarrow> failures \<Rightarrow> (bool \<times> failures) mantissa_reader" where
  "consume_bins element channel block_index frame_bits bin [] failures = ret (True, failures)"
| "consume_bins element channel block_index frame_bits bin (bap # baps) failures =
     bind_rd (lift_rd (mantissa_quantizer bap)) (\<lambda>q.
       if bap = 0 then consume_bins element channel block_index frame_bits (bin + 1) baps failures
       else
         bind_rd (on_reader (read_offset frame_bits)) (\<lambda>offset st.
           (case next_code bap st of
              (Inr code, st) \<Rightarrow> consume_bins element channel block_index frame_bits (bin + 1) baps failures st
            | (Inl e, st) \<Rightarrow>
                (case invalid_code e of
                   Some raw \<Rightarrow>
                     (Inr (False, record_failure
                        \<lparr>fl_block_index = block_index, fl_element = element, fl_channel = channel,
                         fl_bin_index = bin, fl_bap = bap, fl_raw_code = raw, fl_bit_width = group_bits q,
                         fl_grouped = group_size q > 1, fl_bit_offset_bits = offset, fl_error = e\<rparr> failures), st)
                 | None \<Rightarrow> (Inl e, st)))))"

definition consume_conventional_mantissas ::
  "nat list \<Rightarrow> exponent_information \<Rightarrow> mantissa_element \<Rightarrow> nat option \<Rightarrow> nat \<Rightarrow> nat \<Rightarrow> failures \<Rightarrow>
   (bool \<times> failures) mantissa_reader" where
  "consume_conventional_mantissas baps information element channel block_index frame_bits failures =
     (if length baps \<noteq> length (exp_decoded information)
      then fail (MantissaExponentLengthMismatch (length baps) (length (exp_decoded information)))
      else consume_bins element channel block_index frame_bits (start_mantissa information) baps failures)"

text \<open>The values that the elements of a block share.\<close>

record block_allocation =
  al_codes :: bit_allocation_parameters
  al_snr :: snr_offsets
  al_fscod :: nat
  al_zero_bap :: bool
  al_block_index :: nat
  al_frame_bits :: nat

text \<open>
  One element: with the transform its Annex E syntax, otherwise its words.  The result is whether to
  go on, the failures, and the transform state of the element.
\<close>

definition consume_element ::
  "block_allocation \<Rightarrow> mantissa_element \<Rightarrow> nat option \<Rightarrow> exponent_information \<Rightarrow> nat \<Rightarrow> nat \<Rightarrow>
   delta_bit_allocation_element option \<Rightarrow> (nat \<times> nat) option \<Rightarrow> bool \<Rightarrow> aht_element_state option \<Rightarrow> failures \<Rightarrow>
   (bool \<times> failures \<times> aht_element_state option) mantissa_reader" where
  "consume_element al element channel information gain fine delta leaks aht aht_state failures =
     (if aht then
        bind_rd (lift_rd (high_efficiency_element_baps information (al_codes al) gain (coarse_code (al_snr al)) fine
                   (al_fscod al) delta leaks (al_zero_bap al))) (\<lambda>baps.
        bind_rd (on_reader (decode_aht_values aht_state baps (exp_decoded information) (al_block_index al)))
          (\<lambda>(vs, metadata, new_state). ret (True, failures, Some new_state)))
      else
        bind_rd (lift_rd (element_baps information (al_codes al) gain (coarse_code (al_snr al)) fine (al_fscod al)
                   delta leaks (al_zero_bap al))) (\<lambda>baps.
        bind_rd (lift_rd (active_baps information baps)) (\<lambda>baps.
        bind_rd (consume_conventional_mantissas baps information element channel (al_block_index al)
                   (al_frame_bits al) failures) (\<lambda>(go_on, failures). ret (go_on, failures, aht_state)))))"

definition need :: "'a option \<Rightarrow> 'a mantissa_reader" where
  "need x = some_or x FrameSizeOverflow"

definition element_leaks :: "audio_block_state \<Rightarrow> (nat \<times> nat) option" where
  "element_leaks st = map_option (\<lambda>l. (fast_code l, slow_code l)) (st_coupling_leak st)"

definition consume_coupling ::
  "audio_frame_information \<Rightarrow> block_allocation \<Rightarrow> fast_gain_codes \<Rightarrow> nat \<Rightarrow> audio_block_state \<Rightarrow> failures \<Rightarrow>
   (bool \<times> failures \<times> audio_block_state) mantissa_reader" where
  "consume_coupling frame al gains channel st failures =
     bind_rd (need (st_coupling_exponents st)) (\<lambda>information.
     bind_rd (need (gain_coupling gains)) (\<lambda>gain.
     bind_rd (need (coupling_fine_code (al_snr al))) (\<lambda>fine.
     bind_rd (consume_element al CouplingElement (Some channel) information gain fine
                (Option.bind (st_delta st) delta_coupling) (element_leaks st) (coupling_aht_in_use frame)
                (st_coupling_aht st) failures) (\<lambda>(go_on, failures, aht).
       ret (go_on, failures, st\<lparr>st_coupling_aht := aht\<rparr>)))))"

definition consume_channel ::
  "audio_frame_information \<Rightarrow> block_allocation \<Rightarrow> fast_gain_codes \<Rightarrow> nat \<Rightarrow> audio_block_state \<Rightarrow> failures \<Rightarrow>
   (bool \<times> failures \<times> audio_block_state) mantissa_reader" where
  "consume_channel frame al gains channel st failures =
     bind_rd (lift_rd (get_or (st_channel_exponents st) channel FrameSizeOverflow)) (\<lambda>e.
     bind_rd (need e) (\<lambda>information.
     bind_rd (lift_rd (get_or (channel_fine_codes (al_snr al)) channel FrameSizeOverflow)) (\<lambda>fine.
     bind_rd (lift_rd (get_or (gain_channels gains) channel FrameSizeOverflow)) (\<lambda>gain.
     bind_rd (lift_rd (get_or (channel_aht_in_use frame) channel FrameSizeOverflow)) (\<lambda>aht_in_use.
     bind_rd (consume_element al ChannelElement (Some channel) information gain fine
                (previous_delta (st_delta st) channel) None aht_in_use (st_channel_aht st ! channel) failures)
       (\<lambda>(go_on, failures, aht).
       ret (go_on, failures, st\<lparr>st_channel_aht := (st_channel_aht st)[channel := aht]\<rparr>)))))))"

text \<open>The channels, with the coupling channel behind the first one that uses it.\<close>

fun consume_channels ::
  "audio_frame_information \<Rightarrow> block_allocation \<Rightarrow> fast_gain_codes \<Rightarrow> nat list \<Rightarrow> bool \<Rightarrow> audio_block_state \<Rightarrow> failures \<Rightarrow>
   (bool \<times> failures \<times> audio_block_state) mantissa_reader" where
  "consume_channels frame al gains [] coupling_decoded st failures = ret (True, failures, st)"
| "consume_channels frame al gains (channel # channels) coupling_decoded st failures =
     bind_rd (consume_channel frame al gains channel st failures) (\<lambda>(go_on, failures, st).
       if \<not> go_on then ret (False, failures, st)
       else if \<not> coupling_decoded \<and> channel_uses_coupling (st_coupling st) channel then
         bind_rd (consume_coupling frame al gains channel st failures) (\<lambda>(go_on, failures, st).
           if \<not> go_on then ret (False, failures, st)
           else consume_channels frame al gains channels True st failures)
       else consume_channels frame al gains channels coupling_decoded st failures)"

definition consume_lfe ::
  "audio_frame_information \<Rightarrow> block_allocation \<Rightarrow> fast_gain_codes \<Rightarrow> audio_block_state \<Rightarrow> failures \<Rightarrow>
   (bool \<times> failures \<times> audio_block_state) mantissa_reader" where
  "consume_lfe frame al gains st failures =
     (case st_lfe_exponents st of
        None \<Rightarrow> ret (True, failures, st)
      | Some information \<Rightarrow>
          bind_rd (need (gain_lfe gains)) (\<lambda>gain.
          bind_rd (need (lfe_fine_code (al_snr al))) (\<lambda>fine.
          bind_rd (consume_element al LfeElement None information gain fine None None (lfe_aht_in_use frame)
                     (st_lfe_aht st) failures) (\<lambda>(go_on, failures, aht).
            ret (go_on, failures, st\<lparr>st_lfe_aht := aht\<rparr>)))))"

text \<open>A block starts with no pending groups.\<close>

definition consume_audio_block_mantissas ::
  "audio_frame_information \<Rightarrow> block_allocation \<Rightarrow> audio_block_state \<Rightarrow> failures \<Rightarrow>
   (bool \<times> failures \<times> audio_block_state) eac3_parser" where
  "consume_audio_block_mantissas frame al st failures r =
     (case (bind_rd (need (st_fast_gains st)) (\<lambda>gains.
            bind_rd (consume_channels frame al gains [0..<frame_channels frame] False st failures)
              (\<lambda>(go_on, failures, st).
              if \<not> go_on then ret (False, failures, st) else consume_lfe frame al gains st failures)))
          (r, initial_grouping) of
        (x, (r', _)) \<Rightarrow> (x, r'))"

section \<open>The walk\<close>

record audio_block_carrier =
  ca_block_index :: nat
  ca_skip_field :: "auxiliary_data option"
  ca_skip_field_start :: "nat option"
  ca_prefix_start :: nat
  ca_dynamic_range :: "nat option"
  ca_dynamic_range_2 :: "nat option"
  ca_next_offset :: nat

record audio_block_carrier_report =
  examined_blocks :: nat
  unresolved_blocks :: nat
  malformed_mantissa_count :: nat
  first_mantissa_failure :: "audio_block_mantissa_failure option"

definition fscod_of :: "nat \<Rightarrow> nat option" where
  "fscod_of rate = (if rate = 48000 then Some 0 else if rate = 44100 then Some 1 else if rate = 32000 then Some 2 else None)"

definition fine_codes :: "snr_offsets \<Rightarrow> nat list" where
  "fine_codes s =
     (case coupling_fine_code s of Some c \<Rightarrow> [c] | None \<Rightarrow> []) @ channel_fine_codes s
     @ (case lfe_fine_code s of Some c \<Rightarrow> [c] | None \<Rightarrow> [])"

text \<open>The prefix of a block of either syntax.\<close>

definition parse_block_prefix ::
  "audio_frame_information \<Rightarrow> nat \<Rightarrow> audio_block_state \<Rightarrow>
   (audio_block_prefix \<times> audio_frame_information \<times> audio_block_state) eac3_parser" where
  "parse_block_prefix frame block_index st =
     (if stream_type (bsi_header (af_bsi frame)) = LegacyIndependent
      then map_err (Ac3AudioBlock block_index) (parse_ac3_audio_block_prefix_reader frame block_index st)
      else bind_rd (parse_audio_block_prefix_reader frame block_index st) (\<lambda>(p, st). ret (p, frame, st)))"

text \<open>
  One block: the carrier that the callback sees, and the state behind the mantissas.
\<close>

definition inspect_block ::
  "audio_frame_information \<Rightarrow> nat \<Rightarrow> nat \<Rightarrow> nat \<Rightarrow> audio_block_state \<Rightarrow>
   (audio_block_carrier \<times> audio_frame_information \<times> audio_block_state \<times> block_allocation) eac3_parser" where
  "inspect_block frame frame_bits fscod block_index st =
     bind_rd (read_offset frame_bits) (\<lambda>prefix_start.
     bind_rd (parse_block_prefix frame block_index st) (\<lambda>(p, frame, st).
     bind_rd (some_or (st_parameters st) FrameSizeOverflow) (\<lambda>codes.
     bind_rd (some_or (st_snr_offsets st) FrameSizeOverflow) (\<lambda>snr.
     bind_rd (lift_rd (snr_offsets_are_zero (coarse_code snr) (fine_codes snr))) (\<lambda>zero_bap.
       ret (\<lparr>ca_block_index = block_index, ca_skip_field = skip_field p,
             ca_skip_field_start = skip_field_start_offset_bits p, ca_prefix_start = prefix_start,
             ca_dynamic_range = st_dynamic_range st, ca_dynamic_range_2 = st_dynamic_range_2 st,
             ca_next_offset = next_offset_bits p\<rparr>, frame, st,
            \<lparr>al_codes = codes, al_snr = snr, al_fscod = fscod, al_zero_bap = zero_bap,
             al_block_index = block_index, al_frame_bits = frame_bits\<rparr>))))))"

text \<open>
  The loop.  The carriers that the callback has seen are part of the result, also when a later block
  fails: the list behind the error is what was reported before it.
\<close>

fun inspect_blocks ::
  "nat \<Rightarrow> nat \<Rightarrow> nat list \<Rightarrow> audio_frame_information \<Rightarrow> audio_block_state \<Rightarrow> audio_block_carrier list \<Rightarrow> failures \<Rightarrow>
   bit_reader \<Rightarrow> (eac3_error + nat \<times> failures) \<times> audio_block_carrier list" where
  "inspect_blocks frame_bits fscod [] frame st seen failures r = (Inr (length seen, failures), seen)"
| "inspect_blocks frame_bits fscod (block_index # blocks) frame st seen failures r =
     (case inspect_block frame frame_bits fscod block_index st r of
        (Inl e, _) \<Rightarrow> (Inl e, seen)
      | (Inr (carrier, frame, st, al), r) \<Rightarrow>
          let seen = seen @ [carrier] in
          (case consume_audio_block_mantissas frame al st failures r of
             (Inl e, _) \<Rightarrow> (Inl e, seen)
           | (Inr (go_on, failures, st), r) \<Rightarrow>
               if go_on then inspect_blocks frame_bits fscod blocks frame st seen failures r
               else (Inr (length seen, failures), seen)))"

definition frame_reader :: "u8 list \<Rightarrow> audio_frame_information \<Rightarrow> eac3_error + bit_reader" where
  "frame_reader bs frame =
     (case take_bits (audio_blocks_offset_bits frame) (new_reader (take (frame_size (bsi_header (af_bsi frame))) bs)) of
        (Inl e, _) \<Rightarrow> Inl (Eac3Bit e)
      | (Inr _, r) \<Rightarrow> Inr r)"

definition inspect_audio_block_carriers ::
  "u8 list \<Rightarrow> (eac3_error + audio_block_carrier_report) \<times> audio_block_carrier list" where
  "inspect_audio_block_carriers bs =
     (let setup =
        attempt (parse_audio_frame bs) (\<lambda>frame.
        attempt (if stream_type (bsi_header (af_bsi frame)) = LegacyIndependent then validate_ac3_crc bs else Inr ()) (\<lambda>_.
        attempt (frame_reader bs frame) (\<lambda>r.
          if frame_bits_of frame > usize_max then Inl FrameSizeOverflow
          else
            (case fscod_of (sample_rate (bsi_header (af_bsi frame))) of
               None \<Rightarrow> Inl ReservedSampleRate
             | Some fscod \<Rightarrow> Inr (frame, r, fscod))))) in
      case setup of
        Inl e \<Rightarrow> (Inl e, [])
      | Inr (frame, r, fscod) \<Rightarrow>
          let blocks = audio_blocks (bsi_header (af_bsi frame)) in
          (case inspect_blocks (frame_bits_of frame) fscod [0..<blocks] frame (new_block_state (frame_channels frame))
                  [] (0, None) r of
             (Inl e, seen) \<Rightarrow> (Inl e, seen)
           | (Inr (examined, malformed, first_failure), seen) \<Rightarrow>
               (Inr \<lparr>examined_blocks = examined, unresolved_blocks = blocks - examined,
                  malformed_mantissa_count = malformed, first_mantissa_failure = first_failure\<rparr>, seen)))"

definition parse_first_audio_block_prefix :: "u8 list \<Rightarrow> eac3_error + audio_block_prefix" where
  "parse_first_audio_block_prefix bs =
     attempt (parse_audio_frame bs) (\<lambda>frame.
     attempt (if stream_type (bsi_header (af_bsi frame)) = LegacyIndependent then validate_ac3_crc bs else Inr ()) (\<lambda>_.
     attempt (frame_reader bs frame) (\<lambda>r.
       if stream_type (bsi_header (af_bsi frame)) = LegacyIndependent
       then attempt (fst (parse_ac3_audio_block_prefix_reader frame 0 (new_block_state (frame_channels frame)) r))
              (\<lambda>(p, _). Inr p)
       else fst (parse_first_prefix_reader frame r))))"

end
