(* ===== verification/Eac3Forward.thy ===== *)
theory Eac3Forward
  imports Eac3Walk
begin

text \<open>
  A window logic for the block parsers.  \<open>forward get p\<close> states that every run of \<open>p\<close>, failed ones
  included, moves the reader that \<open>get\<close> selects from the state over bits that were still unread, and does
  nothing else to it.  One rule per combinator, collected in \<open>forward_intros\<close>; each parser of the audio blocks has its
  lemma, so the rules also close the parsers that call it.
\<close>

named_theorems forward_intros \<open>closure rules of \<open>forward\<close>\<close>

definition forward :: "('s \<Rightarrow> bit_reader) \<Rightarrow> ('s, 'e, 'a) rd \<Rightarrow> bool" where
  "forward get p \<longleftrightarrow>
     (\<forall>s x s'. reader_ok (get s) \<longrightarrow> p s = (x, s') \<longrightarrow>
        (\<exists>n \<le> length (unread (get s)). get s' = skip n (get s)))"

abbreviation (input) advances :: "'a eac3_parser \<Rightarrow> bool" where
  "advances p \<equiv> forward (\<lambda>r. r) p"

lemma forwardE:
  assumes "forward get p" and "reader_ok (get s)" and "p s = (x, s')"
  obtains n where "n \<le> length (unread (get s))" and "get s' = skip n (get s)"
  using assms unfolding forward_def by blast

section \<open>Combinators\<close>

lemma forward_stay: "(\<And>s x s'. p s = (x, s') \<Longrightarrow> get s' = get s) \<Longrightarrow> forward get p"
  unfolding forward_def by (metis le0 skip_0)

lemma forward_ret [forward_intros]: "forward get (ret a)"
  by (rule forward_stay) (auto simp: ret_def)

lemma forward_fail [forward_intros]: "forward get (fail e)"
  by (rule forward_stay) (auto simp: fail_def)

lemma forward_bind [forward_intros]:
  assumes m: "forward get m" and k: "\<And>a. forward get (k a)"
  shows "forward get (bind_rd m k)"
  unfolding forward_def
proof (intro allI impI)
  fix s y t
  assume s: "reader_ok (get s)" and run: "bind_rd m k s = (y, t)"
  obtain x u where mu: "m s = (x, u)" by fastforce
  obtain n where n: "n \<le> length (unread (get s))" "get u = skip n (get s)"
    by (rule forwardE [OF m s mu])
  have u: "reader_ok (get u)" using s n by (simp add: reader_ok_skip)
  show "\<exists>n \<le> length (unread (get s)). get t = skip n (get s)"
  proof (cases x)
    case Inl
    with n mu run show ?thesis by (auto simp: bind_rd_def)
  next
    case (Inr a)
    with mu run have "k a u = (y, t)" by (simp add: bind_rd_def)
    from forwardE [OF k u this] obtain i where "i \<le> length (unread (get u))" "get t = skip i (get u)"
      by blast
    with n show ?thesis by (intro exI [of _ "n + i"]) (simp add: unread_skip)
  qed
qed

lemma forward_map_err [forward_intros]: "forward get p \<Longrightarrow> forward get (map_err f p)"
  by (auto simp: forward_def map_err_def split: prod.splits sum.splits)

lemma forward_if [forward_intros]: "forward get p \<Longrightarrow> forward get q \<Longrightarrow> forward get (if c then p else q)"
  by simp

lemma forward_let [forward_intros]: "(\<And>y. forward get (k y)) \<Longrightarrow> forward get (let y = x in k y)"
  by simp

lemma forward_prod [forward_intros]: "(\<And>a b. forward get (k a b)) \<Longrightarrow> forward get (case x of (a, b) \<Rightarrow> k a b)"
  by (simp split: prod.split)

lemma forward_option [forward_intros]:
  "forward get p \<Longrightarrow> (\<And>a. forward get (k a)) \<Longrightarrow> forward get (case x of None \<Rightarrow> p | Some a \<Rightarrow> k a)"
  by (simp split: option.split)

lemma forward_list [forward_intros]:
  "forward get p \<Longrightarrow> (\<And>a as. forward get (k a as)) \<Longrightarrow> forward get (case x of [] \<Rightarrow> p | a # as \<Rightarrow> k a as)"
  by (simp split: list.split)

lemma forward_coupling [forward_intros]:
  "(\<And>s. forward get (p s)) \<Longrightarrow> (\<And>e. forward get (q e)) \<Longrightarrow>
   forward get (case c of StandardCoupling s \<Rightarrow> p s | EnhancedCoupling e \<Rightarrow> q e)"
  by (simp split: coupling_information.split)

lemma forward_guard [forward_intros]: "forward get (guard_rd c e)"
  by (simp add: guard_rd_def forward_intros)

lemma forward_some_or [forward_intros]: "forward get (some_or x e)"
  unfolding some_or_def by (intro forward_intros)

lemma forward_lift [forward_intros]: "forward get (lift_rd x)"
  by (cases x) (simp_all add: forward_intros)

lemma forward_when [forward_intros]: "forward get p \<Longrightarrow> forward get (when_rd c p)"
  unfolding when_rd_def by (intro forward_intros)

lemma forward_repeat [forward_intros]: "forward get p \<Longrightarrow> forward get (repeat_rd n p)"
  by (induction n) (auto intro!: forward_intros)

lemma forward_each [forward_intros]: "(\<And>x. forward get (p x)) \<Longrightarrow> forward get (each_rd p xs)"
  by (induction xs) (auto intro!: forward_intros)

lemma forward_handle:
  fixes m :: "('s, 'e, 'a) rd" and k :: "'a \<Rightarrow> ('s, 'e, 'b) rd"
  assumes m: "forward get m" and k: "\<And>a. forward get (k a)" and h: "\<And>e s. snd (h e s) = s"
  shows "forward get (\<lambda>s. case m s of (Inr a, s) \<Rightarrow> k a s | (Inl e, s) \<Rightarrow> h e s)"
  unfolding forward_def
proof (intro allI impI)
  fix s y t
  assume s: "reader_ok (get s)" and run: "(case m s of (Inr a, s) \<Rightarrow> k a s | (Inl e, s) \<Rightarrow> h e s) = (y, t)"
  obtain x u where mu: "m s = (x, u)" by fastforce
  show "\<exists>n \<le> length (unread (get s)). get t = skip n (get s)"
  proof (cases x)
    case (Inl e)
    with run mu h [of e u] have "t = u" by simp
    with forwardE [OF m s mu] show ?thesis by blast
  next
    case (Inr a)
    with run mu have "bind_rd m k s = (y, t)" by (simp add: bind_rd_def)
    with forwardE [OF forward_bind [of get m k, OF m k] s] show ?thesis by blast
  qed
qed

lemma forward_on_reader [forward_intros]: "advances p \<Longrightarrow> forward fst (on_reader p)"
  unfolding forward_def on_reader_def by (fastforce split: prod.splits)

section \<open>Fields\<close>

lemma forward_read_bits [forward_intros]: "forward (\<lambda>r. r) (read_bits n)"
  unfolding forward_def
proof (intro allI impI)
  fix r x r'
  assume r: "reader_ok r" and run: "read_bits n r = (x, r')"
  show "\<exists>i \<le> length (unread r). r' = skip i r"
  proof (cases "n \<le> 64 \<and> n \<le> length (unread r)")
    case True
    with read_bits_success [OF r] run show ?thesis by auto
  next
    case False
    with read_bits_wide [of n r] read_bits_short [OF r, of n] run have "r' = r" by fastforce
    then show ?thesis by (intro exI [of _ 0]) simp
  qed
qed

lemma forward_read_uint [forward_intros]: "forward (\<lambda>r. r) (read_uint conv ovf bound n)"
  unfolding read_uint_def by (intro forward_intros)

lemma forward_fields [forward_intros]: "advances eac3_bit" "advances (eac3_u8 n)" "advances (eac3_u16 n)"
  unfolding eac3_bit_def read_bit_def eac3_u8_def eac3_u16_def by (intro forward_intros)+

lemma forward_offset [forward_intros]: "advances (read_offset n)"
  by (rule forward_stay) (auto simp: read_offset_def split: if_splits)

lemma forward_position [forward_intros]: "advances (read_position frame)"
  unfolding read_position_def by (intro forward_intros)

lemma forward_short_fields [forward_intros]:
  "advances (read_flags_or_default count encoded default_flag)" "advances (read_optional_u8 width)"
  "advances (read_zero_bits count)" "advances (read_structure lo hi structure)"
  "advances (read_grouped_exponents count)"
  unfolding read_flags_or_default_def read_optional_u8_def read_zero_bits_def read_structure_def
    read_grouped_exponents_def by (intro forward_intros)+

section \<open>Strategies and coordinates\<close>

lemma forward_spx [forward_intros]:
  "advances (read_spx_coordinates band_count)" "advances (read_spx_channels frame channels)"
  unfolding read_spx_coordinates_def read_spx_channels_def by (intro forward_intros)+

lemma forward_first_spx [forward_intros]: "advances (parse_first_spx frame channels)"
  unfolding parse_first_spx_def by (intro forward_intros)

lemma forward_coupling_fields [forward_intros]:
  "advances (read_standard_coordinates band_count)" "advances (read_standard_end spx)"
  "advances (read_enhanced_range spx)" "advances (read_enhanced_structure lo hi)"
  "advances (read_amplitudes band_count later)" "advances (read_coupling_channels frame channels)"
  unfolding read_standard_coordinates_def read_standard_end_def read_enhanced_range_def
    read_enhanced_structure_def read_amplitudes_def read_coupling_channels_def by (intro forward_intros)+

lemma forward_standard_range [forward_intros]: "advances p \<Longrightarrow> advances (read_standard_range frame p)"
  unfolding read_standard_range_def by (intro forward_intros)

lemma forward_coupling_parsers [forward_intros]:
  "advances (parse_standard_coupling frame in_use spx)" "advances (parse_enhanced_coupling in_use spx)"
  unfolding parse_standard_coupling_def parse_enhanced_coupling_def by (intro forward_intros)+

lemma forward_first_coupling [forward_intros]: "advances (parse_first_coupling frame channels spx)"
  unfolding parse_first_coupling_def by (intro forward_intros)

section \<open>Exponents and allocation codes\<close>

lemma forward_bandwidths [forward_intros]: "advances (parse_channel_bandwidths c spx channels)"
  unfolding parse_channel_bandwidths_def parse_channel_bandwidth_def by (intro forward_intros)

lemma forward_exponents [forward_intros]:
  "advances (parse_coupling_exponents_for_strategy strategy info)" "advances (read_channel_exponents strategy ending)"
  "advances read_lfe_exponents"
  unfolding parse_coupling_exponents_for_strategy_def read_channel_exponents_def read_lfe_exponents_def
  by (intro forward_intros)+

lemma forward_first_exponents [forward_intros]:
  "advances (parse_coupling_exponents frame c)" "advances (parse_channel_exponents frame ends)"
  "advances (parse_lfe_exponents frame)"
  unfolding parse_coupling_exponents_def parse_channel_exponents_def parse_lfe_exponents_def
  by (intro forward_intros)+

lemma forward_codes [forward_intros]:
  "advances (parse_bit_allocation_parameters frame)" "advances (read_element_codes width coupled channels lfe)"
  "advances read_coupling_leak" "advances (parse_converter_snr_offset frame)" "advances read_delta_strategy"
  "advances (parse_delta_element strategy)"
  unfolding parse_bit_allocation_parameters_def read_element_codes_def read_coupling_leak_def
    parse_converter_snr_offset_def read_delta_strategy_def parse_delta_element_def by (intro forward_intros)+

lemma forward_first_codes [forward_intros]:
  "advances (read_snr_offsets strategy coupled channels lfe)" "advances (parse_snr_offsets frame c channels)"
  "advances (parse_fast_gain_codes frame c channels)" "advances (parse_first_coupling_leak c)"
  "advances (parse_delta_bit_allocation frame c channels)"
  unfolding parse_snr_offsets_def read_snr_offsets_def parse_fast_gain_codes_def parse_first_coupling_leak_def
    parse_delta_bit_allocation_def by (intro forward_intros)+

section \<open>Following blocks\<close>

lemma forward_following_spx [forward_intros]: "advances (following_spx_step frame st)"
  unfolding following_spx_step_def parse_following_spx_def following_spx_coordinates_def
  by (intro forward_intros)

lemma forward_following_strategy [forward_intros]:
  "advances (following_standard frame channels in_use spx absolute)" "advances (following_enhanced channels in_use spx)"
  unfolding following_standard_def following_enhanced_def by (intro forward_intros)+

lemma forward_following_coordinates [forward_intros]:
  "advances (following_standard_coordinates band_count x)" "advances (following_amplitudes band_count first_channel y)"
  unfolding following_standard_coordinates_def following_amplitudes_def by (intro forward_intros)+

lemma forward_following_coupling [forward_intros]: "advances (following_coupling_step frame block_index spx st)"
  unfolding following_coupling_step_def parse_following_coupling_strategy_def
    parse_following_coupling_coordinates_def by (intro forward_intros)

lemma forward_following_fields [forward_intros]:
  "advances (following_rematrix_step frame c spx previous)"
  "advances (parse_following_channel_bandwidths frame block_index c spx st)"
  "advances (parse_following_coupling_exponents frame block_index c e)"
  "advances (parse_following_channel_exponents frame block_index ends es)"
  "advances (parse_following_lfe_exponents frame block_index e)"
  unfolding following_rematrix_step_def parse_following_channel_bandwidths_def following_channel_bandwidth_def
    parse_following_coupling_exponents_def parse_following_channel_exponents_def parse_following_lfe_exponents_def
  by (intro forward_intros)+

lemma forward_following_codes [forward_intros]:
  "advances (parse_following_snr_offsets frame block_index c channels snr)"
  "advances (parse_following_coupling_leak c first_leak lk)"
  "advances (parse_following_delta_element strategy d)"
  "advances (parse_following_delta_bit_allocation frame c channels delta)"
  unfolding parse_following_snr_offsets_def parse_following_coupling_leak_def parse_following_delta_element_def
    parse_following_delta_bit_allocation_def by (intro forward_intros)+

section \<open>The original syntax\<close>

lemma forward_ac3_coupling [forward_intros]:
  "advances (read_ac3_strategy frame channels)" "advances (ac3_coordinates band_count previous x)"
  "advances (ac3_coupling frame strategy_exists st)" "advances (ac3_coupling_step frame block_index st)"
  "advances (ac3_rematrix frame block_index c flags)"
  unfolding ac3_coupling_step_def ac3_coupling_def read_ac3_strategy_def ac3_coordinates_def ac3_rematrix_def
  by (intro forward_intros)+

lemma forward_ac3_codes [forward_intros]:
  "advances (ac3_strategies frame block_index coupled)" "advances (ac3_exponents frame block_index c ends st)"
  "advances (read_ac3_codes coupled channels lfe)" "advances (ac3_coupling_leak c lk)"
  "advances (resolve_ac3_delta strategy d)" "advances (parse_ac3_delta_bit_allocation c channels delta)"
  unfolding ac3_strategies_def ac3_exponents_def read_ac3_codes_def ac3_coupling_leak_def
    parse_ac3_delta_bit_allocation_def resolve_ac3_delta_def by (intro forward_intros)+

section \<open>Mantissas\<close>

lemma forward_grouping [forward_intros]: "forward fst get_grouping" "forward fst (put_grouping g)"
  by (rule forward_stay; auto simp: get_grouping_def put_grouping_def split: prod.splits)+

lemma forward_next_code [forward_intros]: "forward fst (next_code bap)"
  unfolding next_code_def by (intro forward_intros)

lemma forward_aht_fields [forward_intros]:
  "advances (decode_aht_non_gaq_bin hebap)" "advances (decode_aht_gaq_symbol hebap gain)"
  "advances (read_gain_words mode active_count)"
  unfolding decode_aht_non_gaq_bin_def decode_aht_gaq_symbol_def read_gain_words_def by (intro forward_intros)+

lemma forward_aht_bins [forward_intros]: "advances (aht_bins bins gains)"
  by (induction bins gains rule: aht_bins.induct) (auto intro!: forward_intros split: list.split)

lemma forward_aht [forward_intros]: "advances (decode_aht_values state hebaps exponents block_index)"
  unfolding decode_aht_values_def decode_aht_element_mantissas_with_information_def by (intro forward_intros)

lemma forward_consume_bins [forward_intros]:
  "forward fst (consume_bins element channel block_index frame_bits bin baps failures)"
proof (induction baps arbitrary: bin failures)
  case (Cons bap baps)
  have word: "forward fst (\<lambda>s. case next_code bap s of
      (Inr code, s) \<Rightarrow> consume_bins element channel block_index frame_bits (bin + 1) baps failures s
    | (Inl e, s) \<Rightarrow> (case invalid_code e of Some raw \<Rightarrow> (Inr (False, failed raw e), s) | None \<Rightarrow> (Inl e, s)))"
    for failed
    by (rule forward_handle [OF forward_next_code Cons.IH]) (simp split: option.split)
  show ?case
    by (simp only: consume_bins.simps) (intro forward_intros Cons.IH word)
qed (simp add: forward_intros)

lemma forward_consume_element [forward_intros]:
  "forward fst (consume_element al element channel information gain fine delta leaks aht aht_state failures)"
  unfolding consume_element_def consume_conventional_mantissas_def by (intro forward_intros)

lemma forward_consume_parts [forward_intros]:
  "forward fst (need x)" "forward fst (consume_coupling frame al gains channel st failures)"
  "forward fst (consume_channel frame al gains channel st failures)" "forward fst (consume_lfe frame al gains st failures)"
  unfolding consume_coupling_def consume_channel_def consume_lfe_def need_def by (intro forward_intros)+

lemma forward_consume_channels [forward_intros]:
  "forward fst (consume_channels frame al gains channels coupling_decoded st failures)"
  by (induction channels arbitrary: coupling_decoded st failures) (auto intro!: forward_intros)

lemma forward_consume_block: "advances (consume_audio_block_mantissas frame al st failures)"
proof -
  have "forward fst (bind_rd (need (st_fast_gains st)) (\<lambda>gains.
      bind_rd (consume_channels frame al gains [0..<frame_channels frame] False st failures) (\<lambda>(go_on, failures, st).
        if \<not> go_on then ret (False, failures, st) else consume_lfe frame al gains st failures)))"
    by (intro forward_intros)
  then show ?thesis
    unfolding forward_def consume_audio_block_mantissas_def by (fastforce split: prod.splits)
qed

end
