(* ===== verification/Eac3WalkSpec.thy ===== *)
theory Eac3WalkSpec
  imports Eac3Forward Eac3FrameTypes
begin

text \<open>
  Where the walk over the audio blocks of a frame reads: the prefixes and skip fields that it reports
  are windows of the frame, in order.
\<close>

section \<open>Skip fields\<close>

lemma u8_byte:
  assumes "reader_ok r" and "eac3_u8 8 r = (Inr v, r')"
  shows "8 \<le> length (unread r)" and "r' = skip 8 r" and "byte_bits (word_of_nat v) = take 8 (unread r)"
proof -
  obtain w where w: "read_bits 8 r = (Inr w, r')" and v: "v = unat w"
    using assms(2) by (auto simp: eac3_u8_def read_uint_def map_err_Inr ret_Inr fail_Inr elim!: bind_rd_InrE split: if_splits)
  note bits = read_bits_Inr [OF assms(1) w]
  let ?b = "take 8 (unread r)"
  show 8: "8 \<le> length (unread r)" and "r' = skip 8 r" by (rule bits)+
  have "v = bits_value ?b" using bits(4) 8 by (simp add: v unat_bits_value)
  moreover have "bits_value ?b < 2 ^ 8" using bits_value_less [of ?b] 8 by simp
  moreover have "bits_of (length ?b) (bits_value ?b) = ?b" by (rule bits_of_bits_value)
  ultimately show "byte_bits (word_of_nat v) = ?b"
    using 8 by (simp add: byte_bits_def unat_of_nat take_bit_nat_eq_self)
qed

lemma read_bytes_run:
  assumes "reader_ok r" and "repeat_rd n (bind_rd (eac3_u8 8) (\<lambda>b. ret (word_of_nat b))) r = (Inr bs, r')"
  shows "length bs = n \<and> 8 * n \<le> length (unread r) \<and> r' = skip (8 * n) r \<and> slice_bits bs = take (8 * n) (unread r)"
  using assms
proof (induction n arbitrary: r bs)
  case 0
  then show ?case by (simp add: ret_Inr slice_bits_def)
next
  case (Suc n)
  then obtain v s cs where v: "eac3_u8 8 r = (Inr v, s)"
    and cs: "repeat_rd n (bind_rd (eac3_u8 8) (\<lambda>b. ret (word_of_nat b))) s = (Inr cs, r')"
    and bs: "bs = word_of_nat v # cs"
    by (auto simp: ret_Inr elim!: bind_rd_InrE)
  note byte = u8_byte [OF Suc.prems(1) v]
  have s: "reader_ok s" "unread s = drop 8 (unread r)" using Suc.prems(1) byte by (simp_all add: reader_ok_skip unread_skip)
  from Suc.IH [OF s(1) cs] byte show ?case
    by (auto simp: bs slice_bits_def unread_skip take_add [of 8 "8 * n"])
qed

text \<open>The optional window of a skip field that ends at \<open>b\<close>, not before \<open>a\<close>.\<close>

definition skip_window :: "bool list \<Rightarrow> nat \<Rightarrow> nat \<Rightarrow> auxiliary_data option \<Rightarrow> nat option \<Rightarrow> bool" where
  "skip_window bits a b field start \<longleftrightarrow>
     (case field of
        None \<Rightarrow> start = None
      | Some f \<Rightarrow> \<exists>p. start = Some p \<and> a \<le> p \<and> p + aux_bit_len f = b \<and> aux_bit_len f = 8 * length (aux_bytes f)
          \<and> slice_bits (aux_bytes f) = take (aux_bit_len f) (drop p bits))"

text \<open>A reader at position \<open>a\<close> of the bits of a frame.\<close>

definition reads_at :: "bool list \<Rightarrow> nat \<Rightarrow> bit_reader \<Rightarrow> bool" where
  "reads_at bits a r \<longleftrightarrow> reader_ok r \<and> a \<le> length bits \<and> unread r = drop a bits"

lemma reads_at_step:
  assumes "advances p" and "reads_at bits a r" and "p r = (x, r')"
  obtains b where "a \<le> b" and "reads_at bits b r'"
proof -
  have r: "reader_ok r" "a \<le> length bits" "unread r = drop a bits" using assms(2) by (simp_all add: reads_at_def)
  obtain n where "n \<le> length (unread r)" "r' = skip n r" by (rule forwardE [OF assms(1) r(1) assms(3)])
  with r that [of "a + n"] show ?thesis by (simp add: reads_at_def reader_ok_skip unread_skip add.commute)
qed

lemma offset_run:
  "reads_at bits a r \<Longrightarrow> read_offset (length bits) r = (Inr a, r)"
  by (simp add: reads_at_def read_offset_def bits_remaining_ok)

lemma position_run:
  "reads_at bits a r \<Longrightarrow> length bits = frame_bits_of frame \<Longrightarrow> length bits \<le> usize_max \<Longrightarrow> read_position frame r = (Inr a, r)"
  by (simp add: read_position_def offset_run [symmetric])

lemma skip_field_run:
  assumes r: "reads_at bits a r" and fits: "length bits = frame_bits_of frame" "length bits \<le> usize_max"
    and run: "parse_skip_field frame r = (Inr (field, start), r')"
  shows "\<exists>b \<ge> a. reads_at bits b r' \<and> skip_window bits a b field start"
proof (cases field)
  case None
  have "advances (parse_skip_field frame)"
    unfolding parse_skip_field_def by (intro forward_intros)
  from reads_at_step [OF this r run] obtain b where "a \<le> b" "reads_at bits b r'" .
  moreover have "start = None"
    using run None by (auto simp: parse_skip_field_def ret_Inr elim!: bind_rd_InrE split: if_splits)
  ultimately show ?thesis using None by (auto simp: skip_window_def)
next
  case (Some f)
  have front: "advances (bind_rd (if syntax_skip_field (af_syntax frame) then eac3_bit else ret False)
      (\<lambda>present. if present then eac3_u16 9 else fail FrameSizeOverflow))"
    by (intro forward_intros)
  obtain s n p t bs where
    head: "bind_rd (if syntax_skip_field (af_syntax frame) then eac3_bit else ret False)
      (\<lambda>present. if present then eac3_u16 9 else fail FrameSizeOverflow) r = (Inr n, s)"
    and p: "read_position frame s = (Inr p, t)"
    and bs: "repeat_rd n (bind_rd (eac3_u8 8) (\<lambda>b. ret (word_of_nat b))) t = (Inr bs, r')"
    and f: "f = \<lparr>aux_bit_len = n * 8, aux_bytes = bs\<rparr>" "start = Some p"
  proof -
    from run Some obtain present q n s p t bs where
      "(if syntax_skip_field (af_syntax frame) then eac3_bit else ret False) r = (Inr present, q)" "present"
      "eac3_u16 9 q = (Inr n, s)" "read_position frame s = (Inr p, t)"
      "repeat_rd n (bind_rd (eac3_u8 8) (\<lambda>b. ret (word_of_nat b))) t = (Inr bs, r')"
      "f = \<lparr>aux_bit_len = n * 8, aux_bytes = bs\<rparr>" "start = Some p"
      by (auto simp: parse_skip_field_def ret_Inr elim!: bind_rd_InrE split: if_splits)
    then show ?thesis by (intro that [of n s p t bs]) (simp_all add: bind_rd_def)
  qed
  obtain c where c: "a \<le> c" "reads_at bits c s" by (rule reads_at_step [OF front r head])
  have "p = c" "t = s" using p position_run [OF c(2) fits] by simp_all
  moreover have "reader_ok s" "unread s = drop c bits" "c \<le> length bits" using c(2) by (simp_all add: reads_at_def)
  ultimately show ?thesis
    using read_bytes_run [of s n bs r'] bs f c(1) Some
    by (intro exI [of _ "c + 8 * n"]) (auto simp: reads_at_def skip_window_def reader_ok_skip unread_skip add.commute mult.commute [of 8])
qed

section \<open>The prefix of a block\<close>

text \<open>
  \<open>framed bits select p\<close>: every success of \<open>p\<close> ends where the prefix that \<open>select\<close> takes from its result
  says, and the skip field of the prefix is a window before that place.
\<close>

definition framed :: "bool list \<Rightarrow> ('a \<Rightarrow> audio_block_prefix) \<Rightarrow> 'a eac3_parser \<Rightarrow> bool" where
  "framed bits select p \<longleftrightarrow>
     (\<forall>a r x r'. reads_at bits a r \<longrightarrow> p r = (Inr x, r') \<longrightarrow>
        (\<exists>b \<ge> a. reads_at bits b r' \<and> next_offset_bits (select x) = b
           \<and> skip_window bits a b (skip_field (select x)) (skip_field_start_offset_bits (select x))))"

lemma framedD:
  assumes "framed bits select p" and "reads_at bits a r" and "p r = (Inr x, r')"
  shows "\<exists>b \<ge> a. reads_at bits b r' \<and> next_offset_bits (select x) = b
    \<and> skip_window bits a b (skip_field (select x)) (skip_field_start_offset_bits (select x))"
  using assms unfolding framed_def by blast

lemma skip_window_weaken: "skip_window bits b c field start \<Longrightarrow> a \<le> b \<Longrightarrow> skip_window bits a c field start"
  by (auto simp: skip_window_def split: option.splits)

lemma framed_bind:
  assumes m: "advances m" and k: "\<And>a. framed bits select (k a)"
  shows "framed bits select (bind_rd m k)"
  unfolding framed_def
proof (intro allI impI)
  fix a r x r'
  assume r: "reads_at bits a r" and "bind_rd m k r = (Inr x, r')"
  then obtain y s where y: "m r = (Inr y, s)" and x: "k y s = (Inr x, r')" by (auto elim: bind_rd_InrE)
  obtain c where c: "a \<le> c" "reads_at bits c s" by (rule reads_at_step [OF m r y])
  from framedD [OF k c(2) x] c(1) show "\<exists>b \<ge> a. reads_at bits b r' \<and> next_offset_bits (select x) = b
      \<and> skip_window bits a b (skip_field (select x)) (skip_field_start_offset_bits (select x))"
    by (blast intro: skip_window_weaken le_trans)
qed

lemma framed_let: "(\<And>y. framed bits select (k y)) \<Longrightarrow> framed bits select (let y = x in k y)"
  by simp

lemma framed_prod: "(\<And>a b. x = (a, b) \<Longrightarrow> framed bits select (k a b)) \<Longrightarrow> framed bits select (case x of (a, b) \<Rightarrow> k a b)"
  by (simp split: prod.split)

lemma framed_tail:
  assumes fits: "length bits = frame_bits_of frame" "length bits \<le> usize_max"
    and sel: "\<And>f st b. next_offset_bits (select (res f st b)) = b"
      "\<And>f st b. skip_field (select (res f st b)) = f"
      "\<And>f st b. skip_field_start_offset_bits (select (res f st b)) = st"
  shows "framed bits select (bind_rd (parse_skip_field frame) (\<lambda>(f, st).
           bind_rd (read_position frame) (\<lambda>b. ret (res f st b))))"
  unfolding framed_def
proof (intro allI impI)
  fix a r x r'
  assume r: "reads_at bits a r"
    and "bind_rd (parse_skip_field frame) (\<lambda>(f, st). bind_rd (read_position frame) (\<lambda>b. ret (res f st b))) r = (Inr x, r')"
  then obtain f st b s where skip: "parse_skip_field frame r = (Inr (f, st), s)"
    and "read_position frame s = (Inr b, r')" "x = res f st b"
    by (auto simp: ret_Inr elim!: bind_rd_InrE)
  moreover obtain c where "a \<le> c" "reads_at bits c s" "skip_window bits a c f st"
    using skip_field_run [OF r fits skip] by blast
  ultimately show "\<exists>b \<ge> a. reads_at bits b r' \<and> next_offset_bits (select x) = b
      \<and> skip_window bits a b (skip_field (select x)) (skip_field_start_offset_bits (select x))"
    using position_run [OF _ fits, of c s] sel by auto
qed

lemma framed_first:
  assumes "length bits = frame_bits_of frame" "length bits \<le> usize_max"
  shows "framed bits (\<lambda>p. p) (parse_first_prefix_reader frame)"
  unfolding parse_first_prefix_reader_def
  by (rule framed_let | (rule framed_bind, (intro forward_intros; fail)) | rule framed_prod
      | (rule framed_tail [OF assms]; simp))+

lemma framed_following:
  assumes "length bits = frame_bits_of frame" "length bits \<le> usize_max"
  shows "framed bits fst (parse_following_prefix frame block_index st)"
  unfolding parse_following_prefix_def
  by (rule framed_let | (rule framed_bind, (intro forward_intros; fail)) | rule framed_prod
      | (rule framed_tail [OF assms]; simp))+

lemma framed_bind_where:
  assumes m: "advances m" and P: "\<And>r x r'. m r = (Inr x, r') \<Longrightarrow> P x" and k: "\<And>a. P a \<Longrightarrow> framed bits select (k a)"
  shows "framed bits select (bind_rd m k)"
proof -
  have "framed bits select (bind_rd m (\<lambda>a. if P a then k a else fail FrameSizeOverflow))"
    using k by (intro framed_bind [OF m]) (simp add: framed_def [of _ _ "fail e" for e] fail_Inr)
  moreover have "bind_rd m (\<lambda>a. if P a then k a else fail FrameSizeOverflow) r = bind_rd m k r" for r
    using P [of r] by (auto simp: bind_rd_def split: prod.split sum.split)
  ultimately show ?thesis by (simp add: framed_def)
qed

lemma ac3_keeps_bsi:
  "ac3_coupling_step frame block_index st r = (Inr y, r') \<Longrightarrow> af_bsi (snd y) = af_bsi frame"
  "ac3_strategies frame block_index coupled r = (Inr f, r') \<Longrightarrow> af_bsi f = af_bsi frame"
  by (auto simp: ac3_coupling_step_def ac3_strategies_def Let_def ret_Inr elim!: bind_rd_InrE)

lemma framed_ac3:
  assumes fits: "length bits = frame_bits_of frame" "length bits \<le> usize_max"
  shows "framed bits fst (parse_ac3_audio_block_prefix_reader frame block_index st)"
  unfolding parse_ac3_audio_block_prefix_reader_def
  apply (rule framed_let)+
  apply (rule framed_bind, (intro forward_intros; fail))
  apply (rule framed_bind, (intro forward_intros; fail))
  apply (rule framed_bind, (intro forward_intros; fail))
  apply (rule framed_bind, (intro forward_intros; fail))
  apply (rule framed_bind_where [where P = "\<lambda>y. af_bsi (snd y) = af_bsi frame"])
    apply (intro forward_intros)
   apply (erule ac3_keeps_bsi)
  apply (rule framed_prod)
  apply (rule framed_bind, (intro forward_intros; fail))
  subgoal for _ _ _ _ _ _ _ y c g
    apply (rule framed_bind_where [where P = "\<lambda>f. af_bsi f = af_bsi g"])
      apply (intro forward_intros)
     apply (erule ac3_keeps_bsi)
    apply (rule framed_let | (rule framed_bind, (intro forward_intros; fail)) | rule framed_prod
        | (rule framed_tail; use fits in \<open>simp add: frame_bits_of_def\<close>))+
    done
  done

lemma framed_after:
  assumes m: "framed bits select m" and k: "\<And>x s y t. k x s = (Inr y, t) \<Longrightarrow> t = s \<and> select' y = select x"
  shows "framed bits select' (bind_rd m k)"
  unfolding framed_def
proof (intro allI impI)
  fix a r y t
  assume r: "reads_at bits a r" and "bind_rd m k r = (Inr y, t)"
  then obtain x s where x: "m r = (Inr x, s)" and y: "k x s = (Inr y, t)" by (auto elim: bind_rd_InrE)
  from framedD [OF m r x] k [OF y] show "\<exists>b \<ge> a. reads_at bits b t \<and> next_offset_bits (select' y) = b
      \<and> skip_window bits a b (skip_field (select' y)) (skip_field_start_offset_bits (select' y))"
    by simp
qed

lemma framed_map_err: "framed bits select p \<Longrightarrow> framed bits select (map_err f p)"
  by (simp add: framed_def map_err_Inr)

lemma framed_block:
  assumes fits: "length bits = frame_bits_of frame" "length bits \<le> usize_max"
  shows "framed bits fst (parse_block_prefix frame block_index st)"
proof -
  have "framed bits fst (parse_audio_block_prefix_reader frame block_index st)"
    using framed_following [OF fits]
    by (auto simp: parse_audio_block_prefix_reader_def ret_Inr lift_rd_Inr
        intro!: framed_after [OF framed_first [OF fits]] elim!: bind_rd_InrE)
  then show ?thesis
    using framed_ac3 [OF fits]
    by (auto simp: parse_block_prefix_def ret_Inr intro!: framed_map_err framed_after)
qed

lemma block_keeps_bsi:
  assumes "parse_block_prefix frame block_index st r = (Inr (p, f, st'), r')"
  shows "af_bsi f = af_bsi frame"
proof (cases "stream_type (bsi_header (af_bsi frame)) = LegacyIndependent")
  case True
  with assms have "parse_ac3_audio_block_prefix_reader frame block_index st r = (Inr (p, f, st'), r')"
    by (simp add: parse_block_prefix_def map_err_Inr)
  then obtain c g s t u v coupled where "ac3_coupling_step frame block_index st s = (Inr (c, g), t)"
    and "ac3_strategies g block_index coupled u = (Inr f, v)"
    by (auto simp: parse_ac3_audio_block_prefix_reader_def Let_def ret_Inr elim!: bind_rd_InrE)
  from ac3_keeps_bsi(1) [OF this(1)] ac3_keeps_bsi(2) [OF this(2)] show ?thesis by simp
next
  case False
  with assms show ?thesis by (auto simp: parse_block_prefix_def ret_Inr elim!: bind_rd_InrE)
qed

section \<open>Malformed words\<close>

text \<open>A consumer goes on with the failures it was given, or stops behind one more, of its own block.\<close>

definition failed_once :: "nat \<Rightarrow> failures \<Rightarrow> bool \<Rightarrow> failures \<Rightarrow> bool" where
  "failed_once b fl go_on fl' \<longleftrightarrow> (if go_on then fl' = fl else \<exists>f. fl_block_index f = b \<and> fl' = record_failure f fl)"

lemma failed_once_True [simp]: "failed_once b fl True fl' \<longleftrightarrow> fl' = fl"
  by (simp add: failed_once_def)

lemma failed_once_record [simp]: "fl_block_index f = b \<Longrightarrow> failed_once b fl False (record_failure f fl)"
  by (auto simp: failed_once_def)

lemma consume_bins_fails:
  "consume_bins element channel block_index frame_bits bin baps fl s = (Inr (go_on, fl'), t) \<Longrightarrow>
   failed_once block_index fl go_on fl'"
proof (induction baps arbitrary: bin s)
  case (Cons bap baps)
  then show ?case
    by (auto simp: lift_rd_Inr elim!: bind_rd_InrE
        split: if_splits prod.splits sum.splits option.splits)
qed (simp add: ret_Inr)

lemma consume_element_fails:
  "consume_element al element channel information gain fine delta leaks aht aht_state fl s = (Inr (go_on, fl', aht'), t) \<Longrightarrow>
   failed_once (al_block_index al) fl go_on fl'"
  by (auto simp: consume_element_def consume_conventional_mantissas_def ret_Inr fail_Inr
      elim!: bind_rd_InrE split: if_splits intro: consume_bins_fails)

lemma consume_parts_fail:
  "consume_coupling frame al gains channel st fl s = (Inr (go_on, fl', st'), t) \<Longrightarrow> failed_once (al_block_index al) fl go_on fl'"
  "consume_channel frame al gains channel st fl s = (Inr (go_on, fl', st'), t) \<Longrightarrow> failed_once (al_block_index al) fl go_on fl'"
  "consume_lfe frame al gains st fl s = (Inr (go_on, fl', st'), t) \<Longrightarrow> failed_once (al_block_index al) fl go_on fl'"
  by (auto simp: consume_coupling_def consume_channel_def consume_lfe_def ret_Inr
      elim!: bind_rd_InrE split: option.splits intro: consume_element_fails)

lemma consume_channels_fails:
  "consume_channels frame al gains channels coupled st fl s = (Inr (go_on, fl', st'), t) \<Longrightarrow> failed_once (al_block_index al) fl go_on fl'"
proof (induction channels arbitrary: coupled st fl s)
  case (Cons channel channels)
  from Cons.prems show ?case
    apply (auto simp: ret_Inr elim!: bind_rd_InrE split: if_splits dest!: consume_parts_fail)
      apply (rule Cons.IH, assumption)+
    done
qed (simp add: ret_Inr)

lemma consume_block_fails:
  assumes "consume_audio_block_mantissas frame al st fl r = (Inr (go_on, fl', st'), r')"
  shows "failed_once (al_block_index al) fl go_on fl'"
proof -
  obtain u where "bind_rd (need (st_fast_gains st)) (\<lambda>gains.
      bind_rd (consume_channels frame al gains [0..<frame_channels frame] False st fl) (\<lambda>(go_on, failures, st).
        if \<not> go_on then ret (False, failures, st) else consume_lfe frame al gains st failures))
      (r, initial_grouping) = (Inr (go_on, fl', st'), u)"
    using assms by (auto simp: consume_audio_block_mantissas_def split: prod.splits)
  then show ?thesis
    by (auto simp: ret_Inr elim!: bind_rd_InrE split: if_splits dest!: consume_channels_fails consume_parts_fail)
qed

section \<open>The walk\<close>

text \<open>A carrier of a block that starts at \<open>offset\<close>, and the carriers of consecutive blocks.\<close>

definition carrier_in :: "bool list \<Rightarrow> nat \<Rightarrow> audio_block_carrier \<Rightarrow> bool" where
  "carrier_in bits offset c \<longleftrightarrow>
     offset \<le> ca_prefix_start c \<and> ca_prefix_start c \<le> ca_next_offset c \<and> ca_next_offset c \<le> length bits
     \<and> skip_window bits (ca_prefix_start c) (ca_next_offset c) (ca_skip_field c) (ca_skip_field_start c)"

fun carriers_in :: "bool list \<Rightarrow> nat \<Rightarrow> nat \<Rightarrow> audio_block_carrier list \<Rightarrow> bool" where
  "carriers_in bits index offset [] \<longleftrightarrow> True"
| "carriers_in bits index offset (c # cs) \<longleftrightarrow>
     ca_block_index c = index \<and> carrier_in bits offset c \<and> carriers_in bits (Suc index) (ca_next_offset c) cs"

lemma carriers_in_weaken: "carriers_in bits index b cs \<Longrightarrow> a \<le> b \<Longrightarrow> carriers_in bits index a cs"
  by (cases cs) (auto simp: carrier_in_def)

lemma inspect_block_run:
  assumes r: "reads_at bits a r" and fits: "length bits = frame_bits_of frame" "length bits \<le> usize_max"
    and run: "inspect_block frame (length bits) fscod block_index st r = (Inr (c, f, st', al), r')"
  shows "ca_block_index c = block_index \<and> carrier_in bits a c \<and> reads_at bits (ca_next_offset c) r' \<and> af_bsi f = af_bsi frame
    \<and> al_block_index al = block_index"
proof -
  obtain p where p: "parse_block_prefix frame block_index st r = (Inr (p, f, st'), r')"
    and c: "ca_block_index c = block_index" "ca_prefix_start c = a" "ca_skip_field c = skip_field p"
      "ca_skip_field_start c = skip_field_start_offset_bits p" "ca_next_offset c = next_offset_bits p"
      "al_block_index al = block_index"
    using run by (auto simp: inspect_block_def offset_run [OF r] some_or_Inr lift_rd_Inr ret_Inr elim!: bind_rd_InrE)
  from framedD [OF framed_block [OF fits] r p] block_keeps_bsi [OF p] c
  show ?thesis by (auto simp: carrier_in_def reads_at_def)
qed

lemma inspect_blocks_run:
  assumes "inspect_blocks (length bits) fscod [i..<n] frame st seen fl r = (res, seen')"
    and "reads_at bits a r" and "length bits = frame_bits_of frame" and "length bits \<le> usize_max" and "i \<le> n"
    and "length seen = i"
  shows "\<exists>more. seen' = seen @ more \<and> carriers_in bits i a more \<and> length more \<le> n - i
    \<and> (\<forall>k fl'. res = Inr (k, fl') \<longrightarrow> k = length seen'
        \<and> (fl' = fl \<and> length more = n - i \<or> (\<exists>f. Suc (fl_block_index f) = k \<and> fl' = record_failure f fl)))"
  using assms
proof (induction "n - i" arbitrary: i frame st seen r a)
  case 0
  then show ?case by (intro exI [of _ "[]"]) auto
next
  case (Suc d)
  then have upt: "[i..<n] = i # [Suc i..<n]" and d: "d = n - Suc i" "Suc i \<le> n" "Suc 0 \<le> n - i" by (simp_all add: upt_conv_Cons)
  obtain x s where block: "inspect_block frame (length bits) fscod i st r = (x, s)" by fastforce
  show ?case
  proof (cases x)
    case (Inl e)
    with Suc.prems(1) block show ?thesis by (intro exI [of _ "[]"]) (auto simp: upt)
  next
    case (Inr y)
    obtain c f st' al where y: "y = (c, f, st', al)" by (cases y)
    note b = inspect_block_run [OF Suc.prems(2,3,4) block [unfolded Inr y]]
    obtain z t where words: "consume_audio_block_mantissas f al st' fl s = (z, t)" by fastforce
    obtain o' where o': "ca_next_offset c \<le> o'" "reads_at bits o' t"
      using reads_at_step [OF forward_consume_block _ words] b by blast
    have fits: "length bits = frame_bits_of f" using Suc.prems(3) b by (simp add: frame_bits_of_def)
    show ?thesis
    proof (cases z)
      case (Inl e)
      with Suc.prems block Inr y words b d show ?thesis by (intro exI [of _ "[c]"]) (auto simp: upt)
    next
      case z: (Inr w)
      obtain go_on fl2 st2 where w: "w = (go_on, fl2, st2)" by (cases w)
      have once: "failed_once i fl go_on fl2" using consume_block_fails [OF words [unfolded z w]] b by simp
      show ?thesis
      proof (cases go_on)
        case True
        then have onward: "inspect_blocks (length bits) fscod [Suc i..<n] f st2 (seen @ [c]) fl t = (res, seen')"
          using Suc.prems(1) block Inr y words z w once by (simp add: upt Let_def)
        have "length (seen @ [c]) = Suc i" using Suc.prems(6) by simp
        from Suc.hyps(1) [OF d(1) onward o'(2) fits Suc.prems(4) d(2) this] obtain more where more:
          "seen' = (seen @ [c]) @ more" "carriers_in bits (Suc i) o' more" "length more \<le> n - Suc i"
          "\<forall>k fl'. res = Inr (k, fl') \<longrightarrow> k = length seen'
              \<and> (fl' = fl \<and> length more = n - Suc i \<or> (\<exists>f. Suc (fl_block_index f) = k \<and> fl' = record_failure f fl))"
          by blast
        then show ?thesis
          using b o'(1) d by (intro exI [of _ "c # more"]) (auto intro: carriers_in_weaken)
      next
        case False
        with once obtain g where g: "fl2 = record_failure g fl" "fl_block_index g = i" by (auto simp: failed_once_def)
        have "res = Inr (Suc (length seen), record_failure g fl)" "seen' = seen @ [c]"
          using Suc.prems(1) block Inr y words z w False by (simp_all add: upt Let_def g)
        then show ?thesis
          using b d(3) g(2) Suc.prems(6) by (intro exI [of _ "[c]"]) auto
      qed
    qed
  qed
qed

section \<open>The frame\<close>

text \<open>The header that the frame state keeps is the one that the size of the frame was taken from.\<close>

lemma frame_keeps_header:
  "parse_eac3_audio_frame n r = (Inr f, r') \<Longrightarrow>
   \<exists>c s. parse_header_reader r = (Inr (bsi_header (af_bsi f), c), s)"
  "parse_ac3_audio_frame n r = (Inr f, r') \<Longrightarrow>
   \<exists>s. parse_ac3_header_reader r = (Inr (bsi_header (af_bsi f)), s)"
  by (auto simp: parse_eac3_audio_frame_def parse_bsi_reader_def parse_ac3_audio_frame_def parse_ac3_bsi_reader_def
      Let_def ret_Inr elim!: bind_rd_InrE split: prod.splits)

lemma syncframe_header_run:
  assumes "parse_syncframe_header bs = Inr h"
  shows "if stream_type h = LegacyIndependent then fst (parse_ac3_header_reader (new_reader bs)) = Inr h
    else \<exists>g c. fst (parse_header_reader (new_reader bs)) = Inr (g, c) \<and> frame_size g = frame_size h"
proof -
  have ac3: "stream_type g = LegacyIndependent" if "parse_ac3_header_reader r = (Inr g, r')" for g r r'
    using that by (auto simp: parse_ac3_header_reader_def ret_Inr elim!: bind_rd_InrE)
  have eac3: "stream_type g \<noteq> LegacyIndependent" if "parse_header_reader r = (Inr (g, c), r')" for g c r r'
    using that by (auto simp: parse_header_reader_def parse_stream_type_def ret_Inr fail_Inr elim!: bind_rd_InrE split: if_splits)
  show ?thesis
    using assms by (auto simp: parse_syncframe_header_def attempt_Inr split: if_splits dest!: fst_run dest: ac3 eac3)
qed

lemma frame_window:
  assumes "parse_audio_frame bs = Inr f" and fits: "8 * length bs \<le> usize_max"
  shows "frame_size (bsi_header (af_bsi f)) \<le> length bs"
proof -
  obtain h where h: "parse_syncframe_header bs = Inr h" "frame_size h \<le> length bs"
    and run: "fst (if stream_type h = LegacyIndependent
        then parse_ac3_audio_frame (frame_size h * 8) (new_reader (take (frame_size h) bs))
        else parse_eac3_audio_frame (frame_size h * 8) (new_reader (take (frame_size h) bs))) = Inr f"
    using assms(1) by (auto simp: parse_audio_frame_def attempt_Inr Let_def checked_usize_def split: if_splits)
  note header = syncframe_header_run [OF h(1)]
  let ?r = "new_reader (take (frame_size h) bs)"
  have fits': "8 * length (take (frame_size h) bs @ drop (frame_size h) bs) \<le> usize_max" using fits by simp
  show ?thesis
  proof (cases "stream_type h = LegacyIndependent")
    case True
    then obtain r' where "parse_ac3_audio_frame (frame_size h * 8) ?r = (Inr f, r')"
      using run by (auto dest: fst_run)
    from frame_keeps_header(2) [OF this] obtain s where "parse_ac3_header_reader ?r = (Inr (bsi_header (af_bsi f)), s)" ..
    then have "fst (parse_ac3_header_reader ?r) = Inr (bsi_header (af_bsi f))" by simp
    from exact_extends [OF exact_headers(3) this fits'] header True h(2) show ?thesis by simp
  next
    case False
    then obtain r' where "parse_eac3_audio_frame (frame_size h * 8) ?r = (Inr f, r')"
      using run by (auto dest: fst_run)
    from frame_keeps_header(1) [OF this] obtain c s where "parse_header_reader ?r = (Inr (bsi_header (af_bsi f), c), s)"
      by blast
    then have "fst (parse_header_reader ?r) = Inr (bsi_header (af_bsi f), c)" by simp
    from exact_extends [OF exact_headers(4) this fits'] header False h(2) show ?thesis by auto
  qed
qed

lemma walk_in_frame:
  assumes run: "inspect_audio_block_carriers bs = (res, seen)" and frame: "parse_audio_frame bs = Inr f"
    and fits: "8 * length bs \<le> usize_max"
  shows "carriers_in (slice_bits (take (frame_size (bsi_header (af_bsi f))) bs)) 0 (audio_blocks_offset_bits f) seen
    \<and> length seen \<le> audio_blocks (bsi_header (af_bsi f))
    \<and> (\<forall>report. res = Inr report \<longrightarrow> examined_blocks report = length seen
        \<and> unresolved_blocks report = audio_blocks (bsi_header (af_bsi f)) - length seen
        \<and> (malformed_mantissa_count report = 0 \<and> first_mantissa_failure report = None \<and> unresolved_blocks report = 0
           \<or> (\<exists>x. malformed_mantissa_count report = 1 \<and> first_mantissa_failure report = Some x
                \<and> Suc (fl_block_index x) = length seen)))"
proof (cases "seen = [] \<and> (\<exists>e. res = Inl e)")
  case True
  then show ?thesis by auto
next
  case False
  let ?size = "frame_size (bsi_header (af_bsi f))" and ?n = "audio_blocks (bsi_header (af_bsi f))"
  let ?bits = "slice_bits (take ?size bs)"
  obtain r fscod where r: "frame_reader bs f = Inr r"
    and walk: "(case inspect_blocks (frame_bits_of f) fscod [0..<?n] f (new_block_state (frame_channels f)) [] (0, None) r of
        (Inl e, seen) \<Rightarrow> (Inl e, seen)
      | (Inr (examined, malformed, first_failure), seen) \<Rightarrow>
          (Inr \<lparr>examined_blocks = examined, unresolved_blocks = ?n - examined,
             malformed_mantissa_count = malformed, first_mantissa_failure = first_failure\<rparr>, seen)) = (res, seen)"
    using run frame False
    by (auto simp: inspect_audio_block_carriers_def attempt_def Let_def split: sum.splits if_splits option.splits)
  have len: "length ?bits = frame_bits_of f" "length ?bits \<le> usize_max"
    using frame_window [OF frame fits] fits by (simp_all add: frame_bits_of_def)
  have ok: "reader_ok (new_reader (take ?size bs))" "unread (new_reader (take ?size bs)) = ?bits"
    using fits by (simp_all add: new_reader_ok unread_new_reader)
  have at: "reads_at ?bits (audio_blocks_offset_bits f) r"
  proof (cases "audio_blocks_offset_bits f \<le> length ?bits")
    case True
    then have "r = skip (audio_blocks_offset_bits f) (new_reader (take ?size bs))"
      using r take_bits_success [OF ok(1)] ok(2) by (simp add: frame_reader_def)
    with True ok show ?thesis by (simp add: reads_at_def reader_ok_skip unread_skip)
  next
    case False
    then show ?thesis using r take_bits_short [OF ok(1)] ok(2) by (simp add: frame_reader_def)
  qed
  obtain out seen' where blocks: "inspect_blocks (length ?bits) fscod [0..<?n] f (new_block_state (frame_channels f))
      [] (0, None) r = (out, seen')" by fastforce
  from inspect_blocks_run [OF blocks at len] have
    "carriers_in ?bits 0 (audio_blocks_offset_bits f) seen'" "length seen' \<le> ?n"
    "\<forall>k fl. out = Inr (k, fl) \<longrightarrow> k = length seen' \<and> (fl = (0, None) \<and> length seen' = ?n
      \<or> (\<exists>x. Suc (fl_block_index x) = k \<and> fl = record_failure x (0, None)))"
    by auto
  with walk blocks len(1) show ?thesis
    by (auto simp: record_failure_def split: sum.splits)
qed

end
