(* ===== verification/Eac3BlockTypes.thy ===== *)
theory Eac3BlockTypes
  imports Eac3WalkSpec Eac3Pointers
begin

text \<open>
  The types of the block state.  Every prefix that the parsers accept, of a first or a following
  block, of the enhanced or of the original syntax, leaves a state whose exponents fill their range
  of bins and whose codes fit their tables, so the bit allocation of its elements cannot fail.
\<close>

section \<open>Typed values\<close>

definition spx_typed :: "spectral_extension_information option \<Rightarrow> bool" where
  "spx_typed x \<longleftrightarrow> (\<forall>s. x = Some s \<longrightarrow> spx_begin_frequency_code s < 8)"

fun coupling_typed :: "coupling_information \<Rightarrow> bool" where
  "coupling_typed (StandardCoupling s) \<longleftrightarrow>
     int (std_begin_frequency_code s) < std_end_frequency_code s + 3 \<and> std_end_frequency_code s \<le> 15"
| "coupling_typed (EnhancedCoupling e) \<longleftrightarrow> enh_begin_subband e < enh_end_subband e \<and> enh_end_subband e \<le> 22"

definition end_typed :: "nat \<Rightarrow> bool" where
  "end_typed m \<longleftrightarrow> 7 \<le> m \<and> m mod 3 = 1"

definition exponents_typed :: "exponent_information \<Rightarrow> bool" where
  "exponents_typed e \<longleftrightarrow> start_mantissa e < end_mantissa e \<and> end_mantissa e \<le> 253
     \<and> length (exp_decoded e) = end_mantissa e - start_mantissa e \<and> (\<forall>x \<in> set (exp_decoded e). x \<le> 24)"

definition full_typed :: "exponent_information \<Rightarrow> bool" where
  "full_typed e \<longleftrightarrow> exponents_typed e \<and> start_mantissa e = 0 \<and> 7 \<le> end_mantissa e"

definition parameters_typed :: "bit_allocation_parameters \<Rightarrow> bool" where
  "parameters_typed p \<longleftrightarrow> slow_decay_code p < 4 \<and> fast_decay_code p < 4 \<and> slow_gain_code p < 4
     \<and> db_per_bit_code p < 4 \<and> floor_code p < 8"

definition optionally :: "('a \<Rightarrow> bool) \<Rightarrow> 'a option \<Rightarrow> bool" where
  "optionally P x \<longleftrightarrow> (\<forall>a. x = Some a \<longrightarrow> P a)"

text \<open>One code below \<open>n\<close> for each channel, for the low frequency channel when there is one, and for the coupling channel or none.\<close>

definition element_codes_typed :: "nat \<Rightarrow> audio_frame_information \<Rightarrow> nat option \<times> nat list \<times> nat option \<Rightarrow> bool" where
  "element_codes_typed n frame = (\<lambda>(c, cs, l). optionally (\<lambda>v. v < n) c \<and> length cs = frame_channels frame \<and> below n cs
     \<and> (lfe_on (af_bsi frame) \<longrightarrow> l \<noteq> None) \<and> optionally (\<lambda>v. v < n) l)"

definition offsets_typed :: "audio_frame_information \<Rightarrow> snr_offsets \<Rightarrow> bool" where
  "offsets_typed frame s \<longleftrightarrow> coarse_code s < 64
     \<and> element_codes_typed 16 frame (coupling_fine_code s, channel_fine_codes s, lfe_fine_code s)"

definition gains_typed :: "audio_frame_information \<Rightarrow> fast_gain_codes \<Rightarrow> bool" where
  "gains_typed frame g \<longleftrightarrow> element_codes_typed 8 frame (gain_coupling g, gain_channels g, gain_lfe g)"

definition leak_typed :: "coupling_leak \<Rightarrow> bool" where
  "leak_typed l \<longleftrightarrow> fast_code l \<le> 7 \<and> slow_code l \<le> 7"

definition channels_typed :: "nat \<Rightarrow> exponent_information option list \<Rightarrow> bool" where
  "channels_typed n es \<longleftrightarrow> length es = n \<and> (\<forall>e \<in> set es. \<exists>x. e = Some x \<and> full_typed x)"

definition block_typed :: "audio_frame_information \<Rightarrow> audio_block_state \<Rightarrow> bool" where
  "block_typed frame st \<longleftrightarrow>
     spx_typed (st_spectral_extension st) \<and> optionally coupling_typed (st_coupling st)
     \<and> (\<forall>m \<in> set (st_end_mantissas st). end_typed m)
     \<and> channels_typed (frame_channels frame) (st_channel_exponents st)
     \<and> optionally full_typed (st_lfe_exponents st) \<and> (lfe_on (af_bsi frame) \<longleftrightarrow> st_lfe_exponents st \<noteq> None)
     \<and> optionally exponents_typed (st_coupling_exponents st) \<and> optionally leak_typed (st_coupling_leak st)
     \<and> (st_coupling st \<noteq> None \<longrightarrow> st_coupling_exponents st \<noteq> None \<and> st_coupling_leak st \<noteq> None)
     \<and> (\<exists>p. st_parameters st = Some p \<and> parameters_typed p)
     \<and> (\<exists>s. st_snr_offsets st = Some s \<and> offsets_typed frame s)
     \<and> (\<exists>g. st_fast_gains st = Some g \<and> gains_typed frame g)"

text \<open>What a block leaves unchanged in the frame state.\<close>

definition same_frame :: "audio_frame_information \<Rightarrow> audio_frame_information \<Rightarrow> bool" where
  "same_frame f g \<longleftrightarrow> af_bsi g = af_bsi f \<and> af_full_bandwidth_channels g = af_full_bandwidth_channels f
     \<and> af_syntax g = af_syntax f \<and> snr_offset_strategy g = snr_offset_strategy f
     \<and> frame_coarse_snr_code g = frame_coarse_snr_code f \<and> frame_fine_snr_code g = frame_fine_snr_code f"

lemma optionally_simps [simp]: "optionally P None" "optionally P (Some a) \<longleftrightarrow> P a"
  by (simp_all add: optionally_def)

lemma spx_typed_None [simp]: "spx_typed None"
  by (simp add: spx_typed_def)

section \<open>Rules\<close>

lemma ensures_forward: "advances p \<Longrightarrow> ensures p (\<lambda>_. True)"
  unfolding ensures_def by (auto elim!: forwardE simp: reader_ok_skip)

lemma ensures_pass: "advances m \<Longrightarrow> (\<And>a. ensures (k a) Q) \<Longrightarrow> ensures (bind_rd m k) Q"
  by (rule ensures_bind [OF ensures_forward])

lemma ensures_prod: "(\<And>a b. x = (a, b) \<Longrightarrow> ensures (k a b) Q) \<Longrightarrow> ensures (case x of (a, b) \<Rightarrow> k a b) Q"
  by (simp split: prod.split)

lemma ensures_option:
  "(x = None \<Longrightarrow> ensures p Q) \<Longrightarrow> (\<And>a. x = Some a \<Longrightarrow> ensures (k a) Q) \<Longrightarrow>
   ensures (case x of None \<Rightarrow> p | Some a \<Rightarrow> k a) Q"
  by (simp split: option.split)

lemma ensures_guarded: "(c \<Longrightarrow> ensures p Q) \<Longrightarrow> ensures (bind_rd (guard_rd c e) (\<lambda>_. p)) Q"
  by (cases c) (simp_all add: ensures_fail)

lemma ensures_lifted: "(\<And>a. x = Inr a \<Longrightarrow> ensures (k a) Q) \<Longrightarrow> ensures (bind_rd (lift_rd x) k) Q"
  by (cases x) (simp_all add: ensures_fail)

lemma ensures_some_of: "(\<And>a. x = Some a \<Longrightarrow> ensures (k a) Q) \<Longrightarrow> ensures (bind_rd (some_or x e) k) Q"
  by (cases x) (simp_all add: ensures_fail)

lemma ensures_optional: "(c \<Longrightarrow> ensures p P) \<Longrightarrow> ensures (when_rd c p) (\<lambda>x. optionally P x \<and> (x = None \<longleftrightarrow> \<not> c))"
  by (rule ensures_when) auto

section \<open>Strategies\<close>

lemma spx_begin_run: "ensures (parse_first_spx frame channels) (\<lambda>s. spx_begin_frequency_code s < 8)"
  unfolding parse_first_spx_def
  apply (rule ensures_pass, intro forward_intros)
  apply (rule ensures_pass, intro forward_intros)
  apply (rule ensures_bind [OF ensures_u8 [where Q = "\<lambda>v. v < 8"]], simp)
  apply (intro ensures_pass ensures_prod ensures_Let forward_intros ensures_ret)
  apply simp
  done

lemma first_spx_typed: "ensures (when_rd present (parse_first_spx frame channels)) spx_typed"
  by (rule ensures_weaken [OF ensures_optional [OF spx_begin_run]]) (auto simp: spx_typed_def)

lemma following_spx_run:
  "ensures (parse_following_spx frame channels previous first) (\<lambda>(s, _). spx_begin_frequency_code s < 8)"
  unfolding parse_following_spx_def
  apply (rule ensures_pass, intro forward_intros)
  apply (rule ensures_pass, intro forward_intros)
  apply (rule ensures_bind [OF ensures_u8 [where Q = "\<lambda>v. v < 8"]], simp)
  apply (intro ensures_pass ensures_prod ensures_Let forward_intros ensures_ret)
   apply (unfold following_spx_coordinates_def, intro forward_intros)
  apply simp
  done

lemma following_spx_typed:
  assumes "spx_typed (st_spectral_extension st)"
  shows "ensures (following_spx_step frame st) (\<lambda>(s, _). spx_typed s)"
  unfolding following_spx_step_def
  apply (rule ensures_pass, intro forward_intros)
  apply (rule ensures_if)
   apply (rule ensures_ret, use assms in simp)
  apply (rule ensures_pass, intro forward_intros)
  apply (rule ensures_if)
   apply (rule ensures_bind [OF following_spx_run])
   apply (auto intro!: ensures_ret simp: spx_typed_def)
  done

lemma standard_end_typed: "spx_typed spx \<Longrightarrow> ensures (read_standard_end spx) (\<lambda>e. e \<le> 15)"
  unfolding read_standard_end_def
  by (intro ensures_option ensures_Let ensures_ret ensures_bind [OF ensures_u8 [where Q = "\<lambda>v. v < 16"]])
    (auto simp: spx_typed_def Let_def)

lemma standard_range_typed:
  assumes "ensures p (\<lambda>e. e \<le> 15)"
  shows "ensures (read_standard_range frame p) (\<lambda>(_, first, ending, _). int first < ending + 3 \<and> ending \<le> 15)"
  unfolding read_standard_range_def
  apply (rule ensures_pass, intro forward_intros)
  apply (rule ensures_pass, intro forward_intros)
  apply (rule ensures_bind [OF assms])
  apply (rule ensures_Let, rule ensures_guarded, rule ensures_ret)
  apply simp
  done

lemma enhanced_range_typed: "ensures (read_enhanced_range spx) (\<lambda>(_, first, ending). first < ending \<and> ending \<le> 22)"
  unfolding read_enhanced_range_def
  by (intro ensures_pass forward_intros ensures_Let ensures_guarded ensures_ret) simp

lemma first_coupling_typed:
  assumes "spx_typed spx"
  shows "ensures (parse_first_coupling frame channels spx) coupling_typed"
  unfolding parse_first_coupling_def
  apply (rule ensures_pass, intro forward_intros)+
  apply (rule ensures_if; rule ensures_bind [where P = "\<lambda>c. coupling_typed (EnhancedCoupling c)"]
      ensures_bind [where P = "\<lambda>c. coupling_typed (StandardCoupling c)"])
     apply (unfold parse_enhanced_coupling_def)
     apply (rule ensures_bind [OF enhanced_range_typed], clarify)
     apply (intro ensures_pass ensures_Let forward_intros ensures_ret, simp)
    apply (rule ensures_ret, assumption)
   apply (unfold parse_standard_coupling_def)
   apply (rule ensures_bind [OF standard_range_typed [OF standard_end_typed [OF assms]]], clarify)
   apply (intro ensures_pass ensures_Let forward_intros ensures_ret, simp)
  apply (rule ensures_ret, assumption)
  done

lemma following_standard_typed:
  assumes "spx_typed spx"
  shows "ensures (following_standard frame channels in_use spx absolute) (\<lambda>(v, _). coupling_typed v)"
  unfolding following_standard_def
  apply (rule ensures_bind [OF standard_range_typed [OF standard_end_typed [OF assms]]], clarify)
  apply (intro ensures_pass ensures_prod ensures_Let forward_intros ensures_ret, simp)
  done

lemma following_enhanced_typed: "ensures (following_enhanced channels in_use spx) coupling_typed"
  unfolding following_enhanced_def
  apply (rule ensures_bind [OF enhanced_range_typed], clarify)
  apply (intro ensures_pass ensures_prod ensures_Let forward_intros ensures_ret, simp)
  done

lemma following_strategy_typed:
  assumes "spx_typed spx"
  shows "ensures (parse_following_coupling_strategy frame channels spx absolute) (\<lambda>(v, _). coupling_typed v)"
  unfolding parse_following_coupling_strategy_def
  apply (rule ensures_pass, intro forward_intros)+
  apply (rule ensures_if)
   apply (rule ensures_bind [OF following_enhanced_typed], rule ensures_ret, simp)
  apply (rule following_standard_typed [OF assms])
  done

lemma merged_typed [simp]: "coupling_typed (merge_reusable_coupling v p) = coupling_typed v"
  by (induction v p rule: merge_reusable_coupling.induct) auto

lemma coordinates_typed:
  assumes "coupling_typed v"
  shows "ensures (parse_following_coupling_coordinates frame v first) (\<lambda>(w, _). coupling_typed w)"
proof (cases v)
  case (StandardCoupling s)
  then show ?thesis
    unfolding parse_following_coupling_coordinates_def
    by simp (intro ensures_pass ensures_Let forward_intros ensures_ret, use assms in simp)
next
  case (EnhancedCoupling e)
  then show ?thesis
    unfolding parse_following_coupling_coordinates_def
    by simp (intro ensures_pass ensures_Let forward_intros ensures_ret, use assms in simp)
qed

lemma following_coupling_typed:
  assumes "spx_typed spx" and "optionally coupling_typed (st_coupling st)"
  shows "ensures (following_coupling_step frame block_index spx st) (\<lambda>(c, _, _). optionally coupling_typed c)"
proof -
  have strategy: "ensures (if coupling_strategy_exists frame ! block_index then
         bind_rd (parse_following_coupling_strategy frame (frame_channels frame) spx (st_standard_structure st))
           (\<lambda>(v, absolute). ret (merge_reusable_coupling v (st_coupling st), absolute))
       else (case st_coupling st of Some v \<Rightarrow> ret (v, st_standard_structure st) | None \<Rightarrow> fail FrameSizeOverflow))
     (\<lambda>(v, _). coupling_typed v)"
    using assms by (intro ensures_if ensures_bind_pair [OF following_strategy_typed] ensures_option ensures_ret ensures_fail) auto
  show ?thesis
    unfolding following_coupling_step_def
    apply (rule ensures_if)
     apply (rule ensures_ret, simp)
    apply (rule ensures_bind_pair [OF strategy], simp)
    apply (rule ensures_bind_pair [OF coordinates_typed], assumption)
    apply (rule ensures_ret, simp)
    done
qed

section \<open>Bandwidths\<close>

lemma tables_typed:
  "i < length ENHANCED_COUPLING_SUBBAND_MANTISSA \<Longrightarrow> end_typed (ENHANCED_COUPLING_SUBBAND_MANTISSA ! i)"
  "i < length SPX_SUBBAND_MANTISSA \<Longrightarrow> end_typed (SPX_SUBBAND_MANTISSA ! i)"
proof -
  have "list_all end_typed ENHANCED_COUPLING_SUBBAND_MANTISSA" "list_all end_typed SPX_SUBBAND_MANTISSA"
    by (simp_all add: ENHANCED_COUPLING_SUBBAND_MANTISSA_def SPX_SUBBAND_MANTISSA_def end_typed_def)
  then show "i < length ENHANCED_COUPLING_SUBBAND_MANTISSA \<Longrightarrow> end_typed (ENHANCED_COUPLING_SUBBAND_MANTISSA ! i)"
    "i < length SPX_SUBBAND_MANTISSA \<Longrightarrow> end_typed (SPX_SUBBAND_MANTISSA ! i)"
    by (simp_all add: list_all_length)
qed

lemma get_or_Inr: "get_or xs i e = Inr x \<longleftrightarrow> i < length xs \<and> x = xs ! i"
  by (auto simp: get_or_def)

lemma code_end_typed: "channel_end_mantissa code = Inr m \<Longrightarrow> end_typed m"
  by (auto simp: channel_end_mantissa_def end_typed_def split: if_splits)

lemma standard_begin_typed: "end_typed (standard_begin s)"
proof -
  have "(n * 12 + 37) mod 3 = (1 :: nat)" for n by presburger
  then show ?thesis by (simp add: standard_begin_def end_typed_def)
qed

lemma read_code_typed:
  "ensures (bind_rd (eac3_u8 6) (\<lambda>code. bind_rd (lift_rd (channel_end_mantissa code)) (\<lambda>m. ret (Some code, m))))
     (\<lambda>(_, m). end_typed m)"
  by (intro ensures_pass ensures_lifted forward_intros ensures_ret) (simp add: code_end_typed)

lemma bandwidth_typed: "ensures (parse_channel_bandwidth c spx channel) (\<lambda>(_, m). end_typed m)"
  unfolding parse_channel_bandwidth_def
  apply (rule ensures_lifted, rule ensures_Let)
  apply (rule ensures_option)
   apply (rule read_code_typed)
  apply (rule ensures_ret)
  apply (auto simp: attempt_Inr get_or_Inr tables_typed standard_begin_typed
      split: option.splits coupling_information.splits if_splits)
  done

lemma rows_typed:
  assumes "\<And>x. ensures (p x) (\<lambda>(_, m). end_typed m)"
  shows "ensures (bind_rd (each_rd p xs) (\<lambda>rows. ret (map fst rows, map snd rows)))
    (\<lambda>(_, ends). length ends = length xs \<and> (\<forall>m \<in> set ends. end_typed m))"
  by (rule ensures_bind [OF ensures_each [where P = "\<lambda>_ (_, m). end_typed m"]], rule assms, rule ensures_ret)
    (auto dest: list_all2_lengthD list_all2_mem2)

lemma bandwidths_typed:
  "ensures (parse_channel_bandwidths c spx channels)
     (\<lambda>(_, ends). length ends = channels \<and> (\<forall>m \<in> set ends. end_typed m))"
  unfolding parse_channel_bandwidths_def
  using rows_typed [where p = "parse_channel_bandwidth c spx" and xs = "[0..<channels]", OF bandwidth_typed] by simp

lemma following_bandwidths_typed:
  assumes "\<forall>m \<in> set (st_end_mantissas st). end_typed m"
  shows "ensures (parse_following_channel_bandwidths frame block_index c spx st)
     (\<lambda>(_, ends). length ends = frame_channels frame \<and> (\<forall>m \<in> set ends. end_typed m))"
proof -
  have "ensures (following_channel_bandwidth frame block_index c spx st channel) (\<lambda>(_, m). end_typed m)" for channel
    unfolding following_channel_bandwidth_def
    by (intro ensures_Let ensures_if read_code_typed ensures_lifted ensures_ret)
      (use assms in \<open>auto simp: coupling_end_mantissa_def spx_end_mantissa_def get_or_Inr tables_typed standard_begin_typed
        split: option.splits coupling_information.splits if_splits\<close>)
  from rows_typed [where p = "following_channel_bandwidth frame block_index c spx st" and xs = "[0..<frame_channels frame]", OF this]
  show ?thesis by (simp add: parse_following_channel_bandwidths_def)
qed

section \<open>Exponents\<close>

lemma path_bounded: "exponent_path x es \<Longrightarrow> e \<in> set (spread n es) \<Longrightarrow> e \<le> 24"
  by (induction es arbitrary: x) auto

lemma decoded_typed:
  assumes run: "decode_exponents initial groups strategy stop = Inr out" and stop: "stop mod 3 = 1"
  shows "length out = stop \<and> stop \<le> 253 \<and> (\<forall>x \<in> set out. x \<le> 24)"
proof -
  obtain es where es: "stop \<le> 253" "channel_exponent_group_count stop strategy = Inr (length groups)" "initial \<le> 24"
    "length es = 3 * length groups" "exponent_path (int initial) es"
    "out = take stop (initial # spread (2 ^ (strategy - 1)) es)"
    using run unfolding decode_exponents_Inr by blast
  have "length out = stop"
    using group_count_covers [OF es(2) stop es(1)] es(4) by (simp add: es(6) length_spread)
  moreover have "\<forall>x \<in> set out. x \<le> 24"
  proof
    fix x assume "x \<in> set out"
    then have "x \<in> set (initial # spread (2 ^ (strategy - 1)) es)" unfolding es(6) by (rule in_set_takeD)
    then show "x \<le> 24" using es(3) path_bounded [OF es(5)] by auto
  qed
  ultimately show ?thesis using es(1) by simp
qed

lemma channel_exponents_typed: "end_typed m \<Longrightarrow> ensures (read_channel_exponents strategy m) full_typed"
  unfolding read_channel_exponents_def
  by (intro ensures_pass ensures_lifted forward_intros ensures_ret)
    (auto simp: full_typed_def exponents_typed_def end_typed_def dest: decoded_typed)

lemma lfe_exponents_typed: "ensures read_lfe_exponents full_typed"
  unfolding read_lfe_exponents_def
  by (intro ensures_pass ensures_lifted forward_intros ensures_ret)
    (auto simp: full_typed_def exponents_typed_def dest: decoded_typed)

lemma enhanced_table_increases:
  "i < j \<Longrightarrow> j < 23 \<Longrightarrow> ENHANCED_COUPLING_SUBBAND_MANTISSA ! i < ENHANCED_COUPLING_SUBBAND_MANTISSA ! j
    \<and> ENHANCED_COUPLING_SUBBAND_MANTISSA ! j \<le> 253"
proof -
  have "sorted_wrt (<) ENHANCED_COUPLING_SUBBAND_MANTISSA" "length ENHANCED_COUPLING_SUBBAND_MANTISSA = 23"
    "list_all (\<lambda>m. m \<le> 253) ENHANCED_COUPLING_SUBBAND_MANTISSA"
    by (simp_all add: ENHANCED_COUPLING_SUBBAND_MANTISSA_def)
  then show "i < j \<Longrightarrow> j < 23 \<Longrightarrow> ENHANCED_COUPLING_SUBBAND_MANTISSA ! i < ENHANCED_COUPLING_SUBBAND_MANTISSA ! j
      \<and> ENHANCED_COUPLING_SUBBAND_MANTISSA ! j \<le> 253"
    by (auto simp: sorted_wrt_nth_less list_all_length)
qed

lemma third_range: "a < b \<Longrightarrow> a mod 3 = 1 \<Longrightarrow> b mod 3 = 1 \<Longrightarrow> (b - a + 1) mod 3 = (1 :: nat)"
proof -
  assume "a < b" "a mod 3 = 1" "b mod 3 = 1"
  then have "3 dvd b - a" using mod_eq_dvd_iff_nat [of a b 3] by simp
  then obtain k where "b - a = 3 * k" ..
  then show ?thesis by simp
qed

lemma coupling_range_typed:
  assumes "coupling_typed c" and "coupling_range c = Inr (first, ending)"
  shows "first < ending \<and> ending \<le> 253 \<and> (ending - first + 1) mod 3 = 1"
proof (cases c)
  case (StandardCoupling s)
  let ?n = "nat (std_end_frequency_code s + 3)"
  have r: "first = std_begin_frequency_code s * 12 + 37" "ending = ?n * 12 + 37" and n: "std_begin_frequency_code s < ?n" "?n \<le> 18"
    using assms StandardCoupling by (auto simp: coupling_range_def standard_begin_def Let_def split: if_splits)
  then have "ending - first + 1 = 1 + 3 * (4 * (?n - std_begin_frequency_code s))" by (simp add: diff_mult_distrib)
  then have "(ending - first + 1) mod 3 = 1" by (simp only: mod_mult_self2) simp
  then show ?thesis using r n by simp
next
  case (EnhancedCoupling e)
  let ?t = ENHANCED_COUPLING_SUBBAND_MANTISSA
  have r: "first = ?t ! enh_begin_subband e" "ending = ?t ! enh_end_subband e"
    and i: "enh_begin_subband e < length ?t" "enh_end_subband e < length ?t" "enh_begin_subband e < enh_end_subband e" "enh_end_subband e \<le> 22"
    using assms EnhancedCoupling by (auto simp: coupling_range_def attempt_Inr get_or_Inr Let_def)
  have "first < ending \<and> ending \<le> 253" using enhanced_table_increases [of "enh_begin_subband e" "enh_end_subband e"] i r by simp
  moreover have "first mod 3 = 1" "ending mod 3 = 1"
    using tables_typed(1) [OF i(1)] tables_typed(1) [OF i(2)] by (simp_all only: r end_typed_def)
  ultimately show ?thesis using third_range [of first ending] by simp
qed

lemma in_tlD: "x \<in> set (tl xs) \<Longrightarrow> x \<in> set xs"
  by (cases xs) auto

lemma coupling_exponents_typed:
  assumes "coupling_typed c"
  shows "ensures (parse_coupling_exponents_for_strategy strategy c) exponents_typed"
  unfolding parse_coupling_exponents_for_strategy_def
  apply (rule ensures_lifted, rule ensures_prod)
  apply (rule ensures_pass, intro forward_intros)
  apply (rule ensures_Let, rule ensures_guarded, rule ensures_Let)
  apply (rule ensures_pass, intro forward_intros)
  apply (rule ensures_pass, intro forward_intros)
  apply (rule ensures_lifted, rule ensures_ret)
  apply (use coupling_range_typed [OF assms] in \<open>auto simp: exponents_typed_def dest!: decoded_typed dest: in_tlD\<close>)
  done

lemma first_coupling_exponents_typed:
  assumes "optionally coupling_typed c"
  shows "ensures (parse_coupling_exponents frame c) (\<lambda>e. optionally exponents_typed e \<and> (e = None \<longleftrightarrow> c = None))"
  unfolding parse_coupling_exponents_def
  by (intro ensures_option ensures_ret ensures_bind [OF coupling_exponents_typed]) (use assms in auto)

lemma following_coupling_exponents_typed:
  assumes "optionally coupling_typed c" and "optionally exponents_typed previous"
  shows "ensures (parse_following_coupling_exponents frame block_index c previous)
    (\<lambda>e. optionally exponents_typed e \<and> (e = None \<longleftrightarrow> c = None))"
  unfolding parse_following_coupling_exponents_def
  by (intro ensures_option ensures_if ensures_ret ensures_fail ensures_bind [OF coupling_exponents_typed]) (use assms in auto)

lemma channels_typed_zip:
  assumes "list_all2 (\<lambda>_ e. \<exists>x. e = Some x \<and> full_typed x) (zip [0..<length ends] ends) es"
  shows "channels_typed (length ends) es"
  using assms by (auto simp: channels_typed_def dest: list_all2_lengthD list_all2_mem2)

lemma channels_typed_nth: "channels_typed n es \<Longrightarrow> i < length es \<Longrightarrow> es ! i = Some x \<Longrightarrow> full_typed x"
  by (fastforce simp: channels_typed_def dest: nth_mem)

lemma first_channel_exponents_typed:
  assumes "\<forall>m \<in> set ends. end_typed m"
  shows "ensures (parse_channel_exponents frame ends) (channels_typed (length ends))"
  unfolding parse_channel_exponents_def
  by (rule ensures_weaken [OF ensures_each [where P = "\<lambda>_ e. \<exists>x. e = Some x \<and> full_typed x"] channels_typed_zip])
    (use assms in \<open>auto intro!: ensures_bind [OF channel_exponents_typed] ensures_ret dest: set_zip_rightD\<close>)

lemma following_channel_exponents_typed:
  assumes "\<forall>m \<in> set ends. end_typed m" and "channels_typed n previous"
  shows "ensures (parse_following_channel_exponents frame block_index ends previous) (channels_typed (length ends))"
  unfolding parse_following_channel_exponents_def Let_def
  by (rule ensures_weaken [OF ensures_each [where P = "\<lambda>_ e. \<exists>x. e = Some x \<and> full_typed x"] channels_typed_zip])
    (use assms in \<open>auto intro!: ensures_bind [OF channel_exponents_typed] ensures_if ensures_ret ensures_fail
       dest: set_zip_rightD channels_typed_nth\<close>)

lemma first_lfe_typed:
  "ensures (parse_lfe_exponents frame) (\<lambda>e. optionally full_typed e \<and> (lfe_on (af_bsi frame) \<longleftrightarrow> e \<noteq> None))"
  unfolding parse_lfe_exponents_def
  by (intro ensures_if ensures_ret ensures_fail ensures_bind [OF lfe_exponents_typed]) auto

lemma following_lfe_typed:
  assumes "optionally full_typed previous"
  shows "ensures (parse_following_lfe_exponents frame block_index previous)
    (\<lambda>e. optionally full_typed e \<and> (lfe_on (af_bsi frame) \<longleftrightarrow> e \<noteq> None))"
  unfolding parse_following_lfe_exponents_def
  by (intro ensures_if ensures_option ensures_ret ensures_fail ensures_bind [OF lfe_exponents_typed]) (use assms in auto)

section \<open>Allocation codes\<close>

lemma parameters_run: "ensures (parse_bit_allocation_parameters frame) (optionally parameters_typed)"
  unfolding parse_bit_allocation_parameters_def
  apply (rule ensures_if)
   apply (rule ensures_ret, simp add: DEFAULT_PARAMETERS_def parameters_typed_def)
  apply (rule ensures_pass, intro forward_intros)
  apply (rule ensures_weaken [OF ensures_optional [where P = parameters_typed]])
   apply (rule ensures_bind [OF ensures_u8 [where Q = "\<lambda>v. v < 4"]], simp)
   apply (rule ensures_bind [OF ensures_u8 [where Q = "\<lambda>v. v < 4"]], simp)
   apply (rule ensures_bind [OF ensures_u8 [where Q = "\<lambda>v. v < 4"]], simp)
   apply (rule ensures_bind [OF ensures_u8 [where Q = "\<lambda>v. v < 4"]], simp)
   apply (rule ensures_bind [OF ensures_u8 [where Q = "\<lambda>v. v < 8"]], simp)
   apply (rule ensures_ret, simp add: parameters_typed_def)
  apply simp
  done

lemma codes_run:
  assumes "2 ^ width = n"
  shows "ensures (read_element_codes width coupled (frame_channels frame) (lfe_on (af_bsi frame))) (element_codes_typed n frame)"
proof -
  have code: "ensures (eac3_u8 width) (\<lambda>v. v < n)" using assms by (intro ensures_u8) simp
  show ?thesis
    unfolding read_element_codes_def
    by (rule ensures_bind [OF ensures_optional [OF code]], rule ensures_bind [OF ensures_repeat [OF code]],
        rule ensures_bind [OF ensures_optional [OF code]], rule ensures_ret)
      (auto simp: element_codes_typed_def below_def)
qed

lemma uniform_typed:
  "coarse < 64 \<Longrightarrow> fine < 16 \<Longrightarrow> offsets_typed frame (uniform_offsets coarse fine coupled (frame_channels frame) (lfe_on (af_bsi frame)))"
  by (simp add: offsets_typed_def uniform_offsets_def element_codes_typed_def below_def)

lemma offsets_run:
  "ensures (read_snr_offsets strategy coupled (frame_channels frame) (lfe_on (af_bsi frame))) (offsets_typed frame)"
  unfolding read_snr_offsets_def
  apply (rule ensures_bind [OF ensures_u8 [where Q = "\<lambda>v. v < 64"]], simp)
  apply (rule ensures_if)
   apply (rule ensures_bind [OF ensures_u8 [where Q = "\<lambda>v. v < 16"]], simp)
   apply (rule ensures_ret, erule (1) uniform_typed)
  apply (rule ensures_bind [OF codes_run [where n = 16]], simp)
  apply ((rule ensures_prod)+, rule ensures_ret, simp add: offsets_typed_def)
  done

lemma first_offsets_run:
  "ensures (parse_snr_offsets frame c (frame_channels frame))
     (\<lambda>s. optionally (offsets_typed frame) s \<and> (s = None \<longleftrightarrow> snr_offset_strategy frame = 0))"
  unfolding parse_snr_offsets_def
  by (intro ensures_if ensures_ret ensures_bind [OF offsets_run]) auto

lemma following_offsets_run:
  "ensures (parse_following_snr_offsets frame block_index c (frame_channels frame) previous) (optionally (offsets_typed frame))"
  unfolding parse_following_snr_offsets_def
  by (intro ensures_if ensures_pass ensures_ret ensures_fail ensures_bind [OF offsets_run] forward_intros) auto

lemma gains_run: "ensures (parse_fast_gain_codes frame c (frame_channels frame)) (\<lambda>g. \<exists>x. g = Some x \<and> gains_typed frame x)"
  unfolding parse_fast_gain_codes_def
  apply (rule ensures_Let)
  apply (rule ensures_pass, intro forward_intros)
  apply (rule ensures_if)
   apply (rule ensures_ret, simp add: gains_typed_def element_codes_typed_def below_def)
  apply (rule ensures_bind [OF codes_run [where n = 8]], simp)
  apply ((rule ensures_prod)+, rule ensures_ret, simp add: gains_typed_def)
  done

lemma leak_run: "ensures read_coupling_leak leak_typed"
  unfolding read_coupling_leak_def
  by (rule ensures_bind [OF ensures_u8 [where Q = "\<lambda>v. v \<le> 7"]], simp,
      rule ensures_bind [OF ensures_u8 [where Q = "\<lambda>v. v \<le> 7"]], simp, rule ensures_ret, simp add: leak_typed_def)

lemma first_leak_run:
  "ensures (parse_first_coupling_leak c) (\<lambda>l. optionally leak_typed l \<and> (l = None \<longleftrightarrow> c = None))"
  unfolding parse_first_coupling_leak_def by (rule ensures_weaken [OF ensures_optional [OF leak_run]]) auto

lemma following_leak_run:
  assumes "optionally leak_typed previous"
  shows "ensures (parse_following_coupling_leak c first_leak previous) (\<lambda>l. optionally leak_typed l \<and> (l = None \<longleftrightarrow> c = None))"
  unfolding parse_following_coupling_leak_def
  by (intro ensures_if ensures_pass ensures_option ensures_ret ensures_fail ensures_bind [OF leak_run] forward_intros)
    (use assms in auto)

lemma ac3_leak_run:
  assumes "optionally leak_typed previous"
  shows "ensures (ac3_coupling_leak c previous) (\<lambda>l. optionally leak_typed l \<and> (l = None \<longleftrightarrow> c = None))"
  unfolding ac3_coupling_leak_def
  by (intro ensures_if ensures_pass ensures_option ensures_ret ensures_fail ensures_bind [OF leak_run] forward_intros)
    (use assms in auto)

lemma ac3_codes_run:
  "ensures (read_ac3_codes coupled (frame_channels frame) (lfe_on (af_bsi frame)))
     (\<lambda>(s, g). offsets_typed frame s \<and> gains_typed frame g)"
proof -
  have four: "ensures (eac3_u8 4) (\<lambda>v. v < 16)" and three: "ensures (eac3_u8 3) (\<lambda>v. v < 8)"
    by (rule ensures_u8; simp)+
  have rows: "ensures (bind_rd (eac3_u8 4) (\<lambda>f. bind_rd (eac3_u8 3) (\<lambda>g. ret (f, g)))) (\<lambda>(f, g). f < 16 \<and> g < 8)"
    by (rule ensures_bind [OF four], rule ensures_bind [OF three], rule ensures_ret) simp
  show ?thesis
    unfolding read_ac3_codes_def
    apply (rule ensures_bind [OF ensures_u8 [where Q = "\<lambda>v. v < 64"]], simp)
    apply (rule ensures_bind [OF ensures_optional [OF four]], rule ensures_bind [OF ensures_optional [OF three]])
    apply (rule ensures_bind [OF ensures_repeat [OF rows]])
    apply (rule ensures_bind [OF ensures_optional [OF four]], rule ensures_bind [OF ensures_optional [OF three]])
    apply (rule ensures_ret)
    apply (auto simp: offsets_typed_def gains_typed_def element_codes_typed_def below_def)
    done
qed

section \<open>The first block\<close>

definition prefix_typed :: "audio_frame_information \<Rightarrow> audio_block_prefix \<Rightarrow> bool" where
  "prefix_typed frame p \<longleftrightarrow>
     spx_typed (spectral_extension p) \<and> optionally coupling_typed (coupling p)
     \<and> channels_typed (frame_channels frame) (channel_exponents p)
     \<and> (\<forall>e \<in> set (channel_exponents p). \<forall>x. e = Some x \<longrightarrow> end_typed (end_mantissa x))
     \<and> optionally full_typed (lfe_exponents p) \<and> (lfe_on (af_bsi frame) \<longleftrightarrow> lfe_exponents p \<noteq> None)
     \<and> optionally exponents_typed (coupling_exponents p) \<and> (coupling_exponents p = None \<longleftrightarrow> coupling p = None)
     \<and> optionally leak_typed (block_coupling_leak p) \<and> (block_coupling_leak p = None \<longleftrightarrow> coupling p = None)
     \<and> optionally parameters_typed (bit_allocation_codes p)
     \<and> optionally (offsets_typed frame) (block_snr_offsets p)
     \<and> (block_snr_offsets p = None \<longleftrightarrow> snr_offset_strategy frame = 0)
     \<and> (\<exists>g. block_fast_gains p = Some g \<and> gains_typed frame g)"

lemma channel_exponents_end: "ensures (read_channel_exponents strategy m) (\<lambda>e. end_mantissa e = m)"
  unfolding read_channel_exponents_def by (intro ensures_pass forward_intros ensures_ret) simp

lemma first_channel_ends:
  assumes "\<forall>m \<in> set ends. end_typed m"
  shows "ensures (parse_channel_exponents frame ends)
    (\<lambda>es. \<forall>e \<in> set es. \<forall>x. e = Some x \<longrightarrow> end_typed (end_mantissa x))"
  unfolding parse_channel_exponents_def
  by (rule ensures_weaken [OF ensures_each [where P = "\<lambda>_ e. \<forall>x. e = Some x \<longrightarrow> end_typed (end_mantissa x)"]])
    (use assms in \<open>auto intro!: ensures_bind [OF channel_exponents_end] ensures_ret
       dest: set_zip_rightD list_all2_mem2\<close>)

lemma first_prefix_typed: "ensures (parse_first_prefix_reader frame) (prefix_typed frame)"
  unfolding parse_first_prefix_reader_def Let_def
  apply (rule ensures_pass, intro forward_intros)
  apply (rule ensures_pass, intro forward_intros)
  apply (rule ensures_pass, intro forward_intros)
  apply (rule ensures_pass, intro forward_intros)
  apply (rule ensures_pass, intro forward_intros)
  apply (rule ensures_bind [OF first_spx_typed])
  apply (rule ensures_bind [OF ensures_optional [OF first_coupling_typed]], assumption)
  apply (rule ensures_pass, intro forward_intros)
  apply (rule ensures_bind_pair [OF bandwidths_typed])
  apply (rule ensures_bind [OF first_coupling_exponents_typed], blast)
  apply (rule ensures_bind [OF ensures_conj [OF first_channel_exponents_typed first_channel_ends]], simp, simp)
  apply (rule ensures_bind [OF first_lfe_typed])
  apply (rule ensures_bind [OF parameters_run])
  apply (rule ensures_bind [OF first_offsets_run])
  apply (rule ensures_bind [OF gains_run])
  apply (rule ensures_pass, intro forward_intros)
  apply (rule ensures_bind [OF first_leak_run])
  apply (rule ensures_pass, intro forward_intros)
  apply (rule ensures_pass, unfold parse_skip_field_def, intro forward_intros)
  apply (rule ensures_prod)
  apply (rule ensures_pass, intro forward_intros)
  apply (rule ensures_ret)
  apply (simp add: prefix_typed_def)
  done

lemma frame_offsets_typed:
  assumes "frame_well_typed frame" and "snr_offset_strategy frame = 0"
  shows "\<exists>s. frame_offsets frame coupled = Some s \<and> offsets_typed frame s"
proof -
  have "codes_match 0 (frame_coarse_snr_code frame) (frame_fine_snr_code frame)"
    using assms by (simp add: frame_well_typed_def Let_def)
  then show ?thesis
    by (auto simp: frame_offsets_def codes_match_def uniform_typed split: option.splits)
qed

lemma default_parameters_typed: "parameters_typed DEFAULT_PARAMETERS"
  by (simp add: parameters_typed_def DEFAULT_PARAMETERS_def)

lemma seed_typed:
  assumes "prefix_typed frame p" and "frame_well_typed frame" and "seed_first p frame st = Inr st'"
  shows "block_typed frame st'"
proof -
  obtain ends where ends: "attempt_map (\<lambda>e. case e of Some x \<Rightarrow> Inr (end_mantissa x) | None \<Rightarrow> Inl FrameSizeOverflow)
      (channel_exponents p) = Inr ends" and st: "st_end_mantissas st' = ends"
    using assms(3) by (auto simp: seed_first_def attempt_Inr)
  have "\<forall>m \<in> set ends. end_typed m"
    using ends assms(1) unfolding attempt_map_Inr
    by (auto simp: prefix_typed_def dest!: list_all2_mem2 split: option.splits)
  moreover have "\<exists>s. or_else (block_snr_offsets p) (frame_offsets frame (coupling p \<noteq> None)) = Some s \<and> offsets_typed frame s"
    using assms(1,2) frame_offsets_typed [OF assms(2), of "coupling p \<noteq> None"]
    by (cases "block_snr_offsets p") (auto simp: or_else_def prefix_typed_def)
  moreover have "\<exists>x. or_else (bit_allocation_codes p) (Some DEFAULT_PARAMETERS) = Some x \<and> parameters_typed x"
    using assms(1) default_parameters_typed by (cases "bit_allocation_codes p") (auto simp: or_else_def prefix_typed_def)
  moreover note assms(1) [unfolded prefix_typed_def]
  ultimately have "block_typed frame (st\<lparr>st_spectral_extension := spectral_extension p, st_coupling := coupling p,
      st_end_mantissas := ends, st_coupling_exponents := coupling_exponents p,
      st_channel_exponents := channel_exponents p, st_lfe_exponents := lfe_exponents p,
      st_parameters := or_else (bit_allocation_codes p) (Some DEFAULT_PARAMETERS),
      st_snr_offsets := or_else (block_snr_offsets p) (frame_offsets frame (coupling p \<noteq> None)),
      st_fast_gains := block_fast_gains p, st_coupling_leak := block_coupling_leak p\<rparr>)"
    by (simp add: block_typed_def)
  with assms(3) show ?thesis
    unfolding seed_first_def ends by (simp add: block_typed_def) (erule subst, simp)
qed

section \<open>The following blocks\<close>

lemma following_prefix_typed:
  assumes "block_typed frame st"
  shows "ensures (parse_following_prefix frame block_index st) (\<lambda>(_, st'). block_typed frame st')"
proof -
  have st: "spx_typed (st_spectral_extension st)" "optionally coupling_typed (st_coupling st)"
    "\<forall>m \<in> set (st_end_mantissas st). end_typed m" "channels_typed (frame_channels frame) (st_channel_exponents st)"
    "optionally full_typed (st_lfe_exponents st)" "optionally exponents_typed (st_coupling_exponents st)"
    "optionally leak_typed (st_coupling_leak st)"
    using assms by (simp_all add: block_typed_def)
  obtain codes s where old: "st_parameters st = Some codes" "parameters_typed codes" "st_snr_offsets st = Some s"
    "offsets_typed frame s"
    using assms by (auto simp: block_typed_def)
  show ?thesis
    unfolding parse_following_prefix_def Let_def
    apply (rule ensures_pass, intro forward_intros)
    apply (rule ensures_pass, intro forward_intros)
    apply (rule ensures_pass, intro forward_intros)
    apply (rule ensures_pass, intro forward_intros)
    apply (rule ensures_bind_pair [OF following_spx_typed], rule st)
    apply (rule ensures_bind [OF following_coupling_typed], simp, rule st)
    apply ((rule ensures_prod)+)
    apply (rule ensures_pass, intro forward_intros)
    apply (rule ensures_bind_pair [OF following_bandwidths_typed], rule st)
    apply (rule ensures_bind [OF following_coupling_exponents_typed], simp, rule st)
    apply (rule ensures_bind [OF following_channel_exponents_typed], simp, rule st)
    apply (rule ensures_bind [OF following_lfe_typed], rule st)
    apply (rule ensures_bind [OF parameters_run])
    apply (rule ensures_bind [OF following_offsets_run])
    apply (rule ensures_bind [OF gains_run])
    apply (rule ensures_pass, intro forward_intros)
    apply (rule ensures_bind [OF following_leak_run], rule st)
    apply (rule ensures_pass, intro forward_intros)
    apply (rule ensures_pass, unfold parse_skip_field_def, intro forward_intros)
    apply (rule ensures_prod)
    apply (rule ensures_pass, intro forward_intros)
    apply (rule ensures_ret)
    apply (auto simp: block_typed_def or_else_def old split: option.splits)
    done
qed

section \<open>The original syntax\<close>

lemma same_frame_refl [simp]: "same_frame f f"
  by (simp add: same_frame_def)

lemma same_frame_trans: "same_frame f g \<Longrightarrow> same_frame g h \<Longrightarrow> same_frame f h"
  by (simp add: same_frame_def)

lemma block_typed_same: "same_frame f g \<Longrightarrow> block_typed g st \<longleftrightarrow> block_typed f st"
  by (simp add: same_frame_def block_typed_def offsets_typed_def gains_typed_def element_codes_typed_def)

lemma ac3_strategy_typed: "ensures (read_ac3_strategy frame channels) (\<lambda>v. coupling_typed (StandardCoupling v))"
proof -
  have end4: "ensures (bind_rd (eac3_u8 4) (\<lambda>code. ret (int code))) (\<lambda>e. e \<le> 15)"
    by (rule ensures_bind [OF ensures_u8 [where Q = "\<lambda>v. v < 16"]], simp, rule ensures_ret, simp)
  show ?thesis
    unfolding read_ac3_strategy_def
    apply (rule ensures_pass, intro forward_intros)
    apply (rule ensures_guarded)
    apply (rule ensures_bind [OF standard_range_typed [OF end4]], clarify)
    apply (rule ensures_pass, intro forward_intros)
    apply (rule ensures_Let, rule ensures_ret, simp)
    done
qed

lemma ac3_coupling_typed:
  assumes "optionally coupling_typed (st_coupling st)"
  shows "ensures (ac3_coupling frame strategy_exists st) coupling_typed"
proof -
  have old: "previous_standard st = Some v \<Longrightarrow> coupling_typed (StandardCoupling v)" for v
    using assms by (auto simp: previous_standard_def split: option.splits coupling_information.splits)
  have info: "ensures (if strategy_exists then read_ac3_strategy frame (frame_channels frame)
      else some_or (previous_standard st) FrameSizeOverflow) (\<lambda>v. coupling_typed (StandardCoupling v))"
    by (intro ensures_if ac3_strategy_typed ensures_some_or old)
  show ?thesis
    unfolding ac3_coupling_def
    apply (rule ensures_guarded)
    apply (rule ensures_bind [OF info])
    apply (rule ensures_pass, intro forward_intros)
    apply (rule ensures_pass, intro forward_intros)
    apply (rule ensures_ret, simp)
    done
qed

lemma ac3_coupling_step_typed:
  assumes "optionally coupling_typed (st_coupling st)"
  shows "ensures (ac3_coupling_step frame block_index st) (\<lambda>(c, g). optionally coupling_typed c \<and> same_frame frame g)"
  unfolding ac3_coupling_step_def
  apply (rule ensures_pass, intro forward_intros)
  apply (rule ensures_guarded)
  apply (rule ensures_pass, intro forward_intros)
  apply (rule ensures_Let)
  apply (rule ensures_bind [OF ensures_optional [OF ac3_coupling_typed]], rule assms)
  apply (rule ensures_ret, simp add: same_frame_def)
  done

lemma ac3_strategies_same: "ensures (ac3_strategies frame block_index coupled) (same_frame frame)"
  unfolding ac3_strategies_def
  by (intro ensures_pass forward_intros ensures_ret) (simp add: same_frame_def)

lemma ac3_exponents_typed:
  assumes c: "optionally coupling_typed c" and ends: "\<forall>m \<in> set ends. end_typed m" "length ends = frame_channels frame"
    and st: "block_index \<noteq> 0 \<Longrightarrow> block_typed frame st"
  shows "ensures (ac3_exponents frame block_index c ends st) (\<lambda>(ce, che, le).
    optionally exponents_typed ce \<and> (ce = None \<longleftrightarrow> c = None) \<and> channels_typed (frame_channels frame) che
    \<and> optionally full_typed le \<and> (lfe_on (af_bsi frame) \<longleftrightarrow> le \<noteq> None))"
proof -
  have coupling: "ensures (if block_index = 0 then parse_coupling_exponents frame c
      else parse_following_coupling_exponents frame block_index c (st_coupling_exponents st))
      (\<lambda>e. optionally exponents_typed e \<and> (e = None \<longleftrightarrow> c = None))"
    using c st by (intro ensures_if first_coupling_exponents_typed following_coupling_exponents_typed)
      (simp_all add: block_typed_def)
  have channels: "ensures (if block_index = 0 then parse_channel_exponents frame ends
      else parse_following_channel_exponents frame block_index ends (st_channel_exponents st))
      (channels_typed (frame_channels frame))"
    unfolding ends(2) [symmetric] using ends(1) st
    by (intro ensures_if first_channel_exponents_typed following_channel_exponents_typed [where n = "frame_channels frame"])
      (simp_all add: block_typed_def)
  have lfe: "ensures (if block_index = 0 then parse_lfe_exponents frame
      else parse_following_lfe_exponents frame block_index (st_lfe_exponents st))
      (\<lambda>e. optionally full_typed e \<and> (lfe_on (af_bsi frame) \<longleftrightarrow> e \<noteq> None))"
    using st by (intro ensures_if first_lfe_typed following_lfe_typed) (simp add: block_typed_def)
  show ?thesis
    unfolding ac3_exponents_def
    by (rule ensures_bind [OF ensures_map_err [OF coupling]], rule ensures_bind [OF ensures_map_err [OF channels]],
        rule ensures_bind [OF ensures_map_err [OF lfe]], rule ensures_ret) simp
qed

lemma block_typedI:
  "spx_typed (st_spectral_extension st) \<Longrightarrow> optionally coupling_typed (st_coupling st) \<Longrightarrow>
   \<forall>m \<in> set (st_end_mantissas st). end_typed m \<Longrightarrow> channels_typed (frame_channels frame) (st_channel_exponents st) \<Longrightarrow>
   optionally full_typed (st_lfe_exponents st) \<Longrightarrow> lfe_on (af_bsi frame) \<longleftrightarrow> st_lfe_exponents st \<noteq> None \<Longrightarrow>
   optionally exponents_typed (st_coupling_exponents st) \<Longrightarrow> st_coupling_exponents st = None \<longleftrightarrow> st_coupling st = None \<Longrightarrow>
   optionally leak_typed (st_coupling_leak st) \<Longrightarrow> st_coupling_leak st = None \<longleftrightarrow> st_coupling st = None \<Longrightarrow>
   \<exists>p. st_parameters st = Some p \<and> parameters_typed p \<Longrightarrow>
   \<exists>s. st_snr_offsets st = Some s \<and> offsets_typed frame s \<Longrightarrow>
   \<exists>g. st_fast_gains st = Some g \<and> gains_typed frame g \<Longrightarrow> block_typed frame st"
  by (simp add: block_typed_def)

lemma kept_typed:
  "optionally P a \<Longrightarrow> (a = None \<Longrightarrow> \<exists>x. b = Some x \<and> P x) \<Longrightarrow> \<exists>x. or_else a b = Some x \<and> P x"
  by (cases a) (auto simp: or_else_def)

lemma ac3_prefix_typed:
  assumes c: "optionally coupling_typed (st_coupling st)" and leak: "optionally leak_typed (st_coupling_leak st)"
    and st: "block_index \<noteq> 0 \<Longrightarrow> block_typed frame st"
  shows "ensures (parse_ac3_audio_block_prefix_reader frame block_index st)
    (\<lambda>(_, g, st'). same_frame frame g \<and> block_typed frame st')"
proof -
  have ends: "ensures (if block_index = 0 then parse_channel_bandwidths c None (frame_channels frame)
      else parse_following_channel_bandwidths h block_index c None st)
      (\<lambda>(_, ends). length ends = frame_channels h \<and> (\<forall>m \<in> set ends. end_typed m))" if "same_frame frame h" for c h
  proof -
    have "frame_channels frame = frame_channels h" using that by (simp add: same_frame_def)
    then show ?thesis
      using st by (intro ensures_if) (simp_all add: bandwidths_typed following_bandwidths_typed block_typed_def)
  qed
  have old: "block_index \<noteq> 0 \<Longrightarrow> (\<exists>p. st_parameters st = Some p \<and> parameters_typed p)
      \<and> (\<exists>s. st_snr_offsets st = Some s \<and> offsets_typed frame s) \<and> (\<exists>g. st_fast_gains st = Some g \<and> gains_typed frame g)"
    using st by (simp add: block_typed_def)
  have parameters: "\<exists>p. or_else x (or_else (st_parameters st) (Some DEFAULT_PARAMETERS)) = Some p \<and> parameters_typed p"
    if "optionally parameters_typed x" "0 < block_index \<or> x \<noteq> None" for x
    using that old by (intro kept_typed) (auto simp: or_else_def)
  have offsets: "\<exists>s. or_else (map_option fst x) (st_snr_offsets st) = Some s \<and> offsets_typed frame s"
    and gains: "\<exists>g. or_else (map_option snd x) (st_fast_gains st) = Some g \<and> gains_typed frame g"
    if "optionally (\<lambda>(s, g). offsets_typed frame s \<and> gains_typed frame g) x" "0 < block_index \<or> x \<noteq> None" for x
    using that old by (cases x; auto simp: or_else_def)+
  show ?thesis
    unfolding parse_ac3_audio_block_prefix_reader_def Let_def
    apply (rule ensures_pass, intro forward_intros)
    apply (rule ensures_pass, intro forward_intros)
    apply (rule ensures_pass, intro forward_intros)
    apply (rule ensures_pass, intro forward_intros)
    apply (rule ensures_bind_pair [OF ac3_coupling_step_typed [OF c]])
    apply (rule ensures_pass, intro forward_intros)
    apply (rule ensures_bind [OF ac3_strategies_same])
    subgoal for _ _ _ _ c g _ h
      apply (subgoal_tac "same_frame frame h")
       prefer 2 apply (auto intro: same_frame_trans)[1]
      apply (rule ensures_bind_pair [OF ends], assumption)
      apply (rule ensures_bind [OF ac3_exponents_typed], simp, simp, simp, use st block_typed_same in blast)
      apply (rule ensures_prod)+
      apply (rule ensures_bind [OF parameters_run])
      apply (rule ensures_guarded)
      apply (rule ensures_pass, intro forward_intros)
      apply (rule ensures_bind [OF ensures_optional [OF ac3_codes_run]])
      apply (rule ensures_guarded)
      apply (rule ensures_bind [OF ac3_leak_run [OF leak]])
      apply (rule ensures_pass, intro forward_intros)
      apply (rule ensures_pass, unfold parse_skip_field_def, intro forward_intros)
      apply (rule ensures_prod)
      apply (rule ensures_pass, intro forward_intros)
      apply (rule ensures_ret)
      subgoal for codes ends _ ce che le _ _ params _ new_codes
        unfolding prod.case
        apply (intro conjI block_typedI)
                     apply assumption
                    apply simp_all
             apply (simp_all add: same_frame_def)
          apply (rule parameters, assumption, simp)
         apply (rule offsets, blast, auto)[1]
        apply (rule gains, blast, auto)[1]
        done
      done
    done
qed

section \<open>Reachable states\<close>

text \<open>
  The states between the blocks of a frame: a block prefix parsed by a well-behaved reader, then the
  mantissas, which replace nothing but the transform states.
\<close>

inductive reached :: "audio_frame_information \<Rightarrow> nat \<Rightarrow> audio_frame_information \<Rightarrow> audio_block_state \<Rightarrow> bool"
  for f where
  reached_start: "reached f 0 f (new_block_state (frame_channels f))"
| reached_block: "reached f i g st \<Longrightarrow> reader_ok r \<Longrightarrow> parse_block_prefix g i st r = (Inr (p, h, st'), r') \<Longrightarrow>
    reached f (Suc i) h (st'\<lparr>st_channel_aht := a, st_coupling_aht := b, st_lfe_aht := c\<rparr>)"

lemma block_typed_aht [simp]:
  "block_typed f (st\<lparr>st_channel_aht := a, st_coupling_aht := b, st_lfe_aht := c\<rparr>) = block_typed f st"
  by (simp add: block_typed_def)

lemma first_block_typed:
  assumes "frame_well_typed frame"
  shows "ensures (parse_audio_block_prefix_reader frame 0 st) (\<lambda>(_, st'). block_typed frame st')"
  unfolding parse_audio_block_prefix_reader_def
  by (simp, rule ensures_bind [OF first_prefix_typed], rule ensures_lifted, rule ensures_ret)
    (simp add: seed_typed [OF _ assms])

lemma block_step_typed:
  assumes same: "same_frame f g" and f: "frame_well_typed f"
    and g: "stream_type (bsi_header (af_bsi f)) \<noteq> LegacyIndependent \<Longrightarrow> g = f"
    and st: "if i = 0 then st = new_block_state (frame_channels f) else block_typed f st"
  shows "ensures (parse_block_prefix g i st) (\<lambda>(_, h, st'). same_frame f h \<and> block_typed f st'
    \<and> (stream_type (bsi_header (af_bsi f)) \<noteq> LegacyIndependent \<longrightarrow> h = f))"
proof (cases "stream_type (bsi_header (af_bsi f)) = LegacyIndependent")
  case True
  then have "stream_type (bsi_header (af_bsi g)) = LegacyIndependent" using same by (simp add: same_frame_def)
  moreover have "ensures (parse_ac3_audio_block_prefix_reader g i st) (\<lambda>(_, h, st'). same_frame g h \<and> block_typed g st')"
  proof (rule ac3_prefix_typed)
    show "optionally coupling_typed (st_coupling st)" and "optionally leak_typed (st_coupling_leak st)"
      using st by (auto simp: new_block_state_def block_typed_def split: if_splits)
    show "i \<noteq> 0 \<Longrightarrow> block_typed g st" using st same by (simp add: block_typed_same)
  qed
  ultimately show ?thesis
    using True same unfolding parse_block_prefix_def
    by (simp, intro ensures_map_err) (erule ensures_weaken, auto simp: block_typed_same intro: same_frame_trans)
next
  case False
  have "ensures (parse_audio_block_prefix_reader f i st) (\<lambda>(_, st'). block_typed f st')"
  proof (cases "i = 0")
    case True
    then show ?thesis using first_block_typed [OF f] by simp
  next
    case False
    then show ?thesis
      using following_prefix_typed [of f st i] st by (simp add: parse_audio_block_prefix_reader_def)
  qed
  then show ?thesis
    using False g by (auto simp: parse_block_prefix_def intro!: ensures_bind_pair ensures_ret)
qed

lemma reached_typed:
  assumes "reached f i g st" and f: "frame_well_typed f"
  shows "same_frame f g \<and> (stream_type (bsi_header (af_bsi f)) \<noteq> LegacyIndependent \<longrightarrow> g = f)
    \<and> (if i = 0 then st = new_block_state (frame_channels f) else block_typed f st)"
  using assms(1)
proof induction
  case reached_start
  then show ?case by simp
next
  case (reached_block i g st r p h st' r' a b c)
  from block_step_typed [of f g i st] reached_block.IH f
  have "ensures (parse_block_prefix g i st) (\<lambda>(_, h, st'). same_frame f h \<and> block_typed f st'
      \<and> (stream_type (bsi_header (af_bsi f)) \<noteq> LegacyIndependent \<longrightarrow> h = f))" by blast
  from ensuresD [OF this reached_block.hyps(2,3)] show ?case by simp
qed

section \<open>The allocation of a typed block\<close>

text \<open>
  The pointers of an element: they exist for every legal delta, without fail when the block has zero
  pointers, one for each bin of the element and within the bounds of their tables.
\<close>

definition allocates ::
  "exponent_information \<Rightarrow> bit_allocation_parameters \<Rightarrow> nat \<Rightarrow> nat \<Rightarrow> nat \<Rightarrow> nat \<Rightarrow>
   delta_bit_allocation_element option \<Rightarrow> (nat \<times> nat) option \<Rightarrow> bool" where
  "allocates information codes gain coarse fine fscod delta leaks \<longleftrightarrow>
     (\<forall>zero_bap.
        (succeeds (attempt (element_baps information codes gain coarse fine fscod delta leaks zero_bap) (active_baps information))
          \<longleftrightarrow> zero_bap \<or> delta_ok delta)
      \<and> (succeeds (high_efficiency_element_baps information codes gain coarse fine fscod delta leaks zero_bap)
          \<longleftrightarrow> zero_bap \<or> delta_ok delta)
      \<and> (\<forall>baps. attempt (element_baps information codes gain coarse fine fscod delta leaks zero_bap) (active_baps information) = Inr baps
          \<longrightarrow> length baps = length (exp_decoded information) \<and> (\<forall>b \<in> set baps. b \<le> 15))
      \<and> (\<forall>baps. high_efficiency_element_baps information codes gain coarse fine fscod delta leaks zero_bap = Inr baps
          \<longrightarrow> length baps = length (exp_decoded information) \<and> (\<forall>b \<in> set baps. b \<le> 19)))"

lemma active_run:
  assumes "exponents_typed e" and "length baps = end_mantissa e"
  shows "active_baps e baps = Inr (slice (start_mantissa e) (end_mantissa e) baps)"
    and "length (slice (start_mantissa e) (end_mantissa e) baps) = length (exp_decoded e)"
  using assms by (auto simp: active_baps_def exponents_typed_def slice_def Let_def)

lemma in_sliceD: "x \<in> set (slice a b xs) \<Longrightarrow> x \<in> set xs"
  by (auto simp: slice_def dest: in_set_takeD in_set_dropD)

lemma typed_allocates:
  assumes e: "exponents_typed e" and codes: "parameters_typed codes" "gain < 8" and snr: "coarse < 64" "fine < 16"
    and "fscod < 3" and leaks: "leaks_ok (start_mantissa e) (end_mantissa e) leaks"
  shows "allocates e codes gain coarse fine fscod delta leaks"
proof -
  let ?x = "replicate (start_mantissa e) 0 @ exp_decoded e"
  have full: "full_exponents e = Inr ?x" and len: "length ?x = end_mantissa e"
    using e by (simp_all add: full_exponents_def exponents_typed_def Let_def)
  have ok: "element_ok ?x (start_mantissa e) (end_mantissa e) codes gain fscod delta leaks \<longleftrightarrow> delta_ok delta"
    using assms len by (auto simp: element_ok_def exponents_typed_def codes_ok_def parameters_typed_def)
  note total = element_total [OF pointer_tables(1) tables_sorted(3), of ?x "start_mantissa e" "end_mantissa e" codes gain
      coarse fine fscod delta leaks]
    element_total [OF pointer_tables(2) tables_sorted(4), of ?x "start_mantissa e" "end_mantissa e" codes gain
      coarse fine fscod delta leaks]
  have snr': "coarse \<le> 63" "fine \<le> 15" using snr by simp_all
  have bounds: "active_baps e baps = Inr (slice (start_mantissa e) (end_mantissa e) baps)
      \<and> length (slice (start_mantissa e) (end_mantissa e) baps) = length (exp_decoded e)
      \<and> (\<forall>b \<in> set (slice (start_mantissa e) (end_mantissa e) baps). b \<le> n)"
    if "pointers_ok n ?x (start_mantissa e) (end_mantissa e) baps" for n baps
    using that active_run [OF e, of baps] len
    by (auto simp: pointers_ok_def in_set_conv_nth dest!: in_sliceD)
  have zero: "active_baps e (replicate (end_mantissa e) 0) = Inr (replicate (length (exp_decoded e)) 0)"
    using active_run [OF e, of "replicate (end_mantissa e) 0"]
    by (simp add: slice_def)
  have run: "(succeeds (attempt x (active_baps e)) \<longleftrightarrow> succeeds x)
      \<and> (\<forall>baps. attempt x (active_baps e) = Inr baps \<longrightarrow> length baps = length (exp_decoded e) \<and> (\<forall>b \<in> set baps. b \<le> n))"
    if "\<forall>bap. x = Inr bap \<longrightarrow> pointers_ok n ?x (start_mantissa e) (end_mantissa e) bap" for x n
    using that bounds [of n] by (cases x) (auto simp: succeeds_def)
  note standard = run [OF conjunct2 [OF total(1)]] and high = run [OF conjunct2 [OF total(2)]]
  have "succeeds (element_bap bit_allocation_pointer ?x (start_mantissa e) (end_mantissa e) codes gain coarse fine fscod delta leaks)
      \<longleftrightarrow> delta_ok delta"
    "succeeds (element_bap high_efficiency_bit_allocation_pointer ?x (start_mantissa e) (end_mantissa e) codes gain coarse fine
        fscod delta leaks) \<longleftrightarrow> delta_ok delta"
    using conjunct1 [OF total(1)] conjunct1 [OF total(2)] ok snr' by blast+
  with standard high zero show ?thesis
    unfolding allocates_def element_baps_def high_efficiency_element_baps_def full attempt_simps compute_element_bap_def
      compute_high_efficiency_element_bap_def
    by (intro allI) (case_tac zero_bap; simp add: succeeds_def)
qed

lemma channel_leaks: "full_typed e \<Longrightarrow> leaks_ok (start_mantissa e) (end_mantissa e) None"
  by (simp add: full_typed_def leaks_ok_def)

lemma block_allocates:
  assumes "block_typed f st" and "fscod < 3"
  shows "\<exists>codes snr gains. st_parameters st = Some codes \<and> st_snr_offsets st = Some snr \<and> st_fast_gains st = Some gains
    \<and> (\<forall>channel < frame_channels f. \<exists>e. st_channel_exponents st ! channel = Some e
        \<and> allocates e codes (gain_channels gains ! channel) (coarse_code snr) (channel_fine_codes snr ! channel) fscod
            (previous_delta (st_delta st) channel) None)
    \<and> (lfe_on (af_bsi f) \<longrightarrow> (\<exists>e gain fine. st_lfe_exponents st = Some e \<and> gain_lfe gains = Some gain
        \<and> lfe_fine_code snr = Some fine \<and> allocates e codes gain (coarse_code snr) fine fscod None None))
    \<and> (st_coupling st \<noteq> None \<longrightarrow> (\<exists>e. st_coupling_exponents st = Some e \<and> element_leaks st \<noteq> None
        \<and> (\<forall>gain fine. gain_coupling gains = Some gain \<longrightarrow> coupling_fine_code snr = Some fine
            \<longrightarrow> allocates e codes gain (coarse_code snr) fine fscod (Option.bind (st_delta st) delta_coupling)
                  (element_leaks st))))"
proof -
  note st = assms(1) [unfolded block_typed_def]
  obtain codes snr gains where c: "st_parameters st = Some codes" "parameters_typed codes"
    and s: "st_snr_offsets st = Some snr" "offsets_typed f snr"
    and g: "st_fast_gains st = Some gains" "gains_typed f gains"
    using st by blast
  have channels: "\<exists>e. st_channel_exponents st ! channel = Some e
      \<and> allocates e codes (gain_channels gains ! channel) (coarse_code snr) (channel_fine_codes snr ! channel) fscod
          (previous_delta (st_delta st) channel) None" if ch: "channel < frame_channels f" for channel
  proof -
    obtain e where e: "st_channel_exponents st ! channel = Some e" "full_typed e"
    proof -
      have typed: "channels_typed (frame_channels f) (st_channel_exponents st)" using st by blast
      then have "st_channel_exponents st ! channel \<in> set (st_channel_exponents st)"
        using ch by (intro nth_mem) (simp add: channels_typed_def)
      then show ?thesis using typed that by (auto simp: channels_typed_def)
    qed
    moreover have "gain_channels gains ! channel < 8" "channel_fine_codes snr ! channel < 16" "coarse_code snr < 64"
      using g s ch by (simp_all add: gains_typed_def offsets_typed_def element_codes_typed_def below_def)
    ultimately show ?thesis using c assms(2) by (auto simp: full_typed_def intro!: typed_allocates channel_leaks)
  qed
  have lfe: "\<exists>e gain fine. st_lfe_exponents st = Some e \<and> gain_lfe gains = Some gain
        \<and> lfe_fine_code snr = Some fine \<and> allocates e codes gain (coarse_code snr) fine fscod None None"
    if on: "lfe_on (af_bsi f)"
  proof -
    obtain e where e: "st_lfe_exponents st = Some e" "full_typed e" using st on by auto
    moreover obtain gain fine where "gain_lfe gains = Some gain" "gain < 8" "lfe_fine_code snr = Some fine" "fine < 16"
      using g s on by (auto simp: gains_typed_def offsets_typed_def element_codes_typed_def)
    moreover have "coarse_code snr < 64" using s by (simp add: offsets_typed_def)
    ultimately show ?thesis using c assms(2) by (auto simp: full_typed_def intro!: typed_allocates channel_leaks)
  qed
  have coupling: "\<exists>e. st_coupling_exponents st = Some e \<and> element_leaks st \<noteq> None
        \<and> (\<forall>gain fine. gain_coupling gains = Some gain \<longrightarrow> coupling_fine_code snr = Some fine
            \<longrightarrow> allocates e codes gain (coarse_code snr) fine fscod (Option.bind (st_delta st) delta_coupling)
                  (element_leaks st))" if on: "st_coupling st \<noteq> None"
  proof -
    obtain e l where e: "st_coupling_exponents st = Some e" "exponents_typed e" "st_coupling_leak st = Some l" "leak_typed l"
      using st on by auto
    then have leaks: "element_leaks st = Some (fast_code l, slow_code l)"
      "leaks_ok (start_mantissa e) (end_mantissa e) (element_leaks st)"
      by (simp_all add: element_leaks_def leaks_ok_def leak_typed_def)
    have "allocates e codes gain (coarse_code snr) fine fscod (Option.bind (st_delta st) delta_coupling) (element_leaks st)"
      if "gain_coupling gains = Some gain" "coupling_fine_code snr = Some fine" for gain fine
      using that g s c e(2) leaks(2) assms(2)
      by (intro typed_allocates) (simp_all add: gains_typed_def offsets_typed_def element_codes_typed_def)
    then show ?thesis using e leaks(1) by simp
  qed
  show ?thesis using c s g channels lfe coupling by blast
qed

text \<open>The mantissas replace the transform states only.\<close>

definition without_aht :: "audio_block_state \<Rightarrow> audio_block_state" where
  "without_aht st = st\<lparr>st_channel_aht := [], st_coupling_aht := None, st_lfe_aht := None\<rparr>"

lemma without_aht_simps [simp]: "without_aht (st\<lparr>st_channel_aht := a\<rparr>) = without_aht st"
  "without_aht (st\<lparr>st_coupling_aht := b\<rparr>) = without_aht st" "without_aht (st\<lparr>st_lfe_aht := c\<rparr>) = without_aht st"
  by (simp_all add: without_aht_def)

lemma without_aht_eq:
  "without_aht st' = without_aht st \<Longrightarrow>
   st' = st\<lparr>st_channel_aht := st_channel_aht st', st_coupling_aht := st_coupling_aht st', st_lfe_aht := st_lfe_aht st'\<rparr>"
  by (cases st; cases st') (simp add: without_aht_def)

lemma consume_parts_keep:
  "consume_coupling frame al gains channel st fl s = (Inr (go_on, fl', st'), t) \<Longrightarrow> without_aht st' = without_aht st"
  "consume_channel frame al gains channel st fl s = (Inr (go_on, fl', st'), t) \<Longrightarrow> without_aht st' = without_aht st"
  "consume_lfe frame al gains st fl s = (Inr (go_on, fl', st'), t) \<Longrightarrow> without_aht st' = without_aht st"
  by (auto simp: consume_coupling_def consume_channel_def consume_lfe_def ret_Inr
      elim!: bind_rd_InrE split: option.splits)

lemma consume_channels_keep:
  "consume_channels frame al gains channels coupled st fl s = (Inr (go_on, fl', st'), t) \<Longrightarrow>
   without_aht st' = without_aht st"
proof (induction channels arbitrary: coupled st fl s)
  case (Cons channel channels)
  from Cons.prems show ?case
    by (auto simp: ret_Inr elim!: bind_rd_InrE split: if_splits dest!: consume_parts_keep Cons.IH)
qed (simp add: ret_Inr)

lemma consume_block_keeps:
  assumes "consume_audio_block_mantissas frame al st fl r = (Inr (go_on, fl', st'), r')"
  shows "without_aht st' = without_aht st"
proof -
  obtain u where "bind_rd (need (st_fast_gains st)) (\<lambda>gains.
      bind_rd (consume_channels frame al gains [0..<frame_channels frame] False st fl) (\<lambda>(go_on, failures, st).
        if \<not> go_on then ret (False, failures, st) else consume_lfe frame al gains st failures))
      (r, initial_grouping) = (Inr (go_on, fl', st'), u)"
    using assms by (auto simp: consume_audio_block_mantissas_def split: prod.splits)
  then show ?thesis
    by (auto simp: ret_Inr elim!: bind_rd_InrE split: if_splits dest!: consume_channels_keep consume_parts_keep)
qed

lemma walk_reaches:
  assumes "reached f i g st" and "reader_ok r" and "parse_block_prefix g i st r = (Inr (p, h, st1), s)"
    and "consume_audio_block_mantissas h al st1 fl s = (Inr (go_on, fl', st2), t)"
  shows "reached f (Suc i) h st2"
  by (subst without_aht_eq [OF consume_block_keeps [OF assms(4)]]) (rule reached_block [OF assms(1-3)])

end
