(* ===== verification/Eac3BlockSpec.thy ===== *)
theory Eac3BlockSpec
  imports Eac3BlockTypes
begin

text \<open>
  First and following blocks compared: the bandwidths that the two parsers give the same strategies,
  and the offsets that a frame-wide strategy leaves in the state.
\<close>

section \<open>Bandwidths of first and following blocks\<close>

text \<open>The enhanced coupling channel that a channel takes part in.\<close>

definition in_enhanced :: "coupling_information option \<Rightarrow> nat \<Rightarrow> enhanced_coupling_information \<Rightarrow> bool" where
  "in_enhanced c channel e \<longleftrightarrow> c = Some (EnhancedCoupling e) \<and> enh_channel_in_use e ! channel"

lemma spx_begin_in_table:
  "spx_subband_range begin_code end_code = Inr (first, ending) \<Longrightarrow> first < length SPX_SUBBAND_MANTISSA"
  by (auto simp: spx_subband_range_def SPX_SUBBAND_MANTISSA_def Let_def split: if_splits)

lemma bandwidths_agree:
  assumes strategy: "channel_exponent_strategy frame ! block_index ! channel \<noteq> 0"
    and spx: "\<forall>s. spx = Some s \<longrightarrow> spx_begin_subband s < length SPX_SUBBAND_MANTISSA"
    and plain: "\<nexists>e. in_enhanced c channel e"
  shows "following_channel_bandwidth frame block_index c spx st channel = parse_channel_bandwidth c spx channel"
proof (cases c)
  case None
  then show ?thesis
    using strategy spx
    by (cases spx) (auto simp: following_channel_bandwidth_def parse_channel_bandwidth_def channel_uses_coupling_def
        spx_channel_active_def spx_end_mantissa_def get_or_def Let_def)
next
  case (Some info)
  show ?thesis
  proof (cases info)
    case (StandardCoupling s)
    with Some strategy spx show ?thesis
      by (cases spx) (auto simp: following_channel_bandwidth_def parse_channel_bandwidth_def channel_uses_coupling_def
          coupling_channel_in_use_def coupling_end_mantissa_def spx_channel_active_def spx_end_mantissa_def get_or_def Let_def)
  next
    case (EnhancedCoupling e)
    then have "\<not> enh_channel_in_use e ! channel" using Some plain by (simp add: in_enhanced_def)
    with Some EnhancedCoupling strategy spx show ?thesis
      by (cases spx) (auto simp: following_channel_bandwidth_def parse_channel_bandwidth_def channel_uses_coupling_def
          coupling_channel_in_use_def coupling_end_mantissa_def spx_channel_active_def spx_end_mantissa_def get_or_def Let_def)
  qed
qed

lemma bandwidths_differ:
  assumes "in_enhanced c channel e" and "coupling_typed (EnhancedCoupling e)"
  shows "parse_channel_bandwidth c spx channel = ret (None, ENHANCED_COUPLING_SUBBAND_MANTISSA ! enh_begin_subband e)"
    and "following_channel_bandwidth frame block_index c spx st channel
      = ret (None, ENHANCED_COUPLING_SUBBAND_MANTISSA ! enh_end_subband e)"
    and "ENHANCED_COUPLING_SUBBAND_MANTISSA ! enh_begin_subband e < ENHANCED_COUPLING_SUBBAND_MANTISSA ! enh_end_subband e"
proof -
  have len: "length ENHANCED_COUPLING_SUBBAND_MANTISSA = 23" by (simp add: ENHANCED_COUPLING_SUBBAND_MANTISSA_def)
  have c: "c = Some (EnhancedCoupling e)" "enh_channel_in_use e ! channel" "enh_begin_subband e < 23" "enh_end_subband e < 23"
    using assms by (auto simp: in_enhanced_def)
  then show "parse_channel_bandwidth c spx channel = ret (None, ENHANCED_COUPLING_SUBBAND_MANTISSA ! enh_begin_subband e)"
    by (simp add: parse_channel_bandwidth_def get_or_def len Let_def)
  show "following_channel_bandwidth frame block_index c spx st channel
      = ret (None, ENHANCED_COUPLING_SUBBAND_MANTISSA ! enh_end_subband e)"
    using c by (simp add: following_channel_bandwidth_def channel_uses_coupling_def coupling_channel_in_use_def
        coupling_end_mantissa_def get_or_def len Let_def)
  show "ENHANCED_COUPLING_SUBBAND_MANTISSA ! enh_begin_subband e < ENHANCED_COUPLING_SUBBAND_MANTISSA ! enh_end_subband e"
    using enhanced_table_increases [of "enh_begin_subband e" "enh_end_subband e"] assms(2) by simp
qed

section \<open>Frame-wide offsets\<close>

lemma first_coupling_absent:
  assumes "parse_first_prefix_reader frame r = (Inr p, r')" and "snr_offset_strategy frame = 0" and "\<not> coupling_in_use frame ! 0"
  shows "coupling p = None \<and> block_snr_offsets p = None"
  using assms by (auto simp: parse_first_prefix_reader_def Let_def parse_snr_offsets_def ret_Inr elim!: bind_rd_InrE)

lemma following_offsets_kept:
  assumes "parse_following_prefix frame block_index st r = (Inr (p, st'), r')" and "snr_offset_strategy frame = 0"
  shows "st_snr_offsets st' = or_else (st_snr_offsets st) (frame_offsets frame (coupling p \<noteq> None))"
  using assms
  by (auto simp: parse_following_prefix_def Let_def parse_following_snr_offsets_def ret_Inr elim!: bind_rd_InrE)
    (simp add: or_else_def)

lemma late_offsets:
  assumes reach: "reached f i g st" and f: "frame_well_typed f" "stream_type (bsi_header (af_bsi f)) \<noteq> LegacyIndependent"
    "snr_offset_strategy f = 0" "\<not> coupling_in_use f ! 0"
  shows "0 < i \<Longrightarrow> st_snr_offsets st = frame_offsets f False"
  using reach
proof induction
  case reached_start
  then show ?case by simp
next
  case (reached_block i g st r p h st' r' a b c)
  have g: "g = f" "if i = 0 then st = new_block_state (frame_channels f) else block_typed f st"
    using reached_typed [OF reached_block.hyps(1) f(1)] f(2) by simp_all
  have run: "parse_audio_block_prefix_reader f i st r = (Inr (p, st'), r')"
    using reached_block.hyps(3) f(2) by (auto simp: g(1) parse_block_prefix_def ret_Inr elim!: bind_rd_InrE)
  have "st_snr_offsets st' = frame_offsets f False"
  proof (cases "i = 0")
    case True
    with run obtain s where p: "parse_first_prefix_reader f r = (Inr p, s)" and seed: "seed_first p f st = Inr st'"
      by (auto simp: parse_audio_block_prefix_reader_def lift_rd_Inr ret_Inr elim!: bind_rd_InrE)
    from first_coupling_absent [OF p f(3,4)] seed show ?thesis
      by (auto simp: seed_first_def attempt_Inr or_else_def)
  next
    case False
    then have "parse_following_prefix f i st r = (Inr (p, st'), r')"
      using run by (simp add: parse_audio_block_prefix_reader_def)
    from following_offsets_kept [OF this f(3)] reached_block.IH False frame_offsets_typed [OF f(1,3), of False]
    show ?thesis by (auto simp: or_else_def)
  qed
  then show ?case by simp
qed

lemma coupling_without_code:
  assumes "coupling_fine_code (al_snr al) = None"
  shows "fst (consume_coupling frame al gains channel st failures s) = Inl FrameSizeOverflow"
  using assms
  by (cases "st_coupling_exponents st"; cases "gain_coupling gains")
    (auto simp: consume_coupling_def need_def fail_def)

lemma consume_channel_keeps_coupling:
  "consume_channel frame al gains channel st failures s = (Inr (go_on, failures', st'), s') \<Longrightarrow> st_coupling st' = st_coupling st"
  by (auto simp: consume_channel_def ret_Inr elim!: bind_rd_InrE)

lemma coupled_channels_stop:
  assumes "coupling_fine_code (al_snr al) = None"
  shows "\<exists>channel \<in> set channels. channel_uses_coupling (st_coupling st) channel \<Longrightarrow>
    consume_channels frame al gains channels False st failures s \<noteq> (Inr (True, failures', st'), s')"
proof (induction channels arbitrary: st failures s)
  case Nil
  then show ?case by simp
next
  case (Cons channel channels)
  show ?case
  proof
    assume run: "consume_channels frame al gains (channel # channels) False st failures s = (Inr (True, failures', st'), s')"
    then obtain fl st1 t where one: "consume_channel frame al gains channel st failures s = (Inr (True, fl, st1), t)"
      and rest: "(if channel_uses_coupling (st_coupling st1) channel
          then bind_rd (consume_coupling frame al gains channel st1 fl) (\<lambda>(go_on, fl, st2).
              if \<not> go_on then ret (False, fl, st2) else consume_channels frame al gains channels True st2 fl)
          else consume_channels frame al gains channels False st1 fl) t = (Inr (True, failures', st'), s')"
      by (auto simp: ret_Inr elim!: bind_rd_InrE split: if_splits)
    have same: "st_coupling st1 = st_coupling st" by (rule consume_channel_keeps_coupling [OF one])
    show False
    proof (cases "channel_uses_coupling (st_coupling st) channel")
      case True
      with rest same obtain x u where "consume_coupling frame al gains channel st1 fl t = (Inr x, u)"
        by (auto elim!: bind_rd_InrE)
      then show False using coupling_without_code [OF assms, of frame gains channel st1 fl t] by simp
    next
      case False
      with Cons.prems Cons.IH [of st1 fl t] rest same show False by simp
    qed
  qed
qed

lemma coupled_block_stops:
  assumes "coupling_fine_code (al_snr al) = None"
    and "channel < frame_channels frame" and "channel_uses_coupling (st_coupling st) channel"
  shows "consume_audio_block_mantissas frame al st failures r \<noteq> (Inr (True, failures', st'), r')"
proof
  assume "consume_audio_block_mantissas frame al st failures r = (Inr (True, failures', st'), r')"
  then obtain g gains s fl st1 t where
    "consume_channels frame al gains [0..<frame_channels frame] False st failures s = (Inr (True, fl, st1), t)"
    by (auto simp: consume_audio_block_mantissas_def ret_Inr elim!: bind_rd_InrE split: prod.splits if_splits)
  then show False using coupled_channels_stop [OF assms(1), of "[0..<frame_channels frame]"] assms(2,3) by fastforce
qed

lemma inspect_block_offsets:
  "inspect_block frame frame_bits fscod block_index st r = (Inr (c, g, st', al), r') \<Longrightarrow>
   st_snr_offsets st' = Some (al_snr al) \<and> (\<exists>p s t. parse_block_prefix frame block_index st s = (Inr (p, g, st'), t) \<and> (reader_ok r \<longrightarrow> reader_ok s))"
  by (fastforce simp: inspect_block_def some_or_def read_offset_def ret_Inr fail_Inr elim!: bind_rd_InrE split: option.splits if_splits)

lemma reached_prefix:
  assumes "reached f i g st" and "reader_ok r" and "parse_block_prefix g i st r = (Inr (p, h, st'), r')"
  shows "reached f (Suc i) h st'"
  using reached_block [OF assms, where a = "st_channel_aht st'" and b = "st_coupling_aht st'" and c = "st_lfe_aht st'"] by simp

end
