(* ===== verification/Eac3AhtSpec.thy ===== *)
theory Eac3AhtSpec
  imports Eac3Aht
begin

text \<open>
  The transform of the adaptive hybrid transform: the cosines that \<open>inverse_aht_dct\<close> sums are
  orthogonal over the six blocks, so the transform has an inverse and keeps the energy of a row up to
  the factor six.
\<close>

section \<open>The transform of the six blocks\<close>

lemma cos_sum_zero:
  assumes "0 < n" and "n < 12"
  shows "(\<Sum>m<6. cos (real n * real (2 * m + 1) * pi / 12)) = 0"
proof -
  let ?t = "real n * pi / 12"
  have pos: "sin ?t \<noteq> 0"
  proof -
    have "0 < ?t" "?t < pi" using assms pi_gt_zero by (simp_all add: field_simps)
    then show ?thesis using sin_gt_zero [of ?t] by simp
  qed
  have step: "2 * sin ?t * cos (real n * real (2 * m + 1) * pi / 12) = sin (real (2 * Suc m) * ?t) - sin (real (2 * m) * ?t)" for m
  proof -
    have halves: "(real (2 * Suc m) * ?t - real (2 * m) * ?t) / 2 = ?t"
      "(real (2 * Suc m) * ?t + real (2 * m) * ?t) / 2 = real n * real (2 * m + 1) * pi / 12"
      by (simp_all add: field_simps)
    show ?thesis unfolding sin_diff_sin [of "real (2 * Suc m) * ?t"] halves ..
  qed
  have "2 * sin ?t * (\<Sum>m<6. cos (real n * real (2 * m + 1) * pi / 12))
      = (\<Sum>m<6. sin (real (2 * Suc m) * ?t) - sin (real (2 * m) * ?t))"
    unfolding sum_distrib_left step ..
  also have "\<dots> = sin (real (2 * 6) * ?t) - sin (real (2 * 0) * ?t)"
    by (rule sum_lessThan_telescope)
  also have "\<dots> = 0" using sin_npi [of n] by (simp add: mult.commute)
  finally show ?thesis using pos by simp
qed

definition wave :: "nat \<Rightarrow> nat \<Rightarrow> real" where
  "wave j m = cos (real j * real (2 * m + 1) * pi / 12)"

definition wave_scale :: "nat \<Rightarrow> real" where
  "wave_scale j = sqrt 2 * (if j = 0 then sqrt (1 / 2) else 1)"

lemma wave_product: "k \<le> j \<Longrightarrow> wave j m * wave k m = (wave (j - k) m + wave (j + k) m) / 2"
  by (simp add: wave_def cos_times_cos of_nat_diff algebra_simps diff_divide_distrib add_divide_distrib)

lemma waves_orthogonal:
  assumes "j < 6" and "k < 6"
  shows "(\<Sum>m<6. wave j m * wave k m) = (if j \<noteq> k then 0 else if j = 0 then 6 else 3)"
proof -
  have total: "(\<Sum>m<6. wave n m) = (if n = 0 then 6 else 0)" if "n < 12" for n
    using cos_sum_zero [of n] that by (cases "n = 0") (simp_all add: wave_def)
  have ordered: "(\<Sum>m<6. wave j m * wave k m) = (if j \<noteq> k then 0 else if j = 0 then 6 else 3)"
    if "k \<le> j" "j < 6" for j k
  proof -
    have "(\<Sum>m<6. wave j m * wave k m) = (\<Sum>m<6. (wave (j - k) m + wave (j + k) m) / 2)"
      by (intro sum.cong refl wave_product that(1))
    also have "\<dots> = ((\<Sum>m<6. wave (j - k) m) + (\<Sum>m<6. wave (j + k) m)) / 2"
      by (simp only: sum_divide_distrib [symmetric] sum.distrib)
    finally show ?thesis using total [of "j - k"] total [of "j + k"] that by (auto split: if_splits)
  qed
  show ?thesis
    using ordered [of k j] ordered [of j k] assms by (cases "k \<le> j") (simp_all add: mult.commute)
qed

lemma wave_scale_square: "wave_scale j * (wave_scale j * x) = (if j = 0 then 1 else 2) * x"
proof -
  have "sqrt 2 * sqrt (1 / 2) = (1 :: real)" by (simp add: real_sqrt_mult [symmetric])
  then have "wave_scale 0 = 1" by (simp add: wave_scale_def)
  then show ?thesis by (cases "j = 0") (simp_all add: wave_scale_def mult.assoc [symmetric])
qed

text \<open>The six block values of a row of coefficients, and the coefficients of six block values.\<close>

definition block_values :: "real list \<Rightarrow> real list" where
  "block_values x = hd (inverse_aht_dct [x])"

definition forward_aht_dct :: "real list \<Rightarrow> real list" where
  "forward_aht_dct y = map (\<lambda>j. wave_scale j / 6 * (\<Sum>m<6. y ! m * wave j m)) [0..<6]"

lemma inverse_rows: "inverse_aht_dct spectrum = map block_values spectrum"
  by (simp add: inverse_aht_dct_def block_values_def)

lemma block_values_nth:
  assumes "m < 6"
  shows "block_values x ! m = (\<Sum>j<6. wave_scale j * x ! j * wave j m)"
proof -
  have "block_values x ! m = sqrt 2 * (\<Sum>j<6. (if j = 0 then sqrt (1 / 2) else 1) * x ! j * wave j m)"
    using assms by (simp add: block_values_def inverse_aht_dct_def interv_sum_list_conv_sum_set_nat wave_def atLeast0LessThan)
  then show ?thesis by (simp add: sum_distrib_left wave_scale_def mult.assoc)
qed

lemma block_values_project:
  assumes "k < 6"
  shows "(\<Sum>m<6. block_values x ! m * wave k m) = wave_scale k * x ! k * (if k = 0 then 6 else 3)"
proof -
  have "(\<Sum>m<6. block_values x ! m * wave k m) = (\<Sum>m<6. \<Sum>j<6. wave_scale j * x ! j * (wave j m * wave k m))"
    by (intro sum.cong) (simp_all add: block_values_nth sum_distrib_right mult.assoc)
  also have "\<dots> = (\<Sum>j<6. wave_scale j * x ! j * (\<Sum>m<6. wave j m * wave k m))"
    by (subst sum.swap) (simp add: sum_distrib_left)
  also have "\<dots> = (\<Sum>j<6. if j = k then wave_scale k * x ! k * (if k = 0 then 6 else 3) else 0)"
    using assms by (intro sum.cong) (auto simp: waves_orthogonal)
  finally show ?thesis using assms by simp
qed

lemma transform_roundtrip:
  assumes "length x = 6"
  shows "forward_aht_dct (block_values x) = x"
proof (rule nth_equalityI)
  show "length (forward_aht_dct (block_values x)) = length x" by (simp add: forward_aht_dct_def assms)
  fix j assume "j < length (forward_aht_dct (block_values x))"
  then have j: "j < 6" by (simp add: forward_aht_dct_def)
  have "forward_aht_dct (block_values x) ! j
      = wave_scale j * (wave_scale j * (x ! j)) * (if j = 0 then 6 else 3) / 6"
    using j block_values_project [OF j, of x] by (simp add: forward_aht_dct_def)
  then show "forward_aht_dct (block_values x) ! j = x ! j"
    by (simp add: wave_scale_square split: if_splits)
qed

lemma transform_energy: "(\<Sum>m<6. (block_values x ! m)\<^sup>2) = 6 * (\<Sum>j<6. (x ! j)\<^sup>2)"
proof -
  have "(\<Sum>m<6. (block_values x ! m)\<^sup>2) = (\<Sum>m<6. \<Sum>j<6. wave_scale j * x ! j * (block_values x ! m * wave j m))"
    by (intro sum.cong) (simp_all add: power2_eq_square block_values_nth sum_distrib_left mult_ac)
  also have "\<dots> = (\<Sum>j<6. wave_scale j * x ! j * (\<Sum>m<6. block_values x ! m * wave j m))"
    by (subst sum.swap) (simp add: sum_distrib_left)
  also have "\<dots> = (\<Sum>j<6. 6 * (x ! j)\<^sup>2)"
  proof (intro sum.cong refl)
    fix j :: nat assume "j \<in> {..<6}"
    then have "wave_scale j * x ! j * (\<Sum>m<6. block_values x ! m * wave j m)
        = wave_scale j * (wave_scale j * (x ! j * x ! j)) * (if j = 0 then 6 else 3)"
      by (simp add: block_values_project)
    then show "wave_scale j * x ! j * (\<Sum>m<6. block_values x ! m * wave j m) = 6 * (x ! j)\<^sup>2"
      by (simp only: wave_scale_square) (simp add: power2_eq_square split: if_splits)
  qed
  finally show ?thesis by (simp add: sum_distrib_left)
qed

end
