(* ===== verification/Eac3Joc.thy ===== *)
theory Eac3Joc
  imports Eac3Walk
begin

text \<open>
  The JOC candidate of an access unit, \<open>crates/openjoc-eac3/src/lib.rs\<close>: the EMDF carriers at the end of
  each frame of the unit and in the skip fields of its audio blocks, of which at most one may carry the
  profile, its placement, and the profile validation.
\<close>

section \<open>The candidate of an access unit\<close>

record parsed_joc_access_unit =
  carrier_frame :: nat
  parsed_sample_rate :: nat
  parsed_samples :: nat
  complexity_index :: nat
  parsed_emdf :: emdf_container

record joc_metadata_frame =
  mf_carrier_frame :: nat
  mf_sample_rate :: nat
  mf_samples :: nat
  mf_complexity_index :: nat
  mf_validation_profile :: joc_validation_profile
  mf_validation_status :: joc_validation_status
  mf_deviations :: "joc_profile_deviation list"
  mf_emdf :: emdf_container
  mf_oamd :: "u8 list"
  mf_joc :: "u8 list"

definition carries_profile :: "parsed_emdf \<Rightarrow> bool" where
  "carries_profile cand \<longleftrightarrow>
     (\<exists>p \<in> set (payloads (container cand)). payload_id p = OAMD_PAYLOAD_ID \<or> payload_id p = JOC_PAYLOAD_ID)"

definition register_joc_carrier ::
  "(nat \<times> parsed_emdf) option \<Rightarrow> nat \<Rightarrow> parsed_emdf \<Rightarrow> eac3_error + (nat \<times> parsed_emdf) option" where
  "register_joc_carrier found frame_index cand =
     (if \<not> carries_profile cand then Inr found
      else if found \<noteq> None then Inl MultipleJocCarriers
      else Inr (Some (frame_index, cand)))"

section \<open>Carriers in skip fields\<close>

text \<open>
  The callback: it registers a parsed carrier and keeps the first error; once there is an error the
  later carriers are not registered.
\<close>

definition inspect_carrier ::
  "nat \<Rightarrow> audio_block_carrier \<Rightarrow> (nat \<times> parsed_emdf) option \<times> eac3_error option \<Rightarrow>
   (nat \<times> parsed_emdf) option \<times> eac3_error option" where
  "inspect_carrier frame_index carrier = (\<lambda>(found, err).
     case ca_skip_field carrier of
       None \<Rightarrow> (found, err)
     | Some auxdata \<Rightarrow>
         (case classify_skip_field_emdf auxdata of
            NonEmdf \<Rightarrow> (found, err)
          | Parsed cand \<Rightarrow>
              if err = None then
                (case register_joc_carrier found frame_index cand of
                   Inl e \<Rightarrow> (found, Some e)
                 | Inr found \<Rightarrow> (found, None))
              else (found, err)
          | Malformed e \<Rightarrow> (found, case err of Some x \<Rightarrow> Some x | None \<Rightarrow> Some (Eac3Emdf e))
          | CarrierTrailingData a b \<Rightarrow>
              (found, case err of Some x \<Rightarrow> Some x | None \<Rightarrow> Some (EmdfCarrierTrailingData a b))))"

definition inspect_skip_joc_carriers ::
  "u8 list \<Rightarrow> nat \<Rightarrow> (nat \<times> parsed_emdf) option \<Rightarrow> eac3_error + (nat \<times> parsed_emdf) option" where
  "inspect_skip_joc_carriers frame frame_index found =
     attempt (parse_audio_frame frame) (\<lambda>information.
       if stream_type (bsi_header (af_bsi information)) = LegacyIndependent
       then attempt (validate_ac3_crc frame) (\<lambda>_. Inr found)
       else if \<not> syntax_skip_field (af_syntax information) then Inr found
       else
         (case inspect_audio_block_carriers frame of
            (Inl e, _) \<Rightarrow> Inl e
          | (Inr report, seen) \<Rightarrow>
              (case fold (inspect_carrier frame_index) seen (found, None) of
                 (found, Some e) \<Rightarrow> Inl e
               | (found, None) \<Rightarrow>
                   if unresolved_blocks report \<noteq> 0
                   then Inl (AudioBlockCarrierTraversalUnresolved (examined_blocks report) (unresolved_blocks report))
                   else Inr found)))"

text \<open>
  The loop over the frames of a unit; \<open>frame_index\<close> is the index in the stream.  Each frame is searched at
  its end and, when \<open>include_skip_fields\<close> is set, in the skip fields of its audio blocks.
\<close>

definition scan_frame_end ::
  "u8 list \<Rightarrow> nat \<Rightarrow> (nat \<times> parsed_emdf) option \<Rightarrow> eac3_error + (nat \<times> parsed_emdf) option" where
  "scan_frame_end frame frame_index found =
     attempt (classify_aux_emdf frame) (\<lambda>classification.
       (case classification of
          None \<Rightarrow> Inr found
        | Some NonEmdf \<Rightarrow> Inr found
        | Some (Parsed cand) \<Rightarrow> register_joc_carrier found frame_index cand
        | Some (Malformed e) \<Rightarrow> Inl (Eac3Emdf e)
        | Some (CarrierTrailingData container_bytes carrier_bytes) \<Rightarrow>
            Inl (EmdfCarrierTrailingData container_bytes carrier_bytes)))"

fun scan_carriers ::
  "u8 list \<Rightarrow> bool \<Rightarrow> nat \<Rightarrow> syncframe_index_entry list \<Rightarrow> (nat \<times> parsed_emdf) option \<Rightarrow>
   eac3_error + (nat \<times> parsed_emdf) option" where
  "scan_carriers stream include_skip_fields frame_index [] found = Inr found"
| "scan_carriers stream include_skip_fields frame_index (entry # entries) found =
     attempt (frame_bytes stream entry) (\<lambda>frame.
     attempt (scan_frame_end frame frame_index found) (\<lambda>found.
     attempt (if include_skip_fields then inspect_skip_joc_carriers frame frame_index found else Inr found) (\<lambda>found.
       scan_carriers stream include_skip_fields (frame_index + 1) entries found)))"

text \<open>The index of the last dependent frame of the unit.\<close>

definition required_dependent :: "nat \<Rightarrow> syncframe_index_entry list \<Rightarrow> nat option" where
  "required_dependent first entries =
     (case filter (\<lambda>i. stream_type (header_at entries i) = Dependent) [0..<length entries] of
        [] \<Rightarrow> None
      | is \<Rightarrow> Some (first + last is))"

definition parse_joc_access_unit_impl ::
  "u8 list \<Rightarrow> syncframe_index_entry list \<Rightarrow> access_unit_index \<Rightarrow> bool \<Rightarrow>
   eac3_error + parsed_joc_access_unit option" where
  "parse_joc_access_unit_impl stream frames u include_skip_fields =
     attempt (unit_frames frames u) (\<lambda>entries.
     attempt (validate_short_access_unit_convsync stream frames u) (\<lambda>_.
     let required = required_dependent (first_frame u) entries in
     attempt (scan_carriers stream include_skip_fields (first_frame u) entries None) (\<lambda>found.
       (case found of
          None \<Rightarrow>
            attempt (extract_joc_addbsi_access_unit stream frames u) (\<lambda>a.
              if a \<noteq> None
              then Inl (MissingJocCarrier (case required of Some r \<Rightarrow> r | None \<Rightarrow> first_frame u))
              else Inr None)
        | Some (carrier, cand) \<Rightarrow>
            if required \<noteq> None \<and> required \<noteq> Some carrier
            then Inl (InvalidJocCarrierPlacement carrier (the required))
            else if carrier \<ge> length frames then Inl InvalidAccessUnitRange
            else
              attempt (frame_bytes stream (frames ! carrier)) (\<lambda>frame.
              attempt (parse_bsi frame) (\<lambda>bsi.
                (case addbsi bsi of
                   None \<Rightarrow> Inl (MissingJocAddbsi carrier)
                 | Some a \<Rightarrow>
                     attempt (parse_joc_addbsi a) (\<lambda>extension.
                       Inr (Some \<lparr>carrier_frame = carrier, parsed_sample_rate = unit_sample_rate u,
                              parsed_samples = unit_samples u,
                              complexity_index = addbsi_complexity extension,
                              parsed_emdf = container cand\<rparr>)))))))))"

definition parse_aux_joc_access_unit ::
  "u8 list \<Rightarrow> syncframe_index_entry list \<Rightarrow> access_unit_index \<Rightarrow> eac3_error + parsed_joc_access_unit option" where
  "parse_aux_joc_access_unit stream frames u = parse_joc_access_unit_impl stream frames u False"

definition parse_joc_access_unit ::
  "u8 list \<Rightarrow> syncframe_index_entry list \<Rightarrow> access_unit_index \<Rightarrow> eac3_error + parsed_joc_access_unit option" where
  "parse_joc_access_unit stream frames u = parse_joc_access_unit_impl stream frames u True"

definition validate_joc_access_unit ::
  "parsed_joc_access_unit \<Rightarrow> joc_validation_profile \<Rightarrow> eac3_error + joc_metadata_frame" where
  "validate_joc_access_unit cand profile =
     attempt (lift_err JocProfileValidation (validate_joc_profile_for (parsed_emdf cand) profile)) (\<lambda>validated.
       Inr \<lparr>mf_carrier_frame = carrier_frame cand, mf_sample_rate = parsed_sample_rate cand,
            mf_samples = parsed_samples cand, mf_complexity_index = complexity_index cand,
            mf_validation_profile = profile, mf_validation_status = valid_status validated,
            mf_deviations = valid_deviations validated, mf_emdf = parsed_emdf cand,
            mf_oamd = payload_data (valid_oamd validated), mf_joc = payload_data (valid_joc validated)\<rparr>)"

definition extract_aux_joc_access_unit ::
  "u8 list \<Rightarrow> syncframe_index_entry list \<Rightarrow> access_unit_index \<Rightarrow> eac3_error + joc_metadata_frame option" where
  "extract_aux_joc_access_unit stream frames u =
     attempt (parse_aux_joc_access_unit stream frames u) (\<lambda>p.
       (case p of
          None \<Rightarrow> Inr None
        | Some cand \<Rightarrow> attempt (validate_joc_access_unit cand EtsiStrict) (\<lambda>m. Inr (Some m))))"

definition extract_joc_access_unit_for_profile ::
  "u8 list \<Rightarrow> syncframe_index_entry list \<Rightarrow> access_unit_index \<Rightarrow> joc_validation_profile \<Rightarrow>
   eac3_error + joc_metadata_frame option" where
  "extract_joc_access_unit_for_profile stream frames u profile =
     attempt (parse_joc_access_unit stream frames u) (\<lambda>p.
       (case p of
          None \<Rightarrow> Inr None
        | Some cand \<Rightarrow> attempt (validate_joc_access_unit cand profile) (\<lambda>m. Inr (Some m))))"

definition extract_joc_access_unit ::
  "u8 list \<Rightarrow> syncframe_index_entry list \<Rightarrow> access_unit_index \<Rightarrow> eac3_error + joc_metadata_frame option" where
  "extract_joc_access_unit stream frames u = extract_joc_access_unit_for_profile stream frames u EtsiStrict"

end
