(* ===== verification/Eac3JocSpec.thy ===== *)
theory Eac3JocSpec
  imports Eac3Joc Eac3WalkSpec
begin

text \<open>
  What the search for the JOC candidate of an access unit looks at: the EMDF carriers at the end of
  each frame and in the skip fields of its audio blocks, in the order of the stream.
\<close>

section \<open>Carriers of a unit\<close>

definition frame_end_classes :: "u8 list \<Rightarrow> carrier_classification list" where
  "frame_end_classes frame = (case classify_aux_emdf frame of Inr (Some c) \<Rightarrow> [c] | _ \<Rightarrow> [])"

definition scanned :: "audio_frame_information \<Rightarrow> bool" where
  "scanned f \<longleftrightarrow> stream_type (bsi_header (af_bsi f)) \<noteq> LegacyIndependent \<and> syntax_skip_field (af_syntax f)"

definition skip_classes :: "u8 list \<Rightarrow> carrier_classification list" where
  "skip_classes frame =
     (case parse_audio_frame frame of
        Inr f \<Rightarrow>
          if scanned f
          then map classify_skip_field_emdf (List.map_filter ca_skip_field (snd (inspect_audio_block_carriers frame)))
          else []
      | Inl e \<Rightarrow> [])"

text \<open>The carriers of the frames from index \<open>k\<close> on, each with the index of its frame.\<close>

fun unit_carriers :: "u8 list \<Rightarrow> nat \<Rightarrow> syncframe_index_entry list \<Rightarrow> (nat \<times> carrier_classification) list" where
  "unit_carriers stream k [] = []"
| "unit_carriers stream k (entry # entries) =
     (case frame_bytes stream entry of
        Inr frame \<Rightarrow> map (Pair k) (frame_end_classes frame @ skip_classes frame)
      | Inl e \<Rightarrow> []) @ unit_carriers stream (Suc k) entries"

definition sound_carrier :: "carrier_classification \<Rightarrow> bool" where
  "sound_carrier c \<longleftrightarrow> (case c of NonEmdf \<Rightarrow> True | Parsed cand \<Rightarrow> True | _ \<Rightarrow> False)"

definition candidate :: "nat \<times> carrier_classification \<Rightarrow> (nat \<times> parsed_emdf) option" where
  "candidate kc = (case snd kc of Parsed cand \<Rightarrow> if carries_profile cand then Some (fst kc, cand) else None | _ \<Rightarrow> None)"

definition candidates :: "(nat \<times> carrier_classification) list \<Rightarrow> (nat \<times> parsed_emdf) list" where
  "candidates cs = List.map_filter candidate cs"

lemma candidates_simps [simp]:
  "candidates [] = []"
  "candidates (c # cs) = (case candidate c of Some x \<Rightarrow> x # candidates cs | None \<Rightarrow> candidates cs)"
  "candidates (cs @ ds) = candidates cs @ candidates ds"
  by (simp_all add: candidates_def map_filter_simps split: option.split) (simp add: List.map_filter_def)

section \<open>The search\<close>

text \<open>The carriers \<open>cs\<close> are sound, and lead from the candidate \<open>a\<close> to the candidate \<open>b\<close>.\<close>

definition accounts :: "(nat \<times> parsed_emdf) option \<Rightarrow> (nat \<times> carrier_classification) list \<Rightarrow> (nat \<times> parsed_emdf) option \<Rightarrow> bool" where
  "accounts a cs b \<longleftrightarrow> (\<forall>c \<in> set cs. sound_carrier (snd c))
     \<and> (case a of Some x \<Rightarrow> [x] | None \<Rightarrow> []) @ candidates cs = (case b of Some x \<Rightarrow> [x] | None \<Rightarrow> [])"

lemma accounts_none [simp, intro]: "accounts a [] a"
  by (simp add: accounts_def)

lemma accounts_append: "accounts a cs b \<Longrightarrow> accounts b ds c \<Longrightarrow> accounts a (cs @ ds) c"
  by (auto simp: accounts_def simp flip: append_assoc)

lemma accounts_plain: "accounts a [(k, NonEmdf)] a"
  by (simp add: accounts_def sound_carrier_def candidate_def)

lemma accounts_register: "register_joc_carrier a k cand = Inr b \<Longrightarrow> accounts a [(k, Parsed cand)] b"
  by (cases a) (auto simp: register_joc_carrier_def accounts_def sound_carrier_def candidate_def split: if_splits)

lemma frame_end_accounts:
  assumes "scan_frame_end frame k a = Inr b"
  shows "accounts a (map (Pair k) (frame_end_classes frame)) b"
proof (cases "frame_end_classes frame")
  case Nil
  with assms show ?thesis
    by (auto simp: scan_frame_end_def frame_end_classes_def attempt_Inr split: option.splits sum.splits)
next
  case (Cons c cs)
  then have "classify_aux_emdf frame = Inr (Some c)" "cs = []"
    by (auto simp: frame_end_classes_def split: option.splits sum.splits)
  with assms Cons show ?thesis
    by (cases c) (auto simp: scan_frame_end_def attempt_Inr accounts_plain accounts_register)
qed

lemma inspect_carrier_stuck: "snd (fold (inspect_carrier k) seen (a, Some e)) \<noteq> None"
  by (induction seen arbitrary: a e)
    (auto simp: inspect_carrier_def split: option.splits carrier_classification.splits sum.splits)

lemma carriers_account:
  "fold (inspect_carrier k) seen (a, None) = (b, None) \<Longrightarrow>
   accounts a (map (Pair k) (map classify_skip_field_emdf (List.map_filter ca_skip_field seen))) b"
proof (induction seen arbitrary: a)
  case Nil
  then show ?case by (simp add: map_filter_simps)
next
  case (Cons c seen)
  obtain a' err where step: "inspect_carrier k c (a, None) = (a', err)" by fastforce
  have "fold (inspect_carrier k) seen (a', err) = (b, None)" using Cons.prems step by simp
  then have "err = None"
    using inspect_carrier_stuck [of k seen a'] by (cases err) (auto simp: prod_eq_iff)
  with Cons.prems step have rest: "accounts a' (map (Pair k) (map classify_skip_field_emdf (List.map_filter ca_skip_field seen))) b"
    using Cons.IH [of a'] by simp
  show ?case
  proof (cases "ca_skip_field c")
    case None
    then show ?thesis using rest step by (simp add: inspect_carrier_def map_filter_simps)
  next
    case (Some x)
    have "accounts a [(k, classify_skip_field_emdf x)] a'"
      using step \<open>err = None\<close> Some
      by (auto simp: inspect_carrier_def accounts_plain accounts_register
          split: carrier_classification.splits sum.splits)
    from accounts_append [OF this rest] show ?thesis by (simp add: Some map_filter_simps)
  qed
qed

text \<open>A frame whose skip fields are searched was walked to its last block.\<close>

definition walked :: "u8 list \<Rightarrow> bool" where
  "walked frame \<longleftrightarrow>
     (\<forall>f. parse_audio_frame frame = Inr f \<longrightarrow> scanned f \<longrightarrow>
        length (snd (inspect_audio_block_carriers frame)) = audio_blocks (bsi_header (af_bsi f)))"

lemma skip_accounts:
  assumes run: "inspect_skip_joc_carriers frame k a = Inr b" and fits: "8 * length frame \<le> usize_max"
  shows "accounts a (map (Pair k) (skip_classes frame)) b \<and> walked frame"
proof -
  obtain f where f: "parse_audio_frame frame = Inr f"
    using run by (auto simp: inspect_skip_joc_carriers_def attempt_Inr)
  show ?thesis
  proof (cases "scanned f")
    case False
    with f run show ?thesis
      by (auto simp: inspect_skip_joc_carriers_def skip_classes_def scanned_def walked_def attempt_Inr split: if_splits)
  next
    case True
    with f run obtain report seen where walk: "inspect_audio_block_carriers frame = (Inr report, seen)"
      and seen: "fold (inspect_carrier k) seen (a, None) = (b, None)" and all: "unresolved_blocks report = 0"
      by (auto simp: inspect_skip_joc_carriers_def scanned_def attempt_Inr
          split: sum.splits prod.splits option.splits if_splits)
    from walk_in_frame [OF walk f fits] all
    have "length seen = audio_blocks (bsi_header (af_bsi f))" by auto
    then show ?thesis
      using carriers_account [OF seen] f True walk by (simp add: skip_classes_def walked_def)
  qed
qed

lemma frame_bytes_length: "frame_bytes stream entry = Inr frame \<Longrightarrow> length frame \<le> length stream"
  by (auto simp: frame_bytes_def split: option.splits if_splits)

lemma scan_accounts:
  assumes "scan_carriers stream True k entries a = Inr b" and fits: "8 * length stream \<le> usize_max"
  shows "accounts a (unit_carriers stream k entries) b
    \<and> (\<forall>entry \<in> set entries. \<exists>frame. frame_bytes stream entry = Inr frame \<and> walked frame)"
  using assms(1)
proof (induction entries arbitrary: k a)
  case Nil
  then show ?case by simp
next
  case (Cons entry entries)
  then obtain frame x y where frame: "frame_bytes stream entry = Inr frame"
    and front: "scan_frame_end frame k a = Inr x" and skip: "inspect_skip_joc_carriers frame k x = Inr y"
    and rest: "scan_carriers stream True (Suc k) entries y = Inr b"
    by (auto simp: attempt_Inr)
  have small: "8 * length frame \<le> usize_max" using frame_bytes_length [OF frame] fits by simp
  note walk = skip_accounts [OF skip small]
  have "accounts a (map (Pair k) (frame_end_classes frame) @ map (Pair k) (skip_classes frame)) y"
    using accounts_append [OF frame_end_accounts [OF front]] walk by blast
  from accounts_append [OF this] Cons.IH [OF rest] walk frame show ?case by simp
qed

lemma unit_carriers_index: "(i, c) \<in> set (unit_carriers stream k entries) \<Longrightarrow> k \<le> i \<and> i < k + length entries"
  by (induction entries arbitrary: k) (fastforce split: sum.splits)+

lemma candidates_index: "(i, cand) \<in> set (candidates cs) \<Longrightarrow> (i, Parsed cand) \<in> set cs \<and> carries_profile cand"
  by (induction cs) (auto simp: candidate_def split: option.splits carrier_classification.splits if_splits)

end
