(* ===== verification/Eac3CarrierSpec.thy ===== *)
theory Eac3CarrierSpec
  imports Eac3Carrier
begin

text \<open>
  The auxiliary data of a frame read from its end: the bit numbering of \<open>eac3_bit_at\<close>, the packing of
  bits into bytes, and the fields behind the data.
\<close>

section \<open>Bits by position\<close>

lemma eac3_bit_at_slice:
  assumes "p < 8 * length bs"
  shows "eac3_bit_at bs p = slice_bits bs ! p"
  using assms
  by (simp add: slice_bits_nth byte_bits_def nth_bits_of eac3_bit_at_def bit_unsigned_iff flip: bit_iff_odd)

lemma bits_window:
  assumes "a + n \<le> 8 * length bs"
  shows "map (eac3_bit_at bs) [a..<a + n] = take n (drop a (slice_bits bs))"
  using assms by (intro nth_equalityI) (simp_all add: eac3_bit_at_slice)

lemma bits_at_value:
  assumes "a + n \<le> 8 * length bs" and "n \<le> 64"
  shows "unat (bits_at bs a n) = bits_value (take n (drop a (slice_bits bs)))"
proof -
  have "bits_at bs a k = word_of_nat (bits_value (map (eac3_bit_at bs) [a..<a + k]))" for k
  proof (induction k)
    case 0
    then show ?case by (simp add: bits_at_def)
  next
    case (Suc k)
    have shift: "v * 2 OR 1 = 2 * v + 1" for v :: u64
      by (simp add: or_one_eq mult.commute)
    from Suc show ?case by (simp add: bits_at_def shift)
  qed
  moreover have "length (map (eac3_bit_at bs) [a..<a + n]) \<le> 64" using assms(2) by simp
  ultimately show ?thesis by (simp only: unat_bits_value bits_window [OF assms(1)])
qed

lemma bytes_by_bits:
  assumes "length xs = length ys" and "\<And>p. p < 8 * length xs \<Longrightarrow> eac3_bit_at xs p = eac3_bit_at ys p"
  shows "xs = ys"
proof -
  have "slice_bits xs = slice_bits ys"
    using assms by (intro nth_equalityI) (simp_all add: eac3_bit_at_slice [symmetric])
  then show ?thesis by (rule slice_bits_inject)
qed

lemma pack_aux_slice: "pack_aux (slice_bits bs) = bs"
proof -
  let ?step = "\<lambda>i (ys :: u8 list). if slice_bits bs ! i then ys[i div 8 := ys ! (i div 8) OR push_bit (7 - i mod 8) 1] else ys"
  have loop: "length (fold ?step [0..<k] (replicate (length bs) 0)) = length bs
      \<and> (\<forall>p < 8 * length bs. eac3_bit_at (fold ?step [0..<k] (replicate (length bs) 0)) p
           \<longleftrightarrow> p < k \<and> slice_bits bs ! p)" if "k \<le> 8 * length bs" for k
    using that
  proof (induction k)
    case 0
    then show ?case by (simp add: eac3_bit_at_def)
  next
    case (Suc k)
    let ?ys = "fold ?step [0..<k] (replicate (length bs) 0)"
    have len: "length ?ys = length bs" "k div 8 < length bs" using Suc by simp_all
    have same: "p div 8 = k div 8 \<and> 7 - p mod 8 = 7 - k mod 8 \<longleftrightarrow> p = k" for p
    proof
      assume eq: "p div 8 = k div 8 \<and> 7 - p mod 8 = 7 - k mod 8"
      moreover have "p mod 8 < 8" "k mod 8 < 8" by simp_all
      ultimately have "p mod 8 = k mod 8" by linarith
      with eq show "p = k" by (metis div_mult_mod_eq)
    qed simp
    have "eac3_bit_at (?step k ?ys) p \<longleftrightarrow> eac3_bit_at ?ys p \<or> p = k \<and> slice_bits bs ! k" if "p < 8 * length bs" for p
      using that len same [of p]
      by (auto simp: eac3_bit_at_def nth_list_update bit_or_iff bit_exp_iff)
    then show ?case using Suc by (auto simp: less_Suc_eq)
  qed
  show ?thesis
    using loop [of "8 * length bs"] eac3_bit_at_slice [of _ bs]
    by (intro bytes_by_bits) (simp_all add: pack_aux_def)
qed

section \<open>The end of a frame\<close>

lemma auxdata_found:
  assumes header: "parse_syncframe_header bs = Inr h" "frame_size h \<le> length bs" and fits: "8 * length bs \<le> usize_max"
    and layout: "slice_bits (take (frame_size h) bs)
      = front @ slice_bits aux @ bits_of 14 (8 * length aux) @ True # rest" "length rest = 17"
    and small: "8 * length aux < 2 ^ 14"
  shows "extract_auxdata bs = Inr (Some \<lparr>aux_bit_len = 8 * length aux, aux_bytes = aux\<rparr>)"
proof -
  let ?frame = "take (frame_size h) bs" and ?n = "8 * length aux"
  have len: "8 * length ?frame = length front + ?n + 32" "length ?frame = frame_size h"
    using arg_cong [OF layout(1), of length] layout(2) header(2) by simp_all
  have at: "frame_size h * 8 - 18 = length front + ?n + 14" "length front + ?n + 14 - 14 = length front + ?n"
    "length front + ?n - ?n = length front" "\<not> frame_size h * 8 > usize_max" "\<not> frame_size h * 8 < 18"
    "\<not> frame_size h > length bs"
    using len fits header(2) by linarith+
  have flag: "eac3_bit_at ?frame (length front + ?n + 14)"
    using len(1) by (simp add: eac3_bit_at_slice layout nth_append)
  have declared: "unat (bits_at ?frame (length front + ?n) 14) = ?n"
    using len(1) small by (simp add: bits_at_value layout bits_value_bits_of)
  have found: "map (eac3_bit_at ?frame) [length front..<length front + ?n] = slice_bits aux"
    using len(1) bits_window [of "length front" ?n ?frame] by (simp add: layout)
  show ?thesis
    unfolding extract_auxdata_def attempt_def header sum.case Let_def at(1)
    using at(4-6) by (simp add: flag declared found pack_aux_slice)
qed

end
