(* ===== verification/Eac3BlockProps.thy ===== *)
theory Eac3BlockProps
  imports Eac3BlockSpec Eac3AhtSpec Eac3JocSpec Eac3CarrierSpec
begin

text \<open>
  The properties of the audio blocks of \<open>openjoc-eac3\<close> and of the metadata carried in them, each with a
  witness.
\<close>

section \<open>Audio blocks\<close>

text \<open>
  C4: what the walk over the audio blocks of a frame reports are windows of the frame.  Take a frame
  that \<open>parse_audio_frame\<close> accepts and run \<open>inspect_audio_block_carriers\<close> on it.  The blocks that the
  callback has seen, whether or not a later block failed, are numbered from 0 without gap and lie in
  order inside the frame: each starts where the side information before it ended or later, the skip
  field is the bits of the frame at the reported position, whole bytes, and its end is the reported end
  of the block's side information.  There are at most as many as the header announces, and a report
  counts those that were seen and those that were not.  Either it has no malformed mantissa word and no
  block is left, or it has exactly one, in the last block that was seen.

  The documentation in the source says otherwise in three places, where the theorem follows the code.
  It says that truncated mantissa syntax ends the walk and leaves the later blocks unresolved in the
  report; by the theorem a report with unresolved blocks always has a malformed word, and truncation is
  an error without report.  It says that only the first block's side information makes the walk fail;
  that of a later block does too.  And it says that the walker advances behind a malformed word so that
  later blocks stay bounded; no block behind it is visited.
\<close>

theorem block_carriers_are_frame_windows:
  assumes "inspect_audio_block_carriers bs = (res, seen)" and "parse_audio_frame bs = Inr f"
    and "8 * length bs \<le> usize_max"
  shows "carriers_in (slice_bits (take (frame_size (bsi_header (af_bsi f))) bs)) 0 (audio_blocks_offset_bits f) seen
    \<and> length seen \<le> audio_blocks (bsi_header (af_bsi f))
    \<and> (\<forall>report. res = Inr report \<longrightarrow> examined_blocks report = length seen
        \<and> unresolved_blocks report = audio_blocks (bsi_header (af_bsi f)) - length seen
        \<and> (malformed_mantissa_count report = 0 \<and> first_mantissa_failure report = None \<and> unresolved_blocks report = 0
           \<or> (\<exists>x. malformed_mantissa_count report = 1 \<and> first_mantissa_failure report = Some x
                \<and> Suc (fl_block_index x) = length seen)))"
  by (rule walk_in_frame [OF assms])

text \<open>A frame of one block whose skip field is the byte \<open>0x5A\<close>.\<close>

definition skip_frame :: "u8 list" where
  "skip_frame = [11, 119, 0, 11, 2, 135, 192, 1, 96, 0, 2, 159, 62, 124, 249, 243, 229, 0, 173, 0, 0, 0, 0, 0]"

definition skip_state :: audio_frame_information where
  "skip_state =
     \<lparr>af_bsi =
        \<lparr>bsi_header = \<lparr>stream_type = Independent, substream_id = 0, hdr_bitstream_id = 16, frame_size = 24,
           sample_rate = 48000, audio_blocks = 1, frame_samples = 256\<rparr>,
         bitstream_mode = None, audio_coding_mode = 1, lfe_on = False, bsi_bitstream_id = 16, dialnorm = 31,
         dialnorm_2 = None, compr = None, compr_2 = None, bsi_downmix = no_downmix, channel_map = None,
         convsync = Some False, addbsi = None\<rparr>,
      af_full_bandwidth_channels = 1, snr_offset_strategy = 0, frame_coarse_snr_code = Some 0,
      frame_fine_snr_code = Some 0, af_syntax = 32, coupling_in_use = [False], coupling_strategy_exists = [False],
      coupling_exponent_strategy = [0], channel_exponent_strategy = [[3]], lfe_exponent_strategy = [False],
      coupling_aht_in_use = False, channel_aht_in_use = [False], lfe_aht_in_use = False,
      spx_attenuation_codes = [None], block_start_information = None, audio_blocks_offset_bits = 78\<rparr>"

definition skip_reader :: bit_reader where
  "skip_reader = \<lparr>bytes = skip_frame, bit_position = 78, bit_len = Some 192\<rparr>"

lemma skip_frame_parses: "parse_audio_frame skip_frame = Inr skip_state"
  by code_simp

lemma skip_frame_reader: "frame_reader skip_frame skip_state = Inr skip_reader"
  by code_simp

lemma skip_frame_block:
  "case fst (inspect_block skip_state 192 0 0 (new_block_state 1) skip_reader) of
     Inr (c, _) \<Rightarrow> (map_option aux_bytes (ca_skip_field c), ca_skip_field_start c) = (Some [0x5A], Some 145)
   | Inl e \<Rightarrow> False"
  by code_simp

theorem block_carriers_are_frame_windows_witness:
  "\<exists>c. parse_audio_frame skip_frame = Inr skip_state \<and> snd (inspect_audio_block_carriers skip_frame) = [c]
     \<and> carriers_in (slice_bits skip_frame) 0 78 [c]
     \<and> map_option aux_bytes (ca_skip_field c) = Some [0x5A] \<and> ca_skip_field_start c = Some 145"
proof -
  have fits: "8 * length skip_frame \<le> usize_max" "length skip_frame = 24" by (simp_all add: skip_frame_def usize_max_def)
  obtain c x s where b: "inspect_block skip_state 192 0 0 (new_block_state 1) skip_reader = (Inr (c, x), s)"
    and c: "map_option aux_bytes (ca_skip_field c) = Some [0x5A]" "ca_skip_field_start c = Some 145"
    using skip_frame_block
    by (cases "inspect_block skip_state 192 0 0 (new_block_state 1) skip_reader") (auto split: sum.splits)
  obtain res seen where run: "inspect_audio_block_carriers skip_frame = (res, seen)" by fastforce
  have state: "frame_bits_of skip_state = 192" "frame_channels skip_state = 1"
    "bsi_header (af_bsi skip_state) = \<lparr>stream_type = Independent, substream_id = 0, hdr_bitstream_id = 16,
      frame_size = 24, sample_rate = 48000, audio_blocks = 1, frame_samples = 256\<rparr>"
    by (simp_all add: skip_state_def frame_bits_of_def)
  have "seen = [c]"
    using run b by (auto simp: inspect_audio_block_carriers_def attempt_def skip_frame_parses skip_frame_reader state
        fscod_of_def usize_max_def Let_def split: prod.splits sum.splits if_splits)
  moreover have "audio_blocks_offset_bits skip_state = 78" by (simp add: skip_state_def)
  ultimately show ?thesis
    using block_carriers_are_frame_windows [OF run skip_frame_parses fits(1)] c run fits(2) state skip_frame_parses by auto
qed

text \<open>
  C6: what the side information of a parsed block gives the bit allocation.  Consider the states between
  the blocks of a frame, reached by parsing block prefixes from any input and consuming mantissas.
  Behind at least one block, the allocation of every channel, and of the LFE channel when there is one,
  has its exponents, codes, offsets and gain.  The coupling channel of a coupled block has its exponents
  and leak codes; its fine offset and its gain may be missing from the codes in force (a coupling that
  begins late under frame-wide offsets has no fine offset), and then nothing is claimed.  For each channel,
  for the LFE channel, and for the coupling channel where it has both codes, the standard and the high
  efficiency allocation return a pointer for each exponent, at most 15 and at most 19, exactly if the
  block is a zero block or the delta segments of the element fit into its bands, and fail otherwise.
\<close>

theorem parsed_blocks_allocate:
  assumes reach: "reached f i g st" and block: "0 < i" and frame: "frame_well_typed f" and rate: "fscod < 3"
  shows "\<exists>codes snr gains. st_parameters st = Some codes \<and> st_snr_offsets st = Some snr \<and> st_fast_gains st = Some gains
    \<and> (\<forall>channel < frame_channels f. \<exists>e. st_channel_exponents st ! channel = Some e
        \<and> allocates e codes (gain_channels gains ! channel) (coarse_code snr) (channel_fine_codes snr ! channel) fscod
            (previous_delta (st_delta st) channel) None)
    \<and> (lfe_on (af_bsi f) \<longrightarrow> (\<exists>e gain fine. st_lfe_exponents st = Some e \<and> gain_lfe gains = Some gain
        \<and> lfe_fine_code snr = Some fine \<and> allocates e codes gain (coarse_code snr) fine fscod None None))
    \<and> (st_coupling st \<noteq> None \<longrightarrow> (\<exists>e. st_coupling_exponents st = Some e \<and> element_leaks st \<noteq> None
        \<and> (\<forall>gain fine. gain_coupling gains = Some gain \<longrightarrow> coupling_fine_code snr = Some fine
            \<longrightarrow> allocates e codes gain (coarse_code snr) fine fscod (Option.bind (st_delta st) delta_coupling)
                  (element_leaks st))))"
  using reached_typed [OF reach frame] block by (intro block_allocates rate) simp

text \<open>
  A stereo frame of two blocks with frame-wide offsets, whose coupling begins in the second block, and
  the side information of both blocks.
\<close>

definition late_frame :: audio_frame_information where
  "late_frame =
     \<lparr>af_bsi =
        \<lparr>bsi_header = \<lparr>stream_type = Dependent, substream_id = 0, hdr_bitstream_id = 16, frame_size = 64,
           sample_rate = 48000, audio_blocks = 2, frame_samples = 512\<rparr>,
         bitstream_mode = None, audio_coding_mode = 2, lfe_on = False, bsi_bitstream_id = 16, dialnorm = 31,
         dialnorm_2 = None, compr = None, compr_2 = None, bsi_downmix = no_downmix, channel_map = None,
         convsync = None, addbsi = None\<rparr>,
      af_full_bandwidth_channels = 2, snr_offset_strategy = 0, frame_coarse_snr_code = Some 15,
      frame_fine_snr_code = Some 0, af_syntax = 0, coupling_in_use = [False, True],
      coupling_strategy_exists = [True, True], coupling_exponent_strategy = [0, 3],
      channel_exponent_strategy = [[3, 3], [0, 0]], lfe_exponent_strategy = [False, False],
      coupling_aht_in_use = False, channel_aht_in_use = [False, False], lfe_aht_in_use = False,
      spx_attenuation_codes = [None, None], block_start_information = None, audio_blocks_offset_bits = 0\<rparr>"

definition late_first :: "u8 list" where
  "late_first = [0, 0, 41, 243, 231, 207, 159, 62, 41, 243, 231, 207, 159, 62, 0]"

definition late_second :: "u8 list" where
  "late_second = [15, 208, 0, 0, 21, 240, 0]"

lemma late_frame_typed: "frame_well_typed late_frame"
  by (auto simp: frame_well_typed_def late_frame_def full_bandwidth_channels_def codes_match_def below_def)

lemma late_frame_blocks:
  "case fst (parse_audio_block_prefix_reader late_frame 0 (new_block_state 2) (new_reader late_first)) of
     Inr (p, st) \<Rightarrow>
       (case fst (inspect_block late_frame 512 0 1 st (new_reader late_second)) of
          Inr (c, g, st', al) \<Rightarrow> channel_uses_coupling (st_coupling st') 0
        | Inl e \<Rightarrow> False)
   | Inl e \<Rightarrow> False"
  by code_simp

lemma late_frame_runs:
  obtains st r c g st' al s where "reached late_frame 1 late_frame st"
    and "inspect_block late_frame 512 0 1 st (new_reader late_second) = (Inr (c, g, st', al), s)"
    and "channel_uses_coupling (st_coupling st') 0" and "reader_ok (new_reader late_second)"
proof -
  have ok: "reader_ok (new_reader late_first)" "reader_ok (new_reader late_second)"
    by (simp_all add: new_reader_ok late_first_def late_second_def usize_max_def)
  obtain x r where one: "parse_audio_block_prefix_reader late_frame 0 (new_block_state 2) (new_reader late_first) = (x, r)"
    by fastforce
  with late_frame_blocks obtain p st where x: "x = Inr (p, st)" by (cases x) auto
  obtain y s where two: "inspect_block late_frame 512 0 1 st (new_reader late_second) = (y, s)" by fastforce
  with late_frame_blocks one x obtain c g st' al where y: "y = Inr (c, g, st', al)"
    and coupled: "channel_uses_coupling (st_coupling st') 0" by (cases y) auto
  note first = one [unfolded x] and second = two [unfolded y]
  have "frame_channels late_frame = 2" "stream_type (bsi_header (af_bsi late_frame)) \<noteq> LegacyIndependent"
    by (simp_all add: late_frame_def)
  with first have "parse_block_prefix late_frame 0 (new_block_state (frame_channels late_frame)) (new_reader late_first)
      = (Inr (p, late_frame, st), r)"
    by (simp add: parse_block_prefix_def bind_rd_def ret_def)
  from reached_prefix [OF reached_start ok(1) this] that second coupled ok(2) show ?thesis by simp
qed

theorem parsed_blocks_allocate_witness:
  "\<exists>st codes snr e. reached late_frame 1 late_frame st \<and> st_parameters st = Some codes \<and> st_snr_offsets st = Some snr
     \<and> st_channel_exponents st ! 1 = Some e
     \<and> (\<exists>gain delta. allocates e codes gain (coarse_code snr) (channel_fine_codes snr ! 1) 0 delta None)"
proof -
  obtain st where reach: "reached late_frame 1 late_frame st" by (rule late_frame_runs)
  have one: "0 < (1 :: nat)" "0 < (3 :: nat)" "1 < frame_channels late_frame" by (simp_all add: late_frame_def)
  obtain codes snr and gains :: fast_gain_codes where st: "st_parameters st = Some codes" "st_snr_offsets st = Some snr"
    and channels: "\<forall>channel < frame_channels late_frame. \<exists>e. st_channel_exponents st ! channel = Some e
      \<and> allocates e codes (gain_channels gains ! channel) (coarse_code snr) (channel_fine_codes snr ! channel) 0
          (previous_delta (st_delta st) channel) None"
    using parsed_blocks_allocate [OF reach one(1) late_frame_typed one(2)] by blast
  from channels [rule_format, OF one(3)] reach st show ?thesis by blast
qed

text \<open>
  C8: first and following blocks give a channel the same bandwidth, except under enhanced coupling.
  For a channel that sends exponents, with a spectral extension that begins inside its table, the
  parser of the first block and that of the following blocks read the same fields and return the same
  code and end of the channel, as long as the channel takes no part in an enhanced coupling channel.
  If it does, the first block ends it at the first bin of the coupling channel, and a following block
  with the same strategy at the last: the two never agree.
\<close>

theorem block_bandwidths_agree_but_for_enhanced_coupling:
  assumes "channel_exponent_strategy frame ! block_index ! channel \<noteq> 0"
    and "\<forall>s. spx = Some s \<longrightarrow> spx_begin_subband s < length SPX_SUBBAND_MANTISSA"
    and "\<forall>info. c = Some info \<longrightarrow> coupling_typed info"
  shows "(following_channel_bandwidth frame block_index c spx st channel = parse_channel_bandwidth c spx channel
      \<longleftrightarrow> (\<nexists>e. in_enhanced c channel e))
    \<and> (\<forall>e r. in_enhanced c channel e \<longrightarrow>
        parse_channel_bandwidth c spx channel r
          = (Inr (None, ENHANCED_COUPLING_SUBBAND_MANTISSA ! enh_begin_subband e), r)
        \<and> following_channel_bandwidth frame block_index c spx st channel r
          = (Inr (None, ENHANCED_COUPLING_SUBBAND_MANTISSA ! enh_end_subband e), r))"
proof (cases "\<exists>e. in_enhanced c channel e")
  case False
  with bandwidths_agree [OF assms(1,2)] show ?thesis by blast
next
  case True
  have typed: "coupling_typed (EnhancedCoupling e)" if "in_enhanced c channel e" for e
    using assms(3) that by (simp add: in_enhanced_def)
  obtain e where e: "in_enhanced c channel e" using True by blast
  note differ = bandwidths_differ [OF e typed [OF e]]
  have "following_channel_bandwidth frame block_index c spx st channel \<noteq> parse_channel_bandwidth c spx channel"
    unfolding differ(1) differ(2) using differ(3) by (auto simp: ret_def fun_eq_iff)
  with True bandwidths_differ typed show ?thesis by (auto simp: ret_def)
qed

definition wide_coupling :: coupling_information where
  "wide_coupling = EnhancedCoupling \<lparr>enh_channel_in_use = [True, True], enh_begin_frequency_code = 0, enh_begin_subband = 0,
     enh_end_subband = 22, enh_band_structure = DEFAULT_ENHANCED_COUPLING_STRUCTURE, enh_band_count = 10,
     enh_amplitudes = [None, None]\<rparr>"

theorem block_bandwidths_agree_but_for_enhanced_coupling_witness:
  "parse_channel_bandwidth (Some wide_coupling) None 0 (new_reader []) = (Inr (None, 13), new_reader [])
   \<and> following_channel_bandwidth late_frame 0 (Some wide_coupling) None (new_block_state 2) 0 (new_reader [])
     = (Inr (None, 253), new_reader [])"
  using block_bandwidths_agree_but_for_enhanced_coupling [of late_frame 0 0 None "Some wide_coupling" "new_block_state 2"]
  by (simp add: late_frame_def wide_coupling_def in_enhanced_def ENHANCED_COUPLING_SUBBAND_MANTISSA_def)

text \<open>
  C7: coupling that begins behind the first block of a frame with frame-wide offsets is never
  decoded.  Take a frame of the extended syntax that sends its signal-to-noise offsets once for the
  frame and does not couple its first block.  The frame has a fine offset, but when the prefix of a
  later block that couples a channel was parsed, the offsets in force have none for the coupling
  channel, and the mantissas of the block are not consumed to their end, for whatever input.
\<close>

theorem late_coupling_is_never_decoded:
  assumes reach: "reached f i f st" and r: "reader_ok r"
    and block: "inspect_block f frame_bits fscod i st r = (Inr (c, g, st', al), r')"
    and frame: "frame_well_typed f" "stream_type (bsi_header (af_bsi f)) \<noteq> LegacyIndependent"
      "snr_offset_strategy f = 0" "\<not> coupling_in_use f ! 0"
    and coupled: "channel < frame_channels f" "channel_uses_coupling (st_coupling st') channel"
  shows "frame_fine_snr_code f \<noteq> None \<and> coupling_fine_code (al_snr al) = None
    \<and> consume_audio_block_mantissas g al st' failures s \<noteq> (Inr (True, failures', st''), s')"
proof -
  obtain p t u where snr: "st_snr_offsets st' = Some (al_snr al)" and t: "reader_ok t"
    and p: "parse_block_prefix f i st t = (Inr (p, g, st'), u)"
    using inspect_block_offsets [OF block] r by blast
  have reach': "reached f (Suc i) g st'" by (rule reached_prefix [OF reach t p])
  have g: "g = f" using reached_typed [OF reach' frame(1)] frame(2) by simp
  have code: "coupling_fine_code (al_snr al) = None" "frame_fine_snr_code f \<noteq> None"
    using late_offsets [OF reach' frame] snr
    by (auto simp: frame_offsets_def uniform_offsets_def split: option.splits)
  from coupled_block_stops [OF code(1) coupled] code g show ?thesis by simp
qed

theorem late_coupling_is_never_decoded_witness:
  "\<exists>st r c g st' al s. reached late_frame 1 late_frame st
     \<and> inspect_block late_frame 512 0 1 st r = (Inr (c, g, st', al), s)
     \<and> frame_fine_snr_code late_frame = Some 0 \<and> coupling_fine_code (al_snr al) = None
     \<and> (\<forall>fl st''. fst (consume_audio_block_mantissas g al st' (0, None) s) \<noteq> Inr (True, fl, st''))"
proof -
  obtain st c g st' al s where reach: "reached late_frame 1 late_frame st"
    and run: "inspect_block late_frame 512 0 1 st (new_reader late_second) = (Inr (c, g, st', al), s)"
    and coupled: "channel_uses_coupling (st_coupling st') 0" and ok: "reader_ok (new_reader late_second)"
    by (rule late_frame_runs)
  have late: "stream_type (bsi_header (af_bsi late_frame)) \<noteq> LegacyIndependent" "snr_offset_strategy late_frame = 0"
    "\<not> coupling_in_use late_frame ! 0" "0 < frame_channels late_frame" "frame_fine_snr_code late_frame = Some 0"
    by (simp_all add: late_frame_def)
  note never = late_coupling_is_never_decoded [OF reach ok run late_frame_typed late(1-4) coupled]
  have "fst (consume_audio_block_mantissas g al st' (0, None) s) \<noteq> Inr (True, fl, st'')" for fl st''
  proof
    assume "fst (consume_audio_block_mantissas g al st' (0, None) s) = Inr (True, fl, st'')"
    then show False using never by (metis prod.collapse)
  qed
  with never reach run late(5) show ?thesis by blast
qed

section \<open>The adaptive hybrid transform\<close>

text \<open>
  C9: the transform of the adaptive hybrid transform loses nothing.  \<open>inverse_aht_dct\<close> turns each row
  of six coefficients into the six values of its bin in the blocks of the frame; projecting these on
  the same cosines gives the coefficients back, and the energy of a row is multiplied by six.
\<close>

theorem aht_transform_is_invertible:
  assumes "\<forall>row \<in> set spectrum. length row = 6"
  shows "map forward_aht_dct (inverse_aht_dct spectrum) = spectrum
    \<and> map (\<lambda>y. \<Sum>m<6. (y ! m)\<^sup>2) (inverse_aht_dct spectrum) = map (\<lambda>x. 6 * (\<Sum>j<6. (x ! j)\<^sup>2)) spectrum"
  using assms by (simp add: inverse_rows map_idI transform_roundtrip transform_energy)

theorem aht_transform_is_invertible_witness:
  "map forward_aht_dct (inverse_aht_dct [[1, 0, 0, 0, 0, 0]]) = [[1, 0, 0, 0, 0, 0]]"
  using aht_transform_is_invertible [of "[[1, 0, 0, 0, 0, 0]]"] by simp

section \<open>Auxiliary data\<close>

text \<open>
  C10: auxiliary data is found behind any audio blocks.  When the bits of a frame end in bytes of
  auxiliary data, their number of bits in a field of fourteen bits, the flag that announces them and
  seventeen more bits, \<open>extract_auxdata\<close> returns exactly these bytes, whatever stands before them and
  whether or not they start at a byte of the frame.
\<close>

theorem auxiliary_data_roundtrip:
  assumes "parse_syncframe_header bs = Inr h" and "frame_size h \<le> length bs" and "8 * length bs \<le> usize_max"
    and "slice_bits (take (frame_size h) bs)
      = front @ slice_bits aux @ bits_of 14 (8 * length aux) @ True # rest" and "length rest = 17"
    and "8 * length aux < 2 ^ 14"
  shows "extract_auxdata bs = Inr (Some \<lparr>aux_bit_len = 8 * length aux, aux_bytes = aux\<rparr>)"
  by (rule auxdata_found [OF assms])

section \<open>The candidate of an access unit\<close>

text \<open>
  C5: the JOC candidate of an access unit is the only one, and in its place.  When
  \<open>parse_joc_access_unit\<close> accepts a unit, every carrier at the end of its frames and in the skip fields
  of their audio blocks is either no EMDF or a complete container, and every frame whose skip fields are
  searched was walked to its last block.  Without result, no container of the unit holds an OAMD or a
  JOC payload and no frame signals the extension.  With a result, exactly one container does, in the
  frame that the result names: the last dependent frame of the unit if there is one.  Its payloads are
  the result, with the complexity index of the extension of that frame.
\<close>

theorem joc_candidate_is_unique:
  assumes unit: "unit_frames frames u = Inr entries" and run: "parse_joc_access_unit stream frames u = Inr p"
    and fits: "8 * length stream \<le> usize_max"
  shows "(\<forall>(k, c) \<in> set (unit_carriers stream (first_frame u) entries). sound_carrier c)
    \<and> (\<forall>entry \<in> set entries. \<exists>frame. frame_bytes stream entry = Inr frame \<and> walked frame)
    \<and> (case p of
         None \<Rightarrow> candidates (unit_carriers stream (first_frame u) entries) = []
           \<and> extract_joc_addbsi_access_unit stream frames u = Inr None
       | Some a \<Rightarrow> \<exists>cand frame b x extension.
           candidates (unit_carriers stream (first_frame u) entries) = [(carrier_frame a, cand)]
           \<and> carries_profile cand \<and> parsed_emdf a = container cand
           \<and> required_dependent (first_frame u) entries \<in> {None, Some (carrier_frame a)}
           \<and> first_frame u \<le> carrier_frame a \<and> carrier_frame a < first_frame u + length entries
           \<and> frame_bytes stream (frames ! carrier_frame a) = Inr frame \<and> parse_bsi frame = Inr b \<and> addbsi b = Some x
           \<and> parse_joc_addbsi x = Inr extension \<and> complexity_index a = addbsi_complexity extension)"
proof -
  let ?cs = "unit_carriers stream (first_frame u) entries"
  obtain found where scan: "scan_carriers stream True (first_frame u) entries None = Inr found"
    using run unit by (auto simp: parse_joc_access_unit_def parse_joc_access_unit_impl_def attempt_Inr Let_def)
  from scan_accounts [OF scan fits] have account: "\<forall>c \<in> set ?cs. sound_carrier (snd c)"
    "candidates ?cs = (case found of Some x \<Rightarrow> [x] | None \<Rightarrow> [])"
    and walks: "\<forall>entry \<in> set entries. \<exists>frame. frame_bytes stream entry = Inr frame \<and> walked frame"
    by (simp_all add: accounts_def)
  show ?thesis
  proof (cases found)
    case None
    then have "p = None" "extract_joc_addbsi_access_unit stream frames u = Inr None"
      using run unit scan
      by (auto simp: parse_joc_access_unit_def parse_joc_access_unit_impl_def attempt_Inr Let_def split: if_splits)
    with account walks None show ?thesis by auto
  next
    case (Some x)
    obtain k cand where x: "x = (k, cand)" by (cases x)
    have only: "candidates ?cs = [(k, cand)]" using account(2) Some x by simp
    then have k: "carries_profile cand" "first_frame u \<le> k" "k < first_frame u + length entries"
      using candidates_index [of k cand ?cs] unit_carriers_index [of k "Parsed cand"] by auto
    have "\<exists>a frame b y extension. p = Some a \<and> carrier_frame a = k \<and> parsed_emdf a = container cand
        \<and> required_dependent (first_frame u) entries \<in> {None, Some k}
        \<and> frame_bytes stream (frames ! k) = Inr frame \<and> parse_bsi frame = Inr b \<and> addbsi b = Some y
        \<and> parse_joc_addbsi y = Inr extension \<and> complexity_index a = addbsi_complexity extension"
      using run unit scan Some x
      by (auto simp: parse_joc_access_unit_def parse_joc_access_unit_impl_def attempt_Inr Let_def
          split: if_splits option.splits)
    with only k account walks show ?thesis by auto
  qed
qed

text \<open>A frame with the extension and a container of both payloads behind its audio blocks.\<close>

definition joc_head :: "u8 list" where
  "joc_head = [11, 119, 0, 31, 50, 135, 196, 16, 16, 33, 0, 40] @ replicate 35 0"

definition joc_container :: "u8 list" where
  "joc_container = [88, 56, 0, 9, 2, 194, 2, 66, 112, 64, 0, 64, 0]"

definition joc_unit :: "u8 list" where
  "joc_unit = joc_head @ joc_container @ [1, 162, 0, 0]"

definition joc_entry :: syncframe_index_entry where
  "joc_entry = \<lparr>entry_offset = 0, entry_header = \<lparr>stream_type = Independent, substream_id = 0, hdr_bitstream_id = 16,
     frame_size = 64, sample_rate = 48000, audio_blocks = 6, frame_samples = 1536\<rparr>\<rparr>"

definition joc_index :: access_unit_index where
  "joc_index = \<lparr>first_frame = 0, frame_count = 1, unit_sample_rate = 48000, unit_samples = 1536\<rparr>"

definition plain_config :: emdf_payload_config where
  "plain_config = \<lparr>sample_offset = None, duration = None, group_id = None, codec_data_present = False,
     discard_unknown_payload = True, payload_frame_aligned = None, create_duplicate = None, remove_duplicate = None,
     priority = None, processing_allowed = None\<rparr>"

definition joc_candidate :: parsed_emdf where
  "joc_candidate = \<lparr>container = \<lparr>version = 0, key_id = 0,
     payloads = [\<lparr>payload_id = OAMD_PAYLOAD_ID, payload_config = plain_config, payload_data = [66]\<rparr>,
       \<lparr>payload_id = JOC_PAYLOAD_ID, payload_config = plain_config, payload_data = []\<rparr>],
     protection = \<lparr>primary = [0], secondary = []\<rparr>\<rparr>, bytes_consumed = 13\<rparr>"

lemma joc_unit_header: "parse_syncframe_header joc_unit = Inr (entry_header joc_entry)"
  by code_simp

lemma joc_container_class: "classify_emdf_carrier joc_container = Parsed joc_candidate"
  by code_simp

lemma joc_unit_layout:
  "frame_size (entry_header joc_entry) \<le> length joc_unit" "8 * length joc_unit \<le> usize_max"
  "slice_bits (take (frame_size (entry_header joc_entry)) joc_unit)
    = slice_bits joc_head @ slice_bits joc_container @ bits_of 14 (8 * length joc_container) @ True # replicate 17 False"
  "8 * length joc_container < 2 ^ 14"
proof -
  have size: "frame_size (entry_header joc_entry) = length joc_unit" "length joc_container = 13"
    by (simp_all add: joc_entry_def joc_unit_def joc_head_def joc_container_def)
  have tail: "slice_bits [1, 162, 0, 0] = bits_of 14 (8 * 13) @ True # replicate 17 False"
    by code_simp
  show "slice_bits (take (frame_size (entry_header joc_entry)) joc_unit)
    = slice_bits joc_head @ slice_bits joc_container @ bits_of 14 (8 * length joc_container) @ True # replicate 17 False"
    unfolding size by (simp add: joc_unit_def tail)
  show "frame_size (entry_header joc_entry) \<le> length joc_unit" "8 * length joc_container < 2 ^ 14"
    by (simp_all add: size)
  show "8 * length joc_unit \<le> usize_max"
    by (simp add: joc_unit_def joc_head_def joc_container_def usize_max_def)
qed

theorem auxiliary_data_roundtrip_witness:
  "extract_auxdata joc_unit = Inr (Some \<lparr>aux_bit_len = 104, aux_bytes = joc_container\<rparr>)"
  using auxiliary_data_roundtrip [OF joc_unit_header joc_unit_layout(1-3) _ joc_unit_layout(4)]
  by (simp add: joc_container_def)

lemma joc_unit_carrier: "classify_aux_emdf joc_unit = Inr (Some (Parsed joc_candidate))"
  using auxdata_found [OF joc_unit_header joc_unit_layout(1-3) _ joc_unit_layout(4)]
  by (simp add: classify_aux_emdf_def attempt_def joc_container_class)

lemma joc_unit_frame:
  "case parse_audio_frame joc_unit of
     Inr f \<Rightarrow> (stream_type (bsi_header (af_bsi f)), syntax_skip_field (af_syntax f)) = (Independent, False)
   | Inl e \<Rightarrow> False"
  by code_simp

lemma joc_unit_bsi: "case parse_bsi joc_unit of Inr b \<Rightarrow> addbsi b = Some [1, 2] | Inl e \<Rightarrow> False"
  by code_simp

lemma joc_unit_index: "index_syncframes joc_unit = Inr [joc_entry]"
  by code_simp

lemma joc_unit_window: "frame_bytes joc_unit joc_entry = Inr joc_unit" "8 * length joc_unit \<le> usize_max"
  by (simp_all add: frame_bytes_def joc_entry_def joc_unit_def joc_head_def joc_container_def checked_usize_def usize_max_def)

definition joc_result :: parsed_joc_access_unit where
  "joc_result = \<lparr>carrier_frame = 0, parsed_sample_rate = 48000, parsed_samples = 1536, complexity_index = 2,
     parsed_emdf = container joc_candidate\<rparr>"

lemma joc_unit_frames: "unit_frames [joc_entry] joc_index = Inr [joc_entry]"
  by (simp add: unit_frames_def joc_index_def checked_usize_def usize_max_def)

lemma joc_unit_parses: "parse_joc_access_unit joc_unit [joc_entry] joc_index = Inr (Some joc_result)"
proof -
  obtain f where f: "parse_audio_frame joc_unit = Inr f" "stream_type (bsi_header (af_bsi f)) = Independent"
    "\<not> syntax_skip_field (af_syntax f)"
    using joc_unit_frame by (auto split: sum.splits)
  obtain b where b: "parse_bsi joc_unit = Inr b" "addbsi b = Some [1, 2]"
    using joc_unit_bsi by (auto split: sum.splits)
  have profile: "carries_profile joc_candidate" by (simp add: carries_profile_def joc_candidate_def)
  have extension: "parse_joc_addbsi [1, 2] = Inr \<lparr>addbsi_complexity = 2\<rparr>"
    by (simp add: parse_joc_addbsi_def drop_bit_eq_div)
  have "scan_carriers joc_unit True 0 [joc_entry] None = Inr (Some (0, joc_candidate))"
    by (simp add: joc_unit_window scan_frame_end_def joc_unit_carrier register_joc_carrier_def profile attempt_def
        inspect_skip_joc_carriers_def f)
  moreover have "validate_short_access_unit_convsync joc_unit [joc_entry] joc_index = Inr ()"
    unfolding validate_short_access_unit_convsync_def joc_unit_frames by (simp add: attempt_def joc_entry_def)
  moreover have "required_dependent 0 [joc_entry] = None"
    by (simp add: required_dependent_def joc_entry_def)
  moreover have "first_frame joc_index = 0" "unit_sample_rate joc_index = 48000" "unit_samples joc_index = 1536"
    by (simp_all add: joc_index_def)
  ultimately show ?thesis
    by (simp add: parse_joc_access_unit_def parse_joc_access_unit_impl_def joc_unit_frames attempt_def Let_def
        joc_unit_window b extension joc_result_def)
qed

theorem joc_candidate_is_unique_witness:
  "index_syncframes joc_unit = Inr [joc_entry]
   \<and> candidates (unit_carriers joc_unit 0 [joc_entry]) = [(0, joc_candidate)]"
proof -
  from joc_candidate_is_unique [OF joc_unit_frames joc_unit_parses joc_unit_window(2)] obtain cand where
    only: "candidates (unit_carriers joc_unit 0 [joc_entry]) = [(0, cand)]"
    by (auto simp: joc_index_def joc_result_def)
  moreover have "candidates (unit_carriers joc_unit 0 [joc_entry]) = (0, joc_candidate) # tl (candidates (unit_carriers joc_unit 0 [joc_entry]))"
    by (simp add: joc_unit_window frame_end_classes_def joc_unit_carrier candidate_def)
      (simp add: carries_profile_def joc_candidate_def)
  ultimately show ?thesis by (simp add: joc_unit_index)
qed

end
