(* ===== verification/Spec2Isabelle.thy ===== *)
theory Spec2Isabelle
  imports TimelineProps EmdfProps JocProps OamdProps Eac3Props Eac3BlockProps
begin

text \<open>
  OpenJOC decodes E-AC-3 streams that carry Joint Object Coding.  The E-AC-3 front end
  (\<open>crates/openjoc-eac3\<close>) cuts a stream into syncframes and access units, reads the syntax of each
  frame and of its audio blocks, allocates bits to their bins and unpacks the mantissas, and hands the
  metadata carried in auxiliary and skip fields on.  A bit reader
  (\<open>crates/openjoc-bitio\<close>) serves it and three more parsers: EMDF containers (\<open>openjoc-emdf\<close>) carry one OAMD
  and one JOC payload, the OAMD payload (\<open>openjoc-oamd\<close>) describes the objects and their positions,
  the JOC payload (\<open>openjoc-joc\<close>) carries Huffman coded matrix coefficients.
  The JOC decoder turns these into interpolated matrices, multiplies them with the QMF subbands
  (\<open>openjoc-qmf\<close>) of the decoded channels and synthesizes one PCM row per object; the output
  timeline pairs the rows with the base channels that the filterbank delays.

  This library models these components one theory each, states what each promises and proves it.

  Theories and the code they model.

  Prelude, Parsing: machine integers, bit strings, the reader monad \<open>rd\<close> (a \<open>Result\<close> and the new
  state, so an error keeps the state reached), and two calculi: \<open>reads p bs a\<close> (on input \<open>bs\<close>
  the parser \<open>p\<close> returns \<open>a\<close> and consumes exactly \<open>bs\<close>) and \<open>spells\<close>, its converse.
  Loops that read until a terminator are functions whose measure is the number of bits left.

  Bitio: \<open>openjoc-bitio/src/lib.rs\<close>.  \<open>bit_reader\<close> has the fields of \<open>BitReader\<close>; its abstract
  value is \<open>unread r\<close>, its invariant \<open>reader_ok\<close>.  The locale \<open>bit_read\<close> is the trait \<open>BitRead\<close>.

  Emdf, EmdfProfile: \<open>openjoc-emdf/src/lib.rs\<close>; EmdfCodec is the encoding that the parser is proved
  to invert; \<open>table56\<close> and \<open>vendor_oamd\<close> are the reference predicates of the validator.

  Huffman, JocParser, JocProof: \<open>openjoc-joc/src/lib.rs\<close>, \<open>parser.rs\<close>, \<open>parsed_proof.rs\<close> with the
  six generated trees; JocCodec is the encoding.  ProofCache states the contract of a parse proof
  as the locale \<open>proof_cache\<close>, interpreted on \<open>ParsedJocProof\<close> and on \<open>ParsedOamdProof\<close>.

  Reconstruction, Qmf, JocDecoder: \<open>reconstruction.rs\<close>, \<open>openjoc-qmf/src/lib.rs\<close>, \<open>decoder.rs\<close>.
  A floating-point number is a value of an abstract type with the arithmetic operations the code
  uses; integers are converted by the parameter \<open>num\<close>, and the window and phase tables are fields
  of \<open>qmf_env\<close>.  Statements about magnitudes are for the real numbers, without rounding.
  ReconstructionSpec and JocDecoderSpec hold the specifications; Stateful is the locale of
  operations that keep their state on errors (\<open>atomic_step\<close>), interpreted on \<open>decode_frame\<close> and
  on the metadata timeline.

  Timeline: \<open>timeline.rs\<close>; a sample is its 64-bit pattern, since the code only moves samples and
  tests them for finiteness.  TimelineSpec proves the delay line, and for every timeline that calls can
  make (the inductive \<open>timeline_reached\<close>) what a rejected call leaves.

  Oamd, OamdObject, OamdTrim, OamdPayload, OamdProof: the files of \<open>openjoc-oamd/src\<close>: fields,
  metadata timing and content (\<open>lib.rs\<close>, \<open>timing.rs\<close>, \<open>content.rs\<close>), property codes, positions and the
  object element (\<open>basic_properties.rs\<close>, \<open>position.rs\<close>, \<open>object_element.rs\<close>), trim and extension
  elements (\<open>trim.rs\<close>, \<open>extended_object.rs\<close>), the payload with its profiles and its bit trace
  (\<open>payload.rs\<close>), the parse proof (\<open>parsed_proof.rs\<close>).  An \<open>f64\<close> is a real number; \<open>is_finite\<close>,
  \<open>powf\<close> and SHA-256 are parameters.  OamdObjectSpec relates positions to their codings
  (\<open>position_ok\<close>), OamdPayloadSpec has the room geometry, frame offsets and bit windows, OamdInvariant
  the invariant of parsed payloads (\<open>payload_ok\<close>), OamdTrace the agreement of the trace, and
  OamdProfileSpec the order \<open>below\<close> of parsers that shows the vendor profile conservative.

  Eac3Header, Eac3Units, Eac3Carrier, Eac3Frame, Eac3BitAllocation, Eac3Mantissa: \<open>openjoc-eac3/src\<close>.
  Header and bit stream information of both syntaxes (\<open>parse_syncframe_header\<close>, \<open>parse_bsi\<close>), the index of
  a stream and its access units, in batch (\<open>group_access_units\<close>) and incrementally
  (\<open>parse_access_unit_bounds\<close>), the auxiliary data and the extension field, the frame-wide
  syntax and the exponents (\<open>parse_audio_frame\<close>, \<open>decode_exponents\<close>) of \<open>lib.rs\<close>, the checksums of \<open>ac3.rs\<close>;
  \<open>bit_allocation.rs\<close> and \<open>mantissa.rs\<close>.  An \<open>i16\<close> is an integer with the saturation written out, an
  \<open>f64\<close> of the mantissas a real number.
  Eac3UnitsSpec states what an index and a complete access unit are (\<open>frames_tile\<close>, \<open>units_tile\<close>),
  Eac3Streaming relates the incremental search to it: a header depends on the first bytes only, so
  both see the same frames; Eac3ShortUnits does so for units of short frames, whose programme sets the
  grouping compares and the search does not (\<open>dependent_runs\<close>).  Eac3FrameSpec has exponent paths and the algebra of the checksum (linear
  in the bits, injective on sixteen of them), Eac3FrameTypes the shape of the frame state with an
  \<open>ensures\<close> calculus for its parser.  Eac3BitAllocationSpec, Eac3Masking and Eac3Pointers follow the
  allocation stage by stage, with the interval of every level, so that no saturation or look-up can
  fail on legal inputs, and show the last stage monotone.  Eac3MantissaSpec runs the traversal
  against the widths that \<open>next_width\<close> plans.

  Eac3CarrierSpec follows the auxiliary data from the end of a frame.

  Eac3AhtTables, Eac3Aht, Eac3Block, Eac3Prefix, Eac3BlockState, Eac3Ac3Block, Eac3Walk, Eac3Joc: the audio
  blocks, \<open>audio_block.rs\<close> and \<open>aht.rs\<close>.  Eac3AhtTables has the vector tables and Eac3Aht the syntax and the
  transform of the adaptive hybrid transform.  Eac3Block has the records of a block, spectral extension
  and coupling; Eac3Prefix the rest of the first block (\<open>parse_first_prefix_reader\<close>); Eac3BlockState the
  state between blocks (\<open>audio_block_state\<close>, the struct \<open>AudioBlockState\<close>) and the following blocks; Eac3Ac3Block
  the blocks of the original syntax, which return the frame state updated, since their strategies live
  there.  Eac3Walk is \<open>inspect_audio_block_carriers\<close>: a prefix (\<open>inspect_block\<close>), then the mantissas of its
  elements, unpacked only to find their end.  The callback is the list of carriers it has seen, which
  is returned beside the result, so that what was reported before an error is visible.  Eac3Joc is the
  search of an access unit for its one JOC candidate and the profile validation (\<open>lib.rs\<close>).
  Eac3Forward shows that every parser only moves forward; Eac3WalkSpec that skip fields and prefixes are
  windows of the frame (\<open>carriers_in\<close>); Eac3BlockTypes the invariant of the state (\<open>block_typed\<close>) over the
  states that prefixes and mantissas reach (the inductive \<open>reached\<close>), and from it when allocations succeed;
  Eac3BlockSpec compares first and following blocks; Eac3AhtSpec has the orthogonality of the transform;
  Eac3JocSpec the list of carriers of a unit and what the search makes of it (\<open>accounts\<close>).

  TimelineProps, EmdfProps, JocProps, OamdProps, Eac3Props, Eac3BlockProps: the properties with their
  witnesses.

  Bounds.  The platform has a 64-bit \<open>usize\<close>: parsers are stated for slices whose bit count fits
  \<open>usize_max\<close>, beyond which the reader reports an overflow.  No fuel is used: every loop is
  structural, bounded by a count, or a function with a measure.

  Not modelled.  \<open>Display\<close> texts, stage timing (clock reads), floating-point rounding.  Of
  openjoc-eac3, the reconstruction of coefficients and PCM behind the modelled syntax (decoupling,
  spectral extension synthesis, dither, the time-domain transform, downmix).  openjoc-container and
  openjoc-wave; the renderers, HRTF files, ADM export, command line, language bindings and plugins are
  numeric code, text output or glue.
\<close>

end
